(* ===== verification/Prelude.thy ===== *)
theory Prelude
  imports
    "HOL-Library.AList"
    "HOL-Library.Word"
    "HOL-Library.List_Lexorder"
    "HOL-Library.Char_ord"
    "HOL-Library.Product_Lexorder"
    "HOL-Library.Option_ord"
    "HOL-Library.Sublist"
begin

text \<open>
  Shared vocabulary of the development: hash maps as association lists, machine integers,
  UTF-8 strings as byte lists, a stack traversal of a finite graph and the induction
  principle for invariants of a transition system.

  A \<open>HashMap\<close> of the source is an association list. The position of an entry stands for the
  unspecified iteration order: every theorem holds for every order, so nothing rests on it.
  A Rust \<open>String\<close> is the list of its UTF-8 bytes, so that comparison is bytewise, as
  \<open>str::cmp\<close> is.
\<close>

named_theorems hmap_simps \<open>lookups in updated hash maps\<close>
named_theorems guard_defs \<open>definitions of validation guards\<close>

section \<open>Hash maps\<close>

type_synonym ('k, 'v) hmap = "('k \<times> 'v) list"

abbreviation hget :: "('k, 'v) hmap \<Rightarrow> 'k \<Rightarrow> 'v option" where
  "hget \<equiv> map_of"

abbreviation hput :: "'k \<Rightarrow> 'v \<Rightarrow> ('k, 'v) hmap \<Rightarrow> ('k, 'v) hmap" where
  "hput \<equiv> AList.update"

abbreviation hremove :: "'k \<Rightarrow> ('k, 'v) hmap \<Rightarrow> ('k, 'v) hmap" where
  "hremove \<equiv> AList.delete"

definition hvalues :: "('k, 'v) hmap \<Rightarrow> 'v list" where
  "hvalues m = map snd m"

definition hkeys :: "('k, 'v) hmap \<Rightarrow> 'k list" where
  "hkeys m = map fst m"

definition hmem :: "('k, 'v) hmap \<Rightarrow> 'k \<Rightarrow> bool" where
  "hmem m k = (hget m k \<noteq> None)"

definition hretain :: "('v \<Rightarrow> bool) \<Rightarrow> ('k, 'v) hmap \<Rightarrow> ('k, 'v) hmap" where
  "hretain P m = filter (\<lambda>(k, v). P v) m"

definition hmap_values :: "('v \<Rightarrow> 'v) \<Rightarrow> ('k, 'v) hmap \<Rightarrow> ('k, 'v) hmap" where
  "hmap_values f m = map (\<lambda>(k, v). (k, f v)) m"

definition hdistinct :: "('k, 'v) hmap \<Rightarrow> bool" where
  "hdistinct m = distinct (map fst m)"

lemma hget_hput [hmap_simps, simp]: "hget (hput k v m) = (hget m)(k \<mapsto> v)"
  by (rule update_conv')

lemma hget_hremove [hmap_simps, simp]: "hget (hremove k m) = (hget m)(k := None)"
  by (rule delete_conv')

lemma hget_hmap_values [hmap_simps, simp]: "hget (hmap_values f m) k = map_option f (hget m k)"
  by (induction m) (auto simp: hmap_values_def)

lemma hget_hretain:
  "hdistinct m \<Longrightarrow>
   hget (hretain P m) k = (case hget m k of None \<Rightarrow> None | Some v \<Rightarrow> if P v then Some v else None)"
  by (induction m) (auto simp: hretain_def hdistinct_def map_of_eq_None_iff split: option.splits)

lemma hdistinct_Nil [simp]: "hdistinct []"
  by (simp add: hdistinct_def)

lemma hdistinct_hput [simp]: "hdistinct m \<Longrightarrow> hdistinct (hput k v m)"
  by (simp add: hdistinct_def distinct_update)

lemma hdistinct_hremove [simp]: "hdistinct m \<Longrightarrow> hdistinct (hremove k m)"
  by (simp add: hdistinct_def distinct_delete)

lemma hdistinct_hmap_values [simp]: "hdistinct (hmap_values f m) = hdistinct m"
proof -
  have "map fst (hmap_values f m) = map fst m"
    by (induction m) (auto simp: hmap_values_def)
  then show ?thesis by (simp add: hdistinct_def)
qed

lemma hdistinct_hretain [simp]: "hdistinct m \<Longrightarrow> hdistinct (hretain P m)"
  by (induction m) (auto simp: hdistinct_def hretain_def)

lemma hmem_iff: "hmem m k \<longleftrightarrow> k \<in> set (hkeys m)"
  by (simp add: hmem_def hkeys_def map_of_eq_None_iff)

lemma hvalues_iff: "hdistinct m \<Longrightarrow> v \<in> set (hvalues m) \<longleftrightarrow> (\<exists>k. hget m k = Some v)"
  by (force simp: hvalues_def hdistinct_def map_of_eq_Some_iff)

lemma hget_in_hvalues: "hget m k = Some v \<Longrightarrow> v \<in> set (hvalues m)"
  by (force simp: hvalues_def dest: map_of_SomeD)

lemma hget_in_hkeys: "hget m k = Some v \<Longrightarrow> k \<in> set (hkeys m)"
  by (force simp: hkeys_def dest: map_of_SomeD)

section \<open>Machine integers\<close>

type_synonym u32 = "32 word"
type_synonym u64 = "64 word"

definition checked_add :: "'a::len word \<Rightarrow> 'a word \<Rightarrow> 'a word option" where
  "checked_add a b = (if uint a + uint b < 2 ^ LENGTH('a) then Some (a + b) else None)"

definition saturating_add :: "'a::len word \<Rightarrow> 'a word \<Rightarrow> 'a word" where
  "saturating_add a b = (case checked_add a b of Some c \<Rightarrow> c | None \<Rightarrow> - 1)"

definition saturating_sub :: "'a::len word \<Rightarrow> 'a word \<Rightarrow> 'a word" where
  "saturating_sub a b = (if b \<le> a then a - b else 0)"

lemma checked_add_uint: "checked_add a b = Some c \<Longrightarrow> uint c = uint a + uint b"
  by (auto simp: checked_add_def uint_word_ariths split: if_splits)

lemma checked_add_unat: "checked_add a b = Some c \<Longrightarrow> unat c = unat a + unat b"
  by (drule checked_add_uint) (metis nat_uint_eq of_nat_add of_nat_eq_iff uint_nat)

lemma checked_add_less: "checked_add a 1 = Some c \<Longrightarrow> a < c"
  by (drule checked_add_uint) (simp add: word_less_def)

lemma checked_add_one_Some:
  fixes a :: "'a::len word"
  assumes "a \<noteq> - 1"
  shows "checked_add a 1 = Some (a + 1)"
proof -
  have "uint (- 1 :: 'a word) = 2 ^ LENGTH('a) - 1"
    by (simp add: unsigned_minus_1_eq_mask mask_eq_exp_minus_1)
  then have "uint a \<noteq> 2 ^ LENGTH('a) - 1"
    using assms by (metis word_uint_eq_iff)
  moreover have "uint a < 2 ^ LENGTH('a)" by (rule uint_lt2p)
  ultimately have "uint a + 1 < 2 ^ LENGTH('a)" by linarith
  then show ?thesis by (simp add: checked_add_def)
qed

lemma saturating_add_ge: "a \<le> saturating_add a b"
proof (cases "checked_add a b")
  case None
  then show ?thesis by (simp add: saturating_add_def)
next
  case (Some c)
  then have "uint c = uint a + uint b" by (rule checked_add_uint)
  with Some show ?thesis by (simp add: saturating_add_def word_le_def)
qed

lemma saturating_sub_uint: "uint (saturating_sub a b) = max 0 (uint a - uint b)"
  by (auto simp: saturating_sub_def word_le_def uint_sub_if_size uint_sub_if' max_def)

lemma saturating_add_unat:
  fixes a b :: "'a::len word"
  assumes "unat a + unat b < 2 ^ LENGTH('a)"
  shows "unat (saturating_add a b) = unat a + unat b"
proof -
  have "int (unat a + unat b) < int (2 ^ LENGTH('a))"
    using assms by (simp only: of_nat_less_iff)
  then have "uint a + uint b < 2 ^ LENGTH('a)" by simp
  then have "checked_add a b = Some (a + b)" by (simp add: checked_add_def)
  then show ?thesis by (auto simp: saturating_add_def dest: checked_add_unat)
qed

lemma saturating_sub_unat: "b \<le> a \<Longrightarrow> unat (saturating_sub a b) = unat a - unat b"
  by (simp add: saturating_sub_def unat_sub)

section \<open>Strings\<close>

text \<open>
  \<open>str::trim\<close> removes the characters with the Unicode property White\_Space at both ends.
  Their UTF-8 encodings are listed here; UTF-8 is self-synchronising, so removing encodings
  from either end of a valid string is exactly removing those characters.
\<close>

definition utf8_whitespace :: "string list" where
  "utf8_whitespace =
     [[CHR 0x09], [CHR 0x0A], [CHR 0x0B], [CHR 0x0C], [CHR 0x0D], [CHR 0x20],
      [CHR 0xC2, CHR 0x85], [CHR 0xC2, CHR 0xA0], [CHR 0xE1, CHR 0x9A, CHR 0x80],
      [CHR 0xE2, CHR 0x80, CHR 0x80], [CHR 0xE2, CHR 0x80, CHR 0x81], [CHR 0xE2, CHR 0x80, CHR 0x82],
      [CHR 0xE2, CHR 0x80, CHR 0x83], [CHR 0xE2, CHR 0x80, CHR 0x84], [CHR 0xE2, CHR 0x80, CHR 0x85],
      [CHR 0xE2, CHR 0x80, CHR 0x86], [CHR 0xE2, CHR 0x80, CHR 0x87], [CHR 0xE2, CHR 0x80, CHR 0x88],
      [CHR 0xE2, CHR 0x80, CHR 0x89], [CHR 0xE2, CHR 0x80, CHR 0x8A], [CHR 0xE2, CHR 0x80, CHR 0xA8],
      [CHR 0xE2, CHR 0x80, CHR 0xA9], [CHR 0xE2, CHR 0x80, CHR 0xAF], [CHR 0xE2, CHR 0x81, CHR 0x9F],
      [CHR 0xE3, CHR 0x80, CHR 0x80]]"

function strip_prefixes :: "string list \<Rightarrow> string \<Rightarrow> string" where
  "strip_prefixes ws s =
     (case find (\<lambda>w. w \<noteq> [] \<and> prefix w s) ws of
        None \<Rightarrow> s
      | Some w \<Rightarrow> strip_prefixes ws (drop (length w) s))"
  by pat_completeness auto
termination
proof (relation "measure (\<lambda>(ws, s). length s)")
  fix ws s w
  assume "find (\<lambda>w. w \<noteq> [] \<and> prefix w s) ws = Some w"
  then have "w \<noteq> []" and "prefix w s" by (auto simp: find_Some_iff)
  then have "0 < length w" and "length w \<le> length s"
    by (auto dest: prefix_length_le)
  then have "length s - length w < length s" by linarith
  then show "((ws, drop (length w) s), ws, s) \<in> measure (\<lambda>(ws, s). length s)" by simp
qed simp

declare strip_prefixes.simps [simp del]

definition str_trim :: "string \<Rightarrow> string" where
  "str_trim s = rev (strip_prefixes (map rev utf8_whitespace) (rev (strip_prefixes utf8_whitespace s)))"

definition is_blank :: "string \<Rightarrow> bool" where
  "is_blank s = (str_trim s = [])"

definition ascii_lower :: "string \<Rightarrow> string" where
  "ascii_lower s = map (\<lambda>c. if CHR ''A'' \<le> c \<and> c \<le> CHR ''Z'' then char_of (of_char c + (32::nat)) else c) s"

definition str_contains :: "string \<Rightarrow> string \<Rightarrow> bool" where
  "str_contains s needle = sublist needle s"

definition eq_ignore_case :: "string \<Rightarrow> string \<Rightarrow> bool" where
  "eq_ignore_case a b = (ascii_lower a = ascii_lower b)"

text \<open>\<open>chars()\<close>: a byte that continues a character belongs to the byte before it.\<close>

definition is_continuation :: "char \<Rightarrow> bool" where
  "is_continuation c \<longleftrightarrow> 128 \<le> (of_char c :: nat) \<and> (of_char c :: nat) < 192"

type_synonym uchar = string

fun str_chars :: "string \<Rightarrow> uchar list" where
  "str_chars [] = []"
| "str_chars (c # cs) =
     (case str_chars cs of
        [] \<Rightarrow> [[c]]
      | w # ws \<Rightarrow> if is_continuation (hd w) then (c # w) # ws else [c] # w # ws)"

definition is_space :: "uchar \<Rightarrow> bool" where
  "is_space c = (c \<in> set utf8_whitespace)"

text \<open>\<open>trim_matches\<close> with a set of ASCII characters.\<close>

definition trim_matches :: "string \<Rightarrow> string \<Rightarrow> string" where
  "trim_matches cs s = rev (dropWhile (\<lambda>c. c \<in> set cs) (rev (dropWhile (\<lambda>c. c \<in> set cs) s)))"

text \<open>\<open>split_whitespace\<close>, and the pieces put together again.\<close>

fun words_of :: "uchar list \<Rightarrow> string \<Rightarrow> string list" where
  "words_of [] w = (if w = [] then [] else [w])"
| "words_of (c # cs) w =
     (if is_space c then (if w = [] then words_of cs [] else w # words_of cs []) else words_of cs (w @ c))"

definition split_whitespace :: "string \<Rightarrow> string list" where
  "split_whitespace s = words_of (str_chars s) []"

fun str_join :: "string \<Rightarrow> string list \<Rightarrow> string" where
  "str_join sep [] = []"
| "str_join sep [w] = w"
| "str_join sep (w # v # ws) = w @ sep @ str_join sep (v # ws)"

text \<open>\<open>chars().count()\<close>: the bytes that are not UTF-8 continuation bytes.\<close>

definition char_count :: "string \<Rightarrow> nat" where
  "char_count s = length (filter (\<lambda>c. \<not> (128 \<le> (of_char c :: nat) \<and> (of_char c :: nat) < 192)) s)"

text \<open>\<open>chars().take(n)\<close> on UTF-8 bytes.\<close>

fun take_chars :: "nat \<Rightarrow> string \<Rightarrow> string" where
  "take_chars n [] = []"
| "take_chars n (c # cs) =
     (if 128 \<le> (of_char c :: nat) \<and> (of_char c :: nat) < 192 then c # take_chars n cs
      else case n of 0 \<Rightarrow> [] | Suc m \<Rightarrow> c # take_chars m cs)"

lemma is_blank_Nil [simp]: "is_blank []"
proof -
  have "strip_prefixes ws [] = []" for ws
    by (subst strip_prefixes.simps) (auto simp: find_Some_iff split: option.splits)
  then show ?thesis by (simp add: is_blank_def str_trim_def)
qed

lemma strip_prefixes_Nil:
  "strip_prefixes ws s = [] \<Longrightarrow> set s \<subseteq> \<Union> (set ` set ws)"
proof (induction ws s rule: strip_prefixes.induct)
  case (1 ws s)
  show ?case
  proof (cases "find (\<lambda>w. w \<noteq> [] \<and> prefix w s) ws")
    case None
    with "1.prems" show ?thesis by (subst (asm) strip_prefixes.simps) simp
  next
    case (Some w)
    then have w: "w \<in> set ws" "prefix w s" by (auto simp: find_Some_iff)
    from Some "1.prems" have "strip_prefixes ws (drop (length w) s) = []"
      by (subst (asm) strip_prefixes.simps) simp
    with "1.IH" [OF Some] have "set (drop (length w) s) \<subseteq> \<Union> (set ` set ws)" by blast
    moreover have "set s = set w \<union> set (drop (length w) s)"
      using w(2) by (auto simp: prefix_def)
    ultimately show ?thesis using w(1) by auto
  qed
qed

lemma strip_prefixes_split: "\<exists>u. s = u @ strip_prefixes ws s \<and> set u \<subseteq> \<Union> (set ` set ws)"
proof (induction ws s rule: strip_prefixes.induct)
  case (1 ws s)
  show ?case
  proof (cases "find (\<lambda>w. w \<noteq> [] \<and> prefix w s) ws")
    case None
    then have "strip_prefixes ws s = s" by (subst strip_prefixes.simps) simp
    then show ?thesis by (intro exI [of _ "[]"]) simp
  next
    case (Some w)
    then have w: "w \<in> set ws" "s = w @ drop (length w) s" by (auto simp: find_Some_iff prefix_def)
    from "1.IH" [OF Some] obtain u where
      u: "drop (length w) s = u @ strip_prefixes ws (drop (length w) s)" "set u \<subseteq> \<Union> (set ` set ws)" by blast
    have "strip_prefixes ws s = strip_prefixes ws (drop (length w) s)"
      using Some by (subst strip_prefixes.simps) simp
    with u w have "s = (w @ u) @ strip_prefixes ws s" "set (w @ u) \<subseteq> \<Union> (set ` set ws)" by auto
    then show ?thesis by blast
  qed
qed

text \<open>A string with a character that occurs in no white space encoding is not blank.\<close>

lemma not_blank_char:
  assumes "c \<in> set s" "c \<notin> \<Union> (set ` set utf8_whitespace)"
  shows "\<not> is_blank s"
proof
  assume "is_blank s"
  then have "strip_prefixes (map rev utf8_whitespace) (rev (strip_prefixes utf8_whitespace s)) = []"
    by (simp add: is_blank_def str_trim_def)
  from strip_prefixes_Nil [OF this] have "set (strip_prefixes utf8_whitespace s) \<subseteq> \<Union> (set ` set utf8_whitespace)"
    by simp
  moreover obtain u where "s = u @ strip_prefixes utf8_whitespace s" "set u \<subseteq> \<Union> (set ` set utf8_whitespace)"
    using strip_prefixes_split by blast
  ultimately have "set s \<subseteq> \<Union> (set ` set utf8_whitespace)" by (metis Un_subset_iff set_append)
  with assms show False by blast
qed

subsection \<open>Decimal numbers\<close>

fun dec_of_nat :: "nat \<Rightarrow> string" where
  "dec_of_nat n =
     (if n < 10 then [char_of (48 + n)] else dec_of_nat (n div 10) @ [char_of (48 + n mod 10)])"

declare dec_of_nat.simps [simp del]

definition is_digit :: "char \<Rightarrow> bool" where
  "is_digit c = (CHR ''0'' \<le> c \<and> c \<le> CHR ''9'')"

definition digit_value :: "char \<Rightarrow> nat" where
  "digit_value c = of_char c - 48"

definition nat_of_digits :: "string \<Rightarrow> nat" where
  "nat_of_digits s = foldl (\<lambda>n c. 10 * n + digit_value c) 0 s"

text \<open>\<open>str::parse::<u64>\<close>: an optional plus sign, then at least one digit, without overflow.\<close>

definition parse_u64 :: "string \<Rightarrow> u64 option" where
  "parse_u64 s =
     (let ds = (case s of c # cs \<Rightarrow> if c = CHR ''+'' then cs else s | [] \<Rightarrow> s)
      in if ds \<noteq> [] \<and> list_all is_digit ds \<and> nat_of_digits ds < 2 ^ 64
         then Some (of_nat (nat_of_digits ds)) else None)"

lemma of_char_digit: "n < 10 \<Longrightarrow> of_char (char_of (48 + n) :: char) = 48 + (n :: nat)"
  by simp

lemma is_digit_iff: "is_digit c \<longleftrightarrow> 48 \<le> (of_char c :: nat) \<and> (of_char c :: nat) \<le> 57"
  by (simp add: is_digit_def less_eq_char_def)

lemma dec_of_nat_not_Nil: "dec_of_nat n \<noteq> []"
  by (subst dec_of_nat.simps) simp

lemma dec_of_nat_digits: "list_all is_digit (dec_of_nat n)"
proof (induction n rule: dec_of_nat.induct)
  case (1 n)
  have digit: "is_digit (char_of (48 + m))" if "m < 10" for m :: nat
    using that by (simp add: is_digit_iff)
  show ?case
  proof (cases "n < 10")
    case True
    then show ?thesis by (subst dec_of_nat.simps) (simp add: digit)
  next
    case False
    with 1 show ?thesis by (subst dec_of_nat.simps) (simp add: digit)
  qed
qed

lemma nat_of_digits_dec_of_nat: "nat_of_digits (dec_of_nat n) = n"
proof (induction n rule: dec_of_nat.induct)
  case (1 n)
  show ?case
  proof (cases "n < 10")
    case True
    then show ?thesis
      by (subst dec_of_nat.simps) (simp add: nat_of_digits_def digit_value_def)
  next
    case False
    with "1.IH" have "nat_of_digits (dec_of_nat (n div 10)) = n div 10" by simp
    with False show ?thesis
      by (subst dec_of_nat.simps) (simp add: nat_of_digits_def digit_value_def)
  qed
qed

lemma parse_u64_dec_of_nat: "n < 2 ^ 64 \<Longrightarrow> parse_u64 (dec_of_nat n) = Some (of_nat n)"
proof -
  assume n: "n < 2 ^ 64"
  obtain c cs where cs: "dec_of_nat n = c # cs"
    using dec_of_nat_not_Nil [of n] by (cases "dec_of_nat n") auto
  then have "is_digit c" using dec_of_nat_digits [of n] by simp
  then have "c \<noteq> CHR ''+''" by (auto simp: is_digit_def)
  then show ?thesis
    using n cs dec_of_nat_digits [of n] nat_of_digits_dec_of_nat [of n]
    by (simp add: parse_u64_def)
qed

section \<open>Fallible results\<close>

lemma map_sum_Inr_iff: "map_sum f g x = Inr y \<longleftrightarrow> (\<exists>z. x = Inr z \<and> g z = y)"
  by (cases x) auto

section \<open>Lists\<close>

text \<open>\<open>Iterator::max_by_key\<close> returns the last of several maximal elements.\<close>

fun max_by_key :: "('a \<Rightarrow> 'b::linorder) \<Rightarrow> 'a list \<Rightarrow> 'a option" where
  "max_by_key f [] = None"
| "max_by_key f (x # xs) =
     (case max_by_key f xs of
        None \<Rightarrow> Some x
      | Some y \<Rightarrow> if f x \<le> f y then Some y else Some x)"

lemma max_by_key_None [simp]: "max_by_key f xs = None \<longleftrightarrow> xs = []"
  by (cases xs) (auto split: option.splits)

lemma max_by_key_SomeD:
  "max_by_key f xs = Some m \<Longrightarrow> m \<in> set xs \<and> (\<forall>x \<in> set xs. f x \<le> f m)"
  by (induction xs arbitrary: m) (force split: option.splits if_splits)+

text \<open>\<open>Iterator::min_by_key\<close> returns the first of several minimal elements.\<close>

fun min_by_key :: "('a \<Rightarrow> 'b::linorder) \<Rightarrow> 'a list \<Rightarrow> 'a option" where
  "min_by_key f [] = None"
| "min_by_key f (x # xs) =
     (case min_by_key f xs of
        None \<Rightarrow> Some x
      | Some y \<Rightarrow> if f x \<le> f y then Some x else Some y)"

lemma min_by_key_None [simp]: "min_by_key f xs = None \<longleftrightarrow> xs = []"
  by (cases xs) (auto split: option.splits)

lemma min_by_key_SomeD:
  "min_by_key f xs = Some m \<Longrightarrow> m \<in> set xs \<and> (\<forall>x \<in> set xs. f m \<le> f x)"
  by (induction xs arbitrary: m) (force split: option.splits if_splits)+

section \<open>Traversal of a finite graph with a stack\<close>

text \<open>
  The loop \<open>while let Some(current) = stack.pop()\<close> over the nodes of \<open>U\<close>: a node that is
  not in \<open>U\<close> or was visited is skipped, a halting node is marked and skipped, any other node
  is emitted and its successors are pushed.  The head of the list is the top of the stack.
\<close>

function stack_walk :: "'k list \<Rightarrow> ('k \<Rightarrow> bool) \<Rightarrow> ('k \<Rightarrow> 'k list) \<Rightarrow> 'k set \<Rightarrow> 'k list \<Rightarrow> 'k list" where
  "stack_walk U halt succ vis [] = []"
| "stack_walk U halt succ vis (k # ks) =
     (if k \<notin> set U \<or> k \<in> vis then stack_walk U halt succ vis ks
      else if halt k then stack_walk U halt succ (insert k vis) ks
      else k # stack_walk U halt succ (insert k vis) (succ k @ ks))"
  by pat_completeness auto
termination
proof (relation "measures [\<lambda>(U, halt, succ, vis, ks). card (set U - vis), \<lambda>(U, halt, succ, vis, ks). length ks]",
       goal_cases)
  case (3 U halt succ vis k ks)
  then have "card (set U - insert k vis) < card (set U - vis)"
    by (intro psubset_card_mono) auto
  then show ?case by simp
next
  case (4 U halt succ vis k ks)
  then have "card (set U - insert k vis) < card (set U - vis)"
    by (intro psubset_card_mono) auto
  then show ?case by simp
qed auto

definition walk_live :: "'k list \<Rightarrow> ('k \<Rightarrow> bool) \<Rightarrow> 'k \<Rightarrow> bool" where
  "walk_live U halt k \<longleftrightarrow> k \<in> set U \<and> \<not> halt k"

inductive walk_path :: "'k list \<Rightarrow> ('k \<Rightarrow> bool) \<Rightarrow> ('k \<Rightarrow> 'k list) \<Rightarrow> 'k \<Rightarrow> 'k \<Rightarrow> bool"
  for U halt succ where
  path_refl: "walk_live U halt k \<Longrightarrow> walk_path U halt succ k k"
| path_step: "walk_path U halt succ r a \<Longrightarrow> b \<in> set (succ a) \<Longrightarrow> walk_live U halt b \<Longrightarrow>
    walk_path U halt succ r b"

lemma walk_path_live: "walk_path U halt succ r x \<Longrightarrow> walk_live U halt r \<and> walk_live U halt x"
  by (induction rule: walk_path.induct) auto

lemma walk_path_Cons:
  "walk_path U halt succ a x \<Longrightarrow> walk_live U halt r \<Longrightarrow> a \<in> set (succ r) \<Longrightarrow> walk_path U halt succ r x"
  by (induction rule: walk_path.induct) (auto intro: walk_path.intros)

lemma stack_walk_live:
  "x \<in> set (stack_walk U halt succ vis ks) \<Longrightarrow> walk_live U halt x \<and> x \<notin> vis"
  by (induction U halt succ vis ks rule: stack_walk.induct) (auto simp: walk_live_def split: if_splits)

lemma stack_walk_distinct: "distinct (stack_walk U halt succ vis ks)"
  by (induction U halt succ vis ks rule: stack_walk.induct) (auto dest: stack_walk_live)

lemma stack_walk_sound:
  "x \<in> set (stack_walk U halt succ vis ks) \<Longrightarrow> \<exists>r \<in> set ks. walk_path U halt succ r x"
proof (induction U halt succ vis ks rule: stack_walk.induct)
  case (2 U halt succ vis k ks)
  show ?case
  proof (cases "k \<notin> set U \<or> k \<in> vis \<or> halt k")
    case True
    with 2 show ?thesis by (auto split: if_splits)
  next
    case False
    then have live: "walk_live U halt k" by (simp add: walk_live_def)
    from False "2.prems" consider "x = k"
      | "x \<in> set (stack_walk U halt succ (insert k vis) (succ k @ ks))" by auto
    then show ?thesis
    proof cases
      case 1
      with live show ?thesis by (auto intro: path_refl)
    next
      case 2
      with False "2.IH"(3) obtain r where "r \<in> set (succ k @ ks)" "walk_path U halt succ r x"
        by auto
      with live show ?thesis by (auto intro: walk_path_Cons)
    qed
  qed
qed simp

text \<open>The emitted nodes with the visited ones are closed under live successors.\<close>

lemma stack_walk_closed:
  assumes "\<And>v b. v \<in> vis \<Longrightarrow> walk_live U halt v \<Longrightarrow> b \<in> set (succ v) \<Longrightarrow> walk_live U halt b \<Longrightarrow>
      b \<in> vis \<or> b \<in> set ks"
  shows "(\<forall>k \<in> set ks. walk_live U halt k \<longrightarrow> k \<in> set (stack_walk U halt succ vis ks) \<union> vis) \<and>
     (\<forall>v \<in> set (stack_walk U halt succ vis ks) \<union> vis. \<forall>b \<in> set (succ v).
        walk_live U halt v \<longrightarrow> walk_live U halt b \<longrightarrow> b \<in> set (stack_walk U halt succ vis ks) \<union> vis)"
  using assms
proof (induction U halt succ vis ks rule: stack_walk.induct)
  case (1 U halt succ vis)
  then show ?case by auto
next
  case (2 U halt succ vis k ks)
  consider (skip) "k \<notin> set U \<or> k \<in> vis" | (stop) "k \<in> set U" "k \<notin> vis" "halt k"
    | (emit) "k \<in> set U" "k \<notin> vis" "\<not> halt k" by blast
  then show ?case
  proof cases
    case skip
    then have eq: "stack_walk U halt succ vis (k # ks) = stack_walk U halt succ vis ks" by simp
    have "\<And>v b. v \<in> vis \<Longrightarrow> walk_live U halt v \<Longrightarrow> b \<in> set (succ v) \<Longrightarrow>
        walk_live U halt b \<Longrightarrow> b \<in> vis \<or> b \<in> set ks"
      using "2.prems" skip by (fastforce simp: walk_live_def)
    note IH = "2.IH"(1) [OF skip this]
    have "walk_live U halt k \<Longrightarrow> k \<in> vis" using skip by (auto simp: walk_live_def)
    with IH show ?thesis unfolding eq by simp
  next
    case stop
    then have eq: "stack_walk U halt succ vis (k # ks) = stack_walk U halt succ (insert k vis) ks"
      by simp
    from stop have dead: "\<not> walk_live U halt k" by (simp add: walk_live_def)
    have "\<And>v b. v \<in> insert k vis \<Longrightarrow> walk_live U halt v \<Longrightarrow> b \<in> set (succ v) \<Longrightarrow>
        walk_live U halt b \<Longrightarrow> b \<in> insert k vis \<or> b \<in> set ks"
      using "2.prems" dead by fastforce
    with "2.IH"(2) stop
    have IH: "(\<forall>k' \<in> set ks. walk_live U halt k' \<longrightarrow>
          k' \<in> set (stack_walk U halt succ (insert k vis) ks) \<union> insert k vis) \<and>
        (\<forall>v \<in> set (stack_walk U halt succ (insert k vis) ks) \<union> insert k vis. \<forall>b \<in> set (succ v).
          walk_live U halt v \<longrightarrow> walk_live U halt b \<longrightarrow>
          b \<in> set (stack_walk U halt succ (insert k vis) ks) \<union> insert k vis)"
      by blast
    with dead show ?thesis unfolding eq by fastforce
  next
    case emit
    then have eq: "stack_walk U halt succ vis (k # ks) =
        k # stack_walk U halt succ (insert k vis) (succ k @ ks)" by simp
    have "\<And>v b. v \<in> insert k vis \<Longrightarrow> walk_live U halt v \<Longrightarrow> b \<in> set (succ v) \<Longrightarrow>
        walk_live U halt b \<Longrightarrow> b \<in> insert k vis \<or> b \<in> set (succ k @ ks)"
      using "2.prems" by fastforce
    with "2.IH"(3) emit
    have IH: "(\<forall>k' \<in> set (succ k @ ks). walk_live U halt k' \<longrightarrow>
          k' \<in> set (stack_walk U halt succ (insert k vis) (succ k @ ks)) \<union> insert k vis) \<and>
        (\<forall>v \<in> set (stack_walk U halt succ (insert k vis) (succ k @ ks)) \<union> insert k vis.
          \<forall>b \<in> set (succ v). walk_live U halt v \<longrightarrow> walk_live U halt b \<longrightarrow>
          b \<in> set (stack_walk U halt succ (insert k vis) (succ k @ ks)) \<union> insert k vis)"
      by blast
    then show ?thesis unfolding eq by fastforce
  qed
qed

lemma stack_walk_set:
  "set (stack_walk U halt succ {} ks) = {x. \<exists>r \<in> set ks. walk_path U halt succ r x}"
proof -
  let ?R = "set (stack_walk U halt succ {} ks)"
  have closed: "(\<forall>k \<in> set ks. walk_live U halt k \<longrightarrow> k \<in> ?R) \<and>
     (\<forall>v \<in> ?R. \<forall>b \<in> set (succ v). walk_live U halt v \<longrightarrow> walk_live U halt b \<longrightarrow> b \<in> ?R)"
    using stack_walk_closed [of "{}" U halt succ ks] by simp
  have "x \<in> ?R" if "walk_path U halt succ r x" and "r \<in> set ks" for r x
    using that by (induction rule: walk_path.induct) (use closed in \<open>auto dest: walk_path_live\<close>)
  then show ?thesis using stack_walk_sound by fastforce
qed

lemma stack_walk_parent_first:
  "stack_walk U halt succ vis ks = as @ x # bs \<Longrightarrow> x \<in> set ks \<or> (\<exists>y \<in> set as. x \<in> set (succ y))"
proof (induction U halt succ vis ks arbitrary: as rule: stack_walk.induct)
  case (2 U halt succ vis k ks)
  show ?case
  proof (cases "k \<notin> set U \<or> k \<in> vis \<or> halt k")
    case True
    with 2 show ?thesis by (auto split: if_splits)
  next
    case False
    with "2.prems" have eq: "k # stack_walk U halt succ (insert k vis) (succ k @ ks) = as @ x # bs"
      by simp
    show ?thesis
    proof (cases as)
      case Nil
      with eq show ?thesis by simp
    next
      case (Cons a as')
      have "stack_walk U halt succ (insert k vis) (succ k @ ks) = as' @ x # bs"
        using arg_cong [OF eq, of tl] Cons by simp
      with False "2.IH"(3) have "x \<in> set (succ k @ ks) \<or> (\<exists>y \<in> set as'. x \<in> set (succ y))" by blast
      with Cons eq show ?thesis by auto
    qed
  qed
qed simp

section \<open>Invariants of transition systems\<close>

inductive reach :: "('s \<Rightarrow> bool) \<Rightarrow> ('s \<Rightarrow> 's \<Rightarrow> bool) \<Rightarrow> 's \<Rightarrow> bool" for init step where
  reach_init: "init s \<Longrightarrow> reach init step s"
| reach_step: "reach init step s \<Longrightarrow> step s t \<Longrightarrow> reach init step t"

text \<open>A component that promises an invariant: it holds at the start and every operation keeps it.\<close>

locale invariant_system =
  fixes init :: "'s \<Rightarrow> bool" and step :: "'s \<Rightarrow> 's \<Rightarrow> bool" and inv :: "'s \<Rightarrow> bool"
  assumes init_inv: "init s \<Longrightarrow> inv s"
    and step_inv: "inv s \<Longrightarrow> step s t \<Longrightarrow> inv t"
begin

lemma reach_inv: "reach init step s \<Longrightarrow> inv s"
  by (induction rule: reach.induct) (auto intro: init_inv step_inv)

lemma steps_inv: "step\<^sup>*\<^sup>* s t \<Longrightarrow> inv s \<Longrightarrow> inv t"
  by (induction rule: rtranclp_induct) (auto intro: step_inv)

end

end
