(* ===== verification/Domain.thy ===== *)
theory Domain
  imports Prelude
begin

text \<open>
  Identities, statuses and errors shared by the task system (\<open>crates/magi-core/src/\<close>:
  \<open>ids.rs\<close>, \<open>value_objects.rs\<close>, \<open>errors.rs\<close>, and the enumerations of \<open>task.rs\<close>,
  \<open>agent.rs\<close>, \<open>executor_receipt.rs\<close> and \<open>model_reasoning.rs\<close>).

  The text of an error message is replaced by a constructor with the values the text shows.
\<close>

section \<open>Identities and time\<close>

datatype session_id = SessionId string
datatype workspace_id = WorkspaceId string
datatype mission_id = MissionId string
datatype worker_id = WorkerId string
datatype thread_id = ThreadId string
datatype goal_id = GoalId string
datatype plan_id = PlanId (plan_id_str: string)
datatype plan_item_id = PlanItemId (plan_item_id_str: string)
datatype task_id = TaskId (task_id_str: string)
datatype lease_id = LeaseId (lease_id_str: string)

text \<open>The code orders tasks and leases by \<open>as_str().cmp\<close>.\<close>

instantiation task_id :: linorder
begin

definition less_eq_task_id :: "task_id \<Rightarrow> task_id \<Rightarrow> bool" where
  "a \<le> b \<longleftrightarrow> task_id_str a \<le> task_id_str b"

definition less_task_id :: "task_id \<Rightarrow> task_id \<Rightarrow> bool" where
  "a < b \<longleftrightarrow> task_id_str a < task_id_str b"

instance
  by standard (auto simp: less_eq_task_id_def less_task_id_def task_id.expand)

end

instantiation lease_id :: linorder
begin

definition less_eq_lease_id :: "lease_id \<Rightarrow> lease_id \<Rightarrow> bool" where
  "a \<le> b \<longleftrightarrow> lease_id_str a \<le> lease_id_str b"

definition less_lease_id :: "lease_id \<Rightarrow> lease_id \<Rightarrow> bool" where
  "a < b \<longleftrightarrow> lease_id_str a < lease_id_str b"

instance
  by standard (auto simp: less_eq_lease_id_def less_lease_id_def lease_id.expand)

end

text \<open>\<open>UtcMillis(u64)\<close>.  Every reading of the clock is an argument of the operation.\<close>

type_synonym utc_millis = u64

section \<open>Statuses\<close>

datatype task_kind = LocalAgent | RemoteAgent | MonitorMcp | InProcessTeammate | Dream

datatype task_status = Pending | Running | Completed | Failed | Killed

datatype task_tier = ExecutionChain

datatype access_profile = ReadOnly | Restricted | FullAccess

datatype goal_status = GoalActive | GoalPaused | GoalBlocked | GoalComplete

datatype agent_lifetime = LifetimeTurn | LifetimeSession | LifetimeGoal goal_id

datatype agent_run_owner = OwnerSession | OwnerGoal goal_id u64

datatype executor_command_status = CommandSucceeded | CommandFailed | OutcomeUnknown

datatype reasoning_effort = EffortNone | Minimal | Low | Medium | High | Xhigh | Max | Ultra

datatype reasoning_transport = Openai | AnthropicEffort | AnthropicBudget

datatype agent_context_reference_kind =
  ConversationTurn | TaskOutput | TaskEvidence | FileReference | Knowledge | OtherReference

datatype agent_context_access_operation = AccessSearch | AccessRead | AccessSend | AccessRequest

section \<open>Errors\<close>

datatype goal_rejection =
    AlreadyUnfinished | NotActive | GoalTerminal | NotOwnedByTurn | ControlRevisionConflict
  | PlanMissing | PlanRevisionRequired | PlanRevisionConflict | PlanUnfinished | PlanTasksActive
  | EvidenceRequired | GoalIllegalTransition | ConcurrentModification | NoOrchestratorThread

text \<open>The values the message of a rejected goal operation shows.\<close>

datatype goal_message =
    NoValues
  | CurrentRevision u64
  | RevisionsDiffer u64 u64
  | StatusChange goal_status goal_status

datatype receipt_error = ReceiptIdentityMissing | ReceiptCommandMismatch

datatype contract_error =
    StepIdentityMissing
  | ReceiptInvalid receipt_error
  | FinalResponseMissing
  | EvidenceInsufficient string u32 nat

datatype validation_error =
    TransferInvalid
  | ActivationInvalid
  | DirectoryIdentityMissing
  | DirectoryPathInvalid
  | DirectoryDuplicate
  | DirectoryNotGranted string
  | DirectoryExceedsParent
  | FieldEmpty string
  | FieldTooLong string
  | ScopeMismatch
  | NotOrchestratorThread
  | OtherValidation string

text \<open>
  The messages of \<open>InvalidState\<close>, one constructor for each text the task store formats,
  grouped by what they refuse.
\<close>

datatype root_error =
    TaskNotInRoot task_id task_id task_id
  | NotARootTask task_id
  | MissionDiffersFromRoot task_id task_id

datatype activation_error =
    DelegationParentChanged
  | NestedDelegationRefused
  | InsertCarriesTransfer
  | InsertCrossesOwner
  | InsertIdentityReserved
  | ActivationRequired
  | ActivationParentMissing
  | ActivationParentChanged
  | NestedScopeExpanded
  | ActivationSuperseded
  | ActivationSourceMissing
  | DirectoryGrantMissing
  | TaskAlreadyStored task_id
  | TaskStillReferenced

datatype transfer_error =
    TransferConflict
  | TransferNotRunning
  | TransferOperationReused
  | TransferNeedsActivation
  | TransferNotDirectChild
  | TransferSubtreeInvalid
  | TransferCrossesOwner
  | TransferChainCorrupt
  | TransferChainParentMissing

datatype lifecycle_error =
    TerminalByPlainUpdate task_status
  | IllegalTransition task_status task_status
  | CompletionNotRunning task_id task_status
  | CompletionRefused contract_error
  | CompletionWithActiveLease task_id
  | TerminalStatusExpected task_status
  | CannotSettle task_id task_status
  | SubtreeStatusExpected

datatype recovery_error =
    RecoveryStatusDiffers task_id task_status task_status task_status
  | RecoveryWithActiveLease task_id
  | RecoveryGenerationOverflow
  | ReopenNeedsTransferRoot
  | ReopenScopeActive
  | ReopenSourceChanged

datatype context_error =
    NoContextPackage task_id
  | ContextScopeChanged
  | ContextReceiptConflict
  | ContextRevisionOverflow

datatype lease_error =
    ActiveLeaseNotRunning lease_id task_id task_status
  | ActiveLeaseExists task_id
  | ActiveLeaseOfOtherRoot lease_id task_id
  | LeaseOfOtherTask lease_id task_id
  | LeaseOfOtherRoot lease_id task_id
  | SeveralActiveLeases task_id
  | TerminalTaskWithLease task_id
  | LeaseIdRequired task_id
  | LeasedTaskNotRunning task_id

datatype plan_error =
    PlanNotBoundToGoal
  | ActivePlanOfIdleGoal
  | PausedPlanOfActiveGoal
  | GoalNoLongerExists
  | GoalIdRequired goal_id
  | GoalIdConflict goal_id goal_id
  | GoalRevisionRequired u64
  | GoalRevisionDiffers u64 u64
  | GoalCannotAdvance goal_status
  | PlanOfOtherGoal
  | PlanRevisionDiffers u64 u64
  | PlanAbsent
  | InterruptedTurnMissing
  | InterruptedTurnChanged string
  | RecoveryNotClaimed
  | NoResumableChain
  | InterruptedTurnUnknown string
  | GoalNotResumable goal_status
  | ResumedGoalChanged
  | ResumedPlanChanged
  | ResumedPlanAppeared
  | ContinuationOfIdleGoal
  | ContinuationAlreadyRunning
  | EntropyFailed string

datatype state_error =
    RootError root_error
  | ActivationError activation_error
  | TransferError transfer_error
  | LifecycleError lifecycle_error
  | RecoveryError recovery_error
  | ContextError context_error
  | LeaseError lease_error
  | PlanError plan_error
  | StateText string

text \<open>
  \<open>DomainError\<close>.  \<open>InvalidStates\<close> is the \<open>InvalidState\<close> whose message joins the errors of
  several tasks; \<open>StateText\<close> and \<open>OtherValidation\<close> carry a text formatted elsewhere, such as
  the error of a checkpoint callback.
\<close>

datatype domain_error =
    NotFound string
  | AlreadyExists string
  | InvalidState state_error
  | InvalidStates "(task_id \<times> domain_error) list"
  | GoalRejected goal_rejection goal_message
  | CurrentTurnConflict string string
  | Validation validation_error
  | RunSafetyLimit string
  | Persistence string

end
