(* ===== verification/TaskModel.thy ===== *)
theory TaskModel
  imports Domain
begin

text \<open>
  The task record of \<open>crates/magi-core/src/task.rs\<close> with what it is made of: agent activations
  and transfers (\<open>agent.rs\<close>), executor receipts (\<open>executor_receipt.rs\<close>), project directory
  grants (\<open>project.rs\<close>, \<open>host_path.rs\<close>), context packages, completion contracts and policies;
  and the accessors and validations the task store uses.

  Code of third-party crates is a field of the record \<open>externals\<close>.
\<close>

section \<open>Third-party code\<close>

text \<open>
  A \<open>serde_json::Value\<close> is an opaque token: the task system compares values and follows
  JSON pointers through them, nothing else.
\<close>

datatype json_value = JsonValue string

section \<open>Executor receipts\<close>

record executor_command_evidence =
  ec_command :: string
  ec_exit_code :: "int option"
  ec_status :: executor_command_status
  ec_output :: string

record executor_receipt =
  er_executor :: string
  er_execution_id :: string
  er_commands :: "executor_command_evidence list"

definition expected_command_status :: "int option \<Rightarrow> executor_command_status" where
  "expected_command_status code =
     (case code of None \<Rightarrow> OutcomeUnknown
      | Some c \<Rightarrow> if c = 0 then CommandSucceeded else CommandFailed)"

fun validate_commands :: "executor_command_evidence list \<Rightarrow> receipt_error + unit" where
  "validate_commands [] = Inr ()"
| "validate_commands (c # cs) =
     (if is_blank (ec_command c) \<or> ec_status c \<noteq> expected_command_status (ec_exit_code c)
      then Inl ReceiptCommandMismatch
      else validate_commands cs)"

definition executor_receipt_validate :: "executor_receipt \<Rightarrow> receipt_error + unit" where
  "executor_receipt_validate r =
     (if is_blank (er_executor r) \<or> is_blank (er_execution_id r) then Inl ReceiptIdentityMissing
      else validate_commands (er_commands r))"

section \<open>Completion contracts\<close>

datatype task_completion_evidence =
    SuccessfulToolCall string string json_value string
  | ExternalExecutor string executor_receipt

datatype task_evidence_requirement =
    RequireToolCall string u32 "(string \<times> json_value) list" "string list"

record task_completion_contract =
  cc_requires_final_response :: bool
  cc_evidence_requirements :: "task_evidence_requirement list"

record task_completion_attempt =
  ca_output_refs :: "string list"
  ca_final_response :: "string option"
  ca_evidence :: "task_completion_evidence list"

text \<open>Third-party code the model takes as a parameter: \<open>Value::pointer\<close> and \<open>to_string\<close> of
  \<open>serde_json\<close>, and the URL-safe alphabet without padding of the \<open>base64\<close> crate.\<close>

record externals =
  json_pointer :: "json_value \<Rightarrow> string \<Rightarrow> json_value option"
  evidence_json :: "task_completion_evidence \<Rightarrow> string"
  base64_decode :: "string \<Rightarrow> string option"

definition matches_successful_tool_call ::
    "externals \<Rightarrow> task_completion_evidence \<Rightarrow> string \<Rightarrow> (string \<times> json_value) list \<Rightarrow> string list \<Rightarrow> bool" where
  "matches_successful_tool_call ext ev required_tool_name argument_equals result_contains =
     (case ev of
        SuccessfulToolCall call_id tool_name arguments result \<Rightarrow>
          tool_name = required_tool_name
          \<and> list_all (\<lambda>(pointer, expected). json_pointer ext arguments pointer = Some expected) argument_equals
          \<and> list_all (str_contains result) result_contains
      | ExternalExecutor _ _ \<Rightarrow> False)"

definition is_satisfied_by :: "externals \<Rightarrow> task_evidence_requirement \<Rightarrow> task_completion_evidence list \<Rightarrow> bool" where
  "is_satisfied_by ext req evidence =
     (case req of RequireToolCall tool_name minimum_successes argument_equals result_contains \<Rightarrow>
        unat minimum_successes \<le>
          length (filter (\<lambda>ev. matches_successful_tool_call ext ev tool_name argument_equals result_contains)
                         evidence))"

definition requirement_validate ::
    "externals \<Rightarrow> task_evidence_requirement \<Rightarrow> task_completion_evidence list \<Rightarrow> contract_error + unit" where
  "requirement_validate ext req evidence =
     (if is_satisfied_by ext req evidence then Inr ()
      else case req of RequireToolCall tool_name minimum_successes _ _ \<Rightarrow>
        Inl (EvidenceInsufficient tool_name minimum_successes
          (length (filter (\<lambda>ev. case ev of
               SuccessfulToolCall _ actual _ _ \<Rightarrow> actual = tool_name
             | ExternalExecutor _ _ \<Rightarrow> False) evidence))))"

fun validate_external_evidence :: "task_completion_evidence list \<Rightarrow> contract_error + unit" where
  "validate_external_evidence [] = Inr ()"
| "validate_external_evidence (SuccessfulToolCall _ _ _ _ # evs) = validate_external_evidence evs"
| "validate_external_evidence (ExternalExecutor model_step_id receipt # evs) =
     (if is_blank model_step_id then Inl StepIdentityMissing
      else case executor_receipt_validate receipt of
             Inl e \<Rightarrow> Inl (ReceiptInvalid e)
           | Inr _ \<Rightarrow> validate_external_evidence evs)"

fun validate_requirements ::
    "externals \<Rightarrow> task_evidence_requirement list \<Rightarrow> task_completion_evidence list \<Rightarrow> contract_error + unit" where
  "validate_requirements ext [] evidence = Inr ()"
| "validate_requirements ext (req # reqs) evidence =
     (case requirement_validate ext req evidence of
        Inl e \<Rightarrow> Inl e
      | Inr _ \<Rightarrow> validate_requirements ext reqs evidence)"

definition contract_validate ::
    "externals \<Rightarrow> task_completion_contract \<Rightarrow> task_completion_attempt \<Rightarrow> contract_error + unit" where
  "contract_validate ext contract attempt =
     (case validate_external_evidence (ca_evidence attempt) of
        Inl e \<Rightarrow> Inl e
      | Inr _ \<Rightarrow>
          if cc_requires_final_response contract
             \<and> (case ca_final_response attempt of None \<Rightarrow> True | Some r \<Rightarrow> is_blank r)
          then Inl FinalResponseMissing
          else validate_requirements ext (cc_evidence_requirements contract) (ca_evidence attempt))"

definition first_missing_evidence ::
    "externals \<Rightarrow> task_completion_contract \<Rightarrow> task_completion_evidence list \<Rightarrow> task_evidence_requirement option" where
  "first_missing_evidence ext contract evidence =
     find (\<lambda>req. \<not> is_satisfied_by ext req evidence) (cc_evidence_requirements contract)"

section \<open>Agent activations and transfers\<close>

definition agent_operation_id_max_chars :: nat where
  "agent_operation_id_max_chars = 200"

definition agent_operation_id_is_valid :: "string \<Rightarrow> bool" where
  "agent_operation_id_is_valid v = (\<not> is_blank v \<and> char_count v \<le> agent_operation_id_max_chars)"

fun session_id_str :: "session_id \<Rightarrow> string" where "session_id_str (SessionId s) = s"
fun goal_id_str :: "goal_id \<Rightarrow> string" where "goal_id_str (GoalId s) = s"
fun workspace_id_str :: "workspace_id \<Rightarrow> string" where "workspace_id_str (WorkspaceId s) = s"

record agent_activation =
  aa_agent_id :: task_id
  aa_session_id :: session_id
  aa_lifetime :: agent_lifetime
  aa_generation :: u64
  aa_previous_task_id :: "task_id option"

record agent_run_transfer =
  rt_operation_id :: string
  rt_session_id :: session_id
  rt_source_turn_id :: string
  rt_transferred_by :: task_id
  rt_activation_generation :: u64
  rt_owner :: agent_run_owner
  rt_transferred_at :: utc_millis

definition agent_activation_validate :: "agent_activation \<Rightarrow> task_id \<Rightarrow> domain_error + unit" where
  "agent_activation_validate a tid =
     (if is_blank (task_id_str (aa_agent_id a))
        \<or> is_blank (session_id_str (aa_session_id a))
        \<or> aa_generation a = 0
        \<or> (aa_generation a = 1) \<noteq> (aa_agent_id a = tid \<and> aa_previous_task_id a = None)
        \<or> (1 < aa_generation a
           \<and> (aa_previous_task_id a = None
              \<or> aa_agent_id a = tid
              \<or> (case aa_previous_task_id a of None \<Rightarrow> False
                 | Some previous \<Rightarrow> previous = tid \<or> is_blank (task_id_str previous))))
        \<or> (case aa_lifetime a of LifetimeGoal g \<Rightarrow> is_blank (goal_id_str g) | _ \<Rightarrow> False)
      then Inl (Validation ActivationInvalid) else Inr ())"

definition transfer_lifetime_matches :: "agent_run_owner \<Rightarrow> agent_lifetime \<Rightarrow> bool" where
  "transfer_lifetime_matches owner lifetime =
     (case owner of
        OwnerSession \<Rightarrow> lifetime = LifetimeSession
      | OwnerGoal g revision \<Rightarrow>
          (case lifetime of
             LifetimeGoal expected \<Rightarrow> g = expected \<and> 0 < revision \<and> \<not> is_blank (goal_id_str g)
           | _ \<Rightarrow> False))"

definition agent_run_transfer_validate :: "agent_run_transfer \<Rightarrow> agent_activation \<Rightarrow> domain_error + unit" where
  "agent_run_transfer_validate x a =
     (if \<not> agent_operation_id_is_valid (rt_operation_id x)
        \<or> is_blank (rt_source_turn_id x)
        \<or> is_blank (task_id_str (rt_transferred_by x))
        \<or> rt_session_id x \<noteq> aa_session_id a
        \<or> rt_activation_generation x \<noteq> aa_generation a
        \<or> \<not> transfer_lifetime_matches (rt_owner x) (aa_lifetime a)
      then Inl (Validation TransferInvalid) else Inr ())"

section \<open>Project directory grants\<close>

text \<open>
  \<open>HostPath\<close> on Unix: a reference is a prefix and the base64 text of the path's bytes.  A path
  is absolute when it starts with a slash; two absolute paths are equal when their components
  are, which ignores repeated slashes and the components \<open>.\<close>.
\<close>

definition unix_path_ref_prefix :: string where
  "unix_path_ref_prefix = ''mhp1:u:''"

definition decode_native_path :: "externals \<Rightarrow> string \<Rightarrow> string option" where
  "decode_native_path ext value =
     (if prefix unix_path_ref_prefix value
      then base64_decode ext (drop (length unix_path_ref_prefix) value) else None)"

definition path_is_absolute :: "string \<Rightarrow> bool" where
  "path_is_absolute p = prefix ''/'' p"

fun split_on :: "char \<Rightarrow> string \<Rightarrow> string list" where
  "split_on c [] = [[]]"
| "split_on c (x # xs) =
     (if x = c then [] # split_on c xs
      else case split_on c xs of [] \<Rightarrow> [[x]] | w # ws \<Rightarrow> (x # w) # ws)"

definition absolute_components :: "string \<Rightarrow> string list" where
  "absolute_components p = filter (\<lambda>w. w \<noteq> [] \<and> w \<noteq> ''.'') (split_on (CHR ''/'') p)"

record project_source_folder_grant =
  sg_source_folder_id :: string
  sg_source_path_ref :: string

record project_directory_binding =
  pd_workspace_id :: workspace_id
  pd_project_revision :: u64
  pd_default_source_folder_id :: string
  pd_source_folders :: "project_source_folder_grant list"

fun validate_grants ::
    "externals \<Rightarrow> string list \<Rightarrow> string list list \<Rightarrow> project_source_folder_grant list \<Rightarrow> domain_error + unit" where
  "validate_grants ext ids paths [] = Inr ()"
| "validate_grants ext ids paths (g # gs) =
     (case decode_native_path ext (sg_source_path_ref g) of
        None \<Rightarrow> Inl (Validation DirectoryPathInvalid)
      | Some path \<Rightarrow>
          if is_blank (sg_source_folder_id g) \<or> \<not> path_is_absolute path
             \<or> sg_source_folder_id g \<in> set ids \<or> absolute_components path \<in> set paths
          then Inl (Validation DirectoryDuplicate)
          else validate_grants ext (sg_source_folder_id g # ids) (absolute_components path # paths) gs)"

definition directory_binding_validate :: "externals \<Rightarrow> project_directory_binding \<Rightarrow> domain_error + unit" where
  "directory_binding_validate ext b =
     (if is_blank (workspace_id_str (pd_workspace_id b))
        \<or> pd_project_revision b = 0
        \<or> pd_source_folders b = []
        \<or> \<not> list_ex (\<lambda>f. sg_source_folder_id f = pd_default_source_folder_id b) (pd_source_folders b)
      then Inl (Validation DirectoryIdentityMissing)
      else validate_grants ext [] [] (pd_source_folders b))"

definition directory_binding_grant ::
    "externals \<Rightarrow> project_directory_binding \<Rightarrow> string option \<Rightarrow> domain_error + project_source_folder_grant" where
  "directory_binding_grant ext b source_folder_id =
     (case directory_binding_validate ext b of
        Inl e \<Rightarrow> Inl e
      | Inr _ \<Rightarrow>
          let fid = (case source_folder_id of Some i \<Rightarrow> i | None \<Rightarrow> pd_default_source_folder_id b)
          in case find (\<lambda>f. sg_source_folder_id f = fid) (pd_source_folders b) of
               Some f \<Rightarrow> Inr f
             | None \<Rightarrow> Inl (Validation (DirectoryNotGranted fid)))"

definition validate_inherited_from ::
    "externals \<Rightarrow> project_directory_binding \<Rightarrow> project_directory_binding \<Rightarrow> domain_error + unit" where
  "validate_inherited_from ext b parent =
     (case directory_binding_validate ext b of
        Inl e \<Rightarrow> Inl e
      | Inr _ \<Rightarrow>
         (case directory_binding_validate ext parent of
            Inl e \<Rightarrow> Inl e
          | Inr _ \<Rightarrow>
              if pd_workspace_id b \<noteq> pd_workspace_id parent
                 \<or> pd_project_revision b \<noteq> pd_project_revision parent
                 \<or> list_ex (\<lambda>g. g \<notin> set (pd_source_folders parent)) (pd_source_folders b)
              then Inl (Validation DirectoryExceedsParent) else Inr ()))"

section \<open>Model selection\<close>

record reasoning_capability =
  rc_supported_efforts :: "reasoning_effort list"
  rc_default_effort :: "reasoning_effort option"
  rc_transport :: reasoning_transport
  rc_source :: string

definition reasoning_reconcile :: "reasoning_capability \<Rightarrow> reasoning_effort option \<Rightarrow> reasoning_effort option" where
  "reasoning_reconcile c requested =
     (case requested of
        Some e \<Rightarrow> if e \<in> set (rc_supported_efforts c) then Some e else rc_default_effort c
      | None \<Rightarrow> rc_default_effort c)"

record agent_model_selection =
  ms_source_id :: "string option"
  ms_engine_id :: "string option"
  ms_binding_revision :: u32
  ms_connection_key :: string
  ms_model :: string
  ms_context_window_tokens :: "u64 option"
  ms_capability :: reasoning_capability
  ms_requested_effort :: "reasoning_effort option"
  ms_effective_effort :: "reasoning_effort option"

section \<open>Agent context packages\<close>

record agent_context_reference =
  cr_reference_id :: string
  cr_kind :: agent_context_reference_kind
  cr_title :: string
  cr_source_ref :: string
  cr_preview :: string
  cr_estimated_tokens :: nat

record agent_context_supplement =
  cs_supplement_id :: string
  cs_author_task_id :: task_id
  cs_message :: string
  cs_references :: "agent_context_reference list"
  cs_estimated_tokens :: nat
  cs_created_at :: utc_millis

record agent_context_fork_item =
  fi_turn_id :: string
  fi_item_id :: string
  fi_kind :: string
  fi_content :: string

record agent_context_fork =
  cf_session_id :: session_id
  cf_source_task_id :: task_id
  cf_source_thread_id :: thread_id
  cf_source_turn_id :: string
  cf_source_step_id :: string
  cf_before_item_id :: string
  cf_source_assignment :: string
  cf_items :: "agent_context_fork_item list"

record agent_context_package =
  cp_package_id :: string
  cp_revision :: u64
  cp_parent_task_id :: task_id
  cp_summary :: string
  cp_constraints :: "string list"
  cp_expected_output :: string
  cp_references :: "agent_context_reference list"
  cp_fork :: "agent_context_fork option"
  cp_supplements :: "agent_context_supplement list"
  cp_created_at :: utc_millis
  cp_updated_at :: utc_millis

record agent_context_access_record =
  ar_record_id :: string
  ar_operation :: agent_context_access_operation
  ar_query :: "string option"
  ar_reference_ids :: "string list"
  ar_estimated_tokens :: nat
  ar_occurred_at :: utc_millis

datatype task_runtime_payload =
    PayloadNone
  | PayloadAgentContext agent_context_package "agent_context_access_record list"
  | PayloadContextAnchors "json_value list" "json_value list"

section \<open>Policies and executor bindings\<close>

record task_policy =
  tp_autonomy_level :: string
  tp_access_profile :: access_profile
  tp_allowed_tools :: "string list"
  tp_denied_tools :: "string list"
  tp_allowed_paths :: "string list"
  tp_denied_paths :: "string list"
  tp_read_only_paths :: "string list"
  tp_network_mode :: string
  tp_command_mode :: string
  tp_retry_limit :: u32
  tp_validation_profile :: "string option"
  tp_checkpoint_mode :: string
  tp_task_tier :: task_tier
  tp_background_allowed :: bool
  tp_escalation_conditions :: "string list"

definition constrained_by_command_mode :: "access_profile \<Rightarrow> string \<Rightarrow> access_profile" where
  "constrained_by_command_mode profile command_mode =
     (if ascii_lower command_mode = ascii_lower ''read_only'' then ReadOnly else profile)"

definition effective_access_profile :: "task_policy \<Rightarrow> access_profile" where
  "effective_access_profile p = constrained_by_command_mode (tp_access_profile p) (tp_command_mode p)"

definition access_profile_as_str :: "access_profile \<Rightarrow> string" where
  "access_profile_as_str p =
     (case p of ReadOnly \<Rightarrow> ''read_only'' | Restricted \<Rightarrow> ''restricted'' | FullAccess \<Rightarrow> ''full_access'')"

definition access_profile_from_str :: "string \<Rightarrow> access_profile option" where
  "access_profile_from_str v =
     (let t = str_trim v
      in if t = ''read_only'' then Some ReadOnly
         else if t = ''restricted'' then Some Restricted
         else if t = ''full_access'' then Some FullAccess
         else None)"

definition normalized_string :: "string \<Rightarrow> string option" where
  "normalized_string v = (let t = str_trim v in if t = [] then None else Some t)"

definition normalized_optional_string :: "string option \<Rightarrow> string option" where
  "normalized_optional_string v = Option.bind v normalized_string"

record task_executor_binding =
  eb_project_directories :: "project_directory_binding option"
  eb_model_selection :: "agent_model_selection option"
  eb_agent_activation :: "agent_activation option"
  eb_agent_run_transfer :: "agent_run_transfer option"
  eb_delegation_allowed :: bool
  eb_target_role :: "string option"
  eb_capability_ids :: "string list"
  eb_parallelism_group :: "string option"
  eb_exclusive_scope :: "string option"
  eb_active_skill_id :: "string option"
  eb_canonical_task_name :: "string option"
  eb_plan_item_id :: "plan_item_id option"
  eb_required_tool_chain :: "string list"
  eb_goal_mode :: bool

definition default_binding :: task_executor_binding where
  "default_binding =
     \<lparr>eb_project_directories = None, eb_model_selection = None, eb_agent_activation = None,
      eb_agent_run_transfer = None, eb_delegation_allowed = False, eb_target_role = None,
      eb_capability_ids = [], eb_parallelism_group = None, eb_exclusive_scope = None,
      eb_active_skill_id = None, eb_canonical_task_name = None, eb_plan_item_id = None,
      eb_required_tool_chain = [], eb_goal_mode = False\<rparr>"

definition binding_for_role :: "string \<Rightarrow> task_executor_binding" where
  "binding_for_role role = default_binding\<lparr>eb_target_role := normalized_string role\<rparr>"

definition with_capability_ids :: "task_executor_binding \<Rightarrow> string list \<Rightarrow> task_executor_binding" where
  "with_capability_ids b ids =
     b\<lparr>eb_capability_ids := remdups_adj (sort (List.map_filter normalized_string ids))\<rparr>"

fun first_occurrences :: "string list \<Rightarrow> string list \<Rightarrow> string list" where
  "first_occurrences seen [] = seen"
| "first_occurrences seen (x # xs) =
     first_occurrences (if x \<in> set seen then seen else seen @ [x]) xs"

definition with_required_tool_chain :: "task_executor_binding \<Rightarrow> string list \<Rightarrow> task_executor_binding" where
  "with_required_tool_chain b tool_names = b\<lparr>eb_required_tool_chain := first_occurrences [] tool_names\<rparr>"

section \<open>Tasks\<close>

record task_recovery_checkpoint =
  cp_source_session_id :: session_id
  cp_source_task_id :: task_id
  cp_source_turn_id :: string
  cp_source_thread_id :: thread_id

record task =
  t_task_id :: task_id
  t_mission_id :: mission_id
  t_root_task_id :: task_id
  t_parent_task_id :: "task_id option"
  t_kind :: task_kind
  t_title :: string
  t_goal :: string
  t_status :: task_status
  t_dependency_ids :: "task_id list"
  t_required_children :: "task_id list"
  t_policy_snapshot :: "task_policy option"
  t_executor_binding :: "task_executor_binding option"
  t_completion_contract :: task_completion_contract
  t_recovery_checkpoint :: "task_recovery_checkpoint option"
  t_knowledge_refs :: "string list"
  t_workspace_scope :: "string option"
  t_write_scope :: "string option"
  t_input_refs :: "string list"
  t_output_refs :: "string list"
  t_evidence_refs :: "string list"
  t_retry_count :: u32
  t_runtime_payload :: task_runtime_payload
  t_created_at :: utc_millis
  t_updated_at :: utc_millis

definition delegation_allowed :: "task \<Rightarrow> bool" where
  "delegation_allowed t =
     (case t_executor_binding t of None \<Rightarrow> False | Some b \<Rightarrow> eb_delegation_allowed b)"

definition agent_activation_of :: "task \<Rightarrow> agent_activation option" where
  "agent_activation_of t = Option.bind (t_executor_binding t) eb_agent_activation"

definition agent_run_transfer_of :: "task \<Rightarrow> agent_run_transfer option" where
  "agent_run_transfer_of t = Option.bind (t_executor_binding t) eb_agent_run_transfer"

definition executor_binding_target_role :: "task \<Rightarrow> string option" where
  "executor_binding_target_role t =
     Option.bind (t_executor_binding t) (\<lambda>b. normalized_optional_string (eb_target_role b))"

definition executor_binding_capability_ids :: "task \<Rightarrow> string list" where
  "executor_binding_capability_ids t =
     (case t_executor_binding t of None \<Rightarrow> [] | Some b \<Rightarrow> eb_capability_ids b)"

definition task_plan_item_id :: "task \<Rightarrow> plan_item_id option" where
  "task_plan_item_id t = Option.bind (t_executor_binding t) eb_plan_item_id"

definition task_required_tool_chain :: "task \<Rightarrow> string list" where
  "task_required_tool_chain t =
     (case t_executor_binding t of None \<Rightarrow> [] | Some b \<Rightarrow> eb_required_tool_chain b)"

definition is_goal_mode :: "task \<Rightarrow> bool" where
  "is_goal_mode t = (case t_executor_binding t of None \<Rightarrow> False | Some b \<Rightarrow> eb_goal_mode b)"

definition agent_context_package_of :: "task \<Rightarrow> agent_context_package option" where
  "agent_context_package_of t =
     (case t_runtime_payload t of PayloadAgentContext p _ \<Rightarrow> Some p | _ \<Rightarrow> None)"

definition is_terminal_status :: "task_status \<Rightarrow> bool" where
  "is_terminal_status st = (st = Completed \<or> st = Failed \<or> st = Killed)"

definition is_valid_transition :: "task_status \<Rightarrow> task_status \<Rightarrow> bool" where
  "is_valid_transition old new =
     (old = new \<or> (old, new) \<in> {(Pending, Running), (Pending, Killed), (Running, Failed), (Running, Killed)})"

text \<open>\<open>matches!(status, Pending | Running)\<close>: the task is not settled.\<close>

abbreviation is_open_status :: "task_status \<Rightarrow> bool" where
  "is_open_status st \<equiv> st = Pending \<or> st = Running"

lemma terminal_iff_not_open: "is_terminal_status st \<longleftrightarrow> \<not> is_open_status st"
  by (cases st) (auto simp: is_terminal_status_def)

end
