(* ===== verification/TaskGraph.thy ===== *)
theory TaskGraph
  imports TaskModel
begin

text \<open>
  The read-only part of \<open>crates/magi-orchestrator/src/task_store.rs\<close>: the task tree given by
  \<open>parent_task_id\<close>, the execution scopes cut out of it by transfers, the parent-chain checks and
  the validations that admit a new agent activation or a transfer.  Every function here reads a
  map of tasks and changes nothing.
\<close>

type_synonym task_map = "(task_id, task) hmap"

definition tasks_wf :: "task_map \<Rightarrow> bool" where
  "tasks_wf tasks \<longleftrightarrow> hdistinct tasks \<and> (\<forall>k t. hget tasks k = Some t \<longrightarrow> t_task_id t = k)"

section \<open>Children and subtrees\<close>

definition push_child :: "task \<Rightarrow> (task_id, task_id list) hmap \<Rightarrow> (task_id, task_id list) hmap" where
  "push_child t children =
     (case t_parent_task_id t of
        None \<Rightarrow> children
      | Some p \<Rightarrow>
          hput p ((case hget children p of None \<Rightarrow> [] | Some ids \<Rightarrow> ids) @ [t_task_id t]) children)"

definition child_sort_key :: "task_map \<Rightarrow> task_id \<Rightarrow> utc_millis option \<times> task_id" where
  "child_sort_key tasks i = (map_option t_created_at (hget tasks i), i)"

definition child_index_from_tasks :: "task_map \<Rightarrow> (task_id, task_id list) hmap" where
  "child_index_from_tasks tasks =
     hmap_values (sort_key (child_sort_key tasks)) (fold push_child (hvalues tasks) [])"

definition children_of :: "(task_id, task_id list) hmap \<Rightarrow> task_id \<Rightarrow> task_id list" where
  "children_of children k = (case hget children k of None \<Rightarrow> [] | Some ids \<Rightarrow> ids)"

definition is_transferred :: "task_map \<Rightarrow> task_id \<Rightarrow> bool" where
  "is_transferred tasks k =
     (case hget tasks k of None \<Rightarrow> False | Some t \<Rightarrow> agent_run_transfer_of t \<noteq> None)"

definition collect_subtree_ids_in_scope :: "task_map \<Rightarrow> task_id \<Rightarrow> bool \<Rightarrow> task_id list" where
  "collect_subtree_ids_in_scope tasks root_id execution_only =
     (let children = child_index_from_tasks tasks
      in stack_walk (hkeys tasks)
           (\<lambda>k. execution_only \<and> k \<noteq> root_id \<and> is_transferred tasks k)
           (\<lambda>k. rev (children_of children k)) {} [root_id])"

definition collect_subtree_ids_from_tasks :: "task_map \<Rightarrow> task_id \<Rightarrow> task_id list" where
  "collect_subtree_ids_from_tasks tasks root_id = collect_subtree_ids_in_scope tasks root_id False"

section \<open>Root and transfer validation\<close>

definition validate_task_root :: "task_map \<Rightarrow> task_id \<Rightarrow> task_id \<Rightarrow> domain_error + unit" where
  "validate_task_root tasks tid root_id =
     (case hget tasks tid of
        None \<Rightarrow> Inl (NotFound ''Task'')
      | Some t \<Rightarrow>
         (case hget tasks root_id of
            None \<Rightarrow> Inl (NotFound ''RootTask'')
          | Some root \<Rightarrow>
              if t_root_task_id t \<noteq> root_id
              then Inl (InvalidState (RootError (TaskNotInRoot tid root_id (t_root_task_id t))))
              else if t_task_id root \<noteq> root_id \<or> t_root_task_id root \<noteq> root_id
              then Inl (InvalidState (RootError (NotARootTask root_id)))
              else if t_mission_id t \<noteq> t_mission_id root
              then Inl (InvalidState (RootError (MissionDiffersFromRoot tid root_id)))
              else Inr ()))"

definition coordinator_role :: string where
  "coordinator_role = ''coordinator''"

definition validate_agent_transfer_binding :: "task \<Rightarrow> task \<Rightarrow> agent_run_transfer \<Rightarrow> domain_error + unit" where
  "validate_agent_transfer_binding parent child x =
     (case agent_activation_of child of
        None \<Rightarrow> Inl (InvalidState (TransferError TransferNeedsActivation))
      | Some activation \<Rightarrow>
         (case agent_run_transfer_validate x activation of
            Inl e \<Rightarrow> Inl e
          | Inr _ \<Rightarrow>
              if t_parent_task_id parent \<noteq> None
                 \<or> t_root_task_id parent \<noteq> t_task_id parent
                 \<or> executor_binding_target_role parent \<noteq> Some coordinator_role
                 \<or> t_parent_task_id child \<noteq> Some (t_task_id parent)
                 \<or> t_root_task_id child \<noteq> t_root_task_id parent
                 \<or> t_mission_id child \<noteq> t_mission_id parent
                 \<or> rt_transferred_by x \<noteq> t_task_id parent
                 \<or> t_kind child \<noteq> LocalAgent
              then Inl (InvalidState (TransferError TransferNotDirectChild))
              else Inr ()))"

text \<open>One round of the worklist of \<open>validate_agent_transfer_subtree\<close> refuses this task.\<close>

definition transfer_subtree_refuses :: "task \<Rightarrow> agent_run_transfer \<Rightarrow> task_id set \<Rightarrow> task \<Rightarrow> bool" where
  "transfer_subtree_refuses child x ids t =
     (t_task_id t \<in> ids
      \<or> t_root_task_id t \<noteq> t_root_task_id child
      \<or> t_mission_id t \<noteq> t_mission_id child
      \<or> t_kind t \<noteq> LocalAgent
      \<or> t_workspace_scope t \<noteq> t_workspace_scope child
      \<or> t_write_scope t \<noteq> t_write_scope child
      \<or> (case agent_activation_of t of None \<Rightarrow> True | Some a \<Rightarrow> aa_session_id a \<noteq> rt_session_id x)
      \<or> task_plan_item_id t \<noteq> None
      \<or> (t_task_id t \<noteq> t_task_id child \<and> agent_run_transfer_of t \<noteq> None))"

function transfer_subtree_loop ::
    "task list \<Rightarrow> task \<Rightarrow> agent_run_transfer \<Rightarrow> task_id set \<Rightarrow> task list \<Rightarrow> task_id set option" where
  "transfer_subtree_loop tasks child x ids [] = Some ids"
| "transfer_subtree_loop tasks child x ids (t # queue) =
     (if transfer_subtree_refuses child x ids t then None
      else transfer_subtree_loop tasks child x (insert (t_task_id t) ids)
             (queue @ filter (\<lambda>c. t_parent_task_id c = Some (t_task_id t)) tasks))"
  by pat_completeness auto
termination
proof (relation "measure (\<lambda>(tasks, child, x, ids, queue). card (t_task_id ` (set tasks \<union> set queue) - ids))",
       goal_cases)
  case (2 tasks child x ids t queue)
  let ?new = "t_task_id ` (set tasks \<union> set (queue @ filter (\<lambda>c. t_parent_task_id c = Some (t_task_id t)) tasks))
      - insert (t_task_id t) ids"
  let ?old = "t_task_id ` (set tasks \<union> set (t # queue)) - ids"
  from 2 have "t_task_id t \<notin> ids" by (simp add: transfer_subtree_refuses_def)
  then have "?new \<subset> ?old" by auto
  then have "card ?new < card ?old" by (intro psubset_card_mono) auto
  then show ?case by simp
qed simp

definition task_links :: "task \<Rightarrow> task_id list" where
  "task_links t = t_dependency_ids t @ t_required_children t"

definition validate_agent_transfer_subtree :: "task list \<Rightarrow> task \<Rightarrow> agent_run_transfer \<Rightarrow> domain_error + unit" where
  "validate_agent_transfer_subtree tasks child x =
     (case transfer_subtree_loop tasks child x {} [child] of
        None \<Rightarrow> Inl (InvalidState (TransferError TransferSubtreeInvalid))
      | Some ids \<Rightarrow>
          if rt_transferred_at x < t_created_at child
             \<or> list_ex (\<lambda>t. list_ex (\<lambda>d. (t_task_id t \<in> ids) \<noteq> (d \<in> ids)) (task_links t)) tasks
          then Inl (InvalidState (TransferError TransferCrossesOwner))
          else Inr ())"

section \<open>Parent chains\<close>

text \<open>
  \<open>agent_run_transfer_in_tasks\<close>: the first transferred task on the parent chain.  The loop
  remembers the tasks it saw, so it ends on any map, also one whose parent links form a cycle.
\<close>

function transfer_chain_loop ::
    "task_map \<Rightarrow> task \<Rightarrow> task_id set \<Rightarrow> task \<Rightarrow> domain_error + (task \<times> agent_run_transfer) option" where
  "transfer_chain_loop tasks original seen current =
     (if t_root_task_id current \<noteq> t_root_task_id original
         \<or> t_mission_id current \<noteq> t_mission_id original
         \<or> t_task_id current \<in> seen
      then Inl (InvalidState (TransferError TransferChainCorrupt))
      else case agent_run_transfer_of current of
        Some x \<Rightarrow> Inr (Some (current, x))
      | None \<Rightarrow>
         (case t_parent_task_id current of
            None \<Rightarrow> Inr None
          | Some p \<Rightarrow>
             (case hget tasks p of
                None \<Rightarrow> Inl (InvalidState (TransferError TransferChainParentMissing))
              | Some parent \<Rightarrow>
                  transfer_chain_loop tasks original (insert (t_task_id current) seen) parent)))"
  by pat_completeness auto
termination
proof (relation "measure (\<lambda>(tasks, original, seen, current).
         card (insert (t_task_id current) (t_task_id ` set (hvalues tasks)) - seen))", goal_cases)
  case (2 tasks original seen current p parent)
  then have "parent \<in> set (hvalues tasks)" by (auto dest: hget_in_hvalues)
  with 2 have "insert (t_task_id parent) (t_task_id ` set (hvalues tasks)) - insert (t_task_id current) seen
      \<subset> insert (t_task_id current) (t_task_id ` set (hvalues tasks)) - seen" by auto
  then show ?case by (auto intro!: psubset_card_mono)
qed simp

declare transfer_chain_loop.simps [simp del]

definition agent_run_transfer_in_tasks ::
    "task_map \<Rightarrow> task_id \<Rightarrow> domain_error + (task \<times> agent_run_transfer) option" where
  "agent_run_transfer_in_tasks tasks tid =
     (case hget tasks tid of
        None \<Rightarrow> Inr None
      | Some original \<Rightarrow> transfer_chain_loop tasks original {} original)"

definition execution_scope_root_in_tasks :: "task_map \<Rightarrow> task_id \<Rightarrow> domain_error + task_id" where
  "execution_scope_root_in_tasks tasks tid =
     (case hget tasks tid of
        None \<Rightarrow> Inl (NotFound ''Task'')
      | Some t \<Rightarrow>
         (case agent_run_transfer_in_tasks tasks tid of
            Inl e \<Rightarrow> Inl e
          | Inr (Some (root, x)) \<Rightarrow>
             (case Option.bind (t_parent_task_id root) (hget tasks) of
                None \<Rightarrow> Inl (NotFound ''ParentTask'')
              | Some parent \<Rightarrow>
                 (case validate_agent_transfer_binding parent root x of
                    Inl e \<Rightarrow> Inl e
                  | Inr _ \<Rightarrow> Inr (t_task_id root)))
          | Inr None \<Rightarrow>
             (case validate_task_root tasks tid (t_root_task_id t) of
                Inl e \<Rightarrow> Inl e
              | Inr _ \<Rightarrow> Inr (t_root_task_id t))))"

function ancestor_chain_loop :: "task_map \<Rightarrow> task \<Rightarrow> bool \<Rightarrow> task_id set \<Rightarrow> task \<Rightarrow> bool" where
  "ancestor_chain_loop tasks t require_started seen current =
     (if t_task_id current \<in> seen
         \<or> t_root_task_id current \<noteq> t_root_task_id t
         \<or> t_mission_id current \<noteq> t_mission_id t
         \<or> is_terminal_status (t_status current)
      then False
      else if t_task_id current = t_root_task_id t then t_parent_task_id current = None
      else if agent_run_transfer_of current \<noteq> None
      then execution_scope_root_in_tasks tasks (t_task_id current) = Inr (t_task_id current)
      else case Option.bind (t_parent_task_id current) (hget tasks) of
        None \<Rightarrow> False
      | Some parent \<Rightarrow>
          if require_started \<and> t_status parent \<noteq> Running then False
          else ancestor_chain_loop tasks t require_started (insert (t_task_id current) seen) parent)"
  by pat_completeness auto
termination
proof (relation "measure (\<lambda>(tasks, t, require_started, seen, current).
         card (insert (t_task_id current) (t_task_id ` set (hvalues tasks)) - seen))", goal_cases)
  case (2 tasks t require_started seen current parent)
  then have "parent \<in> set (hvalues tasks)" by (auto simp: bind_eq_Some_conv dest: hget_in_hvalues)
  with 2 have "insert (t_task_id parent) (t_task_id ` set (hvalues tasks)) - insert (t_task_id current) seen
      \<subset> insert (t_task_id current) (t_task_id ` set (hvalues tasks)) - seen" by auto
  then show ?case by (auto intro!: psubset_card_mono)
qed simp

declare ancestor_chain_loop.simps [simp del]

definition ancestor_chain_is_active :: "task \<Rightarrow> task_map \<Rightarrow> bool \<Rightarrow> bool" where
  "ancestor_chain_is_active t tasks require_started = ancestor_chain_loop tasks t require_started {} t"

definition ancestor_chain_allows_dispatch :: "task \<Rightarrow> task_map \<Rightarrow> bool" where
  "ancestor_chain_allows_dispatch t tasks = ancestor_chain_is_active t tasks True"

section \<open>Admitting an agent activation\<close>

definition same_agent_owner :: "task option \<Rightarrow> task \<Rightarrow> bool" where
  "same_agent_owner previous_parent parent =
     (case previous_parent of
        None \<Rightarrow> False
      | Some previous \<Rightarrow>
          if t_parent_task_id previous = None \<or> t_parent_task_id parent = None
          then t_parent_task_id previous = None \<and> t_parent_task_id parent = None
          else (case (agent_activation_of previous, agent_activation_of parent) of
                  (Some p, Some c) \<Rightarrow> aa_agent_id p = aa_agent_id c \<and> aa_session_id p = aa_session_id c
                | _ \<Rightarrow> False))"

definition parent_task :: "task_map \<Rightarrow> task \<Rightarrow> task option" where
  "parent_task tasks t = Option.bind (t_parent_task_id t) (hget tasks)"

definition validate_agent_delegation_inner :: "task_map \<Rightarrow> task \<Rightarrow> domain_error + unit" where
  "validate_agent_delegation_inner tasks parent =
     (case hget tasks (t_task_id parent) of
        None \<Rightarrow> Inl (NotFound ''Task'')
      | Some latest \<Rightarrow>
          if \<not> is_open_status (t_status latest)
             \<or> t_parent_task_id latest \<noteq> t_parent_task_id parent
             \<or> t_root_task_id latest \<noteq> t_root_task_id parent
             \<or> t_mission_id latest \<noteq> t_mission_id parent
             \<or> delegation_allowed latest \<noteq> delegation_allowed parent
          then Inl (InvalidState (ActivationError DelegationParentChanged))
          else if t_parent_task_id parent = None \<and> t_root_task_id parent = t_task_id parent then Inr ()
          else (case hget tasks (t_root_task_id parent) of
                  None \<Rightarrow> Inl (NotFound ''RootTask'')
                | Some root \<Rightarrow>
                    if \<not> delegation_allowed parent
                       \<or> t_parent_task_id parent \<noteq> Some (t_task_id root)
                       \<or> t_parent_task_id root \<noteq> None
                       \<or> t_task_id root \<noteq> t_root_task_id root
                       \<or> t_mission_id root \<noteq> t_mission_id parent
                       \<or> (t_status root \<noteq> Running \<and> agent_run_transfer_of latest = None)
                       \<or> executor_binding_target_role root \<noteq> Some coordinator_role
                       \<or> \<not> ancestor_chain_is_active latest tasks False
                    then Inl (InvalidState (ActivationError NestedDelegationRefused))
                    else Inr ()))"

definition validate_project_directory_inheritance ::
    "externals \<Rightarrow> task \<Rightarrow> task option \<Rightarrow> domain_error + unit" where
  "validate_project_directory_inheritance ext t parent =
     (let binding = Option.bind (t_executor_binding t) eb_project_directories;
          parent_binding = Option.bind (Option.bind parent t_executor_binding) eb_project_directories
      in case (case binding of None \<Rightarrow> Inr () | Some b \<Rightarrow> directory_binding_validate ext b) of
           Inl e \<Rightarrow> Inl e
         | Inr _ \<Rightarrow>
            (case (binding, parent_binding, t_parent_task_id t) of
               (Some child, Some par, Some _) \<Rightarrow> validate_inherited_from ext child par
             | (None, None, _) \<Rightarrow> Inr ()
             | (Some _, None, None) \<Rightarrow> Inr ()
             | _ \<Rightarrow> Inl (InvalidState (ActivationError DirectoryGrantMissing))))"

text \<open>The id of the transferred task that owns a task, or the error of an unreadable parent chain.\<close>

definition transfer_owner :: "task_map \<Rightarrow> task_id \<Rightarrow> domain_error + task_id option" where
  "transfer_owner tasks tid =
     (case agent_run_transfer_in_tasks tasks tid of
        Inl e \<Rightarrow> Inl e
      | Inr r \<Rightarrow> Inr (map_option (\<lambda>(root, x). t_task_id root) r))"

fun check_link_owners :: "task_map \<Rightarrow> task_id option \<Rightarrow> task_id list \<Rightarrow> domain_error + unit" where
  "check_link_owners tasks owner [] = Inr ()"
| "check_link_owners tasks owner (d # ds) =
     (case transfer_owner tasks d of
        Inl e \<Rightarrow> Inl e
      | Inr o_d \<Rightarrow>
          if owner \<noteq> o_d then Inl (InvalidState (ActivationError InsertCrossesOwner))
          else check_link_owners tasks owner ds)"

fun check_reserved_identity :: "task_map \<Rightarrow> task_id \<Rightarrow> task_id option \<Rightarrow> task list \<Rightarrow> domain_error + unit" where
  "check_reserved_identity tasks tid owner [] = Inr ()"
| "check_reserved_identity tasks tid owner (c # cs) =
     (if tid \<in> set (task_links c)
      then (case transfer_owner tasks (t_task_id c) of
              Inl e \<Rightarrow> Inl e
            | Inr o_c \<Rightarrow>
                if o_c \<noteq> owner then Inl (InvalidState (ActivationError InsertIdentityReserved))
                else check_reserved_identity tasks tid owner cs)
      else check_reserved_identity tasks tid owner cs)"

definition activation_generation :: "task \<Rightarrow> u64" where
  "activation_generation t = (case agent_activation_of t of None \<Rightarrow> 0 | Some a \<Rightarrow> aa_generation a)"

text \<open>The activation of the same agent with the largest generation.\<close>

definition prior_activation :: "task_map \<Rightarrow> task_id \<Rightarrow> task option" where
  "prior_activation tasks agent =
     max_by_key activation_generation
       (filter (\<lambda>c. case agent_activation_of c of None \<Rightarrow> False | Some a \<Rightarrow> aa_agent_id a = agent)
               (hvalues tasks))"

definition activation_source_refused ::
    "task_map \<Rightarrow> task \<Rightarrow> agent_activation \<Rightarrow> task \<Rightarrow> task \<Rightarrow> task_id \<Rightarrow> bool" where
  "activation_source_refused tasks t binding parent prior previous =
     (case agent_activation_of prior of
        None \<Rightarrow> True
      | Some source \<Rightarrow>
          t_task_id prior \<noteq> previous
          \<or> t_status prior \<noteq> Completed
          \<or> checked_add (aa_generation source) 1 \<noteq> Some (aa_generation binding)
          \<or> aa_session_id source \<noteq> aa_session_id binding
          \<or> aa_lifetime source \<noteq> aa_lifetime binding
          \<or> aa_lifetime source = LifetimeTurn
          \<or> (delegation_allowed t \<and> \<not> delegation_allowed prior)
          \<or> t_mission_id prior \<noteq> t_mission_id t
          \<or> \<not> same_agent_owner (parent_task tasks prior) parent
          \<or> t_workspace_scope prior \<noteq> t_workspace_scope t
          \<or> t_write_scope prior \<noteq> t_write_scope t
          \<or> executor_binding_target_role prior \<noteq> executor_binding_target_role t
          \<or> list_ex (\<lambda>c. c \<notin> set (executor_binding_capability_ids prior)) (executor_binding_capability_ids t))"

text \<open>
  The last third of \<open>validate_agent_activation_insert\<close>: the generation of the activation
  against the latest one of the same agent.
\<close>

definition validate_activation_source ::
    "task_map \<Rightarrow> task \<Rightarrow> agent_activation \<Rightarrow> task \<Rightarrow> domain_error + unit" where
  "validate_activation_source tasks t binding parent =
     (case (prior_activation tasks (aa_agent_id binding), aa_previous_task_id binding) of
        (None, None) \<Rightarrow>
          if aa_generation binding = 1 then Inr ()
          else Inl (InvalidState (ActivationError ActivationSourceMissing))
      | (Some prior, Some previous) \<Rightarrow>
          if activation_source_refused tasks t binding parent prior previous
          then Inl (InvalidState (ActivationError ActivationSuperseded)) else Inr ()
      | _ \<Rightarrow> Inl (InvalidState (ActivationError ActivationSourceMissing)))"

definition validate_activation_parent ::
    "task_map \<Rightarrow> task \<Rightarrow> agent_activation \<Rightarrow> domain_error + task" where
  "validate_activation_parent tasks t binding =
     (case agent_activation_validate binding (t_task_id t) of
        Inl e \<Rightarrow> Inl e
      | Inr _ \<Rightarrow>
         (case parent_task tasks t of
            None \<Rightarrow> Inl (InvalidState (ActivationError ActivationParentMissing))
          | Some parent \<Rightarrow>
              if \<not> is_open_status (t_status parent)
                 \<or> t_root_task_id parent \<noteq> t_root_task_id t \<or> t_mission_id parent \<noteq> t_mission_id t
              then Inl (InvalidState (ActivationError ActivationParentChanged))
              else if t_parent_task_id parent \<noteq> None \<or> delegation_allowed t
              then (case validate_agent_delegation_inner tasks parent of
                      Inl e \<Rightarrow> Inl e
                    | Inr _ \<Rightarrow>
                        if (delegation_allowed t
                            \<and> (t_parent_task_id parent \<noteq> None
                               \<or> executor_binding_target_role parent \<noteq> Some coordinator_role))
                           \<or> t_workspace_scope t \<noteq> t_workspace_scope parent
                           \<or> t_write_scope t \<noteq> t_write_scope parent
                           \<or> t_policy_snapshot t \<noteq> t_policy_snapshot parent
                        then Inl (InvalidState (ActivationError NestedScopeExpanded))
                        else Inr parent)
              else Inr parent))"

definition validate_agent_activation_insert :: "externals \<Rightarrow> task_map \<Rightarrow> task \<Rightarrow> domain_error + unit" where
  "validate_agent_activation_insert ext tasks t =
     (case validate_project_directory_inheritance ext t (parent_task tasks t) of
        Inl e \<Rightarrow> Inl e
      | Inr _ \<Rightarrow>
      if agent_run_transfer_of t \<noteq> None then Inl (InvalidState (ActivationError InsertCarriesTransfer))
      else case (case t_parent_task_id t of None \<Rightarrow> Inr None | Some p \<Rightarrow> transfer_owner tasks p) of
        Inl e \<Rightarrow> Inl e
      | Inr owner \<Rightarrow>
      (case check_link_owners tasks owner (task_links t) of
        Inl e \<Rightarrow> Inl e
      | Inr _ \<Rightarrow>
      (case check_reserved_identity tasks (t_task_id t) owner (hvalues tasks) of
        Inl e \<Rightarrow> Inl e
      | Inr _ \<Rightarrow>
      (case agent_activation_of t of
        None \<Rightarrow>
          if delegation_allowed t \<or> owner \<noteq> None
          then Inl (InvalidState (ActivationError ActivationRequired)) else Inr ()
      | Some binding \<Rightarrow>
      (case validate_activation_parent tasks t binding of
        Inl e \<Rightarrow> Inl e
      | Inr parent \<Rightarrow>
      (case (case agent_run_transfer_in_tasks tasks (t_task_id parent) of
               Inl e \<Rightarrow> Inl e
             | Inr None \<Rightarrow> Inr ()
             | Inr (Some (root, x)) \<Rightarrow> validate_agent_transfer_subtree (hvalues tasks @ [t]) root x) of
        Inl e \<Rightarrow> Inl e
      | Inr _ \<Rightarrow> validate_activation_source tasks t binding parent))))))"

end
