(* ===== verification/WorkerRuntime.thy ===== *)
theory WorkerRuntime
  imports Domain
begin

text \<open>
  The branch checkpoint store of \<open>crates/magi-worker-runtime/src/lib.rs\<close>: the last checkpoint
  of every execution branch, the durable snapshot made of them and the two version counters that
  decide whether a flush has anything to write.
\<close>

datatype worker_stage = StageExecute | StageReview | StageVerify | StageRepair | StageFinish

datatype worker_checkpoint_resume_mode = StepCheckpoint | StageRestart

datatype worker_execution_binding_lifecycle = BindingNone | BindingRequested | BindingBound | BindingReleased

record worker_execution_checkpoint_cursor =
  wc_checkpoint_stage :: worker_stage
  wc_next_step_index :: nat
  wc_checkpoint_at :: utc_millis
  wc_resume_mode :: worker_checkpoint_resume_mode
  wc_resume_token :: "string option"

record worker_runtime_branch_snapshot =
  wb_task_id :: task_id
  wb_worker_id :: worker_id
  wb_stage :: worker_stage
  wb_lease_id :: "string option"
  wb_execution_intent_ref :: "string option"
  wb_binding_lifecycle :: "worker_execution_binding_lifecycle option"
  wb_checkpoint_cursor :: "worker_execution_checkpoint_cursor option"

record worker_branch_checkpoint_state =
  ws_lease_id :: "string option"
  ws_execution_intent_ref :: "string option"
  ws_binding_lifecycle :: "worker_execution_binding_lifecycle option"
  ws_checkpoint_cursor :: "worker_execution_checkpoint_cursor option"

type_synonym worker_runtime_durable_snapshot = "worker_runtime_branch_snapshot list"

record worker_runtime =
  wr_branch_snapshots :: "(task_id, worker_runtime_branch_snapshot) hmap"
  wr_durable_version :: u64
  wr_flushed_version :: u64

definition worker_runtime_new :: worker_runtime where
  "worker_runtime_new = \<lparr>wr_branch_snapshots = [], wr_durable_version = 0, wr_flushed_version = 0\<rparr>"

text \<open>\<open>a.or_else(|| existing.and_then(f))\<close>.\<close>

definition or_existing :: "'a option \<Rightarrow> 'b option \<Rightarrow> ('b \<Rightarrow> 'a option) \<Rightarrow> 'a option" where
  "or_existing a existing f = (case a of Some v \<Rightarrow> Some v | None \<Rightarrow> Option.bind existing f)"

definition merge_branch_checkpoint ::
    "worker_runtime_branch_snapshot option \<Rightarrow> task_id \<Rightarrow> worker_id \<Rightarrow> worker_stage \<Rightarrow>
     worker_branch_checkpoint_state \<Rightarrow> worker_runtime_branch_snapshot" where
  "merge_branch_checkpoint existing tid wid stage st =
     \<lparr>wb_task_id = tid, wb_worker_id = wid, wb_stage = stage,
      wb_lease_id = or_existing (ws_lease_id st) existing wb_lease_id,
      wb_execution_intent_ref = or_existing (ws_execution_intent_ref st) existing wb_execution_intent_ref,
      wb_binding_lifecycle = or_existing (ws_binding_lifecycle st) existing wb_binding_lifecycle,
      wb_checkpoint_cursor =
        (if stage = StageFinish then None
         else or_existing (ws_checkpoint_cursor st) existing wb_checkpoint_cursor)\<rparr>"

text \<open>
  \<open>record_branch_checkpoint\<close> writes the map under its lock and raises the version after it has
  released the lock: two atomic steps, composed here and taken apart in theory \<open>WorkerFlush\<close>.
\<close>

definition record_branch_insert ::
    "task_id \<Rightarrow> worker_id \<Rightarrow> worker_stage \<Rightarrow> worker_branch_checkpoint_state \<Rightarrow> worker_runtime \<Rightarrow> worker_runtime" where
  "record_branch_insert tid wid stage st r =
     r\<lparr>wr_branch_snapshots :=
        hput tid (merge_branch_checkpoint (hget (wr_branch_snapshots r) tid) tid wid stage st)
          (wr_branch_snapshots r)\<rparr>"

definition raise_durable_version :: "worker_runtime \<Rightarrow> worker_runtime" where
  "raise_durable_version r = r\<lparr>wr_durable_version := wr_durable_version r + 1\<rparr>"

definition record_branch_checkpoint ::
    "task_id \<Rightarrow> worker_id \<Rightarrow> worker_stage \<Rightarrow> worker_branch_checkpoint_state \<Rightarrow> worker_runtime \<Rightarrow>
     worker_runtime_branch_snapshot \<times> worker_runtime" where
  "record_branch_checkpoint tid wid stage st r =
     (merge_branch_checkpoint (hget (wr_branch_snapshots r) tid) tid wid stage st,
      raise_durable_version (record_branch_insert tid wid stage st r))"

definition branch_snapshot_for_task :: "worker_runtime \<Rightarrow> task_id \<Rightarrow> worker_runtime_branch_snapshot option" where
  "branch_snapshot_for_task r tid = hget (wr_branch_snapshots r) tid"

fun worker_id_str :: "worker_id \<Rightarrow> string" where "worker_id_str (WorkerId s) = s"

definition branch_sort_key :: "worker_runtime_branch_snapshot \<Rightarrow> task_id \<times> string" where
  "branch_sort_key b = (wb_task_id b, worker_id_str (wb_worker_id b))"

definition durable_snapshot :: "worker_runtime \<Rightarrow> worker_runtime_durable_snapshot" where
  "durable_snapshot r = sort_key branch_sort_key (hvalues (wr_branch_snapshots r))"

definition durable_snapshot_dirty :: "worker_runtime \<Rightarrow> bool" where
  "durable_snapshot_dirty r = (wr_durable_version r \<noteq> wr_flushed_version r)"

definition restore_durable_snapshot :: "worker_runtime_durable_snapshot \<Rightarrow> worker_runtime \<Rightarrow> worker_runtime" where
  "restore_durable_snapshot snapshot r =
     r\<lparr>wr_branch_snapshots := fold (\<lambda>b. hput (wb_task_id b) b) snapshot [],
       wr_durable_version := 0, wr_flushed_version := 0\<rparr>"

definition flush_durable_snapshot_with ::
    "(worker_runtime_durable_snapshot \<Rightarrow> 'e + unit) \<Rightarrow> worker_runtime \<Rightarrow> ('e + bool) \<times> worker_runtime" where
  "flush_durable_snapshot_with persist r =
     (let current_version = wr_durable_version r
      in if current_version = wr_flushed_version r then (Inr False, r)
         else case persist (durable_snapshot r) of
                Inl e \<Rightarrow> (Inl e, r)
              | Inr _ \<Rightarrow> (Inr True, r\<lparr>wr_flushed_version := current_version\<rparr>))"

end
