(* ===== verification/TaskStore.thy ===== *)
theory TaskStore
  imports TaskGraph WorkerRuntime
begin

text \<open>
  The state of \<open>TaskStore\<close> (\<open>crates/magi-orchestrator/src/task_store.rs\<close>), its commit protocol
  and the operations on tasks: insertion, transfer, status updates, recovery, completion, context
  delivery, queries and removal.

  Every mutation of the source runs under \<open>mutation_lock\<close>, so an operation is one atomic function
  of the store.  It returns its result or error and the store it leaves behind: an operation that
  fails after it wrote something would show that here.  A reading of the clock is an argument; an
  operation that reads the clock once per task takes a function of the task.
\<close>

section \<open>Leases, snapshots and the store\<close>

datatype task_lease_state = LeaseActive | LeaseCompleted | LeaseExpired | LeaseRevoked

record task_lease =
  tl_lease_id :: lease_id
  tl_task_id :: task_id
  tl_root_task_id :: task_id
  tl_worker_id :: worker_id
  tl_role :: string
  tl_granted_at :: utc_millis
  tl_expires_at :: utc_millis
  tl_heartbeat_at :: utc_millis
  tl_lease_status :: task_lease_state

type_synonym lease_map = "(lease_id, task_lease) hmap"
type_synonym mission_map = "(mission_id, task_id list) hmap"

record task_store_snapshot =
  sn_tasks :: "task list"
  sn_leases :: "task_lease list"
  sn_changed_root_ids :: "task_id list"

text \<open>
  \<open>ts_status_events\<close> is the sequence of calls the status callback received so far;
  \<open>ts_has_status_callback\<close> says whether one is installed.  \<open>ts_lease_counter\<close> is the
  process-wide \<open>LEASE_COUNTER\<close>.
\<close>

record task_store =
  ts_tasks :: task_map
  ts_leases :: lease_map
  ts_mission_index :: mission_map
  ts_on_checkpoint :: "(task_store_snapshot \<Rightarrow> domain_error + unit) option"
  ts_has_status_callback :: bool
  ts_status_events :: "(task_id \<times> task_status \<times> task_status \<times> task) list"
  ts_status_change_version :: u64
  ts_lease_counter :: u64

type_synonym 'a store_result = "(domain_error + 'a) \<times> task_store"

definition task_store_new :: task_store where
  "task_store_new =
     \<lparr>ts_tasks = [], ts_leases = [], ts_mission_index = [], ts_on_checkpoint = None,
      ts_has_status_callback = False, ts_status_events = [], ts_status_change_version = 0,
      ts_lease_counter = 1\<rparr>"

definition set_status_change_callback :: "task_store \<Rightarrow> task_store" where
  "set_status_change_callback s = s\<lparr>ts_has_status_callback := True\<rparr>"

definition set_checkpoint_callback ::
    "(task_store_snapshot \<Rightarrow> domain_error + unit) \<Rightarrow> task_store \<Rightarrow> task_store" where
  "set_checkpoint_callback cb s = s\<lparr>ts_on_checkpoint := Some cb\<rparr>"

definition default_frozen_policy :: task_policy where
  "default_frozen_policy =
     \<lparr>tp_autonomy_level = ''Assisted'', tp_access_profile = Restricted, tp_allowed_tools = [],
      tp_denied_tools = [], tp_allowed_paths = [], tp_denied_paths = [], tp_read_only_paths = [],
      tp_network_mode = ''full'', tp_command_mode = ''full'', tp_retry_limit = 1,
      tp_validation_profile = None, tp_checkpoint_mode = ''turn'', tp_task_tier = ExecutionChain,
      tp_background_allowed = False, tp_escalation_conditions = []\<rparr>"

section \<open>Commit protocol\<close>

definition snapshot_from_maps :: "task_map \<Rightarrow> lease_map \<Rightarrow> task_store_snapshot" where
  "snapshot_from_maps tasks leases =
     \<lparr>sn_tasks = sort_key t_task_id (hvalues tasks),
      sn_leases = sort_key tl_lease_id (hvalues leases),
      sn_changed_root_ids = []\<rparr>"

definition snapshot_with_dirty_roots :: "task_map \<Rightarrow> lease_map \<Rightarrow> task_id list \<Rightarrow> task_store_snapshot" where
  "snapshot_with_dirty_roots tasks leases dirty_roots =
     (snapshot_from_maps tasks leases)\<lparr>sn_changed_root_ids := remdups_adj (sort dirty_roots)\<rparr>"

definition store_snapshot :: "task_store \<Rightarrow> task_store_snapshot" where
  "store_snapshot s = snapshot_from_maps (ts_tasks s) (ts_leases s)"

definition fire_checkpoint :: "task_store \<Rightarrow> task_store_snapshot \<Rightarrow> domain_error + unit" where
  "fire_checkpoint s snapshot =
     (case ts_on_checkpoint s of None \<Rightarrow> Inr () | Some cb \<Rightarrow> cb snapshot)"

definition commit_maps :: "task_map \<Rightarrow> lease_map \<Rightarrow> mission_map \<Rightarrow> task_store \<Rightarrow> task_store" where
  "commit_maps tasks leases index s =
     s\<lparr>ts_tasks := tasks, ts_leases := leases, ts_mission_index := index\<rparr>"

definition notify_status_change :: "task_store \<Rightarrow> task_store" where
  "notify_status_change s = s\<lparr>ts_status_change_version := saturating_add (ts_status_change_version s) 1\<rparr>"

definition emit_status_change :: "task_id \<Rightarrow> task_status \<Rightarrow> task_status \<Rightarrow> task \<Rightarrow> task_store \<Rightarrow> task_store" where
  "emit_status_change tid old new t s =
     notify_status_change
       (if ts_has_status_callback s
        then s\<lparr>ts_status_events := ts_status_events s @ [(tid, old, new, t)]\<rparr> else s)"

text \<open>
  \<open>self.fire_checkpoint(&snapshot)?\<close> followed by the rest of the operation: an error of the
  callback leaves the store as it was.
\<close>

definition checkpoint_then :: "task_store \<Rightarrow> task_store_snapshot \<Rightarrow> 'a \<Rightarrow> task_store \<Rightarrow> 'a store_result" where
  "checkpoint_then s snapshot result s' =
     (case fire_checkpoint s snapshot of Inl e \<Rightarrow> (Inl e, s) | Inr _ \<Rightarrow> (Inr result, s'))"

text \<open>The active leases of a task; \<open>any(...)\<close> asks whether there is one.\<close>

definition active_leases_of :: "lease_map \<Rightarrow> task_id \<Rightarrow> task_lease list" where
  "active_leases_of leases tid =
     filter (\<lambda>l. tl_task_id l = tid \<and> tl_lease_status l = LeaseActive) (hvalues leases)"

definition has_active_lease :: "lease_map \<Rightarrow> task_id \<Rightarrow> bool" where
  "has_active_lease leases tid =
     list_ex (\<lambda>l. tl_task_id l = tid \<and> tl_lease_status l = LeaseActive) (hvalues leases)"

section \<open>Insertion\<close>

definition index_push :: "mission_id \<Rightarrow> task_id \<Rightarrow> mission_map \<Rightarrow> mission_map" where
  "index_push m tid index = hput m ((case hget index m of None \<Rightarrow> [] | Some ids \<Rightarrow> ids) @ [tid]) index"

definition insert_task_inner :: "externals \<Rightarrow> task \<Rightarrow> bool \<Rightarrow> task_store \<Rightarrow> unit store_result" where
  "insert_task_inner ext t checkpoint s =
     (if hmem (ts_tasks s) (t_task_id t)
      then (Inl (InvalidState (ActivationError (TaskAlreadyStored (t_task_id t)))), s)
      else case validate_agent_activation_insert ext (ts_tasks s) t of
        Inl e \<Rightarrow> (Inl e, s)
      | Inr _ \<Rightarrow>
          let tasks = hput (t_task_id t) t (ts_tasks s);
              s' = s\<lparr>ts_tasks := tasks,
                     ts_mission_index := index_push (t_mission_id t) (t_task_id t) (ts_mission_index s)\<rparr>
          in if checkpoint
             then checkpoint_then s (snapshot_with_dirty_roots tasks (ts_leases s) [t_root_task_id t]) () s'
             else (Inr (), s'))"

definition insert_task :: "externals \<Rightarrow> task \<Rightarrow> task_store \<Rightarrow> unit store_result" where
  "insert_task ext t s = insert_task_inner ext t True s"

definition insert_task_without_checkpoint :: "externals \<Rightarrow> task \<Rightarrow> task_store \<Rightarrow> unit store_result" where
  "insert_task_without_checkpoint ext t s = insert_task_inner ext t False s"

section \<open>Queries on agents and missions\<close>

definition push_head :: "task \<Rightarrow> (string, task) hmap \<Rightarrow> (string, task) hmap" where
  "push_head t heads =
     (case agent_activation_of t of
        None \<Rightarrow> heads
      | Some a \<Rightarrow>
          let key = task_id_str (aa_agent_id a);
              entry = (case hget heads key of None \<Rightarrow> t | Some e \<Rightarrow> e)
          in hput key (if activation_generation entry < aa_generation a then t else entry) heads)"

definition agent_heads_for_session :: "session_id \<Rightarrow> task_store \<Rightarrow> task list" where
  "agent_heads_for_session sid s =
     map snd (sort_key fst
       (fold push_head
         (filter (\<lambda>t. case agent_activation_of t of None \<Rightarrow> False | Some a \<Rightarrow> aa_session_id a = sid)
                 (hvalues (ts_tasks s))) []))"

definition validate_agent_delegation :: "task \<Rightarrow> task_store \<Rightarrow> domain_error + unit" where
  "validate_agent_delegation parent s = validate_agent_delegation_inner (ts_tasks s) parent"

definition agent_resume_parent_matches :: "task \<Rightarrow> task \<Rightarrow> task_store \<Rightarrow> bool" where
  "agent_resume_parent_matches source parent s = same_agent_owner (parent_task (ts_tasks s) source) parent"

definition agent_run_transfer_for_task :: "task_id \<Rightarrow> task_store \<Rightarrow> domain_error + task option" where
  "agent_run_transfer_for_task tid s =
     (if \<not> hmem (ts_tasks s) tid then Inl (NotFound ''AgentTask'')
      else case agent_run_transfer_in_tasks (ts_tasks s) tid of
             Inl e \<Rightarrow> Inl e
           | Inr r \<Rightarrow> Inr (map_option fst r))"

definition get_task :: "task_id \<Rightarrow> task_store \<Rightarrow> task option" where
  "get_task tid s = hget (ts_tasks s) tid"

definition all_tasks :: "task_store \<Rightarrow> task list" where
  "all_tasks s = hvalues (ts_tasks s)"

definition get_tasks_by_mission :: "mission_id \<Rightarrow> task_store \<Rightarrow> task list" where
  "get_tasks_by_mission m s =
     (case hget (ts_mission_index s) m of
        None \<Rightarrow> []
      | Some ids \<Rightarrow> List.map_filter (hget (ts_tasks s)) ids)"

definition get_dependencies :: "task_id \<Rightarrow> task_store \<Rightarrow> task_id list" where
  "get_dependencies tid s =
     (case hget (ts_tasks s) tid of None \<Rightarrow> [] | Some t \<Rightarrow> t_dependency_ids t)"

definition collect_subtree_ids :: "task_id \<Rightarrow> task_store \<Rightarrow> task_id list" where
  "collect_subtree_ids root_id s = collect_subtree_ids_from_tasks (ts_tasks s) root_id"

definition collect_execution_subtree_ids :: "task_id \<Rightarrow> task_store \<Rightarrow> task_id list" where
  "collect_execution_subtree_ids root_id s = collect_subtree_ids_in_scope (ts_tasks s) root_id True"

definition execution_scope_root :: "task_id \<Rightarrow> task_store \<Rightarrow> domain_error + task_id" where
  "execution_scope_root tid s = execution_scope_root_in_tasks (ts_tasks s) tid"

definition get_children :: "task_id \<Rightarrow> task_store \<Rightarrow> task list" where
  "get_children parent_id s =
     sort_key (\<lambda>t. (t_created_at t, t_task_id t))
       (filter (\<lambda>t. t_parent_task_id t = Some parent_id) (hvalues (ts_tasks s)))"

section \<open>Dispatch\<close>

text \<open>
  A child does not keep its parent from being dispatched when it was transferred, is settled, or
  is a pending child of a local agent (whose model owns the orchestration loop).
\<close>

definition child_releases_parent :: "task_map \<Rightarrow> task \<Rightarrow> task_id \<Rightarrow> bool" where
  "child_releases_parent tasks t cid =
     (case hget tasks cid of
        None \<Rightarrow> False
      | Some child \<Rightarrow>
          agent_run_transfer_of child \<noteq> None
          \<or> is_terminal_status (t_status child)
          \<or> (t_kind t = LocalAgent \<and> t_status child = Pending))"

definition is_leaf_for_dispatch :: "task_map \<Rightarrow> (task_id, task_id list) hmap \<Rightarrow> task \<Rightarrow> bool" where
  "is_leaf_for_dispatch tasks children t =
     (case hget children (t_task_id t) of
        None \<Rightarrow> True
      | Some ids \<Rightarrow> list_all (child_releases_parent tasks t) ids)"

definition dependencies_completed :: "task_map \<Rightarrow> task \<Rightarrow> bool" where
  "dependencies_completed tasks t =
     list_all (\<lambda>d. case hget tasks d of None \<Rightarrow> False | Some dep \<Rightarrow> t_status dep = Completed)
       (t_dependency_ids t)"

definition get_runnable_leaves :: "task_id \<Rightarrow> task_store \<Rightarrow> task list" where
  "get_runnable_leaves root_id s =
     (let tasks = ts_tasks s;
          children = child_index_from_tasks tasks;
          all_ids = collect_subtree_ids_in_scope tasks root_id True;
          leaves = filter (is_leaf_for_dispatch tasks children) (List.map_filter (hget tasks) all_ids)
      in filter (\<lambda>t. t_status t = Pending \<and> dependencies_completed tasks t
                     \<and> ancestor_chain_allows_dispatch t tasks) leaves)"

section \<open>Transfer of a running agent subtree\<close>

definition set_transfer :: "agent_run_transfer \<Rightarrow> utc_millis \<Rightarrow> task \<Rightarrow> task" where
  "set_transfer x now t =
     t\<lparr>t_executor_binding := map_option (\<lambda>b. b\<lparr>eb_agent_run_transfer := Some x\<rparr>) (t_executor_binding t),
       t_updated_at := now\<rparr>"

definition transfer_agent_subtree ::
    "task_id \<Rightarrow> task_id \<Rightarrow> agent_run_transfer \<Rightarrow> utc_millis \<Rightarrow> task_store \<Rightarrow> bool store_result" where
  "transfer_agent_subtree parent_id child_id x now s =
     (case hget (ts_tasks s) parent_id of
        None \<Rightarrow> (Inl (NotFound ''ParentTask''), s)
      | Some parent \<Rightarrow>
     (case hget (ts_tasks s) child_id of
        None \<Rightarrow> (Inl (NotFound ''AgentTask''), s)
      | Some child \<Rightarrow>
     (case validate_agent_transfer_binding parent child x of
        Inl e \<Rightarrow> (Inl e, s)
      | Inr _ \<Rightarrow>
     (case agent_run_transfer_of child of
        Some existing \<Rightarrow>
          if existing = x then (Inr False, s)
          else (Inl (InvalidState (TransferError TransferConflict)), s)
      | None \<Rightarrow>
          if t_status parent \<noteq> Running \<or> \<not> is_open_status (t_status child)
             \<or> rt_transferred_at x < t_created_at child
          then (Inl (InvalidState (TransferError TransferNotRunning)), s)
          else if list_ex (\<lambda>c. case agent_run_transfer_of c of
                             None \<Rightarrow> False
                           | Some e \<Rightarrow> rt_operation_id e = rt_operation_id x) (hvalues (ts_tasks s))
          then (Inl (InvalidState (TransferError TransferOperationReused)), s)
          else (case validate_agent_transfer_subtree (hvalues (ts_tasks s)) child x of
                  Inl e \<Rightarrow> (Inl e, s)
                | Inr _ \<Rightarrow>
                    let tasks = hput child_id (set_transfer x now child) (ts_tasks s)
                    in checkpoint_then s
                         (snapshot_with_dirty_roots tasks (ts_leases s) [t_root_task_id parent])
                         True (notify_status_change (s\<lparr>ts_tasks := tasks\<rparr>)))))))"

section \<open>Status updates and recovery\<close>

definition freeze_policy :: "task_status \<Rightarrow> task_status \<Rightarrow> task \<Rightarrow> task" where
  "freeze_policy old new t =
     (if old = Pending \<and> new = Pending \<and> t_policy_snapshot t = None
      then t\<lparr>t_policy_snapshot := Some default_frozen_policy\<rparr> else t)"

definition update_status_checked ::
    "task_id \<Rightarrow> task_status \<Rightarrow> utc_millis \<Rightarrow> task_store \<Rightarrow> unit store_result" where
  "update_status_checked tid new now s =
     (if is_terminal_status new
      then (Inl (InvalidState (LifecycleError (TerminalByPlainUpdate new))), s)
      else case hget (ts_tasks s) tid of
        None \<Rightarrow> (Inl (NotFound ''Task''), s)
      | Some t \<Rightarrow>
          if \<not> is_valid_transition (t_status t) new
          then (Inl (InvalidState (LifecycleError (IllegalTransition (t_status t) new))), s)
          else
            let t' = (freeze_policy (t_status t) new t)\<lparr>t_status := new, t_updated_at := now\<rparr>;
                tasks = hput tid t' (ts_tasks s)
            in checkpoint_then s
                 (snapshot_with_dirty_roots tasks (ts_leases s) [t_root_task_id t']) ()
                 (emit_status_change tid (t_status t) new t' (s\<lparr>ts_tasks := tasks\<rparr>)))"

definition next_recovery_generation :: "task_status \<Rightarrow> u32 \<Rightarrow> u32 option" where
  "next_recovery_generation new n = (if is_open_status new then checked_add n 1 else Some n)"

definition transition_recovery_status ::
    "task_id \<Rightarrow> task_status \<Rightarrow> task_status \<Rightarrow> bool \<Rightarrow> utc_millis \<Rightarrow> task_store \<Rightarrow> unit store_result" where
  "transition_recovery_status tid expected new root_only now s =
     (case hget (ts_tasks s) tid of
        None \<Rightarrow> (Inl (NotFound ''Task''), s)
      | Some t \<Rightarrow>
          if root_only \<and> (t_root_task_id t \<noteq> tid \<or> t_parent_task_id t \<noteq> None)
          then (Inl (InvalidState (RootError (NotARootTask tid))), s)
          else if t_status t \<noteq> expected
          then (Inl (InvalidState (RecoveryError (RecoveryStatusDiffers tid expected new (t_status t)))), s)
          else if has_active_lease (ts_leases s) tid
          then (Inl (InvalidState (RecoveryError (RecoveryWithActiveLease tid))), s)
          else (case next_recovery_generation new (t_retry_count t) of
              None \<Rightarrow> (Inl (InvalidState (RecoveryError RecoveryGenerationOverflow)), s)
            | Some n \<Rightarrow>
                let t' = t\<lparr>t_retry_count := n, t_status := new, t_updated_at := now\<rparr>;
                    tasks = hput tid t' (ts_tasks s)
                in checkpoint_then s
                     (snapshot_with_dirty_roots tasks (ts_leases s) [t_root_task_id t']) ()
                     (emit_status_change tid expected new t' (s\<lparr>ts_tasks := tasks\<rparr>))))"

definition reopen_failed_task_for_recovery :: "task_id \<Rightarrow> utc_millis \<Rightarrow> task_store \<Rightarrow> unit store_result" where
  "reopen_failed_task_for_recovery tid now s = transition_recovery_status tid Failed Pending False now s"

definition start_failed_root_for_recovery :: "task_id \<Rightarrow> utc_millis \<Rightarrow> task_store \<Rightarrow> unit store_result" where
  "start_failed_root_for_recovery tid now s = transition_recovery_status tid Failed Running True now s"

definition reopen_completed_root_for_recovery :: "task_id \<Rightarrow> utc_millis \<Rightarrow> task_store \<Rightarrow> unit store_result" where
  "reopen_completed_root_for_recovery tid now s = transition_recovery_status tid Completed Failed True now s"

fun reopen_sources ::
    "(task_id \<Rightarrow> utc_millis) \<Rightarrow> task_id list \<Rightarrow> task list \<Rightarrow> task_map \<Rightarrow> task list \<Rightarrow>
     domain_error + (task_map \<times> task list)" where
  "reopen_sources now ids [] tasks changed = Inr (tasks, changed)"
| "reopen_sources now ids (source # sources) tasks changed =
     (case hget tasks (t_task_id source) of
        None \<Rightarrow> Inl (NotFound ''AgentTask'')
      | Some t \<Rightarrow>
          if t_task_id source \<notin> set ids
             \<or> t_status t \<noteq> Failed
             \<or> t_updated_at t \<noteq> t_updated_at source
             \<or> t_retry_count t \<noteq> t_retry_count source
             \<or> agent_activation_of t \<noteq> agent_activation_of source
          then Inl (InvalidState (RecoveryError ReopenSourceChanged))
          else (case checked_add (t_retry_count t) 1 of
              None \<Rightarrow> Inl (InvalidState (RecoveryError RecoveryGenerationOverflow))
            | Some n \<Rightarrow>
                let t' = t\<lparr>t_retry_count := n, t_status := Pending,
                           t_updated_at := max (now (t_task_id source))
                             (saturating_add (t_updated_at source) 1)\<rparr>
                in reopen_sources now ids sources (hput (t_task_id source) t' tasks) (changed @ [t'])))"

definition emit_reopened :: "task list \<Rightarrow> task_store \<Rightarrow> task_store" where
  "emit_reopened changed s = fold (\<lambda>t. emit_status_change (t_task_id t) Failed Pending t) changed s"

definition reopen_transferred_agent_scope ::
    "task_id \<Rightarrow> task list \<Rightarrow> (task_id \<Rightarrow> utc_millis) \<Rightarrow> task_store \<Rightarrow> unit store_result" where
  "reopen_transferred_agent_scope root expected now s =
     (case expected of
        [] \<Rightarrow> (Inl (InvalidState (RecoveryError ReopenNeedsTransferRoot)), s)
      | first # _ \<Rightarrow>
          if t_task_id first \<noteq> root \<or> \<not> is_transferred (ts_tasks s) root
          then (Inl (InvalidState (RecoveryError ReopenNeedsTransferRoot)), s)
          else
            let ids = collect_subtree_ids_in_scope (ts_tasks s) root True
            in if list_ex (\<lambda>i. (case hget (ts_tasks s) i of None \<Rightarrow> False | Some t \<Rightarrow> is_open_status (t_status t))
                             \<or> has_active_lease (ts_leases s) i) ids
               then (Inl (InvalidState (RecoveryError ReopenScopeActive)), s)
               else (case reopen_sources now ids expected (ts_tasks s) [] of
                   Inl e \<Rightarrow> (Inl e, s)
                 | Inr (tasks, changed) \<Rightarrow>
                     checkpoint_then s
                       (snapshot_with_dirty_roots tasks (ts_leases s) [t_root_task_id first]) ()
                       (emit_reopened changed (s\<lparr>ts_tasks := tasks\<rparr>))))"

section \<open>Completion and termination of one task\<close>

definition apply_completion ::
    "externals \<Rightarrow> task_completion_attempt \<Rightarrow> utc_millis \<Rightarrow> task \<Rightarrow> domain_error + task" where
  "apply_completion ext attempt now t =
     (if t_status t \<noteq> Running
      then Inl (InvalidState (LifecycleError (CompletionNotRunning (t_task_id t) (t_status t))))
      else case contract_validate ext (t_completion_contract t) attempt of
        Inl e \<Rightarrow> Inl (InvalidState (LifecycleError (CompletionRefused e)))
      | Inr _ \<Rightarrow>
          Inr (t\<lparr>t_output_refs := ca_output_refs attempt,
                 t_evidence_refs := map (evidence_json ext) (ca_evidence attempt),
                 t_status := Completed, t_updated_at := now\<rparr>))"

definition apply_terminal_status ::
    "task_status \<Rightarrow> string list \<Rightarrow> utc_millis \<Rightarrow> task \<Rightarrow> domain_error + task" where
  "apply_terminal_status st output_refs now t =
     (if \<not> (st = Failed \<or> st = Killed)
      then Inl (InvalidState (LifecycleError (TerminalStatusExpected st)))
      else if \<not> is_open_status (t_status t)
      then Inl (InvalidState (LifecycleError (CannotSettle (t_task_id t) (t_status t))))
      else Inr (t\<lparr>t_output_refs := (if output_refs \<noteq> [] then output_refs else t_output_refs t),
                  t_status := st, t_updated_at := now\<rparr>))"

definition complete_task ::
    "externals \<Rightarrow> task_id \<Rightarrow> task_completion_attempt \<Rightarrow> utc_millis \<Rightarrow> task_store \<Rightarrow> unit store_result" where
  "complete_task ext tid attempt now s =
     (case hget (ts_tasks s) tid of
        None \<Rightarrow> (Inl (NotFound ''Task''), s)
      | Some t \<Rightarrow>
          if has_active_lease (ts_leases s) tid
          then (Inl (InvalidState (LifecycleError (CompletionWithActiveLease tid))), s)
          else (case apply_completion ext attempt now t of
              Inl e \<Rightarrow> (Inl e, s)
            | Inr t' \<Rightarrow>
                let tasks = hput tid t' (ts_tasks s)
                in checkpoint_then s
                     (snapshot_with_dirty_roots tasks (ts_leases s) [t_root_task_id t']) ()
                     (emit_status_change tid (t_status t) Completed t' (s\<lparr>ts_tasks := tasks\<rparr>))))"

section \<open>Agent context\<close>

definition append_agent_context_access ::
    "task_id \<Rightarrow> agent_context_access_record \<Rightarrow> utc_millis \<Rightarrow> task_store \<Rightarrow> unit store_result" where
  "append_agent_context_access tid rec now s =
     (case hget (ts_tasks s) tid of
        None \<Rightarrow> (Inl (NotFound ''Task''), s)
      | Some t \<Rightarrow>
         (case t_runtime_payload t of
            PayloadAgentContext package accesses \<Rightarrow>
              let t' = t\<lparr>t_runtime_payload := PayloadAgentContext package (accesses @ [rec]),
                         t_updated_at := now\<rparr>;
                  tasks = hput tid t' (ts_tasks s)
              in checkpoint_then s
                   (snapshot_with_dirty_roots tasks (ts_leases s) [t_root_task_id t]) ()
                   (s\<lparr>ts_tasks := tasks\<rparr>)
          | _ \<Rightarrow> (Inl (InvalidState (ContextError (NoContextPackage tid))), s)))"

definition context_delivery_refused ::
    "task \<Rightarrow> task \<Rightarrow> task_status \<Rightarrow> bool" where
  "context_delivery_refused t parent expected_status =
     (\<not> is_open_status expected_status
      \<or> t_status t \<noteq> expected_status
      \<or> \<not> is_open_status (t_status parent)
      \<or> t_parent_task_id t \<noteq> Some (t_task_id parent)
      \<or> t_root_task_id t \<noteq> t_root_task_id parent
      \<or> t_mission_id t \<noteq> t_mission_id parent
      \<or> t_workspace_scope t \<noteq> t_workspace_scope parent
      \<or> t_write_scope t \<noteq> t_write_scope parent)"

definition deliver_agent_context_supplement ::
    "task_id \<Rightarrow> task_status \<Rightarrow> agent_context_supplement \<Rightarrow> agent_context_access_record \<Rightarrow> task_store \<Rightarrow>
     agent_context_package store_result" where
  "deliver_agent_context_supplement tid expected_status supplement access s =
     (case hget (ts_tasks s) tid of
        None \<Rightarrow> (Inl (NotFound ''Task''), s)
      | Some t \<Rightarrow>
     (case hget (ts_tasks s) (cs_author_task_id supplement) of
        None \<Rightarrow> (Inl (NotFound ''parent Task''), s)
      | Some parent \<Rightarrow>
          if context_delivery_refused t parent expected_status
          then (Inl (InvalidState (ContextError ContextScopeChanged)), s)
          else (case t_runtime_payload t of
            PayloadAgentContext package accesses \<Rightarrow>
              if cp_parent_task_id package \<noteq> cs_author_task_id supplement
                 \<or> ar_operation access \<noteq> AccessSend
                 \<or> ar_query access \<noteq> Some (cs_message supplement)
                 \<or> list_ex (\<lambda>e. cs_supplement_id e = cs_supplement_id supplement) (cp_supplements package)
              then (Inl (InvalidState (ContextError ContextReceiptConflict)), s)
              else (case checked_add (cp_revision package) 1 of
                None \<Rightarrow> (Inl (InvalidState (ContextError ContextRevisionOverflow)), s)
              | Some revision \<Rightarrow>
                  let package' = package\<lparr>cp_revision := revision,
                                   cp_updated_at := cs_created_at supplement,
                                   cp_supplements := cp_supplements package @ [supplement]\<rparr>;
                      t' = t\<lparr>t_runtime_payload := PayloadAgentContext package' (accesses @ [access]),
                             t_updated_at := cp_updated_at package'\<rparr>;
                      tasks = hput tid t' (ts_tasks s)
                  in checkpoint_then s
                       (snapshot_with_dirty_roots tasks (ts_leases s) [t_root_task_id t]) package'
                       (s\<lparr>ts_tasks := tasks\<rparr>))
          | _ \<Rightarrow> (Inl (InvalidState (ContextError (NoContextPackage tid))), s))))"

definition update_task_goal :: "task_id \<Rightarrow> string \<Rightarrow> utc_millis \<Rightarrow> task_store \<Rightarrow> unit store_result" where
  "update_task_goal tid goal now s =
     (case hget (ts_tasks s) tid of
        None \<Rightarrow> (Inl (NotFound ''Task''), s)
      | Some t \<Rightarrow>
          (Inr (), s\<lparr>ts_tasks := hput tid (t\<lparr>t_goal := goal, t_updated_at := now\<rparr>) (ts_tasks s)\<rparr>))"

section \<open>Removal\<close>

definition references_activation :: "task_id \<Rightarrow> task \<Rightarrow> bool" where
  "references_activation tid t =
     (case agent_activation_of t of
        None \<Rightarrow> False
      | Some a \<Rightarrow> aa_previous_task_id a = Some tid \<or> t_parent_task_id t = Some tid)"

definition drop_required_child :: "task_id \<Rightarrow> utc_millis \<Rightarrow> task \<Rightarrow> task" where
  "drop_required_child tid now t =
     (if tid \<in> set (t_required_children t)
      then t\<lparr>t_required_children := filter (\<lambda>i. i \<noteq> tid) (t_required_children t), t_updated_at := now\<rparr>
      else t)"

definition index_remove :: "mission_id \<Rightarrow> task_id \<Rightarrow> mission_map \<Rightarrow> mission_map" where
  "index_remove m tid index =
     (case hget index m of
        None \<Rightarrow> index
      | Some ids \<Rightarrow>
          let ids' = filter (\<lambda>i. i \<noteq> tid) ids
          in if ids' = [] then hremove m index else hput m ids' index)"

definition remove_task :: "task_id \<Rightarrow> utc_millis \<Rightarrow> task_store \<Rightarrow> task option store_result" where
  "remove_task tid now s =
     (if list_ex (references_activation tid) (hvalues (ts_tasks s))
      then (Inl (InvalidState (ActivationError TaskStillReferenced)), s)
      else case hget (ts_tasks s) tid of
        None \<Rightarrow>
          checkpoint_then s (snapshot_from_maps (ts_tasks s) (ts_leases s)) None s
      | Some t \<Rightarrow>
          let tasks = hmap_values (drop_required_child tid now) (hremove tid (ts_tasks s));
              leases = hretain (\<lambda>l. tl_task_id l \<noteq> tid) (ts_leases s);
              index = index_remove (t_mission_id t) tid (ts_mission_index s)
          in checkpoint_then s (snapshot_from_maps tasks leases) (Some t)
               (notify_status_change (commit_maps tasks leases index s)))"

definition drop_removed_links :: "task_id list \<Rightarrow> utc_millis \<Rightarrow> task \<Rightarrow> task" where
  "drop_removed_links ids now t =
     (let deps = filter (\<lambda>i. i \<notin> set ids) (t_dependency_ids t);
          reqs = filter (\<lambda>i. i \<notin> set ids) (t_required_children t)
      in t\<lparr>t_dependency_ids := deps, t_required_children := reqs,
           t_updated_at :=
             (if length deps \<noteq> length (t_dependency_ids t) \<or> length reqs \<noteq> length (t_required_children t)
              then now else t_updated_at t)\<rparr>)"

definition remove_tasks_by_mission :: "mission_id \<Rightarrow> utc_millis \<Rightarrow> task_store \<Rightarrow> task list store_result" where
  "remove_tasks_by_mission m now s =
     (let ids = (case hget (ts_mission_index s) m of None \<Rightarrow> [] | Some ids \<Rightarrow> ids);
          index = hremove m (ts_mission_index s)
      in if ids = []
         then checkpoint_then s (snapshot_from_maps (ts_tasks s) (ts_leases s)) []
                (s\<lparr>ts_mission_index := index\<rparr>)
         else
           let removed = sort_key (\<lambda>t. (t_created_at t, t_task_id t))
                 (List.map_filter (hget (ts_tasks s)) (remdups ids));
               tasks = hmap_values (drop_removed_links ids now) (fold hremove ids (ts_tasks s));
               leases = hretain (\<lambda>l. tl_task_id l \<notin> set ids \<and> tl_root_task_id l \<notin> set ids) (ts_leases s);
               s' = commit_maps tasks leases index s
           in checkpoint_then s (snapshot_from_maps tasks leases) removed
                (if removed = [] then s' else notify_status_change s'))"

end
