(* ===== verification/TaskLease.thy ===== *)
theory TaskLease
  imports TaskStore
begin

text \<open>
  Leases of \<open>crates/magi-orchestrator/src/task_store.rs\<close>: claiming a task for a worker, heartbeats,
  completing or terminating a leased task, terminating a whole subtree and settling the store
  after a restart.

  A lease carries the identity of the audit root for life; which runner may claim, renew or
  expire it follows the execution scope, which a transfer moves to another owner.
\<close>

section \<open>Lease contract\<close>

definition validate_lease_owner :: "task_map \<Rightarrow> task_lease \<Rightarrow> domain_error + unit" where
  "validate_lease_owner tasks l = validate_task_root tasks (tl_task_id l) (tl_root_task_id l)"

definition validate_lease_contract :: "task_map \<Rightarrow> task_lease \<Rightarrow> domain_error + unit" where
  "validate_lease_contract tasks l =
     (case validate_lease_owner tasks l of
        Inl e \<Rightarrow> Inl e
      | Inr _ \<Rightarrow>
          if tl_lease_status l = LeaseActive
          then (case hget tasks (tl_task_id l) of
                  None \<Rightarrow> Inl (NotFound ''Task'')
                | Some t \<Rightarrow>
                    if t_status t \<noteq> Running
                    then Inl (InvalidState (LeaseError
                           (ActiveLeaseNotRunning (tl_lease_id l) (tl_task_id l) (t_status t))))
                    else Inr ())
          else Inr ())"

definition lease_id_of :: "utc_millis \<Rightarrow> u64 \<Rightarrow> lease_id" where
  "lease_id_of now counter =
     LeaseId (''lease-'' @ dec_of_nat (unat now) @ ''-'' @ dec_of_nat (unat counter))"

text \<open>\<open>LEASE_COUNTER.fetch_add(1)\<close> wraps around; the new value is returned with the lease.\<close>

definition build_lease ::
    "task_id \<Rightarrow> task_id \<Rightarrow> worker_id \<Rightarrow> string \<Rightarrow> u64 \<Rightarrow> utc_millis \<Rightarrow> u64 \<Rightarrow> task_lease \<times> u64" where
  "build_lease tid root_id worker role duration now counter =
     (\<lparr>tl_lease_id = lease_id_of now counter, tl_task_id = tid, tl_root_task_id = root_id,
       tl_worker_id = worker, tl_role = role, tl_granted_at = now,
       tl_expires_at = saturating_add now duration, tl_heartbeat_at = now,
       tl_lease_status = LeaseActive\<rparr>,
      counter + 1)"

definition find_active_lease :: "lease_map \<Rightarrow> task_id \<Rightarrow> task_lease option" where
  "find_active_lease leases tid =
     find (\<lambda>l. tl_task_id l = tid \<and> tl_lease_status l = LeaseActive) (hvalues leases)"

definition set_lease_status :: "lease_id \<Rightarrow> task_lease_state \<Rightarrow> lease_map \<Rightarrow> lease_map option" where
  "set_lease_status lid st leases =
     map_option (\<lambda>l. hput lid (l\<lparr>tl_lease_status := st\<rparr>) leases) (hget leases lid)"

section \<open>Inserting, reading and granting leases\<close>

definition insert_lease :: "task_lease \<Rightarrow> task_store \<Rightarrow> unit store_result" where
  "insert_lease l s =
     (case validate_lease_contract (ts_tasks s) l of
        Inl e \<Rightarrow> (Inl e, s)
      | Inr _ \<Rightarrow>
          if hmem (ts_leases s) (tl_lease_id l) then (Inl (AlreadyExists ''Lease''), s)
          else if tl_lease_status l = LeaseActive \<and> has_active_lease (ts_leases s) (tl_task_id l)
          then (Inl (InvalidState (LeaseError (ActiveLeaseExists (tl_task_id l)))), s)
          else (Inr (), s\<lparr>ts_leases := hput (tl_lease_id l) l (ts_leases s)\<rparr>))"

definition get_active_lease :: "task_id \<Rightarrow> task_store \<Rightarrow> task_lease option" where
  "get_active_lease tid s = find_active_lease (ts_leases s) tid"

definition execution_lease_is_current :: "task_id \<Rightarrow> lease_id \<Rightarrow> task_store \<Rightarrow> bool" where
  "execution_lease_is_current tid lid s =
     (case hget (ts_leases s) lid of
        None \<Rightarrow> False
      | Some l \<Rightarrow>
          if \<not> (tl_task_id l = tid \<and> tl_lease_status l = LeaseActive) then False
          else (case hget (ts_tasks s) tid of
              None \<Rightarrow> False
            | Some t \<Rightarrow>
                if \<not> (t_status t = Running \<and> t_root_task_id t = tl_root_task_id l) then False
                else ancestor_chain_is_active t (ts_tasks s) False))"

definition get_lease :: "lease_id \<Rightarrow> task_store \<Rightarrow> task_lease option" where
  "get_lease lid s = hget (ts_leases s) lid"

definition grant_lease ::
    "task_id \<Rightarrow> task_id \<Rightarrow> worker_id \<Rightarrow> string \<Rightarrow> u64 \<Rightarrow> utc_millis \<Rightarrow> task_store \<Rightarrow>
     task_lease option \<times> task_store" where
  "grant_lease tid root_id worker role duration now s =
     (case validate_task_root (ts_tasks s) tid root_id of
        Inl _ \<Rightarrow> (None, s)
      | Inr _ \<Rightarrow>
         (case hget (ts_tasks s) tid of
            None \<Rightarrow> (None, s)
          | Some t \<Rightarrow>
              if t_status t \<noteq> Running then (None, s)
              else if find_active_lease (ts_leases s) tid \<noteq> None then (None, s)
              else let (l, counter) = build_lease tid root_id worker role duration now (ts_lease_counter s)
                   in (Some l, s\<lparr>ts_leases := hput (tl_lease_id l) l (ts_leases s),
                                 ts_lease_counter := counter\<rparr>)))"

text \<open>
  \<open>grant_lease_and_start_task_inner\<close>.  \<open>scope_root\<close> is the runner's execution scope, when it
  claims for one.  \<open>now\<close> is the clock read by \<open>build_lease\<close>, \<open>now2\<close> the later reading written to
  \<open>updated_at\<close>.  The counter is consumed even when the checkpoint then fails.
\<close>

definition grant_lease_and_start_task_inner ::
    "task_id \<Rightarrow> task_id \<Rightarrow> task_id option \<Rightarrow> worker_id \<Rightarrow> string \<Rightarrow> u64 \<Rightarrow> utc_millis \<Rightarrow> utc_millis \<Rightarrow>
     task_store \<Rightarrow> task_lease option store_result" where
  "grant_lease_and_start_task_inner tid root_id scope_root worker role duration now now2 s =
     (case validate_task_root (ts_tasks s) tid root_id of
        Inl e \<Rightarrow> (Inl e, s)
      | Inr _ \<Rightarrow>
     (case (case scope_root of
              None \<Rightarrow> Inr True
            | Some scope \<Rightarrow>
                map_sum id (\<lambda>r. r = scope) (execution_scope_root_in_tasks (ts_tasks s) tid)) of
        Inl e \<Rightarrow> (Inl e, s)
      | Inr False \<Rightarrow> (Inr None, s)
      | Inr True \<Rightarrow>
     (case hget (ts_tasks s) tid of
        None \<Rightarrow> (Inl (NotFound ''Task''), s)
      | Some t \<Rightarrow>
          if t_status t \<noteq> Pending then (Inr None, s)
          else if \<not> ancestor_chain_allows_dispatch t (ts_tasks s) then (Inr None, s)
          else (case find_active_lease (ts_leases s) tid of
            Some active \<Rightarrow>
             (case validate_lease_owner (ts_tasks s) active of
                Inl e \<Rightarrow> (Inl e, s)
              | Inr _ \<Rightarrow>
                  if tl_root_task_id active \<noteq> root_id
                  then (Inl (InvalidState (LeaseError
                         (ActiveLeaseOfOtherRoot (tl_lease_id active) root_id))), s)
                  else (Inr None, s))
          | None \<Rightarrow>
              let (l, counter) = build_lease tid root_id worker role duration now (ts_lease_counter s);
                  s1 = s\<lparr>ts_lease_counter := counter\<rparr>;
                  leases = hput (tl_lease_id l) l (ts_leases s);
                  t' = t\<lparr>t_status := Running, t_updated_at := now2\<rparr>;
                  tasks = hput tid t' (ts_tasks s)
              in checkpoint_then s1 (snapshot_with_dirty_roots tasks leases [t_root_task_id t']) (Some l)
                   (emit_status_change tid (t_status t) Running t'
                     (commit_maps tasks leases (ts_mission_index s1) s1))))))"

definition grant_lease_and_start_task ::
    "task_id \<Rightarrow> task_id \<Rightarrow> worker_id \<Rightarrow> string \<Rightarrow> u64 \<Rightarrow> utc_millis \<Rightarrow> utc_millis \<Rightarrow> task_store \<Rightarrow>
     task_lease option store_result" where
  "grant_lease_and_start_task tid root_id worker role duration now now2 s =
     grant_lease_and_start_task_inner tid root_id None worker role duration now now2 s"

text \<open>
  The task is read before the lock is taken, so its audit root may come from an older store
  \<open>s0\<close> than the one the claim runs on.
\<close>

definition claim_task_for_execution_scope ::
    "task_id \<Rightarrow> task_id \<Rightarrow> worker_id \<Rightarrow> string \<Rightarrow> u64 \<Rightarrow> utc_millis \<Rightarrow> utc_millis \<Rightarrow> task_store \<Rightarrow>
     task_store \<Rightarrow> task_lease option store_result" where
  "claim_task_for_execution_scope tid scope_root worker role duration now now2 s0 s =
     (case get_task tid s0 of
        None \<Rightarrow> (Inl (NotFound ''Task''), s)
      | Some t \<Rightarrow>
          grant_lease_and_start_task_inner tid (t_root_task_id t) (Some scope_root) worker role
            duration now now2 s)"

section \<open>Ending one leased task\<close>

definition revoke_lease :: "task_id \<Rightarrow> lease_id \<Rightarrow> task_store \<Rightarrow> bool \<times> task_store" where
  "revoke_lease tid lid s =
     (case hget (ts_leases s) lid of
        None \<Rightarrow> (False, s)
      | Some l \<Rightarrow>
          if tl_task_id l \<noteq> tid \<or> tl_lease_status l \<noteq> LeaseActive
             \<or> isl (validate_lease_contract (ts_tasks s) l)
          then (False, s)
          else (True, s\<lparr>ts_leases := hput lid (l\<lparr>tl_lease_status := LeaseRevoked\<rparr>) (ts_leases s)\<rparr>))"

definition complete_lease_and_task ::
    "externals \<Rightarrow> task_id \<Rightarrow> task_id \<Rightarrow> lease_id \<Rightarrow> task_completion_attempt \<Rightarrow> utc_millis \<Rightarrow>
     task_store \<Rightarrow> bool store_result" where
  "complete_lease_and_task ext tid root_id lid attempt now s =
     (case hget (ts_leases s) lid of
        None \<Rightarrow> (Inr False, s)
      | Some l \<Rightarrow>
          if tl_lease_status l \<noteq> LeaseActive then (Inr False, s)
          else if tl_task_id l \<noteq> tid
          then (Inl (InvalidState (LeaseError (LeaseOfOtherTask lid tid))), s)
          else if tl_root_task_id l \<noteq> root_id
          then (Inl (InvalidState (LeaseError (LeaseOfOtherRoot lid root_id))), s)
          else (case validate_task_root (ts_tasks s) tid root_id of
            Inl e \<Rightarrow> (Inl e, s)
          | Inr _ \<Rightarrow>
         (case validate_lease_contract (ts_tasks s) l of
            Inl e \<Rightarrow> (Inl e, s)
          | Inr _ \<Rightarrow>
         (case hget (ts_tasks s) tid of
            None \<Rightarrow> (Inr False, s)
          | Some t \<Rightarrow>
              if \<not> ancestor_chain_is_active t (ts_tasks s) False then (Inr False, s)
              else (case apply_completion ext attempt now t of
                Inl e \<Rightarrow> (Inl e, s)
              | Inr t' \<Rightarrow>
                  let tasks = hput tid t' (ts_tasks s);
                      leases = hput lid (l\<lparr>tl_lease_status := LeaseCompleted\<rparr>) (ts_leases s)
                  in checkpoint_then s (snapshot_with_dirty_roots tasks leases [t_root_task_id t']) True
                       (emit_status_change tid (t_status t) Completed t'
                         (commit_maps tasks leases (ts_mission_index s) s)))))))"

text \<open>
  \<open>prepare_task_terminal_in_maps\<close> works on candidate maps and returns them in every case, as
  the subtree operation goes on with them after an error.
\<close>

fun check_active_leases :: "task_map \<Rightarrow> task_id \<Rightarrow> task_lease list \<Rightarrow> domain_error + unit" where
  "check_active_leases tasks root_id [] = Inr ()"
| "check_active_leases tasks root_id (l # ls) =
     (case validate_lease_contract tasks l of
        Inl e \<Rightarrow> Inl e
      | Inr _ \<Rightarrow>
          if tl_root_task_id l \<noteq> root_id
          then Inl (InvalidState (LeaseError (ActiveLeaseOfOtherRoot (tl_lease_id l) root_id)))
          else check_active_leases tasks root_id ls)"

text \<open>\<open>Inr None\<close> is the early \<open>return Ok(None)\<close>.\<close>

definition requested_lease ::
    "task_map \<Rightarrow> lease_map \<Rightarrow> task_id \<Rightarrow> task_id \<Rightarrow> lease_id option \<Rightarrow> bool \<Rightarrow>
     domain_error + task_lease option option" where
  "requested_lease tasks leases tid root_id lease_id discover =
     (if discover
      then Inr (Some (case active_leases_of leases tid of [] \<Rightarrow> None | l # _ \<Rightarrow> Some l))
      else case lease_id of
        None \<Rightarrow> Inr (Some None)
      | Some expected \<Rightarrow>
         (case hget leases expected of
            None \<Rightarrow> Inr None
          | Some l \<Rightarrow>
              if tl_task_id l \<noteq> tid
              then Inl (InvalidState (LeaseError (LeaseOfOtherTask expected tid)))
              else (case validate_lease_contract tasks l of
                Inl e \<Rightarrow> Inl e
              | Inr _ \<Rightarrow>
                  if tl_root_task_id l \<noteq> root_id
                  then Inl (InvalidState (LeaseError (LeaseOfOtherRoot expected root_id)))
                  else if tl_lease_status l \<noteq> LeaseActive then Inr None
                  else Inr (Some (Some l)))))"

definition recheck_active_lease ::
    "task_map \<Rightarrow> lease_map \<Rightarrow> task_id \<Rightarrow> lease_id option \<Rightarrow> domain_error + unit" where
  "recheck_active_lease tasks leases root_id active_id =
     (case Option.bind active_id (hget leases) of
        None \<Rightarrow> Inr ()
      | Some l \<Rightarrow> check_active_leases tasks root_id [l])"

definition prepare_task_terminal_in_maps ::
    "task_map \<Rightarrow> lease_map \<Rightarrow> task_id \<Rightarrow> task_id \<Rightarrow> lease_id option \<Rightarrow> task_status \<Rightarrow> string list \<Rightarrow>
     bool \<Rightarrow> utc_millis \<Rightarrow> (domain_error + (task_status \<times> task) option) \<times> task_map \<times> lease_map" where
  "prepare_task_terminal_in_maps tasks leases tid root_id lease_id st output_refs discover now =
     (let active = active_leases_of leases tid;
          active_id = (case active of [] \<Rightarrow> None | l # _ \<Rightarrow> Some (tl_lease_id l))
      in case validate_task_root tasks tid root_id of
        Inl e \<Rightarrow> (Inl e, tasks, leases)
      | Inr _ \<Rightarrow>
     (case check_active_leases tasks root_id active of
        Inl e \<Rightarrow> (Inl e, tasks, leases)
      | Inr _ \<Rightarrow>
          if discover \<and> length active > 1
          then (Inl (InvalidState (LeaseError (SeveralActiveLeases tid))), tasks, leases)
          else (case hget tasks tid of
            None \<Rightarrow> (Inl (NotFound ''Task''), tasks, leases)
          | Some t \<Rightarrow>
              if is_terminal_status (t_status t)
              then (if active \<noteq> []
                    then (Inl (InvalidState (LeaseError (TerminalTaskWithLease tid))), tasks, leases)
                    else (Inr None, tasks, leases))
              else (case requested_lease tasks leases tid root_id lease_id discover of
                Inl e \<Rightarrow> (Inl e, tasks, leases)
              | Inr None \<Rightarrow> (Inr None, tasks, leases)
              | Inr (Some requested) \<Rightarrow>
             (case recheck_active_lease tasks leases root_id active_id of
                Inl e \<Rightarrow> (Inl e, tasks, leases)
              | Inr _ \<Rightarrow>
                  if (case requested of None \<Rightarrow> False | Some l \<Rightarrow> active_id \<noteq> Some (tl_lease_id l))
                  then (Inr None, tasks, leases)
                  else if requested = None \<and> active_id \<noteq> None
                  then (Inl (InvalidState (LeaseError (LeaseIdRequired tid))), tasks, leases)
                  else if requested \<noteq> None \<and> t_status t \<noteq> Running
                  then (Inl (InvalidState (LeaseError (LeasedTaskNotRunning tid))), tasks, leases)
                  else (case apply_terminal_status st output_refs now t of
                    Inl e \<Rightarrow> (Inl e, tasks, leases)
                  | Inr t' \<Rightarrow>
                      let tasks' = hput tid t' tasks
                      in case requested of
                        None \<Rightarrow> (Inr (Some (t_status t, t')), tasks', leases)
                      | Some l \<Rightarrow>
                         (case set_lease_status (tl_lease_id l) LeaseRevoked leases of
                            None \<Rightarrow> (Inl (NotFound ''Lease''), tasks', leases)
                          | Some leases' \<Rightarrow> (Inr (Some (t_status t, t')), tasks', leases'))))))))"

text \<open>
  \<open>now\<close> is the clock of the expiry check, \<open>now2\<close> the one written to the task.
\<close>

definition revoke_lease_and_set_task_terminal_inner ::
    "task_id \<Rightarrow> task_id \<Rightarrow> lease_id option \<Rightarrow> task_status \<Rightarrow> string list \<Rightarrow> bool \<Rightarrow> task_id option \<Rightarrow>
     utc_millis \<Rightarrow> utc_millis \<Rightarrow> task_store \<Rightarrow> bool store_result" where
  "revoke_lease_and_set_task_terminal_inner tid root_id lease_id st output_refs discover expiry_scope
      now now2 s =
     (if \<not> (st = Failed \<or> st = Killed)
      then (Inl (InvalidState (LifecycleError (TerminalStatusExpected st))), s)
      else case (case expiry_scope of
              None \<Rightarrow> Inr True
            | Some scope \<Rightarrow>
               (case execution_scope_root_in_tasks (ts_tasks s) tid of
                  Inl e \<Rightarrow> Inl e
                | Inr r \<Rightarrow>
                    Inr (r = scope
                         \<and> (case Option.bind lease_id (hget (ts_leases s)) of
                              None \<Rightarrow> False
                            | Some l \<Rightarrow> tl_lease_status l = LeaseActive \<and> tl_expires_at l < now)))) of
        Inl e \<Rightarrow> (Inl e, s)
      | Inr False \<Rightarrow> (Inr False, s)
      | Inr True \<Rightarrow>
         (case prepare_task_terminal_in_maps (ts_tasks s) (ts_leases s) tid root_id lease_id st
                 output_refs discover now2 of
            (Inl e, _) \<Rightarrow> (Inl e, s)
          | (Inr None, _) \<Rightarrow> (Inr False, s)
          | (Inr (Some (old, t')), tasks, leases) \<Rightarrow>
              checkpoint_then s (snapshot_with_dirty_roots tasks leases [t_root_task_id t']) True
                (emit_status_change tid old st t' (commit_maps tasks leases (ts_mission_index s) s))))"

definition revoke_lease_and_set_task_terminal ::
    "task_id \<Rightarrow> task_id \<Rightarrow> lease_id option \<Rightarrow> task_status \<Rightarrow> string list \<Rightarrow> utc_millis \<Rightarrow>
     task_store \<Rightarrow> bool store_result" where
  "revoke_lease_and_set_task_terminal tid root_id lease_id st output_refs now s =
     revoke_lease_and_set_task_terminal_inner tid root_id lease_id st output_refs False None now now s"

definition revoke_active_lease_and_set_task_terminal ::
    "task_id \<Rightarrow> task_id \<Rightarrow> task_status \<Rightarrow> string list \<Rightarrow> utc_millis \<Rightarrow> task_store \<Rightarrow> bool store_result" where
  "revoke_active_lease_and_set_task_terminal tid root_id st output_refs now s =
     revoke_lease_and_set_task_terminal_inner tid root_id None st output_refs True None now now s"

text \<open>The text of the output reference, as the UTF-8 bytes of the source.\<close>

definition lease_expired_text :: "task_id \<Rightarrow> string" where
  "lease_expired_text tid =
     [CHR 0xE4, CHR 0xBB, CHR 0xBB, CHR 0xE5, CHR 0x8A, CHR 0xA1, CHR 0x20] @ task_id_str tid @
     [CHR 0x20, CHR 0xE7, CHR 0xA7, CHR 0x9F, CHR 0xE7, CHR 0xBA, CHR 0xA6,
      CHR 0xE5, CHR 0xB7, CHR 0xB2, CHR 0xE8, CHR 0xBF, CHR 0x87, CHR 0xE6, CHR 0x9C, CHR 0x9F]"

text \<open>As in the claim, the audit root is read from an earlier store \<open>s0\<close>.\<close>

definition expire_lease_for_execution_scope ::
    "task_id \<Rightarrow> task_id \<Rightarrow> lease_id \<Rightarrow> utc_millis \<Rightarrow> utc_millis \<Rightarrow> task_store \<Rightarrow> task_store \<Rightarrow>
     bool store_result" where
  "expire_lease_for_execution_scope scope_root tid lid now now2 s0 s =
     (case get_task tid s0 of
        None \<Rightarrow> (Inl (NotFound ''Task''), s)
      | Some t \<Rightarrow>
          revoke_lease_and_set_task_terminal_inner tid (t_root_task_id t) (Some lid) Failed
            [lease_expired_text tid] False (Some scope_root) now now2 s)"

section \<open>Ending a whole subtree\<close>

datatype subtree_terminal_selection =
    Audit | Execution | OrphanedExecution | ExecutionIfActive "task_id list"

text \<open>
  The one-pass filter of \<open>OrphanedExecution\<close>: the list has parents before their descendants, and
  a task is kept when its parent was settled or kept.
\<close>

fun orphan_filter :: "task_map \<Rightarrow> task_id set \<Rightarrow> task_id list \<Rightarrow> task_id list" where
  "orphan_filter tasks closed [] = []"
| "orphan_filter tasks closed (i # is) =
     (case hget tasks i of
        None \<Rightarrow> orphan_filter tasks closed is
      | Some t \<Rightarrow>
          let orphaned = (case t_parent_task_id t of None \<Rightarrow> False | Some p \<Rightarrow> p \<in> closed);
              closed' = (if orphaned \<or> is_terminal_status (t_status t) then insert i closed else closed)
          in if orphaned then i # orphan_filter tasks closed' is else orphan_filter tasks closed' is)"

definition unrunnable_candidate :: "task_map \<Rightarrow> lease_map \<Rightarrow> task_id list \<Rightarrow> task_id \<Rightarrow> bool" where
  "unrunnable_candidate tasks leases candidates i =
     (i \<in> set candidates
      \<and> (case hget tasks i of None \<Rightarrow> False | Some t \<Rightarrow> \<not> is_terminal_status (t_status t))
      \<and> \<not> has_active_lease leases i)"

text \<open>The tasks to settle; the empty list where the source returns \<open>Ok(false)\<close>.\<close>

definition select_subtree ::
    "task_map \<Rightarrow> lease_map \<Rightarrow> task_id \<Rightarrow> subtree_terminal_selection \<Rightarrow> task_id list" where
  "select_subtree tasks leases root_id selection =
     (let ids = collect_subtree_ids_in_scope tasks root_id (selection \<noteq> Audit)
      in case selection of
           ExecutionIfActive candidates \<Rightarrow>
             if list_ex (unrunnable_candidate tasks leases candidates) ids then ids else []
         | OrphanedExecution \<Rightarrow> orphan_filter tasks {} ids
         | _ \<Rightarrow> ids)"

type_synonym status_change = "task_id \<times> task_status \<times> task"

fun settle_tasks ::
    "task_id \<Rightarrow> task_status \<Rightarrow> string list \<Rightarrow> (task_id \<Rightarrow> utc_millis) \<Rightarrow> task_id list \<Rightarrow> task_map \<Rightarrow> lease_map \<Rightarrow>
     (task_id \<times> domain_error) list \<times> status_change list \<times> task_map \<times> lease_map" where
  "settle_tasks root_id st output_refs now [] tasks leases = ([], [], tasks, leases)"
| "settle_tasks root_id st output_refs now (i # is) tasks leases =
     (case prepare_task_terminal_in_maps tasks leases i root_id None st output_refs True (now i) of
        (r, tasks', leases') \<Rightarrow>
          case settle_tasks root_id st output_refs now is tasks' leases' of
            (errors, changes, tasks'', leases'') \<Rightarrow>
              (case r of
                 Inl e \<Rightarrow> ((i, e) # errors, changes, tasks'', leases'')
               | Inr None \<Rightarrow> (errors, changes, tasks'', leases'')
               | Inr (Some (old, t)) \<Rightarrow> (errors, (i, old, t) # changes, tasks'', leases'')))"

definition emit_changes :: "task_status \<Rightarrow> status_change list \<Rightarrow> task_store \<Rightarrow> task_store" where
  "emit_changes st changes s = fold (\<lambda>(i, old, t). emit_status_change i old st t) changes s"

definition set_subtree_terminal ::
    "task_id \<Rightarrow> task_status \<Rightarrow> string list \<Rightarrow> subtree_terminal_selection \<Rightarrow> (task_id \<Rightarrow> utc_millis) \<Rightarrow>
     task_store \<Rightarrow> bool store_result" where
  "set_subtree_terminal root_id st output_refs selection now s =
     (if \<not> (st = Failed \<or> st = Killed)
      then (Inl (InvalidState (LifecycleError SubtreeStatusExpected)), s)
      else case hget (ts_tasks s) root_id of
        None \<Rightarrow> (Inl (NotFound ''Task''), s)
      | Some root \<Rightarrow>
          (case select_subtree (ts_tasks s) (ts_leases s) root_id selection of
             [] \<Rightarrow> (Inr False, s)
           | ids \<Rightarrow>
              (case settle_tasks (t_root_task_id root) st output_refs now ids (ts_tasks s) (ts_leases s) of
                 (errors, changes, tasks, leases) \<Rightarrow>
                   let result = (if errors = [] then Inr (changes \<noteq> []) else Inl (InvalidStates errors))
                   in if changes = [] then (result, s)
                      else (case fire_checkpoint s
                              (snapshot_with_dirty_roots tasks leases [t_root_task_id root]) of
                          Inl e \<Rightarrow> (Inl e, s)
                        | Inr _ \<Rightarrow>
                            (result, emit_changes st changes
                               (commit_maps tasks leases (ts_mission_index s) s))))))"

definition revoke_active_leases_and_set_subtree_terminal ::
    "task_id \<Rightarrow> task_status \<Rightarrow> string list \<Rightarrow> (task_id \<Rightarrow> utc_millis) \<Rightarrow> task_store \<Rightarrow> bool store_result" where
  "revoke_active_leases_and_set_subtree_terminal root_id st output_refs now s =
     set_subtree_terminal root_id st output_refs Audit now s"

definition revoke_active_leases_and_set_execution_subtree_terminal ::
    "task_id \<Rightarrow> task_status \<Rightarrow> string list \<Rightarrow> (task_id \<Rightarrow> utc_millis) \<Rightarrow> task_store \<Rightarrow> bool store_result" where
  "revoke_active_leases_and_set_execution_subtree_terminal root_id st output_refs now s =
     set_subtree_terminal root_id st output_refs Execution now s"

definition revoke_orphaned_execution_descendants ::
    "task_id \<Rightarrow> (task_id \<Rightarrow> utc_millis) \<Rightarrow> task_store \<Rightarrow> bool store_result" where
  "revoke_orphaned_execution_descendants scope_root now s =
     set_subtree_terminal scope_root Killed [] OrphanedExecution now s"

definition fail_unrunnable_execution_scope ::
    "task_id \<Rightarrow> task_id list \<Rightarrow> string list \<Rightarrow> (task_id \<Rightarrow> utc_millis) \<Rightarrow> task_store \<Rightarrow> bool store_result" where
  "fail_unrunnable_execution_scope scope_root candidates output_refs now s =
     set_subtree_terminal scope_root Failed output_refs (ExecutionIfActive candidates) now s"

section \<open>Heartbeats and scans\<close>

definition heartbeat_lease_inner ::
    "task_id \<Rightarrow> lease_id \<Rightarrow> task_id option \<Rightarrow> utc_millis \<Rightarrow> task_store \<Rightarrow> bool \<times> task_store" where
  "heartbeat_lease_inner tid lid scope_root now s =
     (if (case scope_root of
            None \<Rightarrow> False
          | Some scope \<Rightarrow> execution_scope_root_in_tasks (ts_tasks s) tid \<noteq> Inr scope)
      then (False, s)
      else case hget (ts_leases s) lid of
        None \<Rightarrow> (False, s)
      | Some l \<Rightarrow>
          if tl_task_id l \<noteq> tid \<or> tl_lease_status l \<noteq> LeaseActive
             \<or> isl (validate_lease_contract (ts_tasks s) l)
          then (False, s)
          else
            let ttl = saturating_sub (tl_expires_at l) (tl_granted_at l);
                l' = l\<lparr>tl_heartbeat_at := now, tl_expires_at := saturating_add now ttl\<rparr>
            in (True, s\<lparr>ts_leases := hput lid l' (ts_leases s)\<rparr>))"

definition heartbeat_lease :: "task_id \<Rightarrow> lease_id \<Rightarrow> utc_millis \<Rightarrow> task_store \<Rightarrow> bool \<times> task_store" where
  "heartbeat_lease tid lid now s = heartbeat_lease_inner tid lid None now s"

definition heartbeat_lease_for_execution_scope ::
    "task_id \<Rightarrow> task_id \<Rightarrow> lease_id \<Rightarrow> utc_millis \<Rightarrow> task_store \<Rightarrow> bool \<times> task_store" where
  "heartbeat_lease_for_execution_scope scope_root tid lid now s =
     heartbeat_lease_inner tid lid (Some scope_root) now s"

definition collect_leases_for_execution_scope ::
    "task_id \<Rightarrow> bool \<Rightarrow> utc_millis \<Rightarrow> task_store \<Rightarrow> (task_id \<times> lease_id) list" where
  "collect_leases_for_execution_scope scope_root expired now s =
     (let ids = collect_subtree_ids_in_scope (ts_tasks s) scope_root True
      in map (\<lambda>l. (tl_task_id l, tl_lease_id l))
           (filter (\<lambda>l. tl_lease_status l = LeaseActive \<and> (tl_expires_at l < now) = expired
                        \<and> tl_task_id l \<in> set ids) (hvalues (ts_leases s))))"

definition collect_expired_leases :: "task_id \<Rightarrow> utc_millis \<Rightarrow> task_store \<Rightarrow> (task_id \<times> lease_id) list" where
  "collect_expired_leases scope_root now s = collect_leases_for_execution_scope scope_root True now s"

definition collect_active_leases :: "task_id \<Rightarrow> utc_millis \<Rightarrow> task_store \<Rightarrow> (task_id \<times> lease_id) list" where
  "collect_active_leases scope_root now s = collect_leases_for_execution_scope scope_root False now s"

definition active_lease_pairs :: "lease_map \<Rightarrow> (task_id \<times> lease_id) list" where
  "active_lease_pairs leases =
     map (\<lambda>l. (tl_task_id l, tl_lease_id l)) (filter (\<lambda>l. tl_lease_status l = LeaseActive) (hvalues leases))"

definition collect_all_active_leases :: "task_store \<Rightarrow> (task_id \<times> lease_id) list" where
  "collect_all_active_leases s = active_lease_pairs (ts_leases s)"

section \<open>Settling the store after a restart\<close>

fun validate_all_leases :: "task_map \<Rightarrow> task_lease list \<Rightarrow> domain_error + unit" where
  "validate_all_leases tasks [] = Inr ()"
| "validate_all_leases tasks (l # ls) =
     (case validate_lease_contract tasks l of Inl e \<Rightarrow> Inl e | Inr _ \<Rightarrow> validate_all_leases tasks ls)"

definition interrupted_branch :: "task_map \<Rightarrow> worker_runtime_branch_snapshot \<Rightarrow> task_id option" where
  "interrupted_branch tasks b =
     (case hget tasks (wb_task_id b) of
        None \<Rightarrow> None
      | Some t \<Rightarrow> if t_status t \<in> {Pending, Running, Failed} then Some (wb_task_id b) else None)"

definition interrupted_task_ids :: "task_map \<Rightarrow> worker_runtime_branch_snapshot list \<Rightarrow> task_id list" where
  "interrupted_task_ids tasks branches =
     List.map_filter (interrupted_branch tasks) branches @
     map t_task_id
       (filter (\<lambda>t. t_parent_task_id t \<noteq> None \<and> agent_activation_of t \<noteq> None \<and> is_open_status (t_status t))
          (hvalues tasks))"

text \<open>
  The scopes and roots of the interrupted tasks.  The source indexes \<open>tasks[task_id]\<close>, which a
  successful \<open>execution_scope_root_in_tasks\<close> has shown to be present.
\<close>

fun affected_scopes :: "task_map \<Rightarrow> task_id list \<Rightarrow> domain_error + (task_id list \<times> task_id list)" where
  "affected_scopes tasks [] = Inr ([], [])"
| "affected_scopes tasks (i # is) =
     (case execution_scope_root_in_tasks tasks i of
        Inl e \<Rightarrow> Inl e
      | Inr scope \<Rightarrow>
         (case affected_scopes tasks is of
            Inl e \<Rightarrow> Inl e
          | Inr (roots, scopes) \<Rightarrow>
             (case hget tasks i of
                None \<Rightarrow> Inl (NotFound ''Task'')
              | Some t \<Rightarrow> Inr (List.insert (t_root_task_id t) roots, List.insert scope scopes))))"

definition revoke_if_active :: "task_id \<times> lease_id \<Rightarrow> lease_map \<Rightarrow> lease_map" where
  "revoke_if_active p leases =
     (case hget leases (snd p) of
        None \<Rightarrow> leases
      | Some l \<Rightarrow>
          if tl_task_id l = fst p \<and> tl_lease_status l = LeaseActive
          then hput (snd p) (l\<lparr>tl_lease_status := LeaseRevoked\<rparr>) leases else leases)"

fun fail_open_tasks :: "utc_millis \<Rightarrow> task_id list \<Rightarrow> task_map \<times> nat \<Rightarrow> domain_error + (task_map \<times> nat)" where
  "fail_open_tasks now [] (tasks, n) = Inr (tasks, n)"
| "fail_open_tasks now (i # is) (tasks, n) =
     (case hget tasks i of
        None \<Rightarrow> fail_open_tasks now is (tasks, n)
      | Some t \<Rightarrow>
          if is_open_status (t_status t)
          then (case apply_terminal_status Failed [] now t of
                  Inl e \<Rightarrow> Inl e
                | Inr t' \<Rightarrow> fail_open_tasks now is (hput i t' tasks, n + 1))
          else fail_open_tasks now is (tasks, n))"

fun fail_scopes :: "utc_millis \<Rightarrow> task_id list \<Rightarrow> task_map \<times> nat \<Rightarrow> domain_error + (task_map \<times> nat)" where
  "fail_scopes now [] (tasks, n) = Inr (tasks, n)"
| "fail_scopes now (scope # scopes) (tasks, n) =
     (case fail_open_tasks now (collect_subtree_ids_in_scope tasks scope True) (tasks, n) of
        Inl e \<Rightarrow> Inl e
      | Inr r \<Rightarrow> fail_scopes now scopes r)"

definition reconcile_volatile_runtime_after_restore ::
    "worker_runtime_branch_snapshot list \<Rightarrow> utc_millis \<Rightarrow> task_store \<Rightarrow> (nat \<times> nat) store_result" where
  "reconcile_volatile_runtime_after_restore branches now s =
     (case validate_all_leases (ts_tasks s) (hvalues (ts_leases s)) of
        Inl e \<Rightarrow> (Inl e, s)
      | Inr _ \<Rightarrow>
          let active = active_lease_pairs (ts_leases s);
              interrupted = interrupted_task_ids (ts_tasks s) branches
          in if active = [] \<and> interrupted = [] then (Inr (0, 0), s)
             else (case affected_scopes (ts_tasks s) (map fst active @ interrupted) of
               Inl e \<Rightarrow> (Inl e, s)
             | Inr (roots, scopes) \<Rightarrow>
                 let leases = fold revoke_if_active active (ts_leases s)
                 in case fail_scopes now scopes (ts_tasks s, 0) of
                      Inl e \<Rightarrow> (Inl e, s)
                    | Inr (tasks, n) \<Rightarrow>
                        checkpoint_then s (snapshot_with_dirty_roots tasks leases roots)
                          (length active, n)
                          (notify_status_change (commit_maps tasks leases (ts_mission_index s) s))))"

end
