(* ===== verification/TaskRestore.thy ===== *)
theory TaskRestore
  imports TaskLease
begin

text \<open>
  Checkpoints and restoration of \<open>crates/magi-orchestrator/src/task_store.rs\<close>: splitting a
  snapshot into one projection per root, the structural validation of a checkpoint, the
  validation of the agent history and the store rebuilt from a checkpoint.

  The files, their JSON form and the atomic rename of the manifest are not modelled; a
  projection is the value a file holds.
\<close>

section \<open>Checkpoints and projections\<close>

datatype projection_error =
    TaskIdInvalid
  | ActivationRejected domain_error
  | RootMissing task_id
  | RootNotItsOwn task_id
  | LeaseIdInvalid
  | LeaseTaskMissing task_id
  | LeaseRootMissing task_id
  | LeaseOwnershipInvalid lease_id
  | LeaseDuplicateActive task_id
  | LeaseTaskNotRunning lease_id task_id task_status
  | HistoryRejected domain_error
  | DelegationWithoutActivation
  | TransferWithoutActivation
  | TransferParentMissing
  | TransferOperationRepeated
  | ActivationOwnershipInvalid
  | DelegationSourceInvalid
  | NestedRootMissing
  | NestedDelegationInvalid
  | GenerationRepeated
  | SourceMissing
  | SourceWithoutIdentity
  | SourceMismatch
  | ProjectionVersionInvalid
  | ProjectionRootInvalid
  | ProjectionEmpty task_id
  | ProjectionWithoutRoot task_id
  | ProjectionOwnershipInvalid task_id

record task_store_checkpoint =
  ck_tasks :: "task list"
  ck_leases :: "task_lease list"

record task_root_projection =
  pj_schema_version :: u32
  pj_generation :: u64
  pj_root_task_id :: task_id
  pj_tasks :: "task list"
  pj_leases :: "task_lease list"

definition task_projection_schema_version :: u32 where
  "task_projection_schema_version = 2"

text \<open>\<open>roots.entry(k).or_default()\<close> on the pair of lists of one root.\<close>

definition root_entry ::
    "(task_id, task list \<times> task_lease list) hmap \<Rightarrow> task_id \<Rightarrow> task list \<times> task_lease list" where
  "root_entry roots k = (case hget roots k of None \<Rightarrow> ([], []) | Some e \<Rightarrow> e)"

definition push_root_task ::
    "task \<Rightarrow> (task_id, task list \<times> task_lease list) hmap \<Rightarrow> (task_id, task list \<times> task_lease list) hmap" where
  "push_root_task t roots =
     (let (ts, ls) = root_entry roots (t_root_task_id t)
      in hput (t_root_task_id t) (ts @ [t], ls) roots)"

definition push_root_lease ::
    "task_lease \<Rightarrow> (task_id, task list \<times> task_lease list) hmap \<Rightarrow>
     (task_id, task list \<times> task_lease list) hmap" where
  "push_root_lease l roots =
     (let (ts, ls) = root_entry roots (tl_root_task_id l)
      in hput (tl_root_task_id l) (ts, ls @ [l]) roots)"

text \<open>The first half of \<open>checkpoint_snapshot_to_projection_directory\<close>: one projection for each root.\<close>

definition snapshot_projections :: "u64 \<Rightarrow> task_store_snapshot \<Rightarrow> task_root_projection list" where
  "snapshot_projections generation snapshot =
     (let roots = fold push_root_lease (sn_leases snapshot) (fold push_root_task (sn_tasks snapshot) [])
      in sort_key pj_root_task_id
           (map (\<lambda>(root, ts, ls).
              \<lparr>pj_schema_version = task_projection_schema_version, pj_generation = generation,
               pj_root_task_id = root,
               pj_tasks = sort_key (\<lambda>t. (t_created_at t, t_task_id t)) ts,
               pj_leases = sort_key tl_lease_id ls\<rparr>) roots))"

section \<open>Structural validation of a checkpoint\<close>

fun validate_task_ids :: "task_id set \<Rightarrow> task list \<Rightarrow> projection_error + unit" where
  "validate_task_ids seen [] = Inr ()"
| "validate_task_ids seen (t # ts) =
     (if task_id_str (t_task_id t) = [] \<or> task_id_str (t_root_task_id t) = [] \<or> t_task_id t \<in> seen
      then Inl TaskIdInvalid
      else case (case agent_activation_of t of
                   None \<Rightarrow> Inr () | Some a \<Rightarrow> agent_activation_validate a (t_task_id t)) of
        Inl e \<Rightarrow> Inl (ActivationRejected e)
      | Inr _ \<Rightarrow> validate_task_ids (insert (t_task_id t) seen) ts)"

definition tasks_by_id :: "task list \<Rightarrow> task_map" where
  "tasks_by_id ts = fold (\<lambda>t. hput (t_task_id t) t) ts []"

fun validate_task_roots :: "task_map \<Rightarrow> task list \<Rightarrow> projection_error + unit" where
  "validate_task_roots tasks [] = Inr ()"
| "validate_task_roots tasks (t # ts) =
     (case hget tasks (t_root_task_id t) of
        None \<Rightarrow> Inl (RootMissing (t_root_task_id t))
      | Some root \<Rightarrow>
          if t_task_id root \<noteq> t_root_task_id root then Inl (RootNotItsOwn (t_task_id root))
          else validate_task_roots tasks ts)"

fun validate_leases ::
    "task_map \<Rightarrow> lease_id set \<Rightarrow> task_id set \<Rightarrow> task_lease list \<Rightarrow> projection_error + unit" where
  "validate_leases tasks ids active [] = Inr ()"
| "validate_leases tasks ids active (l # ls) =
     (if lease_id_str (tl_lease_id l) = [] \<or> tl_lease_id l \<in> ids then Inl LeaseIdInvalid
      else case hget tasks (tl_task_id l) of
        None \<Rightarrow> Inl (LeaseTaskMissing (tl_task_id l))
      | Some t \<Rightarrow>
     (case hget tasks (tl_root_task_id l) of
        None \<Rightarrow> Inl (LeaseRootMissing (tl_root_task_id l))
      | Some root \<Rightarrow>
          if t_task_id root \<noteq> t_root_task_id root \<or> t_root_task_id t \<noteq> tl_root_task_id l
             \<or> t_mission_id t \<noteq> t_mission_id root
          then Inl (LeaseOwnershipInvalid (tl_lease_id l))
          else if tl_lease_status l = LeaseActive
          then (if tl_task_id l \<in> active then Inl (LeaseDuplicateActive (tl_task_id l))
                else if t_status t \<noteq> Running
                then Inl (LeaseTaskNotRunning (tl_lease_id l) (tl_task_id l) (t_status t))
                else validate_leases tasks (insert (tl_lease_id l) ids) (insert (tl_task_id l) active) ls)
          else validate_leases tasks (insert (tl_lease_id l) ids) active ls))"

definition validate_checkpoint :: "task_store_checkpoint \<Rightarrow> projection_error + unit" where
  "validate_checkpoint c =
     (case validate_task_ids {} (ck_tasks c) of
        Inl e \<Rightarrow> Inl e
      | Inr _ \<Rightarrow>
         (case validate_task_roots (tasks_by_id (ck_tasks c)) (ck_tasks c) of
            Inl e \<Rightarrow> Inl e
          | Inr _ \<Rightarrow> validate_leases (tasks_by_id (ck_tasks c)) {} {} (ck_leases c)))"

definition validate_snapshot :: "task_store_snapshot \<Rightarrow> projection_error + unit" where
  "validate_snapshot sn =
     (if sn_changed_root_ids sn = []
      then validate_checkpoint \<lparr>ck_tasks = sn_tasks sn, ck_leases = sn_leases sn\<rparr>
      else validate_checkpoint
        \<lparr>ck_tasks = filter (\<lambda>t. t_root_task_id t \<in> set (sn_changed_root_ids sn)) (sn_tasks sn),
         ck_leases = filter (\<lambda>l. tl_root_task_id l \<in> set (sn_changed_root_ids sn)) (sn_leases sn)\<rparr>)"

section \<open>Agent history\<close>

definition scopes_differ :: "task \<Rightarrow> task \<Rightarrow> bool" where
  "scopes_differ t p =
     (t_policy_snapshot t \<noteq> t_policy_snapshot p \<or> t_workspace_scope t \<noteq> t_workspace_scope p
      \<or> t_write_scope t \<noteq> t_write_scope p)"

text \<open>
  The checks of one task, in the order of the source.  \<open>ops\<close> are the transfer operations seen so
  far; the result is extended by the task's own.
\<close>

definition history_transfer ::
    "task_map \<Rightarrow> task list \<Rightarrow> string set \<Rightarrow> task \<Rightarrow> projection_error + string set" where
  "history_transfer all tasks ops t =
     (case agent_run_transfer_of t of
        None \<Rightarrow> Inr ops
      | Some x \<Rightarrow>
         (case parent_task all t of
            None \<Rightarrow> Inl TransferParentMissing
          | Some parent \<Rightarrow>
             (case validate_agent_transfer_binding parent t x of
                Inl e \<Rightarrow> Inl (HistoryRejected e)
              | Inr _ \<Rightarrow>
                 (case validate_agent_transfer_subtree tasks t x of
                    Inl e \<Rightarrow> Inl (HistoryRejected e)
                  | Inr _ \<Rightarrow>
                      if rt_operation_id x \<in> ops then Inl TransferOperationRepeated
                      else Inr (insert (rt_operation_id x) ops)))))"

definition history_delegation :: "task_map \<Rightarrow> task \<Rightarrow> task \<Rightarrow> projection_error + unit" where
  "history_delegation all t parent =
     (if delegation_allowed t
         \<and> (t_parent_task_id parent \<noteq> None
            \<or> executor_binding_target_role parent \<noteq> Some coordinator_role
            \<or> t_root_task_id parent \<noteq> t_task_id parent
            \<or> scopes_differ t parent)
      then Inl DelegationSourceInvalid
      else if t_parent_task_id parent \<noteq> None
      then (case hget all (t_root_task_id t) of
              None \<Rightarrow> Inl NestedRootMissing
            | Some root \<Rightarrow>
                if \<not> delegation_allowed parent \<or> delegation_allowed t
                   \<or> t_parent_task_id parent \<noteq> Some (t_task_id root)
                   \<or> t_parent_task_id root \<noteq> None
                   \<or> t_root_task_id root \<noteq> t_task_id root
                   \<or> executor_binding_target_role root \<noteq> Some coordinator_role
                   \<or> scopes_differ t parent
                then Inl NestedDelegationInvalid else Inr ())
      else Inr ())"

definition history_source_mismatch ::
    "task_map \<Rightarrow> task \<Rightarrow> agent_activation \<Rightarrow> task \<Rightarrow> task \<Rightarrow> agent_activation \<Rightarrow> bool" where
  "history_source_mismatch all t binding parent previous source =
     (aa_agent_id source \<noteq> aa_agent_id binding
      \<or> aa_session_id source \<noteq> aa_session_id binding
      \<or> aa_lifetime source \<noteq> aa_lifetime binding
      \<or> checked_add (aa_generation source) 1 \<noteq> Some (aa_generation binding)
      \<or> (delegation_allowed t \<and> \<not> delegation_allowed previous)
      \<or> t_mission_id previous \<noteq> t_mission_id t
      \<or> \<not> same_agent_owner (parent_task all previous) parent
      \<or> t_status previous \<noteq> Completed
      \<or> aa_lifetime source = LifetimeTurn
      \<or> t_workspace_scope previous \<noteq> t_workspace_scope t
      \<or> t_write_scope previous \<noteq> t_write_scope t
      \<or> executor_binding_target_role previous \<noteq> executor_binding_target_role t
      \<or> list_ex (\<lambda>c. c \<notin> set (executor_binding_capability_ids previous))
          (executor_binding_capability_ids t))"

definition history_source ::
    "task_map \<Rightarrow> task \<Rightarrow> agent_activation \<Rightarrow> task \<Rightarrow> projection_error + unit" where
  "history_source all t binding parent =
     (case aa_previous_task_id binding of
        None \<Rightarrow> Inr ()
      | Some previous_id \<Rightarrow>
         (case hget all previous_id of
            None \<Rightarrow> Inl SourceMissing
          | Some previous \<Rightarrow>
             (case agent_activation_of previous of
                None \<Rightarrow> Inl SourceWithoutIdentity
              | Some source \<Rightarrow>
                  if history_source_mismatch all t binding parent previous source
                  then Inl SourceMismatch else Inr ())))"

type_synonym history_state = "(task_id \<times> u64) set \<times> string set"

definition history_step ::
    "externals \<Rightarrow> task_map \<Rightarrow> task list \<Rightarrow> history_state \<Rightarrow> task \<Rightarrow> projection_error + history_state" where
  "history_step ext all tasks st t =
     (case validate_project_directory_inheritance ext t (parent_task all t) of
        Inl e \<Rightarrow> Inl (HistoryRejected e)
      | Inr _ \<Rightarrow>
          if delegation_allowed t \<and> agent_activation_of t = None then Inl DelegationWithoutActivation
          else case agent_activation_of t of
            None \<Rightarrow> if agent_run_transfer_of t \<noteq> None then Inl TransferWithoutActivation else Inr st
          | Some binding \<Rightarrow>
     (case history_transfer all tasks (snd st) t of
        Inl e \<Rightarrow> Inl e
      | Inr ops \<Rightarrow>
     (case parent_task all t of
        None \<Rightarrow> Inl ActivationOwnershipInvalid
      | Some parent \<Rightarrow>
          if t_root_task_id parent \<noteq> t_root_task_id t \<or> t_mission_id parent \<noteq> t_mission_id t
          then Inl ActivationOwnershipInvalid
          else (case history_delegation all t parent of
            Inl e \<Rightarrow> Inl e
          | Inr _ \<Rightarrow>
              if (aa_agent_id binding, aa_generation binding) \<in> fst st then Inl GenerationRepeated
              else (case history_source all t binding parent of
                Inl e \<Rightarrow> Inl e
              | Inr _ \<Rightarrow>
                  Inr (insert (aa_agent_id binding, aa_generation binding) (fst st), ops))))))"

fun history_loop ::
    "externals \<Rightarrow> task_map \<Rightarrow> task list \<Rightarrow> history_state \<Rightarrow> task list \<Rightarrow> projection_error + unit" where
  "history_loop ext all tasks st [] = Inr ()"
| "history_loop ext all tasks st (t # ts) =
     (case history_step ext all tasks st t of
        Inl e \<Rightarrow> Inl e
      | Inr st' \<Rightarrow> history_loop ext all tasks st' ts)"

definition validate_agent_history :: "externals \<Rightarrow> task_store_checkpoint \<Rightarrow> projection_error + unit" where
  "validate_agent_history ext c =
     history_loop ext (tasks_by_id (ck_tasks c)) (ck_tasks c) ({}, {}) (ck_tasks c)"

section \<open>Projection sets\<close>

definition projection_refused :: "task_id set \<Rightarrow> task_root_projection \<Rightarrow> projection_error option" where
  "projection_refused roots p =
     (if pj_schema_version p \<noteq> task_projection_schema_version \<or> pj_generation p = 0
      then Some ProjectionVersionInvalid
      else if task_id_str (pj_root_task_id p) = [] \<or> pj_root_task_id p \<in> roots
      then Some ProjectionRootInvalid
      else if pj_tasks p = [] then Some (ProjectionEmpty (pj_root_task_id p))
      else if \<not> list_ex (\<lambda>t. t_task_id t = pj_root_task_id p \<and> t_root_task_id t = pj_root_task_id p)
                 (pj_tasks p)
      then Some (ProjectionWithoutRoot (pj_root_task_id p))
      else if list_ex (\<lambda>t. t_root_task_id t \<noteq> pj_root_task_id p) (pj_tasks p)
              \<or> list_ex (\<lambda>l. tl_root_task_id l \<noteq> pj_root_task_id p) (pj_leases p)
      then Some (ProjectionOwnershipInvalid (pj_root_task_id p))
      else None)"

fun projection_loop ::
    "task_id set \<Rightarrow> task_store_checkpoint \<Rightarrow> task_root_projection list \<Rightarrow>
     projection_error + task_store_checkpoint" where
  "projection_loop roots c [] = Inr c"
| "projection_loop roots c (p # ps) =
     (case projection_refused roots p of
        Some e \<Rightarrow> Inl e
      | None \<Rightarrow>
          projection_loop (insert (pj_root_task_id p) roots)
            \<lparr>ck_tasks = ck_tasks c @ pj_tasks p, ck_leases = ck_leases c @ pj_leases p\<rparr> ps)"

definition validate_projection_set ::
    "externals \<Rightarrow> task_root_projection list \<Rightarrow> projection_error + task_store_checkpoint" where
  "validate_projection_set ext ps =
     (case projection_loop {} \<lparr>ck_tasks = [], ck_leases = []\<rparr> ps of
        Inl e \<Rightarrow> Inl e
      | Inr c0 \<Rightarrow>
          let c = \<lparr>ck_tasks = sort_key t_task_id (ck_tasks c0),
                   ck_leases = sort_key tl_lease_id (ck_leases c0)\<rparr>
          in case validate_checkpoint c of
               Inl e \<Rightarrow> Inl e
             | Inr _ \<Rightarrow>
                 (case validate_agent_history ext c of Inl e \<Rightarrow> Inl e | Inr _ \<Rightarrow> Inr c))"

section \<open>Restoring a store\<close>

text \<open>\<open>id.as_str().rsplit('-').next()\<close>: the text after the last hyphen.\<close>

definition last_dash_part :: "string \<Rightarrow> string" where
  "last_dash_part s = rev (takeWhile (\<lambda>c. c \<noteq> CHR ''-'') (rev s))"

definition lease_counters :: "lease_map \<Rightarrow> u64 list" where
  "lease_counters leases =
     List.map_filter (\<lambda>i. parse_u64 (last_dash_part (lease_id_str i))) (hkeys leases)"

definition max_counter :: "u64 list \<Rightarrow> u64" where
  "max_counter ns = fold max ns 0"

text \<open>
  \<open>restore_checked\<close>.  \<open>counter\<close> is the value of \<open>LEASE_COUNTER\<close> before; the sum is the machine
  sum of the source.
\<close>

definition restore_checked ::
    "externals \<Rightarrow> u64 \<Rightarrow> task_store_checkpoint \<Rightarrow> projection_error + task_store" where
  "restore_checked ext counter c =
     (case validate_checkpoint c of
        Inl e \<Rightarrow> Inl e
      | Inr _ \<Rightarrow>
     (case validate_agent_history ext c of
        Inl e \<Rightarrow> Inl e
      | Inr _ \<Rightarrow>
          let tasks = tasks_by_id (ck_tasks c);
              index = fold (\<lambda>t. index_push (t_mission_id t) (t_task_id t)) (ck_tasks c) [];
              leases = fold (\<lambda>l. hput (tl_lease_id l) l) (ck_leases c) [];
              max_c = max_counter (lease_counters leases)
          in Inr (task_store_new\<lparr>ts_tasks := tasks, ts_leases := leases, ts_mission_index := index,
                    ts_lease_counter := (if max_c \<ge> counter then max_c + 1 else counter)\<rparr>)))"

section \<open>Projection file names\<close>

definition hex_digit :: "nat \<Rightarrow> char" where
  "hex_digit n = (if n < 10 then char_of (48 + n) else char_of (55 + n))"

definition is_file_name_byte :: "char \<Rightarrow> bool" where
  "is_file_name_byte c =
     ((CHR ''0'' \<le> c \<and> c \<le> CHR ''9'') \<or> (CHR ''A'' \<le> c \<and> c \<le> CHR ''Z'')
      \<or> (CHR ''a'' \<le> c \<and> c \<le> CHR ''z'') \<or> c = CHR ''-'' \<or> c = CHR ''_'')"

definition encode_file_name_byte :: "char \<Rightarrow> string" where
  "encode_file_name_byte c =
     (if is_file_name_byte c then [c]
      else [CHR ''%'', hex_digit (of_char c div 16), hex_digit (of_char c mod 16)])"

definition projection_file_name :: "string \<Rightarrow> string" where
  "projection_file_name s = concat (map encode_file_name_byte s) @ ''.json''"

end
