(* ===== verification/StoreInvariant.thy ===== *)
theory StoreInvariant
  imports TaskRestore
begin

text \<open>
  The well-formedness of the task store and the edges along which one operation may move a task.

  \<open>core_wf\<close> is the contract between the task map and the lease map: keys are the ids of the
  values, an active lease belongs to a running task of the same root and a task has at most one
  active lease.  \<open>index_wf\<close> says that the mission index lists exactly the stored tasks.
  \<open>task_edge\<close> is the lifecycle of one task; \<open>TaskLifecycle\<close> proves that every operation of the
  store moves every task along one of its edges.
\<close>

section \<open>Tasks and leases\<close>

definition leases_wf :: "lease_map \<Rightarrow> bool" where
  "leases_wf leases \<longleftrightarrow> hdistinct leases \<and> (\<forall>k l. hget leases k = Some l \<longrightarrow> tl_lease_id l = k)"

definition lease_backed :: "task_map \<Rightarrow> task_lease \<Rightarrow> bool" where
  "lease_backed tasks l \<longleftrightarrow>
     (case hget tasks (tl_task_id l) of
        None \<Rightarrow> False
      | Some t \<Rightarrow> t_status t = Running \<and> t_root_task_id t = tl_root_task_id l)"

definition active_backed :: "task_map \<Rightarrow> lease_map \<Rightarrow> bool" where
  "active_backed tasks leases \<longleftrightarrow>
     (\<forall>k l. hget leases k = Some l \<longrightarrow> tl_lease_status l = LeaseActive \<longrightarrow> lease_backed tasks l)"

definition active_unique :: "lease_map \<Rightarrow> bool" where
  "active_unique leases \<longleftrightarrow>
     (\<forall>j k l m. hget leases j = Some l \<longrightarrow> hget leases k = Some m \<longrightarrow>
        tl_lease_status l = LeaseActive \<longrightarrow> tl_lease_status m = LeaseActive \<longrightarrow>
        tl_task_id l = tl_task_id m \<longrightarrow> j = k)"

definition core_wf :: "task_map \<Rightarrow> lease_map \<Rightarrow> bool" where
  "core_wf tasks leases \<longleftrightarrow>
     tasks_wf tasks \<and> leases_wf leases \<and> active_backed tasks leases \<and> active_unique leases"

text \<open>The entry of mission \<open>m\<close>: no entry for a mission without tasks, never an empty one.\<close>

definition index_entry_ok :: "task_map \<Rightarrow> mission_id \<Rightarrow> task_id list option \<Rightarrow> bool" where
  "index_entry_ok tasks m entry \<longleftrightarrow>
     entry \<noteq> Some [] \<and> distinct (case entry of None \<Rightarrow> [] | Some ids \<Rightarrow> ids)
     \<and> set (case entry of None \<Rightarrow> [] | Some ids \<Rightarrow> ids)
       = {i. \<exists>t. hget tasks i = Some t \<and> t_mission_id t = m}"

definition index_wf :: "task_map \<Rightarrow> mission_map \<Rightarrow> bool" where
  "index_wf tasks index \<longleftrightarrow> hdistinct index \<and> (\<forall>m. index_entry_ok tasks m (hget index m))"

definition store_wf :: "task_store \<Rightarrow> bool" where
  "store_wf s \<longleftrightarrow>
     core_wf (ts_tasks s) (ts_leases s) \<and> index_wf (ts_tasks s) (ts_mission_index s)"

lemmas wf_defs = core_wf_def tasks_wf_def leases_wf_def active_backed_def active_unique_def

subsection \<open>Reading a well-formed store\<close>

lemma tasks_wf_id: "tasks_wf tasks \<Longrightarrow> hget tasks k = Some t \<Longrightarrow> t_task_id t = k"
  by (simp add: tasks_wf_def)

lemma leases_wf_id: "leases_wf leases \<Longrightarrow> hget leases k = Some l \<Longrightarrow> tl_lease_id l = k"
  by (simp add: leases_wf_def)

lemma tasks_wf_values:
  "tasks_wf tasks \<Longrightarrow> t \<in> set (hvalues tasks) \<longleftrightarrow> hget tasks (t_task_id t) = Some t"
  by (auto simp: tasks_wf_def hvalues_iff)

lemma leases_wf_values:
  "leases_wf leases \<Longrightarrow> l \<in> set (hvalues leases) \<longleftrightarrow> hget leases (tl_lease_id l) = Some l"
  by (auto simp: leases_wf_def hvalues_iff)

lemma lease_backed_iff:
  "lease_backed tasks l \<longleftrightarrow>
     (\<exists>t. hget tasks (tl_task_id l) = Some t \<and> t_status t = Running \<and> t_root_task_id t = tl_root_task_id l)"
  by (simp add: lease_backed_def split: option.splits)

lemma has_active_lease_iff:
  assumes "leases_wf leases"
  shows "has_active_lease leases i \<longleftrightarrow>
    (\<exists>k l. hget leases k = Some l \<and> tl_task_id l = i \<and> tl_lease_status l = LeaseActive)"
proof -
  have "l \<in> set (hvalues leases) \<longleftrightarrow> (\<exists>k. hget leases k = Some l)" for l
    using assms by (simp add: leases_wf_def hvalues_iff)
  then show ?thesis unfolding has_active_lease_def list_ex_iff by blast
qed

lemma active_leases_of_iff:
  assumes "leases_wf leases"
  shows "l \<in> set (active_leases_of leases i) \<longleftrightarrow>
    hget leases (tl_lease_id l) = Some l \<and> tl_task_id l = i \<and> tl_lease_status l = LeaseActive"
  using assms by (auto simp: active_leases_of_def leases_wf_values)

lemma find_active_lease_None:
  "find_active_lease leases i = None \<longleftrightarrow> \<not> has_active_lease leases i"
  by (auto simp: find_active_lease_def has_active_lease_def find_None_iff list_ex_iff)

lemma active_leases_of_Nil: "active_leases_of leases i = [] \<longleftrightarrow> \<not> has_active_lease leases i"
  by (auto simp: active_leases_of_def has_active_lease_def filter_empty_conv list_ex_iff)

lemma core_wf_active_running:
  assumes "core_wf tasks leases" "hget tasks i = Some t" "has_active_lease leases i"
  shows "t_status t = Running"
  using assms by (fastforce simp: has_active_lease_iff wf_defs lease_backed_def)

lemma core_wf_active_unique:
  assumes "core_wf tasks leases" "hget leases j = Some l" "hget leases k = Some m"
    "tl_lease_status l = LeaseActive" "tl_lease_status m = LeaseActive" "tl_task_id l = tl_task_id m"
  shows "j = k"
  using assms unfolding core_wf_def active_unique_def by blast

subsection \<open>Updates that keep the contract\<close>

lemma tasks_wf_hput: "tasks_wf tasks \<Longrightarrow> t_task_id t = k \<Longrightarrow> tasks_wf (hput k t tasks)"
  by (simp add: tasks_wf_def)

lemma leases_wf_hput: "leases_wf leases \<Longrightarrow> tl_lease_id l = k \<Longrightarrow> leases_wf (hput k l leases)"
  by (simp add: leases_wf_def)

lemma core_wf_put_task:
  assumes "core_wf tasks leases" "hget tasks k = Some t" "t_task_id t' = k"
    "t_root_task_id t' = t_root_task_id t" "has_active_lease leases k \<Longrightarrow> t_status t' = Running"
  shows "core_wf (hput k t' tasks) leases"
proof -
  have "lease_backed (hput k t' tasks) l"
    if "hget leases j = Some l" "tl_lease_status l = LeaseActive" for j l
  proof -
    have "lease_backed tasks l" using assms(1) that by (auto simp: wf_defs)
    moreover have "t_status t' = Running" if "tl_task_id l = k"
      using assms(1,5) that \<open>hget leases j = Some l\<close> \<open>tl_lease_status l = LeaseActive\<close>
      by (auto simp: has_active_lease_iff core_wf_def)
    ultimately show ?thesis using assms(2,4) by (auto simp: lease_backed_def)
  qed
  with assms(1,3) show ?thesis by (simp add: core_wf_def tasks_wf_hput active_backed_def)
qed

lemma core_wf_new_task:
  assumes "core_wf tasks leases" "hget tasks (t_task_id t) = None"
  shows "core_wf (hput (t_task_id t) t tasks) leases"
  using assms by (fastforce simp: wf_defs lease_backed_def split: option.splits)

lemma core_wf_put_lease:
  assumes "core_wf tasks leases" "hget leases k = Some l"
    "tl_lease_id l' = tl_lease_id l" "tl_task_id l' = tl_task_id l" "tl_root_task_id l' = tl_root_task_id l"
    "tl_lease_status l' = LeaseActive \<Longrightarrow> tl_lease_status l = LeaseActive"
  shows "core_wf tasks (hput k l' leases)"
proof -
  have "leases_wf (hput k l' leases)"
    using assms(1,2,3) by (simp add: core_wf_def leases_wf_def)
  moreover have "lease_backed tasks l'" if "tl_lease_status l' = LeaseActive"
  proof -
    have "lease_backed tasks l"
      using assms(1,2) assms(6) [OF that] unfolding core_wf_def active_backed_def by blast
    then show ?thesis using assms(4,5) by (simp add: lease_backed_iff)
  qed
  then have "active_backed tasks (hput k l' leases)"
    using assms(1) by (simp add: core_wf_def active_backed_def)
  moreover have "active_unique (hput k l' leases)"
    unfolding active_unique_def
  proof (intro allI impI)
    fix i j m n
    assume *: "hget (hput k l' leases) i = Some m" "hget (hput k l' leases) j = Some n"
      "tl_lease_status m = LeaseActive" "tl_lease_status n = LeaseActive" "tl_task_id m = tl_task_id n"
    define m0 where "m0 = (if i = k then l else m)"
    define n0 where "n0 = (if j = k then l else n)"
    have "hget leases i = Some m0" "hget leases j = Some n0" "tl_lease_status m0 = LeaseActive"
      "tl_lease_status n0 = LeaseActive" "tl_task_id m0 = tl_task_id n0"
      using * assms by (auto simp: m0_def n0_def split: if_splits)
    with assms(1) show "i = j" by (rule core_wf_active_unique)
  qed
  ultimately show ?thesis using assms(1) by (simp add: core_wf_def)
qed

lemma core_wf_add_lease:
  assumes "core_wf tasks leases" "lease_backed tasks l" "\<not> has_active_lease leases (tl_task_id l)"
  shows "core_wf tasks (hput (tl_lease_id l) l leases)"
proof -
  have none: "\<not> (hget leases k = Some m \<and> tl_lease_status m = LeaseActive \<and> tl_task_id m = tl_task_id l)"
    for k m
    using assms(1,3) by (auto simp: has_active_lease_iff core_wf_def)
  have "active_unique (hput (tl_lease_id l) l leases)"
    unfolding active_unique_def
  proof (intro allI impI)
    fix i j m n
    assume "hget (hput (tl_lease_id l) l leases) i = Some m" "hget (hput (tl_lease_id l) l leases) j = Some n"
      "tl_lease_status m = LeaseActive" "tl_lease_status n = LeaseActive" "tl_task_id m = tl_task_id n"
    then show "i = j"
      using none [of i m] none [of j n] core_wf_active_unique [OF assms(1)]
      by (auto split: if_splits)
  qed
  with assms(1,2) show ?thesis
    by (auto simp: core_wf_def leases_wf_hput active_backed_def)
qed

lemma core_wf_add_inactive_lease:
  assumes "core_wf tasks leases" "tl_lease_status l \<noteq> LeaseActive"
  shows "core_wf tasks (hput (tl_lease_id l) l leases)"
  using assms unfolding wf_defs by (auto split: if_splits)

lemma core_wf_retain:
  assumes "core_wf tasks leases" "hdistinct tasks'"
    "\<And>k t. hget tasks' k = Some t \<Longrightarrow> t_task_id t = k"
    "\<And>k l. hget leases k = Some l \<Longrightarrow> P l \<Longrightarrow> tl_lease_status l = LeaseActive \<Longrightarrow> lease_backed tasks' l"
  shows "core_wf tasks' (hretain P leases)"
proof -
  have sub: "hget leases k = Some l \<and> P l" if "hget (hretain P leases) k = Some l" for k l
    using that assms(1) by (auto simp: core_wf_def leases_wf_def hget_hretain split: option.splits if_splits)
  have "active_unique (hretain P leases)"
    using sub core_wf_active_unique [OF assms(1)] unfolding active_unique_def by meson
  moreover have "leases_wf (hretain P leases)"
    using sub assms(1) by (simp add: core_wf_def leases_wf_def)
  moreover have "active_backed tasks' (hretain P leases)"
    using sub assms(4) unfolding active_backed_def by blast
  ultimately show ?thesis using assms(2,3) by (simp add: core_wf_def tasks_wf_def)
qed

subsection \<open>The mission index\<close>

lemma index_entry_cong:
  assumes "\<And>k. map_option t_mission_id (hget tasks' k) = map_option t_mission_id (hget tasks k)"
  shows "index_entry_ok tasks' m entry = index_entry_ok tasks m entry"
proof -
  have "(\<exists>t. hget tasks' i = Some t \<and> t_mission_id t = m) \<longleftrightarrow>
      (\<exists>t. hget tasks i = Some t \<and> t_mission_id t = m)" for i
    using assms [of i] by (cases "hget tasks i"; cases "hget tasks' i") auto
  then show ?thesis by (simp add: index_entry_ok_def)
qed

lemma index_wf_cong:
  assumes "\<And>k. map_option t_mission_id (hget tasks' k) = map_option t_mission_id (hget tasks k)"
  shows "index_wf tasks' index = index_wf tasks index"
  using index_entry_cong [of tasks' tasks] assms by (simp add: index_wf_def)

lemma index_wf_put_task:
  assumes "hget tasks k = Some t" "t_mission_id t' = t_mission_id t"
  shows "index_wf (hput k t' tasks) index = index_wf tasks index"
  by (rule index_wf_cong) (use assms in auto)

lemma index_wf_push:
  assumes "index_wf tasks index" "hget tasks (t_task_id t) = None"
  shows "index_wf (hput (t_task_id t) t tasks) (index_push (t_mission_id t) (t_task_id t) index)"
proof -
  have "index_entry_ok (hput (t_task_id t) t tasks) m
      (hget (index_push (t_mission_id t) (t_task_id t) index) m)" for m
  proof -
    have "index_entry_ok tasks m (hget index m)" using assms(1) by (simp add: index_wf_def)
    with assms(2) show ?thesis
      by (auto simp: index_entry_ok_def index_push_def split: option.splits)
  qed
  with assms(1) show ?thesis by (simp add: index_wf_def index_push_def)
qed

lemma index_wf_remove:
  assumes "index_wf tasks index" "hget tasks k = Some t"
  shows "index_wf (hremove k tasks) (index_remove (t_mission_id t) k index)"
proof -
  have "index_entry_ok (hremove k tasks) m (hget (index_remove (t_mission_id t) k index) m)" for m
  proof -
    have ok: "index_entry_ok tasks m (hget index m)" using assms(1) by (simp add: index_wf_def)
    show ?thesis
    proof (cases "m = t_mission_id t")
      case True
      with ok assms(2) obtain ids where ids: "hget index m = Some ids" "distinct ids"
        "set ids = {i. \<exists>t. hget tasks i = Some t \<and> t_mission_id t = m}"
        by (cases "hget index m") (auto simp: index_entry_ok_def)
      then have "set (filter (\<lambda>i. i \<noteq> k) ids)
          = {i. \<exists>t. hget (hremove k tasks) i = Some t \<and> t_mission_id t = m}" by auto
      moreover have "hget (index_remove (t_mission_id t) k index) m
          = (if filter (\<lambda>i. i \<noteq> k) ids = [] then None else Some (filter (\<lambda>i. i \<noteq> k) ids))"
        using ids(1) True by (simp add: index_remove_def Let_def)
      ultimately show ?thesis
        using ids(2) unfolding index_entry_ok_def by (metis (no_types, lifting) distinct.simps(1)
            distinct_filter empty_set option.case option.distinct(1) option.inject)
    next
      case False
      then have "hget (index_remove (t_mission_id t) k index) m = hget index m"
        by (simp add: index_remove_def Let_def split: option.splits)
      with ok False assms(2) show ?thesis
        by (auto simp: index_entry_ok_def)
    qed
  qed
  with assms(1) show ?thesis
    by (simp add: index_wf_def index_remove_def Let_def split: option.splits)
qed

lemma index_wf_remove_mission:
  assumes "index_wf tasks index"
    "\<And>k. hget tasks' k = (case hget tasks k of None \<Rightarrow> None
        | Some t \<Rightarrow> if t_mission_id t = m then None else Some t)"
  shows "index_wf tasks' (hremove m index)"
proof -
  have "index_entry_ok tasks' n (hget (hremove m index) n)" for n
  proof -
    have "index_entry_ok tasks n (hget index n)" using assms(1) by (simp add: index_wf_def)
    moreover have "{i. \<exists>t. hget tasks' i = Some t \<and> t_mission_id t = n} =
        (if n = m then {} else {i. \<exists>t. hget tasks i = Some t \<and> t_mission_id t = n})"
      using assms(2) by (auto split: option.splits if_splits)
    ultimately show ?thesis by (simp add: index_entry_ok_def)
  qed
  with assms(1) show ?thesis by (simp add: index_wf_def)
qed

end
