(* ===== verification/TaskLifecycle.thy ===== *)
theory TaskLifecycle
  imports StoreInvariant
begin

text \<open>
  The lifecycle of a task as the store drives it: the fields no operation touches, the edges of
  the state machine, and for every operation the proof that it keeps the store well formed and
  moves each task along an edge.
\<close>

section \<open>Edges\<close>

text \<open>The identity of a task: what no operation of the store changes.\<close>

definition task_frame :: "task \<Rightarrow> task \<Rightarrow> bool" where
  "task_frame t t' \<longleftrightarrow>
     t_task_id t' = t_task_id t \<and> t_mission_id t' = t_mission_id t
     \<and> t_root_task_id t' = t_root_task_id t \<and> t_parent_task_id t' = t_parent_task_id t
     \<and> t_kind t' = t_kind t \<and> t_title t' = t_title t
     \<and> t_completion_contract t' = t_completion_contract t
     \<and> t_recovery_checkpoint t' = t_recovery_checkpoint t
     \<and> t_workspace_scope t' = t_workspace_scope t \<and> t_write_scope t' = t_write_scope t
     \<and> t_created_at t' = t_created_at t
     \<and> map_option (eb_agent_run_transfer_update (\<lambda>_. None)) (t_executor_binding t')
       = map_option (eb_agent_run_transfer_update (\<lambda>_. None)) (t_executor_binding t)"

definition transfer_kept :: "task \<Rightarrow> task \<Rightarrow> bool" where
  "transfer_kept t t' \<longleftrightarrow>
     agent_run_transfer_of t = None \<or> agent_run_transfer_of t' = agent_run_transfer_of t"

inductive task_edge :: "externals \<Rightarrow> task \<Rightarrow> task \<Rightarrow> bool" for ext t t' where
  edge_keep: "task_frame t t' \<Longrightarrow> transfer_kept t t' \<Longrightarrow> t_status t' = t_status t \<Longrightarrow>
    t_retry_count t' = t_retry_count t \<Longrightarrow> task_edge ext t t'"
| edge_start: "t_status t = Pending \<Longrightarrow> t' = t\<lparr>t_status := Running, t_updated_at := now\<rparr> \<Longrightarrow>
    task_edge ext t t'"
| edge_complete: "apply_completion ext attempt now t = Inr t' \<Longrightarrow> task_edge ext t t'"
| edge_settle: "apply_terminal_status st refs now t = Inr t' \<Longrightarrow> task_edge ext t t'"
| edge_reopen: "t_status t = Failed \<Longrightarrow> checked_add (t_retry_count t) 1 = Some n \<Longrightarrow>
    is_open_status new \<Longrightarrow> t' = t\<lparr>t_retry_count := n, t_status := new, t_updated_at := now\<rparr> \<Longrightarrow>
    task_edge ext t t'"
| edge_reject: "t_status t = Completed \<Longrightarrow> t_root_task_id t = t_task_id t \<Longrightarrow>
    t_parent_task_id t = None \<Longrightarrow> t' = t\<lparr>t_status := Failed, t_updated_at := now\<rparr> \<Longrightarrow>
    task_edge ext t t'"

lemma task_frame_refl [simp]: "task_frame t t"
  by (simp add: task_frame_def)

lemma transfer_kept_refl [simp]: "transfer_kept t t"
  by (simp add: transfer_kept_def)

lemma task_edge_refl [simp, intro]: "task_edge ext t t"
  by (rule edge_keep) auto

lemma apply_completion_Inr:
  "apply_completion ext attempt now t = Inr t' \<longleftrightarrow>
     t_status t = Running \<and> contract_validate ext (t_completion_contract t) attempt = Inr ()
     \<and> t' = t\<lparr>t_output_refs := ca_output_refs attempt,
             t_evidence_refs := map (evidence_json ext) (ca_evidence attempt),
             t_status := Completed, t_updated_at := now\<rparr>"
  by (auto simp: apply_completion_def split: sum.splits)

lemma apply_terminal_Inr:
  "apply_terminal_status st refs now t = Inr t' \<longleftrightarrow>
     (st = Failed \<or> st = Killed) \<and> is_open_status (t_status t)
     \<and> t' = t\<lparr>t_output_refs := (if refs \<noteq> [] then refs else t_output_refs t),
             t_status := st, t_updated_at := now\<rparr>"
  by (auto simp: apply_terminal_status_def)

lemma task_edge_frame: "task_edge ext t t' \<Longrightarrow> task_frame t t'"
  by (induction rule: task_edge.induct)
    (auto simp: apply_completion_Inr apply_terminal_Inr task_frame_def)

lemma task_edge_transfer: "task_edge ext t t' \<Longrightarrow> transfer_kept t t'"
  by (induction rule: task_edge.induct)
    (auto simp: apply_completion_Inr apply_terminal_Inr transfer_kept_def agent_run_transfer_of_def)

lemma task_frame_activation: "task_frame t t' \<Longrightarrow> agent_activation_of t' = agent_activation_of t"
  by (cases "t_executor_binding t"; cases "t_executor_binding t'")
    (auto simp: task_frame_def agent_activation_of_def dest!: arg_cong [where f = eb_agent_activation])

lemma task_frame_delegation: "task_frame t t' \<Longrightarrow> delegation_allowed t' = delegation_allowed t"
  by (cases "t_executor_binding t"; cases "t_executor_binding t'")
    (auto simp: task_frame_def delegation_allowed_def dest!: arg_cong [where f = eb_delegation_allowed])

lemma task_frame_role:
  "task_frame t t' \<Longrightarrow> executor_binding_target_role t' = executor_binding_target_role t"
  by (cases "t_executor_binding t"; cases "t_executor_binding t'")
    (auto simp: task_frame_def executor_binding_target_role_def dest!: arg_cong [where f = eb_target_role])

section \<open>What every operation keeps\<close>

definition task_edges :: "externals \<Rightarrow> task_map \<Rightarrow> task_map \<Rightarrow> bool" where
  "task_edges ext tasks tasks' \<longleftrightarrow>
     (\<forall>k t t'. hget tasks k = Some t \<longrightarrow> hget tasks' k = Some t' \<longrightarrow> task_edge ext t t')"

definition op_ok :: "externals \<Rightarrow> task_store \<Rightarrow> task_store \<Rightarrow> bool" where
  "op_ok ext s s' \<longleftrightarrow> (store_wf s \<longrightarrow> store_wf s' \<and> task_edges ext (ts_tasks s) (ts_tasks s'))"

lemma op_okI: "(store_wf s \<Longrightarrow> store_wf s') \<Longrightarrow> (store_wf s \<Longrightarrow> task_edges ext (ts_tasks s) (ts_tasks s')) \<Longrightarrow>
    op_ok ext s s'"
  by (simp add: op_ok_def)

lemma task_edges_refl [simp]: "task_edges ext tasks tasks"
  by (auto simp: task_edges_def)

lemma task_edges_put:
  "hget tasks k = Some t \<Longrightarrow> task_edge ext t t' \<Longrightarrow> task_edges ext tasks (hput k t' tasks)"
  by (auto simp: task_edges_def)

lemma op_ok_refl [simp, intro]: "op_ok ext s s"
  by (simp add: op_ok_def)

subsection \<open>The commit protocol\<close>

lemma emit_status_change_simps [simp]:
  "ts_tasks (emit_status_change i old new t s) = ts_tasks s"
  "ts_leases (emit_status_change i old new t s) = ts_leases s"
  "ts_mission_index (emit_status_change i old new t s) = ts_mission_index s"
  by (simp_all add: emit_status_change_def notify_status_change_def)

lemma notify_status_change_simps [simp]:
  "ts_tasks (notify_status_change s) = ts_tasks s"
  "ts_leases (notify_status_change s) = ts_leases s"
  "ts_mission_index (notify_status_change s) = ts_mission_index s"
  by (simp_all add: notify_status_change_def)

lemma commit_maps_simps [simp]:
  "ts_tasks (commit_maps tasks leases index s) = tasks"
  "ts_leases (commit_maps tasks leases index s) = leases"
  "ts_mission_index (commit_maps tasks leases index s) = index"
  by (simp_all add: commit_maps_def)

lemma emit_changes_simps [simp]:
  "ts_tasks (emit_changes st changes s) = ts_tasks s"
  "ts_leases (emit_changes st changes s) = ts_leases s"
  "ts_mission_index (emit_changes st changes s) = ts_mission_index s"
  by (induction changes arbitrary: s) (auto simp: emit_changes_def)

lemma emit_reopened_simps [simp]:
  "ts_tasks (emit_reopened changed s) = ts_tasks s"
  "ts_leases (emit_reopened changed s) = ts_leases s"
  "ts_mission_index (emit_reopened changed s) = ts_mission_index s"
  by (induction changed arbitrary: s) (auto simp: emit_reopened_def)

lemma op_ok_checkpoint:
  "op_ok ext s s' \<Longrightarrow> op_ok ext s (snd (checkpoint_then s sn r s'))"
  by (simp add: checkpoint_then_def split: sum.split)

text \<open>A result that differs from \<open>s'\<close> only outside the three maps.\<close>

lemma op_ok_same_maps:
  assumes "op_ok ext s s'"
    "ts_tasks s'' = ts_tasks s'" "ts_leases s'' = ts_leases s'" "ts_mission_index s'' = ts_mission_index s'"
  shows "op_ok ext s s''"
  using assms by (simp add: op_ok_def store_wf_def)

lemma op_ok_put_task:
  assumes "hget (ts_tasks s) k = Some t" "task_edge ext t t'"
    "store_wf s \<Longrightarrow> has_active_lease (ts_leases s) k \<Longrightarrow> t_status t' = Running"
    "ts_tasks s' = hput k t' (ts_tasks s)" "ts_leases s' = ts_leases s"
    "ts_mission_index s' = ts_mission_index s"
  shows "op_ok ext s s'"
proof (rule op_okI)
  assume wf: "store_wf s"
  have frame: "task_frame t t'" using assms(2) by (rule task_edge_frame)
  have "t_task_id t = k" using wf assms(1) by (auto simp: store_wf_def core_wf_def intro: tasks_wf_id)
  with frame wf assms(1,3) have "core_wf (hput k t' (ts_tasks s)) (ts_leases s)"
    by (intro core_wf_put_task [where t = t]) (auto simp: store_wf_def task_frame_def)
  moreover have "index_wf (hput k t' (ts_tasks s)) (ts_mission_index s)"
    using wf assms(1) frame by (auto simp: index_wf_put_task store_wf_def task_frame_def)
  ultimately show "store_wf s'" using assms(4-6) by (simp add: store_wf_def)
qed (use assms in \<open>auto intro: task_edges_put\<close>)

lemma running_if_leased:
  "store_wf s \<Longrightarrow> hget (ts_tasks s) k = Some t \<Longrightarrow> has_active_lease (ts_leases s) k \<Longrightarrow>
   t_status t = Running"
  by (auto simp: store_wf_def intro: core_wf_active_running)

section \<open>Operations on tasks\<close>

lemma insert_task_inner_ok: "op_ok ext s (snd (insert_task_inner ext' t checkpoint s))"
proof -
  let ?tasks = "hput (t_task_id t) t (ts_tasks s)"
  let ?s' = "s\<lparr>ts_tasks := ?tasks,
      ts_mission_index := index_push (t_mission_id t) (t_task_id t) (ts_mission_index s)\<rparr>"
  have "op_ok ext s ?s'" if new: "hget (ts_tasks s) (t_task_id t) = None"
  proof (rule op_okI)
    show "store_wf s \<Longrightarrow> store_wf ?s'"
      using new by (simp add: store_wf_def core_wf_new_task index_wf_push)
    show "task_edges ext (ts_tasks s) (ts_tasks ?s')"
      using new by (auto simp: task_edges_def)
  qed
  then show ?thesis
    by (auto simp: insert_task_inner_def hmem_def Let_def intro: op_ok_checkpoint split: sum.split)
qed

lemma set_transfer_edge:
  "agent_run_transfer_of t = None \<Longrightarrow> task_edge ext t (set_transfer x now t)"
  by (rule edge_keep) (auto simp: set_transfer_def task_frame_def transfer_kept_def option.map_comp o_def)

lemma transfer_agent_subtree_ok: "op_ok ext s (snd (transfer_agent_subtree parent_id child_id x now s))"
  unfolding transfer_agent_subtree_def Let_def
  by (auto split: option.split sum.split intro!: op_ok_checkpoint)
    (rule op_ok_put_task, assumption, erule set_transfer_edge,
      auto dest: running_if_leased simp: set_transfer_def)+

lemma freeze_policy_simps [simp]:
  "t_status (freeze_policy old new t) = t_status t"
  "t_retry_count (freeze_policy old new t) = t_retry_count t"
  by (simp_all add: freeze_policy_def)

lemma update_status_edge:
  assumes "\<not> is_terminal_status new" "is_valid_transition (t_status t) new"
  shows "task_edge ext t ((freeze_policy (t_status t) new t)\<lparr>t_status := new, t_updated_at := now\<rparr>)"
proof (cases "t_status t = new")
  case True
  show ?thesis
    by (rule edge_keep)
      (use True in \<open>auto simp: freeze_policy_def task_frame_def transfer_kept_def agent_run_transfer_of_def\<close>)
next
  case False
  then have "t_status t = Pending" "new = Running"
    using assms by (auto simp: is_terminal_status_def is_valid_transition_def)
  then show ?thesis
    by (intro edge_start [where now = now]) (auto simp: freeze_policy_def)
qed

lemma update_status_checked_ok: "op_ok ext s (snd (update_status_checked tid new now s))"
  unfolding update_status_checked_def Let_def
  by (auto split: option.split intro!: op_ok_checkpoint)
    (rule op_ok_put_task, assumption, erule (1) update_status_edge,
      auto dest: running_if_leased simp: is_valid_transition_def is_terminal_status_def)

lemma recovery_edge:
  assumes "(t_status t, new) \<in> {(Failed, Pending), (Failed, Running), (Completed, Failed)}"
    "next_recovery_generation new (t_retry_count t) = Some n"
    "t_status t = Completed \<longrightarrow> t_root_task_id t = t_task_id t \<and> t_parent_task_id t = None"
  shows "task_edge ext t (t\<lparr>t_retry_count := n, t_status := new, t_updated_at := now\<rparr>)"
proof (cases "t_status t = Completed")
  case True
  then show ?thesis
    using assms by (intro edge_reject [where now = now]) (auto simp: next_recovery_generation_def)
next
  case False
  then show ?thesis
    using assms
    by (intro edge_reopen [where now = now and n = n and new = new])
      (auto simp: next_recovery_generation_def)
qed

lemma transition_recovery_status_ok:
  assumes "(expected, new) \<in> {(Failed, Pending), (Failed, Running), (Completed, Failed)}"
    "expected = Completed \<Longrightarrow> root_only"
  shows "op_ok ext s (snd (transition_recovery_status tid expected new root_only now s))"
proof (cases "store_wf s")
  case True
  then have id: "hget (ts_tasks s) tid = Some t \<Longrightarrow> t_task_id t = tid" for t
    by (auto simp: store_wf_def core_wf_def intro: tasks_wf_id)
  have "op_ok ext s (emit_status_change tid expected new t'
      (s\<lparr>ts_tasks := hput tid t' (ts_tasks s)\<rparr>))"
    if t: "hget (ts_tasks s) tid = Some t" and st: "t_status t = expected"
      and root: "\<not> (root_only \<and> (t_root_task_id t \<noteq> tid \<or> t_parent_task_id t \<noteq> None))"
      and n: "next_recovery_generation new (t_retry_count t) = Some n"
      and lease: "\<not> has_active_lease (ts_leases s) tid"
      and t': "t' = t\<lparr>t_retry_count := n, t_status := new, t_updated_at := now\<rparr>" for t t' n
  proof (rule op_ok_put_task [OF t])
    show "task_edge ext t t'"
      unfolding t' by (rule recovery_edge) (use assms st n root id [OF t] in auto)
  qed (use lease in auto)
  then show ?thesis
    unfolding transition_recovery_status_def Let_def
    by (auto split: option.split intro!: op_ok_checkpoint)
qed (simp add: op_ok_def)

lemma complete_task_ok: "op_ok ext s (snd (complete_task ext tid attempt now s))"
  unfolding complete_task_def Let_def
  by (auto split: option.split sum.split intro!: op_ok_checkpoint)
    (rule op_ok_put_task, assumption, erule edge_complete, auto)

lemma append_agent_context_access_ok:
  "op_ok ext s (snd (append_agent_context_access tid rec now s))"
  unfolding append_agent_context_access_def Let_def
  by (auto split: option.split task_runtime_payload.split intro!: op_ok_checkpoint)
    (rule op_ok_put_task, assumption, rule edge_keep,
      auto dest: running_if_leased simp: task_frame_def transfer_kept_def agent_run_transfer_of_def)

lemma deliver_agent_context_supplement_ok:
  "op_ok ext s (snd (deliver_agent_context_supplement tid expected supplement access s))"
  unfolding deliver_agent_context_supplement_def Let_def
  by (auto split: option.split task_runtime_payload.split intro!: op_ok_checkpoint)
    (rule op_ok_put_task, assumption, rule edge_keep,
      auto dest: running_if_leased simp: task_frame_def transfer_kept_def agent_run_transfer_of_def)

lemma update_task_goal_ok: "op_ok ext s (snd (update_task_goal tid goal now s))"
  unfolding update_task_goal_def
  by (auto split: option.split)
    (rule op_ok_put_task, assumption, rule edge_keep,
      auto dest: running_if_leased simp: task_frame_def transfer_kept_def agent_run_transfer_of_def)

end
