(* ===== verification/LeaseLifecycle.thy ===== *)
theory LeaseLifecycle
  imports TaskLifecycle
begin

text \<open>
  The same for the operations that hold several tasks or a lease: claiming, completing and
  terminating a leased task, ending a subtree, reopening a transferred scope, settling the store
  after a restart and removing tasks.
\<close>

section \<open>Moving several tasks at once\<close>

text \<open>Every task of \<open>tasks\<close> is still there and moved along at most one edge; no task is new.\<close>

definition tasks_moved :: "externals \<Rightarrow> task_map \<Rightarrow> task_map \<Rightarrow> bool" where
  "tasks_moved ext tasks tasks' \<longleftrightarrow>
     hdistinct tasks' \<and> (\<forall>k. rel_option (task_edge ext) (hget tasks k) (hget tasks' k))"

lemma tasks_moved_edges: "tasks_moved ext tasks tasks' \<Longrightarrow> task_edges ext tasks tasks'"
  unfolding tasks_moved_def task_edges_def
  by (metis option.rel_inject(2))

lemma tasks_moved_SomeD:
  assumes "tasks_moved ext tasks tasks'" "hget tasks k = Some t"
  obtains t' where "hget tasks' k = Some t'" "task_edge ext t t'"
proof -
  have "rel_option (task_edge ext) (Some t) (hget tasks' k)"
    using assms unfolding tasks_moved_def by metis
  then show thesis using that by (auto simp: option_rel_Some1)
qed

lemma tasks_moved_backD:
  assumes "tasks_moved ext tasks tasks'" "hget tasks' k = Some t'"
  obtains t where "hget tasks k = Some t" "task_edge ext t t'"
proof -
  have "rel_option (task_edge ext) (hget tasks k) (Some t')"
    using assms unfolding tasks_moved_def by metis
  then show thesis using that by (auto simp: option_rel_Some2)
qed

lemma tasks_moved_wf:
  assumes "tasks_wf tasks" "tasks_moved ext tasks tasks'"
  shows "tasks_wf tasks'"
proof -
  have "t_task_id t' = k" if "hget tasks' k = Some t'" for k t'
  proof -
    obtain t where "hget tasks k = Some t" "task_edge ext t t'"
      using assms(2) \<open>hget tasks' k = Some t'\<close> by (rule tasks_moved_backD)
    then show ?thesis
      using assms(1) task_edge_frame by (fastforce simp: tasks_wf_def task_frame_def)
  qed
  with assms(2) show ?thesis by (simp add: tasks_wf_def tasks_moved_def)
qed

lemma tasks_moved_index:
  assumes "tasks_moved ext tasks tasks'"
  shows "index_wf tasks' index = index_wf tasks index"
proof (rule index_wf_cong)
  fix k
  have "rel_option (task_edge ext) (hget tasks k) (hget tasks' k)"
    using assms by (simp add: tasks_moved_def)
  then show "map_option t_mission_id (hget tasks' k) = map_option t_mission_id (hget tasks k)"
    by (cases rule: option.rel_cases) (auto dest: task_edge_frame simp: task_frame_def)
qed

lemma core_wf_moved:
  assumes "core_wf tasks leases" "tasks_moved ext tasks tasks'"
    "\<And>k t. hget tasks' k = Some t \<Longrightarrow> has_active_lease leases k \<Longrightarrow> t_status t = Running"
  shows "core_wf tasks' leases"
proof -
  have "lease_backed tasks' l" if l: "hget leases j = Some l" "tl_lease_status l = LeaseActive" for j l
  proof -
    obtain t where t: "hget tasks (tl_task_id l) = Some t" "t_root_task_id t = tl_root_task_id l"
      using assms(1) l by (auto simp: core_wf_def active_backed_def lease_backed_iff)
    obtain t' where t': "hget tasks' (tl_task_id l) = Some t'" "task_edge ext t t'"
      using assms(2) t(1) by (rule tasks_moved_SomeD)
    moreover have "has_active_lease leases (tl_task_id l)"
      using assms(1) l by (auto simp: has_active_lease_iff core_wf_def)
    ultimately show ?thesis
      using assms(3) t task_edge_frame [OF t'(2)] by (simp add: lease_backed_iff task_frame_def)
  qed
  with assms(1,2) show ?thesis by (auto simp: core_wf_def active_backed_def intro: tasks_moved_wf)
qed

lemma op_ok_moved:
  assumes "store_wf s \<Longrightarrow> tasks_moved ext (ts_tasks s) (ts_tasks s')"
    "store_wf s \<Longrightarrow> core_wf (ts_tasks s') (ts_leases s')"
    "ts_mission_index s' = ts_mission_index s"
  shows "op_ok ext s s'"
  using assms by (auto simp: op_ok_def store_wf_def tasks_moved_index intro: tasks_moved_edges)

section \<open>Settling one task in candidate maps\<close>

lemma requested_leaseD:
  assumes "leases_wf leases"
    "requested_lease tasks leases i root lease_id discover = Inr (Some (Some l))"
  shows "hget leases (tl_lease_id l) = Some l" "tl_task_id l = i" "tl_lease_status l = LeaseActive"
    "discover \<or> lease_id = Some (tl_lease_id l)"
proof -
  have "hget leases (tl_lease_id l) = Some l \<and> tl_task_id l = i \<and> tl_lease_status l = LeaseActive
      \<and> (discover \<or> lease_id = Some (tl_lease_id l))"
  proof (cases discover)
    case True
    with assms(2) have "l \<in> set (active_leases_of leases i)"
      by (auto simp: requested_lease_def split: list.splits)
    with assms(1) True show ?thesis by (simp add: active_leases_of_iff)
  next
    case False
    with assms show ?thesis
      by (auto simp: requested_lease_def leases_wf_def split: option.splits sum.splits if_splits)
  qed
  then show "hget leases (tl_lease_id l) = Some l" "tl_task_id l = i" "tl_lease_status l = LeaseActive"
    "discover \<or> lease_id = Some (tl_lease_id l)" by auto
qed

lemma check_active_leases_roots:
  "check_active_leases tasks root ls = Inr () \<Longrightarrow> l \<in> set ls \<Longrightarrow> tl_root_task_id l = root"
  by (induction ls) (auto split: sum.splits if_splits)

text \<open>The successful path of \<open>prepare_task_terminal_in_maps\<close>.\<close>

lemma prepare_Some:
  assumes "prepare_task_terminal_in_maps tasks leases i root lease_id st refs discover now
      = (Inr (Some c), tasks', leases')"
  obtains t t' req where "hget tasks i = Some t" "validate_task_root tasks i root = Inr ()"
    "check_active_leases tasks root (active_leases_of leases i) = Inr ()"
    "requested_lease tasks leases i root lease_id discover = Inr (Some req)"
    "apply_terminal_status st refs now t = Inr t'" "tasks' = hput i t' tasks" "c = (t_status t, t')"
    "case req of None \<Rightarrow> active_leases_of leases i = [] \<and> leases' = leases
     | Some l \<Rightarrow> set_lease_status (tl_lease_id l) LeaseRevoked leases = Some leases'"
  using assms unfolding prepare_task_terminal_in_maps_def Let_def
  by (auto split: sum.splits option.splits if_splits list.splits)

text \<open>
  What \<open>prepare_task_terminal_in_maps\<close> may do on a well-formed lease map: nothing, or settle the
  open task, revoking its active lease when it has one.
\<close>

lemma prepare_cases:
  assumes wf: "leases_wf leases"
    and eq: "prepare_task_terminal_in_maps tasks leases i root lease_id st refs discover now
      = (r, tasks', leases')"
  obtains (none) "tasks' = tasks" "leases' = leases" "\<And>c. r \<noteq> Inr (Some c)"
  | (unleased) t t' where "hget tasks i = Some t" "apply_terminal_status st refs now t = Inr t'"
      "tasks' = hput i t' tasks" "leases' = leases" "\<not> has_active_lease leases i"
      "discover \<or> lease_id = None" "r = Inr (Some (t_status t, t'))"
  | (leased) t t' l where "hget tasks i = Some t" "apply_terminal_status st refs now t = Inr t'"
      "tasks' = hput i t' tasks" "hget leases (tl_lease_id l) = Some l" "tl_task_id l = i"
      "tl_lease_status l = LeaseActive" "tl_root_task_id l = root" "discover \<or> lease_id = Some (tl_lease_id l)"
      "leases' = hput (tl_lease_id l) (l\<lparr>tl_lease_status := LeaseRevoked\<rparr>) leases"
      "r = Inr (Some (t_status t, t'))"
proof (cases "\<exists>c. r = Inr (Some c)")
  case False
  have no_lease: "set_lease_status (tl_lease_id l) LeaseRevoked leases \<noteq> None"
    if "requested_lease tasks leases i root lease_id discover = Inr (Some (Some l))" for l
    using requested_leaseD(1) [OF wf that] by (simp add: set_lease_status_def)
  have "tasks' = tasks \<and> leases' = leases"
    using eq False no_lease unfolding prepare_task_terminal_in_maps_def Let_def
    by (auto split: sum.splits option.splits if_splits)
  then show ?thesis using False none by blast
next
  case True
  then obtain c where r: "r = Inr (Some c)" by auto
  from eq [unfolded r] show ?thesis
  proof (rule prepare_Some)
    fix t t' req
    assume h: "hget tasks i = Some t" "check_active_leases tasks root (active_leases_of leases i) = Inr ()"
      "requested_lease tasks leases i root lease_id discover = Inr (Some req)"
      "apply_terminal_status st refs now t = Inr t'" "tasks' = hput i t' tasks" "c = (t_status t, t')"
      "case req of None \<Rightarrow> active_leases_of leases i = [] \<and> leases' = leases
       | Some l \<Rightarrow> set_lease_status (tl_lease_id l) LeaseRevoked leases = Some leases'"
    show ?thesis
    proof (cases req)
      case None
      then have "discover \<or> lease_id = None"
        using h(3) by (auto simp: requested_lease_def split: option.splits if_splits sum.splits)
      with None h r show ?thesis by (auto simp: active_leases_of_Nil intro: unleased)
    next
      case (Some l)
      note l = requested_leaseD [OF wf h(3) [unfolded Some]]
      moreover have "tl_root_task_id l = root"
        using l h(2) wf by (auto simp: active_leases_of_iff intro: check_active_leases_roots)
      ultimately show ?thesis
        using h r Some by (auto simp: set_lease_status_def intro: leased)
    qed
  qed
qed

lemma no_active_after_put:
  assumes "core_wf tasks leases" "hget leases k = Some l" "tl_lease_status l = LeaseActive"
    "tl_lease_status l' \<noteq> LeaseActive" "tl_lease_id l' = tl_lease_id l"
  shows "\<not> has_active_lease (hput k l' leases) (tl_task_id l)"
proof
  assume *: "has_active_lease (hput k l' leases) (tl_task_id l)"
  have "leases_wf (hput k l' leases)"
    using assms(1,2,5) by (simp add: core_wf_def leases_wf_def)
  with * obtain j m where "hget (hput k l' leases) j = Some m" "tl_task_id m = tl_task_id l"
    "tl_lease_status m = LeaseActive"
    by (auto simp: has_active_lease_iff)
  then have "j \<noteq> k" "hget leases j = Some m" using assms(4) by (auto split: if_splits)
  then show False
    using core_wf_active_unique [OF assms(1) _ assms(2)] \<open>tl_task_id m = tl_task_id l\<close>
      \<open>tl_lease_status m = LeaseActive\<close> assms(3) by blast
qed

lemma core_wf_end_lease:
  assumes "core_wf tasks leases" "hget tasks k = Some t" "task_edge ext t t'"
    "hget leases j = Some l" "tl_task_id l = k" "tl_lease_status l = LeaseActive" "st \<noteq> LeaseActive"
  shows "core_wf (hput k t' tasks) (hput j (l\<lparr>tl_lease_status := st\<rparr>) leases)"
proof -
  have "core_wf tasks (hput j (l\<lparr>tl_lease_status := st\<rparr>) leases)"
    using assms by (intro core_wf_put_lease [where l = l]) auto
  moreover have "\<not> has_active_lease (hput j (l\<lparr>tl_lease_status := st\<rparr>) leases) k"
    using no_active_after_put [OF assms(1,4,6)] assms(5,7) by simp
  moreover have "t_task_id t = k" using assms(1,2) by (auto simp: core_wf_def intro: tasks_wf_id)
  ultimately show ?thesis
    using assms(2) task_edge_frame [OF assms(3)]
    by (intro core_wf_put_task [where t = t]) (auto simp: task_frame_def)
qed

lemma prepare_core_wf:
  assumes "core_wf tasks leases"
    "prepare_task_terminal_in_maps tasks leases i root lease_id st refs discover now
      = (r, tasks', leases')"
  shows "core_wf tasks' leases'"
proof -
  have "leases_wf leases" using assms(1) by (simp add: core_wf_def)
  from this assms(2) show ?thesis
  proof (cases rule: prepare_cases)
    case none
    with assms(1) show ?thesis by simp
  next
    case (unleased t t')
    from unleased(2) have "task_edge undefined t t'" by (rule edge_settle)
    moreover have "t_task_id t = i"
      using assms(1) unleased(1) by (auto simp: core_wf_def intro: tasks_wf_id)
    ultimately show ?thesis
      using assms(1) unleased task_edge_frame
      by (fastforce intro: core_wf_put_task simp: task_frame_def)
  next
    case (leased t t' l)
    from leased(2) have "task_edge undefined t t'" by (rule edge_settle)
    with assms(1) leased show ?thesis by (auto intro: core_wf_end_lease)
  qed
qed

section \<open>Settling several tasks\<close>

text \<open>Each task of \<open>tasks\<close> is as in \<open>tasks0\<close>, or was open there and is settled with \<open>st\<close> now.\<close>

definition settled_from :: "task_status \<Rightarrow> string list \<Rightarrow> task_map \<Rightarrow> task_map \<Rightarrow> bool" where
  "settled_from st refs tasks0 tasks \<longleftrightarrow>
     hdistinct tasks \<and>
     (\<forall>k. hget tasks k = hget tasks0 k \<or>
        (\<exists>t t' now. hget tasks0 k = Some t \<and> hget tasks k = Some t'
           \<and> apply_terminal_status st refs now t = Inr t'))"

lemma settled_from_refl: "hdistinct tasks \<Longrightarrow> settled_from st refs tasks tasks"
  by (simp add: settled_from_def)

lemma settled_from_moved:
  assumes "settled_from st refs tasks0 tasks"
  shows "tasks_moved ext tasks0 tasks"
proof -
  have "rel_option (task_edge ext) (hget tasks0 k) (hget tasks k)" for k
  proof -
    have "rel_option (task_edge ext) (hget tasks0 k) (hget tasks0 k)"
      by (cases "hget tasks0 k") auto
    moreover have "hget tasks k = hget tasks0 k \<or>
        (\<exists>t t' now. hget tasks0 k = Some t \<and> hget tasks k = Some t'
           \<and> apply_terminal_status st refs now t = Inr t')"
      using assms by (simp add: settled_from_def)
    ultimately show ?thesis by (auto intro: edge_settle)
  qed
  with assms show ?thesis by (simp add: tasks_moved_def settled_from_def)
qed

lemma settled_from_put:
  assumes "settled_from st refs tasks0 tasks" "hget tasks k = Some t"
    "apply_terminal_status st refs now t = Inr t'"
  shows "settled_from st refs tasks0 (hput k t' tasks)"
proof -
  have "\<not> is_open_status (t_status t)" if "apply_terminal_status st refs n u = Inr t" for n u
    using that by (auto simp: apply_terminal_Inr)
  moreover have "is_open_status (t_status t)" using assms(3) by (simp add: apply_terminal_Inr)
  moreover have "hget tasks k = hget tasks0 k \<or>
      (\<exists>u now. hget tasks0 k = Some u \<and> apply_terminal_status st refs now u = Inr t)"
    using assms(1,2) unfolding settled_from_def by (metis option.inject)
  ultimately have "hget tasks0 k = Some t" using assms(2) by auto
  with assms show ?thesis by (auto simp: settled_from_def)
qed

lemma settle_tasks_ok:
  assumes "core_wf tasks leases" "settled_from st refs tasks0 tasks"
    "settle_tasks root st refs now is tasks leases = (errors, changes, tasks', leases')"
  shows "core_wf tasks' leases' \<and> settled_from st refs tasks0 tasks'"
  using assms
proof (induction root st refs now "is" tasks leases arbitrary: errors changes
    rule: settle_tasks.induct)
  case (2 root st refs now i "is" tasks leases)
  obtain r tasks1 leases1 where p: "prepare_task_terminal_in_maps tasks leases i root None st refs True (now i)
      = (r, tasks1, leases1)" by (metis prod_cases3)
  obtain errors1 changes1 where rest: "settle_tasks root st refs now is tasks1 leases1
      = (errors1, changes1, tasks', leases')"
    using "2.prems"(3) p by (auto split: prod.splits sum.splits option.splits)
  have wf: "leases_wf leases" using "2.prems"(1) by (simp add: core_wf_def)
  have "core_wf tasks1 leases1" using "2.prems"(1) p by (rule prepare_core_wf)
  moreover have "settled_from st refs tasks0 tasks1"
    using wf p by (rule prepare_cases) (use "2.prems"(2) in \<open>auto intro: settled_from_put\<close>)
  ultimately show ?case using "2.IH" [OF p [symmetric]] rest by blast
qed simp

lemma fail_open_tasks_ok:
  assumes "settled_from Failed [] tasks0 tasks"
    "fail_open_tasks now is (tasks, n) = Inr (tasks', m)"
  shows "settled_from Failed [] tasks0 tasks'"
  using assms
proof (induction "now" "is" "(tasks, n)" arbitrary: tasks n rule: fail_open_tasks.induct)
  case (2 "now" i "is" tasks n)
  then show ?case
    by (auto split: option.splits if_splits sum.splits intro: settled_from_put)
qed simp

lemma fail_scopes_ok:
  assumes "settled_from Failed [] tasks0 tasks" "fail_scopes now scopes (tasks, n) = Inr (tasks', m)"
  shows "settled_from Failed [] tasks0 tasks'"
  using assms
proof (induction "now" scopes "(tasks, n)" arbitrary: tasks n rule: fail_scopes.induct)
  case (2 "now" scope scopes tasks n)
  from "2.prems"(2) obtain tasks1 n1 where
    first: "fail_open_tasks now (collect_subtree_ids_in_scope tasks scope True) (tasks, n) = Inr (tasks1, n1)"
    and rest: "fail_scopes now scopes (tasks1, n1) = Inr (tasks', m)"
    by (auto split: sum.splits)
  from "2.prems"(1) first have "settled_from Failed [] tasks0 tasks1" by (rule fail_open_tasks_ok)
  with "2.hyps" first rest show ?case by auto
qed simp

section \<open>Operations on leases\<close>

text \<open>An operation that changes leases only.\<close>

lemma op_ok_leases:
  assumes "store_wf s \<Longrightarrow> core_wf (ts_tasks s) (ts_leases s')"
    "ts_tasks s' = ts_tasks s" "ts_mission_index s' = ts_mission_index s"
  shows "op_ok ext s s'"
  using assms by (simp add: op_ok_def store_wf_def)

lemma validate_task_root_Inr:
  "validate_task_root tasks i r = Inr () \<longleftrightarrow>
     (\<exists>t root. hget tasks i = Some t \<and> hget tasks r = Some root \<and> t_root_task_id t = r
        \<and> t_task_id root = r \<and> t_root_task_id root = r \<and> t_mission_id t = t_mission_id root)"
  by (auto simp: validate_task_root_def split: option.splits)

lemma validate_lease_contract_Inr:
  "validate_lease_contract tasks l = Inr () \<longleftrightarrow>
     validate_task_root tasks (tl_task_id l) (tl_root_task_id l) = Inr ()
     \<and> (tl_lease_status l = LeaseActive \<longrightarrow> lease_backed tasks l)"
proof (cases "validate_task_root tasks (tl_task_id l) (tl_root_task_id l)")
  case (Inr u)
  then have ok: "validate_task_root tasks (tl_task_id l) (tl_root_task_id l) = Inr ()" by simp
  obtain t where "hget tasks (tl_task_id l) = Some t" "t_root_task_id t = tl_root_task_id l"
    using validate_task_root_Inr [THEN iffD1, OF ok] by blast
  with ok show ?thesis
    by (simp add: validate_lease_contract_def validate_lease_owner_def lease_backed_iff)
qed (simp add: validate_lease_contract_def validate_lease_owner_def)

lemma insert_lease_ok: "op_ok ext s (snd (insert_lease l s))"
proof -
  have "core_wf (ts_tasks s) (hput (tl_lease_id l) l (ts_leases s))"
    if "store_wf s" "validate_lease_contract (ts_tasks s) l = Inr ()"
      "tl_lease_status l = LeaseActive \<Longrightarrow> \<not> has_active_lease (ts_leases s) (tl_task_id l)"
    using that
    by (cases "tl_lease_status l = LeaseActive")
      (auto simp: store_wf_def validate_lease_contract_Inr intro: core_wf_add_lease core_wf_add_inactive_lease)
  then show ?thesis
    by (auto simp: insert_lease_def intro!: op_ok_leases split: sum.split)
qed

lemma build_lease_fields:
  assumes "build_lease tid root worker role d now c = (l, c')"
  shows "tl_task_id l = tid" "tl_root_task_id l = root" "tl_lease_status l = LeaseActive"
    "tl_lease_id l = lease_id_of now c" "c' = c + 1"
  using assms by (auto simp: build_lease_def)

lemma grant_lease_ok: "op_ok ext s (snd (grant_lease tid root worker role d now s))"
proof -
  have "op_ok ext s (s\<lparr>ts_leases := hput (tl_lease_id l) l (ts_leases s), ts_lease_counter := c\<rparr>)"
    if "validate_task_root (ts_tasks s) tid root = Inr ()" "hget (ts_tasks s) tid = Some t"
      "t_status t = Running" "find_active_lease (ts_leases s) tid = None"
      "build_lease tid root worker role d now (ts_lease_counter s) = (l, c)" for t l c
  proof (rule op_ok_leases)
    note l = build_lease_fields(1,2) [OF that(5)]
    assume "store_wf s"
    then have "core_wf (ts_tasks s) (hput (tl_lease_id l) l (ts_leases s))"
      using that(1-4) l
      by (intro core_wf_add_lease)
        (auto simp: store_wf_def lease_backed_iff validate_task_root_Inr find_active_lease_None)
    then show "core_wf (ts_tasks s)
        (ts_leases (s\<lparr>ts_leases := hput (tl_lease_id l) l (ts_leases s), ts_lease_counter := c\<rparr>))"
      by simp
  qed simp_all
  then show ?thesis
    unfolding grant_lease_def by (auto split: sum.split option.split prod.split)
qed

lemma claim_core_wf:
  assumes "core_wf tasks leases" "hget tasks i = Some t" "t_status t = Pending"
    "\<not> has_active_lease leases i" "tl_task_id l = i" "tl_root_task_id l = t_root_task_id t"
  shows "core_wf (hput i (t\<lparr>t_status := Running, t_updated_at := now\<rparr>) tasks)
    (hput (tl_lease_id l) l leases)"
proof -
  let ?t = "t\<lparr>t_status := Running, t_updated_at := now\<rparr>"
  have "t_task_id t = i" using assms(1,2) by (auto simp: core_wf_def intro: tasks_wf_id)
  then have "core_wf (hput i ?t tasks) leases"
    using assms by (intro core_wf_put_task [where t = t]) auto
  then show ?thesis
    using assms by (intro core_wf_add_lease) (auto simp: lease_backed_iff)
qed

lemma tasks_moved_put:
  "tasks_wf tasks \<Longrightarrow> hget tasks k = Some t \<Longrightarrow> task_edge ext t t' \<Longrightarrow>
   tasks_moved ext tasks (hput k t' tasks)"
  by (auto simp: tasks_moved_def tasks_wf_def intro: option.rel_refl)

text \<open>
  The outcomes of a claim: nothing but the counter changed, or the pending task runs under the
  new lease.
\<close>

lemma claim_cases:
  assumes "grant_lease_and_start_task_inner tid root scope worker role d now now2 s = (r, s')"
  obtains (refused) "ts_tasks s' = ts_tasks s" "ts_leases s' = ts_leases s"
      "ts_mission_index s' = ts_mission_index s" "\<And>l. r \<noteq> Inr (Some l)"
  | (granted) t l where "r = Inr (Some l)" "validate_task_root (ts_tasks s) tid root = Inr ()"
      "\<And>sc. scope = Some sc \<Longrightarrow> execution_scope_root_in_tasks (ts_tasks s) tid = Inr sc"
      "hget (ts_tasks s) tid = Some t" "t_status t = Pending"
      "ancestor_chain_allows_dispatch t (ts_tasks s)" "\<not> has_active_lease (ts_leases s) tid"
      "fst (build_lease tid root worker role d now (ts_lease_counter s)) = l"
      "ts_tasks s' = hput tid (t\<lparr>t_status := Running, t_updated_at := now2\<rparr>) (ts_tasks s)"
      "ts_leases s' = hput (tl_lease_id l) l (ts_leases s)"
      "ts_mission_index s' = ts_mission_index s"
      "fire_checkpoint s (snapshot_with_dirty_roots (ts_tasks s') (ts_leases s') [t_root_task_id t]) = Inr ()"
proof (cases "\<exists>l. r = Inr (Some l)")
  case False
  have "ts_tasks s' = ts_tasks s \<and> ts_leases s' = ts_leases s \<and> ts_mission_index s' = ts_mission_index s"
    using assms False unfolding grant_lease_and_start_task_inner_def checkpoint_then_def Let_def
    by (auto split: sum.splits option.splits if_splits bool.splits prod.splits)
  with False show ?thesis by (intro refused) auto
next
  case True
  then obtain l where r: "r = Inr (Some l)" by blast
  show ?thesis
    using assms unfolding r grant_lease_and_start_task_inner_def checkpoint_then_def Let_def
    by (auto split: sum.splits option.splits if_splits bool.splits prod.splits
        simp: find_active_lease_None fire_checkpoint_def build_lease_def map_sum_Inr_iff intro!: granted [OF r])
qed

lemma grant_lease_and_start_task_inner_ok:
  "op_ok ext s (snd (grant_lease_and_start_task_inner tid root scope worker role d now now2 s))"
proof (cases "grant_lease_and_start_task_inner tid root scope worker role d now now2 s")
  case (Pair r s')
  then show ?thesis
  proof (cases rule: claim_cases)
    case refused
    with Pair show ?thesis by (auto intro: op_ok_same_maps [OF op_ok_refl])
  next
    case (granted t l)
    have l: "tl_task_id l = tid" "tl_root_task_id l = root"
      using granted(8) by (auto simp: build_lease_def)
    moreover have "t_root_task_id t = root"
      using granted(2,4) by (auto simp: validate_task_root_Inr)
    moreover have "task_edge ext t (t\<lparr>t_status := Running, t_updated_at := now2\<rparr>)"
      using granted(5) by (rule edge_start) simp
    ultimately have "core_wf (ts_tasks s') (ts_leases s')" "tasks_moved ext (ts_tasks s) (ts_tasks s')"
      if "store_wf s"
      unfolding granted(9,10) using that granted(4,5,7)
      by (auto simp: store_wf_def core_wf_def [of _ "ts_leases s"] intro!: claim_core_wf tasks_moved_put)
    then have "op_ok ext s s'" using granted(11) by (intro op_ok_moved) auto
    with Pair show ?thesis by simp
  qed
qed

lemma claim_task_for_execution_scope_ok:
  "op_ok ext s (snd (claim_task_for_execution_scope tid scope worker role d now now2 s0 s))"
  unfolding claim_task_for_execution_scope_def
  by (auto split: option.split intro: grant_lease_and_start_task_inner_ok)

lemma op_ok_update_lease:
  assumes "hget (ts_leases s) k = Some l" "tl_lease_id l' = tl_lease_id l" "tl_task_id l' = tl_task_id l"
    "tl_root_task_id l' = tl_root_task_id l"
    "tl_lease_status l' = LeaseActive \<Longrightarrow> tl_lease_status l = LeaseActive"
  shows "op_ok ext s (s\<lparr>ts_leases := hput k l' (ts_leases s)\<rparr>)"
  using core_wf_put_lease [OF _ assms] by (intro op_ok_leases) (auto simp: store_wf_def)

lemma revoke_lease_ok: "op_ok ext s (snd (revoke_lease tid lid s))"
  unfolding revoke_lease_def by (auto split: option.split intro: op_ok_update_lease)

lemma heartbeat_lease_inner_ok: "op_ok ext s (snd (heartbeat_lease_inner tid lid scope now s))"
  unfolding heartbeat_lease_inner_def Let_def by (auto split: option.split intro: op_ok_update_lease)

text \<open>The outcomes of a completion under a lease.\<close>

lemma complete_lease_cases:
  assumes "complete_lease_and_task ext tid root lid attempt now s = (r, s')"
  obtains (refused) "s' = s" "r \<noteq> Inr True"
  | (completed) t t' l where "r = Inr True" "hget (ts_leases s) lid = Some l"
      "tl_lease_status l = LeaseActive" "tl_task_id l = tid" "tl_root_task_id l = root"
      "validate_task_root (ts_tasks s) tid root = Inr ()"
      "hget (ts_tasks s) tid = Some t" "ancestor_chain_is_active t (ts_tasks s) False"
      "apply_completion ext attempt now t = Inr t'"
      "ts_tasks s' = hput tid t' (ts_tasks s)"
      "ts_leases s' = hput lid (l\<lparr>tl_lease_status := LeaseCompleted\<rparr>) (ts_leases s)"
      "ts_mission_index s' = ts_mission_index s"
      "fire_checkpoint s (snapshot_with_dirty_roots (ts_tasks s') (ts_leases s') [t_root_task_id t']) = Inr ()"
proof (cases "r = Inr True")
  case False
  have "s' = s"
    using assms False unfolding complete_lease_and_task_def checkpoint_then_def Let_def
    by (auto split: option.splits sum.splits if_splits)
  with False show ?thesis by (rule refused [rotated])
next
  case True
  show ?thesis
    using assms unfolding True complete_lease_and_task_def checkpoint_then_def Let_def
    by (auto split: option.splits sum.splits if_splits simp: fire_checkpoint_def
        intro!: completed [OF True])
qed

lemma op_ok_end_lease:
  assumes "hget (ts_tasks s) k = Some t" "task_edge ext t t'" "hget (ts_leases s) j = Some l"
    "tl_task_id l = k" "tl_lease_status l = LeaseActive" "st \<noteq> LeaseActive"
    "ts_tasks s' = hput k t' (ts_tasks s)"
    "ts_leases s' = hput j (l\<lparr>tl_lease_status := st\<rparr>) (ts_leases s)"
    "ts_mission_index s' = ts_mission_index s"
  shows "op_ok ext s s'"
proof (rule op_ok_moved)
  assume "store_wf s"
  then have core: "core_wf (ts_tasks s) (ts_leases s)" by (simp add: store_wf_def)
  then show "core_wf (ts_tasks s') (ts_leases s')"
    unfolding assms(7,8) using assms(1-6) by (intro core_wf_end_lease)
  from core show "tasks_moved ext (ts_tasks s) (ts_tasks s')"
    unfolding assms(7) using assms(1,2) by (intro tasks_moved_put) (auto simp: core_wf_def)
qed (rule assms(9))

lemma complete_lease_and_task_ok:
  "op_ok ext s (snd (complete_lease_and_task ext tid root lid attempt now s))"
proof (cases "complete_lease_and_task ext tid root lid attempt now s")
  case (Pair r s')
  then show ?thesis
  proof (cases rule: complete_lease_cases)
    case refused
    with Pair show ?thesis by auto
  next
    case (completed t t' l)
    have "op_ok ext s s'"
      by (rule op_ok_end_lease [OF completed(7) edge_complete [OF completed(9)] completed(2,4,3) _
            completed(10,11,12)]) simp
    with Pair show ?thesis by simp
  qed
qed

text \<open>The outcomes of ending one task.\<close>

lemma revoke_cases:
  assumes "leases_wf (ts_leases s)"
    "revoke_lease_and_set_task_terminal_inner tid root lease_id st refs discover scope now now2 s = (r, s')"
  obtains (refused) "s' = s" "r \<noteq> Inr True"
  | (settled) t t' where "r = Inr True" "hget (ts_tasks s) tid = Some t"
      "apply_terminal_status st refs now2 t = Inr t'" "ts_tasks s' = hput tid t' (ts_tasks s)"
      "ts_mission_index s' = ts_mission_index s"
      "(ts_leases s' = ts_leases s \<and> \<not> has_active_lease (ts_leases s) tid \<and> (discover \<or> lease_id = None))
       \<or> (\<exists>l. hget (ts_leases s) (tl_lease_id l) = Some l \<and> tl_task_id l = tid
            \<and> tl_lease_status l = LeaseActive \<and> (discover \<or> lease_id = Some (tl_lease_id l))
            \<and> ts_leases s' = hput (tl_lease_id l) (l\<lparr>tl_lease_status := LeaseRevoked\<rparr>) (ts_leases s))"
      "\<And>sc. scope = Some sc \<Longrightarrow> execution_scope_root_in_tasks (ts_tasks s) tid = Inr sc
         \<and> (\<exists>k l. lease_id = Some k \<and> hget (ts_leases s) k = Some l \<and> tl_lease_status l = LeaseActive
              \<and> tl_expires_at l < now)"
      "fire_checkpoint s (snapshot_with_dirty_roots (ts_tasks s') (ts_leases s') [t_root_task_id t']) = Inr ()"
proof (cases "r = Inr True")
  case False
  have "s' = s"
    using assms(2) False unfolding revoke_lease_and_set_task_terminal_inner_def checkpoint_then_def
    by (auto split: option.splits sum.splits if_splits prod.splits bool.splits)
  with False show ?thesis by (rule refused [rotated])
next
  case True
  obtain p tasks' leases' where p:
    "prepare_task_terminal_in_maps (ts_tasks s) (ts_leases s) tid root lease_id st refs discover now2
      = (p, tasks', leases')" by (metis prod_cases3)
  have scope: "scope = Some sc \<Longrightarrow> execution_scope_root_in_tasks (ts_tasks s) tid = Inr sc
      \<and> (\<exists>k l. lease_id = Some k \<and> hget (ts_leases s) k = Some l \<and> tl_lease_status l = LeaseActive
              \<and> tl_expires_at l < now)" for sc
    using assms(2) unfolding True revoke_lease_and_set_task_terminal_inner_def
    by (auto split: option.splits sum.splits if_splits bool.splits simp: bind_eq_Some_conv)
  have commit: "\<exists>old t'. p = Inr (Some (old, t')) \<and> ts_tasks s' = tasks' \<and> ts_leases s' = leases'
      \<and> ts_mission_index s' = ts_mission_index s
      \<and> fire_checkpoint s (snapshot_with_dirty_roots tasks' leases' [t_root_task_id t']) = Inr ()"
    using assms(2) unfolding True revoke_lease_and_set_task_terminal_inner_def checkpoint_then_def p
    by (auto split: option.splits sum.splits if_splits prod.splits bool.splits)
  from assms(1) p show ?thesis
  proof (cases rule: prepare_cases)
    case none
    with commit show ?thesis by auto
  next
    case (unleased t t')
    with commit scope True show ?thesis by (intro settled [of t t']) auto
  next
    case (leased t t' l)
    with commit scope True show ?thesis by (intro settled [of t t']) auto
  qed
qed

lemma revoke_lease_and_set_task_terminal_inner_ok:
  "op_ok ext s (snd (revoke_lease_and_set_task_terminal_inner tid root lease_id st refs discover scope
     now now2 s))"
proof (cases "store_wf s")
  case True
  then have wf: "leases_wf (ts_leases s)" by (simp add: store_wf_def core_wf_def)
  obtain r s' where eq: "revoke_lease_and_set_task_terminal_inner tid root lease_id st refs discover
      scope now now2 s = (r, s')" by force
  from wf eq have "op_ok ext s s'"
  proof (cases rule: revoke_cases)
    case (settled t t')
    from settled(3) have edge: "task_edge ext t t'" by (rule edge_settle)
    from settled(6) consider
        (a) "ts_leases s' = ts_leases s" "\<not> has_active_lease (ts_leases s) tid"
      | (b) l where "hget (ts_leases s) (tl_lease_id l) = Some l" "tl_task_id l = tid"
          "tl_lease_status l = LeaseActive"
          "ts_leases s' = hput (tl_lease_id l) (l\<lparr>tl_lease_status := LeaseRevoked\<rparr>) (ts_leases s)"
      by blast
    then show ?thesis
    proof cases
      case a
      then show ?thesis
        using settled(4,5) by (intro op_ok_put_task [OF settled(2) edge]) auto
    next
      case (b l)
      then show ?thesis
        using settled(4,5) by (intro op_ok_end_lease [OF settled(2) edge]) auto
    qed
  qed auto
  with eq show ?thesis by simp
qed (simp add: op_ok_def)

lemma expire_lease_for_execution_scope_ok:
  "op_ok ext s (snd (expire_lease_for_execution_scope scope tid lid now now2 s0 s))"
  unfolding expire_lease_for_execution_scope_def
  by (auto split: option.split intro: revoke_lease_and_set_task_terminal_inner_ok)

section \<open>Operations on several tasks\<close>

text \<open>The outcomes of ending a subtree: nothing, or the settled candidate maps are committed.\<close>

lemma subtree_cases:
  assumes "set_subtree_terminal root st refs selection now s = (r, s')"
  obtains (unchanged) "s' = s" "r \<noteq> Inr True"
  | (committed) t errors changes where "hget (ts_tasks s) root = Some t" "st = Failed \<or> st = Killed"
      "settle_tasks (t_root_task_id t) st refs now
         (select_subtree (ts_tasks s) (ts_leases s) root selection) (ts_tasks s) (ts_leases s)
       = (errors, changes, ts_tasks s', ts_leases s')"
      "changes \<noteq> []" "r = (if errors = [] then Inr True else Inl (InvalidStates errors))"
      "ts_mission_index s' = ts_mission_index s"
      "fire_checkpoint s (snapshot_with_dirty_roots (ts_tasks s') (ts_leases s') [t_root_task_id t]) = Inr ()"
proof (cases "s' = s \<and> r \<noteq> Inr True")
  case True
  then show ?thesis using unchanged by blast
next
  case False
  then show ?thesis
    using assms unfolding set_subtree_terminal_def Let_def
    by (cases "select_subtree (ts_tasks s) (ts_leases s) root selection")
      (auto split: option.splits sum.splits if_splits prod.splits intro!: committed)
qed

lemma set_subtree_terminal_ok:
  "op_ok ext s (snd (set_subtree_terminal root st refs selection now s))"
proof -
  obtain r s' where eq: "set_subtree_terminal root st refs selection now s = (r, s')" by force
  then have "op_ok ext s s'"
  proof (cases rule: subtree_cases)
    case (committed t errors changes)
    have "core_wf (ts_tasks s') (ts_leases s') \<and> settled_from st refs (ts_tasks s) (ts_tasks s')"
      if "store_wf s"
      using that
      by (intro settle_tasks_ok [OF _ _ committed(3)])
        (auto simp: store_wf_def core_wf_def tasks_wf_def intro: settled_from_refl)
    then show ?thesis
      using committed(6) by (intro op_ok_moved) (auto intro: settled_from_moved)
  qed auto
  with eq show ?thesis by simp
qed

text \<open>Reopening: each task is as before, or was failed and is pending with a new generation.\<close>

definition reopened_from :: "task_map \<Rightarrow> task_map \<Rightarrow> bool" where
  "reopened_from tasks0 tasks \<longleftrightarrow>
     hdistinct tasks \<and>
     (\<forall>k. hget tasks k = hget tasks0 k \<or>
        (\<exists>t n u. hget tasks0 k = Some t \<and> t_status t = Failed \<and> checked_add (t_retry_count t) 1 = Some n
           \<and> hget tasks k = Some (t\<lparr>t_retry_count := n, t_status := Pending, t_updated_at := u\<rparr>)))"

lemma reopened_from_moved:
  assumes "reopened_from tasks0 tasks"
  shows "tasks_moved ext tasks0 tasks"
proof -
  have "rel_option (task_edge ext) (hget tasks0 k) (hget tasks k)" for k
  proof -
    have "rel_option (task_edge ext) (hget tasks0 k) (hget tasks0 k)"
      by (cases "hget tasks0 k") auto
    moreover have "hget tasks k = hget tasks0 k \<or>
        (\<exists>t n u. hget tasks0 k = Some t \<and> t_status t = Failed \<and> checked_add (t_retry_count t) 1 = Some n
           \<and> hget tasks k = Some (t\<lparr>t_retry_count := n, t_status := Pending, t_updated_at := u\<rparr>))"
      using assms by (simp add: reopened_from_def)
    ultimately show ?thesis by (auto intro!: edge_reopen)
  qed
  with assms show ?thesis by (simp add: tasks_moved_def reopened_from_def)
qed

lemma reopened_from_put:
  assumes "reopened_from tasks0 tasks" "hget tasks k = Some t" "t_status t = Failed"
    "checked_add (t_retry_count t) 1 = Some n"
    "t' = t\<lparr>t_retry_count := n, t_status := Pending, t_updated_at := u\<rparr>"
  shows "reopened_from tasks0 (hput k t' tasks)"
proof -
  have "hget tasks k = hget tasks0 k \<or>
      (\<exists>u n v. hget tasks k = Some (u\<lparr>t_retry_count := n, t_status := Pending, t_updated_at := v\<rparr>))"
    using assms(1) unfolding reopened_from_def by blast
  then have "hget tasks k = hget tasks0 k \<or> t_status t = Pending" using assms(2) by auto
  then have t: "hget tasks0 k = Some t" using assms(2,3) by auto
  show ?thesis
    unfolding reopened_from_def
  proof (intro conjI allI)
    fix j
    show "hget (hput k t' tasks) j = hget tasks0 j \<or>
        (\<exists>t n u. hget tasks0 j = Some t \<and> t_status t = Failed \<and> checked_add (t_retry_count t) 1 = Some n
           \<and> hget (hput k t' tasks) j
             = Some (t\<lparr>t_retry_count := n, t_status := Pending, t_updated_at := u\<rparr>))"
    proof (cases "j = k")
      case True
      with t assms(3,4,5) show ?thesis by auto
    next
      case False
      with assms(1) show ?thesis by (simp add: reopened_from_def)
    qed
  qed (use assms(1) in \<open>simp add: reopened_from_def\<close>)
qed

lemma reopen_sources_ok:
  assumes "reopened_from tasks0 tasks" "reopen_sources now ids sources tasks changed = Inr (tasks', changed')"
  shows "reopened_from tasks0 tasks'"
  using assms
proof (induction "now" ids sources tasks changed rule: reopen_sources.induct)
  case (2 "now" ids source sources tasks changed)
  from "2.prems"(2) obtain t n where t: "hget tasks (t_task_id source) = Some t" "t_status t = Failed"
    "checked_add (t_retry_count t) 1 = Some n"
    and guard: "\<not> (t_task_id source \<notin> set ids \<or> t_status t \<noteq> Failed
      \<or> t_updated_at t \<noteq> t_updated_at source \<or> t_retry_count t \<noteq> t_retry_count source
      \<or> agent_activation_of t \<noteq> agent_activation_of source)"
    by (auto split: option.splits if_splits)
  from "2.prems"(1) t have "reopened_from tasks0 (hput (t_task_id source)
      (t\<lparr>t_retry_count := n, t_status := Pending,
         t_updated_at := max (now (t_task_id source)) (saturating_add (t_updated_at source) 1)\<rparr>) tasks)"
    by (intro reopened_from_put) auto
  with "2.IH" [OF t(1) guard t(3) refl] "2.prems"(2) t guard show ?case
    by (auto simp: Let_def)
qed auto

lemma reopen_transferred_agent_scope_ok:
  "op_ok ext s (snd (reopen_transferred_agent_scope root expected now s))"
proof -
  have "op_ok ext s (emit_reopened changed (s\<lparr>ts_tasks := tasks\<rparr>))"
    if "reopen_sources now ids expected (ts_tasks s) [] = Inr (tasks, changed)" for ids tasks changed
  proof (rule op_ok_moved)
    assume wf: "store_wf s"
    then have "reopened_from (ts_tasks s) (ts_tasks s)"
      by (simp add: reopened_from_def store_wf_def core_wf_def tasks_wf_def)
    then have re: "reopened_from (ts_tasks s) tasks" using that by (rule reopen_sources_ok)
    then show moved: "tasks_moved ext (ts_tasks s) (ts_tasks (emit_reopened changed (s\<lparr>ts_tasks := tasks\<rparr>)))"
      by (simp add: reopened_from_moved)
    have "t_status t = Running" if "hget tasks k = Some t" "has_active_lease (ts_leases s) k" for k t
    proof -
      have "t_status u = Running" if "hget (ts_tasks s) k = Some u" for u
        using wf that \<open>has_active_lease (ts_leases s) k\<close> by (rule running_if_leased)
      moreover have "hget tasks k = hget (ts_tasks s) k \<or>
          (\<exists>u. hget (ts_tasks s) k = Some u \<and> t_status u = Failed)"
        using re unfolding reopened_from_def by blast
      ultimately show ?thesis using \<open>hget tasks k = Some t\<close> by fastforce
    qed
    then show "core_wf (ts_tasks (emit_reopened changed (s\<lparr>ts_tasks := tasks\<rparr>)))
        (ts_leases (emit_reopened changed (s\<lparr>ts_tasks := tasks\<rparr>)))"
      using wf moved by (auto simp: store_wf_def intro: core_wf_moved)
  qed simp
  then show ?thesis
    unfolding reopen_transferred_agent_scope_def Let_def
    by (auto split: list.split sum.split prod.split intro!: op_ok_checkpoint)
qed

lemma revoke_one_active:
  "hget (revoke_if_active p leases) k = Some l \<Longrightarrow> tl_lease_status l = LeaseActive \<Longrightarrow>
   hget leases k = Some l \<and> (tl_task_id l, k) \<noteq> p"
  by (auto simp: revoke_if_active_def split: option.splits if_splits)

lemma revoke_all_active:
  "hget (fold revoke_if_active ps leases) k = Some l \<Longrightarrow> tl_lease_status l = LeaseActive \<Longrightarrow>
   hget leases k = Some l \<and> (tl_task_id l, k) \<notin> set ps"
proof (induction ps arbitrary: leases)
  case (Cons p ps)
  have "hget (fold revoke_if_active ps (revoke_if_active p leases)) k = Some l"
    using Cons.prems(1) by (simp only: fold_Cons o_apply)
  note rest = Cons.IH [OF this Cons.prems(2)]
  then have "hget leases k = Some l \<and> (tl_task_id l, k) \<noteq> p"
    using Cons.prems(2) by (intro revoke_one_active) auto
  with rest show ?case by simp
qed simp

lemma revoke_all_core_wf: "core_wf tasks leases \<Longrightarrow> core_wf tasks (fold revoke_if_active ps leases)"
proof (induction ps arbitrary: leases)
  case (Cons p ps)
  have "core_wf tasks (revoke_if_active p leases)"
    using Cons.prems by (auto simp: revoke_if_active_def intro: core_wf_put_lease split: option.split)
  with Cons.IH show ?case by simp
qed simp

lemma revoke_all_none_active:
  assumes "leases_wf leases" "core_wf tasks leases"
  shows "\<not> has_active_lease (fold revoke_if_active (active_lease_pairs leases) leases) i"
proof
  assume "has_active_lease (fold revoke_if_active (active_lease_pairs leases) leases) i"
  then obtain k l where l: "hget (fold revoke_if_active (active_lease_pairs leases) leases) k = Some l"
      "tl_lease_status l = LeaseActive"
    using revoke_all_core_wf [OF assms(2)] by (auto simp: has_active_lease_iff core_wf_def)
  from revoke_all_active [OF l] have "hget leases k = Some l" "(tl_task_id l, k) \<notin> set (active_lease_pairs leases)"
    by auto
  with l(2) assms(1) show False
    by (auto simp: active_lease_pairs_def leases_wf_def dest: hget_in_hvalues)
qed

lemma reconcile_cases:
  assumes "reconcile_volatile_runtime_after_restore branches now s = (r, s')"
  obtains (unchanged) "s' = s" "r = Inr (0, 0) \<or> isl r" "r = Inr (0, 0) \<Longrightarrow>
        active_lease_pairs (ts_leases s) = [] \<and> interrupted_task_ids (ts_tasks s) branches = []"
  | (settled) roots scopes n where "r = Inr (length (active_lease_pairs (ts_leases s)), n)"
      "affected_scopes (ts_tasks s) (map fst (active_lease_pairs (ts_leases s))
         @ interrupted_task_ids (ts_tasks s) branches) = Inr (roots, scopes)"
      "fail_scopes now scopes (ts_tasks s, 0) = Inr (ts_tasks s', n)"
      "ts_leases s' = fold revoke_if_active (active_lease_pairs (ts_leases s)) (ts_leases s)"
      "ts_mission_index s' = ts_mission_index s"
      "fire_checkpoint s (snapshot_with_dirty_roots (ts_tasks s') (ts_leases s') roots) = Inr ()"
proof -
  let ?active = "active_lease_pairs (ts_leases s)"
  let ?interrupted = "interrupted_task_ids (ts_tasks s) branches"
  note def = assms [unfolded reconcile_volatile_runtime_after_restore_def checkpoint_then_def Let_def]
  show thesis
  proof (cases "validate_all_leases (ts_tasks s) (hvalues (ts_leases s))")
    case Inl
    with def show ?thesis by (intro unchanged) auto
  next
    case valid: (Inr u)
    show ?thesis
    proof (cases "?active = [] \<and> ?interrupted = []")
      case True
      with def valid show ?thesis by (intro unchanged) auto
    next
      case False
      show ?thesis
      proof (cases "affected_scopes (ts_tasks s) (map fst ?active @ ?interrupted)")
        case Inl
        with def valid False show ?thesis by (intro unchanged) auto
      next
        case scopes: (Inr rs)
        show ?thesis
        proof (cases "fail_scopes now (snd rs) (ts_tasks s, 0)")
          case Inl
          with def valid False scopes show ?thesis by (intro unchanged) (auto split: prod.splits)
        next
          case failed: (Inr tn)
          from def valid False scopes failed show ?thesis
            by (cases rs; cases tn) (auto split: sum.splits intro: unchanged settled)
        qed
      qed
    qed
  qed
qed

lemma reconcile_volatile_runtime_after_restore_ok:
  "op_ok ext s (snd (reconcile_volatile_runtime_after_restore branches now s))"
proof -
  obtain r s' where eq: "reconcile_volatile_runtime_after_restore branches now s = (r, s')" by force
  then have "op_ok ext s s'"
  proof (cases rule: reconcile_cases)
    case (settled roots scopes n)
    show ?thesis
    proof (rule op_ok_moved)
      assume "store_wf s"
      then have core: "core_wf (ts_tasks s) (ts_leases s)" by (simp add: store_wf_def)
      then have "settled_from Failed [] (ts_tasks s) (ts_tasks s)"
        by (auto simp: core_wf_def tasks_wf_def intro: settled_from_refl)
      then have "settled_from Failed [] (ts_tasks s) (ts_tasks s')"
        using settled(3) by (rule fail_scopes_ok)
      then show moved: "tasks_moved ext (ts_tasks s) (ts_tasks s')" by (rule settled_from_moved)
      from core show "core_wf (ts_tasks s') (ts_leases s')"
        unfolding settled(4) using moved revoke_all_none_active [OF _ core]
        by (intro core_wf_moved [OF revoke_all_core_wf [OF core] moved]) (auto simp: core_wf_def)
    qed (rule settled(5))
  qed auto
  with eq show ?thesis by simp
qed

section \<open>Removal\<close>

lemma drop_required_child_edge: "task_edge ext t (drop_required_child tid now t)"
  by (rule edge_keep)
    (auto simp: drop_required_child_def task_frame_def transfer_kept_def agent_run_transfer_of_def)

lemma drop_removed_links_edge: "task_edge ext t (drop_removed_links ids now t)"
  by (rule edge_keep)
    (auto simp: drop_removed_links_def Let_def task_frame_def transfer_kept_def agent_run_transfer_of_def)

text \<open>
  Removing tasks together with their leases, and editing the remaining tasks without touching
  their status.
\<close>

lemma core_wf_remove:
  assumes "core_wf tasks leases" "hdistinct tasks'"
    "\<And>k. hget tasks' k = (if gone k then None else map_option f (hget tasks k))"
    "\<And>t. task_edge ext t (f t)" "\<And>t. t_status (f t) = t_status t"
    "\<And>l. P l \<Longrightarrow> \<not> gone (tl_task_id l)"
  shows "core_wf tasks' (hretain P leases)"
proof (rule core_wf_retain [OF assms(1,2)])
  fix k t
  assume "hget tasks' k = Some t"
  then obtain u where "hget tasks k = Some u" "t = f u"
    using assms(3) [of k] by (auto split: if_splits)
  then show "t_task_id t = k"
    using assms(1) task_edge_frame [OF assms(4)]
    by (auto simp: core_wf_def tasks_wf_def task_frame_def)
next
  fix k l
  assume l: "hget leases k = Some l" "P l" "tl_lease_status l = LeaseActive"
  then obtain t where "hget tasks (tl_task_id l) = Some t" "t_status t = Running"
    "t_root_task_id t = tl_root_task_id l"
    using assms(1) by (auto simp: core_wf_def active_backed_def lease_backed_iff)
  then show "lease_backed tasks' l"
    using assms(3) [of "tl_task_id l"] assms(5,6) l(2) task_edge_frame [OF assms(4)]
    by (auto simp: lease_backed_iff task_frame_def)
qed

lemma op_ok_remove:
  assumes "store_wf s \<Longrightarrow> hdistinct (ts_tasks s')"
    "\<And>k. hget (ts_tasks s') k = (if gone k then None else map_option f (hget (ts_tasks s) k))"
    "\<And>t. task_edge ext t (f t)" "\<And>t. t_status (f t) = t_status t"
    "\<And>l. P l \<Longrightarrow> \<not> gone (tl_task_id l)"
    "ts_leases s' = hretain P (ts_leases s)"
    "store_wf s \<Longrightarrow> index_wf (ts_tasks s') (ts_mission_index s')"
  shows "op_ok ext s s'"
proof (rule op_okI)
  assume wf: "store_wf s"
  then have "core_wf (ts_tasks s') (ts_leases s')"
    unfolding assms(6) using assms(1-5)
    by (intro core_wf_remove [where tasks = "ts_tasks s" and f = f and gone = gone and ext = ext])
      (auto simp: store_wf_def)
  with wf assms(7) show "store_wf s'" by (simp add: store_wf_def)
next
  show "task_edges ext (ts_tasks s) (ts_tasks s')"
    using assms(2,3) by (auto simp: task_edges_def split: if_splits)
qed

lemma fold_hremove: "hget (fold hremove ids m) k = (if k \<in> set ids then None else hget m k)"
  by (induction ids arbitrary: m) auto

lemma hdistinct_fold_hremove: "hdistinct m \<Longrightarrow> hdistinct (fold hremove ids m)"
  by (induction ids arbitrary: m) auto

lemma remove_task_ok: "op_ok ext s (snd (remove_task tid now s))"
proof -
  have "op_ok ext s s'"
    if t: "hget (ts_tasks s) tid = Some t"
      and s': "s' = notify_status_change (commit_maps
        (hmap_values (drop_required_child tid now) (hremove tid (ts_tasks s)))
        (hretain (\<lambda>l. tl_task_id l \<noteq> tid) (ts_leases s))
        (index_remove (t_mission_id t) tid (ts_mission_index s)) s)" for t s'
  proof (rule op_ok_remove [where gone = "\<lambda>k. k = tid" and f = "drop_required_child tid now"])
    assume wf: "store_wf s"
    then show "hdistinct (ts_tasks s')" by (simp add: s' store_wf_def core_wf_def tasks_wf_def)
    have "map_option t_mission_id (hget (ts_tasks s') k)
        = map_option t_mission_id (hget (hremove tid (ts_tasks s)) k)" for k
      by (cases "hget (ts_tasks s) k") (auto simp: s' drop_required_child_def)
    then have "index_wf (ts_tasks s') (ts_mission_index s')
        = index_wf (hremove tid (ts_tasks s)) (ts_mission_index s')"
      by (rule index_wf_cong)
    with wf t show "index_wf (ts_tasks s') (ts_mission_index s')"
      by (simp add: s' store_wf_def index_wf_remove)
  next
    show "t_status (drop_required_child tid now t) = t_status t" for t
      by (simp add: drop_required_child_def)
  qed (auto simp: s' drop_required_child_edge)
  then show ?thesis
    unfolding remove_task_def Let_def by (auto split: option.split intro!: op_ok_checkpoint)
qed

lemma remove_tasks_by_mission_ok: "op_ok ext s (snd (remove_tasks_by_mission m now s))"
proof -
  have gone: "k \<in> set ids \<longleftrightarrow> (\<exists>t. hget (ts_tasks s) k = Some t \<and> t_mission_id t = m)"
    if "store_wf s" "ids = (case hget (ts_mission_index s) m of None \<Rightarrow> [] | Some ids \<Rightarrow> ids)" for ids k
    using that by (simp add: store_wf_def index_wf_def index_entry_ok_def)
  have index: "index_wf tasks (hremove m (ts_mission_index s))"
    if "store_wf s" "ids = (case hget (ts_mission_index s) m of None \<Rightarrow> [] | Some ids \<Rightarrow> ids)"
      "\<And>k. map_option t_mission_id (hget tasks k)
         = (if k \<in> set ids then None else map_option t_mission_id (hget (ts_tasks s) k))" for tasks ids
  proof -
    have "index_wf (fold hremove ids (ts_tasks s)) (hremove m (ts_mission_index s))"
      using that(1) gone [OF that(1,2)]
      by (intro index_wf_remove_mission [where tasks = "ts_tasks s"])
        (auto simp: store_wf_def fold_hremove split: option.split)
    moreover have "index_wf tasks (hremove m (ts_mission_index s))
        = index_wf (fold hremove ids (ts_tasks s)) (hremove m (ts_mission_index s))"
      by (rule index_wf_cong) (auto simp: that(3) fold_hremove)
    ultimately show ?thesis by simp
  qed
  define ids where "ids = (case hget (ts_mission_index s) m of None \<Rightarrow> [] | Some ids \<Rightarrow> ids)"
  have empty: "op_ok ext s (s\<lparr>ts_mission_index := hremove m (ts_mission_index s)\<rparr>)" if "ids = []"
    by (rule op_okI) (use index [OF _ ids_def, of "ts_tasks s"] that in \<open>auto simp: store_wf_def\<close>)
  have some: "op_ok ext s (commit_maps
      (hmap_values (drop_removed_links ids now) (fold hremove ids (ts_tasks s)))
      (hretain (\<lambda>l. tl_task_id l \<notin> set ids \<and> tl_root_task_id l \<notin> set ids) (ts_leases s))
      (hremove m (ts_mission_index s)) s)"
  proof (rule op_ok_remove [where gone = "\<lambda>k. k \<in> set ids" and f = "drop_removed_links ids now"])
    assume wf: "store_wf s"
    let ?tasks = "hmap_values (drop_removed_links ids now) (fold hremove ids (ts_tasks s))"
    show "hdistinct (ts_tasks (commit_maps ?tasks
        (hretain (\<lambda>l. tl_task_id l \<notin> set ids \<and> tl_root_task_id l \<notin> set ids) (ts_leases s))
        (hremove m (ts_mission_index s)) s))"
      using wf by (simp add: store_wf_def core_wf_def tasks_wf_def hdistinct_fold_hremove)
    have "index_wf ?tasks (hremove m (ts_mission_index s))"
      by (rule index [OF wf ids_def])
        (auto simp: fold_hremove option.map_comp o_def drop_removed_links_def Let_def)
    then show "index_wf (ts_tasks (commit_maps ?tasks
        (hretain (\<lambda>l. tl_task_id l \<notin> set ids \<and> tl_root_task_id l \<notin> set ids) (ts_leases s))
        (hremove m (ts_mission_index s)) s))
      (ts_mission_index (commit_maps ?tasks
        (hretain (\<lambda>l. tl_task_id l \<notin> set ids \<and> tl_root_task_id l \<notin> set ids) (ts_leases s))
        (hremove m (ts_mission_index s)) s))" by simp
  next
    show "t_status (drop_removed_links ids now t) = t_status t" for t
      by (simp add: drop_removed_links_def Let_def)
  qed (auto simp: fold_hremove drop_removed_links_edge)
  show ?thesis
    unfolding remove_tasks_by_mission_def Let_def ids_def [symmetric]
    by (cases "ids = []") (auto intro!: op_ok_checkpoint empty op_ok_same_maps [OF some])
qed

end
