(* ===== verification/Scenario.thy ===== *)
theory Scenario
  imports TaskRestore
begin

text \<open>
  A small concrete mission on which the properties are applied: a coordinator task \<open>r\<close>, a
  local agent \<open>a\<close> created by it, and the stores reached by inserting and claiming them.
\<close>

definition demo_ext :: externals where
  "demo_ext =
     \<lparr>json_pointer = (\<lambda>v p. if p = [] then Some v else None), evidence_json = (\<lambda>_. ''evidence''),
      base64_decode = Some\<rparr>"

definition demo_contract :: task_completion_contract where
  "demo_contract = \<lparr>cc_requires_final_response = True, cc_evidence_requirements = []\<rparr>"

definition demo_attempt :: task_completion_attempt where
  "demo_attempt = \<lparr>ca_output_refs = [''done''], ca_final_response = Some ''done'', ca_evidence = []\<rparr>"

definition demo_task :: "string \<Rightarrow> task_id option \<Rightarrow> task_executor_binding option \<Rightarrow> task_status \<Rightarrow> task" where
  "demo_task i parent binding st =
     \<lparr>t_task_id = TaskId i, t_mission_id = MissionId ''m'', t_root_task_id = TaskId ''r'',
      t_parent_task_id = parent, t_kind = LocalAgent, t_title = i, t_goal = i, t_status = st,
      t_dependency_ids = [], t_required_children = [], t_policy_snapshot = None,
      t_executor_binding = binding, t_completion_contract = demo_contract,
      t_recovery_checkpoint = None, t_knowledge_refs = [], t_workspace_scope = None,
      t_write_scope = None, t_input_refs = [], t_output_refs = [], t_evidence_refs = [],
      t_retry_count = 0, t_runtime_payload = PayloadNone, t_created_at = 1, t_updated_at = 1\<rparr>"

definition demo_root :: "task_status \<Rightarrow> task" where
  "demo_root st =
     demo_task ''r'' None (Some (default_binding\<lparr>eb_target_role := Some ''coordinator''\<rparr>)) st"

definition demo_activation :: "string \<Rightarrow> agent_activation" where
  "demo_activation i =
     \<lparr>aa_agent_id = TaskId i, aa_session_id = SessionId ''s'', aa_lifetime = LifetimeSession,
      aa_generation = 1, aa_previous_task_id = None\<rparr>"

definition demo_agent :: "string \<Rightarrow> task_status \<Rightarrow> task" where
  "demo_agent i st =
     demo_task i (Some (TaskId ''r''))
       (Some (default_binding\<lparr>eb_agent_activation := Some (demo_activation i)\<rparr>)) st"

definition demo_transfer :: agent_run_transfer where
  "demo_transfer =
     \<lparr>rt_operation_id = ''op'', rt_session_id = SessionId ''s'', rt_source_turn_id = ''turn'',
      rt_transferred_by = TaskId ''r'', rt_activation_generation = 1, rt_owner = OwnerSession,
      rt_transferred_at = 5\<rparr>"

definition demo_worker :: worker_id where
  "demo_worker = WorkerId ''w''"

text \<open>
  The stores of a run: the root is inserted (\<open>1\<close>) and claimed (\<open>2\<close>), the agent is inserted (\<open>3\<close>)
  and claimed (\<open>4\<close>), and the agent's subtree is transferred to the session (\<open>5\<close>).
\<close>

definition demo_store1 :: task_store where
  "demo_store1 = snd (insert_task demo_ext (demo_root Pending) task_store_new)"

definition demo_store2 :: task_store where
  "demo_store2 =
     snd (grant_lease_and_start_task (TaskId ''r'') (TaskId ''r'') demo_worker ''coordinator'' 100 2 3 demo_store1)"

definition demo_store3 :: task_store where
  "demo_store3 = snd (insert_task demo_ext (demo_agent ''a'' Pending) demo_store2)"

definition demo_store4 :: task_store where
  "demo_store4 =
     snd (claim_task_for_execution_scope (TaskId ''a'') (TaskId ''r'') demo_worker ''coder'' 100 4 4
            demo_store3 demo_store3)"

definition demo_store5 :: task_store where
  "demo_store5 = snd (transfer_agent_subtree (TaskId ''r'') (TaskId ''a'') demo_transfer 6 demo_store4)"

end
