(* ===== verification/StoreMachine.thy ===== *)
theory StoreMachine
  imports LeaseLifecycle Scenario
begin

text \<open>
  The task store as a transition system: a store starts empty or restored from a checkpoint and
  changes by the operations of \<open>TaskStore\<close>, \<open>TaskLease\<close> and \<open>TaskRestore\<close>, in any order and with
  any arguments.  Every mutation of the source holds \<open>mutation_lock\<close>, so an operation is one step;
  an operation that reads the store before it takes the lock has that reading as an argument.
\<close>

section \<open>A restored store is well formed\<close>

lemma validate_task_ids_distinct:
  "validate_task_ids seen ts = Inr () \<Longrightarrow> distinct (map t_task_id ts) \<and> t_task_id ` set ts \<inter> seen = {}"
  by (induction ts arbitrary: seen) (fastforce split: option.splits sum.splits if_splits)+

lemma hget_fold_hput:
  assumes "distinct (map f xs)"
  shows "hget (fold (\<lambda>x. hput (f x) x) xs m) k =
    (case map_of (map (\<lambda>x. (f x, x)) xs) k of Some x \<Rightarrow> Some x | None \<Rightarrow> hget m k)"
  using assms
proof (induction xs arbitrary: m)
  case (Cons x xs)
  then have "map_of (map (\<lambda>x. (f x, x)) xs) (f x) = None"
    by (force simp: map_of_eq_None_iff)
  with Cons show ?case by (auto split: option.splits)
qed simp

lemma fold_hput_distinct: "hdistinct m \<Longrightarrow> hdistinct (fold (\<lambda>x. hput (f x) x) xs m)"
  by (induction xs arbitrary: m) auto

lemma hget_fold_hput_iff:
  assumes "distinct (map f xs)"
  shows "hget (fold (\<lambda>x. hput (f x) x) xs []) k = Some x \<longleftrightarrow> x \<in> set xs \<and> f x = k"
proof -
  have "map_of (map (\<lambda>x. (f x, x)) xs) k = Some x \<longleftrightarrow> (k, x) \<in> set (map (\<lambda>x. (f x, x)) xs)"
    using assms by (intro map_of_eq_Some_iff) (simp add: o_def)
  then show ?thesis
    unfolding hget_fold_hput [OF assms] by (auto split: option.splits)
qed

lemma tasks_by_id_get:
  "distinct (map t_task_id ts) \<Longrightarrow> hget (tasks_by_id ts) k = Some t \<longleftrightarrow> t \<in> set ts \<and> t_task_id t = k"
  unfolding tasks_by_id_def by (rule hget_fold_hput_iff)

lemma tasks_by_id_wf: "distinct (map t_task_id ts) \<Longrightarrow> tasks_wf (tasks_by_id ts)"
  unfolding tasks_wf_def by (simp add: tasks_by_id_get) (simp add: tasks_by_id_def fold_hput_distinct)

lemma index_wf_fold_push:
  assumes "index_wf tasks index" "distinct (map t_task_id ts)"
    "\<And>t. t \<in> set ts \<Longrightarrow> hget tasks (t_task_id t) = None"
  shows "index_wf (fold (\<lambda>t. hput (t_task_id t) t) ts tasks)
    (fold (\<lambda>t. index_push (t_mission_id t) (t_task_id t)) ts index)"
  using assms
proof (induction ts arbitrary: tasks index)
  case (Cons t ts)
  have "index_wf (hput (t_task_id t) t tasks) (index_push (t_mission_id t) (t_task_id t) index)"
    using Cons.prems by (intro index_wf_push) auto
  moreover have "hget (hput (t_task_id t) t tasks) (t_task_id u) = None" if "u \<in> set ts" for u
    using Cons.prems(2,3) that by (auto simp: image_iff)
  ultimately show ?case using Cons.IH Cons.prems(2) by simp
qed simp

lemma validate_leases_ids:
  "validate_leases tasks ids active ls = Inr () \<Longrightarrow>
   distinct (map tl_lease_id ls) \<and> tl_lease_id ` set ls \<inter> ids = {}"
  by (induction ls arbitrary: ids active) (fastforce split: option.splits if_splits)+

lemma validate_leases_backed:
  "validate_leases tasks ids active ls = Inr () \<Longrightarrow> l \<in> set ls \<Longrightarrow> tl_lease_status l = LeaseActive \<Longrightarrow>
   lease_backed tasks l \<and> tl_task_id l \<notin> active"
  by (induction ls arbitrary: ids active)
    (auto simp: lease_backed_iff split: option.splits if_splits)

lemma validate_leases_tail:
  assumes "validate_leases tasks ids active (x # ls) = Inr ()"
  obtains ids' active' where "validate_leases tasks ids' active' ls = Inr ()"
    "tl_lease_status x = LeaseActive \<longrightarrow> tl_task_id x \<in> active'"
proof -
  have "\<exists>ids' active'. validate_leases tasks ids' active' ls = Inr ()
      \<and> (tl_lease_status x = LeaseActive \<longrightarrow> tl_task_id x \<in> active')"
    using assms by (auto split: option.splits if_splits)
  then show thesis using that by blast
qed

lemma validate_leases_unique:
  "validate_leases tasks ids active ls = Inr () \<Longrightarrow> l \<in> set ls \<Longrightarrow> m \<in> set ls \<Longrightarrow>
   tl_lease_status l = LeaseActive \<Longrightarrow> tl_lease_status m = LeaseActive \<Longrightarrow>
   tl_task_id l = tl_task_id m \<Longrightarrow> l = m"
proof (induction ls arbitrary: ids active)
  case (Cons x ls)
  obtain ids' active' where rest: "validate_leases tasks ids' active' ls = Inr ()"
    "tl_lease_status x = LeaseActive \<longrightarrow> tl_task_id x \<in> active'"
    using Cons.prems(1) by (rule validate_leases_tail)
  note fresh = validate_leases_backed [OF rest(1)]
  show ?case
  proof (cases "l = x \<or> m = x")
    case True
    with fresh [of l] fresh [of m] rest(2) Cons.prems(2-6) show ?thesis by auto
  next
    case False
    with Cons.IH [OF rest(1)] Cons.prems(2-6) show ?thesis by simp
  qed
qed simp

lemma restore_checked_wf:
  assumes "restore_checked ext counter c = Inr s"
  shows "store_wf s"
proof -
  let ?tasks = "tasks_by_id (ck_tasks c)"
  have valid: "validate_task_ids {} (ck_tasks c) = Inr ()"
    "validate_leases ?tasks {} {} (ck_leases c) = Inr ()"
    and s: "ts_tasks s = ?tasks" "ts_leases s = fold (\<lambda>l. hput (tl_lease_id l) l) (ck_leases c) []"
      "ts_mission_index s = fold (\<lambda>t. index_push (t_mission_id t) (t_task_id t)) (ck_tasks c) []"
    using assms by (auto simp: restore_checked_def validate_checkpoint_def Let_def split: sum.splits)
  have tasks: "distinct (map t_task_id (ck_tasks c))"
    using validate_task_ids_distinct [OF valid(1)] by simp
  have leases: "distinct (map tl_lease_id (ck_leases c))"
    using validate_leases_ids [OF valid(2)] by simp
  have get: "hget (ts_leases s) k = Some l \<Longrightarrow> l \<in> set (ck_leases c)" for k l
    unfolding s hget_fold_hput_iff [OF leases] by simp
  have lwf: "leases_wf (ts_leases s)"
    unfolding leases_wf_def s using leases by (simp add: hget_fold_hput_iff fold_hput_distinct)
  have "active_unique (ts_leases s)"
    unfolding active_unique_def
  proof (intro allI impI)
    fix j k l m
    assume h: "hget (ts_leases s) j = Some l" "hget (ts_leases s) k = Some m"
      "tl_lease_status l = LeaseActive" "tl_lease_status m = LeaseActive" "tl_task_id l = tl_task_id m"
    then have "l = m" using validate_leases_unique [OF valid(2)] get by blast
    with h lwf show "j = k" by (auto simp: leases_wf_def)
  qed
  moreover have "active_backed (ts_tasks s) (ts_leases s)"
    using get validate_leases_backed [OF valid(2)] by (auto simp: active_backed_def s(1))
  moreover have "index_wf (ts_tasks s) (ts_mission_index s)"
    unfolding s(1,3) tasks_by_id_def
    by (rule index_wf_fold_push) (use tasks in \<open>auto simp: index_wf_def index_entry_ok_def\<close>)
  ultimately show ?thesis
    using lwf tasks by (simp add: store_wf_def core_wf_def s(1) tasks_by_id_wf)
qed

lemma task_store_new_wf: "store_wf task_store_new"
  by (simp add: store_wf_def wf_defs index_wf_def index_entry_ok_def task_store_new_def)

section \<open>Steps\<close>

inductive store_step :: "externals \<Rightarrow> task_store \<Rightarrow> task_store \<Rightarrow> bool" for ext where
  step_insert: "store_step ext s (snd (insert_task ext t s))"
| step_insert_uncommitted: "store_step ext s (snd (insert_task_without_checkpoint ext t s))"
| step_transfer: "store_step ext s (snd (transfer_agent_subtree p c x now s))"
| step_update_status: "store_step ext s (snd (update_status_checked i new now s))"
| step_reopen_failed: "store_step ext s (snd (reopen_failed_task_for_recovery i now s))"
| step_start_failed_root: "store_step ext s (snd (start_failed_root_for_recovery i now s))"
| step_reopen_completed_root: "store_step ext s (snd (reopen_completed_root_for_recovery i now s))"
| step_reopen_scope: "store_step ext s (snd (reopen_transferred_agent_scope i expected clock s))"
| step_complete: "store_step ext s (snd (complete_task ext i attempt now s))"
| step_context_access: "store_step ext s (snd (append_agent_context_access i rec now s))"
| step_context_supplement: "store_step ext s (snd (deliver_agent_context_supplement i st supplement rec s))"
| step_goal: "store_step ext s (snd (update_task_goal i g now s))"
| step_remove: "store_step ext s (snd (remove_task i now s))"
| step_remove_mission: "store_step ext s (snd (remove_tasks_by_mission m now s))"
| step_insert_lease: "store_step ext s (snd (insert_lease l s))"
| step_grant_lease: "store_step ext s (snd (grant_lease i r w role d now s))"
| step_grant_start: "store_step ext s (snd (grant_lease_and_start_task i r w role d now now2 s))"
| step_claim: "store_step ext s (snd (claim_task_for_execution_scope i r w role d now now2 s0 s))"
| step_revoke_lease: "store_step ext s (snd (revoke_lease i lid s))"
| step_complete_lease: "store_step ext s (snd (complete_lease_and_task ext i r lid attempt now s))"
| step_revoke_terminal: "store_step ext s (snd (revoke_lease_and_set_task_terminal i r lo st refs now s))"
| step_revoke_active_terminal: "store_step ext s (snd (revoke_active_lease_and_set_task_terminal i r st refs now s))"
| step_expire: "store_step ext s (snd (expire_lease_for_execution_scope r i lid now now2 s0 s))"
| step_subtree: "store_step ext s (snd (revoke_active_leases_and_set_subtree_terminal i st refs clock s))"
| step_execution_subtree: "store_step ext s (snd (revoke_active_leases_and_set_execution_subtree_terminal i st refs clock s))"
| step_orphans: "store_step ext s (snd (revoke_orphaned_execution_descendants i clock s))"
| step_unrunnable: "store_step ext s (snd (fail_unrunnable_execution_scope i candidates refs clock s))"
| step_heartbeat: "store_step ext s (snd (heartbeat_lease i lid now s))"
| step_scope_heartbeat: "store_step ext s (snd (heartbeat_lease_for_execution_scope r i lid now s))"
| step_reconcile: "store_step ext s (snd (reconcile_volatile_runtime_after_restore branches now s))"
| step_checkpoint_callback: "store_step ext s (set_checkpoint_callback cb s)"
| step_status_callback: "store_step ext s (set_status_change_callback s)"

definition store_init :: "externals \<Rightarrow> task_store \<Rightarrow> bool" where
  "store_init ext s \<longleftrightarrow> s = task_store_new \<or> (\<exists>counter c. restore_checked ext counter c = Inr s)"

abbreviation store_reachable :: "externals \<Rightarrow> task_store \<Rightarrow> bool" where
  "store_reachable ext \<equiv> reach (store_init ext) (store_step ext)"

lemmas operations_ok =
  insert_task_inner_ok transfer_agent_subtree_ok update_status_checked_ok transition_recovery_status_ok
  reopen_transferred_agent_scope_ok complete_task_ok append_agent_context_access_ok
  deliver_agent_context_supplement_ok update_task_goal_ok remove_task_ok remove_tasks_by_mission_ok
  insert_lease_ok grant_lease_ok grant_lease_and_start_task_inner_ok
  claim_task_for_execution_scope_ok revoke_lease_ok complete_lease_and_task_ok
  revoke_lease_and_set_task_terminal_inner_ok expire_lease_for_execution_scope_ok
  set_subtree_terminal_ok heartbeat_lease_inner_ok reconcile_volatile_runtime_after_restore_ok

lemmas operation_defs =
  insert_task_def insert_task_without_checkpoint_def reopen_failed_task_for_recovery_def
  start_failed_root_for_recovery_def reopen_completed_root_for_recovery_def
  grant_lease_and_start_task_def revoke_lease_and_set_task_terminal_def
  revoke_active_lease_and_set_task_terminal_def revoke_active_leases_and_set_subtree_terminal_def
  revoke_active_leases_and_set_execution_subtree_terminal_def revoke_orphaned_execution_descendants_def
  fail_unrunnable_execution_scope_def heartbeat_lease_def heartbeat_lease_for_execution_scope_def

lemma store_step_ok: "store_step ext s s' \<Longrightarrow> op_ok ext s s'"
proof (induction rule: store_step.induct)
  case (step_checkpoint_callback s cb)
  show ?case by (rule op_ok_same_maps [OF op_ok_refl]) (simp_all add: set_checkpoint_callback_def)
next
  case (step_status_callback s)
  show ?case by (rule op_ok_same_maps [OF op_ok_refl]) (simp_all add: set_status_change_callback_def)
qed (auto simp: operation_defs intro!: operations_ok)

interpretation store: invariant_system "store_init ext" "store_step ext" store_wf for ext
proof
  show "store_init ext s \<Longrightarrow> store_wf s" for s
    by (auto simp: store_init_def task_store_new_wf restore_checked_wf)
  show "store_wf s \<Longrightarrow> store_step ext s t \<Longrightarrow> store_wf t" for s t
    using store_step_ok by (auto simp: op_ok_def)
qed

section \<open>The stores of the scenario\<close>

lemma demo_reachable:
  "store_reachable demo_ext demo_store3" "store_reachable demo_ext demo_store4"
proof -
  have "store_reachable demo_ext task_store_new"
    by (rule reach_init) (simp add: store_init_def)
  then have "store_reachable demo_ext demo_store1"
    unfolding demo_store1_def by (rule reach_step) (rule step_insert)
  then have "store_reachable demo_ext demo_store2"
    unfolding demo_store2_def by (rule reach_step) (rule step_grant_start)
  then show 3: "store_reachable demo_ext demo_store3"
    unfolding demo_store3_def by (rule reach_step) (rule step_insert)
  from 3 show "store_reachable demo_ext demo_store4"
    unfolding demo_store4_def by (rule reach_step) (rule step_claim)
qed

lemma demo_store3_wf: "store_wf demo_store3" and demo_store4_wf: "store_wf demo_store4"
  by (rule store.reach_inv, rule demo_reachable)+

end
