(* ===== verification/LifecycleSpec.thy ===== *)
theory LifecycleSpec
  imports StoreMachine
begin

text \<open>
  What the task store promises about a task over its life: the abstract lifecycle machine and the
  properties of every reachable store that follow from the well-formedness invariant and the
  edges of \<open>TaskLifecycle\<close>.
\<close>

section \<open>The abstract machine\<close>

text \<open>
  The abstract state of a task is its status with its recovery generation.  A generation is
  consumed exactly when a failed task is opened again; nothing leaves \<open>Killed\<close>.
\<close>

type_synonym task_phase = "task_status \<times> nat"

inductive phase_edge :: "task_phase \<Rightarrow> task_phase \<Rightarrow> bool" where
  phase_stay: "phase_edge (st, n) (st, n)"
| phase_start: "phase_edge (Pending, n) (Running, n)"
| phase_complete: "phase_edge (Running, n) (Completed, n)"
| phase_settle: "is_open_status st \<Longrightarrow> st' = Failed \<or> st' = Killed \<Longrightarrow> phase_edge (st, n) (st', n)"
| phase_reopen: "is_open_status st' \<Longrightarrow> Suc n < 2 ^ 32 \<Longrightarrow> phase_edge (Failed, n) (st', Suc n)"
| phase_reject: "phase_edge (Completed, n) (Failed, n)"

inductive_cases phase_edgeE: "phase_edge a b"

definition task_phase_of :: "task \<Rightarrow> task_phase" where
  "task_phase_of t = (t_status t, unat (t_retry_count t))"

definition store_phases :: "task_store \<Rightarrow> task_id \<Rightarrow> task_phase option" where
  "store_phases s i = map_option task_phase_of (hget (ts_tasks s) i)"

text \<open>A task may appear and disappear; while it is there it moves along an edge.\<close>

definition phases_step :: "(task_id \<Rightarrow> task_phase option) \<Rightarrow> (task_id \<Rightarrow> task_phase option) \<Rightarrow> bool" where
  "phases_step a b \<longleftrightarrow> (\<forall>i p q. a i = Some p \<longrightarrow> b i = Some q \<longrightarrow> phase_edge p q)"

lemma task_edge_phase: "task_edge ext t t' \<Longrightarrow> phase_edge (task_phase_of t) (task_phase_of t')"
proof (induction rule: task_edge.induct)
  case edge_keep
  then show ?case by (simp add: task_phase_of_def phase_stay)
next
  case (edge_start "now")
  then show ?case by (simp add: task_phase_of_def phase_start)
next
  case (edge_complete attempt "now")
  then show ?case by (auto simp: task_phase_of_def apply_completion_Inr intro: phase_complete)
next
  case (edge_settle st refs "now")
  then show ?case by (auto simp: task_phase_of_def apply_terminal_Inr intro: phase_settle)
next
  case (edge_reopen n new "now")
  then have "unat n = Suc (unat (t_retry_count t))" by (auto dest: checked_add_unat)
  moreover have "unat n < 2 ^ 32" using unsigned_less [of n, where ?'a = nat] by simp
  ultimately show ?case using edge_reopen by (auto simp: task_phase_of_def intro: phase_reopen)
next
  case (edge_reject "now")
  then show ?case by (simp add: task_phase_of_def phase_reject)
qed

lemma store_step_edge:
  assumes "store_wf s" "store_step ext s s'" "hget (ts_tasks s) i = Some t" "hget (ts_tasks s') i = Some t'"
  shows "task_edge ext t t'"
  using store_step_ok [OF assms(2)] assms(1,3,4) by (auto simp: op_ok_def task_edges_def)

section \<open>Properties\<close>

text \<open>C1: every store the program can reach, from an empty or a restored one by any sequence of
  operations with any arguments, is well formed: keys are ids, every active lease belongs to a
  running task of the same root, no task has two active leases and the mission index lists exactly
  the stored tasks.\<close>

theorem store_reachable_wf: "store_reachable ext s \<Longrightarrow> store_wf s"
  by (rule store.reach_inv)

lemma store_reachable_wf_witness: "store_wf demo_store4 \<and> has_active_lease (ts_leases demo_store4) (TaskId ''a'')"
proof
  show "store_wf demo_store4" by (rule store_reachable_wf) (rule demo_reachable)
qed code_simp

text \<open>C2: the store refines the abstract lifecycle machine: each operation moves each task that
  stays in the store along one edge of it, whatever other tasks the operation touches.\<close>

theorem store_step_refines:
  assumes "store_wf s" "store_step ext s s'"
  shows "phases_step (store_phases s) (store_phases s')"
  unfolding phases_step_def store_phases_def
  using task_edge_phase [OF store_step_edge [OF assms]] by fastforce

lemma store_step_refines_witness:
  "phases_step (store_phases demo_store4) (store_phases (snd (update_status_checked (TaskId ''a'') Running 7 demo_store4)))"
  by (rule store_step_refines [OF demo_store4_wf step_update_status])


definition demo_store_completed :: task_store where
  "demo_store_completed =
     snd (complete_lease_and_task demo_ext (TaskId ''a'') (TaskId ''r'') (LeaseId ''lease-4-2'') demo_attempt 9
            demo_store4)"


text \<open>C4: a settled task starts again only by recovery: it was \<open>Failed\<close>, its recovery generation
  grows by exactly one without overflow, and a killed task stays killed for as long as it is
  stored.\<close>

theorem restart_only_by_recovery:
  assumes "store_wf s" "store_step ext s s'"
    "hget (ts_tasks s) i = Some t" "is_terminal_status (t_status t)" "hget (ts_tasks s') i = Some t'"
  shows "(is_open_status (t_status t') \<longrightarrow>
      t_status t = Failed \<and> unat (t_retry_count t') = unat (t_retry_count t) + 1)
    \<and> (t_status t = Killed \<longrightarrow> t_status t' = Killed)"
proof -
  have "phase_edge (task_phase_of t) (task_phase_of t')"
    by (rule task_edge_phase) (rule store_step_edge [OF assms(1,2,3,5)])
  with assms(4) show ?thesis
    by (auto simp: task_phase_of_def is_terminal_status_def elim: phase_edgeE)
qed

definition demo_store_failed :: task_store where
  "demo_store_failed =
     snd (revoke_active_lease_and_set_task_terminal (TaskId ''a'') (TaskId ''r'') Failed [] 8 demo_store4)"

definition demo_store_reopened :: task_store where
  "demo_store_reopened = snd (reopen_failed_task_for_recovery (TaskId ''a'') 9 demo_store_failed)"

lemma restart_only_by_recovery_witness:
  "unat (t_retry_count (the (hget (ts_tasks demo_store_reopened) (TaskId ''a'')))) = 1"
proof -
  let ?t = "the (hget (ts_tasks demo_store_failed) (TaskId ''a''))"
  let ?t' = "the (hget (ts_tasks demo_store_reopened) (TaskId ''a''))"
  have t: "hget (ts_tasks demo_store_failed) (TaskId ''a'') = Some ?t \<and> t_status ?t = Failed
      \<and> t_retry_count ?t = 0" by code_simp
  have t': "hget (ts_tasks demo_store_reopened) (TaskId ''a'') = Some ?t' \<and> t_status ?t' = Pending"
    by code_simp
  have "store_step demo_ext demo_store4 demo_store_failed"
    unfolding demo_store_failed_def by (rule step_revoke_active_terminal)
  with demo_store4_wf have wf: "store_wf demo_store_failed" by (rule store.step_inv)
  have "store_step demo_ext demo_store_failed demo_store_reopened"
    unfolding demo_store_reopened_def by (rule step_reopen_failed)
  from restart_only_by_recovery [OF wf this, of "TaskId ''a''" ?t ?t'] t t' show ?thesis
    by (auto simp: is_terminal_status_def)
qed

text \<open>C13: no operation changes the identity of a stored task (its ids, parent, kind, contract,
  scopes, creation time and executor binding apart from the transfer), and a transfer once
  recorded stays as it is.\<close>

theorem task_identity_immutable:
  assumes "store_wf s" "store_step ext s s'" "hget (ts_tasks s) i = Some t" "hget (ts_tasks s') i = Some t'"
  shows "task_frame t t' \<and> (\<forall>x. agent_run_transfer_of t = Some x \<longrightarrow> agent_run_transfer_of t' = Some x)"
  using store_step_edge [OF assms] task_edge_frame task_edge_transfer
  by (fastforce simp: transfer_kept_def)

lemma task_identity_immutable_witness:
  "t_parent_task_id (the (hget (ts_tasks demo_store_failed) (TaskId ''a''))) = Some (TaskId ''r'')"
proof -
  let ?t = "the (hget (ts_tasks demo_store4) (TaskId ''a''))"
  let ?t' = "the (hget (ts_tasks demo_store_failed) (TaskId ''a''))"
  have t: "hget (ts_tasks demo_store4) (TaskId ''a'') = Some ?t
      \<and> t_parent_task_id ?t = Some (TaskId ''r'')" by code_simp
  have t': "hget (ts_tasks demo_store_failed) (TaskId ''a'') = Some ?t'" by code_simp
  have "store_step demo_ext demo_store4 demo_store_failed"
    unfolding demo_store_failed_def by (rule step_revoke_active_terminal)
  from task_identity_immutable [OF demo_store4_wf this, of "TaskId ''a''" ?t ?t'] t t' show ?thesis
    by (simp add: task_frame_def)
qed

end
