(* ===== verification/TaskTree.thy ===== *)
theory TaskTree
  imports StoreInvariant Scenario
begin

text \<open>
  The tree of tasks and its execution scopes: the loops of \<open>TaskGraph\<close> against specifications
  without work lists and without sets of visited tasks.  A scope is cut out of the tree by the
  transferred tasks; the runner of a scope sees, by walking down, exactly the tasks whose parent
  chain leads up to its root.
\<close>

section \<open>Walking down: subtrees and scopes\<close>

definition child_of :: "task_map \<Rightarrow> task_id \<Rightarrow> task_id \<Rightarrow> bool" where
  "child_of tasks p c \<longleftrightarrow> (\<exists>t. hget tasks c = Some t \<and> t_parent_task_id t = Some p)"

text \<open>The tasks below \<open>root\<close>; with \<open>exec\<close> the walk does not enter a transferred task.\<close>

inductive in_scope :: "task_map \<Rightarrow> bool \<Rightarrow> task_id \<Rightarrow> task_id \<Rightarrow> bool" for tasks exec root where
  scope_root: "hmem tasks root \<Longrightarrow> in_scope tasks exec root root"
| scope_child: "in_scope tasks exec root p \<Longrightarrow> child_of tasks p c \<Longrightarrow>
    \<not> (exec \<and> c \<noteq> root \<and> is_transferred tasks c) \<Longrightarrow> in_scope tasks exec root c"

lemma children_of_push:
  "set (children_of (fold push_child ts m) p)
   = set (children_of m p) \<union> {t_task_id t | t. t \<in> set ts \<and> t_parent_task_id t = Some p}"
proof (induction ts arbitrary: m)
  case (Cons t ts)
  have "set (children_of (push_child t m) p)
      = set (children_of m p) \<union> (if t_parent_task_id t = Some p then {t_task_id t} else {})"
    by (auto simp: children_of_def push_child_def split: option.splits)
  with Cons show ?case by (auto split: if_splits)
qed simp

lemma children_of_hmap_values:
  "set (children_of (hmap_values (sort_key f) m) p) = set (children_of m p)"
  by (simp add: children_of_def split: option.split)

lemma children_of_index:
  assumes "tasks_wf tasks"
  shows "c \<in> set (children_of (child_index_from_tasks tasks) p) \<longleftrightarrow> child_of tasks p c"
proof -
  have "c \<in> set (children_of (child_index_from_tasks tasks) p)
      \<longleftrightarrow> (\<exists>t. t \<in> set (hvalues tasks) \<and> t_task_id t = c \<and> t_parent_task_id t = Some p)"
    by (auto simp: child_index_from_tasks_def children_of_hmap_values children_of_push)
      (auto simp: children_of_def)
  then show ?thesis
    using assms by (auto simp: tasks_wf_values child_of_def tasks_wf_id)
qed

lemma walk_path_in_scope:
  assumes "walk_path (hkeys tasks) (\<lambda>k. exec \<and> k \<noteq> root \<and> is_transferred tasks k)
      (\<lambda>k. rev (children_of (child_index_from_tasks tasks) k)) r x"
    "r = root" "tasks_wf tasks"
  shows "in_scope tasks exec root x"
  using assms
proof (induction rule: walk_path.induct)
  case (path_refl k)
  then show ?case by (auto simp: walk_live_def hmem_iff intro: scope_root)
next
  case (path_step r a b)
  then show ?case by (auto simp: children_of_index walk_live_def intro: scope_child)
qed

lemma in_scope_walk_path:
  assumes "in_scope tasks exec root x" "tasks_wf tasks"
  shows "walk_path (hkeys tasks) (\<lambda>k. exec \<and> k \<noteq> root \<and> is_transferred tasks k)
      (\<lambda>k. rev (children_of (child_index_from_tasks tasks) k)) root x"
  using assms
proof induction
  case scope_root
  then show ?case by (intro path_refl) (auto simp: walk_live_def hmem_iff)
next
  case (scope_child p c)
  show ?case
  proof (rule path_step)
    show "c \<in> set (rev (children_of (child_index_from_tasks tasks) p))"
      using scope_child by (simp add: children_of_index)
    show "walk_live (hkeys tasks) (\<lambda>k. exec \<and> k \<noteq> root \<and> is_transferred tasks k) c"
      using scope_child by (auto simp: walk_live_def child_of_def hget_in_hkeys)
  qed (use scope_child in simp)
qed

lemma collect_subtree_set:
  assumes "tasks_wf tasks"
  shows "set (collect_subtree_ids_in_scope tasks root exec) = {k. in_scope tasks exec root k}"
proof (rule set_eqI)
  fix x
  let ?path = "walk_path (hkeys tasks) (\<lambda>k. exec \<and> k \<noteq> root \<and> is_transferred tasks k)
      (\<lambda>k. rev (children_of (child_index_from_tasks tasks) k))"
  have "x \<in> set (collect_subtree_ids_in_scope tasks root exec) \<longleftrightarrow> ?path root x"
    unfolding collect_subtree_ids_in_scope_def Let_def stack_walk_set by simp
  also have "\<dots> \<longleftrightarrow> in_scope tasks exec root x"
    using walk_path_in_scope [OF _ refl assms] in_scope_walk_path [OF _ assms] by blast
  finally show "x \<in> set (collect_subtree_ids_in_scope tasks root exec)
      \<longleftrightarrow> x \<in> {k. in_scope tasks exec root k}" by simp
qed

lemma collect_subtree_distinct: "distinct (collect_subtree_ids_in_scope tasks root exec)"
  unfolding collect_subtree_ids_in_scope_def Let_def by (rule stack_walk_distinct)

lemma collect_subtree_parent_first:
  assumes "tasks_wf tasks" "collect_subtree_ids_in_scope tasks root exec = as @ k # bs"
  shows "k = root \<or> (\<exists>p \<in> set as. child_of tasks p k)"
proof -
  from assms(2) have "k \<in> set [root] \<or>
      (\<exists>y \<in> set as. k \<in> set (rev (children_of (child_index_from_tasks tasks) y)))"
    unfolding collect_subtree_ids_in_scope_def Let_def by (rule stack_walk_parent_first)
  with assms(1) show ?thesis by (auto simp: children_of_index)
qed

text \<open>C6: \<open>collect_subtree_ids_in_scope\<close> returns exactly the stored tasks that the parent links
  connect to the root (without entering transferred tasks, for an execution scope), each once and
  each after its parent, on any well-formed map, also one whose parent links form a cycle.\<close>

theorem collect_subtree_exact:
  assumes "tasks_wf tasks"
  shows "set (collect_subtree_ids_in_scope tasks root exec) = {k. in_scope tasks exec root k}
    \<and> distinct (collect_subtree_ids_in_scope tasks root exec)
    \<and> (\<forall>as k bs. collect_subtree_ids_in_scope tasks root exec = as @ k # bs \<longrightarrow>
         k = root \<or> (\<exists>p \<in> set as. child_of tasks p k))"
  using collect_subtree_set [OF assms] collect_subtree_distinct collect_subtree_parent_first [OF assms]
  by blast

lemma demo_tasks_wf: "tasks_wf (ts_tasks demo_store4)"
proof -
  have "map fst (ts_tasks demo_store4) = [TaskId ''r'', TaskId ''a'']
      \<and> list_all (\<lambda>(k, t). t_task_id t = k) (ts_tasks demo_store4)" by code_simp
  then show ?thesis
    by (auto simp: tasks_wf_def hdistinct_def list_all_iff dest: map_of_SomeD)
qed

lemma collect_subtree_exact_witness:
  "in_scope (ts_tasks demo_store4) True (TaskId ''r'') (TaskId ''a'')"
proof -
  have "TaskId ''a'' \<in> set (collect_subtree_ids_in_scope (ts_tasks demo_store4) (TaskId ''r'') True)"
    by code_simp
  with collect_subtree_exact [OF demo_tasks_wf, of "TaskId ''r''" True] show ?thesis by simp
qed

section \<open>Walking up: chains of parents\<close>

text \<open>A partial function that can be followed only finitely often from \<open>x\<close>.\<close>

inductive climbs :: "('a \<Rightarrow> 'a option) \<Rightarrow> 'a \<Rightarrow> bool" for up where
  climb_end: "up x = None \<Longrightarrow> climbs up x"
| climb_step: "up x = Some y \<Longrightarrow> climbs up y \<Longrightarrow> climbs up x"

abbreviation above :: "('a \<Rightarrow> 'a option) \<Rightarrow> 'a \<Rightarrow> 'a \<Rightarrow> bool" where
  "above up \<equiv> (\<lambda>x y. up x = Some y)\<^sup>+\<^sup>+"

lemma climbs_acyclic: "climbs up x \<Longrightarrow> \<not> above up x x"
proof (induction rule: climbs.induct)
  case (climb_end x)
  then show ?case by (auto dest: tranclpD)
next
  case (climb_step x y)
  show ?case
  proof
    assume "above up x x"
    then obtain z where "up x = Some z" "(\<lambda>x y. up x = Some y)\<^sup>*\<^sup>* z x" by (auto dest: tranclpD)
    with climb_step(1) have "(\<lambda>x y. up x = Some y)\<^sup>*\<^sup>* y x" by simp
    then have "above up y y" using climb_step(1) by (rule rtranclp_into_tranclp1)
    with climb_step(3) show False by simp
  qed
qed

definition same_tree :: "task \<Rightarrow> task \<Rightarrow> bool" where
  "same_tree t c \<longleftrightarrow> t_root_task_id c = t_root_task_id t \<and> t_mission_id c = t_mission_id t"

text \<open>
  The parent chain of a task allows it to run: it stays within the tree and is open up to the root
  or up to a valid transferred task; with \<open>started\<close> every parent on it is running.
\<close>

inductive chain_active :: "task_map \<Rightarrow> bool \<Rightarrow> task \<Rightarrow> task \<Rightarrow> bool" for tasks started t where
  active_root: "same_tree t c \<Longrightarrow> is_open_status (t_status c) \<Longrightarrow> t_task_id c = t_root_task_id t \<Longrightarrow>
    t_parent_task_id c = None \<Longrightarrow> chain_active tasks started t c"
| active_transfer: "same_tree t c \<Longrightarrow> is_open_status (t_status c) \<Longrightarrow> t_task_id c \<noteq> t_root_task_id t \<Longrightarrow>
    agent_run_transfer_of c \<noteq> None \<Longrightarrow>
    execution_scope_root_in_tasks tasks (t_task_id c) = Inr (t_task_id c) \<Longrightarrow>
    chain_active tasks started t c"
| active_parent: "same_tree t c \<Longrightarrow> is_open_status (t_status c) \<Longrightarrow> t_task_id c \<noteq> t_root_task_id t \<Longrightarrow>
    agent_run_transfer_of c = None \<Longrightarrow> parent_task tasks c = Some p \<Longrightarrow>
    (started \<Longrightarrow> t_status p = Running) \<Longrightarrow> chain_active tasks started t p \<Longrightarrow>
    chain_active tasks started t c"

text \<open>The parent the loop goes on with.\<close>

definition active_up :: "task_map \<Rightarrow> task \<Rightarrow> task \<Rightarrow> task option" where
  "active_up tasks t c =
     (if t_task_id c = t_root_task_id t \<or> agent_run_transfer_of c \<noteq> None then None
      else parent_task tasks c)"

lemma chain_active_climbs: "chain_active tasks started t c \<Longrightarrow> climbs (active_up tasks t) c"
proof (induction rule: chain_active.induct)
  case (active_parent c p)
  then have "active_up tasks t c = Some p" by (simp add: active_up_def)
  then show ?case using active_parent.IH by (rule climb_step [where up = "active_up tasks t"])
qed (rule climb_end [where up = "active_up tasks t"], simp add: active_up_def)+

lemma parent_task_get: "tasks_wf tasks \<Longrightarrow> parent_task tasks c = Some p \<Longrightarrow> hget tasks (t_task_id p) = Some p"
  by (auto simp: parent_task_def bind_eq_Some_conv tasks_wf_def)

lemma ancestor_chain_loop_sound:
  "ancestor_chain_loop tasks t started seen c \<Longrightarrow> chain_active tasks started t c"
proof (induction tasks t started seen c rule: ancestor_chain_loop.induct)
  case (1 tasks t started seen c)
  show ?case
  proof (cases "t_task_id c = t_root_task_id t \<or> agent_run_transfer_of c \<noteq> None")
    case True
    with "1.prems" show ?thesis
      by (subst (asm) ancestor_chain_loop.simps)
        (auto simp: same_tree_def terminal_iff_not_open intro: active_root active_transfer split: if_splits)
  next
    case False
    with "1.prems" obtain p where p: "parent_task tasks c = Some p" "started \<longrightarrow> t_status p = Running"
      "ancestor_chain_loop tasks t started (insert (t_task_id c) seen) p"
      and c: "same_tree t c" "is_open_status (t_status c)" "t_task_id c \<notin> seen"
      by (subst (asm) ancestor_chain_loop.simps)
        (auto simp: same_tree_def terminal_iff_not_open parent_task_def split: if_splits option.splits)
    have "chain_active tasks started t p"
      by (rule "1.IH") (use p c False in \<open>auto simp: same_tree_def terminal_iff_not_open parent_task_def\<close>)
    with p c False show ?thesis by (intro active_parent [of t c tasks p]) auto
  qed
qed

lemma ancestor_chain_loop_complete:
  assumes "tasks_wf tasks"
  shows "chain_active tasks started t c \<Longrightarrow> hget tasks (t_task_id c) = Some c \<Longrightarrow>
    \<forall>i \<in> seen. \<exists>u. hget tasks i = Some u \<and> above (active_up tasks t) u c \<Longrightarrow>
    ancestor_chain_loop tasks t started seen c"
proof (induction arbitrary: seen rule: chain_active.induct)
  case (active_root c)
  have "climbs (active_up tasks t) c"
    using active_root by (intro climb_end [where up = "active_up tasks t"]) (simp add: active_up_def)
  with active_root(5,6) have "t_task_id c \<notin> seen" using climbs_acyclic by fastforce
  with active_root show ?case
    by (subst ancestor_chain_loop.simps) (auto simp: same_tree_def is_terminal_status_def)
next
  case (active_transfer c)
  have "climbs (active_up tasks t) c"
    using active_transfer by (intro climb_end [where up = "active_up tasks t"]) (simp add: active_up_def)
  with active_transfer(6,7) have "t_task_id c \<notin> seen" using climbs_acyclic by fastforce
  with active_transfer show ?case
    by (subst ancestor_chain_loop.simps) (auto simp: same_tree_def is_terminal_status_def)
next
  case (active_parent c p)
  have up: "active_up tasks t c = Some p" using active_parent by (simp add: active_up_def)
  have "climbs (active_up tasks t) c"
    using up chain_active_climbs [OF active_parent(7)]
    by (rule climb_step [where up = "active_up tasks t"])
  with active_parent(9,10) have new: "t_task_id c \<notin> seen" using climbs_acyclic by fastforce
  have "\<exists>u. hget tasks i = Some u \<and> above (active_up tasks t) u p" if "i \<in> insert (t_task_id c) seen" for i
    using that active_parent(9,10) up by (auto intro: tranclp.trancl_into_trancl)
  then have "ancestor_chain_loop tasks t started (insert (t_task_id c) seen) p"
    using parent_task_get [OF assms active_parent(5)] by (intro active_parent(8)) auto
  with new active_parent show ?case
    by (subst ancestor_chain_loop.simps)
      (auto simp: same_tree_def is_terminal_status_def parent_task_def split: option.split)
qed

lemma ancestor_chain_iff:
  assumes "tasks_wf tasks" "hget tasks (t_task_id t) = Some t"
  shows "ancestor_chain_is_active t tasks started \<longleftrightarrow> chain_active tasks started t t"
  using ancestor_chain_loop_sound [of tasks t started "{}" t]
    ancestor_chain_loop_complete [OF assms(1) _ assms(2), of started t "{}"]
  by (auto simp: ancestor_chain_is_active_def)

text \<open>C11: the loop that decides whether the parent chain of a task lets it run, with its set of
  visited tasks, computes exactly the chain property: it answers no on a chain that runs in a
  circle, and its visited set never turns away a chain that ends.\<close>

theorem ancestor_chain_is_active_iff:
  assumes "tasks_wf tasks" "hget tasks (t_task_id t) = Some t"
  shows "ancestor_chain_is_active t tasks started \<longleftrightarrow> chain_active tasks started t t"
  using assms by (rule ancestor_chain_iff)

lemma ancestor_chain_is_active_iff_witness:
  "chain_active (ts_tasks demo_store4) True
     (the (hget (ts_tasks demo_store4) (TaskId ''a''))) (the (hget (ts_tasks demo_store4) (TaskId ''a'')))"
proof -
  let ?t = "the (hget (ts_tasks demo_store4) (TaskId ''a''))"
  have "hget (ts_tasks demo_store4) (t_task_id ?t) = Some ?t
      \<and> ancestor_chain_is_active ?t (ts_tasks demo_store4) True" by code_simp
  with ancestor_chain_is_active_iff [OF demo_tasks_wf, of ?t True] show ?thesis by blast
qed

end
