(* ===== verification/ExecutionScope.thy ===== *)
theory ExecutionScope
  imports TaskTree StoreMachine
begin

text \<open>
  Execution scopes: which runner owns a task.  The owner is found by walking up to the first
  transferred task; the runner of a scope lists its tasks by walking down and stopping at
  transferred tasks.  The two agree, and what a runner finds runnable it can claim.
\<close>

section \<open>Execution scopes\<close>

text \<open>
  The first transferred task on the parent chain of \<open>c\<close>, within the tree of \<open>t\<close>, or none when the
  chain ends without one.
\<close>

inductive transfer_from :: "task_map \<Rightarrow> task \<Rightarrow> task \<Rightarrow> (task \<times> agent_run_transfer) option \<Rightarrow> bool"
  for tasks t where
  transfer_here: "same_tree t c \<Longrightarrow> agent_run_transfer_of c = Some x \<Longrightarrow>
    transfer_from tasks t c (Some (c, x))"
| transfer_none: "same_tree t c \<Longrightarrow> agent_run_transfer_of c = None \<Longrightarrow> t_parent_task_id c = None \<Longrightarrow>
    transfer_from tasks t c None"
| transfer_up: "same_tree t c \<Longrightarrow> agent_run_transfer_of c = None \<Longrightarrow> parent_task tasks c = Some p \<Longrightarrow>
    transfer_from tasks t p r \<Longrightarrow> transfer_from tasks t c r"

inductive_cases transfer_fromE: "transfer_from tasks t c r"

definition transfer_up_of :: "task_map \<Rightarrow> task \<Rightarrow> task option" where
  "transfer_up_of tasks c = (if agent_run_transfer_of c \<noteq> None then None else parent_task tasks c)"

lemma transfer_from_climbs: "transfer_from tasks t c r \<Longrightarrow> climbs (transfer_up_of tasks) c"
proof (induction rule: transfer_from.induct)
  case (transfer_up c p r)
  then have "transfer_up_of tasks c = Some p" by (simp add: transfer_up_of_def)
  then show ?case using transfer_up.IH by (rule climb_step [where up = "transfer_up_of tasks"])
qed (rule climb_end [where up = "transfer_up_of tasks"], simp add: transfer_up_of_def parent_task_def)+

lemma parent_task_Some: "parent_task tasks c = Some p \<Longrightarrow> t_parent_task_id c \<noteq> None"
  by (auto simp: parent_task_def bind_eq_Some_conv)

lemma transfer_chain_loop_sound:
  "transfer_chain_loop tasks t seen c = Inr r \<Longrightarrow> transfer_from tasks t c r"
proof (induction tasks t seen c rule: transfer_chain_loop.induct)
  case (1 tasks t seen c)
  have tree: "same_tree t c" and new: "t_task_id c \<notin> seen"
    using "1.prems" by (subst (asm) transfer_chain_loop.simps, auto simp: same_tree_def split: if_splits)+
  show ?case
  proof (cases "agent_run_transfer_of c")
    case None
    show ?thesis
    proof (cases "t_parent_task_id c")
      case no_parent: None
      with "1.prems" None tree new show ?thesis
        by (subst (asm) transfer_chain_loop.simps) (auto simp: same_tree_def intro: transfer_none)
    next
      case (Some p)
      with "1.prems" None tree new obtain parent where parent: "hget tasks p = Some parent"
        "transfer_chain_loop tasks t (insert (t_task_id c) seen) parent = Inr r"
        by (subst (asm) transfer_chain_loop.simps) (auto simp: same_tree_def split: option.splits)
      have "transfer_from tasks t parent r"
        by (rule "1.IH") (use Some None tree new parent in \<open>auto simp: same_tree_def\<close>)
      moreover have "parent_task tasks c = Some parent" using Some parent(1) by (simp add: parent_task_def)
      ultimately show ?thesis using tree None by (intro transfer_up [of t c tasks parent])
    qed
  next
    case (Some x)
    with "1.prems" tree new show ?thesis
      by (subst (asm) transfer_chain_loop.simps) (auto simp: same_tree_def intro: transfer_here)
  qed
qed

lemma transfer_chain_loop_complete:
  assumes "tasks_wf tasks"
  shows "transfer_from tasks t c r \<Longrightarrow> hget tasks (t_task_id c) = Some c \<Longrightarrow>
    \<forall>i \<in> seen. \<exists>u. hget tasks i = Some u \<and> above (transfer_up_of tasks) u c \<Longrightarrow>
    transfer_chain_loop tasks t seen c = Inr r"
proof (induction arbitrary: seen rule: transfer_from.induct)
  case (transfer_here c x)
  have "climbs (transfer_up_of tasks) c"
    using transfer_here(2) by (intro climb_end [where up = "transfer_up_of tasks"])
      (simp add: transfer_up_of_def)
  with transfer_here(3,4) have "t_task_id c \<notin> seen" using climbs_acyclic by fastforce
  with transfer_here show ?case
    by (subst transfer_chain_loop.simps) (simp add: same_tree_def)
next
  case (transfer_none c)
  have "climbs (transfer_up_of tasks) c"
    using transfer_none(3) by (intro climb_end [where up = "transfer_up_of tasks"])
      (simp add: transfer_up_of_def parent_task_def)
  with transfer_none(4,5) have "t_task_id c \<notin> seen" using climbs_acyclic by fastforce
  with transfer_none show ?case
    by (subst transfer_chain_loop.simps) (simp add: same_tree_def)
next
  case (transfer_up c p r)
  have up: "transfer_up_of tasks c = Some p" using transfer_up by (simp add: transfer_up_of_def)
  have "climbs (transfer_up_of tasks) c"
    using up transfer_from_climbs [OF transfer_up(4)] by (rule climb_step [where up = "transfer_up_of tasks"])
  with transfer_up(6,7) have new: "t_task_id c \<notin> seen" using climbs_acyclic by fastforce
  have "\<exists>u. hget tasks i = Some u \<and> above (transfer_up_of tasks) u p" if "i \<in> insert (t_task_id c) seen" for i
    using that transfer_up(6,7) up by (auto intro: tranclp.trancl_into_trancl)
  then have "transfer_chain_loop tasks t (insert (t_task_id c) seen) p = Inr r"
    using parent_task_get [OF assms transfer_up(3)] by (intro transfer_up.IH) auto
  with new transfer_up show ?case
    by (subst transfer_chain_loop.simps)
      (auto simp: same_tree_def parent_task_def bind_eq_Some_conv)
qed

lemma agent_run_transfer_iff:
  assumes "tasks_wf tasks" "hget tasks k = Some t"
  shows "agent_run_transfer_in_tasks tasks k = Inr r \<longleftrightarrow> transfer_from tasks t t r"
proof -
  have "hget tasks (t_task_id t) = Some t" using assms by (simp add: tasks_wf_id)
  with transfer_chain_loop_sound [of tasks t "{}" t r]
    transfer_chain_loop_complete [OF assms(1), of t t r "{}"] assms(2)
  show ?thesis by (auto simp: agent_run_transfer_in_tasks_def)
qed

lemma transfer_from_cong: "same_tree t u \<Longrightarrow> transfer_from tasks t c r \<Longrightarrow> transfer_from tasks u c r"
proof (rotate_tac, induction rule: transfer_from.induct)
  case (transfer_up c p r)
  then show ?case by (intro transfer_from.transfer_up [of u c tasks p]) (auto simp: same_tree_def)
qed (auto simp: same_tree_def intro: transfer_here transfer_none)

lemma transfer_from_tree: "transfer_from tasks t c r \<Longrightarrow> same_tree t c"
  by (erule transfer_from.cases) auto

text \<open>The scope of a task, by the outcome of its transfer chain.\<close>

lemma execution_scope_root_Inr:
  assumes "tasks_wf tasks" "hget tasks k = Some t"
  shows "execution_scope_root_in_tasks tasks k = Inr scope \<longleftrightarrow>
    (transfer_from tasks t t None \<and> validate_task_root tasks k (t_root_task_id t) = Inr ()
       \<and> scope = t_root_task_id t)
    \<or> (\<exists>e x p. transfer_from tasks t t (Some (e, x)) \<and> parent_task tasks e = Some p
         \<and> validate_agent_transfer_binding p e x = Inr () \<and> scope = t_task_id e)"
proof (cases "agent_run_transfer_in_tasks tasks k")
  case (Inl e)
  then have "\<not> transfer_from tasks t t r" for r
    using agent_run_transfer_iff [OF assms, of r] by simp
  with Inl assms(2) show ?thesis by (simp add: execution_scope_root_in_tasks_def)
next
  case (Inr r)
  then have iff: "transfer_from tasks t t r' \<longleftrightarrow> r' = r" for r'
    using agent_run_transfer_iff [OF assms, of r'] by auto
  show ?thesis
  proof (cases r)
    case None
    with Inr assms(2) show ?thesis
      by (auto simp: iff execution_scope_root_in_tasks_def split: sum.splits)
  next
    case (Some ex)
    with Inr assms(2) show ?thesis
      by (cases ex)
        (auto simp: iff execution_scope_root_in_tasks_def parent_task_def split: sum.splits option.splits)
  qed
qed

section \<open>The two views of a scope agree\<close>

text \<open>
  A forest: a task without a parent is its own root and carries no transfer, any other task has a
  stored parent of the same root and mission.
\<close>

definition forest_task :: "task_map \<Rightarrow> task \<Rightarrow> bool" where
  "forest_task tasks t \<longleftrightarrow>
     (case t_parent_task_id t of
        None \<Rightarrow> t_root_task_id t = t_task_id t \<and> agent_run_transfer_of t = None
      | Some i \<Rightarrow> (case hget tasks i of None \<Rightarrow> False | Some p \<Rightarrow> same_tree t p))"

definition forest_wf :: "task_map \<Rightarrow> bool" where
  "forest_wf tasks \<longleftrightarrow> tasks_wf tasks \<and> list_all (forest_task tasks) (hvalues tasks)"

lemma forest_wf_taskD:
  "forest_wf tasks \<Longrightarrow> hget tasks k = Some t \<Longrightarrow> forest_task tasks t"
  by (auto simp: forest_wf_def list_all_iff dest: hget_in_hvalues)

lemma forest_wf_wf: "forest_wf tasks \<Longrightarrow> tasks_wf tasks"
  by (simp add: forest_wf_def)

lemma forest_parent:
  "forest_task tasks t \<Longrightarrow> parent_task tasks t = Some p \<Longrightarrow> same_tree t p"
  by (auto simp: forest_task_def parent_task_def bind_eq_Some_conv)

lemma child_of_parent_task:
  "tasks_wf tasks \<Longrightarrow> hget tasks c = Some t \<Longrightarrow> hget tasks p = Some u \<Longrightarrow> child_of tasks p c \<Longrightarrow>
   parent_task tasks t = Some u"
  by (auto simp: child_of_def parent_task_def)

lemma in_scope_stored:
  assumes "in_scope tasks exec root k"
  obtains t where "hget tasks k = Some t"
  using assms by (cases rule: in_scope.cases) (auto simp: hmem_def child_of_def)

text \<open>Walking up from a task of a scope, the first transfer is the one found from its root.\<close>

lemma in_scope_transfer_from:
  assumes "forest_wf tasks" "hget tasks scope = Some ts" "transfer_from tasks ts ts r"
    "in_scope tasks True scope k" "hget tasks k = Some t"
  shows "same_tree ts t \<and> transfer_from tasks ts t r"
  using assms(4,5)
proof (induction arbitrary: t rule: in_scope.induct)
  case scope_root
  with assms(2,3) show ?case by (auto simp: same_tree_def)
next
  case (scope_child p c)
  obtain u where u: "hget tasks p = Some u"
    using scope_child(1) by (rule in_scope_stored)
  with scope_child have IH: "same_tree ts u" "transfer_from tasks ts u r" by auto
  have up: "parent_task tasks t = Some u"
    by (rule child_of_parent_task [OF forest_wf_wf [OF assms(1)] scope_child(5) u scope_child(2)])
  have tree: "same_tree ts t"
    using forest_parent [OF forest_wf_taskD [OF assms(1) scope_child(5)] up] IH(1)
    by (simp add: same_tree_def)
  show ?case
  proof (cases "c = scope")
    case True
    with scope_child(5) assms(2,3) tree show ?thesis by simp
  next
    case False
    with scope_child have "agent_run_transfer_of t = None"
      by (simp add: is_transferred_def)
    with tree up IH(2) show ?thesis using transfer_up [of ts t tasks u r] by simp
  qed
qed

lemma transfer_from_in_scope:
  assumes "forest_wf tasks"
  shows "transfer_from tasks t c r \<Longrightarrow> hget tasks (t_task_id c) = Some c \<Longrightarrow>
    in_scope tasks True (case r of None \<Rightarrow> t_root_task_id t | Some (e, x) \<Rightarrow> t_task_id e) (t_task_id c)
    \<and> (\<forall>e x. r = Some (e, x) \<longrightarrow> hget tasks (t_task_id e) = Some e \<and> transfer_from tasks e e r)
    \<and> (r = None \<longrightarrow> (\<exists>u. hget tasks (t_root_task_id t) = Some u \<and> same_tree t u
         \<and> transfer_from tasks u u None))"
proof (induction rule: transfer_from.induct)
  case (transfer_here c x)
  then have "transfer_from tasks c c (Some (c, x))"
    by (intro transfer_from.transfer_here) (auto simp: same_tree_def)
  with transfer_here show ?case by (auto simp: hmem_def intro: scope_root)
next
  case (transfer_none c)
  then have root: "t_task_id c = t_root_task_id t"
    using forest_wf_taskD [OF assms transfer_none(4)] by (simp add: forest_task_def same_tree_def)
  moreover have "transfer_from tasks c c None"
    using transfer_none by (intro transfer_from.transfer_none) (auto simp: same_tree_def)
  ultimately show ?case using transfer_none by (auto simp: hmem_def intro: scope_root)
next
  case (transfer_up c p r)
  have p: "hget tasks (t_task_id p) = Some p"
    using forest_wf_wf [OF assms] transfer_up(3) by (rule parent_task_get)
  have "child_of tasks (t_task_id p) (t_task_id c)"
    using transfer_up(3,6) forest_wf_wf [OF assms]
    by (auto simp: child_of_def parent_task_def bind_eq_Some_conv dest: tasks_wf_id)
  moreover have "\<not> is_transferred tasks (t_task_id c)"
    using transfer_up(2,6) by (simp add: is_transferred_def)
  ultimately show ?case
    using transfer_up.IH [OF p]
      scope_child [of tasks True "case r of None \<Rightarrow> t_root_task_id t | Some (e, x) \<Rightarrow> t_task_id e"
        "t_task_id p" "t_task_id c"] by simp
qed

lemma scope_owner_iff:
  assumes "forest_wf tasks"
  shows "execution_scope_root_in_tasks tasks k = Inr scope \<longleftrightarrow>
    execution_scope_root_in_tasks tasks scope = Inr scope
    \<and> k \<in> set (collect_subtree_ids_in_scope tasks scope True)"
proof
  have wf: "tasks_wf tasks" using assms by (rule forest_wf_wf)
  assume k: "execution_scope_root_in_tasks tasks k = Inr scope"
  then obtain t where t: "hget tasks k = Some t"
    by (auto simp: execution_scope_root_in_tasks_def split: option.splits)
  then have id: "t_task_id t = k" using wf by (simp add: tasks_wf_id)
  from k obtain r where r: "transfer_from tasks t t r"
    and val: "case r of
        None \<Rightarrow> validate_task_root tasks k (t_root_task_id t) = Inr () \<and> scope = t_root_task_id t
      | Some (e, x) \<Rightarrow> (\<exists>p. parent_task tasks e = Some p
           \<and> validate_agent_transfer_binding p e x = Inr ()) \<and> scope = t_task_id e"
    unfolding execution_scope_root_Inr [OF wf t] by force
  note sc = transfer_from_in_scope [OF assms r, unfolded id, OF t]
  have "in_scope tasks True scope k"
    using sc val by (cases r) (auto split: prod.splits)
  moreover have "execution_scope_root_in_tasks tasks scope = Inr scope"
  proof (cases r)
    case None
    with sc val obtain u where u: "hget tasks scope = Some u" "same_tree t u" "transfer_from tasks u u None"
      by auto
    moreover have "validate_task_root tasks scope (t_root_task_id u) = Inr ()"
      using None val u by (auto simp: validate_task_root_Inr same_tree_def)
    ultimately show ?thesis
      using None val unfolding execution_scope_root_Inr [OF wf u(1)] by (auto simp: same_tree_def)
  next
    case (Some ex)
    with sc val show ?thesis
      by (cases ex) (auto simp: execution_scope_root_Inr [OF wf])
  qed
  ultimately show "execution_scope_root_in_tasks tasks scope = Inr scope
      \<and> k \<in> set (collect_subtree_ids_in_scope tasks scope True)"
    using wf by (simp add: collect_subtree_set)
next
  have wf: "tasks_wf tasks" using assms by (rule forest_wf_wf)
  assume h: "execution_scope_root_in_tasks tasks scope = Inr scope
      \<and> k \<in> set (collect_subtree_ids_in_scope tasks scope True)"
  then have k: "in_scope tasks True scope k" using wf by (simp add: collect_subtree_set)
  from h obtain ts where ts: "hget tasks scope = Some ts"
    by (auto simp: execution_scope_root_in_tasks_def split: option.splits)
  from k obtain t where t: "hget tasks k = Some t" by (rule in_scope_stored)
  have scope_root: "execution_scope_root_in_tasks tasks scope = Inr scope" using h by simp
  show "execution_scope_root_in_tasks tasks k = Inr scope"
    using scope_root [unfolded execution_scope_root_Inr [OF wf ts]]
  proof (elim disjE exE conjE)
    assume n: "transfer_from tasks ts ts None" "validate_task_root tasks scope (t_root_task_id ts) = Inr ()"
      "scope = t_root_task_id ts"
    from in_scope_transfer_from [OF assms ts n(1) k t]
    have "same_tree ts t" "transfer_from tasks t t None"
      using transfer_from_cong by blast+
    moreover have "validate_task_root tasks k (t_root_task_id t) = Inr ()"
      using n(2,3) ts t \<open>same_tree ts t\<close> by (auto simp: validate_task_root_Inr same_tree_def)
    ultimately show ?thesis
      using n(3) unfolding execution_scope_root_Inr [OF wf t] by (auto simp: same_tree_def)
  next
    fix e x p
    assume n: "transfer_from tasks ts ts (Some (e, x))" "parent_task tasks e = Some p"
      "validate_agent_transfer_binding p e x = Inr ()" "scope = t_task_id e"
    from in_scope_transfer_from [OF assms ts n(1) k t]
    have "transfer_from tasks t t (Some (e, x))" using transfer_from_cong by blast
    with n show ?thesis unfolding execution_scope_root_Inr [OF wf t] by blast
  qed
qed

text \<open>C6: in a forest, a runner that lists its scope by walking down from the scope's root finds
  exactly the tasks whose owner, found by walking up, is that root; so no task is in the lists of
  two scopes.\<close>

theorem execution_scope_partition:
  assumes "forest_wf tasks"
  shows "(execution_scope_root_in_tasks tasks k = Inr scope \<longleftrightarrow>
      execution_scope_root_in_tasks tasks scope = Inr scope
      \<and> k \<in> set (collect_subtree_ids_in_scope tasks scope True))
    \<and> (execution_scope_root_in_tasks tasks a = Inr a \<and> execution_scope_root_in_tasks tasks b = Inr b \<and> a \<noteq> b \<longrightarrow>
        set (collect_subtree_ids_in_scope tasks a True) \<inter> set (collect_subtree_ids_in_scope tasks b True) = {})"
  using scope_owner_iff [OF assms] by (metis disjoint_iff sum.inject(2))

lemma demo_store5_forest: "forest_wf (ts_tasks demo_store5)"
proof -
  have "map fst (ts_tasks demo_store5) = [TaskId ''r'', TaskId ''a'']
      \<and> list_all (\<lambda>(k, t). t_task_id t = k) (ts_tasks demo_store5)
      \<and> list_all (forest_task (ts_tasks demo_store5)) (hvalues (ts_tasks demo_store5))" by code_simp
  then show ?thesis
    by (auto simp: forest_wf_def tasks_wf_def hdistinct_def list_all_iff dest: map_of_SomeD)
qed

lemma execution_scope_partition_witness:
  "TaskId ''a'' \<in> set (collect_subtree_ids_in_scope (ts_tasks demo_store5) (TaskId ''a'') True)
   \<and> \<not> TaskId ''a'' \<in> set (collect_subtree_ids_in_scope (ts_tasks demo_store5) (TaskId ''r'') True)"
proof -
  have "execution_scope_root_in_tasks (ts_tasks demo_store5) (TaskId ''a'') = Inr (TaskId ''a'')
      \<and> execution_scope_root_in_tasks (ts_tasks demo_store5) (TaskId ''r'') = Inr (TaskId ''r'')"
    by code_simp
  with execution_scope_partition [OF demo_store5_forest, of "TaskId ''a''" "TaskId ''a''"]
    execution_scope_partition [OF demo_store5_forest, of "TaskId ''a''" "TaskId ''r''"]
  show ?thesis by simp
qed

section \<open>Scanning and claiming\<close>

lemma chain_active_transfer_from: "chain_active tasks started t c \<Longrightarrow> \<exists>r. transfer_from tasks t c r"
proof (induction rule: chain_active.induct)
  case (active_root c)
  then show ?case
    using transfer_here [of t c _ tasks] transfer_none [of t c tasks]
    by (cases "agent_run_transfer_of c") blast+
next
  case (active_transfer c)
  then show ?case using transfer_here [of t c _ tasks] by blast
next
  case (active_parent c p)
  then show ?case using transfer_up [of t c tasks p] by blast
qed

lemma in_scope_transfer_up:
  assumes "tasks_wf tasks" "in_scope tasks True scope k" "hget tasks k = Some c" "transfer_from tasks t c r"
  shows "\<exists>ts. hget tasks scope = Some ts \<and> transfer_from tasks t ts r"
  using assms(2-4)
proof (induction arbitrary: c rule: in_scope.induct)
  case (scope_child p k)
  show ?case
  proof (cases "k = scope")
    case False
    obtain u where u: "hget tasks p = Some u" using scope_child(1) by (rule in_scope_stored)
    have up: "parent_task tasks c = Some u"
      using assms(1) scope_child(5) u scope_child(2) by (rule child_of_parent_task)
    have "agent_run_transfer_of c = None"
      using False scope_child(3,5) by (simp add: is_transferred_def)
    with scope_child(6) have "transfer_from tasks t u r"
      using up parent_task_Some [OF up] by (cases rule: transfer_from.cases) auto
    with u scope_child.IH show ?thesis by blast
  qed (use scope_child in blast)
qed blast

lemma transfer_from_found_tree: "transfer_from tasks t c (Some (e, x)) \<Longrightarrow> same_tree t e"
  by (induction c "Some (e, x)" rule: transfer_from.induct) simp_all

lemma parent_task_id: "tasks_wf tasks \<Longrightarrow> parent_task tasks c = Some p \<Longrightarrow> t_parent_task_id c = Some (t_task_id p)"
  by (auto simp: parent_task_def bind_eq_Some_conv tasks_wf_def)

lemma transfer_binding_root:
  assumes "validate_agent_transfer_binding p e x = Inr ()"
  shows "t_parent_task_id p = None \<and> t_root_task_id p = t_task_id p \<and> same_tree e p"
  using assms
  by (auto simp: validate_agent_transfer_binding_def same_tree_def split: option.splits sum.splits if_splits)

text \<open>A task below a scope root, with an active chain, belongs to that scope and to a valid root.\<close>

lemma active_in_scope:
  assumes "tasks_wf tasks" "hget tasks k = Some t" "chain_active tasks started t t"
    "in_scope tasks True scope k" "execution_scope_root_in_tasks tasks scope = Inr scope"
  shows "execution_scope_root_in_tasks tasks k = Inr scope
    \<and> validate_task_root tasks k (t_root_task_id t) = Inr ()"
proof -
  obtain r where r: "transfer_from tasks t t r" using chain_active_transfer_from [OF assms(3)] by blast
  obtain ts where ts: "hget tasks scope = Some ts" "transfer_from tasks t ts r"
    using in_scope_transfer_up [OF assms(1,4,2) r] by blast
  have tree: "same_tree t ts" using ts(2) by (rule transfer_from_tree)
  have here: "transfer_from tasks ts ts r" using tree ts(2) by (rule transfer_from_cong)
  have only: "r' = r" if "transfer_from tasks ts ts r'" for r'
    using that here agent_run_transfer_iff [OF assms(1) ts(1)] by (metis sum.inject(2))
  from assms(5) [unfolded execution_scope_root_Inr [OF assms(1) ts(1)]] show ?thesis
  proof (elim disjE exE conjE)
    assume n: "transfer_from tasks ts ts None" "validate_task_root tasks scope (t_root_task_id ts) = Inr ()"
      "scope = t_root_task_id ts"
    then have "r = None" using only by blast
    moreover have "validate_task_root tasks k (t_root_task_id t) = Inr ()"
      using n(2,3) ts(1) assms(2) tree by (auto simp: validate_task_root_Inr same_tree_def)
    ultimately show ?thesis
      using n(3) r tree unfolding execution_scope_root_Inr [OF assms(1,2)] by (simp add: same_tree_def)
  next
    fix e x p
    assume n: "transfer_from tasks ts ts (Some (e, x))" "parent_task tasks e = Some p"
      "validate_agent_transfer_binding p e x = Inr ()" "scope = t_task_id e"
    then have "r = Some (e, x)" using only by blast
    then have "execution_scope_root_in_tasks tasks k = Inr scope"
      using n r unfolding execution_scope_root_Inr [OF assms(1,2)] by blast
    moreover have "same_tree t e" using r \<open>r = Some (e, x)\<close> by (auto dest: transfer_from_found_tree)
    then have "validate_task_root tasks k (t_root_task_id t) = Inr ()"
      using transfer_binding_root [OF n(3)] parent_task_get [OF assms(1) n(2)] assms(2)
      by (auto simp: validate_task_root_Inr same_tree_def)
    ultimately show ?thesis ..
  qed
qed

lemma runnable_leafD:
  assumes "tasks_wf (ts_tasks s)" "t \<in> set (get_runnable_leaves scope s)"
  shows "hget (ts_tasks s) (t_task_id t) = Some t" "in_scope (ts_tasks s) True scope (t_task_id t)"
    "t_status t = Pending" "dependencies_completed (ts_tasks s) t"
    "ancestor_chain_allows_dispatch t (ts_tasks s)"
proof -
  from assms(2) obtain k where "k \<in> set (collect_subtree_ids_in_scope (ts_tasks s) scope True)"
    "hget (ts_tasks s) k = Some t" and rest: "t_status t = Pending" "dependencies_completed (ts_tasks s) t"
    "ancestor_chain_allows_dispatch t (ts_tasks s)"
    by (auto simp: get_runnable_leaves_def Let_def map_filter_def)
  with assms(1) show "hget (ts_tasks s) (t_task_id t) = Some t"
    "in_scope (ts_tasks s) True scope (t_task_id t)"
    by (auto simp: collect_subtree_set tasks_wf_id)
  show "t_status t = Pending" "dependencies_completed (ts_tasks s) t"
    "ancestor_chain_allows_dispatch t (ts_tasks s)" by fact+
qed

text \<open>C7: a task the scan of a scope reports as runnable is claimed by the next claim of that
  scope's runner, unless the checkpoint is refused: the claim starts exactly that task under a new
  active lease.\<close>

theorem runnable_leaf_claimable:
  assumes "store_wf s" "t \<in> set (get_runnable_leaves scope s)" "execution_scope_root scope s = Inr scope"
    "\<And>sn. fire_checkpoint s sn = Inr ()"
  shows "\<exists>l s'. claim_task_for_execution_scope (t_task_id t) scope worker role d now now2 s s = (Inr (Some l), s')
    \<and> tl_task_id l = t_task_id t \<and> tl_lease_status l = LeaseActive
    \<and> hget (ts_leases s') (tl_lease_id l) = Some l
    \<and> hget (ts_tasks s') (t_task_id t) = Some (t\<lparr>t_status := Running, t_updated_at := now2\<rparr>)"
proof -
  have wf: "tasks_wf (ts_tasks s)" using assms(1) by (simp add: store_wf_def core_wf_def)
  note t = runnable_leafD [OF wf assms(2)]
  have chain: "chain_active (ts_tasks s) True t t"
    using t(5) ancestor_chain_iff [OF wf t(1)] by (simp add: ancestor_chain_allows_dispatch_def)
  have "execution_scope_root_in_tasks (ts_tasks s) scope = Inr scope"
    using assms(3) by (simp add: execution_scope_root_def)
  note owner = active_in_scope [OF wf t(1) chain t(2) this]
  have "\<not> has_active_lease (ts_leases s) (t_task_id t)"
    using running_if_leased [OF assms(1) t(1)] t(3) by auto
  then have "find_active_lease (ts_leases s) (t_task_id t) = None" by (simp add: find_active_lease_None)
  moreover have "fire_checkpoint (s\<lparr>ts_lease_counter := c\<rparr>) sn = Inr ()" for c sn
    using assms(4) [of sn] by (simp add: fire_checkpoint_def)
  ultimately show ?thesis
    using owner t
    by (simp add: claim_task_for_execution_scope_def get_task_def grant_lease_and_start_task_inner_def
        checkpoint_then_def Let_def build_lease_def)
qed

lemma runnable_leaf_claimable_witness:
  "\<exists>l s'. claim_task_for_execution_scope (TaskId ''a'') (TaskId ''r'') demo_worker ''coder'' 100 4 4
      demo_store3 demo_store3 = (Inr (Some l), s')"
proof -
  let ?t = "demo_agent ''a'' Pending"
  have "?t \<in> set (get_runnable_leaves (TaskId ''r'') demo_store3)
      \<and> execution_scope_root (TaskId ''r'') demo_store3 = Inr (TaskId ''r'')
      \<and> t_task_id ?t = TaskId ''a'' \<and> ts_on_checkpoint demo_store3 = None" by code_simp
  then show ?thesis
    using runnable_leaf_claimable [OF demo_store3_wf, of ?t "TaskId ''r''" demo_worker "''coder''" 100 4 4]
    by (fastforce simp: fire_checkpoint_def)
qed

end
