(* ===== verification/LeaseProtocol.thy ===== *)
theory LeaseProtocol
  imports ExecutionScope
begin

text \<open>
  The lease protocol: who may execute a task and who may write its result.  The interface
  \<open>exclusive_claims\<close> states what the runner and the workers rely on; it is interpreted on the
  operations of \<open>TaskLease\<close>.  The second part is about time: heartbeats and expiry.
\<close>

section \<open>Maps that differ in progress only\<close>

text \<open>Two tasks with the same identity and the same transfer: they differ in progress only.\<close>

definition task_sim :: "task \<Rightarrow> task \<Rightarrow> bool" where
  "task_sim t t' \<longleftrightarrow> task_frame t t' \<and> agent_run_transfer_of t' = agent_run_transfer_of t"

definition maps_sim :: "task_map \<Rightarrow> task_map \<Rightarrow> bool" where
  "maps_sim tasks tasks' \<longleftrightarrow> (\<forall>k. rel_option task_sim (hget tasks k) (hget tasks' k))"

lemma task_sim_refl [simp]: "task_sim t t"
  by (simp add: task_sim_def)

lemma task_sim_simps:
  assumes "task_sim t t'"
  shows "t_task_id t' = t_task_id t" "t_root_task_id t' = t_root_task_id t"
    "t_mission_id t' = t_mission_id t" "t_parent_task_id t' = t_parent_task_id t"
    "t_kind t' = t_kind t" "agent_run_transfer_of t' = agent_run_transfer_of t"
    "agent_activation_of t' = agent_activation_of t"
    "executor_binding_target_role t' = executor_binding_target_role t"
  using assms
  by (simp_all add: task_sim_def task_frame_def [of t t'] task_frame_activation task_frame_role)

lemma maps_sim_SomeD:
  assumes "maps_sim tasks tasks'" "hget tasks k = Some t"
  obtains t' where "hget tasks' k = Some t'" "task_sim t t'"
proof -
  have "rel_option task_sim (Some t) (hget tasks' k)"
    using assms unfolding maps_sim_def by metis
  then show thesis using that by (auto simp: option_rel_Some1)
qed

lemma maps_sim_put:
  "hget tasks k = Some t \<Longrightarrow> task_sim t t' \<Longrightarrow> maps_sim tasks (hput k t' tasks)"
  by (auto simp: maps_sim_def intro: option.rel_refl)

lemma parent_task_sim:
  assumes "maps_sim tasks tasks'" "task_sim c c'" "parent_task tasks c = Some p"
  obtains p' where "parent_task tasks' c' = Some p'" "task_sim p p'"
proof -
  obtain i where i: "t_parent_task_id c = Some i" "hget tasks i = Some p"
    using assms(3) by (auto simp: parent_task_def bind_eq_Some_conv)
  obtain p' where "hget tasks' i = Some p'" "task_sim p p'"
    using assms(1) i(2) by (rule maps_sim_SomeD)
  with i(1) task_sim_simps(4) [OF assms(2)] that show thesis by (auto simp: parent_task_def)
qed

lemma same_tree_sim: "task_sim t t' \<Longrightarrow> task_sim c c' \<Longrightarrow> same_tree t' c' = same_tree t c"
  by (simp add: same_tree_def task_sim_simps)

lemma binding_sim:
  assumes "task_sim p p'" "task_sim e e'"
  shows "validate_agent_transfer_binding p' e' x = validate_agent_transfer_binding p e x"
  unfolding validate_agent_transfer_binding_def
  by (simp only: task_sim_simps [OF assms(1)] task_sim_simps [OF assms(2)])

lemma transfer_from_sim:
  assumes "maps_sim tasks tasks'" "task_sim t t'"
  shows "transfer_from tasks t c r \<Longrightarrow> task_sim c c' \<Longrightarrow>
    \<exists>r'. transfer_from tasks' t' c' r' \<and> rel_option (rel_prod task_sim (=)) r r'"
proof (induction arbitrary: c' rule: transfer_from.induct)
  case (transfer_here c x)
  then have "transfer_from tasks' t' c' (Some (c', x))"
    using same_tree_sim [OF assms(2) transfer_here(3)]
    by (intro transfer_from.transfer_here) (auto simp: task_sim_simps)
  with transfer_here(3) show ?case by auto
next
  case (transfer_none c)
  then have "transfer_from tasks' t' c' None"
    using same_tree_sim [OF assms(2) transfer_none(4)]
    by (intro transfer_from.transfer_none) (auto simp: task_sim_simps)
  then show ?case by auto
next
  case (transfer_up c p r)
  obtain p' where p': "parent_task tasks' c' = Some p'" "task_sim p p'"
    using assms(1) transfer_up(6,3) by (rule parent_task_sim)
  obtain r' where r': "transfer_from tasks' t' p' r'" "rel_option (rel_prod task_sim (=)) r r'"
    using transfer_up.IH [OF p'(2)] by blast
  have "transfer_from tasks' t' c' r'"
    using transfer_up p'(1) r'(1) same_tree_sim [OF assms(2) transfer_up(6)]
    by (intro transfer_from.transfer_up [of t' c' tasks' p']) (auto simp: task_sim_simps)
  with r'(2) show ?case by blast
qed

lemma validate_task_root_sim:
  assumes "maps_sim tasks tasks'" "validate_task_root tasks k r = Inr ()"
  shows "validate_task_root tasks' k r = Inr ()"
proof -
  obtain t root where h: "hget tasks k = Some t" "hget tasks r = Some root" "t_root_task_id t = r"
    "t_task_id root = r" "t_root_task_id root = r" "t_mission_id t = t_mission_id root"
    using assms(2) by (auto simp: validate_task_root_Inr)
  obtain t' where t': "hget tasks' k = Some t'" "task_sim t t'"
    using assms(1) h(1) by (rule maps_sim_SomeD)
  obtain root' where root': "hget tasks' r = Some root'" "task_sim root root'"
    using assms(1) h(2) by (rule maps_sim_SomeD)
  from h t' root' show ?thesis by (auto simp: validate_task_root_Inr task_sim_simps)
qed

lemma execution_scope_root_sim:
  assumes "tasks_wf tasks" "tasks_wf tasks'" "maps_sim tasks tasks'"
    "execution_scope_root_in_tasks tasks k = Inr scope"
  shows "execution_scope_root_in_tasks tasks' k = Inr scope"
proof -
  obtain t where t: "hget tasks k = Some t"
    using assms(4) by (auto simp: execution_scope_root_in_tasks_def split: option.splits)
  obtain t' where t': "hget tasks' k = Some t'" "task_sim t t'"
    using assms(3) t by (rule maps_sim_SomeD)
  from assms(4) [unfolded execution_scope_root_Inr [OF assms(1) t]] show ?thesis
  proof (elim disjE exE conjE)
    assume n: "transfer_from tasks t t None" "validate_task_root tasks k (t_root_task_id t) = Inr ()"
      "scope = t_root_task_id t"
    have "transfer_from tasks' t' t' None"
      using transfer_from_sim [OF assms(3) t'(2) n(1) t'(2)] by auto
    with n validate_task_root_sim [OF assms(3) n(2)] t' show ?thesis
      unfolding execution_scope_root_Inr [OF assms(2) t'(1)] by (simp add: task_sim_simps)
  next
    fix e x p
    assume n: "transfer_from tasks t t (Some (e, x))" "parent_task tasks e = Some p"
      "validate_agent_transfer_binding p e x = Inr ()" "scope = t_task_id e"
    obtain e' where e': "transfer_from tasks' t' t' (Some (e', x))" "task_sim e e'"
      using transfer_from_sim [OF assms(3) t'(2) n(1) t'(2)] by (auto simp: option_rel_Some1)
    obtain p' where p': "parent_task tasks' e' = Some p'" "task_sim p p'"
      using assms(3) e'(2) n(2) by (rule parent_task_sim)
    have "validate_agent_transfer_binding p' e' x = Inr ()"
      using n(3) binding_sim [OF p'(2) e'(2)] by simp
    moreover have "scope = t_task_id e'" using n(4) e'(2) by (simp add: task_sim_simps)
    ultimately show ?thesis
      using e'(1) p'(1) unfolding execution_scope_root_Inr [OF assms(2) t'(1)] by blast
  qed
qed

text \<open>
  Starting a task whose chain is active keeps the chain active: only the status of tasks on the
  chain may change, and only to another open status.
\<close>

lemma chain_active_sim:
  assumes "tasks_wf tasks" "tasks_wf tasks'" "maps_sim tasks tasks'" "task_sim t t'"
    "\<And>k u u'. hget tasks k = Some u \<Longrightarrow> hget tasks' k = Some u' \<Longrightarrow> is_open_status (t_status u) \<Longrightarrow>
       is_open_status (t_status u')"
  shows "chain_active tasks started t c \<Longrightarrow> hget tasks k = Some c \<Longrightarrow> hget tasks' k = Some c' \<Longrightarrow>
    chain_active tasks' False t' c'"
proof (induction arbitrary: k c' rule: chain_active.induct)
  case (active_root c)
  have sim: "task_sim c c'" using maps_sim_SomeD [OF assms(3) active_root(5)] active_root(6) by auto
  show ?case
    using active_root assms(5) [OF active_root(5,6)] same_tree_sim [OF assms(4) sim] sim assms(4)
    by (intro chain_active.active_root) (auto simp: task_sim_simps)
next
  case (active_transfer c)
  have sim: "task_sim c c'" using maps_sim_SomeD [OF assms(3) active_transfer(6)] active_transfer(7) by auto
  have "execution_scope_root_in_tasks tasks' (t_task_id c) = Inr (t_task_id c)"
    using assms(1-3) active_transfer(5) by (rule execution_scope_root_sim)
  then show ?case
    using active_transfer assms(5) [OF active_transfer(6,7)] same_tree_sim [OF assms(4) sim] sim assms(4)
    by (intro chain_active.active_transfer) (auto simp: task_sim_simps)
next
  case (active_parent c p)
  have sim: "task_sim c c'" using maps_sim_SomeD [OF assms(3) active_parent(9)] active_parent(10) by auto
  obtain i where i: "t_parent_task_id c = Some i" "hget tasks i = Some p"
    using active_parent(5) by (auto simp: parent_task_def bind_eq_Some_conv)
  obtain p' where p': "hget tasks' i = Some p'" "task_sim p p'"
    using assms(3) i(2) by (rule maps_sim_SomeD)
  have "chain_active tasks' False t' p'" using i(2) p'(1) by (rule active_parent.IH)
  then show ?case
    using active_parent assms(5) [OF active_parent(9,10)] same_tree_sim [OF assms(4) sim] sim assms(4) i p'
    by (intro chain_active.active_parent [of t' c' tasks' p'])
      (auto simp: task_sim_simps parent_task_def)
qed

section \<open>Exclusive claims\<close>

text \<open>
  What a runner and a worker rely on.  \<open>holder s k l\<close>: lease \<open>l\<close> authorises work on task \<open>k\<close> now;
  \<open>claim s k l s'\<close>: task \<open>k\<close> was claimed and lease \<open>l\<close> handed out; \<open>finish s k l s'\<close>: a result for
  \<open>k\<close> was committed under \<open>l\<close>.
\<close>

locale exclusive_claims =
  fixes wf :: "'s \<Rightarrow> bool"
    and holder :: "'s \<Rightarrow> 'k \<Rightarrow> 'l \<Rightarrow> bool"
    and claim :: "'s \<Rightarrow> 'k \<Rightarrow> 'l \<Rightarrow> 's \<Rightarrow> bool"
    and finish :: "'s \<Rightarrow> 'k \<Rightarrow> 'l \<Rightarrow> 's \<Rightarrow> bool"
  assumes holder_unique: "wf s \<Longrightarrow> holder s k l \<Longrightarrow> holder s k m \<Longrightarrow> l = m"
    and claim_wf: "wf s \<Longrightarrow> claim s k l s' \<Longrightarrow> wf s'"
    and claim_free: "wf s \<Longrightarrow> claim s k l s' \<Longrightarrow> \<not> holder s k m"
    and claim_holds: "wf s \<Longrightarrow> claim s k l s' \<Longrightarrow> holder s' k l"
    and finish_wf: "wf s \<Longrightarrow> finish s k l s' \<Longrightarrow> wf s'"
    and finish_held: "wf s \<Longrightarrow> finish s k l s' \<Longrightarrow> holder s k l"
    and finish_ends: "wf s \<Longrightarrow> finish s k l s' \<Longrightarrow> \<not> holder s' k m"
begin

lemma claim_exclusive: "wf s \<Longrightarrow> claim s k l s' \<Longrightarrow> \<not> claim s' k m s''"
  using claim_wf claim_holds claim_free by blast

lemma finish_only_claimant: "wf s \<Longrightarrow> claim s k l s' \<Longrightarrow> finish s' k m s'' \<Longrightarrow> m = l"
  using claim_wf claim_holds finish_held holder_unique by blast

lemma finish_once: "wf s \<Longrightarrow> finish s k l s' \<Longrightarrow> \<not> finish s' k m s''"
  using finish_wf finish_ends finish_held by blast

end

definition claimed :: "task_store \<Rightarrow> task_id \<Rightarrow> lease_id \<Rightarrow> task_store \<Rightarrow> bool" where
  "claimed s k i s' \<longleftrightarrow>
     (\<exists>root scope worker role d now now2 l.
        grant_lease_and_start_task_inner k root scope worker role d now now2 s = (Inr (Some l), s')
        \<and> tl_lease_id l = i)"

definition finished :: "externals \<Rightarrow> task_store \<Rightarrow> task_id \<Rightarrow> lease_id \<Rightarrow> task_store \<Rightarrow> bool" where
  "finished ext s k i s' \<longleftrightarrow>
     (\<exists>root attempt now. complete_lease_and_task ext k root i attempt now s = (Inr True, s'))"

lemma lease_is_current_iff:
  assumes "tasks_wf (ts_tasks s)"
  shows "execution_lease_is_current k i s \<longleftrightarrow>
    (\<exists>l t. hget (ts_leases s) i = Some l \<and> tl_task_id l = k \<and> tl_lease_status l = LeaseActive
       \<and> hget (ts_tasks s) k = Some t \<and> t_status t = Running \<and> t_root_task_id t = tl_root_task_id l
       \<and> chain_active (ts_tasks s) False t t)"
proof -
  have "ancestor_chain_is_active t (ts_tasks s) False \<longleftrightarrow> chain_active (ts_tasks s) False t t"
    if "hget (ts_tasks s) k = Some t" for t
    using that assms ancestor_chain_iff [OF assms, of t False] by (simp add: tasks_wf_id)
  then show ?thesis
    by (auto simp: execution_lease_is_current_def split: option.splits)
qed

lemma store_wf_tasks: "store_wf s \<Longrightarrow> tasks_wf (ts_tasks s)"
  by (simp add: store_wf_def core_wf_def)

lemma lease_current_unique:
  assumes "store_wf s" "execution_lease_is_current k i s" "execution_lease_is_current k j s"
  shows "i = j"
proof -
  have "core_wf (ts_tasks s) (ts_leases s)" using assms(1) by (simp add: store_wf_def)
  then show ?thesis
    using assms(2,3) core_wf_active_unique
    unfolding lease_is_current_iff [OF store_wf_tasks [OF assms(1)]] by blast
qed

lemma op_ok_wf: "op_ok ext s (snd p) \<Longrightarrow> p = (r, s') \<Longrightarrow> store_wf s \<Longrightarrow> store_wf s'"
  by (simp add: op_ok_def)

lemma claimed_wf: "store_wf s \<Longrightarrow> claimed s k i s' \<Longrightarrow> store_wf s'"
  by (auto simp: claimed_def dest: op_ok_wf [OF grant_lease_and_start_task_inner_ok])

lemma finished_wf: "store_wf s \<Longrightarrow> finished ext s k i s' \<Longrightarrow> store_wf s'"
  by (auto simp: finished_def dest: op_ok_wf [OF complete_lease_and_task_ok])

lemma claimed_current:
  assumes "store_wf s" "claimed s k i s'"
  shows "execution_lease_is_current k i s'"
proof -
  obtain root scope worker role d "now" now2 l where eq:
    "grant_lease_and_start_task_inner k root scope worker role d now now2 s = (Inr (Some l), s')"
    and i: "tl_lease_id l = i"
    using assms(2) by (auto simp: claimed_def)
  have wf: "store_wf s'" using assms by (rule claimed_wf)
  from eq show ?thesis
  proof (cases rule: claim_cases)
    case (granted t l')
    let ?t = "t\<lparr>t_status := Running, t_updated_at := now2\<rparr>"
    have l: "l' = l" "tl_task_id l = k" "tl_root_task_id l = root" "tl_lease_status l = LeaseActive"
      using granted(1,8) by (auto simp: build_lease_def)
    have t: "t_task_id t = k"
      using store_wf_tasks [OF assms(1)] granted(4) by (rule tasks_wf_id)
    have sim: "task_sim t ?t"
      by (simp add: task_sim_def task_frame_def agent_run_transfer_of_def)
    have chain: "chain_active (ts_tasks s) True t t"
      using granted(4,6) t ancestor_chain_iff [OF store_wf_tasks [OF assms(1)], of t True]
      by (simp add: ancestor_chain_allows_dispatch_def)
    have "chain_active (ts_tasks s') False ?t ?t"
    proof (rule chain_active_sim [OF store_wf_tasks [OF assms(1)] store_wf_tasks [OF wf] _ sim _ chain granted(4)])
      show "maps_sim (ts_tasks s) (ts_tasks s')"
        unfolding granted(9) using granted(4) sim by (rule maps_sim_put)
      show "hget (ts_tasks s') k = Some ?t" by (simp add: granted(9))
    qed (auto simp: granted(9) split: if_splits)
    then show ?thesis
      unfolding lease_is_current_iff [OF store_wf_tasks [OF wf]]
      using l i granted(2,4,9,10) by (auto simp: validate_task_root_Inr)
  qed blast
qed

interpretation leases: exclusive_claims store_wf "\<lambda>s k i. execution_lease_is_current k i s" claimed
  "finished ext" for ext
proof
  fix s k l m s'
  show "store_wf s \<Longrightarrow> execution_lease_is_current k l s \<Longrightarrow> execution_lease_is_current k m s \<Longrightarrow> l = m"
    by (rule lease_current_unique)
  show "store_wf s \<Longrightarrow> claimed s k l s' \<Longrightarrow> store_wf s'"
    by (rule claimed_wf)
  show "store_wf s \<Longrightarrow> claimed s k l s' \<Longrightarrow> \<not> execution_lease_is_current k m s"
    by (auto simp: claimed_def lease_is_current_iff store_wf_tasks elim!: claim_cases)
  show "store_wf s \<Longrightarrow> claimed s k l s' \<Longrightarrow> execution_lease_is_current k l s'"
    by (rule claimed_current)
  show wf: "store_wf s \<Longrightarrow> finished ext s k l s' \<Longrightarrow> store_wf s'"
    by (rule finished_wf)
  show "store_wf s \<Longrightarrow> finished ext s k l s' \<Longrightarrow> execution_lease_is_current k l s"
    by (auto simp: finished_def execution_lease_is_current_def validate_task_root_Inr apply_completion_Inr
        elim!: complete_lease_cases)
  show "store_wf s \<Longrightarrow> finished ext s k l s' \<Longrightarrow> \<not> execution_lease_is_current k m s'"
    using wf
    by (auto simp: finished_def lease_is_current_iff store_wf_tasks apply_completion_Inr
        elim!: complete_lease_cases)
qed

section \<open>Properties of claims and results\<close>

text \<open>C3: a successful claim hands out a lease that authorises execution at once, no lease did
  before, and no second claim of the same task succeeds on the store it leaves, whoever asks and
  for whichever scope.\<close>

theorem claim_is_exclusive:
  assumes "store_wf s"
    "grant_lease_and_start_task_inner tid root scope worker role d now now2 s = (Inr (Some l), s')"
  shows "execution_lease_is_current tid (tl_lease_id l) s'
    \<and> \<not> execution_lease_is_current tid lid s
    \<and> (execution_lease_is_current tid lid s' \<longrightarrow> lid = tl_lease_id l)
    \<and> fst (grant_lease_and_start_task_inner tid root2 scope2 worker2 role2 d2 now3 now4 s') \<noteq> Inr (Some m)"
proof -
  have c: "claimed s tid (tl_lease_id l) s'" using assms(2) unfolding claimed_def by blast
  note current = leases.claim_holds [OF assms(1) c]
  have "\<not> claimed s' tid (tl_lease_id m) s''" for s'' by (rule leases.claim_exclusive [OF assms(1) c])
  then have "fst (grant_lease_and_start_task_inner tid root2 scope2 worker2 role2 d2 now3 now4 s') \<noteq> Inr (Some m)"
    unfolding claimed_def by (metis prod.collapse)
  moreover have "execution_lease_is_current tid lid s' \<longrightarrow> lid = tl_lease_id l"
    using leases.holder_unique [OF leases.claim_wf [OF assms(1) c] _ current] by blast
  ultimately show ?thesis
    using current leases.claim_free [OF assms(1) c] by blast
qed

lemma claim_is_exclusive_witness:
  "execution_lease_is_current (TaskId ''a'') (LeaseId ''lease-4-2'') demo_store4
   \<and> \<not> execution_lease_is_current (TaskId ''a'') (LeaseId ''lease-4-2'') demo_store3"
proof -
  let ?r = "grant_lease_and_start_task_inner (TaskId ''a'') (TaskId ''r'') (Some (TaskId ''r'')) demo_worker
    ''coder'' 100 4 4 demo_store3"
  have "map_option t_root_task_id (get_task (TaskId ''a'') demo_store3) = Some (TaskId ''r'')" by code_simp
  then have s4: "snd ?r = demo_store4"
    by (auto simp: demo_store4_def claim_task_for_execution_scope_def)
  have "case fst ?r of Inr (Some l) \<Rightarrow> tl_lease_id l = LeaseId ''lease-4-2'' | _ \<Rightarrow> False" by code_simp
  with s4 obtain l where "?r = (Inr (Some l), demo_store4)" "tl_lease_id l = LeaseId ''lease-4-2''"
    by (cases ?r) (auto split: sum.splits option.splits)
  with claim_is_exclusive [OF demo_store3_wf, of "TaskId ''a''" "TaskId ''r''" "Some (TaskId ''r'')" demo_worker
      "''coder''" 100 4 4 l demo_store4 "LeaseId ''lease-4-2''"]
  show ?thesis by auto
qed

text \<open>C4: a result is accepted only under the lease that authorises execution at that moment; after
  it no lease authorises the task, so of several results for one claim at most one is accepted,
  and a refused or late result leaves the store as it was.\<close>

theorem result_needs_current_lease:
  assumes "store_wf s" "complete_lease_and_task ext tid root lid attempt now s = (r, s')"
  shows "(r = Inr True \<longrightarrow> execution_lease_is_current tid lid s
           \<and> (\<forall>m. \<not> execution_lease_is_current tid m s')
           \<and> (\<forall>root2 m attempt2 now2. fst (complete_lease_and_task ext tid root2 m attempt2 now2 s') \<noteq> Inr True))
    \<and> (r \<noteq> Inr True \<longrightarrow> s' = s)"
proof -
  have "s' = s" if "r \<noteq> Inr True"
    using assms(2) that by (cases rule: complete_lease_cases) auto
  moreover have "execution_lease_is_current tid lid s \<and> (\<forall>m. \<not> execution_lease_is_current tid m s')
      \<and> (\<forall>root2 m attempt2 now2. fst (complete_lease_and_task ext tid root2 m attempt2 now2 s') \<noteq> Inr True)"
    if "r = Inr True"
  proof -
    have f: "finished ext s tid lid s'" using assms(2) that by (auto simp: finished_def)
    have "\<not> finished ext s' tid m s''" for m s'' by (rule leases.finish_once [OF assms(1) f])
    then have "fst (complete_lease_and_task ext tid root2 m attempt2 now2 s') \<noteq> Inr True"
      for root2 m attempt2 now2
      unfolding finished_def by (metis prod.collapse)
    with leases.finish_held [OF assms(1) f] leases.finish_ends [OF assms(1) f] show ?thesis by blast
  qed
  ultimately show ?thesis by blast
qed

lemma result_needs_current_lease_witness:
  "execution_lease_is_current (TaskId ''a'') (LeaseId ''lease-4-2'') demo_store4"
proof -
  have "fst (complete_lease_and_task demo_ext (TaskId ''a'') (TaskId ''r'') (LeaseId ''lease-4-2'')
      demo_attempt 9 demo_store4) = Inr True" by code_simp
  then show ?thesis
    using result_needs_current_lease [OF demo_store4_wf prod.collapse [symmetric],
        of demo_ext "TaskId ''a''" "TaskId ''r''" "LeaseId ''lease-4-2''" demo_attempt 9] by blast
qed

section \<open>Heartbeats and expiry\<close>

definition renewed_lease :: "utc_millis \<Rightarrow> task_lease \<Rightarrow> task_lease" where
  "renewed_lease now l =
     l\<lparr>tl_heartbeat_at := now,
       tl_expires_at := saturating_add now (saturating_sub (tl_expires_at l) (tl_granted_at l))\<rparr>"

lemma not_isl_unit: "\<not> isl x \<longleftrightarrow> x = Inr ()"
  by (cases x) auto

text \<open>A heartbeat succeeds only for an active lease of the task with a valid contract (and, when
  a scope is given, only for the runner that owns the task); it writes the clock, leaves a lease
  that is not expired at that clock, and changes nothing else.\<close>

theorem heartbeat_renews:
  assumes "heartbeat_lease_inner tid lid scope now s = (True, s')"
  shows "\<exists>l. hget (ts_leases s) lid = Some l \<and> tl_task_id l = tid \<and> tl_lease_status l = LeaseActive
    \<and> validate_lease_contract (ts_tasks s) l = Inr ()
    \<and> (\<forall>sc. scope = Some sc \<longrightarrow> execution_scope_root_in_tasks (ts_tasks s) tid = Inr sc)
    \<and> s' = s\<lparr>ts_leases := hput lid (renewed_lease now l) (ts_leases s)\<rparr>
    \<and> tl_heartbeat_at (renewed_lease now l) = now \<and> now \<le> tl_expires_at (renewed_lease now l)"
  using assms
  by (auto simp: heartbeat_lease_inner_def Let_def not_isl_unit renewed_lease_def saturating_add_ge
      split: option.splits if_splits)

lemma heartbeat_renews_witness:
  "\<exists>l. hget (ts_leases demo_store4) (LeaseId ''lease-4-2'') = Some l
     \<and> validate_lease_contract (ts_tasks demo_store4) l = Inr ()"
proof -
  let ?r = "heartbeat_lease_inner (TaskId ''a'') (LeaseId ''lease-4-2'') (Some (TaskId ''r'')) 50 demo_store4"
  have "fst ?r" by code_simp
  then have "?r = (True, snd ?r)" by (simp add: prod_eq_iff)
  from heartbeat_renews [OF this] show ?thesis by blast
qed

text \<open>The time to live of a lease grows with every heartbeat: it is computed from the time the
  lease was granted, which a heartbeat does not move, so each heartbeat adds the age of the lease to
  the time the next one grants.\<close>

theorem heartbeat_ttl_grows:
  assumes "tl_granted_at l \<le> tl_expires_at l" "tl_granted_at l \<le> now1"
    "unat now1 + unat (tl_expires_at l) < 2 ^ 64"
    "unat now2 + unat now1 + unat (tl_expires_at l) < 2 ^ 64"
  shows "unat (tl_expires_at (renewed_lease now2 (renewed_lease now1 l)))
    = unat now2 + (unat (tl_expires_at l) - unat (tl_granted_at l)) + (unat now1 - unat (tl_granted_at l))"
proof -
  let ?g = "unat (tl_granted_at l)" and ?e = "unat (tl_expires_at l)"
  have le: "?g \<le> ?e" "?g \<le> unat now1" using assms(1,2) by (simp_all add: word_le_nat_alt)
  have first: "unat (tl_expires_at (renewed_lease now1 l)) = unat now1 + (?e - ?g)"
    using assms(1,3) by (simp add: renewed_lease_def saturating_sub_unat saturating_add_unat)
  have "tl_granted_at l \<le> tl_expires_at (renewed_lease now1 l)"
    using le first by (simp add: word_le_nat_alt)
  then have "unat (saturating_sub (tl_expires_at (renewed_lease now1 l)) (tl_granted_at l))
      = unat now1 + (?e - ?g) - ?g" using first by (simp add: saturating_sub_unat)
  then show ?thesis
    using assms(4) le by (simp add: renewed_lease_def saturating_add_unat)
qed

lemma heartbeat_ttl_grows_witness:
  "unat (tl_expires_at (renewed_lease 60 (renewed_lease 50
     (fst (build_lease (TaskId ''a'') (TaskId ''r'') demo_worker ''coder'' 100 0 1))))) = 60 + 100 + 50"
  using heartbeat_ttl_grows [of "fst (build_lease (TaskId ''a'') (TaskId ''r'') demo_worker ''coder'' 100 0 1)" 50 60]
  by (simp add: build_lease_def saturating_add_def checked_add_def)

end
