(* ===== verification/SubtreeTermination.thy ===== *)
theory SubtreeTermination
  imports LeaseProtocol
begin

text \<open>
  Ending tasks: when the preparation of one task succeeds, which leases a runner may expire, what
  ending a subtree leaves behind, which tasks the orphan scan selects, and the settlement after a
  restart.
\<close>

section \<open>When one task can be ended\<close>

lemma distinct_hvalues: "leases_wf leases \<Longrightarrow> distinct (hvalues leases)"
proof -
  assume wf: "leases_wf leases"
  have "tl_lease_id l = k" if "(k, l) \<in> set leases" for k l
    using wf that by (auto simp: leases_wf_def hdistinct_def)
  then have "map tl_lease_id (hvalues leases) = map fst leases"
    by (auto simp: hvalues_def)
  then show ?thesis
    using wf by (metis distinct_map hdistinct_def leases_wf_def)
qed

lemma has_active_leaseI:
  "leases_wf leases \<Longrightarrow> hget leases k = Some l \<Longrightarrow> tl_lease_status l = LeaseActive \<Longrightarrow>
   has_active_lease leases (tl_task_id l)"
  unfolding has_active_lease_iff by blast

lemma active_leases_cases:
  assumes "core_wf tasks leases"
  obtains (none) "active_leases_of leases i = []"
  | (one) l where "active_leases_of leases i = [l]" "hget leases (tl_lease_id l) = Some l"
      "tl_task_id l = i" "tl_lease_status l = LeaseActive"
proof (cases "active_leases_of leases i")
  case (Cons l ls)
  have wf: "leases_wf leases" using assms by (simp add: core_wf_def)
  have mem: "m \<in> set (l # ls) \<Longrightarrow> hget leases (tl_lease_id m) = Some m \<and> tl_task_id m = i
      \<and> tl_lease_status m = LeaseActive" for m
    using active_leases_of_iff [OF wf, of m i] Cons by simp
  have "m = l" if "m \<in> set ls" for m
  proof -
    have m: "hget leases (tl_lease_id m) = Some m" and l: "hget leases (tl_lease_id l) = Some l"
      using mem [of m] mem [of l] that by auto
    have "tl_lease_id m = tl_lease_id l"
      by (rule core_wf_active_unique [OF assms m l]) (use mem [of m] mem [of l] that in auto)
    then show ?thesis using m l by (metis option.inject)
  qed
  moreover have "distinct (l # ls)"
    using distinct_hvalues [OF wf] Cons by (metis active_leases_of_def distinct_filter)
  ultimately have "ls = []" by (cases ls) auto
  with Cons mem [of l] show ?thesis by (intro one) auto
qed (rule none)

lemma lease_contract_if_backed:
  assumes "validate_task_root tasks i root = Inr ()" "hget leases k = Some l" "tl_task_id l = i"
    "tl_lease_status l = LeaseActive" "core_wf tasks leases"
  shows "tl_root_task_id l = root \<and> validate_lease_contract tasks l = Inr ()"
proof -
  have "lease_backed tasks l"
    using assms(2,4,5) by (auto simp: core_wf_def active_backed_def)
  with assms(1,3,4) show ?thesis
    by (auto simp: validate_lease_contract_Inr lease_backed_iff validate_task_root_Inr)
qed

definition settled_task :: "task_status \<Rightarrow> string list \<Rightarrow> utc_millis \<Rightarrow> task \<Rightarrow> task" where
  "settled_task st refs now t =
     t\<lparr>t_output_refs := (if refs \<noteq> [] then refs else t_output_refs t), t_status := st, t_updated_at := now\<rparr>"

text \<open>The lease map in which the active leases of the tasks in \<open>P\<close> are revoked.\<close>

definition ended_lease :: "(task_id \<Rightarrow> bool) \<Rightarrow> task_lease \<Rightarrow> task_lease" where
  "ended_lease P l =
     (if tl_lease_status l = LeaseActive \<and> P (tl_task_id l) then l\<lparr>tl_lease_status := LeaseRevoked\<rparr> else l)"

lemma prepare_success:
  assumes "core_wf tasks leases" "validate_task_root tasks i root = Inr ()" "hget tasks i = Some t"
    "is_open_status (t_status t)" "st = Failed \<or> st = Killed"
    "discover \<or> (\<exists>k l. lease_id = Some k \<and> hget leases k = Some l \<and> tl_task_id l = i
       \<and> tl_lease_status l = LeaseActive) \<or> (lease_id = None \<and> \<not> has_active_lease leases i)"
  shows "\<exists>leases'. prepare_task_terminal_in_maps tasks leases i root lease_id st refs discover now
      = (Inr (Some (t_status t, settled_task st refs now t)), hput i (settled_task st refs now t) tasks, leases')
    \<and> (\<forall>k. hget leases' k = map_option (ended_lease ((=) i)) (hget leases k))"
proof -
  have wf: "leases_wf leases" using assms(1) by (simp add: core_wf_def)
  have settle: "apply_terminal_status st refs now t = Inr (settled_task st refs now t)"
    using assms(4,5) by (simp add: apply_terminal_Inr settled_task_def)
  have open_t: "\<not> is_terminal_status (t_status t)" using assms(4) by (simp add: terminal_iff_not_open)
  from assms(1) show ?thesis
  proof (cases rule: active_leases_cases [of tasks leases i])
    case none
    then have no: "\<not> has_active_lease leases i" by (simp add: active_leases_of_Nil)
    then have "\<not> (\<exists>k l. hget leases k = Some l \<and> tl_task_id l = i \<and> tl_lease_status l = LeaseActive)"
      using has_active_lease_iff [OF wf] by blast
    with assms(6) have "discover \<or> lease_id = None" by blast
    then have "requested_lease tasks leases i root lease_id discover = Inr (Some None)"
      using none by (auto simp: requested_lease_def)
    moreover have "map_option (ended_lease ((=) i)) (hget leases k) = hget leases k" for k
      using has_active_leaseI [OF wf, of k] no by (cases "hget leases k") (auto simp: ended_lease_def)
    ultimately show ?thesis
      using none assms(2,3) open_t settle
      by (simp add: prepare_task_terminal_in_maps_def recheck_active_lease_def)
  next
    case (one l)
    have c: "tl_root_task_id l = root" "validate_lease_contract tasks l = Inr ()"
      using lease_contract_if_backed [OF assms(2) one(2,3,4) assms(1)] by auto
    have leased: "has_active_lease leases i"
      using has_active_leaseI [OF wf one(2,4)] one(3) by simp
    with assms(1,3) have run: "t_status t = Running" by (rule core_wf_active_running)
    have "discover \<or> lease_id = Some (tl_lease_id l)"
    proof -
      have "k = tl_lease_id l"
        if "hget leases k = Some m" "tl_task_id m = i" "tl_lease_status m = LeaseActive" for k m
        using core_wf_active_unique [OF assms(1) that(1) one(2) that(3) one(4)] that(2) one(3) by simp
      then show ?thesis using assms(6) leased by blast
    qed
    moreover from this have "requested_lease tasks leases i root lease_id discover = Inr (Some (Some l))"
      using one c by (auto simp: requested_lease_def)
    moreover have "hget (hput (tl_lease_id l) (l\<lparr>tl_lease_status := LeaseRevoked\<rparr>) leases) k
        = map_option (ended_lease ((=) i)) (hget leases k)" for k
      using one core_wf_active_unique [OF assms(1) _ one(2), of k]
      by (cases "hget leases k") (auto simp: ended_lease_def)
    ultimately show ?thesis
      using one assms(2,3) open_t settle c run
      by (auto simp: prepare_task_terminal_in_maps_def recheck_active_lease_def set_lease_status_def)
  qed
qed

lemma prepare_terminal:
  assumes "core_wf tasks leases" "validate_task_root tasks i root = Inr ()" "hget tasks i = Some t"
    "\<not> is_open_status (t_status t)"
  shows "prepare_task_terminal_in_maps tasks leases i root lease_id st refs discover now
    = (Inr None, tasks, leases)"
proof -
  have "\<not> has_active_lease leases i"
    using core_wf_active_running [OF assms(1,3)] assms(4) by blast
  then have "active_leases_of leases i = []" by (simp add: active_leases_of_Nil)
  with assms show ?thesis
    by (simp add: prepare_task_terminal_in_maps_def terminal_iff_not_open)
qed

section \<open>Expiring a lease\<close>

lemma execution_scope_root_valid:
  assumes "tasks_wf tasks" "hget tasks k = Some t" "execution_scope_root_in_tasks tasks k = Inr scope"
  shows "validate_task_root tasks k (t_root_task_id t) = Inr ()"
  using assms(3) [unfolded execution_scope_root_Inr [OF assms(1,2)]]
proof (elim disjE exE conjE)
  fix e x p
  assume n: "transfer_from tasks t t (Some (e, x))" "parent_task tasks e = Some p"
    "validate_agent_transfer_binding p e x = Inr ()"
  have "same_tree t e" using n(1) by (rule transfer_from_found_tree)
  then show ?thesis
    using transfer_binding_root [OF n(3)] parent_task_get [OF assms(1) n(2)] assms(2)
    by (auto simp: validate_task_root_Inr same_tree_def)
qed

lemma collect_expired_iff:
  assumes "store_wf s"
  shows "(tid, lid) \<in> set (collect_expired_leases scope now s) \<longleftrightarrow>
    (\<exists>l. hget (ts_leases s) lid = Some l \<and> tl_task_id l = tid \<and> tl_lease_status l = LeaseActive
       \<and> tl_expires_at l < now \<and> tid \<in> set (collect_subtree_ids_in_scope (ts_tasks s) scope True))"
proof -
  have wf: "leases_wf (ts_leases s)" using assms by (simp add: store_wf_def core_wf_def)
  have "l \<in> set (hvalues (ts_leases s)) \<and> tl_lease_id l = lid \<longleftrightarrow> hget (ts_leases s) lid = Some l" for l
    using leases_wf_values [OF wf, of l] leases_wf_id [OF wf] by auto
  then have "\<And>P. (\<exists>l\<in>set (hvalues (ts_leases s)). tl_lease_id l = lid \<and> P l)
      \<longleftrightarrow> (\<exists>l. hget (ts_leases s) lid = Some l \<and> P l)" by blast
  moreover have "(tid, lid) \<in> set (collect_expired_leases scope now s) \<longleftrightarrow>
    (\<exists>l\<in>set (hvalues (ts_leases s)). tl_lease_id l = lid \<and> (tl_task_id l = tid \<and>
       tl_lease_status l = LeaseActive \<and> tl_expires_at l < now
       \<and> tid \<in> set (collect_subtree_ids_in_scope (ts_tasks s) scope True)))"
    unfolding collect_expired_leases_def collect_leases_for_execution_scope_def Let_def
    by (auto simp: image_iff)
  ultimately show ?thesis by simp
qed

lemma expire_success:
  assumes "store_wf s" "\<And>sn. fire_checkpoint s sn = Inr ()" "hget (ts_tasks s) tid = Some t"
    "execution_scope_root_in_tasks (ts_tasks s) tid = Inr scope" "hget (ts_leases s) lid = Some l"
    "tl_task_id l = tid" "tl_lease_status l = LeaseActive" "tl_expires_at l < now"
  shows "\<exists>s'. expire_lease_for_execution_scope scope tid lid now now2 s s = (Inr True, s')
    \<and> hget (ts_tasks s') tid = Some (settled_task Failed [lease_expired_text tid] now2 t)
    \<and> map_option tl_lease_status (hget (ts_leases s') lid) = Some LeaseRevoked"
proof -
  have core: "core_wf (ts_tasks s) (ts_leases s)" using assms(1) by (simp add: store_wf_def)
  have leased: "has_active_lease (ts_leases s) tid"
    using has_active_leaseI [of "ts_leases s" lid l] core assms(5-7) by (simp add: core_wf_def)
  then have "t_status t = Running" using running_if_leased [OF assms(1,3)] by blast
  moreover have "validate_task_root (ts_tasks s) tid (t_root_task_id t) = Inr ()"
    using store_wf_tasks [OF assms(1)] assms(3,4) by (rule execution_scope_root_valid)
  ultimately obtain leases' where
    "prepare_task_terminal_in_maps (ts_tasks s) (ts_leases s) tid (t_root_task_id t) (Some lid) Failed
       [lease_expired_text tid] False now2
     = (Inr (Some (t_status t, settled_task Failed [lease_expired_text tid] now2 t)),
        hput tid (settled_task Failed [lease_expired_text tid] now2 t) (ts_tasks s), leases')"
    "hget leases' lid = map_option (ended_lease ((=) tid)) (hget (ts_leases s) lid)"
    using prepare_success [OF core, of tid "t_root_task_id t" t Failed False "Some lid"
        "[lease_expired_text tid]" now2] assms(3,5-7) by auto
  with assms(2-8) show ?thesis
    by (simp add: ended_lease_def expire_lease_for_execution_scope_def get_task_def
        revoke_lease_and_set_task_terminal_inner_def checkpoint_then_def)
qed

text \<open>Between a scan and the next change of the store, the runner of a scope can expire exactly
  the leases its scan reports, the active leases of its own tasks whose time has run out: such a
  lease is revoked and its task failed with the expiry as its output, any other expiry changes
  nothing.\<close>

theorem expire_exactly_expired:
  assumes "store_wf s" "forest_wf (ts_tasks s)" "execution_scope_root scope s = Inr scope"
    "\<And>sn. fire_checkpoint s sn = Inr ()"
  shows "if (tid, lid) \<in> set (collect_expired_leases scope now s)
    then \<exists>t s'. expire_lease_for_execution_scope scope tid lid now now2 s s = (Inr True, s')
      \<and> hget (ts_tasks s) tid = Some t
      \<and> hget (ts_tasks s') tid = Some (settled_task Failed [lease_expired_text tid] now2 t)
      \<and> map_option tl_lease_status (hget (ts_leases s') lid) = Some LeaseRevoked
    else fst (expire_lease_for_execution_scope scope tid lid now now2 s s) \<noteq> Inr True
      \<and> snd (expire_lease_for_execution_scope scope tid lid now now2 s s) = s"
proof -
  have wf: "leases_wf (ts_leases s)" using assms(1) by (simp add: store_wf_def core_wf_def)
  have root: "execution_scope_root_in_tasks (ts_tasks s) scope = Inr scope"
    using assms(3) by (simp add: execution_scope_root_def)
  note owner = scope_owner_iff [OF assms(2), of tid scope]
  show ?thesis
  proof (cases "(tid, lid) \<in> set (collect_expired_leases scope now s)")
    case True
    then obtain l where l: "hget (ts_leases s) lid = Some l" "tl_task_id l = tid"
      "tl_lease_status l = LeaseActive" "tl_expires_at l < now"
      and own: "execution_scope_root_in_tasks (ts_tasks s) tid = Inr scope"
      using collect_expired_iff [OF assms(1)] owner root by auto
    then obtain t where t: "hget (ts_tasks s) tid = Some t"
      by (auto simp: execution_scope_root_in_tasks_def split: option.splits)
    from expire_success [OF assms(1,4) t own l] True t show ?thesis by auto
  next
    case False
    obtain r s' where eq: "expire_lease_for_execution_scope scope tid lid now now2 s s = (r, s')" by force
    have "s' = s \<and> r \<noteq> Inr True"
    proof (cases "get_task tid s")
      case None
      with eq show ?thesis by (auto simp: expire_lease_for_execution_scope_def)
    next
      case (Some t)
      with eq have "revoke_lease_and_set_task_terminal_inner tid (t_root_task_id t) (Some lid) Failed
          [lease_expired_text tid] False (Some scope) now now2 s = (r, s')"
        by (simp add: expire_lease_for_execution_scope_def)
      with wf show ?thesis
      proof (cases rule: revoke_cases)
        case (settled u u')
        from settled(6) obtain l where "hget (ts_leases s) lid = Some l" "tl_task_id l = tid"
          by auto
        with settled(7) [OF refl] have "(tid, lid) \<in> set (collect_expired_leases scope now s)"
          using owner root collect_expired_iff [OF assms(1)] by auto
        with False show ?thesis ..
      qed blast
    qed
    with False eq show ?thesis by simp
  qed
qed

lemma demo_store4_forest: "forest_wf (ts_tasks demo_store4)"
proof -
  have "map fst (ts_tasks demo_store4) = [TaskId ''r'', TaskId ''a'']
      \<and> list_all (\<lambda>(k, t). t_task_id t = k) (ts_tasks demo_store4)
      \<and> list_all (forest_task (ts_tasks demo_store4)) (hvalues (ts_tasks demo_store4))" by code_simp
  then show ?thesis
    by (auto simp: forest_wf_def tasks_wf_def hdistinct_def list_all_iff dest: map_of_SomeD)
qed

lemma expire_exactly_expired_witness:
  "\<exists>s'. expire_lease_for_execution_scope (TaskId ''r'') (TaskId ''a'') (LeaseId ''lease-4-2'') 200 201
      demo_store4 demo_store4 = (Inr True, s')
    \<and> map_option tl_lease_status (hget (ts_leases s') (LeaseId ''lease-4-2'')) = Some LeaseRevoked"
proof -
  have "(TaskId ''a'', LeaseId ''lease-4-2'') \<in> set (collect_expired_leases (TaskId ''r'') 200 demo_store4)
      \<and> execution_scope_root (TaskId ''r'') demo_store4 = Inr (TaskId ''r'')
      \<and> ts_on_checkpoint demo_store4 = None" by code_simp
  then show ?thesis
    using expire_exactly_expired [OF demo_store4_wf demo_store4_forest, of "TaskId ''r''" "TaskId ''a''"
        "LeaseId ''lease-4-2''" 200 201] by (auto simp: fire_checkpoint_def)
qed

section \<open>Ending a subtree\<close>

text \<open>The tasks a subtree termination settles: those of the tree of \<open>root\<close> that are open.\<close>

definition settles :: "task_map \<Rightarrow> task_id \<Rightarrow> task_id \<Rightarrow> bool" where
  "settles tasks root k \<longleftrightarrow>
     validate_task_root tasks k root = Inr ()
     \<and> (case hget tasks k of None \<Rightarrow> False | Some t \<Rightarrow> is_open_status (t_status t))"

definition task_after :: "(task_id \<Rightarrow> bool) \<Rightarrow> task_status \<Rightarrow> string list \<Rightarrow> (task_id \<Rightarrow> utc_millis) \<Rightarrow>
    task_id \<Rightarrow> task \<Rightarrow> task" where
  "task_after P st refs now k t = (if P k then settled_task st refs (now k) t else t)"

lemma settled_task_sim: "st = Failed \<or> st = Killed \<Longrightarrow> task_sim t (settled_task st refs now t)"
  by (auto simp: task_sim_def settled_task_def task_frame_def agent_run_transfer_of_def)

lemma validate_task_root_sim_iff:
  assumes "maps_sim tasks tasks'" "maps_sim tasks' tasks"
  shows "validate_task_root tasks' k r = Inr () \<longleftrightarrow> validate_task_root tasks k r = Inr ()"
  using validate_task_root_sim [OF assms(1)] validate_task_root_sim [OF assms(2)] by blast

lemma task_sim_sym: "task_sim t t' \<Longrightarrow> task_sim t' t"
  by (auto simp: task_sim_def task_frame_def)

lemma maps_sim_put_back:
  "hget tasks k = Some t \<Longrightarrow> task_sim t t' \<Longrightarrow> maps_sim (hput k t' tasks) tasks"
  by (auto simp: maps_sim_def intro: option.rel_refl task_sim_sym)

lemma map_option_task_after:
  "map_option (task_after P st refs now k) x = (if P k then map_option (settled_task st refs (now k)) x else x)"
  by (cases x) (simp_all add: task_after_def)

lemma ended_lease_none [simp]: "ended_lease (\<lambda>_. False) = (\<lambda>l. l)"
  by (simp add: fun_eq_iff ended_lease_def)

lemma prepare_step:
  assumes "core_wf tasks leases" "st = Failed \<or> st = Killed"
    "prepare_task_terminal_in_maps tasks leases i root None st refs True now = (r, tasks', leases')"
  shows "hget tasks' k = map_option (task_after (\<lambda>k. k = i \<and> settles tasks root k) st refs (\<lambda>_. now) k) (hget tasks k)"
    "hget leases' lid = map_option (ended_lease (\<lambda>k. k = i \<and> settles tasks root k)) (hget leases lid)"
    "isl r \<longleftrightarrow> validate_task_root tasks i root \<noteq> Inr ()"
    "(\<exists>c. r = Inr (Some c)) \<longleftrightarrow> settles tasks root i"
    "settles tasks' root k \<longleftrightarrow> k \<noteq> i \<and> settles tasks root k"
    "validate_task_root tasks' k root = Inr () \<longleftrightarrow> validate_task_root tasks k root = Inr ()"
proof -
  note [simp] = map_option_task_after settles_def option.map_ident
  have *: "hget tasks' k = map_option (task_after (\<lambda>k. k = i \<and> settles tasks root k) st refs (\<lambda>_. now) k) (hget tasks k)
    \<and> hget leases' lid = map_option (ended_lease (\<lambda>k. k = i \<and> settles tasks root k)) (hget leases lid)
    \<and> (isl r \<longleftrightarrow> validate_task_root tasks i root \<noteq> Inr ()) \<and> ((\<exists>c. r = Inr (Some c)) \<longleftrightarrow> settles tasks root i)
    \<and> (settles tasks' root k \<longleftrightarrow> k \<noteq> i \<and> settles tasks root k)
    \<and> (validate_task_root tasks' k root = Inr () \<longleftrightarrow> validate_task_root tasks k root = Inr ())"
  proof (cases "validate_task_root tasks i root")
    case (Inl e)
    then have "r = Inl e" "tasks' = tasks" "leases' = leases"
      using assms(3) by (auto simp: prepare_task_terminal_in_maps_def Let_def)
    moreover have "(\<lambda>k. k = i \<and> settles tasks root k) = (\<lambda>_. False)" using Inl by (auto simp: fun_eq_iff)
    ultimately show ?thesis using Inl by (auto simp del: settles_def) auto
  next
    case (Inr u)
    then have valid: "validate_task_root tasks i root = Inr ()" by simp
    then obtain t where t: "hget tasks i = Some t" by (auto simp: validate_task_root_Inr)
    show ?thesis
    proof (cases "is_open_status (t_status t)")
      case False
      with prepare_terminal [OF assms(1) valid t] assms(3) have "r = Inr None" "tasks' = tasks" "leases' = leases"
        by auto
      moreover have "(\<lambda>k. k = i \<and> settles tasks root k) = (\<lambda>_. False)" using False t by (auto simp: fun_eq_iff)
      ultimately show ?thesis using False t valid by (auto simp del: settles_def) auto
    next
      case True
      have sim: "task_sim t (settled_task st refs now t)" using assms(2) by (rule settled_task_sim)
      from True prepare_success [OF assms(1) valid t True assms(2), of True None refs now] assms(3)
      have p: "r = Inr (Some (t_status t, settled_task st refs now t))"
        "tasks' = hput i (settled_task st refs now t) tasks"
        "\<And>k. hget leases' k = map_option (ended_lease ((=) i)) (hget leases k)" by auto
      have v: "validate_task_root tasks' k root = Inr () \<longleftrightarrow> validate_task_root tasks k root = Inr ()" for k
        unfolding p(2) by (rule validate_task_root_sim_iff) (use t sim maps_sim_put maps_sim_put_back in blast)+
      have "\<not> is_open_status st" using assms(2) by auto
      then have s: "settles tasks' root k \<longleftrightarrow> k \<noteq> i \<and> settles tasks root k"
        using p(2) v [unfolded p(2)] by (simp add: settled_task_def)
      have "settles tasks root i" using t True valid by simp
      moreover have "ended_lease (\<lambda>k. k = i \<and> settles tasks root k) = ended_lease ((=) i)"
        using calculation by (auto simp: fun_eq_iff ended_lease_def)
      ultimately show ?thesis using p v s t valid by (auto simp del: settles_def)
    qed
  qed
  show "hget tasks' k = map_option (task_after (\<lambda>k. k = i \<and> settles tasks root k) st refs (\<lambda>_. now) k) (hget tasks k)"
    "hget leases' lid = map_option (ended_lease (\<lambda>k. k = i \<and> settles tasks root k)) (hget leases lid)"
    "isl r \<longleftrightarrow> validate_task_root tasks i root \<noteq> Inr ()"
    "(\<exists>c. r = Inr (Some c)) \<longleftrightarrow> settles tasks root i"
    "settles tasks' root k \<longleftrightarrow> k \<noteq> i \<and> settles tasks root k"
    "validate_task_root tasks' k root = Inr () \<longleftrightarrow> validate_task_root tasks k root = Inr ()"
    using * by blast+
qed

text \<open>Settling a list of tasks, each at most once, is exact.\<close>

lemma settle_tasks_exact:
  assumes "core_wf tasks leases" "st = Failed \<or> st = Killed" "distinct is"
    "settle_tasks root st refs now is tasks leases = (errors, changes, tasks', leases')"
  shows "hget tasks' k
      = map_option (task_after (\<lambda>k. k \<in> set is \<and> settles tasks root k) st refs now k) (hget tasks k)
    \<and> hget leases' lid = map_option (ended_lease (\<lambda>k. k \<in> set is \<and> settles tasks root k)) (hget leases lid)
    \<and> map fst errors = filter (\<lambda>k. validate_task_root tasks k root \<noteq> Inr ()) is
    \<and> map fst changes = filter (settles tasks root) is"
  using assms(1,3,4)
proof (induction "is" arbitrary: tasks leases errors changes)
  case (Cons i "is")
  obtain r tasks1 leases1 where p: "prepare_task_terminal_in_maps tasks leases i root None st refs True (now i)
      = (r, tasks1, leases1)" by (metis prod_cases3)
  obtain errors1 changes1 where rest: "settle_tasks root st refs now is tasks1 leases1
      = (errors1, changes1, tasks', leases')"
    and out: "map fst errors = (if isl r then i # map fst errors1 else map fst errors1)"
      "map fst changes = (if \<exists>c. r = Inr (Some c) then i # map fst changes1 else map fst changes1)"
    using Cons.prems(3) p by (auto split: prod.splits sum.splits option.splits)
  note step = prepare_step [OF Cons.prems(1) assms(2) p]
  have new: "i \<notin> set is" and "distinct is" using Cons.prems(2) by auto
  note IH = Cons.IH [OF prepare_core_wf [OF Cons.prems(1) p] this(2) rest]
  have s1: "filter (settles tasks1 root) is = filter (settles tasks root) is"
    using new step(5) by (intro filter_cong) auto
  have P: "(\<lambda>k. k \<in> set is \<and> settles tasks1 root k) = (\<lambda>k. k \<in> set is \<and> settles tasks root k)"
    using new step(5) by (auto simp: fun_eq_iff)
  have "hget leases' lid = map_option (ended_lease (\<lambda>k. k \<in> set (i # is) \<and> settles tasks root k)) (hget leases lid)"
    using IH step(2) [of lid] unfolding P by (cases "hget leases lid") (auto simp: ended_lease_def)
  moreover have "hget tasks' k
      = map_option (task_after (\<lambda>k. k \<in> set (i # is) \<and> settles tasks root k) st refs now k) (hget tasks k)"
    using IH step(1) [of k] new unfolding P map_option_task_after by auto
  moreover have "map fst errors = filter (\<lambda>k. validate_task_root tasks k root \<noteq> Inr ()) (i # is)"
    using IH step(6) unfolding out(1) step(3) by simp
  moreover have "map fst changes = filter (settles tasks root) (i # is)"
    using IH unfolding out(2) step(4) s1 by simp
  ultimately show ?case by blast
qed (simp add: map_option_task_after option.map_ident)

lemma select_subtree_distinct: "distinct (select_subtree tasks leases root sel)"
proof -
  have sub: "set (orphan_filter tasks closed is) \<subseteq> set is" for closed "is"
  proof (induction "is" arbitrary: closed)
    case (Cons i "is")
    then show ?case
      by (simp add: Let_def split: option.split) (meson subset_insertI2)
  qed simp
  have "distinct (orphan_filter tasks closed is)" if "distinct is" for closed "is"
    using that
  proof (induction "is" arbitrary: closed)
    case (Cons i "is")
    then have "i \<notin> set (orphan_filter tasks closed' is)" for closed' using sub by fastforce
    with Cons show ?case by (simp add: Let_def split: option.split)
  qed simp
  moreover note collect_subtree_distinct
  ultimately show ?thesis by (simp add: select_subtree_def Let_def split: subtree_terminal_selection.splits)
qed

lemma set_subtree_terminal_exact:
  assumes "store_wf s" "st = Failed \<or> st = Killed" "hget (ts_tasks s) root = Some t"
    "\<And>sn. fire_checkpoint s sn = Inr ()" "set_subtree_terminal root st refs sel now s = (r, s')"
    "ids = select_subtree (ts_tasks s) (ts_leases s) root sel"
    "chosen = (\<lambda>k. k \<in> set ids \<and> settles (ts_tasks s) (t_root_task_id t) k)"
  shows "(\<forall>k. hget (ts_tasks s') k = map_option (task_after chosen st refs now k) (hget (ts_tasks s) k))
    \<and> (\<forall>lid. hget (ts_leases s') lid = map_option (ended_lease chosen) (hget (ts_leases s) lid))
    \<and> (isl r \<longleftrightarrow> (\<exists>k\<in>set ids. validate_task_root (ts_tasks s) k (t_root_task_id t) \<noteq> Inr ()))
    \<and> (\<not> isl r \<longrightarrow> r = Inr (\<exists>k. chosen k))"
proof -
  obtain errors changes tasks leases where st: "settle_tasks (t_root_task_id t) st refs now ids (ts_tasks s)
      (ts_leases s) = (errors, changes, tasks, leases)" by (metis prod_cases4)
  have core: "core_wf (ts_tasks s) (ts_leases s)" using assms(1) by (simp add: store_wf_def)
  have exact: "hget tasks k = map_option (task_after chosen st refs now k) (hget (ts_tasks s) k)"
      "hget leases lid = map_option (ended_lease chosen) (hget (ts_leases s) lid)"
      "map fst errors = filter (\<lambda>k. validate_task_root (ts_tasks s) k (t_root_task_id t) \<noteq> Inr ()) ids"
      "map fst changes = filter (settles (ts_tasks s) (t_root_task_id t)) ids" for k lid
    using settle_tasks_exact [OF core assms(2) _ st] select_subtree_distinct
    unfolding assms(7) assms(6) by blast+
  have e: "errors = [] \<longleftrightarrow> \<not> (\<exists>k\<in>set ids. validate_task_root (ts_tasks s) k (t_root_task_id t) \<noteq> Inr ())"
    and c: "changes = [] \<longleftrightarrow> \<not> (\<exists>k. chosen k)"
    using exact(3) [THEN arg_cong [where f = "\<lambda>x. x = []"]] exact(4) [THEN arg_cong [where f = "\<lambda>x. x = []"]]
    by (auto simp: filter_empty_conv assms(7))
  have idle: "(\<forall>k. hget (ts_tasks s) k = map_option (task_after chosen st refs now k) (hget (ts_tasks s) k))
      \<and> (\<forall>lid. hget (ts_leases s) lid = map_option (ended_lease chosen) (hget (ts_leases s) lid))"
    if "changes = []"
  proof -
    have "chosen = (\<lambda>_. False)" using that c by (auto simp: fun_eq_iff)
    then show ?thesis by (simp add: map_option_task_after option.map_ident)
  qed
  show ?thesis
  proof (cases "changes = []")
    case True
    then have "s' = s \<and> r = (if errors = [] then Inr False else Inl (InvalidStates errors))"
      using assms(2,3,5) st unfolding assms(6)
      by (auto simp: set_subtree_terminal_def split: list.splits)
    with True idle e c show ?thesis by auto
  next
    case False
    then have "ids \<noteq> []" using exact(4) by auto
    with False have "ts_tasks s' = tasks \<and> ts_leases s' = leases
        \<and> r = (if errors = [] then Inr True else Inl (InvalidStates errors))"
      using assms(2,3,5) st [unfolded assms(6)] assms(4) unfolding assms(6)
      by (auto simp: set_subtree_terminal_def split: list.splits)
    with False exact e c show ?thesis by auto
  qed
qed



section \<open>Orphans\<close>

text \<open>A task of a scope below a settled task of the scope.\<close>

definition is_settled :: "task_map \<Rightarrow> task_id \<Rightarrow> bool" where
  "is_settled tasks k \<longleftrightarrow> (case hget tasks k of None \<Rightarrow> False | Some t \<Rightarrow> is_terminal_status (t_status t))"

inductive orphaned :: "task_map \<Rightarrow> task_id \<Rightarrow> task_id \<Rightarrow> bool" for tasks scope where
  orphan_child: "c \<noteq> scope \<Longrightarrow> in_scope tasks True scope p \<Longrightarrow> in_scope tasks True scope c \<Longrightarrow>
    child_of tasks p c \<Longrightarrow> is_settled tasks p \<Longrightarrow> orphaned tasks scope c"
| orphan_below: "c \<noteq> scope \<Longrightarrow> orphaned tasks scope p \<Longrightarrow> in_scope tasks True scope c \<Longrightarrow>
    child_of tasks p c \<Longrightarrow> orphaned tasks scope c"

inductive_cases orphanedE: "orphaned tasks scope c"

lemma orphaned_in_scope: "orphaned tasks scope c \<Longrightarrow> in_scope tasks True scope c \<and> c \<noteq> scope"
  by (erule orphanedE) auto

lemma child_of_unique: "child_of tasks p c \<Longrightarrow> child_of tasks q c \<Longrightarrow> p = q"
  by (auto simp: child_of_def)

lemma orphaned_iff:
  assumes "c \<noteq> scope" "in_scope tasks True scope p" "in_scope tasks True scope c" "child_of tasks p c"
  shows "orphaned tasks scope c \<longleftrightarrow> is_settled tasks p \<or> orphaned tasks scope p"
proof
  assume "orphaned tasks scope c"
  then show "is_settled tasks p \<or> orphaned tasks scope p"
    by (rule orphanedE) (use child_of_unique [OF assms(4)] in auto)
next
  assume "is_settled tasks p \<or> orphaned tasks scope p"
  then show "orphaned tasks scope c"
    using orphan_child [OF assms] orphan_below [OF assms(1) _ assms(3,4)] by blast
qed

lemma orphan_filter_exact:
  assumes "tasks_wf tasks" "collect_subtree_ids_in_scope tasks scope True = as @ bs"
    "closed = {k \<in> set as. is_settled tasks k \<or> orphaned tasks scope k}"
  shows "orphan_filter tasks closed bs = filter (orphaned tasks scope) bs"
  using assms(2,3)
proof (induction bs arbitrary: "as" closed)
  case (Cons i bs)
  have scope: "in_scope tasks True scope k" if "k \<in> set (as @ i # bs)" for k
    using collect_subtree_set [OF assms(1), of scope True] that Cons.prems(1) by auto
  obtain t where t: "hget tasks i = Some t" using in_scope_stored [OF scope [of i]] by auto
  have "(case t_parent_task_id t of None \<Rightarrow> False | Some p \<Rightarrow> p \<in> closed) \<longleftrightarrow> orphaned tasks scope i"
  proof (cases "i = scope")
    case True
    have "as = []"
    proof (cases "as")
      case (Cons a as')
      then have "a = scope"
        using collect_subtree_parent_first [OF assms(1), of scope True "[]" a "as' @ i # bs"] Cons.prems(1)
        by auto
      with Cons True Cons.prems(1) collect_subtree_distinct [of tasks scope True] show ?thesis by simp
    qed
    with True Cons.prems(2) show ?thesis using orphaned_in_scope [of tasks scope i]
      by (auto split: option.splits)
  next
    case False
    then obtain p where p: "p \<in> set as" "child_of tasks p i"
      using collect_subtree_parent_first [OF assms(1) Cons.prems(1)] by blast
    then have "t_parent_task_id t = Some p" using t by (auto simp: child_of_def)
    with p Cons.prems(2) orphaned_iff [OF False scope scope p(2)] show ?thesis by simp
  qed
  moreover from this have "{k \<in> set (as @ [i]). is_settled tasks k \<or> orphaned tasks scope k}
      = (if orphaned tasks scope i \<or> is_terminal_status (t_status t) then insert i closed else closed)"
    using Cons.prems(2) t by (auto simp: is_settled_def)
  ultimately show ?case
    using Cons.IH [of "as @ [i]", OF _ refl] Cons.prems(1) t by (auto simp: Let_def split: if_splits)
qed simp

lemma maps_sim_sym: "maps_sim tasks tasks' \<Longrightarrow> maps_sim tasks' tasks"
  unfolding maps_sim_def by (metis (mono_tags, lifting) option.rel_cases option.rel_intros task_sim_sym)

lemma task_sim_trans: "task_sim t u \<Longrightarrow> task_sim u v \<Longrightarrow> task_sim t v"
  by (simp add: task_sim_def task_frame_def)

lemma maps_sim_trans: "maps_sim a b \<Longrightarrow> maps_sim b c \<Longrightarrow> maps_sim a c"
  unfolding maps_sim_def
proof
  fix k
  assume "\<forall>k. rel_option task_sim (hget a k) (hget b k)" "\<forall>k. rel_option task_sim (hget b k) (hget c k)"
  then have "rel_option task_sim (hget a k) (hget b k)" "rel_option task_sim (hget b k) (hget c k)" by auto
  then show "rel_option task_sim (hget a k) (hget c k)"
    by (cases "hget a k"; cases "hget b k"; cases "hget c k") (auto intro: task_sim_trans)
qed

lemma in_scope_sim:
  assumes "maps_sim tasks tasks'" "in_scope tasks exec root k"
  shows "in_scope tasks' exec root k"
  using assms(2)
proof induction
  case scope_root
  then obtain t where "hget tasks root = Some t" by (auto simp: hmem_def)
  with assms(1) obtain t' where "hget tasks' root = Some t'" by (rule maps_sim_SomeD)
  then show ?case by (simp add: hmem_def in_scope.scope_root)
next
  case (scope_child p c)
  obtain t where t: "hget tasks c = Some t" "t_parent_task_id t = Some p"
    using scope_child(2) by (auto simp: child_of_def)
  obtain t' where t': "hget tasks' c = Some t'" "task_sim t t'"
    using assms(1) t(1) by (rule maps_sim_SomeD)
  have "child_of tasks' p c" using t t' by (simp add: child_of_def task_sim_simps)
  moreover have "\<not> (exec \<and> c \<noteq> root \<and> is_transferred tasks' c)"
    using scope_child(3) t t' by (simp add: is_transferred_def task_sim_simps)
  ultimately show ?case using scope_child.IH by (rule in_scope.scope_child [rotated])
qed

lemma collect_subtree_sim:
  assumes "maps_sim tasks tasks'" "tasks_wf tasks" "tasks_wf tasks'"
  shows "set (collect_subtree_ids_in_scope tasks' root exec) = set (collect_subtree_ids_in_scope tasks root exec)"
  using in_scope_sim [OF assms(1)] in_scope_sim [OF maps_sim_sym [OF assms(1)]] assms(2,3)
  by (auto simp: collect_subtree_set)

text \<open>The tasks of a scope belong to the tree of its root.\<close>

lemma scope_task_valid:
  assumes "forest_wf tasks" "execution_scope_root_in_tasks tasks scope = Inr scope"
    "in_scope tasks True scope k" "hget tasks scope = Some ts"
  shows "validate_task_root tasks k (t_root_task_id ts) = Inr ()"
proof -
  have wf: "tasks_wf tasks" using assms(1) by (rule forest_wf_wf)
  obtain t where t: "hget tasks k = Some t" using assms(3) by (rule in_scope_stored)
  have "k \<in> set (collect_subtree_ids_in_scope tasks scope True)"
    using assms(3) wf by (simp add: collect_subtree_set)
  then have "execution_scope_root_in_tasks tasks k = Inr scope"
    using scope_owner_iff [OF assms(1)] assms(2) by blast
  with wf t have valid: "validate_task_root tasks k (t_root_task_id t) = Inr ()"
    by (rule execution_scope_root_valid)
  have "\<exists>r. transfer_from tasks ts ts r"
    using assms(2) unfolding execution_scope_root_Inr [OF wf assms(4)] by blast
  then have "same_tree ts t" using in_scope_transfer_from [OF assms(1,4) _ assms(3) t] by blast
  with valid show ?thesis by (simp add: same_tree_def)
qed

lemma task_after_sim:
  assumes "st = Failed \<or> st = Killed"
    "\<And>k. hget tasks' k = map_option (task_after P st refs now k) (hget tasks k)"
  shows "maps_sim tasks tasks'"
  unfolding maps_sim_def
proof
  fix k show "rel_option task_sim (hget tasks k) (hget tasks' k)"
    using settled_task_sim [OF assms(1)] assms(2) [of k] by (cases "hget tasks k") (auto simp: task_after_def)
qed

lemma is_settled_after:
  assumes "st = Failed \<or> st = Killed"
    "\<And>k. hget tasks' k = map_option (task_after P st refs now k) (hget tasks k)"
  shows "is_settled tasks' k \<longleftrightarrow> hmem tasks k \<and> (P k \<or> is_settled tasks k)"
  using assms(1) assms(2) [of k]
  by (auto simp: is_settled_def hmem_def task_after_def settled_task_def is_terminal_status_def split: option.splits)

text \<open>The orphan pass of a runner kills exactly the open tasks of its scope that stand below a
  settled task of the scope, whatever the order of the tasks in the map; afterwards the scope has no
  open task with a settled parent, so a second pass has nothing to do.\<close>

theorem orphans_killed:
  assumes "store_wf s" "forest_wf (ts_tasks s)" "execution_scope_root scope s = Inr scope"
    "\<And>sn. fire_checkpoint s sn = Inr ()" "revoke_orphaned_execution_descendants scope now s = (r, s')"
  defines "orphan \<equiv> \<lambda>k. orphaned (ts_tasks s) scope k \<and> \<not> is_settled (ts_tasks s) k"
  shows "r = Inr (\<exists>k. orphan k)
    \<and> (\<forall>k. hget (ts_tasks s') k = map_option (task_after orphan Killed [] now k) (hget (ts_tasks s) k))
    \<and> (\<forall>p c. in_scope (ts_tasks s') True scope p \<and> in_scope (ts_tasks s') True scope c \<and> c \<noteq> scope
         \<and> child_of (ts_tasks s') p c \<and> is_settled (ts_tasks s') p \<longrightarrow> is_settled (ts_tasks s') c)"
proof -
  let ?T = "ts_tasks s" and ?T' = "ts_tasks s'"
  have wf: "tasks_wf ?T" using assms(2) by (rule forest_wf_wf)
  have root: "execution_scope_root_in_tasks ?T scope = Inr scope"
    using assms(3) by (simp add: execution_scope_root_def)
  then obtain ts where ts: "hget ?T scope = Some ts"
    by (auto simp: execution_scope_root_in_tasks_def split: option.splits)
  let ?ids = "select_subtree ?T (ts_leases s) scope OrphanedExecution"
  have ids: "set ?ids = {k. orphaned ?T scope k}"
    using orphan_filter_exact [OF wf, of scope "[]" _ "{}"] orphaned_in_scope [of ?T scope]
    by (auto simp: select_subtree_def collect_subtree_set [OF wf])
  have valid: "validate_task_root ?T k (t_root_task_id ts) = Inr ()" if "orphaned ?T scope k" for k
    using scope_task_valid [OF assms(2) root _ ts] orphaned_in_scope that by blast
  have chosen: "(\<lambda>k. k \<in> set ?ids \<and> settles ?T (t_root_task_id ts) k) = orphan"
  proof
    fix k
    have "orphaned ?T scope k \<Longrightarrow> hmem ?T k" using orphaned_in_scope in_scope_stored
      by (metis hmem_def option.distinct(1))
    then show "(k \<in> set ?ids \<and> settles ?T (t_root_task_id ts) k) = orphan k"
      using ids valid by (auto simp: orphan_def settles_def is_settled_def hmem_def terminal_iff_not_open
          split: option.splits)
  qed
  have *: "(\<forall>k. hget ?T' k = map_option (task_after orphan Killed [] now k) (hget ?T k))
      \<and> (isl r \<longleftrightarrow> (\<exists>k\<in>set ?ids. validate_task_root ?T k (t_root_task_id ts) \<noteq> Inr ()))
      \<and> (\<not> isl r \<longrightarrow> r = Inr (\<exists>k. orphan k))"
    using set_subtree_terminal_exact [OF assms(1) _ ts assms(4)
        assms(5) [unfolded revoke_orphaned_execution_descendants_def] refl chosen [symmetric]] by blast
  then have r: "r = Inr (\<exists>k. orphan k)" using valid ids by auto
  have after: "hget ?T' k = map_option (task_after orphan Killed [] now k) (hget ?T k)" for k using * by blast
  have sim: "maps_sim ?T' ?T" using task_after_sim [OF _ after] maps_sim_sym by blast
  have "is_settled ?T' c"
    if c: "in_scope ?T' True scope p" "in_scope ?T' True scope c" "c \<noteq> scope" "child_of ?T' p c"
      "is_settled ?T' p" for p c
  proof -
    have sc: "in_scope ?T True scope p" "in_scope ?T True scope c" using c in_scope_sim [OF sim] by auto
    have "child_of ?T p c"
      using c(4) sim by (auto simp: child_of_def elim!: maps_sim_SomeD) (metis maps_sim_SomeD task_sim_simps(4))
    note orphan_iff = orphaned_iff [OF c(3) sc this]
    have "is_settled ?T p \<or> orphaned ?T scope p"
      using c(5) is_settled_after [OF _ after] by (auto simp: orphan_def)
    with orphan_iff have "orphaned ?T scope c" by blast
    moreover have "hmem ?T c" using sc(2) in_scope_stored by (metis hmem_def option.distinct(1))
    ultimately show ?thesis using is_settled_after [OF _ after, of c] by (auto simp: orphan_def)
  qed
  with r after show ?thesis by blast
qed

text \<open>The root of the demo is failed while its agent runs on.\<close>

definition demo_store_orphan :: task_store where
  "demo_store_orphan =
     snd (revoke_active_lease_and_set_task_terminal (TaskId ''r'') (TaskId ''r'') Failed [] 9 demo_store4)"

lemma orphans_killed_witness:
  "\<exists>s'. revoke_orphaned_execution_descendants (TaskId ''r'') (\<lambda>_. 10) demo_store_orphan = (Inr True, s')
    \<and> is_settled (ts_tasks s') (TaskId ''a'')"
proof -
  let ?s = demo_store_orphan
  have "op_ok demo_ext demo_store4 ?s"
    unfolding demo_store_orphan_def revoke_active_lease_and_set_task_terminal_def
    by (rule revoke_lease_and_set_task_terminal_inner_ok)
  then have wf: "store_wf ?s" using demo_store4_wf by (simp add: op_ok_def)
  have "list_all (forest_task (ts_tasks ?s)) (hvalues (ts_tasks ?s))
      \<and> execution_scope_root (TaskId ''r'') ?s = Inr (TaskId ''r'') \<and> ts_on_checkpoint ?s = None
      \<and> collect_subtree_ids_in_scope (ts_tasks ?s) (TaskId ''r'') True = [TaskId ''r'', TaskId ''a'']
      \<and> is_settled (ts_tasks ?s) (TaskId ''r'') \<and> \<not> is_settled (ts_tasks ?s) (TaskId ''a'')
      \<and> map_option t_parent_task_id (hget (ts_tasks ?s) (TaskId ''a'')) = Some (Some (TaskId ''r''))"
    by code_simp
  moreover from this wf have forest: "forest_wf (ts_tasks ?s)"
    by (simp add: forest_wf_def store_wf_tasks)
  moreover have "orphaned (ts_tasks ?s) (TaskId ''r'') (TaskId ''a'')"
    using calculation collect_subtree_set [OF store_wf_tasks [OF wf], of "TaskId ''r''" True]
    by (intro orphan_child [of _ _ _ "TaskId ''r''"]) (auto simp: child_of_def)
  ultimately show ?thesis
    using orphans_killed [OF wf forest _ _ prod.collapse [symmetric], of "TaskId ''r''" "\<lambda>_. 10"]
    by (intro exI [of _ "snd (revoke_orphaned_execution_descendants (TaskId ''r'') (\<lambda>_. 10) ?s)"])
      (auto simp: fire_checkpoint_def prod_eq_iff is_settled_def task_after_def settled_task_def
        is_terminal_status_def)
qed

section \<open>After a restart\<close>

lemma fail_open_tasks_exact:
  "fail_open_tasks now is (tasks, n) = Inr (tasks', m) \<Longrightarrow>
   hget tasks' k = map_option (task_after (\<lambda>k. k \<in> set is \<and> \<not> is_settled tasks k) Failed [] (\<lambda>_. now) k) (hget tasks k)"
proof (induction "is" arbitrary: tasks n)
  case (Cons i "is")
  show ?case
  proof (cases "hget tasks i")
    case None
    with Cons.prems have "fail_open_tasks now is (tasks, n) = Inr (tasks', m)" by simp
    note IH = Cons.IH [OF this, unfolded map_option_task_after]
    show ?thesis using IH None unfolding map_option_task_after by (cases "k = i") simp_all
  next
    case (Some t)
    show ?thesis
    proof (cases "is_open_status (t_status t)")
      case True
      then have "apply_terminal_status Failed [] now t = Inr (settled_task Failed [] now t)"
        by (simp add: apply_terminal_Inr settled_task_def)
      with Cons.prems Some True
      have "fail_open_tasks now is (hput i (settled_task Failed [] now t) tasks, n + 1) = Inr (tasks', m)" by simp
      note IH = Cons.IH [OF this, unfolded map_option_task_after]
      have "is_settled (hput i (settled_task Failed [] now t) tasks) j \<longleftrightarrow> j = i \<or> is_settled tasks j" for j
        by (simp add: is_settled_def settled_task_def is_terminal_status_def)
      moreover have "\<not> is_settled tasks i" using Some True by (simp add: is_settled_def terminal_iff_not_open)
      ultimately show ?thesis using IH Some unfolding map_option_task_after by simp
    next
      case False
      with Cons.prems Some have "fail_open_tasks now is (tasks, n) = Inr (tasks', m)" by simp
      note IH = Cons.IH [OF this, unfolded map_option_task_after]
      have "is_settled tasks i" using Some False by (simp add: is_settled_def terminal_iff_not_open)
      with IH show ?thesis unfolding map_option_task_after by auto
    qed
  qed
qed (simp add: map_option_task_after)

lemma affected_scopes_set:
  "affected_scopes tasks is = Inr (roots, scopes) \<Longrightarrow>
   set scopes = {sc. \<exists>i\<in>set is. execution_scope_root_in_tasks tasks i = Inr sc}"
proof (induction "is" arbitrary: roots scopes)
  case (Cons i "is")
  from Cons.prems obtain sc roots1 scopes1 where *: "execution_scope_root_in_tasks tasks i = Inr sc"
    "affected_scopes tasks is = Inr (roots1, scopes1)" "scopes = List.insert sc scopes1"
    by (cases "execution_scope_root_in_tasks tasks i"; cases "affected_scopes tasks is"; cases "hget tasks i") auto
  have "set scopes = insert sc (set scopes1)" using *(3) by simp
  also have "\<dots> = {sc. \<exists>i\<in>set (i # is). execution_scope_root_in_tasks tasks i = Inr sc}"
    unfolding Cons.IH [OF *(2)] using *(1) by (auto simp only: list.set sum.inject insert_iff)
  finally show ?case .
qed simp

lemma task_after_wf:
  assumes "tasks_wf tasks" "hdistinct tasks'"
    "\<And>k. hget tasks' k = map_option (task_after P st refs now k) (hget tasks k)"
  shows "tasks_wf tasks'"
  unfolding tasks_wf_def
proof (intro conjI allI impI)
  fix k t
  assume "hget tasks' k = Some t"
  then obtain u where "hget tasks k = Some u" "t = task_after P st refs now k u"
    using assms(3) by auto
  with assms(1) show "t_task_id t = k" by (simp add: tasks_wf_id task_after_def settled_task_def)
qed (rule assms(2))

lemma fail_scopes_exact:
  assumes "tasks_wf tasks0" "tasks_wf tasks" "maps_sim tasks0 tasks"
    "fail_scopes now scopes (tasks, n) = Inr (tasks', m)"
  shows "hget tasks' k = map_option (task_after (\<lambda>k. (\<exists>sc\<in>set scopes. k \<in> set (collect_subtree_ids_in_scope tasks0 sc True))
     \<and> \<not> is_settled tasks k) Failed [] (\<lambda>_. now) k) (hget tasks k)"
  using assms(2-4)
proof (induction scopes arbitrary: tasks n)
  case (Cons scope scopes)
  obtain tasks1 n1 where one: "fail_open_tasks now (collect_subtree_ids_in_scope tasks scope True) (tasks, n)
      = Inr (tasks1, n1)" and rest: "fail_scopes now scopes (tasks1, n1) = Inr (tasks', m)"
    using Cons.prems(3) by (auto split: sum.splits)
  note step = fail_open_tasks_exact [OF one]
  have "hdistinct tasks" using Cons.prems(1) by (simp add: tasks_wf_def)
  then have "settled_from Failed [] tasks tasks" by (rule settled_from_refl)
  then have "settled_from Failed [] tasks tasks1" using one by (rule fail_open_tasks_ok)
  then have wf1: "tasks_wf tasks1" using Cons.prems(1) step by (auto simp: settled_from_def intro: task_after_wf)
  have "maps_sim tasks tasks1" using step by (intro task_after_sim) auto
  with Cons.prems(2) have sim1: "maps_sim tasks0 tasks1" by (rule maps_sim_trans)
  have "set (collect_subtree_ids_in_scope tasks scope True) = set (collect_subtree_ids_in_scope tasks0 scope True)"
    using Cons.prems(1,2) assms(1) by (intro collect_subtree_sim)
  note same = this
  have "is_settled tasks1 k \<longleftrightarrow> hmem tasks k
      \<and> ((k \<in> set (collect_subtree_ids_in_scope tasks0 scope True) \<and> \<not> is_settled tasks k) \<or> is_settled tasks k)" for k
    using is_settled_after [OF _ step, of k] unfolding same by simp
  then show ?case
    using Cons.IH [OF wf1 sim1 rest] step [of k]
    unfolding same map_option_task_after by (cases "hget tasks k") (simp_all add: hmem_def, blast?)
qed (simp add: map_option_task_after option.map_ident)



end
