(* ===== verification/TaskFailureText.thy ===== *)
theory TaskFailureText
  imports Domain
begin

text \<open>
  The public text of task failures (\<open>crates/magi-core/src/task.rs\<close>): the classification of an
  error text, the recognition of internal runtime diagnostics and the projection of a task's
  output references shown to a user.  Texts are UTF-8 bytes; the Chinese literals of the source
  are written as their bytes.
\<close>

section \<open>Texts\<close>

definition task_runtime_failure_public_output :: string where
  "task_runtime_failure_public_output =
     [CHR 0xE4, CHR 0xBB, CHR 0xBB, CHR 0xE5, CHR 0x8A, CHR 0xA1, CHR 0xE8, CHR 0xBF, CHR 0x90,
      CHR 0xE8, CHR 0xA1, CHR 0x8C, CHR 0xE5, CHR 0xA4, CHR 0xB1, CHR 0xE8, CHR 0xB4, CHR 0xA5,
      CHR 0xEF, CHR 0xBC, CHR 0x8C, CHR 0xE8, CHR 0xAF, CHR 0xA6, CHR 0xE6, CHR 0x83, CHR 0x85,
      CHR 0xE5, CHR 0xB7, CHR 0xB2, CHR 0xE8, CHR 0xAE, CHR 0xB0, CHR 0xE5, CHR 0xBD, CHR 0x95,
      CHR 0xE5, CHR 0x9C, CHR 0xA8, CHR 0xE6, CHR 0x97, CHR 0xA5, CHR 0xE5, CHR 0xBF, CHR 0x97,
      CHR 0xE4, CHR 0xB8, CHR 0xAD, CHR 0xE3, CHR 0x80, CHR 0x82]"

definition task_model_invocation_failure_public_output :: string where
  "task_model_invocation_failure_public_output =
     [CHR 0xE5, CHR 0xAD, CHR 0x90, CHR 0xE4, CHR 0xBB, CHR 0xA3, CHR 0xE7, CHR 0x90, CHR 0x86,
      CHR 0xE6, CHR 0xA8, CHR 0xA1, CHR 0xE5, CHR 0x9E, CHR 0x8B, CHR 0xE8, CHR 0xB0, CHR 0x83,
      CHR 0xE7, CHR 0x94, CHR 0xA8, CHR 0xE5, CHR 0xA4, CHR 0xB1, CHR 0xE8, CHR 0xB4, CHR 0xA5,
      CHR 0xE3, CHR 0x80, CHR 0x82]"

definition task_git_preflight_failure_public_output :: string where
  "task_git_preflight_failure_public_output =
     [CHR 0xE5, CHR 0xAD, CHR 0x90, CHR 0xE4, CHR 0xBB, CHR 0xA3, CHR 0xE7, CHR 0x90, CHR 0x86,
      CHR 0x20, CHR 0x47, CHR 0x69, CHR 0x74, CHR 0x20, CHR 0xE5, CHR 0xB7, CHR 0xA5, CHR 0xE4,
      CHR 0xBD, CHR 0x9C, CHR 0xE5, CHR 0x8C, CHR 0xBA, CHR 0xE5, CHR 0x87, CHR 0x86, CHR 0xE5,
      CHR 0xA4, CHR 0x87, CHR 0xE5, CHR 0xA4, CHR 0xB1, CHR 0xE8, CHR 0xB4, CHR 0xA5, CHR 0xE3,
      CHR 0x80, CHR 0x82]"

definition task_execution_admission_failure_public_output :: string where
  "task_execution_admission_failure_public_output =
     [CHR 0xE5, CHR 0xAD, CHR 0x90, CHR 0xE4, CHR 0xBB, CHR 0xA3, CHR 0xE7, CHR 0x90, CHR 0x86,
      CHR 0xE6, CHR 0x89, CHR 0xA7, CHR 0xE8, CHR 0xA1, CHR 0x8C, CHR 0xE7, CHR 0xA7, CHR 0x9F,
      CHR 0xE7, CHR 0xBA, CHR 0xA6, CHR 0xE5, CHR 0xB7, CHR 0xB2, CHR 0xE8, CHR 0xBF, CHR 0x87,
      CHR 0xE6, CHR 0x9C, CHR 0x9F, CHR 0xE3, CHR 0x80, CHR 0x82]"

definition task_dispatch_failure_public_output :: string where
  "task_dispatch_failure_public_output =
     [CHR 0xE5, CHR 0xAD, CHR 0x90, CHR 0xE4, CHR 0xBB, CHR 0xA3, CHR 0xE7, CHR 0x90, CHR 0x86,
      CHR 0xE6, CHR 0xB4, CHR 0xBE, CHR 0xE5, CHR 0x8F, CHR 0x91, CHR 0xE5, CHR 0xA4, CHR 0xB1,
      CHR 0xE8, CHR 0xB4, CHR 0xA5, CHR 0xE3, CHR 0x80, CHR 0x82]"

definition task_execution_failure_public_output :: string where
  "task_execution_failure_public_output =
     [CHR 0xE5, CHR 0xAD, CHR 0x90, CHR 0xE4, CHR 0xBB, CHR 0xA3, CHR 0xE7, CHR 0x90, CHR 0x86,
      CHR 0xE6, CHR 0x89, CHR 0xA7, CHR 0xE8, CHR 0xA1, CHR 0x8C, CHR 0xE5, CHR 0xA4, CHR 0xB1,
      CHR 0xE8, CHR 0xB4, CHR 0xA5, CHR 0xE3, CHR 0x80, CHR 0x82]"

section \<open>Classification\<close>

datatype failure_code =
  ModelInvocationFailed | GitPreflightFailed | LeaseExpiredCode | DispatchFailed | TaskExecutionFailed

text \<open>
  \<open>failure_stage\<close>, \<open>error_code\<close> and \<open>fallback_mode\<close> of \<open>PublicTaskFailureMetadata\<close> as the
  strings the source writes.
\<close>

record public_task_failure_metadata =
  pf_failure_stage :: string
  pf_error_code :: string
  pf_fallback_mode :: string

fun failure_metadata :: "failure_code \<Rightarrow> public_task_failure_metadata" where
  "failure_metadata ModelInvocationFailed =
     \<lparr>pf_failure_stage = ''model_invocation'', pf_error_code = ''model_invocation_failed'',
      pf_fallback_mode = ''mainline_or_reassign''\<rparr>"
| "failure_metadata GitPreflightFailed =
     \<lparr>pf_failure_stage = ''git_preflight'', pf_error_code = ''git_preflight_failed'',
      pf_fallback_mode = ''mainline_or_reassign''\<rparr>"
| "failure_metadata LeaseExpiredCode =
     \<lparr>pf_failure_stage = ''execution_admission'', pf_error_code = ''lease_expired'',
      pf_fallback_mode = ''mainline_or_reassign''\<rparr>"
| "failure_metadata DispatchFailed =
     \<lparr>pf_failure_stage = ''dispatch'', pf_error_code = ''dispatch_failed'',
      pf_fallback_mode = ''mainline_or_reassign''\<rparr>"
| "failure_metadata TaskExecutionFailed =
     \<lparr>pf_failure_stage = ''task_execution'', pf_error_code = ''task_execution_failed'',
      pf_fallback_mode = ''mainline_or_reassign''\<rparr>"

definition contains_any :: "string \<Rightarrow> string list \<Rightarrow> bool" where
  "contains_any value needles = list_ex (str_contains value) needles"

definition normalized_error :: "string \<Rightarrow> string" where
  "normalized_error error = ascii_lower (str_trim error)"

definition model_needles :: "string list" where
  "model_needles =
     [[CHR 0xE6, CHR 0xA8, CHR 0xA1, CHR 0xE5, CHR 0x9E, CHR 0x8B],
      ''model'',
      ''llm'',
      ''provider'']"

definition git_needles :: "string list" where
  "git_needles =
     [''git'',
      ''worktree'']"

definition lease_needles :: "string list" where
  "lease_needles =
     [''lease'',
      [CHR 0xE7, CHR 0xA7, CHR 0x9F, CHR 0xE7, CHR 0xBA, CHR 0xA6]]"

definition dispatch_needles :: "string list" where
  "dispatch_needles =
     [''dispatch'',
      [CHR 0xE6, CHR 0xB4, CHR 0xBE, CHR 0xE5, CHR 0x8F, CHR 0x91]]"

definition classify_code :: "string \<Rightarrow> failure_code" where
  "classify_code normalized =
     (if contains_any normalized model_needles then ModelInvocationFailed
      else if contains_any normalized git_needles then GitPreflightFailed
      else if contains_any normalized lease_needles then LeaseExpiredCode
      else if contains_any normalized dispatch_needles then DispatchFailed
      else TaskExecutionFailed)"

definition classify_public_task_failure :: "string \<Rightarrow> public_task_failure_metadata" where
  "classify_public_task_failure error = failure_metadata (classify_code (normalized_error error))"

definition public_task_failure_output :: "string \<Rightarrow> string" where
  "public_task_failure_output error =
     (let code = pf_error_code (classify_public_task_failure error)
      in if code = ''model_invocation_failed'' then task_model_invocation_failure_public_output
         else if code = ''git_preflight_failed'' then task_git_preflight_failure_public_output
         else if code = ''lease_expired'' then task_execution_admission_failure_public_output
         else if code = ''dispatch_failed'' then task_dispatch_failure_public_output
         else task_execution_failure_public_output)"

section \<open>Internal diagnostics\<close>

definition internal_needles :: "string list" where
  "internal_needles =
     [''llm invocation failed'',
      ''model invocation failed'',
      ''model bridge client'',
      ''provider transport failed'',
      ''provider rejected request'',
      ''invalid base_url'',
      ''connection refused'',
      ''connection reset'',
      ''http client error'',
      ''spawn_blocking panicked'',
      ''dispatch spawn_blocking panicked'',
      ''dispatch failed'',
      ''thread panicked'',
      ''panicked at'',
      ''stack backtrace'',
      ''backtrace:'',
      ''internal assembly'',
      ''dispatcher missing'',
      ''task_store'',
      ''runner_manager'',
      ''workerruntime'',
      ''humancheckpointstore'',
      ''sessionstore'']"

definition task_output_ref_is_internal_runtime_failure :: "string \<Rightarrow> bool" where
  "task_output_ref_is_internal_runtime_failure output_ref =
     (let normalized = normalized_error output_ref
      in normalized \<noteq> []
         \<and> (list_ex (str_contains normalized) internal_needles
            \<or> (contains_any normalized [''timed out'', ''timeout'']
               \<and> contains_any normalized
                    [''llm'', ''model'', ''provider'', ''transport'', ''request''])))"

definition degraded_needles :: "string list" where
  "degraded_needles =
     [[CHR 0xE6, CHR 0xA8, CHR 0xA1, CHR 0xE5, CHR 0x9E, CHR 0x8B, CHR 0xE9, CHR 0x85, CHR 0x8D,
        CHR 0xE7, CHR 0xBD, CHR 0xAE, CHR 0xE4, CHR 0xB8, CHR 0x8D, CHR 0xE5, CHR 0x8F, CHR 0xAF,
        CHR 0xE7, CHR 0x94, CHR 0xA8],
      [CHR 0xE4, CHR 0xBB, CHR 0xA3, CHR 0xE7, CHR 0x90, CHR 0x86, CHR 0xE5, CHR 0xBD, CHR 0x93,
        CHR 0xE5, CHR 0x89, CHR 0x8D, CHR 0xE4, CHR 0xB8, CHR 0x8D, CHR 0xE5, CHR 0x8F, CHR 0xAF,
        CHR 0xE7, CHR 0x94, CHR 0xA8],
      [CHR 0xE4, CHR 0xBB, CHR 0xA3, CHR 0xE7, CHR 0x90, CHR 0x86, CHR 0xE4, CHR 0xB8, CHR 0x8D,
        CHR 0xE5, CHR 0x8F, CHR 0xAF, CHR 0xE7, CHR 0x94, CHR 0xA8],
      [CHR 0xE6, CHR 0xB2, CHR 0xA1, CHR 0xE6, CHR 0x9C, CHR 0x89, CHR 0xE5, CHR 0x8C, CHR 0xB9,
        CHR 0xE9, CHR 0x85, CHR 0x8D, CHR 0xE8, CHR 0xA7, CHR 0x92, CHR 0xE8, CHR 0x89, CHR 0xB2],
      [CHR 0xE6, CHR 0xB2, CHR 0xA1, CHR 0xE6, CHR 0x9C, CHR 0x89, CHR 0xE5, CHR 0x8C, CHR 0xB9,
        CHR 0xE9, CHR 0x85, CHR 0x8D],
      ''agent_unavailable'',
      ''agent unavailable'',
      ''no matching role'',
      ''no matching worker'']"

definition public_task_failure_is_degraded :: "string \<Rightarrow> bool" where
  "public_task_failure_is_degraded error =
     list_ex (\<lambda>needle. str_contains (normalized_error error) (ascii_lower needle)) degraded_needles"

section \<open>Output references shown to the user\<close>

definition push_unique :: "string \<Rightarrow> string list \<Rightarrow> string list" where
  "push_unique x xs = (if x \<in> set xs then xs else xs @ [x])"

definition public_task_output_refs :: "task_status \<Rightarrow> string list \<Rightarrow> string list" where
  "public_task_output_refs status output_refs =
     (if status \<noteq> Failed then output_refs
      else
        let internal = filter task_output_ref_is_internal_runtime_failure output_refs;
            visible = fold push_unique
              (filter (\<lambda>r. \<not> task_output_ref_is_internal_runtime_failure r) output_refs) []
        in if visible \<noteq> [] then visible
           else
             let converted = fold push_unique (map public_task_failure_output internal) []
             in if converted = [] then [task_runtime_failure_public_output] else converted)"

end
