(* ===== verification/KeyedList.thy ===== *)
theory KeyedList
  imports Prelude
begin

text \<open>
  A \<open>Vec\<close> searched with \<open>find\<close> and changed in place: the first element that satisfies a
  predicate is replaced or removed.  When the elements carry a key that occurs once, such a list
  is a finite map from keys, and the operations on it are updates of that map.
\<close>

named_theorems keyed_simps \<open>lookups by key in changed lists\<close>

text \<open>\<open>iter_mut().find(p)\<close> changes the first element that satisfies \<open>p\<close>.\<close>

fun update_first :: "('a \<Rightarrow> bool) \<Rightarrow> ('a \<Rightarrow> 'a) \<Rightarrow> 'a list \<Rightarrow> 'a list" where
  "update_first P f [] = []"
| "update_first P f (x # xs) = (if P x then f x # xs else x # update_first P f xs)"

text \<open>\<open>position(p)\<close> followed by \<open>remove\<close>.\<close>

fun remove_first :: "('a \<Rightarrow> bool) \<Rightarrow> 'a list \<Rightarrow> 'a list" where
  "remove_first P [] = []"
| "remove_first P (x # xs) = (if P x then xs else x # remove_first P xs)"

definition lookup :: "('a \<Rightarrow> 'k) \<Rightarrow> 'a list \<Rightarrow> 'k \<Rightarrow> 'a option" where
  "lookup key xs k = find (\<lambda>x. key x = k) xs"

abbreviation keys_once :: "('a \<Rightarrow> 'k) \<Rightarrow> 'a list \<Rightarrow> bool" where
  "keys_once key xs \<equiv> distinct (map key xs)"

lemma find_SomeD: "find P xs = Some x \<Longrightarrow> x \<in> set xs \<and> P x"
  by (induction xs) (auto split: if_splits)

lemma find_cong_set: "(\<And>x. x \<in> set xs \<Longrightarrow> P x = Q x) \<Longrightarrow> find P xs = find Q xs"
  by (induction xs) auto

lemma lookup_SomeD: "lookup key xs k = Some x \<Longrightarrow> x \<in> set xs \<and> key x = k"
  unfolding lookup_def by (drule find_SomeD) simp

lemma lookup_None_iff: "lookup key xs k = None \<longleftrightarrow> k \<notin> key ` set xs"
  by (auto simp: lookup_def find_None_iff)

lemma lookup_in_set: "keys_once key xs \<Longrightarrow> x \<in> set xs \<Longrightarrow> lookup key xs (key x) = Some x"
  by (induction xs) (auto simp: lookup_def image_iff)

lemma lookup_Nil [simp]: "lookup key [] k = None"
  by (simp add: lookup_def)

lemma lookup_Cons: "lookup key (x # xs) k = (if key x = k then Some x else lookup key xs k)"
  by (simp add: lookup_def)

lemma find_key_and:
  "keys_once key xs \<Longrightarrow>
   find (\<lambda>x. key x = k \<and> Q x) xs
     = (case lookup key xs k of None \<Rightarrow> None | Some x \<Rightarrow> if Q x then Some x else None)"
proof (induction xs)
  case (Cons y ys)
  have "find (\<lambda>x. key x = k \<and> Q x) ys = None" if "key y = k"
    using Cons.prems that by (auto simp: find_None_iff image_iff)
  with Cons show ?case by (auto simp: lookup_Cons)
qed simp

lemma update_first_none: "find P xs = None \<Longrightarrow> update_first P f xs = xs"
  by (induction xs) (auto split: if_splits)

lemma update_first_map:
  "(\<And>x. x \<in> set xs \<Longrightarrow> P x \<Longrightarrow> h (f x) = h x) \<Longrightarrow> map h (update_first P f xs) = map h xs"
  by (induction xs) auto

lemma update_first_Nil_iff [simp]: "update_first P f xs = [] \<longleftrightarrow> xs = []"
  by (cases xs) auto

lemma update_first_set: "set (update_first P f xs) \<subseteq> set xs \<union> f ` {x \<in> set xs. P x}"
  by (induction xs) auto

lemma set_update_firstE:
  assumes "y \<in> set (update_first P f xs)"
  obtains "y \<in> set xs" | x where "x \<in> set xs" "P x" "y = f x"
  using assms update_first_set [of P f xs] by blast

lemma lookup_update_first [keyed_simps]:
  assumes "keys_once key xs" "find P xs = Some x" "key (f x) = key x"
  shows "lookup key (update_first P f xs) k = (if k = key x then Some (f x) else lookup key xs k)"
  using assms by (induction xs) (auto simp: lookup_Cons image_iff split: if_splits dest!: find_SomeD)

lemma keys_once_update_first:
  assumes "keys_once key xs" "find P xs = Some x" "key (f x) = key x"
  shows "keys_once key (update_first P f xs)"
proof -
  have "map key (update_first P f xs) = map key xs"
    using assms(2,3) by (induction xs) (auto split: if_splits)
  then show ?thesis using assms(1) by simp
qed

lemma lookup_filter_key [keyed_simps]:
  "lookup key (filter (\<lambda>x. key x \<noteq> j) xs) k = (if k = j then None else lookup key xs k)"
  by (induction xs) (auto simp: lookup_Cons)

lemma lookup_append [keyed_simps]:
  "lookup key (xs @ ys) k = (case lookup key xs k of None \<Rightarrow> lookup key ys k | Some x \<Rightarrow> Some x)"
  by (induction xs) (auto simp: lookup_Cons)

lemma keys_once_filter: "keys_once key xs \<Longrightarrow> keys_once key (filter Q xs)"
  by (induction xs) auto

lemma remove_first_set: "set (remove_first P xs) \<subseteq> set xs"
  by (induction xs) auto

lemma keys_once_remove_first: "keys_once key xs \<Longrightarrow> keys_once key (remove_first P xs)"
proof (induction xs)
  case (Cons x xs)
  then show ?case using remove_first_set [of P xs] by auto
qed simp

lemma remove_first_none: "find P xs = None \<Longrightarrow> remove_first P xs = xs"
  by (induction xs) (auto split: if_splits)

lemma lookup_remove_first [keyed_simps]:
  assumes "keys_once key xs" "find P xs = Some x"
  shows "lookup key (remove_first P xs) k = (if k = key x then None else lookup key xs k)"
  using assms
proof (induction xs)
  case (Cons y ys)
  show ?case
  proof (cases "P y")
    case True
    with Cons.prems have "y = x" "lookup key ys (key x) = None" by (auto simp: lookup_None_iff)
    with True show ?thesis by (auto simp: lookup_Cons)
  next
    case False
    with Cons.prems have "x \<in> set ys" "find P ys = Some x" by (auto dest: find_SomeD)
    with False Cons show ?thesis by (auto simp: lookup_Cons)
  qed
qed simp

lemma lookup_map [keyed_simps]:
  "(\<And>x. key (f x) = key x) \<Longrightarrow> lookup key (map f xs) k = map_option f (lookup key xs k)"
  by (induction xs) (auto simp: lookup_Cons)

lemma keys_once_map: "(\<And>x. key (f x) = key x) \<Longrightarrow> keys_once key (map f xs) = keys_once key xs"
  by (simp add: comp_def)

end
