(* ===== verification/SessionModel.thy ===== *)
theory SessionModel
  imports TaskModel KeyedList
begin

text \<open>
  The part of the session store (\<open>crates/magi-session-store/src/models.rs\<close>) that goals and plans
  live in: plan items and their status table (\<open>magi-core/src/task.rs\<close>), plans, goals, the fields
  of canonical turns and runtime sidecars that the goal code reads, and the functions that
  normalise goals and plans when a persisted state is loaded.
\<close>

section \<open>Plan items and plans\<close>

datatype plan_item_status = ItemPending | ItemInProgress | ItemCompleted | ItemBlocked | ItemCanceled

datatype plan_state = PlanActive | PlanPaused | PlanCompleted | PlanCanceled

definition can_transition_to :: "plan_item_status \<Rightarrow> plan_item_status \<Rightarrow> bool" where
  "can_transition_to a b =
     (a = b
      \<or> (case a of
           ItemPending \<Rightarrow> b = ItemInProgress \<or> b = ItemCanceled
         | ItemInProgress \<Rightarrow> b = ItemCompleted \<or> b = ItemBlocked \<or> b = ItemCanceled
         | ItemBlocked \<Rightarrow> b = ItemInProgress \<or> b = ItemCanceled
         | _ \<Rightarrow> False))"

record plan_item =
  pi_item_id :: plan_item_id
  pi_title :: string
  pi_status :: plan_item_status

definition item_finished :: "plan_item \<Rightarrow> bool" where
  "item_finished i = (pi_status i = ItemCompleted \<or> pi_status i = ItemCanceled)"

definition item_running :: "plan_item \<Rightarrow> bool" where
  "item_running i = (pi_status i = ItemInProgress)"

record session_plan =
  sp_plan_id :: plan_id
  sp_session_id :: session_id
  sp_goal_id :: "goal_id option"
  sp_revision :: u64
  sp_language :: string
  sp_state :: plan_state
  sp_items :: "plan_item list"
  sp_task_bindings :: "(task_id, plan_item_id) hmap"
  sp_updated_at :: utc_millis

section \<open>Goals\<close>

definition is_unfinished :: "goal_status \<Rightarrow> bool" where
  "is_unfinished st = (st = GoalActive \<or> st = GoalPaused \<or> st = GoalBlocked)"

record goal_blocker_state =
  gb_blocker_key :: string
  gb_reason :: string
  gb_consecutive_turns :: u32
  gb_last_observed_turn_id :: string

datatype goal_continuation_phase = ContinuationIdle | ContinuationRunning | ContinuationWaiting

record goal_continuation_state =
  gc_phase :: goal_continuation_phase
  gc_turn_id :: "string option"
  gc_reason :: "string option"

definition default_continuation :: goal_continuation_state where
  "default_continuation = \<lparr>gc_phase = ContinuationIdle, gc_turn_id = None, gc_reason = None\<rparr>"

definition waiting_continuation :: "string \<Rightarrow> goal_continuation_state" where
  "waiting_continuation reason =
     \<lparr>gc_phase = ContinuationWaiting, gc_turn_id = None, gc_reason = Some reason\<rparr>"

definition running_continuation :: "string \<Rightarrow> goal_continuation_state" where
  "running_continuation turn_id =
     \<lparr>gc_phase = ContinuationRunning, gc_turn_id = Some turn_id, gc_reason = None\<rparr>"

record goal_completion_record =
  gr_turn_id :: string
  gr_summary :: string
  gr_plan_revision :: "u64 option"
  gr_evidence_refs :: "string list"
  gr_completed_at :: utc_millis

record session_goal =
  sg_goal_id :: goal_id
  sg_session_id :: session_id
  sg_thread_id :: thread_id
  sg_created_by_turn_id :: "string option"
  sg_objective :: string
  sg_status :: goal_status
  sg_control_revision :: u64
  sg_access_profile :: access_profile
  sg_tokens_used :: u64
  sg_model_attempts_used :: u64
  sg_time_used_seconds :: u64
  sg_time_used_millis :: u64
  sg_timing_started_at :: "utc_millis option"
  sg_timing_turn_id :: "string option"
  sg_blocker :: "goal_blocker_state option"
  sg_continuation :: goal_continuation_state
  sg_completion :: "goal_completion_record option"
  sg_created_at :: utc_millis
  sg_updated_at :: utc_millis

record goal_revision_expectation =
  ge_goal_control_revision :: u64
  ge_plan_revision :: "u64 option"

record goal_resume_checkpoint =
  gk_goal_before :: session_goal
  gk_plan_before :: "session_plan option"
  gk_applied_goal_revision :: u64
  gk_applied_plan_revision :: "u64 option"

record interrupted_goal_resume_checkpoint = goal_resume_checkpoint +
  gk_resumed_turn_id :: string

datatype goal_runtime_failure_disposition = Retrying u32 | FailureBlocked | FailureIgnored

section \<open>Turns and execution sidecars\<close>

datatype canonical_turn_status =
  TurnPending | TurnRunning | TurnCompleted | TurnBlocked | TurnFailed | TurnInterrupted
  | TurnCancelled | TurnSuperseded

text \<open>
  A model step keeps the fields of the goal accounts; \<open>ms_attempts\<close> is the length of its list of
  attempts.  A canonical turn keeps what the goal code reads: \<open>ct_worker_tasks\<close> lists the task id
  of the worker of each item, \<open>ct_metadata_goal_id\<close> is the string under the key \<open>goalId\<close>.
\<close>

record model_step =
  ms_goal_id :: "goal_id option"
  ms_goal_tokens_after :: "u64 option"
  ms_started_at :: utc_millis
  ms_settled_at :: "utc_millis option"
  ms_attempts :: nat

record canonical_turn =
  ct_session_id :: session_id
  ct_turn_id :: string
  ct_turn_seq :: u64
  ct_accepted_at :: utc_millis
  ct_completed_at :: "utc_millis option"
  ct_status :: canonical_turn_status
  ct_worker_tasks :: "task_id option list"
  ct_metadata_goal_id :: "string option"
  ct_model_steps :: "model_step list"

text \<open>
  The turn a sidecar shows: its items keep their task and the metadata strings \<open>noticeKind\<close> and
  the recovery state.
\<close>

record active_turn_item =
  ai_task_id :: "task_id option"
  ai_notice_kind :: "string option"
  ai_recovery_state :: "string option"

record active_turn =
  at_turn_id :: string
  at_status :: string
  at_items :: "active_turn_item list"
  at_completed_at :: "utc_millis option"

record execution_chain =
  ec_root_task_id :: task_id
  ec_active_branch_task_ids :: "task_id list"
  ec_branch_task_ids :: "task_id list"
  ec_current_turn :: "active_turn option"

record runtime_sidecar =
  rs_session_id :: session_id
  rs_active_execution_chain :: "execution_chain option"
  rs_current_turn :: "active_turn option"
  rs_updated_at :: utc_millis

section \<open>The state\<close>

record session_entry =
  se_session_id :: session_id
  se_updated_at :: utc_millis

record thread_entry =
  te_thread_id :: thread_id
  te_session_id :: session_id
  te_role_id :: string

datatype timeline_entry_kind = NotificationPublished | OtherEntry string

record timeline_entry =
  tm_entry_id :: string
  tm_session_id :: session_id
  tm_kind :: timeline_entry_kind
  tm_message :: string
  tm_occurred_at :: utc_millis

record session_state =
  ss_sessions :: "session_entry list"
  ss_timeline :: "timeline_entry list"
  ss_canonical_turns :: "canonical_turn list"
  ss_goals :: "session_goal list"
  ss_plans :: "session_plan list"
  ss_runtime_sidecars :: "runtime_sidecar list"
  ss_thread_registry :: "thread_entry list"

section \<open>Looking up sessions, goals and bound plans\<close>

definition has_session :: "session_state \<Rightarrow> session_id \<Rightarrow> bool" where
  "has_session s sid = list_ex (\<lambda>e. se_session_id e = sid) (ss_sessions s)"

definition is_goal :: "session_id \<Rightarrow> goal_id \<Rightarrow> session_goal \<Rightarrow> bool" where
  "is_goal sid gid g = (sg_session_id g = sid \<and> sg_goal_id g = gid)"

definition is_bound_plan :: "session_id \<Rightarrow> goal_id \<Rightarrow> session_plan \<Rightarrow> bool" where
  "is_bound_plan sid gid p = (sp_session_id p = sid \<and> sp_goal_id p = Some gid)"

definition find_goal :: "session_state \<Rightarrow> session_id \<Rightarrow> goal_id \<Rightarrow> session_goal option" where
  "find_goal s sid gid = find (is_goal sid gid) (ss_goals s)"

definition find_bound_plan :: "session_state \<Rightarrow> session_id \<Rightarrow> goal_id \<Rightarrow> session_plan option" where
  "find_bound_plan s sid gid = find (is_bound_plan sid gid) (ss_plans s)"

section \<open>Loading a persisted state\<close>

text \<open>
  The groups of \<open>normalize_session_goals\<close> are visited in hash order and the result is sorted by
  session afterwards; both sorts are stable, and there is one goal for each session.
\<close>

definition newest_goal :: "session_goal list \<Rightarrow> session_goal option" where
  "newest_goal candidates = max_by_key (\<lambda>g. (sg_updated_at g, goal_id_str (sg_goal_id g))) candidates"

definition positive_revision :: "session_goal \<Rightarrow> session_goal" where
  "positive_revision g = (if sg_control_revision g = 0 then g\<lparr>sg_control_revision := 1\<rparr> else g)"

definition normalize_session_goals :: "session_goal list \<Rightarrow> session_goal list" where
  "normalize_session_goals goals =
     (let candidates = map positive_revision goals
      in sort_key (\<lambda>g. session_id_str (sg_session_id g))
           (List.map_filter (\<lambda>sid. newest_goal (filter (\<lambda>g. sg_session_id g = sid) candidates))
             (remdups (map sg_session_id candidates))))"

definition default_plan_language :: string where
  "default_plan_language = ''zh-CN''"

definition normalize_item :: "plan_id \<Rightarrow> nat \<Rightarrow> plan_item \<Rightarrow> plan_item" where
  "normalize_item pid index i =
     (if is_blank (plan_item_id_str (pi_item_id i))
      then i\<lparr>pi_item_id := PlanItemId (plan_id_str pid @ ''-item-'' @ dec_of_nat (index + 1))\<rparr> else i)"

definition normalize_plan :: "session_plan \<Rightarrow> session_plan" where
  "normalize_plan p =
     (let p1 = (if is_blank (plan_id_str (sp_plan_id p))
                then p\<lparr>sp_plan_id := PlanId (''plan-'' @ session_id_str (sp_session_id p))\<rparr> else p);
          p2 = (if sp_revision p1 = 0 then p1\<lparr>sp_revision := 1\<rparr> else p1);
          p3 = (if is_blank (sp_language p2) then p2\<lparr>sp_language := default_plan_language\<rparr> else p2)
      in p3\<lparr>sp_items := map (\<lambda>(index, i). normalize_item (sp_plan_id p3) index i)
                          (enumerate 0 (sp_items p3))\<rparr>)"

definition normalize_session_plans :: "session_plan list \<Rightarrow> session_plan list" where
  "normalize_session_plans plans = map normalize_plan plans"

definition bind_unfinished_goal_plans :: "session_goal list \<Rightarrow> session_plan list \<Rightarrow> session_plan list" where
  "bind_unfinished_goal_plans goals plans =
     map (\<lambda>p. case find (\<lambda>g. sg_session_id g = sp_session_id p) goals of
            None \<Rightarrow> p
          | Some g \<Rightarrow> if sp_goal_id p \<noteq> None \<or> is_unfinished (sg_status g)
                      then p\<lparr>sp_goal_id := Some (sg_goal_id g)\<rparr> else p) plans"

definition pause_on_load :: "session_plan \<Rightarrow> session_goal \<Rightarrow> session_goal" where
  "pause_on_load p g =
     g\<lparr>sg_status := GoalPaused, sg_blocker := None, sg_continuation := default_continuation,
       sg_control_revision := saturating_add (sg_control_revision g) 1,
       sg_updated_at := max (sg_updated_at g) (sp_updated_at p)\<rparr>"

definition pause_plan_on_load :: "session_goal \<Rightarrow> session_plan \<Rightarrow> session_plan" where
  "pause_plan_on_load g p =
     p\<lparr>sp_state := PlanPaused, sp_revision := saturating_add (sp_revision p) 1,
       sp_updated_at := max (sp_updated_at p) (sg_updated_at g)\<rparr>"

fun normalize_goal_plan_control_states ::
    "session_goal list \<Rightarrow> session_plan list \<Rightarrow> session_goal list \<times> session_plan list" where
  "normalize_goal_plan_control_states [] plans = ([], plans)"
| "normalize_goal_plan_control_states (g # gs) plans =
     (let bound = is_bound_plan (sg_session_id g) (sg_goal_id g);
          (g', plans') =
            (if \<not> is_unfinished (sg_status g) then (g, plans)
             else case find bound plans of
                None \<Rightarrow> (g, plans)
              | Some p \<Rightarrow>
                  if sg_status g = GoalActive \<and> sp_state p \<noteq> PlanActive then (pause_on_load p g, plans)
                  else if sg_status g \<noteq> GoalActive \<and> sp_state p = PlanActive
                  then (g, update_first bound (pause_plan_on_load g) plans)
                  else (g, plans));
          (gs', plans'') = normalize_goal_plan_control_states gs plans'
      in (g' # gs', plans''))"

definition load_goals_and_plans ::
    "session_goal list \<Rightarrow> session_plan list \<Rightarrow> session_goal list \<times> session_plan list" where
  "load_goals_and_plans goals plans =
     (let gs = normalize_session_goals goals
      in normalize_goal_plan_control_states gs
           (bind_unfinished_goal_plans gs (normalize_session_plans plans)))"

end
