(* ===== verification/SessionGoals.thy ===== *)
theory SessionGoals
  imports SessionModel
begin

text \<open>
  The goals of a session (\<open>crates/magi-session-store/src/store/goals.rs\<close> and the goal functions of
  \<open>store/sidecar.rs\<close>): which turns a goal owns, its token, attempt and time accounts, and every
  operation that changes a goal together with the plan bound to it.

  Each operation runs under the write lock of the state and is one step.  A reading of the clock
  is an argument.  The dirty marks for the background flush are not part of the state.
\<close>

type_synonym 'a session_result = "(domain_error + 'a) \<times> session_state"

section \<open>Owners of a turn\<close>

definition turn_matches_owner_id :: "canonical_turn \<Rightarrow> string \<Rightarrow> bool" where
  "turn_matches_owner_id t owner \<longleftrightarrow>
     ct_turn_id t = owner \<or> list_ex (\<lambda>w. map_option task_id_str w = Some owner) (ct_worker_tasks t)"

definition goal_marks_turn :: "session_goal \<Rightarrow> canonical_turn \<Rightarrow> bool" where
  "goal_marks_turn g t \<longleftrightarrow> ct_metadata_goal_id t = Some (goal_id_str (sg_goal_id g))"

definition goal_owner_ids :: "session_goal \<Rightarrow> string list" where
  "goal_owner_ids g =
     List.map_filter id
       [sg_created_by_turn_id g, gc_turn_id (sg_continuation g),
        map_option gr_turn_id (sg_completion g), map_option gb_last_observed_turn_id (sg_blocker g)]"

definition goal_owns_turn :: "session_state \<Rightarrow> session_goal \<Rightarrow> canonical_turn \<Rightarrow> bool" where
  "goal_owns_turn s g t \<longleftrightarrow>
     goal_marks_turn g t
     \<or> list_ex (turn_matches_owner_id t) (goal_owner_ids g)
     \<or> list_ex (\<lambda>p. is_bound_plan (ct_session_id t) (sg_goal_id g) p
                  \<and> list_ex (\<lambda>k. turn_matches_owner_id t (task_id_str k)) (hkeys (sp_task_bindings p)))
         (ss_plans s)"

definition goal_owns_execution_chain ::
    "session_state \<Rightarrow> session_goal \<Rightarrow> canonical_turn \<Rightarrow> execution_chain \<Rightarrow> bool" where
  "goal_owns_execution_chain s g t chain \<longleftrightarrow>
     goal_owns_turn s g t
     \<or> list_ex (\<lambda>owner. owner = task_id_str (ec_root_task_id chain))
         (List.map_filter id [sg_created_by_turn_id g, gc_turn_id (sg_continuation g)])
     \<or> list_ex (\<lambda>p. is_bound_plan (ct_session_id t) (sg_goal_id g) p
                  \<and> (hmem (sp_task_bindings p) (ec_root_task_id chain)
                     \<or> list_ex (hmem (sp_task_bindings p)) (ec_branch_task_ids chain)))
         (ss_plans s)"

definition goal_owns_execution_owner :: "session_state \<Rightarrow> session_goal \<Rightarrow> string \<Rightarrow> bool" where
  "goal_owns_execution_owner s g owner =
     (case gc_phase (sg_continuation g) of
        ContinuationWaiting \<Rightarrow> False
      | ContinuationRunning \<Rightarrow>
          gc_turn_id (sg_continuation g) = Some owner
          \<or> list_ex (\<lambda>t. ct_session_id t = sg_session_id g \<and> turn_matches_owner_id t owner
                       \<and> goal_marks_turn g t) (ss_canonical_turns s)
      | ContinuationIdle \<Rightarrow>
          sg_created_by_turn_id g = Some owner
          \<or> list_ex (\<lambda>p. is_bound_plan (sg_session_id g) (sg_goal_id g) p
                       \<and> list_ex (\<lambda>k. task_id_str k = owner) (hkeys (sp_task_bindings p))) (ss_plans s)
          \<or> list_ex (\<lambda>t. ct_session_id t = sg_session_id g \<and> turn_matches_owner_id t owner
                       \<and> goal_owns_turn s g t) (ss_canonical_turns s))"

definition plan_for_execution_observer :: "session_id \<Rightarrow> string \<Rightarrow> session_state \<Rightarrow> session_plan option" where
  "plan_for_execution_observer sid owner s =
     (case find (\<lambda>p. sp_session_id p = sid) (ss_plans s) of
        None \<Rightarrow> None
      | Some p \<Rightarrow>
         (case sp_goal_id p of
            None \<Rightarrow> Some p
          | Some gid \<Rightarrow>
              map_option (\<lambda>_. p)
                (find (\<lambda>g. is_goal sid gid g \<and> sg_status g = GoalActive
                         \<and> goal_owns_execution_owner s g owner) (ss_goals s))))"

definition active_plan_for_execution_owner :: "session_id \<Rightarrow> string \<Rightarrow> session_state \<Rightarrow> session_plan option" where
  "active_plan_for_execution_owner sid owner s =
     (case plan_for_execution_observer sid owner s of
        None \<Rightarrow> None | Some p \<Rightarrow> if sp_state p = PlanActive then Some p else None)"

definition active_goal_for_execution_owner :: "session_id \<Rightarrow> string \<Rightarrow> session_state \<Rightarrow> session_goal option" where
  "active_goal_for_execution_owner sid owner s =
     find (\<lambda>g. sg_session_id g = sid \<and> sg_status g = GoalActive \<and> goal_owns_execution_owner s g owner)
       (ss_goals s)"

section \<open>Accounts\<close>

definition elapsed_of :: "canonical_turn \<Rightarrow> u64 option" where
  "elapsed_of t = map_option (\<lambda>c. saturating_sub c (ct_accepted_at t)) (ct_completed_at t)"

definition running_turn :: "session_state \<Rightarrow> session_goal \<Rightarrow> canonical_turn option" where
  "running_turn s g =
     (case sg_status g of
        GoalActive \<Rightarrow>
          if gc_phase (sg_continuation g) = ContinuationWaiting then None
          else max_by_key (\<lambda>t. (ct_accepted_at t, ct_turn_seq t))
                 (filter (\<lambda>t. ct_status t \<noteq> TurnSuperseded \<and> ct_completed_at t = None \<and> goal_owns_turn s g t)
                    (ss_canonical_turns s))
      | GoalComplete \<Rightarrow>
         (case sg_completion g of
            None \<Rightarrow> None
          | Some c \<Rightarrow>
              find (\<lambda>t. ct_status t \<noteq> TurnSuperseded \<and> ct_completed_at t = None
                       \<and> turn_matches_owner_id t (gr_turn_id c) \<and> goal_owns_turn s g t)
                (ss_canonical_turns s))
      | _ \<Rightarrow> None)"

definition goal_timing :: "session_state \<Rightarrow> session_goal \<Rightarrow> u64 \<times> (utc_millis \<times> string) option" where
  "goal_timing s g =
     (foldl saturating_add 0
        (List.map_filter elapsed_of
           (filter (\<lambda>t. ct_status t \<noteq> TurnSuperseded \<and> ct_completed_at t \<noteq> None \<and> goal_owns_turn s g t)
              (ss_canonical_turns s))),
      map_option (\<lambda>t. (ct_accepted_at t, ct_turn_id t)) (running_turn s g))"

definition timing_by_goal :: "session_state \<Rightarrow> (goal_id, u64 \<times> (utc_millis \<times> string) option) hmap" where
  "timing_by_goal s = fold (\<lambda>g. hput (sg_goal_id g) (goal_timing s g)) (ss_goals s) []"

definition set_timing :: "u64 \<times> (utc_millis \<times> string) option \<Rightarrow> session_goal \<Rightarrow> session_goal" where
  "set_timing timing g =
     g\<lparr>sg_time_used_millis := fst timing, sg_time_used_seconds := fst timing div 1000,
       sg_timing_started_at := map_option fst (snd timing),
       sg_timing_turn_id := map_option snd (snd timing)\<rparr>"

definition reconcile_goal_time_used :: "session_state \<Rightarrow> session_state" where
  "reconcile_goal_time_used s =
     (let timings = timing_by_goal s
      in s\<lparr>ss_goals := map (\<lambda>g. set_timing (case hget timings (sg_goal_id g) of None \<Rightarrow> (0, None) | Some x \<Rightarrow> x) g)
                        (ss_goals s)\<rparr>)"

definition raise_watermark :: "model_step \<Rightarrow> u64 \<Rightarrow> session_goal \<Rightarrow> session_goal" where
  "raise_watermark step after g =
     g\<lparr>sg_tokens_used := after,
       sg_updated_at := max (sg_updated_at g)
         (case ms_settled_at step of Some t \<Rightarrow> t | None \<Rightarrow> ms_started_at step)\<rparr>"

definition apply_token_step :: "session_id \<Rightarrow> model_step \<Rightarrow> session_goal list \<Rightarrow> session_goal list" where
  "apply_token_step sid step goals =
     (case (ms_goal_id step, ms_goal_tokens_after step) of
        (Some gid, Some after) \<Rightarrow>
         (case find (is_goal sid gid) goals of
            None \<Rightarrow> goals
          | Some g \<Rightarrow> if sg_tokens_used g < after
                      then update_first (is_goal sid gid) (raise_watermark step after) goals else goals)
      | _ \<Rightarrow> goals)"

definition apply_goal_token_watermarks ::
    "session_id \<Rightarrow> model_step list \<Rightarrow> session_goal list \<Rightarrow> session_goal list" where
  "apply_goal_token_watermarks sid steps goals = fold (apply_token_step sid) steps goals"

definition turn_attempts :: "goal_id \<Rightarrow> canonical_turn \<Rightarrow> u64" where
  "turn_attempts gid t =
     foldl saturating_add 0
       (map (\<lambda>step. of_nat (ms_attempts step)) (filter (\<lambda>step. ms_goal_id step = Some gid) (ct_model_steps t)))"

definition apply_goal_attempt_change ::
    "canonical_turn option \<Rightarrow> canonical_turn \<Rightarrow> session_goal list \<Rightarrow> session_goal list" where
  "apply_goal_attempt_change previous t goals =
     map (\<lambda>g. if sg_session_id g \<noteq> ct_session_id t then g
              else let before = (case previous of None \<Rightarrow> 0 | Some p \<Rightarrow> turn_attempts (sg_goal_id g) p)
                   in g\<lparr>sg_model_attempts_used :=
                        saturating_add (saturating_sub (sg_model_attempts_used g) before)
                          (turn_attempts (sg_goal_id g) t)\<rparr>) goals"

definition reconcile_goal_attempt_usage :: "session_state \<Rightarrow> session_state" where
  "reconcile_goal_attempt_usage s =
     s\<lparr>ss_goals := fold (apply_goal_attempt_change None) (ss_canonical_turns s)
                     (map (\<lambda>g. g\<lparr>sg_model_attempts_used := 0\<rparr>) (ss_goals s))\<rparr>"

definition reconcile_goal_token_usage :: "session_state \<Rightarrow> session_state" where
  "reconcile_goal_token_usage s =
     reconcile_goal_attempt_usage
       (s\<lparr>ss_goals := fold (\<lambda>t. apply_goal_token_watermarks (ct_session_id t) (ct_model_steps t))
                        (ss_canonical_turns s) (ss_goals s)\<rparr>)"

section \<open>Guards\<close>

definition rejected :: "goal_rejection \<Rightarrow> domain_error" where
  "rejected r = GoalRejected r NoValues"

definition validate_control_revision :: "session_goal \<Rightarrow> u64 option \<Rightarrow> domain_error + unit" where
  "validate_control_revision g expected =
     (case expected of
        Some r \<Rightarrow> if sg_control_revision g \<noteq> r
                  then Inl (GoalRejected ControlRevisionConflict (RevisionsDiffer r (sg_control_revision g)))
                  else Inr ()
      | None \<Rightarrow> Inr ())"

definition validate_bound_plan_revision :: "session_plan option \<Rightarrow> u64 option \<Rightarrow> domain_error + unit" where
  "validate_bound_plan_revision plan expected =
     (case (plan, expected) of
        (None, None) \<Rightarrow> Inr ()
      | (None, Some _) \<Rightarrow> Inl (rejected PlanMissing)
      | (Some p, None) \<Rightarrow> Inl (GoalRejected PlanRevisionRequired (CurrentRevision (sp_revision p)))
      | (Some p, Some r) \<Rightarrow>
          if sp_revision p \<noteq> r
          then Inl (GoalRejected PlanRevisionConflict (RevisionsDiffer r (sp_revision p))) else Inr ())"

definition goal_owned_by_turn :: "session_goal \<Rightarrow> string \<Rightarrow> bool" where
  "goal_owned_by_turn g turn_id \<longleftrightarrow>
     sg_created_by_turn_id g = Some turn_id
     \<or> (gc_phase (sg_continuation g) = ContinuationRunning \<and> gc_turn_id (sg_continuation g) = Some turn_id)"

definition task_is_active_in_session_execution :: "session_state \<Rightarrow> session_id \<Rightarrow> task_id \<Rightarrow> bool" where
  "task_is_active_in_session_execution s sid tid =
     (case Option.bind (find (\<lambda>r. rs_session_id r = sid) (ss_runtime_sidecars s)) rs_active_execution_chain of
        None \<Rightarrow> False
      | Some chain \<Rightarrow> ec_root_task_id chain = tid \<or> tid \<in> set (ec_active_branch_task_ids chain))"

definition normalize_non_empty :: "string \<Rightarrow> string \<Rightarrow> domain_error + string" where
  "normalize_non_empty v field =
     (if is_blank v then Inl (Validation (FieldEmpty field)) else Inr (str_trim v))"

definition max_goal_objective_chars :: nat where
  "max_goal_objective_chars = 4000"

definition normalize_objective :: "string \<Rightarrow> domain_error + string" where
  "normalize_objective objective =
     (let trimmed = str_trim objective
      in if trimmed = [] then Inl (Validation (FieldEmpty ''goal objective''))
         else if char_count trimmed > max_goal_objective_chars
         then Inl (Validation (FieldTooLong ''goal objective''))
         else Inr trimmed)"

definition normalize_evidence_refs :: "string list \<Rightarrow> string list" where
  "normalize_evidence_refs refs =
     fold (\<lambda>r acc. let e = str_trim r in if e \<noteq> [] \<and> e \<notin> set acc then acc @ [e] else acc) refs []"

end
