(* ===== verification/GoalOperations.thy ===== *)
theory GoalOperations
  imports SessionGoals
begin

text \<open>
  The operations on a goal (\<open>store/goals.rs\<close>), the part of \<open>store/sidecar.rs\<close> that starts, ends,
  resumes and rolls back the continuation of a goal, and what a terminal turn releases.
\<close>

section \<open>Creating a goal\<close>

definition suffixed :: "string \<Rightarrow> nat \<Rightarrow> string" where
  "suffixed base n = base @ ''-'' @ dec_of_nat n"

text \<open>
  The loop tries \<open>base\<close>, then \<open>base-1\<close>, \<open>base-2\<close> and so on.  One of the first
  \<open>length timeline + 1\<close> suffixes is free, so the search is over those.
\<close>

definition unique_timeline_entry_id :: "timeline_entry list \<Rightarrow> string \<Rightarrow> string" where
  "unique_timeline_entry_id timeline base =
     (let ids = map tm_entry_id timeline
      in if base \<notin> set ids then base
         else case find (\<lambda>n. suffixed base n \<notin> set ids) [1..<length timeline + 2] of
                None \<Rightarrow> base | Some n \<Rightarrow> suffixed base n)"

definition lower_hex_digit :: "nat \<Rightarrow> char" where
  "lower_hex_digit n = (if n < 10 then char_of (48 + n) else char_of (87 + n))"

definition hex_byte :: "8 word \<Rightarrow> string" where
  "hex_byte b = [lower_hex_digit (unat b div 16), lower_hex_digit (unat b mod 16)]"

text \<open>\<open>getrandom::fill\<close> gives sixteen bytes or an error; its result is an argument.\<close>

definition new_goal_id :: "session_id \<Rightarrow> utc_millis \<Rightarrow> string + 8 word list \<Rightarrow> domain_error + goal_id" where
  "new_goal_id sid now entropy =
     (case entropy of
        Inl e \<Rightarrow> Inl (InvalidState (PlanError (EntropyFailed e)))
      | Inr bytes \<Rightarrow>
          Inr (GoalId (''goal-'' @ session_id_str sid @ ''-'' @ dec_of_nat (unat now) @ ''-''
                       @ concat (map hex_byte bytes))))"

definition orchestrator_role_id :: string where
  "orchestrator_role_id = ''orchestrator''"

text \<open>The UTF-8 bytes of the five characters and the colon before the objective.\<close>

definition goal_created_text :: string where
  "goal_created_text =
     [CHR 0xE7, CHR 0x9B, CHR 0xAE, CHR 0xE6, CHR 0xA0, CHR 0x87, CHR 0xE5, CHR 0xB7, CHR 0xB2,
      CHR 0xE5, CHR 0x88, CHR 0x9B, CHR 0xE5, CHR 0xBB, CHR 0xBA, CHR 0x3A, CHR 0x20]"

definition new_goal ::
    "goal_id \<Rightarrow> session_id \<Rightarrow> thread_id \<Rightarrow> string \<Rightarrow> string \<Rightarrow> access_profile \<Rightarrow> utc_millis \<Rightarrow> session_goal" where
  "new_goal gid sid thread turn_id objective access now =
     \<lparr>sg_goal_id = gid, sg_session_id = sid, sg_thread_id = thread,
      sg_created_by_turn_id = Some turn_id, sg_objective = objective, sg_status = GoalActive,
      sg_control_revision = 1, sg_access_profile = access, sg_tokens_used = 0,
      sg_model_attempts_used = 0, sg_time_used_seconds = 0, sg_time_used_millis = 0,
      sg_timing_started_at = None, sg_timing_turn_id = None, sg_blocker = None,
      sg_continuation = default_continuation, sg_completion = None,
      sg_created_at = now, sg_updated_at = now\<rparr>"

definition create_goal ::
    "session_id \<Rightarrow> thread_id \<Rightarrow> string \<Rightarrow> string \<Rightarrow> access_profile \<Rightarrow> utc_millis \<Rightarrow>
     string + 8 word list \<Rightarrow> session_state \<Rightarrow> session_goal session_result" where
  "create_goal sid thread turn_id0 objective0 access now entropy s =
     (case normalize_non_empty turn_id0 ''goal turn_id'' of
        Inl e \<Rightarrow> (Inl e, s)
      | Inr turn_id \<Rightarrow>
     (case normalize_objective objective0 of
        Inl e \<Rightarrow> (Inl e, s)
      | Inr objective \<Rightarrow>
          if \<not> has_session s sid then (Inl (NotFound ''session''), s)
          else (case find (\<lambda>t. te_session_id t = sid \<and> te_role_id t = orchestrator_role_id)
                       (ss_thread_registry s) of
            None \<Rightarrow> (Inl (rejected NoOrchestratorThread), s)
          | Some t \<Rightarrow>
              if te_thread_id t \<noteq> thread then (Inl (Validation NotOrchestratorThread), s)
              else if list_ex (\<lambda>g. sg_session_id g = sid \<and> is_unfinished (sg_status g)) (ss_goals s)
              then (Inl (rejected AlreadyUnfinished), s)
              else (case new_goal_id sid now entropy of
                Inl e \<Rightarrow> (Inl e, s)
              | Inr gid \<Rightarrow>
                  let g = new_goal gid sid thread turn_id objective access now;
                      entry = \<lparr>tm_entry_id = unique_timeline_entry_id (ss_timeline s)
                                 (''timeline-goal-created-'' @ goal_id_str gid),
                               tm_session_id = sid, tm_kind = NotificationPublished,
                               tm_message = goal_created_text @ objective, tm_occurred_at = now\<rparr>;
                      s1 = s\<lparr>ss_goals := filter (\<lambda>g. sg_session_id g \<noteq> sid) (ss_goals s) @ [g],
                             ss_plans := filter (\<lambda>p. sp_session_id p \<noteq> sid) (ss_plans s),
                             ss_timeline := ss_timeline s @ [entry]\<rparr>;
                      s2 = reconcile_goal_time_used s1
                  in (Inr (last (ss_goals s2)), s2)))))"

section \<open>Reading goals\<close>

definition current_goal :: "session_id \<Rightarrow> session_state \<Rightarrow> session_goal option" where
  "current_goal sid s = find (\<lambda>g. sg_session_id g = sid) (ss_goals s)"

definition current_unfinished_goal :: "session_id \<Rightarrow> session_state \<Rightarrow> session_goal option" where
  "current_unfinished_goal sid s =
     find (\<lambda>g. sg_session_id g = sid \<and> is_unfinished (sg_status g)) (ss_goals s)"

definition active_goal :: "session_id \<Rightarrow> session_state \<Rightarrow> session_goal option" where
  "active_goal sid s = find (\<lambda>g. sg_session_id g = sid \<and> sg_status g = GoalActive) (ss_goals s)"

definition waiting_goal_session_ids :: "session_state \<Rightarrow> session_id list" where
  "waiting_goal_session_ids s =
     map sg_session_id
       (filter (\<lambda>g. sg_status g = GoalActive \<and> gc_phase (sg_continuation g) = ContinuationWaiting) (ss_goals s))"

definition goals_for_session :: "session_id \<Rightarrow> session_state \<Rightarrow> session_goal list" where
  "goals_for_session sid s = filter (\<lambda>g. sg_session_id g = sid) (ss_goals s)"

section \<open>Changing a goal alone\<close>

definition bump :: "utc_millis \<Rightarrow> session_goal \<Rightarrow> session_goal" where
  "bump now g = g\<lparr>sg_control_revision := saturating_add (sg_control_revision g) 1, sg_updated_at := now\<rparr>"

definition set_goal :: "(session_goal \<Rightarrow> bool) \<Rightarrow> session_goal \<Rightarrow> session_state \<Rightarrow> session_state" where
  "set_goal P g' s = s\<lparr>ss_goals := update_first P (\<lambda>_. g') (ss_goals s)\<rparr>"

definition set_plan :: "(session_plan \<Rightarrow> bool) \<Rightarrow> (session_plan \<Rightarrow> session_plan) \<Rightarrow> session_state \<Rightarrow> session_state" where
  "set_plan P f s = s\<lparr>ss_plans := update_first P f (ss_plans s)\<rparr>"

definition set_active_goal_access_profile ::
    "session_id \<Rightarrow> access_profile \<Rightarrow> utc_millis \<Rightarrow> session_state \<Rightarrow> session_goal option session_result" where
  "set_active_goal_access_profile sid access now s =
     (if \<not> has_session s sid then (Inl (NotFound ''session''), s)
      else let P = (\<lambda>g. sg_session_id g = sid \<and> sg_status g = GoalActive)
      in case find P (ss_goals s) of
        None \<Rightarrow> (Inr None, s)
      | Some g \<Rightarrow>
          if sg_access_profile g \<noteq> access
          then let g' = bump now (g\<lparr>sg_access_profile := access\<rparr>) in (Inr (Some g'), set_goal P g' s)
          else (Inr (Some g), s))"

definition update_goal_objective_if_revision ::
    "session_id \<Rightarrow> goal_id \<Rightarrow> string \<Rightarrow> u64 option \<Rightarrow> utc_millis \<Rightarrow> session_state \<Rightarrow>
     session_goal session_result" where
  "update_goal_objective_if_revision sid gid objective0 expected now s =
     (case normalize_objective objective0 of
        Inl e \<Rightarrow> (Inl e, s)
      | Inr objective \<Rightarrow>
     (case find_goal s sid gid of
        None \<Rightarrow> (Inl (NotFound ''goal''), s)
      | Some g \<Rightarrow>
     (case validate_control_revision g expected of
        Inl e \<Rightarrow> (Inl e, s)
      | Inr _ \<Rightarrow>
          if \<not> is_unfinished (sg_status g) then (Inl (rejected GoalTerminal), s)
          else let g' = bump now (g\<lparr>sg_objective := objective\<rparr>)
               in (Inr g', set_goal (is_goal sid gid) g' s))))"

definition record_goal_turn_success ::
    "session_id \<Rightarrow> goal_id \<Rightarrow> string \<Rightarrow> utc_millis \<Rightarrow> session_state \<Rightarrow> session_goal session_result" where
  "record_goal_turn_success sid gid turn_id now s =
     (case find_goal s sid gid of
        None \<Rightarrow> (Inl (NotFound ''goal''), s)
      | Some g \<Rightarrow>
          if \<not> goal_owned_by_turn g turn_id \<or> sg_status g \<noteq> GoalActive then (Inr g, s)
          else let keep = (case sg_blocker g of
                             None \<Rightarrow> False | Some b \<Rightarrow> gb_last_observed_turn_id b = turn_id);
                   g' = g\<lparr>sg_blocker := (if keep then sg_blocker g else None),
                          sg_continuation := default_continuation, sg_updated_at := now\<rparr>
               in (Inr g', set_goal (is_goal sid gid) g' s))"

definition mark_goal_continuation_waiting ::
    "session_id \<Rightarrow> goal_id \<Rightarrow> string \<Rightarrow> utc_millis \<Rightarrow> session_state \<Rightarrow> session_goal session_result" where
  "mark_goal_continuation_waiting sid gid reason0 now s =
     (case normalize_non_empty reason0 ''continuation wait reason'' of
        Inl e \<Rightarrow> (Inl e, s)
      | Inr reason \<Rightarrow>
     (case find_goal s sid gid of
        None \<Rightarrow> (Inl (NotFound ''goal''), s)
      | Some g \<Rightarrow>
          if sg_status g \<noteq> GoalActive then (Inr g, s)
          else let g' = g\<lparr>sg_continuation := waiting_continuation reason, sg_updated_at := now\<rparr>
               in (Inr g', set_goal (is_goal sid gid) g' s)))"

section \<open>Failures and blockers\<close>

definition blocked_turn_threshold :: u32 where
  "blocked_turn_threshold = 3"

definition goal_runtime_failure_attempts :: u32 where
  "goal_runtime_failure_attempts = 3"

definition runtime_error_key :: string where
  "runtime_error_key = ''runtime_error''"

definition pause_plan :: "utc_millis \<Rightarrow> session_plan \<Rightarrow> session_plan" where
  "pause_plan now p =
     p\<lparr>sp_state := PlanPaused, sp_revision := saturating_add (sp_revision p) 1, sp_updated_at := now\<rparr>"

text \<open>The goal the operation returns is the one stored after the accounts are reconciled.\<close>

definition stored_goal :: "session_id \<Rightarrow> goal_id \<Rightarrow> session_goal \<Rightarrow> session_state \<Rightarrow> session_goal" where
  "stored_goal sid gid g s = (case find_goal s sid gid of None \<Rightarrow> g | Some g' \<Rightarrow> g')"

definition stop_goal_for_runtime_failure ::
    "session_id \<Rightarrow> goal_id \<Rightarrow> u64 option \<Rightarrow> string \<Rightarrow> string \<Rightarrow> utc_millis \<Rightarrow> session_state \<Rightarrow>
     session_goal session_result" where
  "stop_goal_for_runtime_failure sid gid expected turn_id reason now s =
     (case find_goal s sid gid of
        None \<Rightarrow> (Inl (NotFound ''goal''), s)
      | Some g \<Rightarrow>
         (case (case expected of Some r \<Rightarrow> validate_control_revision g (Some r) | None \<Rightarrow> Inr ()) of
            Inl e \<Rightarrow> (Inl e, s)
          | Inr _ \<Rightarrow>
              if expected = None \<and> \<not> goal_owned_by_turn g turn_id then (Inr g, s)
              else if sg_status g \<noteq> GoalActive then (Inr g, s)
              else
                let s1 = set_plan (is_bound_plan sid gid) (pause_plan now) s;
                    g' = bump now (g\<lparr>sg_status := GoalBlocked,
                           sg_blocker := Some \<lparr>gb_blocker_key = runtime_error_key, gb_reason = reason,
                             gb_consecutive_turns = blocked_turn_threshold,
                             gb_last_observed_turn_id = turn_id\<rparr>,
                           sg_continuation := waiting_continuation reason\<rparr>);
                    s2 = reconcile_goal_time_used (set_goal (is_goal sid gid) g' s1)
                in (Inr (stored_goal sid gid g' s2), s2)))"

definition runtime_failure_attempt :: "session_goal \<Rightarrow> string \<Rightarrow> u32" where
  "runtime_failure_attempt g turn_id =
     (case sg_blocker g of
        None \<Rightarrow> 1
      | Some b \<Rightarrow>
          if gb_blocker_key b \<noteq> runtime_error_key then 1
          else if gb_last_observed_turn_id b = turn_id then gb_consecutive_turns b
          else saturating_add (gb_consecutive_turns b) 1)"

text \<open>
  Below the limit the failure is recorded and the goal stays active.  At the limit the lock is
  released and \<open>stop_goal_for_runtime_failure\<close> takes it again: \<open>others\<close> stands for the steps that
  other threads take in between.
\<close>

definition observe_goal_runtime_failure ::
    "session_id \<Rightarrow> goal_id \<Rightarrow> string \<Rightarrow> string \<Rightarrow> utc_millis \<Rightarrow> utc_millis \<Rightarrow>
     (session_state \<Rightarrow> session_state) \<Rightarrow> session_state \<Rightarrow>
     (session_goal \<times> goal_runtime_failure_disposition) session_result" where
  "observe_goal_runtime_failure sid gid turn_id reason now now2 others s =
     (case find_goal s sid gid of
        None \<Rightarrow> (Inl (NotFound ''goal''), s)
      | Some g \<Rightarrow>
          if \<not> goal_owned_by_turn g turn_id \<or> sg_status g \<noteq> GoalActive then (Inr (g, FailureIgnored), s)
          else
            let attempt = runtime_failure_attempt g turn_id
            in if attempt < goal_runtime_failure_attempts
               then let g' = bump now (g\<lparr>sg_blocker := Some \<lparr>gb_blocker_key = runtime_error_key,
                               gb_reason = reason, gb_consecutive_turns = attempt,
                               gb_last_observed_turn_id = turn_id\<rparr>,
                             sg_continuation := waiting_continuation reason\<rparr>)
                    in (Inr (g', Retrying attempt),
                        reconcile_goal_time_used (set_goal (is_goal sid gid) g' s))
               else (case stop_goal_for_runtime_failure sid gid None turn_id reason now2 (others s) of
                       (Inl e, s') \<Rightarrow> (Inl e, s')
                     | (Inr blocked, s') \<Rightarrow> (Inr (blocked, FailureBlocked), s')))"

definition observed_turns :: "session_goal \<Rightarrow> string \<Rightarrow> string \<Rightarrow> u32" where
  "observed_turns g turn_id key =
     (case sg_blocker g of
        None \<Rightarrow> 1
      | Some b \<Rightarrow>
          if gb_last_observed_turn_id b = turn_id then gb_consecutive_turns b
          else if gb_blocker_key b = key then saturating_add (gb_consecutive_turns b) 1
          else 1)"

definition observe_goal_blocker ::
    "session_id \<Rightarrow> goal_id \<Rightarrow> u64 \<Rightarrow> u64 option \<Rightarrow> string \<Rightarrow> string \<Rightarrow> string \<Rightarrow> utc_millis \<Rightarrow>
     session_state \<Rightarrow> session_goal session_result" where
  "observe_goal_blocker sid gid expected expected_plan turn_id key0 reason0 now s =
     (case normalize_non_empty key0 ''blocker_key'' of
        Inl e \<Rightarrow> (Inl e, s)
      | Inr key \<Rightarrow>
     (case normalize_non_empty reason0 ''blocker reason'' of
        Inl e \<Rightarrow> (Inl e, s)
      | Inr reason \<Rightarrow>
     (case find_goal s sid gid of
        None \<Rightarrow> (Inl (NotFound ''goal''), s)
      | Some g \<Rightarrow>
     (case validate_control_revision g (Some expected) of
        Inl e \<Rightarrow> (Inl e, s)
      | Inr _ \<Rightarrow>
     (case validate_bound_plan_revision (find_bound_plan s sid gid) expected_plan of
        Inl e \<Rightarrow> (Inl e, s)
      | Inr _ \<Rightarrow>
          if sg_status g \<noteq> GoalActive then (Inl (rejected NotActive), s)
          else if \<not> goal_owned_by_turn g turn_id then (Inl (rejected NotOwnedByTurn), s)
          else
            let turns = observed_turns g turn_id key;
                stop = (blocked_turn_threshold \<le> turns);
                s1 = (if stop then set_plan (is_bound_plan sid gid) (pause_plan now) s else s);
                g1 = g\<lparr>sg_blocker := Some \<lparr>gb_blocker_key = key, gb_reason = reason,
                        gb_consecutive_turns = turns, gb_last_observed_turn_id = turn_id\<rparr>\<rparr>;
                g' = bump now (if stop then g1\<lparr>sg_status := GoalBlocked,
                                               sg_continuation := waiting_continuation reason\<rparr> else g1);
                s2 = reconcile_goal_time_used (set_goal (is_goal sid gid) g' s1)
            in (Inr (stored_goal sid gid g' s2), s2))))))"

end
