(* ===== verification/GoalTransitions.thy ===== *)
theory GoalTransitions
  imports GoalOperations
begin

text \<open>
  Completing, pausing, resuming, rolling back and clearing a goal with its bound plan
  (\<open>store/goals.rs\<close>), and the continuation of a goal across turns, interruptions and restarts
  (\<open>store/sidecar.rs\<close>).
\<close>

section \<open>Completing a goal\<close>

definition plan_has_open_item :: "session_plan \<Rightarrow> bool" where
  "plan_has_open_item p \<longleftrightarrow>
     list_ex (\<lambda>i. pi_status i = ItemPending \<or> pi_status i = ItemInProgress \<or> pi_status i = ItemBlocked)
       (sp_items p)"

definition plan_has_active_task :: "session_state \<Rightarrow> session_id \<Rightarrow> string \<Rightarrow> session_plan \<Rightarrow> bool" where
  "plan_has_active_task s sid turn_id p \<longleftrightarrow>
     list_ex (\<lambda>k. task_id_str k \<noteq> turn_id \<and> task_is_active_in_session_execution s sid k)
       (hkeys (sp_task_bindings p))"

definition complete_goal ::
    "session_id \<Rightarrow> goal_id \<Rightarrow> goal_revision_expectation \<Rightarrow> string \<Rightarrow> string \<Rightarrow> string list \<Rightarrow>
     utc_millis \<Rightarrow> session_state \<Rightarrow> session_goal session_result" where
  "complete_goal sid gid expected turn_id0 summary0 refs0 now s =
     (case normalize_non_empty turn_id0 ''completion turn_id'' of
        Inl e \<Rightarrow> (Inl e, s)
      | Inr turn_id \<Rightarrow>
     (case normalize_non_empty summary0 ''completion summary'' of
        Inl e \<Rightarrow> (Inl e, s)
      | Inr summary \<Rightarrow>
     (case find_goal s sid gid of
        None \<Rightarrow> (Inl (NotFound ''goal''), s)
      | Some g \<Rightarrow>
     (case validate_control_revision g (Some (ge_goal_control_revision expected)) of
        Inl e \<Rightarrow> (Inl e, s)
      | Inr _ \<Rightarrow>
          if sg_status g \<noteq> GoalActive then (Inl (rejected NotActive), s)
          else if \<not> goal_owned_by_turn g turn_id then (Inl (rejected NotOwnedByTurn), s)
          else let bound = find_bound_plan s sid gid in
     (case validate_bound_plan_revision bound (ge_plan_revision expected) of
        Inl e \<Rightarrow> (Inl e, s)
      | Inr _ \<Rightarrow>
          if (case bound of None \<Rightarrow> False | Some p \<Rightarrow> plan_has_open_item p)
          then (Inl (rejected PlanUnfinished), s)
          else if (case bound of None \<Rightarrow> False | Some p \<Rightarrow> plan_has_active_task s sid turn_id p)
          then (Inl (rejected PlanTasksActive), s)
          else
            let refs = normalize_evidence_refs refs0
            in if bound \<noteq> None \<and> refs = [] then (Inl (rejected EvidenceRequired), s)
               else
                 let g' = bump now (g\<lparr>sg_status := GoalComplete,
                        sg_completion := Some \<lparr>gr_turn_id = turn_id, gr_summary = summary,
                          gr_plan_revision = map_option sp_revision bound,
                          gr_evidence_refs = refs, gr_completed_at = now\<rparr>,
                        sg_continuation := default_continuation\<rparr>);
                     s' = reconcile_goal_time_used (set_goal (is_goal sid gid) g' s)
                 in (Inr (stored_goal sid gid g' s'), s'))))))"

section \<open>Pausing, resuming and clearing with the bound plan\<close>

definition start_next_item :: "plan_item list \<Rightarrow> plan_item list" where
  "start_next_item items =
     (if list_ex item_running items then items
      else if list_ex (\<lambda>i. pi_status i = ItemBlocked) items
      then update_first (\<lambda>i. pi_status i = ItemBlocked) (\<lambda>i. i\<lparr>pi_status := ItemInProgress\<rparr>) items
      else update_first (\<lambda>i. pi_status i = ItemPending) (\<lambda>i. i\<lparr>pi_status := ItemInProgress\<rparr>) items)"

definition activate_paused_plan :: "utc_millis \<Rightarrow> session_plan \<Rightarrow> session_plan" where
  "activate_paused_plan now p =
     (let items = start_next_item (sp_items p)
      in p\<lparr>sp_items := items,
           sp_state := (if list_all item_finished items then PlanCompleted else PlanActive),
           sp_revision := saturating_add (sp_revision p) 1, sp_updated_at := now\<rparr>)"

definition pause_bound_plan :: "utc_millis \<Rightarrow> session_plan \<Rightarrow> session_plan" where
  "pause_bound_plan now p = (if sp_state p \<noteq> PlanPaused then pause_plan now p else p)"

definition pause_goal_and_bound_plan_in_state ::
    "(session_goal \<Rightarrow> bool) \<Rightarrow> session_goal \<Rightarrow> utc_millis \<Rightarrow> session_state \<Rightarrow>
     (session_goal \<times> session_plan option) \<times> session_state" where
  "pause_goal_and_bound_plan_in_state P g now s =
     (let bound = is_bound_plan (sg_session_id g) (sg_goal_id g);
          s1 = set_plan bound (pause_bound_plan now) s;
          g1 = (if sg_status g \<noteq> GoalPaused
                then g\<lparr>sg_status := GoalPaused, sg_control_revision := saturating_add (sg_control_revision g) 1\<rparr>
                else g);
          g' = g1\<lparr>sg_blocker := None, sg_continuation := default_continuation, sg_updated_at := now\<rparr>
      in ((g', find bound (ss_plans s1)), set_goal P g' s1))"

definition pause_active_goal_for_diversion ::
    "session_id \<Rightarrow> utc_millis \<Rightarrow> session_state \<Rightarrow> (session_goal \<times> session_plan option) option session_result" where
  "pause_active_goal_for_diversion sid now s =
     (let P = (\<lambda>g. sg_session_id g = sid \<and> sg_status g = GoalActive)
      in case find P (ss_goals s) of
        None \<Rightarrow> (Inr None, s)
      | Some g \<Rightarrow>
          let (result, s') = pause_goal_and_bound_plan_in_state P g now s
          in (Inr (Some result), reconcile_goal_time_used s'))"

text \<open>Only \<open>GoalPaused\<close> and \<open>GoalActive\<close> are asked for; any other status is refused.\<close>

definition transition_allowed :: "goal_status \<Rightarrow> goal_status \<Rightarrow> bool" where
  "transition_allowed current next =
     (case next of
        GoalPaused \<Rightarrow> current = GoalActive
      | GoalActive \<Rightarrow> current = GoalPaused \<or> current = GoalBlocked
      | _ \<Rightarrow> False)"

definition transition_plan :: "goal_status \<Rightarrow> utc_millis \<Rightarrow> session_plan \<Rightarrow> session_plan" where
  "transition_plan next now p =
     (if next = GoalPaused then pause_plan now p
      else if sp_state p = PlanPaused then activate_paused_plan now p
      else p)"

definition transition_goal_with_plan ::
    "session_id \<Rightarrow> goal_id \<Rightarrow> goal_revision_expectation \<Rightarrow> goal_status \<Rightarrow> access_profile option \<Rightarrow>
     utc_millis \<Rightarrow> session_state \<Rightarrow>
     (session_goal \<times> session_plan option \<times> goal_resume_checkpoint option) session_result" where
  "transition_goal_with_plan sid gid expected next access now s =
     (case find_goal s sid gid of
        None \<Rightarrow> (Inl (NotFound ''goal''), s)
      | Some g \<Rightarrow>
     (case validate_control_revision g (Some (ge_goal_control_revision expected)) of
        Inl e \<Rightarrow> (Inl e, s)
      | Inr _ \<Rightarrow>
     (case validate_bound_plan_revision (find_bound_plan s sid gid) (ge_plan_revision expected) of
        Inl e \<Rightarrow> (Inl e, s)
      | Inr _ \<Rightarrow>
          if \<not> transition_allowed (sg_status g) next
          then (Inl (GoalRejected GoalIllegalTransition (StatusChange (sg_status g) next)), s)
          else
            let s1 = set_plan (is_bound_plan sid gid) (transition_plan next now) s;
                updated = find_bound_plan s1 sid gid;
                g1 = g\<lparr>sg_status := next,
                       sg_access_profile := (case access of None \<Rightarrow> sg_access_profile g | Some a \<Rightarrow> a),
                       sg_blocker := None,
                       sg_continuation := (if next = GoalActive then waiting_continuation ''resume_requested''
                                           else default_continuation)\<rparr>;
                g' = bump now g1;
                s2 = reconcile_goal_time_used (set_goal (is_goal sid gid) g' s1);
                checkpoint = (if next = GoalActive
                  then Some \<lparr>gk_goal_before = g, gk_plan_before = find_bound_plan s sid gid,
                             gk_applied_goal_revision = sg_control_revision g',
                             gk_applied_plan_revision = map_option sp_revision updated\<rparr>
                  else None)
            in (Inr (stored_goal sid gid g' s2, updated, checkpoint), s2))))"

definition pause_goal_with_plan ::
    "session_id \<Rightarrow> goal_id \<Rightarrow> u64 \<Rightarrow> u64 option \<Rightarrow> utc_millis \<Rightarrow> session_state \<Rightarrow>
     (session_goal \<times> session_plan option) session_result" where
  "pause_goal_with_plan sid gid expected expected_plan now s =
     (case transition_goal_with_plan sid gid
             \<lparr>ge_goal_control_revision = expected, ge_plan_revision = expected_plan\<rparr> GoalPaused None now s of
        (Inl e, s') \<Rightarrow> (Inl e, s')
      | (Inr (g, p, _), s') \<Rightarrow> (Inr (g, p), s'))"

text \<open>A resume always makes a checkpoint; the \<open>expect\<close> of the code never fails.\<close>

definition resume_goal_with_plan ::
    "session_id \<Rightarrow> goal_id \<Rightarrow> u64 \<Rightarrow> u64 option \<Rightarrow> access_profile option \<Rightarrow> utc_millis \<Rightarrow> session_state \<Rightarrow>
     (session_goal \<times> session_plan option \<times> goal_resume_checkpoint option) session_result" where
  "resume_goal_with_plan sid gid expected expected_plan access now s =
     transition_goal_with_plan sid gid
       \<lparr>ge_goal_control_revision = expected, ge_plan_revision = expected_plan\<rparr> GoalActive access now s"

text \<open>
  Both rollbacks look the goal up by its id alone and the plan by the plan id alone, check that
  nobody changed them since the resume, and put the two snapshots back.
\<close>

definition rollback_plan ::
    "domain_error \<Rightarrow> domain_error \<Rightarrow> session_goal \<Rightarrow> session_plan option \<Rightarrow> u64 option \<Rightarrow> session_state \<Rightarrow>
     domain_error + session_state" where
  "rollback_plan changed appeared goal_before plan_before applied s =
     (case plan_before of
        Some before \<Rightarrow>
         (let same = (\<lambda>p. sp_plan_id p = sp_plan_id before)
          in case find same (ss_plans s) of
            None \<Rightarrow> Inl (NotFound ''plan'')
          | Some p \<Rightarrow> if Some (sp_revision p) \<noteq> applied then Inl changed
                      else Inr (set_plan same (\<lambda>_. before) s))
      | None \<Rightarrow>
          if list_ex (is_bound_plan (sg_session_id goal_before) (sg_goal_id goal_before)) (ss_plans s)
          then Inl appeared else Inr s)"

definition rollback_goal_resume :: "goal_resume_checkpoint \<Rightarrow> session_state \<Rightarrow> unit session_result" where
  "rollback_goal_resume k s =
     (let same = (\<lambda>g. sg_goal_id g = sg_goal_id (gk_goal_before k))
      in case find same (ss_goals s) of
        None \<Rightarrow> (Inl (NotFound ''goal''), s)
      | Some g \<Rightarrow>
          if sg_control_revision g \<noteq> gk_applied_goal_revision k \<or> sg_status g \<noteq> GoalActive
             \<or> gc_phase (sg_continuation g) \<noteq> ContinuationWaiting
          then (Inl (rejected ConcurrentModification), s)
          else (case rollback_plan (rejected ConcurrentModification) (rejected ConcurrentModification)
                       (gk_goal_before k) (gk_plan_before k) (gk_applied_plan_revision k) s of
            Inl e \<Rightarrow> (Inl e, s)
          | Inr s1 \<Rightarrow>
              (Inr (), reconcile_goal_time_used (reconcile_goal_token_usage
                         (set_goal same (gk_goal_before k) s1)))))"

definition clear_goal_with_plan ::
    "session_id \<Rightarrow> goal_id \<Rightarrow> u64 \<Rightarrow> u64 option \<Rightarrow> session_state \<Rightarrow>
     (session_goal \<times> session_plan option) session_result" where
  "clear_goal_with_plan sid gid expected expected_plan s =
     (case find_goal s sid gid of
        None \<Rightarrow> (Inl (NotFound ''goal''), s)
      | Some g \<Rightarrow>
     (case validate_control_revision g (Some expected) of
        Inl e \<Rightarrow> (Inl e, s)
      | Inr _ \<Rightarrow>
     (case validate_bound_plan_revision (find_bound_plan s sid gid) expected_plan of
        Inl e \<Rightarrow> (Inl e, s)
      | Inr _ \<Rightarrow>
          (Inr (g, find_bound_plan s sid gid),
           s\<lparr>ss_goals := remove_first (is_goal sid gid) (ss_goals s),
             ss_plans := remove_first (is_bound_plan sid gid) (ss_plans s)\<rparr>))))"

section \<open>The continuation of a goal\<close>

text \<open>The goal guard and the goal update of the turn that starts a continuation.\<close>

definition continuation_guard :: "session_id \<Rightarrow> goal_id \<Rightarrow> session_state \<Rightarrow> domain_error + unit" where
  "continuation_guard sid gid s =
     (case find_goal s sid gid of
        None \<Rightarrow> Inl (NotFound ''goal'')
      | Some g \<Rightarrow>
          if sg_status g \<noteq> GoalActive then Inl (InvalidState (PlanError ContinuationOfIdleGoal))
          else if gc_phase (sg_continuation g) = ContinuationRunning
          then Inl (InvalidState (PlanError ContinuationAlreadyRunning))
          else Inr ())"

definition start_continuation ::
    "session_id \<Rightarrow> goal_id \<Rightarrow> string \<Rightarrow> utc_millis \<Rightarrow> session_state \<Rightarrow> session_state" where
  "start_continuation sid gid turn_id occurred_at s =
     s\<lparr>ss_goals := update_first (is_goal sid gid)
         (\<lambda>g. g\<lparr>sg_continuation := running_continuation turn_id, sg_updated_at := occurred_at\<rparr>) (ss_goals s)\<rparr>"

definition current_turn_status_is_terminal :: "string \<Rightarrow> bool" where
  "current_turn_status_is_terminal status =
     (ascii_lower (str_trim status)
        \<in> {''completed'', ''complete'', ''succeeded'', ''success'', ''failed'', ''error'',
           ''interrupted'', ''blocked'', ''cancelled'', ''canceled'', ''killed'', ''superseded''})"

definition terminal_turn_reason :: "string \<Rightarrow> string" where
  "terminal_turn_reason status =
     (let st = ascii_lower (str_trim status)
      in if st = ''cancelled'' \<or> st = ''canceled'' then ''user_interrupted''
         else if st = ''interrupted'' then ''daemon_restart_interrupted''
         else ''goal_continuation_turn_terminal'')"

definition continuation_owner_matches :: "session_goal \<Rightarrow> runtime_sidecar \<Rightarrow> active_turn \<Rightarrow> bool" where
  "continuation_owner_matches g r t \<longleftrightarrow>
     list_ex (\<lambda>owner.
         at_turn_id t = owner
         \<or> list_ex (\<lambda>i. map_option task_id_str (ai_task_id i) = Some owner) (at_items t)
         \<or> (case rs_active_execution_chain r of
              None \<Rightarrow> False | Some chain \<Rightarrow> task_id_str (ec_root_task_id chain) = owner))
       (List.map_filter id [gc_turn_id (sg_continuation g), sg_created_by_turn_id g])"

definition sidecar_turn :: "runtime_sidecar \<Rightarrow> active_turn option" where
  "sidecar_turn r =
     (case rs_current_turn r of
        Some t \<Rightarrow> Some t | None \<Rightarrow> Option.bind (rs_active_execution_chain r) ec_current_turn)"

definition settle_continuation :: "session_state \<Rightarrow> session_goal \<Rightarrow> session_goal" where
  "settle_continuation s g =
     (if sg_status g \<noteq> GoalActive \<or> gc_phase (sg_continuation g) \<noteq> ContinuationRunning then g
      else case find (\<lambda>r. rs_session_id r = sg_session_id g) (ss_runtime_sidecars s) of
        None \<Rightarrow> g
      | Some r \<Rightarrow>
         (case sidecar_turn r of
            None \<Rightarrow> g
          | Some t \<Rightarrow>
              if \<not> continuation_owner_matches g r t \<or> \<not> current_turn_status_is_terminal (at_status t) then g
              else g\<lparr>sg_continuation := waiting_continuation (terminal_turn_reason (at_status t)),
                     sg_updated_at := (case at_completed_at t of Some c \<Rightarrow> c | None \<Rightarrow> rs_updated_at r)\<rparr>))"

definition reconcile_terminal_goal_continuations :: "session_state \<Rightarrow> session_state" where
  "reconcile_terminal_goal_continuations s = s\<lparr>ss_goals := map (settle_continuation s) (ss_goals s)\<rparr>"

definition release_running_goal_continuation ::
    "session_id \<Rightarrow> string \<Rightarrow> string \<Rightarrow> utc_millis \<Rightarrow> session_state \<Rightarrow> session_state" where
  "release_running_goal_continuation sid turn_id reason updated_at s =
     s\<lparr>ss_goals := update_first
         (\<lambda>g. sg_session_id g = sid \<and> sg_status g = GoalActive
            \<and> gc_phase (sg_continuation g) = ContinuationRunning
            \<and> (gc_turn_id (sg_continuation g) = Some turn_id \<or> sg_created_by_turn_id g = Some turn_id))
         (\<lambda>g. g\<lparr>sg_continuation := waiting_continuation reason, sg_updated_at := updated_at\<rparr>) (ss_goals s)\<rparr>"

section \<open>Interrupted executions\<close>

definition recovery_claimed :: "active_turn \<Rightarrow> bool" where
  "recovery_claimed t \<longleftrightarrow>
     list_ex (\<lambda>i. ai_notice_kind i = Some ''session_interrupted'' \<and> ai_recovery_state i = Some ''claimed'')
       (at_items t)"

definition resume_after_interruption :: "string \<Rightarrow> utc_millis \<Rightarrow> session_goal \<Rightarrow> session_goal" where
  "resume_after_interruption resumed now g =
     (let g1 = (if sg_status g = GoalPaused
                then g\<lparr>sg_status := GoalActive, sg_control_revision := saturating_add (sg_control_revision g) 1\<rparr>
                else g)
      in g1\<lparr>sg_continuation := running_continuation resumed, sg_updated_at := now\<rparr>)"

definition resume_goal_for_interrupted_execution ::
    "session_id \<Rightarrow> string \<Rightarrow> string \<Rightarrow> utc_millis \<Rightarrow> session_state \<Rightarrow>
     interrupted_goal_resume_checkpoint option session_result" where
  "resume_goal_for_interrupted_execution sid interrupted resumed now s =
     (case find (\<lambda>r. rs_session_id r = sid) (ss_runtime_sidecars s) of
        None \<Rightarrow> (Inl (NotFound ''session_runtime_sidecar''), s)
      | Some r \<Rightarrow>
     (case rs_current_turn r of
        None \<Rightarrow> (Inl (InvalidState (PlanError InterruptedTurnMissing)), s)
      | Some t \<Rightarrow>
          if at_turn_id t \<noteq> interrupted \<or> at_status t \<noteq> ''interrupted''
          then (Inl (InvalidState (PlanError (InterruptedTurnChanged (at_turn_id t)))), s)
          else if \<not> recovery_claimed t then (Inl (InvalidState (PlanError RecoveryNotClaimed)), s)
          else (case rs_active_execution_chain r of
            None \<Rightarrow> (Inl (InvalidState (PlanError NoResumableChain)), s)
          | Some chain \<Rightarrow>
         (case find (\<lambda>c. ct_session_id c = sid \<and> ct_turn_id c = interrupted) (ss_canonical_turns s) of
            None \<Rightarrow> (Inl (InvalidState (PlanError (InterruptedTurnUnknown interrupted))), s)
          | Some turn \<Rightarrow>
              let P = (\<lambda>g. sg_session_id g = sid \<and> is_unfinished (sg_status g)
                        \<and> goal_owns_execution_chain s g turn chain)
              in case find P (ss_goals s) of
                None \<Rightarrow> (Inr None, s)
              | Some g \<Rightarrow>
                  if \<not> (sg_status g = GoalActive \<or> sg_status g = GoalPaused)
                  then (Inl (InvalidState (PlanError (GoalNotResumable (sg_status g)))), s)
                  else
                    let bound = is_bound_plan sid (sg_goal_id g);
                        s1 = set_plan bound
                               (\<lambda>p. if sp_state p = PlanPaused then activate_paused_plan now p else p) s;
                        g' = resume_after_interruption resumed now g;
                        s2 = set_goal P g' s1
                    in (Inr (Some \<lparr>gk_goal_before = g, gk_plan_before = find bound (ss_plans s),
                               gk_applied_goal_revision = sg_control_revision g',
                               gk_applied_plan_revision = map_option sp_revision (find bound (ss_plans s1)),
                               gk_resumed_turn_id = resumed\<rparr>),
                        reconcile_goal_time_used s2)))))"

definition rollback_interrupted_goal_resume ::
    "interrupted_goal_resume_checkpoint \<Rightarrow> session_state \<Rightarrow> unit session_result" where
  "rollback_interrupted_goal_resume k s =
     (let same = (\<lambda>g. sg_goal_id g = sg_goal_id (gk_goal_before k))
      in case find same (ss_goals s) of
        None \<Rightarrow> (Inl (NotFound ''goal''), s)
      | Some g \<Rightarrow>
          if sg_control_revision g \<noteq> gk_applied_goal_revision k
             \<or> gc_phase (sg_continuation g) \<noteq> ContinuationRunning
             \<or> gc_turn_id (sg_continuation g) \<noteq> Some (gk_resumed_turn_id k)
          then (Inl (InvalidState (PlanError ResumedGoalChanged)), s)
          else (case rollback_plan (InvalidState (PlanError ResumedPlanChanged))
                       (InvalidState (PlanError ResumedPlanAppeared))
                       (gk_goal_before k) (gk_plan_before k) (gk_applied_plan_revision k) s of
            Inl e \<Rightarrow> (Inl e, s)
          | Inr s1 \<Rightarrow> (Inr (), reconcile_goal_time_used (set_goal same (gk_goal_before k) s1))))"

end
