(* ===== verification/SessionPlans.thy ===== *)
theory SessionPlans
  imports GoalTransitions
begin

text \<open>
  The plan of a session: writing it to the store (\<open>magi-session-store/src/store/mod.rs\<close>) and the
  plan protocol on top of it (\<open>crates/magi-plan/src/lib.rs\<close>).

  A protocol operation reads a snapshot of the plan, computes the next plan from it and writes
  that plan with the revision of the snapshot as the expected one.  The read and the write take
  the lock separately, so an operation has two state arguments: \<open>s0\<close>, the state the snapshot is
  read from, and \<open>s\<close>, the state the write runs on.
\<close>

section \<open>Writing a plan\<close>

definition plan_of :: "session_id \<Rightarrow> session_state \<Rightarrow> session_plan option" where
  "plan_of sid s = find (\<lambda>p. sp_session_id p = sid) (ss_plans s)"

definition unfinished_goal_guard :: "session_goal option \<Rightarrow> session_plan \<Rightarrow> domain_error + unit" where
  "unfinished_goal_guard goal plan =
     (case goal of
        None \<Rightarrow> Inr ()
      | Some g \<Rightarrow>
          if sp_goal_id plan \<noteq> Some (sg_goal_id g) then Inl (InvalidState (PlanError PlanNotBoundToGoal))
          else if sp_state plan = PlanActive \<and> sg_status g \<noteq> GoalActive
          then Inl (InvalidState (PlanError ActivePlanOfIdleGoal))
          else if sg_status g = GoalActive \<and> sp_state plan = PlanPaused
          then Inl (InvalidState (PlanError PausedPlanOfActiveGoal))
          else Inr ())"

definition goal_progress_guard ::
    "session_goal option \<Rightarrow> session_plan \<Rightarrow> (goal_id option \<times> u64 option) option \<Rightarrow> domain_error + unit" where
  "goal_progress_guard goal plan guard =
     (case guard of
        None \<Rightarrow> Inr ()
      | Some (expected_goal, expected_revision) \<Rightarrow>
         (case goal of
            None \<Rightarrow>
              if expected_goal = None \<and> expected_revision = None \<and> sp_goal_id plan = None then Inr ()
              else Inl (InvalidState (PlanError GoalNoLongerExists))
          | Some g \<Rightarrow>
             (case expected_goal of
                None \<Rightarrow> Inl (InvalidState (PlanError (GoalIdRequired (sg_goal_id g))))
              | Some gid \<Rightarrow>
                  if sg_goal_id g \<noteq> gid
                  then Inl (InvalidState (PlanError (GoalIdConflict gid (sg_goal_id g))))
                  else (case expected_revision of
                    None \<Rightarrow> Inl (InvalidState (PlanError (GoalRevisionRequired (sg_control_revision g))))
                  | Some r \<Rightarrow>
                      if sg_control_revision g \<noteq> r
                      then Inl (InvalidState (PlanError (GoalRevisionDiffers r (sg_control_revision g))))
                      else if sg_status g \<noteq> GoalActive
                      then Inl (InvalidState (PlanError (GoalCannotAdvance (sg_status g))))
                      else Inr ()))))"

definition goal_of_plan_guard :: "session_state \<Rightarrow> session_id \<Rightarrow> session_plan \<Rightarrow> domain_error + unit" where
  "goal_of_plan_guard s sid plan =
     (case sp_goal_id plan of
        None \<Rightarrow> Inr ()
      | Some gid \<Rightarrow> if find_goal s sid gid = None then Inl (InvalidState (PlanError PlanOfOtherGoal)) else Inr ())"

definition touch_session :: "session_id \<Rightarrow> utc_millis \<Rightarrow> session_state \<Rightarrow> session_state" where
  "touch_session sid now s =
     s\<lparr>ss_sessions := update_first (\<lambda>e. se_session_id e = sid) (\<lambda>e. e\<lparr>se_updated_at := now\<rparr>) (ss_sessions s)\<rparr>"

definition upsert_plan_inner ::
    "session_id \<Rightarrow> session_plan \<Rightarrow> u64 option \<Rightarrow> (goal_id option \<times> u64 option) option \<Rightarrow> utc_millis \<Rightarrow>
     session_state \<Rightarrow> session_plan session_result" where
  "upsert_plan_inner sid plan expected guard now s =
     (if \<not> has_session s sid then (Inl (NotFound ''session''), s)
      else if sp_session_id plan \<noteq> sid then (Inl (Validation ScopeMismatch), s)
      else let goal = current_unfinished_goal sid s in
     (case unfinished_goal_guard goal plan of
        Inl e \<Rightarrow> (Inl e, s)
      | Inr _ \<Rightarrow>
     (case goal_progress_guard goal plan guard of
        Inl e \<Rightarrow> (Inl e, s)
      | Inr _ \<Rightarrow>
     (case goal_of_plan_guard s sid plan of
        Inl e \<Rightarrow> (Inl e, s)
      | Inr _ \<Rightarrow>
     (case plan_of sid s of
        Some current \<Rightarrow>
          if (case expected of None \<Rightarrow> False | Some r \<Rightarrow> sp_revision current \<noteq> r)
          then (Inl (InvalidState (PlanError (PlanRevisionDiffers (the expected) (sp_revision current)))), s)
          else let plan' = plan\<lparr>sp_revision := saturating_add (sp_revision current) 1, sp_updated_at := now\<rparr>
               in (Inr plan', touch_session sid now (set_plan (\<lambda>p. sp_session_id p = sid) (\<lambda>_. plan') s))
      | None \<Rightarrow>
          if (case expected of None \<Rightarrow> False | Some r \<Rightarrow> r \<noteq> 0)
          then (Inl (InvalidState (PlanError PlanAbsent)), s)
          else let plan' = plan\<lparr>sp_revision := 1, sp_updated_at := now\<rparr>
               in (Inr plan', touch_session sid now (s\<lparr>ss_plans := ss_plans s @ [plan']\<rparr>)))))))"

definition upsert_plan ::
    "session_id \<Rightarrow> session_plan \<Rightarrow> u64 option \<Rightarrow> utc_millis \<Rightarrow> session_state \<Rightarrow> session_plan session_result" where
  "upsert_plan sid plan expected now s = upsert_plan_inner sid plan expected None now s"

definition upsert_plan_for_goal_progress ::
    "session_id \<Rightarrow> session_plan \<Rightarrow> u64 option \<Rightarrow> goal_id option \<Rightarrow> u64 option \<Rightarrow> utc_millis \<Rightarrow>
     session_state \<Rightarrow> session_plan session_result" where
  "upsert_plan_for_goal_progress sid plan expected gid goal_revision now s =
     upsert_plan_inner sid plan expected (Some (gid, goal_revision)) now s"

definition clear_plan :: "session_id \<Rightarrow> u64 option \<Rightarrow> session_state \<Rightarrow> bool session_result" where
  "clear_plan sid expected s =
     (if \<not> has_session s sid then (Inl (NotFound ''session''), s)
      else case (expected, plan_of sid s) of
        (Some r, Some current) \<Rightarrow>
          if sp_revision current \<noteq> r
          then (Inl (InvalidState (PlanError (PlanRevisionDiffers r (sp_revision current)))), s)
          else (Inr True, s\<lparr>ss_plans := filter (\<lambda>p. sp_session_id p \<noteq> sid) (ss_plans s)\<rparr>)
      | (_, current) \<Rightarrow>
          (Inr (current \<noteq> None), s\<lparr>ss_plans := filter (\<lambda>p. sp_session_id p \<noteq> sid) (ss_plans s)\<rparr>))"

definition restore_plan_if_current ::
    "session_id \<Rightarrow> u64 \<Rightarrow> session_plan option \<Rightarrow> utc_millis \<Rightarrow> session_state \<Rightarrow> unit session_result" where
  "restore_plan_if_current sid expected original now s =
     (case plan_of sid s of
        None \<Rightarrow> (Inl (NotFound ''plan''), s)
      | Some current \<Rightarrow>
          if sp_revision current \<noteq> expected
          then (Inl (InvalidState (PlanError (PlanRevisionDiffers expected (sp_revision current)))), s)
          else (case original of
            Some o' \<Rightarrow>
              if sp_session_id o' \<noteq> sid then (Inl (Validation ScopeMismatch), s)
              else (Inr (), set_plan (\<lambda>p. sp_session_id p = sid)
                      (\<lambda>_. o'\<lparr>sp_revision := expected, sp_updated_at := now\<rparr>) s)
          | None \<Rightarrow> (Inr (), s\<lparr>ss_plans := remove_first (\<lambda>p. sp_session_id p = sid) (ss_plans s)\<rparr>)))"

section \<open>Updates of a plan\<close>

datatype plan_update_error =
    InvalidJson string
  | InvalidLanguage string
  | EmptyPlan
  | TooManyItems nat
  | BlankTitle nat
  | TitleTooLong nat
  | MultipleInProgress
  | MissingInProgress
  | InvalidItemId string
  | DuplicateItemId string
  | UnexpectedPlanId
  | MissingItemId
  | MissingPlanId
  | PlanIdMismatch
  | RevisionConflict u64 u64
  | LanguageChanged string string
  | NewPlanHasTerminalItem
  | NewItemMustBePending string
  | InvalidTransition string plan_item_status plan_item_status
  | CannotRemoveActiveItem string
  | MissingPlan
  | UnknownItem string
  | ItemNotActive string
  | CannotRemoveBoundItem string
  | StoreError domain_error

type_synonym 'a plan_result = "(plan_update_error + 'a) \<times> session_state"

record update_plan_item_input =
  ui_item_id :: "string option"
  ui_step :: string
  ui_status :: plan_item_status

record update_plan_input =
  up_plan_id :: "string option"
  up_expected_revision :: "u64 option"
  up_expected_goal_id :: "string option"
  up_expected_goal_control_revision :: "u64 option"
  up_language :: string
  up_explanation :: "string option"
  up_plan :: "update_plan_item_input list"

definition normalize_optional_id :: "string option \<Rightarrow> string option" where
  "normalize_optional_id v =
     (case v of None \<Rightarrow> None | Some x \<Rightarrow> if str_trim x = [] then None else Some (str_trim x))"

definition drop_null :: "string option \<Rightarrow> string option" where
  "drop_null v = (case v of None \<Rightarrow> None | Some x \<Rightarrow> if ascii_lower x = ''null'' then None else Some x)"

text \<open>\<open>serde_json::from_str\<close> is the parameter \<open>from_json\<close>.\<close>

definition parse_update_plan_arguments ::
    "(string \<Rightarrow> string + update_plan_input) \<Rightarrow> string \<Rightarrow> plan_update_error + update_plan_input" where
  "parse_update_plan_arguments from_json arguments =
     (case from_json arguments of
        Inl e \<Rightarrow> Inl (InvalidJson e)
      | Inr input \<Rightarrow>
          Inr (input\<lparr>up_plan_id := drop_null (normalize_optional_id (up_plan_id input)),
                     up_expected_goal_id := drop_null (normalize_optional_id (up_expected_goal_id input)),
                     up_plan := map (\<lambda>i. i\<lparr>ui_item_id := normalize_optional_id (ui_item_id i)\<rparr>) (up_plan input)\<rparr>))"

definition is_ascii_alnum :: "char \<Rightarrow> bool" where
  "is_ascii_alnum c \<longleftrightarrow> is_digit c \<or> (CHR ''a'' \<le> c \<and> c \<le> CHR ''z'') \<or> (CHR ''A'' \<le> c \<and> c \<le> CHR ''Z'')"

definition validate_language :: "string \<Rightarrow> plan_update_error + unit" where
  "validate_language language0 =
     (let language = str_trim language0
      in if language = [] \<or> length language > 35
            \<or> \<not> list_all (\<lambda>c. is_ascii_alnum c \<or> c = CHR ''-'') language
         then Inl (InvalidLanguage language) else Inr ())"

definition validate_item_id :: "string \<Rightarrow> plan_update_error + unit" where
  "validate_item_id item_id =
     (let v = str_trim item_id
      in if v = [] \<or> length v > 80
            \<or> \<not> list_all (\<lambda>c. (CHR ''a'' \<le> c \<and> c \<le> CHR ''z'') \<or> is_digit c \<or> c = CHR ''_'' \<or> c = CHR ''-'') v
         then Inl (InvalidItemId item_id) else Inr ())"

definition max_plan_items :: nat where "max_plan_items = 12"

definition max_plan_title_chars :: nat where "max_plan_title_chars = 120"

text \<open>The loop over the items, with the count of running items and the explicit ids seen so far.\<close>

fun scan_plan_items ::
    "nat \<Rightarrow> nat \<Rightarrow> string list \<Rightarrow> update_plan_item_input list \<Rightarrow> plan_update_error + nat" where
  "scan_plan_items index running ids [] = Inr running"
| "scan_plan_items index running ids (i # is) =
     (let title = str_trim (ui_step i);
          running' = (if ui_status i = ItemInProgress then running + 1 else running)
      in if title = [] then Inl (BlankTitle index)
         else if char_count title > max_plan_title_chars then Inl (TitleTooLong index)
         else case ui_item_id i of
           None \<Rightarrow> scan_plan_items (index + 1) running' ids is
         | Some item_id \<Rightarrow>
            (case validate_item_id item_id of
               Inl e \<Rightarrow> Inl e
             | Inr _ \<Rightarrow>
                 if item_id \<in> set ids then Inl (DuplicateItemId item_id)
                 else scan_plan_items (index + 1) running' (item_id # ids) is))"

definition input_finished :: "update_plan_item_input \<Rightarrow> bool" where
  "input_finished i = (ui_status i = ItemCompleted \<or> ui_status i = ItemCanceled)"

definition validate_plan_items :: "update_plan_item_input list \<Rightarrow> bool \<Rightarrow> plan_update_error + unit" where
  "validate_plan_items items creating =
     (if items = [] then Inl EmptyPlan
      else if length items > max_plan_items then Inl (TooManyItems (length items))
      else case scan_plan_items 0 0 [] items of
        Inl e \<Rightarrow> Inl e
      | Inr running \<Rightarrow>
          if running > 1 then Inl MultipleInProgress
          else if creating \<and> list_ex (\<lambda>i. input_finished i \<or> ui_status i = ItemBlocked) items
          then Inl NewPlanHasTerminalItem
          else if running = 0 \<and> \<not> list_all input_finished items
                  \<and> \<not> list_ex (\<lambda>i. ui_status i = ItemBlocked) items
          then Inl MissingInProgress
          else Inr ())"

definition validate_plan_identity :: "session_plan option \<Rightarrow> update_plan_input \<Rightarrow> plan_update_error + unit" where
  "validate_plan_identity current input =
     (let expected = (case up_expected_revision input of None \<Rightarrow> 0 | Some r \<Rightarrow> r)
      in case current of
        None \<Rightarrow>
          if up_plan_id input \<noteq> None then Inl UnexpectedPlanId
          else if up_expected_revision input \<noteq> Some 0 then Inl (RevisionConflict expected 0)
          else Inr ()
      | Some p \<Rightarrow>
         (case up_plan_id input of
            None \<Rightarrow> Inl MissingPlanId
          | Some pid \<Rightarrow>
              if pid \<noteq> plan_id_str (sp_plan_id p) then Inl PlanIdMismatch
              else if up_expected_revision input \<noteq> Some (sp_revision p)
              then Inl (RevisionConflict expected (sp_revision p))
              else if up_language input \<noteq> sp_language p
              then Inl (LanguageChanged (sp_language p) (up_language input))
              else Inr ()))"

fun normalize_plan_items_from ::
    "nat \<Rightarrow> bool \<Rightarrow> plan_id \<Rightarrow> update_plan_item_input list \<Rightarrow> plan_update_error + plan_item list" where
  "normalize_plan_items_from n creating pid [] = Inr []"
| "normalize_plan_items_from n creating pid (i # is) =
     (let item = (\<lambda>k. \<lparr>pi_item_id = PlanItemId k, pi_title = str_trim (ui_step i), pi_status = ui_status i\<rparr>)
      in case ui_item_id i of
        Some item_id \<Rightarrow> map_sum id ((#) (item item_id)) (normalize_plan_items_from n creating pid is)
      | None \<Rightarrow>
          if creating
          then map_sum id ((#) (item (plan_id_str pid @ ''-item-'' @ dec_of_nat n)))
                 (normalize_plan_items_from (n + 1) creating pid is)
          else Inl MissingItemId)"

definition normalize_plan_items ::
    "session_plan option \<Rightarrow> plan_id \<Rightarrow> update_plan_item_input list \<Rightarrow> plan_update_error + plan_item list" where
  "normalize_plan_items current pid items = normalize_plan_items_from 1 (current = None) pid items"

definition find_item :: "plan_item_id \<Rightarrow> plan_item list \<Rightarrow> plan_item option" where
  "find_item k items = find (\<lambda>i. pi_item_id i = k) items"

fun check_next_items :: "plan_item list \<Rightarrow> plan_item list \<Rightarrow> plan_update_error + unit" where
  "check_next_items current [] = Inr ()"
| "check_next_items current (i # is) =
     (case find_item (pi_item_id i) current of
        Some c \<Rightarrow>
          if \<not> can_transition_to (pi_status c) (pi_status i)
          then Inl (InvalidTransition (plan_item_id_str (pi_item_id i)) (pi_status c) (pi_status i))
          else check_next_items current is
      | None \<Rightarrow>
          if pi_status i \<noteq> ItemPending then Inl (NewItemMustBePending (plan_item_id_str (pi_item_id i)))
          else check_next_items current is)"

fun check_removed_items ::
    "(task_id, plan_item_id) hmap \<Rightarrow> plan_item list \<Rightarrow> plan_item list \<Rightarrow> plan_update_error + unit" where
  "check_removed_items bindings next [] = Inr ()"
| "check_removed_items bindings next (c # cs) =
     (if find_item (pi_item_id c) next \<noteq> None then check_removed_items bindings next cs
      else if pi_status c = ItemInProgress \<or> pi_status c = ItemCompleted
      then Inl (CannotRemoveActiveItem (plan_item_id_str (pi_item_id c)))
      else if pi_item_id c \<in> set (hvalues bindings)
      then Inl (CannotRemoveBoundItem (plan_item_id_str (pi_item_id c)))
      else check_removed_items bindings next cs)"

definition validate_status_transitions ::
    "session_plan option \<Rightarrow> plan_item list \<Rightarrow> plan_update_error + unit" where
  "validate_status_transitions current next =
     (case current of
        None \<Rightarrow> Inr ()
      | Some p \<Rightarrow>
         (case check_next_items (sp_items p) next of
            Inl e \<Rightarrow> Inl e
          | Inr _ \<Rightarrow> check_removed_items (sp_task_bindings p) next (sp_items p)))"

definition derive_plan_state :: "plan_item list \<Rightarrow> plan_update_error + plan_state" where
  "derive_plan_state items =
     (if list_all item_finished items then Inr PlanCompleted
      else let running = length (filter item_running items)
      in if running = 1 then Inr PlanActive
         else if running = 0 \<and> list_ex (\<lambda>i. pi_status i = ItemBlocked) items then Inr PlanPaused
         else Inl MissingInProgress)"

end
