(* ===== verification/PlanProtocol.thy ===== *)
theory PlanProtocol
  imports SessionPlans
begin

text \<open>
  The operations of \<open>PlanStore\<close> (\<open>crates/magi-plan/src/lib.rs\<close>): replacing the plan from a tool
  call, clearing, pausing and resuming it, binding tasks to its items and following the status of
  a bound task.  \<open>s0\<close> is the state the snapshot is read from, \<open>s\<close> the one the write runs on.
\<close>

section \<open>Replacing the plan\<close>

definition lift_store :: "'a session_result \<Rightarrow> 'a plan_result" where
  "lift_store r = (map_sum StoreError id (fst r), snd r)"

definition kept_bindings :: "session_plan option \<Rightarrow> plan_item list \<Rightarrow> (task_id, plan_item_id) hmap" where
  "kept_bindings current items =
     (case current of
        None \<Rightarrow> []
      | Some p \<Rightarrow> hretain (\<lambda>k. k \<in> set (map pi_item_id items)) (sp_task_bindings p))"

definition running_item :: "plan_item list \<Rightarrow> plan_item_id option" where
  "running_item items = map_option pi_item_id (find item_running items)"

definition bind_caller ::
    "task_id option \<Rightarrow> plan_item list \<Rightarrow> (task_id, plan_item_id) hmap \<Rightarrow> (task_id, plan_item_id) hmap" where
  "bind_caller tid items bindings =
     (case (tid, running_item items) of (Some t, Some k) \<Rightarrow> hput t k bindings | _ \<Rightarrow> bindings)"

definition fresh_plan_id :: "session_id \<Rightarrow> utc_millis \<Rightarrow> plan_id" where
  "fresh_plan_id sid now = PlanId (''plan-'' @ session_id_str sid @ ''-'' @ dec_of_nat (unat now))"

text \<open>\<open>now\<close> is the clock of a new plan id, \<open>now2\<close> the one the store writes.\<close>

definition next_plan ::
    "session_id \<Rightarrow> update_plan_input \<Rightarrow> task_id option \<Rightarrow> utc_millis \<Rightarrow> utc_millis \<Rightarrow> session_plan option \<Rightarrow>
     plan_update_error + session_plan" where
  "next_plan sid input tid now now2 current =
     (case validate_language (up_language input) of
        Inl e \<Rightarrow> Inl e
      | Inr _ \<Rightarrow>
     (case validate_plan_items (up_plan input) (current = None) of
        Inl e \<Rightarrow> Inl e
      | Inr _ \<Rightarrow>
     (case validate_plan_identity current input of
        Inl e \<Rightarrow> Inl e
      | Inr _ \<Rightarrow>
     (let pid = (case current of None \<Rightarrow> fresh_plan_id sid now | Some p \<Rightarrow> sp_plan_id p)
      in case normalize_plan_items current pid (up_plan input) of
        Inl e \<Rightarrow> Inl e
      | Inr items \<Rightarrow>
     (case validate_status_transitions current items of
        Inl e \<Rightarrow> Inl e
      | Inr _ \<Rightarrow>
     (case derive_plan_state items of
        Inl e \<Rightarrow> Inl e
      | Inr st \<Rightarrow>
          Inr \<lparr>sp_plan_id = pid, sp_session_id = sid,
               sp_goal_id = (case Option.bind current sp_goal_id of
                   Some g \<Rightarrow> Some g | None \<Rightarrow> map_option GoalId (up_expected_goal_id input)),
               sp_revision = (case current of None \<Rightarrow> 1 | Some p \<Rightarrow> sp_revision p),
               sp_language = up_language input, sp_state = st, sp_items = items,
               sp_task_bindings = bind_caller tid items (kept_bindings current items),
               sp_updated_at = now2\<rparr>))))))"

definition update_for_task ::
    "session_id \<Rightarrow> update_plan_input \<Rightarrow> task_id option \<Rightarrow> utc_millis \<Rightarrow> utc_millis \<Rightarrow> utc_millis \<Rightarrow>
     session_state \<Rightarrow> session_state \<Rightarrow> session_plan plan_result" where
  "update_for_task sid input tid now now2 now3 s0 s =
     (case next_plan sid input tid now now2 (plan_of sid s0) of
        Inl e \<Rightarrow> (Inl e, s)
      | Inr plan \<Rightarrow>
          lift_store (upsert_plan_for_goal_progress sid plan (up_expected_revision input)
            (map_option GoalId (up_expected_goal_id input)) (up_expected_goal_control_revision input) now3 s))"

definition update_plan ::
    "session_id \<Rightarrow> update_plan_input \<Rightarrow> utc_millis \<Rightarrow> utc_millis \<Rightarrow> utc_millis \<Rightarrow>
     session_state \<Rightarrow> session_state \<Rightarrow> session_plan plan_result" where
  "update_plan sid input now now2 now3 s0 s = update_for_task sid input None now now2 now3 s0 s"

definition plan_clear :: "session_id \<Rightarrow> u64 option \<Rightarrow> session_state \<Rightarrow> bool plan_result" where
  "plan_clear sid expected s = lift_store (clear_plan sid expected s)"

section \<open>Pausing and resuming\<close>

definition plan_pause ::
    "session_id \<Rightarrow> utc_millis \<Rightarrow> session_state \<Rightarrow> session_state \<Rightarrow> session_plan option plan_result" where
  "plan_pause sid now s0 s =
     (case plan_of sid s0 of
        None \<Rightarrow> (Inr None, s)
      | Some p \<Rightarrow>
          if sp_state p = PlanPaused then (Inr (Some p), s)
          else lift_store (apfst (map_sum id Some)
                 (upsert_plan sid (p\<lparr>sp_state := PlanPaused\<rparr>) (Some (sp_revision p)) now s)))"

definition plan_resume ::
    "session_id \<Rightarrow> utc_millis \<Rightarrow> session_state \<Rightarrow> session_state \<Rightarrow> session_plan option plan_result" where
  "plan_resume sid now s0 s =
     (case plan_of sid s0 of
        None \<Rightarrow> (Inr None, s)
      | Some p \<Rightarrow>
          if sp_state p \<noteq> PlanPaused then (Inr (Some p), s)
          else let items = start_next_item (sp_items p) in
         (case derive_plan_state items of
            Inl e \<Rightarrow> (Inl e, s)
          | Inr st \<Rightarrow>
              lift_store (apfst (map_sum id Some)
                (upsert_plan sid (p\<lparr>sp_items := items, sp_state := st\<rparr>) (Some (sp_revision p)) now s))))"

section \<open>Binding tasks\<close>

definition bind_task_from_snapshot ::
    "session_id \<Rightarrow> session_plan \<Rightarrow> task_id \<Rightarrow> plan_item_id \<Rightarrow> utc_millis \<Rightarrow> session_state \<Rightarrow>
     (session_plan \<times> session_plan) option plan_result" where
  "bind_task_from_snapshot sid p tid k now s =
     (case find_item k (sp_items p) of
        None \<Rightarrow> (Inl (UnknownItem (plan_item_id_str k)), s)
      | Some i \<Rightarrow>
          if pi_status i \<noteq> ItemInProgress then (Inl (ItemNotActive (plan_item_id_str k)), s)
          else if hget (sp_task_bindings p) tid = Some k then (Inr None, s)
          else lift_store (apfst (map_sum id (\<lambda>updated. Some (p, updated)))
                 (upsert_plan sid (p\<lparr>sp_task_bindings := hput tid k (sp_task_bindings p)\<rparr>)
                    (Some (sp_revision p)) now s)))"

definition bind_task_for_materialization ::
    "session_id \<Rightarrow> task_id \<Rightarrow> plan_item_id \<Rightarrow> utc_millis \<Rightarrow> session_state \<Rightarrow> session_state \<Rightarrow>
     (session_plan \<times> session_plan) option plan_result" where
  "bind_task_for_materialization sid tid k now s0 s =
     (case plan_of sid s0 of
        None \<Rightarrow> (Inl MissingPlan, s)
      | Some p \<Rightarrow> bind_task_from_snapshot sid p tid k now s)"

definition bind_task ::
    "session_id \<Rightarrow> task_id \<Rightarrow> plan_item_id \<Rightarrow> utc_millis \<Rightarrow> session_state \<Rightarrow> session_state \<Rightarrow>
     session_plan plan_result" where
  "bind_task sid tid k now s0 s =
     (case plan_of sid s0 of
        None \<Rightarrow> (Inl MissingPlan, s)
      | Some p \<Rightarrow>
          apfst (map_sum id (\<lambda>r. case r of None \<Rightarrow> p | Some (_, updated) \<Rightarrow> updated))
            (bind_task_from_snapshot sid p tid k now s))"

definition unbind_task ::
    "session_id \<Rightarrow> task_id \<Rightarrow> utc_millis \<Rightarrow> session_state \<Rightarrow> session_state \<Rightarrow> bool plan_result" where
  "unbind_task sid tid now s0 s =
     (case plan_of sid s0 of
        None \<Rightarrow> (Inr False, s)
      | Some p \<Rightarrow>
          if \<not> hmem (sp_task_bindings p) tid then (Inr False, s)
          else lift_store (apfst (map_sum id (\<lambda>_. True))
                 (upsert_plan sid (p\<lparr>sp_task_bindings := hremove tid (sp_task_bindings p)\<rparr>)
                    (Some (sp_revision p)) now s)))"

section \<open>Following the status of a bound task\<close>

datatype plan_task_authority = PhaseOwner | Supporting

definition plan_item_status_from_owner_task :: "task_status \<Rightarrow> plan_item_status" where
  "plan_item_status_from_owner_task st =
     (case st of
        Pending \<Rightarrow> ItemInProgress | Running \<Rightarrow> ItemInProgress
      | Completed \<Rightarrow> ItemCompleted | Failed \<Rightarrow> ItemBlocked | Killed \<Rightarrow> ItemBlocked)"

text \<open>The first item with the id changes, unless that one is blocked.\<close>

definition settle_item :: "plan_task_authority \<Rightarrow> plan_item_id \<Rightarrow> task_status \<Rightarrow> plan_item list \<Rightarrow> plan_item list" where
  "settle_item authority k st items =
     (if authority = PhaseOwner
      then update_first (\<lambda>i. pi_item_id i = k)
             (\<lambda>i. if pi_status i = ItemBlocked then i
                  else i\<lparr>pi_status := plan_item_status_from_owner_task st\<rparr>) items
      else items)"

definition advance_items :: "plan_item list \<Rightarrow> plan_item list" where
  "advance_items items =
     (if \<not> list_ex item_running items \<and> \<not> list_ex (\<lambda>i. pi_status i = ItemBlocked) items
      then update_first (\<lambda>i. pi_status i = ItemPending) (\<lambda>i. i\<lparr>pi_status := ItemInProgress\<rparr>) items
      else items)"

definition synced_plan ::
    "plan_task_authority \<Rightarrow> task_id \<Rightarrow> task_status \<Rightarrow> plan_item_id \<Rightarrow> session_plan \<Rightarrow>
     plan_update_error + session_plan" where
  "synced_plan authority tid st k p =
     (let p1 = (if is_terminal_status st
                then p\<lparr>sp_task_bindings := hremove tid (sp_task_bindings p)\<rparr> else p);
          items = settle_item authority k st (sp_items p1)
      in if sp_state p1 = PlanPaused then Inr (p1\<lparr>sp_items := items\<rparr>)
         else let items' = advance_items items
         in map_sum id (\<lambda>state. p1\<lparr>sp_items := items', sp_state := state\<rparr>) (derive_plan_state items'))"

definition sync_task_status_with_authority ::
    "session_id \<Rightarrow> task_id \<Rightarrow> task_status \<Rightarrow> plan_task_authority \<Rightarrow> utc_millis \<Rightarrow>
     session_state \<Rightarrow> session_state \<Rightarrow> session_plan option plan_result" where
  "sync_task_status_with_authority sid tid st authority now s0 s =
     (case plan_of sid s0 of
        None \<Rightarrow> (Inr None, s)
      | Some p \<Rightarrow>
         (case hget (sp_task_bindings p) tid of
            None \<Rightarrow> (Inr None, s)
          | Some k \<Rightarrow>
             (case synced_plan authority tid st k p of
                Inl e \<Rightarrow> (Inl e, s)
              | Inr p' \<Rightarrow>
                  lift_store (apfst (map_sum id Some)
                    (upsert_plan sid p' (Some (sp_revision p)) now s)))))"

definition sync_task_status ::
    "session_id \<Rightarrow> task_id \<Rightarrow> task_status \<Rightarrow> utc_millis \<Rightarrow> session_state \<Rightarrow> session_state \<Rightarrow>
     session_plan option plan_result" where
  "sync_task_status sid tid st now s0 s =
     sync_task_status_with_authority sid tid st PhaseOwner now s0 s"

section \<open>Queries\<close>

definition plan_is_empty :: "session_id \<Rightarrow> session_state \<Rightarrow> bool" where
  "plan_is_empty sid s = (case plan_of sid s of None \<Rightarrow> True | Some p \<Rightarrow> sp_items p = [])"

definition plan_has_item :: "session_id \<Rightarrow> plan_item_id \<Rightarrow> session_state \<Rightarrow> bool" where
  "plan_has_item sid k s =
     (case plan_of sid s of None \<Rightarrow> False | Some p \<Rightarrow> list_ex (\<lambda>i. pi_item_id i = k) (sp_items p))"

definition active_item_id :: "session_id \<Rightarrow> session_state \<Rightarrow> plan_item_id option" where
  "active_item_id sid s =
     (case plan_of sid s of
        None \<Rightarrow> None | Some p \<Rightarrow> if sp_state p \<noteq> PlanActive then None else running_item (sp_items p))"

definition requires_execution_follow_up :: "session_id \<Rightarrow> session_state \<Rightarrow> bool" where
  "requires_execution_follow_up sid s =
     (case plan_of sid s of
        None \<Rightarrow> False
      | Some p \<Rightarrow> sp_state p = PlanActive
                  \<and> list_ex (\<lambda>i. pi_status i = ItemPending \<or> pi_status i = ItemInProgress) (sp_items p))"

definition has_blocked_item :: "session_id \<Rightarrow> session_state \<Rightarrow> bool" where
  "has_blocked_item sid s =
     (case plan_of sid s of
        None \<Rightarrow> False | Some p \<Rightarrow> list_ex (\<lambda>i. pi_status i = ItemBlocked) (sp_items p))"

definition plan_event_type :: "session_plan \<Rightarrow> string" where
  "plan_event_type p =
     (case sp_state p of
        PlanPaused \<Rightarrow> ''session.plan.paused''
      | PlanCompleted \<Rightarrow> ''session.plan.completed''
      | PlanCanceled \<Rightarrow> ''session.plan.completed''
      | PlanActive \<Rightarrow> ''session.plan.updated'')"

definition error_code :: "plan_update_error \<Rightarrow> string" where
  "error_code e =
     (case e of
        InvalidJson _ \<Rightarrow> ''plan_invalid_arguments''
      | InvalidLanguage _ \<Rightarrow> ''plan_invalid_language''
      | EmptyPlan \<Rightarrow> ''plan_empty''
      | TooManyItems _ \<Rightarrow> ''plan_too_many_items''
      | BlankTitle _ \<Rightarrow> ''plan_invalid_title''
      | TitleTooLong _ \<Rightarrow> ''plan_invalid_title''
      | MultipleInProgress \<Rightarrow> ''plan_invalid_in_progress''
      | MissingInProgress \<Rightarrow> ''plan_invalid_in_progress''
      | InvalidItemId _ \<Rightarrow> ''plan_invalid_item_id''
      | DuplicateItemId _ \<Rightarrow> ''plan_invalid_item_id''
      | UnexpectedPlanId \<Rightarrow> ''plan_unexpected_plan_id''
      | MissingItemId \<Rightarrow> ''plan_missing_item_id''
      | MissingPlanId \<Rightarrow> ''plan_missing_plan_id''
      | PlanIdMismatch \<Rightarrow> ''plan_id_mismatch''
      | RevisionConflict _ _ \<Rightarrow> ''plan_revision_conflict''
      | LanguageChanged _ _ \<Rightarrow> ''plan_language_changed''
      | NewPlanHasTerminalItem \<Rightarrow> ''plan_invalid_new_item''
      | NewItemMustBePending _ \<Rightarrow> ''plan_invalid_new_item''
      | InvalidTransition _ _ _ \<Rightarrow> ''plan_invalid_transition''
      | CannotRemoveActiveItem _ \<Rightarrow> ''plan_cannot_remove_item''
      | CannotRemoveBoundItem _ \<Rightarrow> ''plan_cannot_remove_item''
      | MissingPlan \<Rightarrow> ''plan_missing''
      | UnknownItem _ \<Rightarrow> ''plan_unknown_item''
      | ItemNotActive _ \<Rightarrow> ''plan_item_not_active''
      | StoreError _ \<Rightarrow> ''plan_store_failed'')"

definition depends_on_current_plan :: "plan_update_error \<Rightarrow> bool" where
  "depends_on_current_plan e =
     (case e of
        MissingItemId \<Rightarrow> True | MissingPlanId \<Rightarrow> True | PlanIdMismatch \<Rightarrow> True
      | RevisionConflict _ _ \<Rightarrow> True | LanguageChanged _ _ \<Rightarrow> True | InvalidTransition _ _ _ \<Rightarrow> True
      | CannotRemoveActiveItem _ \<Rightarrow> True | CannotRemoveBoundItem _ \<Rightarrow> True
      | UnknownItem _ \<Rightarrow> True | ItemNotActive _ \<Rightarrow> True
      | _ \<Rightarrow> False)"

text \<open>
  The failure report: a stable code, the advice for the model (a constructor for each text) and
  the current plan when the failure depends on it.
\<close>

datatype plan_advice =
    CreateWithRevisionZero | RebaseOnRevision u64 | CarryPlanId | CarryItemIds | FollowTransitions
  | KeepItems | KeepLanguage | OneRunningItem | StartPending | RetrySameContent | CompareWithCurrent
  | FixArguments

definition instruction :: "plan_update_error \<Rightarrow> session_plan option \<Rightarrow> plan_advice" where
  "instruction e current =
     (case e of
        UnexpectedPlanId \<Rightarrow> CreateWithRevisionZero
      | RevisionConflict _ actual \<Rightarrow>
          if actual = 0 then CreateWithRevisionZero else RebaseOnRevision actual
      | MissingPlanId \<Rightarrow> CarryPlanId
      | PlanIdMismatch \<Rightarrow> CarryPlanId
      | MissingItemId \<Rightarrow> CarryItemIds
      | UnknownItem _ \<Rightarrow> CarryItemIds
      | InvalidTransition _ _ _ \<Rightarrow> FollowTransitions
      | ItemNotActive _ \<Rightarrow> FollowTransitions
      | CannotRemoveActiveItem _ \<Rightarrow> KeepItems
      | CannotRemoveBoundItem _ \<Rightarrow> KeepItems
      | LanguageChanged _ _ \<Rightarrow> KeepLanguage
      | MultipleInProgress \<Rightarrow> OneRunningItem
      | MissingInProgress \<Rightarrow> OneRunningItem
      | NewPlanHasTerminalItem \<Rightarrow> StartPending
      | NewItemMustBePending _ \<Rightarrow> StartPending
      | StoreError _ \<Rightarrow> RetrySameContent
      | _ \<Rightarrow> if current \<noteq> None then CompareWithCurrent else FixArguments)"

record plan_tool_failure =
  pf_code :: string
  pf_error :: plan_update_error
  pf_instruction :: plan_advice
  pf_current_plan :: "session_plan option"

definition update_plan_failure_payload :: "plan_update_error \<Rightarrow> session_plan option \<Rightarrow> plan_tool_failure" where
  "update_plan_failure_payload e current =
     \<lparr>pf_code = error_code e, pf_error = e, pf_instruction = instruction e current,
      pf_current_plan = (if depends_on_current_plan e then current else None)\<rparr>"

text \<open>
  The tool call: the plan and the event it publishes, or the report of the failure, with the plan
  as the store holds it then.
\<close>

definition execute_update_plan_tool ::
    "(string \<Rightarrow> string + update_plan_input) \<Rightarrow> session_id \<Rightarrow> task_id option \<Rightarrow> string \<Rightarrow>
     utc_millis \<Rightarrow> utc_millis \<Rightarrow> utc_millis \<Rightarrow> session_state \<Rightarrow> session_state \<Rightarrow>
     (plan_tool_failure + session_plan \<times> string) \<times> session_state" where
  "execute_update_plan_tool from_json sid tid arguments now now2 now3 s0 s =
     (case parse_update_plan_arguments from_json arguments of
        Inl e \<Rightarrow> (Inl (update_plan_failure_payload e (plan_of sid s)), s)
      | Inr input \<Rightarrow>
         (case update_for_task sid input tid now now2 now3 s0 s of
            (Inl e, s') \<Rightarrow> (Inl (update_plan_failure_payload e (plan_of sid s')), s')
          | (Inr plan, s') \<Rightarrow> (Inr (plan, plan_event_type plan), s')))"

definition execute_session_update_plan_tool ::
    "(string \<Rightarrow> string + update_plan_input) \<Rightarrow> session_id \<Rightarrow> string \<Rightarrow>
     utc_millis \<Rightarrow> utc_millis \<Rightarrow> utc_millis \<Rightarrow> session_state \<Rightarrow> session_state \<Rightarrow>
     (plan_tool_failure + session_plan \<times> string) \<times> session_state" where
  "execute_session_update_plan_tool from_json sid arguments now now2 now3 s0 s =
     execute_update_plan_tool from_json sid None arguments now now2 now3 s0 s"

end
