(* ===== verification/SessionShape.thy ===== *)
theory SessionShape
  imports PlanProtocol
begin

text \<open>
  Each session has at most one goal and at most one plan.  Under that shape the two lists are
  maps from sessions, and an operation on a session changes the pair of its goal and its plan.
  The lemmas here compute the pair every building block of the operations leaves behind; a goal
  is seen without its accounts (tokens, attempts, time), which are recomputed at the end of most
  operations.
\<close>

definition session_shape :: "session_state \<Rightarrow> bool" where
  "session_shape s \<longleftrightarrow> keys_once sg_session_id (ss_goals s) \<and> keys_once sp_session_id (ss_plans s)"

definition goal_control :: "session_goal \<Rightarrow> session_goal" where
  "goal_control g =
     g\<lparr>sg_tokens_used := 0, sg_model_attempts_used := 0, sg_time_used_seconds := 0,
       sg_time_used_millis := 0, sg_timing_started_at := None, sg_timing_turn_id := None,
       sg_updated_at := 0\<rparr>"

definition session_view :: "session_state \<Rightarrow> session_id \<Rightarrow> session_goal option \<times> session_plan option" where
  "session_view s sid = (map_option goal_control (current_goal sid s), plan_of sid s)"

definition on_bound :: "goal_id \<Rightarrow> (session_plan \<Rightarrow> session_plan) \<Rightarrow> session_plan \<Rightarrow> session_plan" where
  "on_bound gid f p = (if sp_goal_id p = Some gid then f p else p)"

lemma current_goal_lookup: "current_goal sid s = lookup sg_session_id (ss_goals s) sid"
  by (simp add: current_goal_def lookup_def)

lemma plan_of_lookup: "plan_of sid s = lookup sp_session_id (ss_plans s) sid"
  by (simp add: plan_of_def lookup_def)

lemma goal_control_simps [simp]:
  "sg_session_id (goal_control g) = sg_session_id g" "sg_goal_id (goal_control g) = sg_goal_id g"
  "sg_status (goal_control g) = sg_status g" "sg_control_revision (goal_control g) = sg_control_revision g"
  "sg_continuation (goal_control g) = sg_continuation g" "sg_blocker (goal_control g) = sg_blocker g"
  "sg_completion (goal_control g) = sg_completion g" "sg_objective (goal_control g) = sg_objective g"
  "sg_created_by_turn_id (goal_control g) = sg_created_by_turn_id g"
  by (simp_all add: goal_control_def)

lemma goal_control_idem [simp]: "goal_control (goal_control g) = goal_control g"
  by (simp add: goal_control_def)

section \<open>Accounts do not touch control\<close>

lemma set_timing_control [simp]: "goal_control (set_timing x g) = goal_control g"
  by (simp add: set_timing_def goal_control_def)

lemma set_timing_session [simp]: "sg_session_id (set_timing x g) = sg_session_id g"
  by (simp add: set_timing_def)

lemma raise_watermark_control [simp]: "goal_control (raise_watermark step after g) = goal_control g"
  by (simp add: raise_watermark_def goal_control_def)

lemma raise_watermark_session [simp]: "sg_session_id (raise_watermark step after g) = sg_session_id g"
  by (simp add: raise_watermark_def)

definition same_control :: "session_goal list \<Rightarrow> session_goal list \<Rightarrow> bool" where
  "same_control gs hs \<longleftrightarrow> map goal_control gs = map goal_control hs"

lemma same_control_refl [simp]: "same_control gs gs"
  by (simp add: same_control_def)

lemma same_control_trans: "same_control gs hs \<Longrightarrow> same_control hs ks \<Longrightarrow> same_control gs ks"
  by (simp add: same_control_def)

lemma same_control_keys: "same_control gs hs \<Longrightarrow> map sg_session_id gs = map sg_session_id hs"
proof -
  assume "same_control gs hs"
  then have "map sg_session_id (map goal_control gs) = map sg_session_id (map goal_control hs)"
    unfolding same_control_def by (rule arg_cong)
  then show ?thesis by (simp add: comp_def)
qed

lemma same_control_lookup:
  "same_control gs hs \<Longrightarrow>
   map_option goal_control (lookup sg_session_id gs k) = map_option goal_control (lookup sg_session_id hs k)"
proof (induction gs arbitrary: hs)
  case (Cons g gs)
  then obtain h hs' where hs: "hs = h # hs'" "goal_control g = goal_control h" "same_control gs hs'"
    unfolding same_control_def by (cases hs) auto
  then have "sg_session_id g = sg_session_id h" by (metis goal_control_simps(1))
  with hs Cons.IH [OF hs(3)] show ?case by (auto simp: lookup_Cons)
qed (simp add: same_control_def)

lemma same_control_map: "(\<And>g. goal_control (f g) = goal_control g) \<Longrightarrow> same_control (map f gs) gs"
  by (simp add: same_control_def comp_def)

lemma same_control_update_first:
  "(\<And>g. goal_control (f g) = goal_control g) \<Longrightarrow> same_control (update_first P f gs) gs"
  unfolding same_control_def by (rule update_first_map) simp

lemma same_control_fold:
  "(\<And>x gs. same_control (f x gs) gs) \<Longrightarrow> same_control (fold f xs gs) gs"
proof (induction xs arbitrary: gs)
  case (Cons x xs)
  then show ?case by (auto intro: same_control_trans)
qed simp

lemma token_step_control: "same_control (apply_token_step sid step gs) gs"
  by (auto simp: apply_token_step_def intro: same_control_update_first split: option.splits)

lemma token_watermarks_control: "same_control (apply_goal_token_watermarks sid steps gs) gs"
  unfolding apply_goal_token_watermarks_def by (rule same_control_fold) (rule token_step_control)

lemma attempt_change_control: "same_control (apply_goal_attempt_change prev t gs) gs"
  unfolding apply_goal_attempt_change_def
  by (rule same_control_map) (simp add: goal_control_def Let_def)

definition accounts_only :: "session_state \<Rightarrow> session_state \<Rightarrow> bool" where
  "accounts_only s' s \<longleftrightarrow> same_control (ss_goals s') (ss_goals s) \<and> ss_plans s' = ss_plans s"

lemma reconcile_time_accounts: "accounts_only (reconcile_goal_time_used s) s"
  by (simp add: accounts_only_def reconcile_goal_time_used_def Let_def same_control_map)

lemma reconcile_attempts_accounts: "accounts_only (reconcile_goal_attempt_usage s) s"
proof -
  let ?zero = "map (\<lambda>g. g\<lparr>sg_model_attempts_used := 0\<rparr>) (ss_goals s)"
  have "same_control (fold (apply_goal_attempt_change None) (ss_canonical_turns s) ?zero) ?zero"
    by (rule same_control_fold) (rule attempt_change_control)
  moreover have "same_control ?zero (ss_goals s)" by (rule same_control_map) (simp add: goal_control_def)
  ultimately show ?thesis
    unfolding accounts_only_def reconcile_goal_attempt_usage_def by (auto intro: same_control_trans)
qed

lemma reconcile_tokens_accounts: "accounts_only (reconcile_goal_token_usage s) s"
proof -
  let ?gs = "fold (\<lambda>t. apply_goal_token_watermarks (ct_session_id t) (ct_model_steps t))
               (ss_canonical_turns s) (ss_goals s)"
  have "same_control ?gs (ss_goals s)"
    by (rule same_control_fold) (rule token_watermarks_control)
  moreover have "accounts_only (reconcile_goal_token_usage s) (s\<lparr>ss_goals := ?gs\<rparr>)"
    unfolding reconcile_goal_token_usage_def by (rule reconcile_attempts_accounts)
  ultimately show ?thesis unfolding accounts_only_def by (auto intro: same_control_trans)
qed

lemma accounts_only_view: "accounts_only s' s \<Longrightarrow> session_view s' = session_view s"
  by (rule ext)
     (auto simp: accounts_only_def session_view_def current_goal_lookup plan_of_lookup
           dest: same_control_lookup)

lemma accounts_only_shape: "accounts_only s' s \<Longrightarrow> session_shape s' = session_shape s"
  by (auto simp: accounts_only_def session_shape_def dest: same_control_keys)

lemma reconcile_view [simp]:
  "session_view (reconcile_goal_time_used s) = session_view s"
  "session_view (reconcile_goal_token_usage s) = session_view s"
  by (simp_all add: accounts_only_view reconcile_time_accounts reconcile_tokens_accounts)

lemma reconcile_shape [simp]:
  "session_shape (reconcile_goal_time_used s) = session_shape s"
  "session_shape (reconcile_goal_token_usage s) = session_shape s"
  by (simp_all add: accounts_only_shape reconcile_time_accounts reconcile_tokens_accounts)

section \<open>Finding goals and plans\<close>

lemma shape_keys:
  "session_shape s \<Longrightarrow> keys_once sg_session_id (ss_goals s)"
  "session_shape s \<Longrightarrow> keys_once sp_session_id (ss_plans s)"
  by (simp_all add: session_shape_def)

lemma find_goal_current:
  "session_shape s \<Longrightarrow>
   find_goal s sid gid
     = (case current_goal sid s of None \<Rightarrow> None | Some g \<Rightarrow> if sg_goal_id g = gid then Some g else None)"
  by (simp add: find_goal_def is_goal_def [abs_def] current_goal_lookup find_key_and shape_keys)

lemma find_bound_plan_of:
  "session_shape s \<Longrightarrow>
   find_bound_plan s sid gid
     = (case plan_of sid s of None \<Rightarrow> None | Some p \<Rightarrow> if sp_goal_id p = Some gid then Some p else None)"
  by (simp add: find_bound_plan_def is_bound_plan_def [abs_def] plan_of_lookup find_key_and shape_keys)

lemma find_status_current:
  "session_shape s \<Longrightarrow>
   find (\<lambda>g. sg_session_id g = sid \<and> Q g) (ss_goals s)
     = (case current_goal sid s of None \<Rightarrow> None | Some g \<Rightarrow> if Q g then Some g else None)"
  by (simp add: current_goal_lookup find_key_and shape_keys)

lemma find_goal_SomeD:
  "session_shape s \<Longrightarrow> find_goal s sid gid = Some g \<Longrightarrow>
   current_goal sid s = Some g \<and> sg_goal_id g = gid \<and> sg_session_id g = sid"
  by (auto simp: find_goal_current current_goal_lookup dest: lookup_SomeD split: option.splits if_splits)

lemma current_goal_session: "current_goal sid s = Some g \<Longrightarrow> sg_session_id g = sid"
  by (auto simp: current_goal_lookup dest: lookup_SomeD)

lemma plan_of_session: "plan_of sid s = Some p \<Longrightarrow> sp_session_id p = sid"
  by (auto simp: plan_of_lookup dest: lookup_SomeD)

section \<open>The pair after a change\<close>

lemma set_goal_plans [simp]: "ss_plans (set_goal P g' s) = ss_plans s"
  by (simp add: set_goal_def)

lemma set_plan_goals [simp]: "ss_goals (set_plan P f s) = ss_goals s"
  by (simp add: set_plan_def)

lemma set_goal_view:
  assumes "session_shape s" "find P (ss_goals s) = Some g" "sg_session_id g' = sg_session_id g"
  shows "session_view (set_goal P g' s)
       = (session_view s)(sg_session_id g := (Some (goal_control g'), plan_of (sg_session_id g) s))"
    and "session_shape (set_goal P g' s)"
proof -
  have look: "lookup sg_session_id (update_first P (\<lambda>_. g') (ss_goals s)) k
      = (if k = sg_session_id g then Some g' else lookup sg_session_id (ss_goals s) k)" for k
    using assms by (intro lookup_update_first) (simp_all add: shape_keys)
  have "keys_once sg_session_id (update_first P (\<lambda>_. g') (ss_goals s))"
    using assms by (intro keys_once_update_first) (simp_all add: shape_keys)
  then show "session_shape (set_goal P g' s)"
    using shape_keys(2) [OF assms(1)] by (simp add: session_shape_def set_goal_def)
  show "session_view (set_goal P g' s)
       = (session_view s)(sg_session_id g := (Some (goal_control g'), plan_of (sg_session_id g) s))"
    by (rule ext) (simp add: session_view_def set_goal_def current_goal_lookup plan_of_lookup look)
qed

lemma set_bound_plan_of:
  assumes "session_shape s" "\<And>p. sp_session_id (f p) = sp_session_id p"
  shows "plan_of k (set_plan (is_bound_plan sid gid) f s)
       = (if k = sid then map_option (on_bound gid f) (plan_of sid s) else plan_of k s)"
proof (cases "find_bound_plan s sid gid")
  case None
  then have "update_first (is_bound_plan sid gid) f (ss_plans s) = ss_plans s"
    unfolding find_bound_plan_def by (rule update_first_none)
  moreover have "map_option (on_bound gid f) (plan_of sid s) = plan_of sid s"
    using None by (auto simp: find_bound_plan_of [OF assms(1)] on_bound_def split: option.splits if_splits)
  ultimately show ?thesis by (simp add: set_plan_def plan_of_lookup)
next
  case (Some p)
  then have p: "plan_of sid s = Some p" "sp_goal_id p = Some gid"
    by (auto simp: find_bound_plan_of [OF assms(1)] split: option.splits if_splits)
  have "lookup sp_session_id (update_first (is_bound_plan sid gid) f (ss_plans s)) k
      = (if k = sp_session_id p then Some (f p) else lookup sp_session_id (ss_plans s) k)"
    using Some assms unfolding find_bound_plan_def
    by (intro lookup_update_first) (auto simp: shape_keys)
  with p show ?thesis
    by (auto simp: set_plan_def plan_of_lookup on_bound_def dest: lookup_SomeD)
qed

lemma set_bound_plan_shape:
  assumes "session_shape s" "\<And>p. sp_session_id (f p) = sp_session_id p"
  shows "session_shape (set_plan P f s)"
proof -
  have "map sp_session_id (update_first P f (ss_plans s)) = map sp_session_id (ss_plans s)"
    using assms(2) by (rule update_first_map)
  with assms(1) show ?thesis by (simp add: session_shape_def set_plan_def)
qed

lemma current_goal_set_plan [simp]: "current_goal k (set_plan P f s) = current_goal k s"
  by (simp add: current_goal_def)

text \<open>The shape of almost every goal operation: the goal and its bound plan change together.\<close>

lemma commit_view:
  assumes "session_shape s" "find P (ss_goals s) = Some g" "sg_session_id g' = sg_session_id g"
    "\<And>p. sp_session_id (f p) = sp_session_id p" "sid = sg_session_id g"
  shows "session_view (set_goal P g' (set_plan (is_bound_plan sid gid) f s))
       = (session_view s)(sid := (Some (goal_control g'), map_option (on_bound gid f) (plan_of sid s)))"
    and "session_shape (set_goal P g' (set_plan (is_bound_plan sid gid) f s))"
proof -
  let ?t = "set_plan (is_bound_plan sid gid) f s"
  have shape: "session_shape ?t" using assms(1,4) by (rule set_bound_plan_shape)
  have "find P (ss_goals ?t) = Some g" using assms(2) by simp
  note set = set_goal_view [OF shape this assms(3)]
  show "session_shape (set_goal P g' ?t)" by (rule set(2))
  have "session_view ?t k = (fst (session_view s k),
      if k = sid then map_option (on_bound gid f) (plan_of sid s) else snd (session_view s k))" for k
    by (simp add: session_view_def set_bound_plan_of [OF assms(1,4)])
  then show "session_view (set_goal P g' ?t)
     = (session_view s)(sid := (Some (goal_control g'), map_option (on_bound gid f) (plan_of sid s)))"
    unfolding set(1) using assms(5) by (auto simp: set_bound_plan_of [OF assms(1,4)])
qed

lemma view_goal: "fst (session_view s sid) = map_option goal_control (current_goal sid s)"
  by (simp add: session_view_def)

lemma view_plan [simp]: "snd (session_view s sid) = plan_of sid s"
  by (simp add: session_view_def)

end
