(* ===== verification/GoalPlanSpec.thy ===== *)
theory GoalPlanSpec
  imports SessionShape
begin

text \<open>
  What a session promises about its goal and its plan: an abstract machine on the pair of both,
  and the invariant of that machine.  A goal is seen without its accounts.
\<close>

section \<open>Names\<close>

text \<open>Goal and plan ids carry the id of their session, so equal ids mean equal sessions.\<close>

definition goal_named :: "session_goal \<Rightarrow> bool" where
  "goal_named g \<longleftrightarrow>
     (\<exists>n bytes. sg_goal_id g = GoalId (''goal-'' @ session_id_str (sg_session_id g) @ ''-'' @ dec_of_nat n
                   @ ''-'' @ concat (map hex_byte bytes)))"

definition plan_named :: "session_plan \<Rightarrow> bool" where
  "plan_named p \<longleftrightarrow>
     (\<exists>n. sp_plan_id p = PlanId (''plan-'' @ session_id_str (sp_session_id p) @ ''-'' @ dec_of_nat n))"

definition plan_normal :: "session_plan \<Rightarrow> bool" where
  "plan_normal p \<longleftrightarrow>
     sp_revision p \<noteq> 0 \<and> \<not> is_blank (sp_language p)
     \<and> (\<forall>i \<in> set (sp_items p). \<not> is_blank (plan_item_id_str (pi_item_id i)))"

lemma split_at_first:
  "d @ c # x = e @ c # y \<Longrightarrow> c \<notin> set d \<Longrightarrow> c \<notin> set e \<Longrightarrow> d = e \<and> x = y"
proof (induction d arbitrary: e)
  case Nil
  then show ?case by (cases e) auto
next
  case (Cons a d)
  then show ?case by (cases e) auto
qed

lemma dash_split:
  assumes "x @ CHR ''-'' # d = y @ CHR ''-'' # e" "CHR ''-'' \<notin> set d" "CHR ''-'' \<notin> set e"
  shows "x = y \<and> d = e"
proof -
  have "rev d @ CHR ''-'' # rev x = rev e @ CHR ''-'' # rev y"
    using arg_cong [OF assms(1), of rev] by simp
  from split_at_first [OF this] assms(2,3) show ?thesis by simp
qed

lemma dec_no_dash: "CHR ''-'' \<notin> set (dec_of_nat n)"
  using dec_of_nat_digits [of n] by (auto simp: list_all_iff is_digit_iff)

lemma hex_no_dash: "CHR ''-'' \<notin> set (concat (map hex_byte bytes))"
proof -
  have digit: "CHR ''-'' \<noteq> lower_hex_digit n" if "n < 16" for n
  proof (cases "n < 10")
    case True
    then have "(of_char (lower_hex_digit n) :: nat) = 48 + n" by (simp add: lower_hex_digit_def)
    moreover have "(of_char CHR ''-'' :: nat) = 45" by simp
    ultimately show ?thesis by (metis add.commute le_add2 numeral_le_iff semiring_norm not_less_eq_eq)
  next
    case False
    with that have "(of_char (lower_hex_digit n) :: nat) = 87 + n" by (simp add: lower_hex_digit_def)
    moreover have "(of_char CHR ''-'' :: nat) = 45" by simp
    ultimately show ?thesis by force
  qed
  have "CHR ''-'' \<notin> set (hex_byte b)" for b
    using digit [of "unat b div 16"] digit [of "unat b mod 16"] unsigned_less [of b, where ?'a = nat]
    by (auto simp: hex_byte_def)
  then show ?thesis by simp
qed

lemma session_id_str_inject: "session_id_str a = session_id_str b \<longleftrightarrow> a = b"
  by (cases a; cases b) simp

lemma goal_id_session:
  "goal_named g \<Longrightarrow> goal_named h \<Longrightarrow> sg_goal_id g = sg_goal_id h \<Longrightarrow> sg_session_id g = sg_session_id h"
proof -
  assume "goal_named g" "goal_named h" and eq: "sg_goal_id g = sg_goal_id h"
  then obtain n b m c where
      g: "sg_goal_id g = GoalId (''goal-'' @ session_id_str (sg_session_id g) @ ''-'' @ dec_of_nat n
            @ ''-'' @ concat (map hex_byte b))"
    and h: "sg_goal_id h = GoalId (''goal-'' @ session_id_str (sg_session_id h) @ ''-'' @ dec_of_nat m
            @ ''-'' @ concat (map hex_byte c))"
    unfolding goal_named_def by blast
  have "(session_id_str (sg_session_id g) @ CHR ''-'' # dec_of_nat n) @ CHR ''-'' # concat (map hex_byte b)
     = (session_id_str (sg_session_id h) @ CHR ''-'' # dec_of_nat m) @ CHR ''-'' # concat (map hex_byte c)"
    using eq unfolding g h by simp
  from dash_split [OF this hex_no_dash hex_no_dash]
  have "session_id_str (sg_session_id g) @ CHR ''-'' # dec_of_nat n
      = session_id_str (sg_session_id h) @ CHR ''-'' # dec_of_nat m" by simp
  from dash_split [OF this dec_no_dash dec_no_dash] show ?thesis by (simp add: session_id_str_inject)
qed

lemma plan_id_session:
  "plan_named p \<Longrightarrow> plan_named q \<Longrightarrow> sp_plan_id p = sp_plan_id q \<Longrightarrow> sp_session_id p = sp_session_id q"
proof -
  assume "plan_named p" "plan_named q" and eq: "sp_plan_id p = sp_plan_id q"
  then obtain n m where
      p: "sp_plan_id p = PlanId (''plan-'' @ session_id_str (sp_session_id p) @ ''-'' @ dec_of_nat n)"
    and q: "sp_plan_id q = PlanId (''plan-'' @ session_id_str (sp_session_id q) @ ''-'' @ dec_of_nat m)"
    unfolding plan_named_def by blast
  have "session_id_str (sp_session_id p) @ CHR ''-'' # dec_of_nat n
     = session_id_str (sp_session_id q) @ CHR ''-'' # dec_of_nat m"
    using eq unfolding p q by simp
  from dash_split [OF this dec_no_dash dec_no_dash] show ?thesis by (simp add: session_id_str_inject)
qed

section \<open>A consistent plan\<close>

definition running_count :: "plan_item list \<Rightarrow> nat" where
  "running_count items = length (filter item_running items)"

definition plan_consistent :: "session_plan \<Rightarrow> bool" where
  "plan_consistent p \<longleftrightarrow>
     plan_named p \<and> plan_normal p \<and> sp_items p \<noteq> [] \<and> running_count (sp_items p) \<le> 1
     \<and> (sp_state p = PlanActive \<longrightarrow> running_count (sp_items p) = 1)
     \<and> (sp_state p = PlanCompleted \<longrightarrow> list_all item_finished (sp_items p))
     \<and> sp_state p \<noteq> PlanCanceled
     \<and> hdistinct (sp_task_bindings p)
     \<and> set (hvalues (sp_task_bindings p)) \<subseteq> pi_item_id ` set (sp_items p)"

section \<open>The invariant of the pair\<close>

definition goal_consistent :: "session_goal \<Rightarrow> bool" where
  "goal_consistent g \<longleftrightarrow>
     goal_named g \<and> sg_control_revision g \<noteq> 0
     \<and> (gc_phase (sg_continuation g) = ContinuationRunning \<longrightarrow> sg_status g = GoalActive)
     \<and> (sg_status g = GoalComplete \<longrightarrow> sg_completion g \<noteq> None)"

definition coupled :: "session_goal \<Rightarrow> session_plan \<Rightarrow> bool" where
  "coupled g p \<longleftrightarrow>
     sp_goal_id p = Some (sg_goal_id g)
     \<and> (sg_status g = GoalActive \<longrightarrow> sp_state p \<noteq> PlanPaused)
     \<and> (sg_status g \<noteq> GoalActive \<longrightarrow> sp_state p \<noteq> PlanActive)"

definition pair_consistent :: "session_goal option \<times> session_plan option \<Rightarrow> bool" where
  "pair_consistent = (\<lambda>(og, op).
     (\<forall>g. og = Some g \<longrightarrow> goal_consistent g)
     \<and> (\<forall>p. op = Some p \<longrightarrow> plan_consistent p
           \<and> (\<forall>gid. sp_goal_id p = Some gid \<longrightarrow> (\<exists>g. og = Some g \<and> sg_goal_id g = gid)))
     \<and> (\<forall>g p. og = Some g \<longrightarrow> op = Some p \<longrightarrow> is_unfinished (sg_status g) \<longrightarrow> coupled g p))"

section \<open>The moves of the pair\<close>

definition same_goal :: "session_goal \<Rightarrow> session_goal \<Rightarrow> bool" where
  "same_goal g g' \<longleftrightarrow>
     sg_goal_id g' = sg_goal_id g \<and> sg_session_id g' = sg_session_id g
     \<and> sg_thread_id g' = sg_thread_id g \<and> sg_created_by_turn_id g' = sg_created_by_turn_id g
     \<and> sg_created_at g' = sg_created_at g"

definition next_revision :: "session_goal \<Rightarrow> session_goal \<Rightarrow> bool" where
  "next_revision g g' \<longleftrightarrow> sg_control_revision g' = saturating_add (sg_control_revision g) 1"

definition unfinished :: "session_goal option \<Rightarrow> session_goal option" where
  "unfinished og = (case og of None \<Rightarrow> None | Some g \<Rightarrow> if is_unfinished (sg_status g) then Some g else None)"

text \<open>
  \<open>move_edit\<close>: the objective, the access profile, the blocker or, while the goal is active, its
  continuation changes.  \<open>move_reload\<close>: a restart
  pauses an active goal whose plan is finished.  \<open>move_stop\<close>: an active goal is paused or blocked and takes its plan
  along.  \<open>move_resume\<close> starts both again; a resumed goal may have been active already, when its
  turn was interrupted.  \<open>move_restore\<close> undoes the binding of a task.
\<close>

inductive pair_move ::
    "session_goal option \<times> session_plan option \<Rightarrow> session_goal option \<times> session_plan option \<Rightarrow> bool" where
  move_create: "unfinished og = None \<Longrightarrow> sg_status g' = GoalActive \<Longrightarrow> sg_control_revision g' = 1 \<Longrightarrow>
    goal_named g' \<Longrightarrow> sg_continuation g' = default_continuation \<Longrightarrow> pair_move (og, p) (Some g', None)"
| move_edit: "same_goal g g' \<Longrightarrow> sg_status g' = sg_status g \<Longrightarrow> sg_completion g' = sg_completion g \<Longrightarrow>
    sg_continuation g' = sg_continuation g \<or> sg_status g = GoalActive \<Longrightarrow>
    sg_control_revision g' = sg_control_revision g \<or> next_revision g g' \<Longrightarrow>
    pair_move (Some g, p) (Some g', p)"
| move_stop: "same_goal g g' \<Longrightarrow> sg_status g = GoalActive \<Longrightarrow>
    sg_status g' = GoalPaused \<or> sg_status g' = GoalBlocked \<Longrightarrow>
    gc_phase (sg_continuation g') \<noteq> ContinuationRunning \<Longrightarrow> next_revision g g' \<Longrightarrow>
    f = pause_plan now \<or> f = pause_bound_plan now \<Longrightarrow>
    pair_move (Some g, p) (Some g', map_option (on_bound (sg_goal_id g) f) p)"
| move_resume: "same_goal g g' \<Longrightarrow> sg_status g' = GoalActive \<Longrightarrow>
    is_unfinished (sg_status g) \<Longrightarrow>
    (if sg_status g = GoalActive then sg_control_revision g' = sg_control_revision g else next_revision g g') \<Longrightarrow>
    pair_move (Some g, p) (Some g', map_option (on_bound (sg_goal_id g) (transition_plan GoalActive now)) p)"
| move_complete: "same_goal g g' \<Longrightarrow> sg_status g = GoalActive \<Longrightarrow> sg_status g' = GoalComplete \<Longrightarrow>
    sg_completion g' = Some c \<Longrightarrow> sg_continuation g' = default_continuation \<Longrightarrow> next_revision g g' \<Longrightarrow>
    (\<And>q. p = Some q \<Longrightarrow> sp_goal_id q = Some (sg_goal_id g) \<Longrightarrow>
       list_all item_finished (sp_items q) \<and> gr_plan_revision c = Some (sp_revision q)
       \<and> gr_evidence_refs c \<noteq> []) \<Longrightarrow>
    pair_move (Some g, p) (Some g', p)"
| move_clear: "pair_move (Some g, p)
    (None, case p of None \<Rightarrow> None | Some q \<Rightarrow> if sp_goal_id q = Some (sg_goal_id g) then None else Some q)"
| move_reload: "same_goal g g' \<Longrightarrow> sg_status g = GoalActive \<Longrightarrow> sg_status g' = GoalPaused \<Longrightarrow>
    sg_continuation g' = default_continuation \<Longrightarrow> next_revision g g' \<Longrightarrow> sp_state p = PlanCompleted \<Longrightarrow>
    pair_move (Some g, Some p) (Some g', Some p)"
| move_write: "plan_consistent q \<Longrightarrow> unfinished_goal_guard (unfinished og) q = Inr () \<Longrightarrow>
    (\<And>gid. sp_goal_id q = Some gid \<Longrightarrow> \<exists>g. og = Some g \<and> sg_goal_id g = gid) \<Longrightarrow>
    sp_revision q = (case p of None \<Rightarrow> 1 | Some p' \<Rightarrow> saturating_add (sp_revision p') 1) \<Longrightarrow>
    pair_move (og, p) (og, Some q)"
| move_drop: "pair_move (og, p) (og, None)"
| move_restore: "plan_consistent q \<Longrightarrow> sp_goal_id q = sp_goal_id p \<Longrightarrow> sp_state q = sp_state p \<Longrightarrow>
    sp_revision q = sp_revision p \<Longrightarrow> pair_move (og, Some p) (og, Some q)"

section \<open>Plans stay consistent\<close>

lemma saturating_succ_nonzero: "saturating_add (r :: u64) 1 \<noteq> 0"
proof -
  have "r < saturating_add r 1 \<or> saturating_add r 1 = - 1"
    by (auto simp: saturating_add_def dest: checked_add_less split: option.splits)
  then show ?thesis by auto
qed

lemma plan_named_cong:
  "sp_plan_id q = sp_plan_id p \<Longrightarrow> sp_session_id q = sp_session_id p \<Longrightarrow> plan_named q = plan_named p"
  by (simp add: plan_named_def)

lemma goal_named_same: "same_goal g g' \<Longrightarrow> goal_named g' = goal_named g"
  by (simp add: same_goal_def goal_named_def)

lemma next_revision_nonzero: "next_revision g g' \<Longrightarrow> sg_control_revision g' \<noteq> 0"
  by (simp add: next_revision_def saturating_succ_nonzero)

lemma item_running_iff: "item_running i \<longleftrightarrow> pi_status i = ItemInProgress"
  by (simp add: item_running_def)

lemma finished_not_running: "item_finished i \<Longrightarrow> \<not> item_running i"
  by (auto simp: item_finished_def item_running_def)

lemma all_finished_count: "list_all item_finished items \<Longrightarrow> running_count items = 0"
  by (induction items) (auto simp: running_count_def dest: finished_not_running)

lemma list_ex_running: "list_ex item_running items \<longleftrightarrow> 0 < running_count items"
  by (induction items) (auto simp: running_count_def)

lemma running_count_Cons [simp]:
  "running_count (i # is) = (if item_running i then Suc (running_count is) else running_count is)"
  "running_count [] = 0"
  by (simp_all add: running_count_def)

lemma count_start:
  assumes "list_ex P items" "\<And>i. P i \<Longrightarrow> \<not> item_running i" "\<And>i. item_running (f i)"
  shows "running_count (update_first P f items) = Suc (running_count items)"
  using assms(1)
proof (induction items)
  case (Cons i rest)
  then show ?case using assms(2,3) by (cases "P i") auto
qed simp

lemma running_count_update_le:
  assumes "\<And>i. P i \<Longrightarrow> item_running (f i) \<Longrightarrow> item_running i"
  shows "running_count (update_first P f items) \<le> running_count items"
  by (induction items) (use assms in auto)

lemma update_first_ids:
  "(\<And>i. pi_item_id (f i) = pi_item_id i) \<Longrightarrow> pi_item_id ` set (update_first P f items) = pi_item_id ` set items"
  by (induction items) auto

lemma start_next_ids: "pi_item_id ` set (start_next_item items) = pi_item_id ` set items"
  by (simp add: start_next_item_def update_first_ids)

lemma start_next_Nil_iff [simp]: "start_next_item items = [] \<longleftrightarrow> items = []"
  by (simp add: start_next_item_def)

lemma update_first_no_match: "\<not> list_ex P xs \<Longrightarrow> update_first P f xs = xs"
  by (induction xs) auto

lemma start_next_count:
  assumes "running_count items \<le> 1"
  shows "if list_all item_finished (start_next_item items) then running_count (start_next_item items) = 0
         else running_count (start_next_item items) = 1"
proof -
  let ?B = "\<lambda>i. pi_status i = ItemBlocked" and ?P = "\<lambda>i. pi_status i = ItemPending"
  let ?go = "\<lambda>i. i\<lparr>pi_status := ItemInProgress\<rparr>"
  consider (run) "list_ex item_running items" | (blocked) "\<not> list_ex item_running items" "list_ex ?B items"
    | (pending) "\<not> list_ex item_running items" "\<not> list_ex ?B items" "list_ex ?P items"
    | (none) "\<not> list_ex item_running items" "\<not> list_ex ?B items" "\<not> list_ex ?P items" by blast
  then show ?thesis
  proof cases
    case run
    then have "start_next_item items = items" "running_count items = 1"
      using assms by (auto simp: start_next_item_def list_ex_running)
    then show ?thesis by (auto dest: all_finished_count)
  next
    case blocked
    then have "running_count (start_next_item items) = Suc (running_count items)"
      unfolding start_next_item_def by (auto intro!: count_start simp: item_running_iff)
    with blocked show ?thesis by (auto simp: list_ex_running dest: all_finished_count)
  next
    case pending
    then have "running_count (start_next_item items) = Suc (running_count items)"
      unfolding start_next_item_def by (auto intro!: count_start simp: item_running_iff)
    with pending show ?thesis by (auto simp: list_ex_running dest: all_finished_count)
  next
    case none
    then have items: "start_next_item items = items"
      by (simp add: start_next_item_def update_first_no_match)
    have "item_finished i" if "i \<in> set items" for i
      using none that
      by (cases "pi_status i") (auto simp: item_finished_def list_ex_iff item_running_iff)
    then have "list_all item_finished items" by (simp add: list_all_iff)
    with items show ?thesis by (simp add: all_finished_count)
  qed
qed

lemma ids_normal:
  fixes xs ys :: "plan_item list"
  assumes "pi_item_id ` set xs = pi_item_id ` set ys"
  shows "(\<forall>i \<in> set xs. \<not> is_blank (plan_item_id_str (pi_item_id i)))
     = (\<forall>i \<in> set ys. \<not> is_blank (plan_item_id_str (pi_item_id i)))"
proof -
  have "(\<forall>i \<in> set zs. \<not> is_blank (plan_item_id_str (pi_item_id i)))
      = (\<forall>k \<in> pi_item_id ` set zs. \<not> is_blank (plan_item_id_str k))" for zs :: "plan_item list"
    by simp
  with assms show ?thesis by presburger
qed

lemma pause_plan_consistent: "plan_consistent p \<Longrightarrow> plan_consistent (pause_plan now p)"
  by (simp add: plan_consistent_def pause_plan_def plan_named_def plan_normal_def saturating_succ_nonzero)

lemma pause_bound_plan_consistent: "plan_consistent p \<Longrightarrow> plan_consistent (pause_bound_plan now p)"
  by (simp add: pause_bound_plan_def pause_plan_consistent)

lemma activate_consistent:
  assumes "plan_consistent p"
  shows "plan_consistent (activate_paused_plan now p)"
proof -
  have "running_count (sp_items p) \<le> 1" using assms by (simp add: plan_consistent_def)
  from start_next_count [OF this] show ?thesis
    using assms ids_normal [OF start_next_ids, of "sp_items p"]
    by (auto simp: plan_consistent_def activate_paused_plan_def Let_def start_next_ids plan_named_def
          plan_normal_def saturating_succ_nonzero)
qed

lemma transition_plan_consistent:
  "plan_consistent p \<Longrightarrow> plan_consistent (transition_plan next now p)"
  by (simp add: transition_plan_def pause_plan_consistent activate_consistent)

lemma on_bound_consistent:
  "plan_consistent p \<Longrightarrow> (plan_consistent p \<Longrightarrow> plan_consistent (f p)) \<Longrightarrow> plan_consistent (on_bound gid f p)"
  by (simp add: on_bound_def)

section \<open>Every move keeps the invariant\<close>

lemma plan_change_goal_id [simp]:
  "sp_goal_id (pause_plan now p) = sp_goal_id p" "sp_goal_id (pause_bound_plan now p) = sp_goal_id p"
  "sp_goal_id (activate_paused_plan now p) = sp_goal_id p"
  "sp_goal_id (transition_plan next now p) = sp_goal_id p"
  "sp_session_id (pause_plan now p) = sp_session_id p" "sp_session_id (pause_bound_plan now p) = sp_session_id p"
  "sp_session_id (activate_paused_plan now p) = sp_session_id p"
  "sp_session_id (transition_plan next now p) = sp_session_id p"
  by (simp_all add: pause_plan_def pause_bound_plan_def activate_paused_plan_def transition_plan_def Let_def)

lemma plan_change_state [simp]:
  "sp_state (pause_plan now p) = PlanPaused" "sp_state (pause_bound_plan now p) = PlanPaused"
  "sp_state (activate_paused_plan now p) \<noteq> PlanPaused"
  "sp_state (transition_plan GoalActive now p) \<noteq> PlanPaused"
  by (auto simp: pause_plan_def pause_bound_plan_def activate_paused_plan_def transition_plan_def Let_def)

lemma pair_consistentI:
  assumes "\<And>g. og = Some g \<Longrightarrow> goal_consistent g"
    "\<And>p. op = Some p \<Longrightarrow> plan_consistent p"
    "\<And>p gid. op = Some p \<Longrightarrow> sp_goal_id p = Some gid \<Longrightarrow> \<exists>g. og = Some g \<and> sg_goal_id g = gid"
    "\<And>g p. og = Some g \<Longrightarrow> op = Some p \<Longrightarrow> is_unfinished (sg_status g) \<Longrightarrow> coupled g p"
  shows "pair_consistent (og, op)"
  using assms by (simp add: pair_consistent_def)

lemma pair_consistentD:
  assumes "pair_consistent (og, op)"
  shows "og = Some g \<Longrightarrow> goal_consistent g"
    "op = Some p \<Longrightarrow> plan_consistent p"
    "op = Some p \<Longrightarrow> sp_goal_id p = Some gid \<Longrightarrow> \<exists>g. og = Some g \<and> sg_goal_id g = gid"
    "og = Some g \<Longrightarrow> op = Some p \<Longrightarrow> is_unfinished (sg_status g) \<Longrightarrow> coupled g p"
  using assms unfolding pair_consistent_def by simp_all

text \<open>What a goal operation does to the bound plan keeps the plan part of the invariant.\<close>

lemma bound_change_consistent:
  assumes "pair_consistent (Some g, p)" "sg_goal_id g' = sg_goal_id g"
    "\<And>q. sp_goal_id (f q) = sp_goal_id q" "\<And>q. plan_consistent q \<Longrightarrow> plan_consistent (f q)"
    "map_option (on_bound k f) p = Some q"
  shows "plan_consistent q"
    and "sp_goal_id q = Some gid \<Longrightarrow> \<exists>h. Some g' = Some h \<and> sg_goal_id h = gid"
proof -
  from assms(5) obtain p0 where p0: "p = Some p0" "q = on_bound k f p0" by auto
  note D = pair_consistentD(2,3) [OF assms(1), of p0]
  show "plan_consistent q" using D(1) p0 assms(4) by (simp add: on_bound_def)
  have "sp_goal_id q = sp_goal_id p0" using p0 assms(3) by (simp add: on_bound_def)
  then show "\<exists>h. Some g' = Some h \<and> sg_goal_id h = gid" if "sp_goal_id q = Some gid"
    using D(2) [OF p0(1), of gid] that assms(2) by auto
qed

lemma pair_move_consistent:
  "pair_move x y \<Longrightarrow> pair_consistent x \<Longrightarrow> pair_consistent y"
proof (induction rule: pair_move.induct)
  case (move_create og g' p)
  then show ?case
    by (intro pair_consistentI) (auto simp: goal_consistent_def default_continuation_def)
next
  case (move_edit g g' p)
  note D = pair_consistentD [OF move_edit.prems]
  show ?case
  proof (rule pair_consistentI)
    show "goal_consistent h" if "Some g' = Some h" for h
      using move_edit.hyps D(1) [OF refl] that goal_named_same [OF move_edit.hyps(1)]
      by (auto simp: goal_consistent_def dest: next_revision_nonzero)
    show "coupled h q" if "Some g' = Some h" "p = Some q" "is_unfinished (sg_status h)" for h q
      using move_edit.hyps D(4) that by (auto simp: coupled_def same_goal_def)
  qed (use move_edit.hyps D in \<open>auto simp: same_goal_def\<close>)
next
  case (move_stop g g' f now p)
  note D = pair_consistentD [OF move_stop.prems]
  have f: "sp_goal_id (f q) = sp_goal_id q" "sp_state (f q) = PlanPaused"
    "plan_consistent q \<Longrightarrow> plan_consistent (f q)" for q
    using move_stop.hyps by (auto simp: pause_plan_consistent pause_bound_plan_consistent)
  have unf: "is_unfinished (sg_status g)" using move_stop.hyps by (simp add: is_unfinished_def)
  have ids: "sg_goal_id g' = sg_goal_id g" and st: "sg_status g' \<noteq> GoalActive"
    using move_stop.hyps by (auto simp: same_goal_def)
  show ?case
  proof (rule pair_consistentI)
    show "goal_consistent h" if "Some g' = Some h" for h
      using move_stop.hyps(3-5) D(1) [OF refl] that goal_named_same [OF move_stop.hyps(1)]
      by (auto simp: goal_consistent_def dest: next_revision_nonzero)
    show "coupled h q" if "Some g' = Some h"
      "map_option (on_bound (sg_goal_id g) f) p = Some q" for h q
      using ids st D(4) [OF refl _ unf] that f by (auto simp: coupled_def on_bound_def)
  qed (use bound_change_consistent [OF move_stop.prems ids f(1,3)] in blast)+
next
  case (move_resume g g' p now)
  note D = pair_consistentD [OF move_resume.prems]
  show ?case
  proof (rule pair_consistentI)
    show "goal_consistent h" if "Some g' = Some h" for h
      using move_resume.hyps D(1) [OF refl] that goal_named_same [OF move_resume.hyps(1)]
      by (auto simp: goal_consistent_def dest: next_revision_nonzero split: if_splits)
    show "coupled h q" if "Some g' = Some h"
      "map_option (on_bound (sg_goal_id g) (transition_plan GoalActive now)) p = Some q" for h q
      using move_resume.hyps D(4) that by (auto simp: coupled_def same_goal_def on_bound_def)
  qed (use bound_change_consistent [OF move_resume.prems, of g' "transition_plan GoalActive now"]
         move_resume.hyps(1) in \<open>simp_all add: same_goal_def transition_plan_consistent\<close>)+
next
  case (move_complete g g' c p)
  note D = pair_consistentD [OF move_complete.prems]
  show ?case
    by (rule pair_consistentI)
       (use D move_complete.hyps goal_named_same [OF move_complete.hyps(1)] next_revision_nonzero [of g g']
        in \<open>auto simp: goal_consistent_def same_goal_def is_unfinished_def default_continuation_def\<close>)
next
  case (move_reload g g' p)
  note D = pair_consistentD [OF move_reload.prems]
  show ?case
  proof (rule pair_consistentI)
    show "goal_consistent h" if "Some g' = Some h" for h
      using move_reload.hyps D(1) [OF refl] that goal_named_same [OF move_reload.hyps(1)]
      by (auto simp: goal_consistent_def default_continuation_def dest: next_revision_nonzero)
    show "coupled h q" if "Some g' = Some h" "Some p = Some q" for h q
      using move_reload.hyps D(4) [OF refl refl] that by (auto simp: coupled_def same_goal_def is_unfinished_def)
  qed (use D move_reload.hyps in \<open>auto simp: same_goal_def\<close>)
next
  case (move_clear g p)
  note D = pair_consistentD [OF move_clear.prems]
  show ?case
    by (rule pair_consistentI) (use D in \<open>auto split: option.splits if_splits\<close>)
next
  case (move_write q og p)
  note D = pair_consistentD [OF move_write.prems]
  show ?case
  proof (rule pair_consistentI)
    show "coupled g p'" if "og = Some g" "Some q = Some p'" "is_unfinished (sg_status g)" for g p'
      using move_write.hyps(2) that
      by (auto simp: unfinished_goal_guard_def unfinished_def coupled_def split: if_splits)
  qed (use D move_write.hyps in auto)
next
  case (move_drop og p)
  note D = pair_consistentD [OF move_drop.prems]
  show ?case by (rule pair_consistentI) (use D in auto)
next
  case (move_restore q p og)
  note D = pair_consistentD [OF move_restore.prems]
  show ?case
  proof (rule pair_consistentI)
    show "coupled g p'" if "og = Some g" "Some q = Some p'" "is_unfinished (sg_status g)" for g p'
      using move_restore.hyps D(4) that by (auto simp: coupled_def)
  qed (use D move_restore.hyps in auto)
qed

end
