(* ===== verification/GoalRefinement.thy ===== *)
theory GoalRefinement
  imports GoalPlanSpec
begin

text \<open>
  Every operation on goals and on written plans moves the pair of one session as the abstract
  machine allows and leaves every other session alone.
\<close>

definition moves_at :: "session_id \<Rightarrow> session_state \<Rightarrow> session_state \<Rightarrow> bool" where
  "moves_at sid s s' \<longleftrightarrow>
     session_shape s' \<and> (\<forall>k. k \<noteq> sid \<longrightarrow> session_view s' k = session_view s k)
     \<and> (session_view s' sid = session_view s sid \<or> pair_move (session_view s sid) (session_view s' sid))"

lemma moves_at_refl [intro]: "session_shape s \<Longrightarrow> moves_at sid s s"
  by (simp add: moves_at_def)

lemma moves_at_update:
  assumes "session_shape s'" "session_view s' = (session_view s)(sid := y)" "pair_move (session_view s sid) y"
  shows "moves_at sid s s'"
  using assms by (simp add: moves_at_def)

lemma reconcile_moves_at [simp]:
  "moves_at sid s (reconcile_goal_time_used s') = moves_at sid s s'"
  by (simp add: moves_at_def)

lemma goal_control_more [simp]:
  "sg_thread_id (goal_control g) = sg_thread_id g" "sg_created_at (goal_control g) = sg_created_at g"
  by (simp_all add: goal_control_def)

lemma same_goal_control [simp]: "same_goal (goal_control g) (goal_control g') = same_goal g g'"
  by (simp add: same_goal_def)

lemma next_revision_control [simp]: "next_revision (goal_control g) (goal_control g') = next_revision g g'"
  by (simp add: next_revision_def)

lemma found_goal_current:
  "session_shape s \<Longrightarrow> find P (ss_goals s) = Some g \<Longrightarrow> current_goal (sg_session_id g) s = Some g"
  unfolding current_goal_lookup by (rule lookup_in_set) (auto simp: shape_keys dest: find_SomeD)

lemma found_goal_view:
  "session_shape s \<Longrightarrow> find P (ss_goals s) = Some g \<Longrightarrow>
   session_view s (sg_session_id g) = (Some (goal_control g), plan_of (sg_session_id g) s)"
  by (simp add: session_view_def found_goal_current)

section \<open>Committing a goal\<close>

lemma goal_commit:
  assumes "session_shape s" "find P (ss_goals s) = Some g" "sid = sg_session_id g"
    "sg_session_id g' = sid"
    "pair_move (Some (goal_control g), plan_of sid s) (Some (goal_control g'), plan_of sid s)"
  shows "moves_at sid s (set_goal P g' s)"
  using set_goal_view [OF assms(1,2), of g'] found_goal_view [OF assms(1,2)] assms(3-5)
  by (intro moves_at_update) auto

lemma goal_plan_commit:
  assumes "session_shape s" "find P (ss_goals s) = Some g" "sid = sg_session_id g"
    "sg_session_id g' = sid" "gid = sg_goal_id g" "\<And>p. sp_session_id (f p) = sp_session_id p"
    "pair_move (Some (goal_control g), plan_of sid s)
       (Some (goal_control g'), map_option (on_bound gid f) (plan_of sid s))"
  shows "moves_at sid s (set_goal P g' (set_plan (is_bound_plan sid gid) f s))"
  using commit_view [OF assms(1,2), of g' f sid gid] found_goal_view [OF assms(1,2)] assms(3-7)
  by (intro moves_at_update) auto

lemma found_goalD:
  "find_goal s sid gid = Some g \<Longrightarrow>
   find (is_goal sid gid) (ss_goals s) = Some g \<and> sg_session_id g = sid \<and> sg_goal_id g = gid"
  unfolding find_goal_def by (frule find_SomeD) (simp add: is_goal_def)

lemma edit_move:
  assumes "same_goal g g'" "sg_status g' = sg_status g" "sg_completion g' = sg_completion g"
    "sg_continuation g' = sg_continuation g \<or> sg_status g = GoalActive"
    "sg_control_revision g' = sg_control_revision g \<or> next_revision g g'"
  shows "pair_move (Some (goal_control g), p) (Some (goal_control g'), p)"
  by (rule move_edit) (use assms in simp_all)

lemma stop_move:
  assumes "same_goal g g'" "sg_status g = GoalActive"
    "sg_status g' = GoalPaused \<or> sg_status g' = GoalBlocked"
    "gc_phase (sg_continuation g') \<noteq> ContinuationRunning" "next_revision g g'"
    "f = pause_plan now \<or> f = pause_bound_plan now" "gid = sg_goal_id g"
  shows "pair_move (Some (goal_control g), p) (Some (goal_control g'), map_option (on_bound gid f) p)"
  using move_stop [of "goal_control g" "goal_control g'" f now p] assms by simp

lemma same_goalI:
  "sg_goal_id g' = sg_goal_id g \<Longrightarrow> sg_session_id g' = sg_session_id g \<Longrightarrow>
   sg_thread_id g' = sg_thread_id g \<Longrightarrow> sg_created_by_turn_id g' = sg_created_by_turn_id g \<Longrightarrow>
   sg_created_at g' = sg_created_at g \<Longrightarrow> same_goal g g'"
  by (simp add: same_goal_def)

lemmas goal_edit = goal_commit [OF _ _ _ _ edit_move]
lemmas goal_stop = goal_plan_commit [OF _ _ _ _ _ _ stop_move]

section \<open>Operations on a goal alone\<close>

lemma create_goal_moves:
  assumes "session_shape s"
  shows "moves_at sid s (snd (create_goal sid thread turn objective access now entropy s))"
proof (cases "snd (create_goal sid thread turn objective access now entropy s) = s")
  case True
  with assms show ?thesis by auto
next
  case False
  define out where "out = snd (create_goal sid thread turn objective access now entropy s)"
  from False obtain gid turn' objective' tl where
      made: "new_goal_id sid now entropy = Inr gid" and
      nounf: "\<not> list_ex (\<lambda>g. sg_session_id g = sid \<and> is_unfinished (sg_status g)) (ss_goals s)"
    and s': "out = reconcile_goal_time_used
        (s\<lparr>ss_goals := filter (\<lambda>g. sg_session_id g \<noteq> sid) (ss_goals s)
             @ [new_goal gid sid thread turn' objective' access now],
           ss_plans := filter (\<lambda>p. sp_session_id p \<noteq> sid) (ss_plans s), ss_timeline := tl\<rparr>)"
    unfolding out_def create_goal_def by (auto simp: Let_def split: sum.splits option.splits if_splits)
  let ?g = "new_goal gid sid thread turn' objective' access now"
  let ?t = "s\<lparr>ss_goals := filter (\<lambda>g. sg_session_id g \<noteq> sid) (ss_goals s) @ [?g],
      ss_plans := filter (\<lambda>p. sp_session_id p \<noteq> sid) (ss_plans s), ss_timeline := tl\<rparr>"
  have gid: "\<exists>n bytes. gid = GoalId (''goal-'' @ session_id_str sid @ ''-'' @ dec_of_nat n @ ''-''
      @ concat (map hex_byte bytes))"
    using made by (auto simp: new_goal_id_def split: sum.splits)
  have g: "sg_session_id ?g = sid" "sg_status ?g = GoalActive" "sg_control_revision ?g = 1"
    "sg_continuation ?g = default_continuation" by (simp_all add: new_goal_def)
  have named: "goal_named (goal_control ?g)" using gid by (simp add: goal_named_def new_goal_def)
  have "session_view ?t = (session_view s)(sid := (Some (goal_control ?g), None))"
    by (rule ext)
       (auto simp: session_view_def current_goal_lookup plan_of_lookup keyed_simps lookup_Cons g
             split: option.splits)
  moreover have "session_shape ?t"
    using assms by (auto simp: session_shape_def keys_once_filter g)
  moreover have "unfinished (fst (session_view s sid)) = None"
    using nounf
    by (auto simp: view_goal unfinished_def current_goal_lookup list_ex_iff dest!: lookup_SomeD split: option.splits)
  then have "pair_move (session_view s sid) (Some (goal_control ?g), None)"
    using move_create [of "fst (session_view s sid)" "goal_control ?g" "snd (session_view s sid)"] g named
    by (simp del: view_plan)
  ultimately show ?thesis
    unfolding out_def [symmetric] s' reconcile_moves_at by (intro moves_at_update)
qed

lemma active_foundD:
  "find (\<lambda>g. sg_session_id g = sid \<and> sg_status g = GoalActive) (ss_goals s) = Some g \<Longrightarrow>
   sg_session_id g = sid \<and> sg_status g = GoalActive"
  by (drule find_SomeD) simp

lemma access_profile_moves:
  assumes "session_shape s"
  shows "moves_at sid s (snd (set_active_goal_access_profile sid access now s))"
  using assms
  by (auto simp: set_active_goal_access_profile_def Let_def dest: active_foundD split: option.splits
           intro!: goal_edit same_goalI simp: bump_def next_revision_def)

lemma update_objective_moves:
  assumes "session_shape s"
  shows "moves_at sid s (snd (update_goal_objective_if_revision sid gid objective expected now s))"
  using assms
  by (auto simp: update_goal_objective_if_revision_def Let_def dest!: found_goalD split: option.splits sum.splits
           intro!: goal_edit same_goalI simp: bump_def next_revision_def)

lemma turn_success_moves:
  assumes "session_shape s"
  shows "moves_at sid s (snd (record_goal_turn_success sid gid turn now s))"
  using assms
  by (auto simp: record_goal_turn_success_def Let_def dest!: found_goalD split: option.splits
           intro!: goal_edit same_goalI)

lemma mark_waiting_moves:
  assumes "session_shape s"
  shows "moves_at sid s (snd (mark_goal_continuation_waiting sid gid reason now s))"
  using assms
  by (auto simp: mark_goal_continuation_waiting_def Let_def dest!: found_goalD split: option.splits sum.splits
           intro!: goal_edit same_goalI)

section \<open>Operations on a goal and its plan\<close>

lemma stop_failure_moves:
  assumes "session_shape s"
  shows "moves_at sid s (snd (stop_goal_for_runtime_failure sid gid expected turn reason now s))"
  using assms
  by (auto simp: stop_goal_for_runtime_failure_def Let_def dest!: found_goalD split: option.splits sum.splits
           intro!: goal_stop same_goalI simp: bump_def next_revision_def waiting_continuation_def)

lemma observe_failure_moves:
  assumes "session_shape s"
  shows "moves_at sid s (snd (observe_goal_runtime_failure sid gid turn reason now now2 others s))
    \<or> snd (observe_goal_runtime_failure sid gid turn reason now now2 others s)
      = snd (stop_goal_for_runtime_failure sid gid None turn reason now2 (others s))"
  using assms
  by (auto simp: observe_goal_runtime_failure_def Let_def dest!: found_goalD split: option.splits sum.splits prod.splits
           intro!: goal_edit same_goalI simp: bump_def next_revision_def)

lemma observe_blocker_moves:
  assumes "session_shape s"
  shows "moves_at sid s (snd (observe_goal_blocker sid gid expected expected_plan turn key reason now s))"
  using assms
  by (auto simp: observe_goal_blocker_def Let_def dest!: found_goalD split: option.splits sum.splits
           intro!: goal_stop goal_edit same_goalI simp: bump_def next_revision_def waiting_continuation_def)

lemma complete_goal_moves:
  assumes "session_shape s"
  shows "moves_at sid s (snd (complete_goal sid gid expected turn summary refs now s))"
proof (cases "snd (complete_goal sid gid expected turn summary refs now s) = s")
  case True
  with assms show ?thesis by auto
next
  case False
  define out where "out = snd (complete_goal sid gid expected turn summary refs now s)"
  define bound where "bound = find_bound_plan s sid gid"
  from False obtain g turn' summary' where
      g: "find_goal s sid gid = Some g" "sg_status g = GoalActive"
    and plan: "\<not> (case bound of None \<Rightarrow> False | Some p \<Rightarrow> plan_has_open_item p)"
      "\<not> (bound \<noteq> None \<and> normalize_evidence_refs refs = [])"
    and out: "out = reconcile_goal_time_used (set_goal (is_goal sid gid)
        (bump now (g\<lparr>sg_status := GoalComplete, sg_completion := Some \<lparr>gr_turn_id = turn', gr_summary = summary',
            gr_plan_revision = map_option sp_revision bound, gr_evidence_refs = normalize_evidence_refs refs,
            gr_completed_at = now\<rparr>, sg_continuation := default_continuation\<rparr>)) s)"
    unfolding out_def bound_def complete_goal_def
    by (auto simp: Let_def split: sum.splits option.splits if_splits)
  let ?c = "\<lparr>gr_turn_id = turn', gr_summary = summary', gr_plan_revision = map_option sp_revision bound,
      gr_evidence_refs = normalize_evidence_refs refs, gr_completed_at = now\<rparr>"
  let ?g = "bump now (g\<lparr>sg_status := GoalComplete, sg_completion := Some ?c,
      sg_continuation := default_continuation\<rparr>)"
  note found = found_goalD [OF g(1)]
  have items: "list_all item_finished (sp_items q) \<and> gr_plan_revision ?c = Some (sp_revision q)
      \<and> gr_evidence_refs ?c \<noteq> []"
    if "plan_of sid s = Some q" "sp_goal_id q = Some gid" for q
  proof -
    have b: "bound = Some q" using that by (simp add: bound_def find_bound_plan_of [OF assms])
    with plan(1) have "\<not> plan_has_open_item q" by simp
    then have "item_finished i" if "i \<in> set (sp_items q)" for i
      using that by (cases "pi_status i") (auto simp: plan_has_open_item_def list_ex_iff item_finished_def)
    with b plan(2) show ?thesis by (auto simp: list_all_iff)
  qed
  have "pair_move (Some (goal_control g), plan_of sid s) (Some (goal_control ?g), plan_of sid s)"
    using g(2) found items
    by (intro move_complete [of _ _ ?c])
       (auto intro!: same_goalI simp: bump_def next_revision_def)
  with found assms show ?thesis
    unfolding out_def [symmetric] out reconcile_moves_at
    by (intro goal_commit) (auto simp: bump_def)
qed

lemma transition_moves:
  assumes "session_shape s" "next = GoalPaused \<or> next = GoalActive"
  shows "moves_at sid s (snd (transition_goal_with_plan sid gid expected next access now s))"
proof (cases "snd (transition_goal_with_plan sid gid expected next access now s) = s")
  case True
  with assms show ?thesis by auto
next
  case False
  define out where "out = snd (transition_goal_with_plan sid gid expected next access now s)"
  from False obtain g where
      g: "find_goal s sid gid = Some g" "transition_allowed (sg_status g) next"
    and out: "out = reconcile_goal_time_used (set_goal (is_goal sid gid)
        (bump now (g\<lparr>sg_status := next,
            sg_access_profile := (case access of None \<Rightarrow> sg_access_profile g | Some a \<Rightarrow> a),
            sg_blocker := None,
            sg_continuation := (if next = GoalActive then waiting_continuation ''resume_requested''
                                else default_continuation)\<rparr>))
        (set_plan (is_bound_plan sid gid) (transition_plan next now) s))"
    unfolding out_def transition_goal_with_plan_def
    by (auto simp: Let_def split: sum.splits option.splits if_splits)
  define h where "h = bump now (g\<lparr>sg_status := next,
      sg_access_profile := (case access of None \<Rightarrow> sg_access_profile g | Some a \<Rightarrow> a), sg_blocker := None,
      sg_continuation := (if next = GoalActive then waiting_continuation ''resume_requested''
                          else default_continuation)\<rparr>)"
  have same: "same_goal g h" by (rule same_goalI) (simp_all add: h_def bump_def)
  have next_r: "next_revision g h" by (simp add: h_def bump_def next_revision_def)
  have phase: "gc_phase (sg_continuation h) \<noteq> ContinuationRunning"
    by (simp add: h_def bump_def default_continuation_def waiting_continuation_def)
  have status: "sg_status h = next" by (simp add: h_def bump_def)
  note found = found_goalD [OF g(1)]
  have "transition_plan GoalPaused now = pause_plan now" by (rule ext) (simp add: transition_plan_def)
  then have "pair_move (Some (goal_control g), plan_of sid s)
      (Some (goal_control h), map_option (on_bound gid (transition_plan next now)) (plan_of sid s))"
    using assms(2) g(2) found stop_move [OF same _ _ phase next_r, of "pause_plan now" now gid "plan_of sid s"]
      move_resume [of "goal_control g" "goal_control h" "plan_of sid s" now]
    by (auto simp: transition_allowed_def is_unfinished_def same next_r status)
  with found assms(1) same show ?thesis
    unfolding out_def [symmetric] out [folded h_def] reconcile_moves_at
    by (intro goal_plan_commit) (auto simp: same_goal_def)
qed

lemma pause_goal_moves:
  "session_shape s \<Longrightarrow> moves_at sid s (snd (pause_goal_with_plan sid gid expected expected_plan now s))"
  using transition_moves [of s GoalPaused sid gid
      "\<lparr>ge_goal_control_revision = expected, ge_plan_revision = expected_plan\<rparr>" None now]
  by (auto simp: pause_goal_with_plan_def split: prod.splits sum.splits)

lemma resume_goal_moves:
  "session_shape s \<Longrightarrow> moves_at sid s (snd (resume_goal_with_plan sid gid expected expected_plan access now s))"
  unfolding resume_goal_with_plan_def by (rule transition_moves) simp_all

lemma diversion_moves:
  assumes "session_shape s"
  shows "moves_at sid s (snd (pause_active_goal_for_diversion sid now s))"
proof (cases "find (\<lambda>g. sg_session_id g = sid \<and> sg_status g = GoalActive) (ss_goals s)")
  case None
  with assms show ?thesis by (auto simp: pause_active_goal_for_diversion_def Let_def)
next
  case (Some g)
  then have "sg_session_id g = sid" "sg_status g = GoalActive" using active_foundD by blast+
  with Some assms show ?thesis
    by (auto simp: pause_active_goal_for_diversion_def pause_goal_and_bound_plan_in_state_def Let_def
          next_revision_def default_continuation_def intro!: goal_stop same_goalI)
qed

lemma clear_goal_moves:
  assumes "session_shape s"
  shows "moves_at sid s (snd (clear_goal_with_plan sid gid expected expected_plan s))"
proof (cases "snd (clear_goal_with_plan sid gid expected expected_plan s) = s")
  case True
  with assms show ?thesis by auto
next
  case False
  define out where "out = snd (clear_goal_with_plan sid gid expected expected_plan s)"
  from False obtain g where g: "find_goal s sid gid = Some g"
    and out: "out = s\<lparr>ss_goals := remove_first (is_goal sid gid) (ss_goals s),
        ss_plans := remove_first (is_bound_plan sid gid) (ss_plans s)\<rparr>"
    unfolding out_def clear_goal_with_plan_def by (auto split: sum.splits option.splits)
  note found = found_goalD [OF g]
  have goals: "lookup sg_session_id (remove_first (is_goal sid gid) (ss_goals s)) k
      = (if k = sid then None else lookup sg_session_id (ss_goals s) k)" for k
    using found lookup_remove_first [OF shape_keys(1) [OF assms]] by auto
  have plans: "lookup sp_session_id (remove_first (is_bound_plan sid gid) (ss_plans s)) k
      = (if k = sid then (case plan_of sid s of None \<Rightarrow> None
           | Some q \<Rightarrow> if sp_goal_id q = Some gid then None else Some q)
         else lookup sp_session_id (ss_plans s) k)" for k
  proof (cases "find (is_bound_plan sid gid) (ss_plans s)")
    case None
    then have "remove_first (is_bound_plan sid gid) (ss_plans s) = ss_plans s" by (rule remove_first_none)
    with None find_bound_plan_of [OF assms, of sid gid] show ?thesis
      by (auto simp: find_bound_plan_def plan_of_lookup split: option.splits if_splits)
  next
    case (Some q)
    with find_bound_plan_of [OF assms, of sid gid] have "plan_of sid s = Some q" "sp_goal_id q = Some gid"
      by (auto simp: find_bound_plan_def split: option.splits if_splits)
    with lookup_remove_first [OF shape_keys(2) [OF assms] Some] plan_of_session [of sid s q] show ?thesis
      by (simp add: plan_of_lookup)
  qed
  have "session_view out = (session_view s)(sid :=
      (None, case plan_of sid s of None \<Rightarrow> None | Some q \<Rightarrow> if sp_goal_id q = Some gid then None else Some q))"
    by (rule ext) (auto simp: out session_view_def current_goal_lookup plan_of_lookup goals plans)
  moreover have "session_shape out"
    using assms by (simp add: out session_shape_def keys_once_remove_first)
  moreover have "pair_move (session_view s sid)
      (None, case plan_of sid s of None \<Rightarrow> None | Some q \<Rightarrow> if sp_goal_id q = Some gid then None else Some q)"
    using found_goal_view [OF assms conjunct1 [OF found]] found
      move_clear [of "goal_control g" "plan_of sid s"] by (auto split: option.splits)
  ultimately show ?thesis unfolding out_def [symmetric] by (intro moves_at_update)
qed

end
