(* ===== verification/PlanRefinement.thy ===== *)
theory PlanRefinement
  imports GoalRefinement
begin

text \<open>
  The continuation of a goal, written plans, resumed and rolled back goals, and the reload of a
  persisted state refine the abstract machine of goals and plans.
\<close>

section \<open>Continuations\<close>

lemma update_first_const: "find P xs = Some x \<Longrightarrow> update_first P f xs = update_first P (\<lambda>_. f x) xs"
  by (induction xs) (auto split: if_splits)

lemma set_goal_update:
  "find P (ss_goals s) = Some g \<Longrightarrow> s\<lparr>ss_goals := update_first P f (ss_goals s)\<rparr> = set_goal P (f g) s"
  unfolding set_goal_def using update_first_const [of P "ss_goals s" g f] by simp

lemma start_continuation_moves:
  assumes "session_shape s" "continuation_guard sid gid s = Inr ()"
  shows "moves_at sid s (start_continuation sid gid turn at s)"
proof -
  from assms(2) obtain g where g: "find_goal s sid gid = Some g" "sg_status g = GoalActive"
    by (auto simp: continuation_guard_def split: option.splits if_splits)
  note found = found_goalD [OF g(1)]
  show ?thesis
    unfolding start_continuation_def set_goal_update [OF conjunct1 [OF found]]
    using found g(2) assms(1) by (auto intro!: goal_edit same_goalI)
qed

lemma release_moves:
  assumes "session_shape s"
  shows "moves_at sid s (release_running_goal_continuation sid turn reason at s)"
proof -
  let ?P = "\<lambda>g. sg_session_id g = sid \<and> sg_status g = GoalActive
      \<and> gc_phase (sg_continuation g) = ContinuationRunning
      \<and> (gc_turn_id (sg_continuation g) = Some turn \<or> sg_created_by_turn_id g = Some turn)"
  show ?thesis
  proof (cases "find ?P (ss_goals s)")
    case None
    then have "update_first ?P f (ss_goals s) = ss_goals s" for f by (rule update_first_none)
    with assms show ?thesis by (auto simp: release_running_goal_continuation_def)
  next
    case (Some g)
    then have "sg_session_id g = sid \<and> sg_status g = GoalActive" by (auto dest: find_SomeD)
    with Some assms show ?thesis
      unfolding release_running_goal_continuation_def set_goal_update [OF Some]
      by (auto intro!: goal_edit same_goalI)
  qed
qed

definition moves :: "session_state \<Rightarrow> session_state \<Rightarrow> bool" where
  "moves s s' \<longleftrightarrow>
     session_shape s'
     \<and> (\<forall>sid. session_view s' sid = session_view s sid
            \<or> pair_move (session_view s sid) (session_view s' sid))"

lemma moves_at_moves: "moves_at sid s s' \<Longrightarrow> moves s s'"
  by (auto simp: moves_at_def moves_def)

lemma moves_goals_in:
  assumes "session_shape s" "\<And>g. sg_session_id (f g) = sg_session_id g"
    "\<And>g. g \<in> set (ss_goals s) \<Longrightarrow> f g = g \<or> pair_move (Some (goal_control g), plan_of (sg_session_id g) s)
                          (Some (goal_control (f g)), plan_of (sg_session_id g) s)"
  shows "moves s (s\<lparr>ss_goals := map f (ss_goals s)\<rparr>)"
proof -
  have "session_view (s\<lparr>ss_goals := map f (ss_goals s)\<rparr>) sid = session_view s sid
      \<or> pair_move (session_view s sid) (session_view (s\<lparr>ss_goals := map f (ss_goals s)\<rparr>) sid)" for sid
  proof (cases "current_goal sid s")
    case None
    then show ?thesis
      using assms(2) by (simp add: session_view_def current_goal_lookup plan_of_lookup lookup_map)
  next
    case (Some g)
    then have "sg_session_id g = sid" "g \<in> set (ss_goals s)"
      by (auto simp: current_goal_lookup dest: lookup_SomeD)
    with Some assms(2) assms(3) [of g] show ?thesis
      by (auto simp: session_view_def current_goal_lookup plan_of_lookup lookup_map)
  qed
  moreover have "session_shape (s\<lparr>ss_goals := map f (ss_goals s)\<rparr>)"
    using assms(1,2) by (simp add: session_shape_def comp_def)
  ultimately show ?thesis by (simp add: moves_def)
qed

lemma settle_continuations_moves:
  assumes "session_shape s"
  shows "moves s (reconcile_terminal_goal_continuations s)"
  unfolding reconcile_terminal_goal_continuations_def
proof (rule moves_goals_in [OF assms])
  show "sg_session_id (settle_continuation s g) = sg_session_id g" for g
    by (simp add: settle_continuation_def split: option.splits)
  show "settle_continuation s g = g
      \<or> pair_move (Some (goal_control g), plan_of (sg_session_id g) s)
          (Some (goal_control (settle_continuation s g)), plan_of (sg_session_id g) s)" for g
    by (auto simp: settle_continuation_def intro!: edit_move same_goalI split: option.splits)
qed

section \<open>Writing plans\<close>

lemma unfinished_current:
  assumes "session_shape s"
  shows "map_option goal_control (current_unfinished_goal sid s) = unfinished (fst (session_view s sid))"
  using find_status_current [OF assms, of sid "\<lambda>g. is_unfinished (sg_status g)"]
  by (auto simp: current_unfinished_goal_def view_goal unfinished_def split: option.splits)

lemma guard_control:
  "unfinished_goal_guard (map_option goal_control og) q = unfinished_goal_guard og q"
  by (cases og) (simp_all add: unfinished_goal_guard_def)

lemma guard_cong:
  "sp_goal_id q = sp_goal_id p \<Longrightarrow> sp_state q = sp_state p \<Longrightarrow>
   unfinished_goal_guard og q = unfinished_goal_guard og p"
  by (cases og) (simp_all add: unfinished_goal_guard_def)

lemma set_found_plan_view:
  assumes "session_shape s" "find P (ss_plans s) = Some p" "sp_session_id q = sp_session_id p"
  shows "session_view (set_plan P (\<lambda>_. q) s)
       = (session_view s)(sp_session_id p := (fst (session_view s (sp_session_id p)), Some q))"
    and "session_shape (set_plan P (\<lambda>_. q) s)"
proof -
  note look = lookup_update_first [OF shape_keys(2) [OF assms(1)] assms(2), of "\<lambda>_. q"]
  have "keys_once sp_session_id (update_first P (\<lambda>_. q) (ss_plans s))"
    using keys_once_update_first [OF shape_keys(2) [OF assms(1)] assms(2), of "\<lambda>_. q"] assms(3) by simp
  then show "session_shape (set_plan P (\<lambda>_. q) s)"
    using assms(1) by (simp add: session_shape_def set_plan_def)
  show "session_view (set_plan P (\<lambda>_. q) s)
       = (session_view s)(sp_session_id p := (fst (session_view s (sp_session_id p)), Some q))"
    using look assms(3)
    by (intro ext) (simp add: session_view_def set_plan_def current_goal_def plan_of_lookup)
qed

lemma set_session_plan_view:
  assumes "session_shape s" "plan_of sid s = Some p" "sp_session_id q = sid"
  shows "session_view (set_plan (\<lambda>p. sp_session_id p = sid) (\<lambda>_. q) s)
       = (session_view s)(sid := (fst (session_view s sid), Some q))"
    and "session_shape (set_plan (\<lambda>p. sp_session_id p = sid) (\<lambda>_. q) s)"
  using set_found_plan_view [OF assms(1) assms(2) [unfolded plan_of_def], of q] plan_of_session [OF assms(2)]
    assms(3) by simp_all

lemma touch_session_view [simp]:
  "session_view (touch_session sid now s) = session_view s"
  "session_shape (touch_session sid now s) = session_shape s"
  by (auto simp: session_view_def touch_session_def session_shape_def current_goal_def plan_of_def)

text \<open>An accepted write: the guards it passed and the plan it stored.\<close>

lemma upsert_cases:
  assumes "upsert_plan_inner sid plan expected guard now s = (r, s')"
  obtains (refused) e where "r = Inl e" "s' = s"
  | (replaced) current q where "plan_of sid s = Some current" "r = Inr q"
      "q = plan\<lparr>sp_revision := saturating_add (sp_revision current) 1, sp_updated_at := now\<rparr>"
      "s' = touch_session sid now (set_plan (\<lambda>p. sp_session_id p = sid) (\<lambda>_. q) s)"
      "has_session s sid" "sp_session_id plan = sid"
      "\<And>r. expected = Some r \<Longrightarrow> sp_revision current = r"
      "unfinished_goal_guard (current_unfinished_goal sid s) plan = Inr ()"
      "goal_progress_guard (current_unfinished_goal sid s) plan guard = Inr ()"
      "goal_of_plan_guard s sid plan = Inr ()"
  | (created) q where "plan_of sid s = None" "r = Inr q"
      "q = plan\<lparr>sp_revision := 1, sp_updated_at := now\<rparr>"
      "s' = touch_session sid now (s\<lparr>ss_plans := ss_plans s @ [q]\<rparr>)"
      "has_session s sid" "sp_session_id plan = sid"
      "\<And>r. expected = Some r \<Longrightarrow> r = 0"
      "unfinished_goal_guard (current_unfinished_goal sid s) plan = Inr ()"
      "goal_progress_guard (current_unfinished_goal sid s) plan guard = Inr ()"
      "goal_of_plan_guard s sid plan = Inr ()"
proof (cases r)
  case (Inl e)
  then have "s' = s"
    using assms by (auto simp: upsert_plan_inner_def Let_def split: if_splits sum.splits option.splits)
  with Inl show thesis by (rule refused)
next
  case (Inr q)
  note unfolded = assms [unfolded Inr upsert_plan_inner_def Let_def]
  show thesis
  proof (cases "plan_of sid s")
    case None
    show thesis
      by (rule created [OF None])
         (use unfolded None Inr in \<open>auto split: if_splits sum.splits option.splits\<close>)
  next
    case (Some current)
    show thesis
      by (rule replaced [OF Some])
         (use unfolded Some Inr in \<open>auto split: if_splits sum.splits option.splits\<close>)
  qed
qed

lemma written_consistent:
  "plan_consistent p \<Longrightarrow> r \<noteq> 0 \<Longrightarrow> plan_consistent (p\<lparr>sp_revision := r, sp_updated_at := now\<rparr>)"
  by (simp add: plan_consistent_def plan_normal_def plan_named_def)

lemma goal_of_plan_ok:
  assumes "session_shape s" "goal_of_plan_guard s sid plan = Inr ()" "sp_goal_id plan = Some gid"
  shows "\<exists>g. fst (session_view s sid) = Some g \<and> sg_goal_id g = gid"
proof -
  from assms(2,3) obtain g where "find_goal s sid gid = Some g"
    by (auto simp: goal_of_plan_guard_def split: if_splits)
  from find_goal_SomeD [OF assms(1) this] show ?thesis by (simp add: view_goal)
qed

lemma write_move:
  assumes "session_shape s" "plan_consistent q" "sp_goal_id q = sp_goal_id plan" "sp_state q = sp_state plan"
    "unfinished_goal_guard (current_unfinished_goal sid s) plan = Inr ()"
    "goal_of_plan_guard s sid plan = Inr ()"
    "sp_revision q = (case plan_of sid s of None \<Rightarrow> 1 | Some p' \<Rightarrow> saturating_add (sp_revision p') 1)"
  shows "pair_move (session_view s sid) (fst (session_view s sid), Some q)"
proof -
  have "unfinished_goal_guard (unfinished (fst (session_view s sid))) q = Inr ()"
    using assms(5) unfolding unfinished_current [OF assms(1), symmetric] guard_control
      guard_cong [OF assms(3,4)] .
  moreover have "\<exists>g. fst (session_view s sid) = Some g \<and> sg_goal_id g = gid" if "sp_goal_id q = Some gid" for gid
    using goal_of_plan_ok [OF assms(1,6)] assms(3) that by simp
  ultimately have "pair_move (fst (session_view s sid), plan_of sid s) (fst (session_view s sid), Some q)"
    using assms(2,7) by (intro move_write)
  then show ?thesis using view_plan [of s sid] by (metis prod.collapse)
qed

lemma upsert_moves:
  assumes "session_shape s" "plan_consistent plan"
  shows "moves_at sid s (snd (upsert_plan_inner sid plan expected guard now s))"
proof -
  obtain r s' where u: "upsert_plan_inner sid plan expected guard now s = (r, s')" by fastforce
  then show ?thesis
  proof (cases rule: upsert_cases)
    case refused
    with u assms show ?thesis by auto
  next
    case (replaced current q)
    have q: "plan_consistent q" "sp_session_id q = sid"
      using assms(2) replaced by (simp_all add: written_consistent saturating_succ_nonzero)
    note set = set_session_plan_view [OF assms(1) replaced(1) q(2)]
    have "pair_move (session_view s sid) (fst (session_view s sid), Some q)"
      using assms(1) q(1) replaced by (intro write_move [of _ _ plan]) simp_all
    with set replaced(4) show ?thesis unfolding u by (intro moves_at_update) simp_all
  next
    case (created q)
    let ?t = "s\<lparr>ss_plans := ss_plans s @ [q]\<rparr>"
    have q: "plan_consistent q" "sp_session_id q = sid"
      using assms(2) created by (simp_all add: written_consistent)
    have none: "lookup sp_session_id (ss_plans s) sid = None"
      using created(1) by (simp add: plan_of_lookup)
    then have "session_view ?t = (session_view s)(sid := (fst (session_view s sid), Some q))"
      using q(2) by (intro ext) (auto simp: session_view_def current_goal_def plan_of_lookup lookup_append
          lookup_Cons split: option.splits)
    moreover have "session_shape ?t"
      using assms(1) none q(2) by (auto simp: session_shape_def lookup_None_iff)
    moreover have "pair_move (session_view s sid) (fst (session_view s sid), Some q)"
      using assms(1) q(1) created by (intro write_move [of _ _ plan]) simp_all
    ultimately show ?thesis unfolding u using created(4) by (intro moves_at_update) simp_all
  qed
qed

lemma clear_plan_moves:
  assumes "session_shape s"
  shows "moves_at sid s (snd (clear_plan sid expected s))"
proof -
  let ?t = "s\<lparr>ss_plans := filter (\<lambda>p. sp_session_id p \<noteq> sid) (ss_plans s)\<rparr>"
  have "session_view ?t = (session_view s)(sid := (fst (session_view s sid), None))"
    by (rule ext) (auto simp: session_view_def current_goal_def plan_of_lookup lookup_filter_key)
  moreover have "session_shape ?t" using assms by (simp add: session_shape_def keys_once_filter)
  moreover have "pair_move (session_view s sid) (fst (session_view s sid), None)"
    using move_drop [of "fst (session_view s sid)" "snd (session_view s sid)"] by (simp del: view_plan)
  ultimately have "moves_at sid s ?t" by (intro moves_at_update)
  with assms show ?thesis by (auto simp: clear_plan_def split: option.splits)
qed

text \<open>
  The caller restores the snapshot its own binding started from: the plan still holds what
  that binding wrote.
\<close>

definition restores_own_binding :: "session_plan \<Rightarrow> session_plan \<Rightarrow> bool" where
  "restores_own_binding original current \<longleftrightarrow>
     sp_goal_id original = sp_goal_id current \<and> sp_state original = sp_state current"

lemma restore_plan_moves:
  assumes "session_shape s"
    "\<And>p0. original = Some p0 \<Longrightarrow> plan_consistent p0"
    "\<And>p0 p. original = Some p0 \<Longrightarrow> plan_of sid s = Some p \<Longrightarrow> sp_revision p = expected \<Longrightarrow>
       restores_own_binding p0 p"
    "\<And>p. plan_of sid s = Some p \<Longrightarrow> sp_revision p \<noteq> 0"
  shows "moves_at sid s (snd (restore_plan_if_current sid expected original now s))"
proof (cases "plan_of sid s")
  case None
  with assms(1) show ?thesis by (auto simp: restore_plan_if_current_def)
next
  case (Some p)
  show ?thesis
  proof (cases "sp_revision p = expected")
    case False
    with Some assms(1) show ?thesis by (auto simp: restore_plan_if_current_def)
  next
    case same: True
    show ?thesis
    proof (cases original)
      case None
      have found: "find (\<lambda>p. sp_session_id p = sid) (ss_plans s) = Some p"
        using Some by (simp add: plan_of_def)
      let ?t = "s\<lparr>ss_plans := remove_first (\<lambda>p. sp_session_id p = sid) (ss_plans s)\<rparr>"
      have "session_view ?t = (session_view s)(sid := (fst (session_view s sid), None))"
        using lookup_remove_first [OF shape_keys(2) [OF assms(1)] found] plan_of_session [OF Some]
        by (intro ext) (auto simp: session_view_def current_goal_def plan_of_lookup)
      moreover have "session_shape ?t"
        using assms(1) by (simp add: session_shape_def keys_once_remove_first)
      moreover have "pair_move (session_view s sid) (fst (session_view s sid), None)"
        using move_drop [of "fst (session_view s sid)" "snd (session_view s sid)"] by (simp del: view_plan)
      ultimately have "moves_at sid s ?t" by (intro moves_at_update)
      with Some same None show ?thesis by (simp add: restore_plan_if_current_def)
    next
      case o: (Some p0)
      show ?thesis
      proof (cases "sp_session_id p0 = sid")
        case False
        with Some same o assms(1) show ?thesis by (auto simp: restore_plan_if_current_def)
      next
        case True
        let ?q = "p0\<lparr>sp_revision := expected, sp_updated_at := now\<rparr>"
        have "plan_consistent ?q" using assms(2) [OF o] assms(4) [OF Some] same
          by (auto intro: written_consistent)
        moreover have "restores_own_binding p0 p" by (rule assms(3) [OF o Some same])
        ultimately have "pair_move (fst (session_view s sid), Some p) (fst (session_view s sid), Some ?q)"
          using same by (intro move_restore) (simp_all add: restores_own_binding_def)
        moreover have "(fst (session_view s sid), Some p) = session_view s sid"
          using Some view_plan [of s sid] by (metis prod.collapse)
        ultimately have move: "pair_move (session_view s sid) (fst (session_view s sid), Some ?q)" by simp
        note set = set_session_plan_view [OF assms(1) Some, of ?q]
        have "moves_at sid s (set_plan (\<lambda>p. sp_session_id p = sid) (\<lambda>_. ?q) s)"
          using set True move by (intro moves_at_update) simp_all
        with Some same o True show ?thesis by (simp add: restore_plan_if_current_def)
      qed
    qed
  qed
qed

section \<open>Interrupted executions\<close>

lemma resume_interrupted_moves:
  assumes "session_shape s"
  shows "moves_at sid s (snd (resume_goal_for_interrupted_execution sid interrupted resumed now s))"
proof (cases "snd (resume_goal_for_interrupted_execution sid interrupted resumed now s) = s")
  case True
  with assms show ?thesis by auto
next
  case False
  define out where "out = snd (resume_goal_for_interrupted_execution sid interrupted resumed now s)"
  define f where "f = (\<lambda>p. if sp_state p = PlanPaused then activate_paused_plan now p else p)"
  define P where "P = (\<lambda>turn chain g. sg_session_id g = sid \<and> is_unfinished (sg_status g)
      \<and> goal_owns_execution_chain s g turn chain)"
  from False obtain turn chain g where
      found: "find (P turn chain) (ss_goals s) = Some g"
    and st: "sg_status g = GoalActive \<or> sg_status g = GoalPaused"
    and out: "out = reconcile_goal_time_used (set_goal (P turn chain) (resume_after_interruption resumed now g)
        (set_plan (is_bound_plan sid (sg_goal_id g)) f s))"
    unfolding out_def f_def P_def resume_goal_for_interrupted_execution_def
    by (auto simp: Let_def split: option.splits if_splits)
  define h where "h = resume_after_interruption resumed now g"
  have sid: "sg_session_id g = sid" and unf: "is_unfinished (sg_status g)"
    using find_SomeD [OF found] by (simp_all add: P_def)
  have f: "f = transition_plan GoalActive now" by (rule ext) (simp add: f_def transition_plan_def)
  have h: "same_goal g h" "sg_status h = GoalActive" "sg_session_id h = sid"
    "if sg_status g = GoalActive then sg_control_revision h = sg_control_revision g else next_revision g h"
    using st sid by (auto simp: h_def resume_after_interruption_def same_goal_def next_revision_def Let_def)
  have "pair_move (Some (goal_control g), plan_of sid s)
      (Some (goal_control h), map_option (on_bound (sg_goal_id g) f) (plan_of sid s))"
    using move_resume [of "goal_control g" "goal_control h" "plan_of sid s" now] h unf
    unfolding f by (simp split: if_splits)
  then have "moves_at sid s (set_goal (P turn chain) h (set_plan (is_bound_plan sid (sg_goal_id g)) f s))"
    using assms found sid h(3) by (intro goal_plan_commit) (auto simp: f)
  then show ?thesis unfolding out_def [symmetric] out h_def reconcile_moves_at .
qed

end
