(* ===== verification/SessionReload.thy ===== *)
theory SessionReload
  imports PlanRefinement
begin

text \<open>
  Two ways back to an earlier pair: rolling a resumed goal back to the snapshot its resume took,
  and loading the persisted goals and plans after a restart.
\<close>

definition session_wf :: "session_state \<Rightarrow> bool" where
  "session_wf s \<longleftrightarrow> session_shape s \<and> (\<forall>sid. pair_consistent (session_view s sid))"

lemma session_wfD:
  assumes "session_wf s"
  shows "session_shape s" "pair_consistent (session_view s sid)"
  using assms by (simp_all add: session_wf_def)

lemma moves_wf: "moves s s' \<Longrightarrow> session_wf s \<Longrightarrow> session_wf s'"
  unfolding moves_def session_wf_def by (metis pair_move_consistent)

lemma wf_goal:
  assumes "session_wf s" "g \<in> set (ss_goals s)"
  shows "goal_consistent g" and "current_goal (sg_session_id g) s = Some g"
proof -
  show c: "current_goal (sg_session_id g) s = Some g"
    using assms unfolding current_goal_lookup by (intro lookup_in_set) (simp_all add: session_wfD shape_keys)
  have "goal_consistent (goal_control g)"
    using session_wfD(2) [OF assms(1), of "sg_session_id g"] c
    by (auto simp: session_view_def dest: pair_consistentD(1))
  then show "goal_consistent g" by (simp add: goal_consistent_def goal_named_def)
qed

lemma wf_plan:
  assumes "session_wf s" "p \<in> set (ss_plans s)"
  shows "plan_consistent p" and "plan_of (sp_session_id p) s = Some p"
proof -
  show c: "plan_of (sp_session_id p) s = Some p"
    using assms unfolding plan_of_lookup by (intro lookup_in_set) (simp_all add: session_wfD shape_keys)
  show "plan_consistent p"
    using session_wfD(2) [OF assms(1), of "sp_session_id p"] c
    by (auto simp: session_view_def dest: pair_consistentD(2))
qed

lemma wf_coupled:
  assumes "session_wf s" "current_goal sid s = Some g" "plan_of sid s = Some p" "is_unfinished (sg_status g)"
  shows "coupled g p"
proof -
  have "coupled (goal_control g) p"
    using pair_consistentD(4) [of "Some (goal_control g)" "Some p" "goal_control g" p]
      session_wfD(2) [OF assms(1), of sid] assms(2-4) by (simp add: session_view_def)
  then show ?thesis by (simp add: coupled_def)
qed

lemma wf_plan_goal:
  assumes "session_wf s" "plan_of sid s = Some p" "sp_goal_id p = Some gid"
  shows "\<exists>g. current_goal sid s = Some g \<and> sg_goal_id g = gid"
proof -
  have "pair_consistent (map_option goal_control (current_goal sid s), Some p)"
    using session_wfD(2) [OF assms(1), of sid] assms(2) by (simp add: session_view_def)
  from pair_consistentD(3) [OF this refl assms(3)] show ?thesis by auto
qed

lemma current_goal_in_set: "current_goal sid s = Some g \<Longrightarrow> g \<in> set (ss_goals s)"
  by (auto simp: current_goal_lookup dest: lookup_SomeD)

section \<open>Rolling a resume back\<close>

definition checkpoint_of :: "'a goal_resume_checkpoint_scheme \<Rightarrow> session_id \<Rightarrow> session_state \<Rightarrow> bool" where
  "checkpoint_of k sid s \<longleftrightarrow>
     current_goal sid s = Some (gk_goal_before k) \<and> is_unfinished (sg_status (gk_goal_before k))
     \<and> gk_plan_before k = find_bound_plan s sid (sg_goal_id (gk_goal_before k))"

lemma resume_checkpoint:
  assumes "session_shape s" "resume_goal_with_plan sid gid expected expected_plan access now s = (Inr (g, p, Some k), s')"
  shows "checkpoint_of k sid s"
proof -
  from assms(2) obtain h where h: "find_goal s sid gid = Some h" "transition_allowed (sg_status h) GoalActive"
    and k: "gk_goal_before k = h" "gk_plan_before k = find_bound_plan s sid gid"
    unfolding resume_goal_with_plan_def transition_goal_with_plan_def
    by (auto simp: Let_def split: option.splits sum.splits if_splits)
  with find_goal_SomeD [OF assms(1) h(1)] show ?thesis
    by (auto simp: checkpoint_of_def transition_allowed_def is_unfinished_def)
qed

lemma interrupted_checkpoint:
  assumes "session_shape s"
    "resume_goal_for_interrupted_execution sid interrupted resumed now s = (Inr (Some k), s')"
  shows "checkpoint_of k sid s"
proof -
  define P where "P = (\<lambda>turn chain g. sg_session_id g = sid \<and> is_unfinished (sg_status g)
      \<and> goal_owns_execution_chain s g turn chain)"
  from assms(2) obtain turn chain g where g: "find (P turn chain) (ss_goals s) = Some g"
    and k: "gk_goal_before k = g" "gk_plan_before k = find (is_bound_plan sid (sg_goal_id g)) (ss_plans s)"
    unfolding P_def resume_goal_for_interrupted_execution_def
    by (auto simp: Let_def split: option.splits if_splits)
  have "sg_session_id g = sid" "is_unfinished (sg_status g)"
    using find_SomeD [OF g] by (simp_all add: P_def)
  with found_goal_current [OF assms(1) g] k show ?thesis
    by (simp add: checkpoint_of_def find_bound_plan_def)
qed

text \<open>
  Whatever happened between the resume and the rollback, an accepted rollback gives the session
  exactly the goal and the plan of the state the resume started from.
\<close>

definition rolls_back :: "session_id \<Rightarrow> session_state \<Rightarrow> session_state \<Rightarrow> session_state \<Rightarrow> bool" where
  "rolls_back sid s0 s s' \<longleftrightarrow>
     session_shape s' \<and> session_view s' = (session_view s)(sid := session_view s0 sid)
     \<and> (\<exists>g g0. current_goal sid s = Some g \<and> current_goal sid s0 = Some g0 \<and> sg_goal_id g = sg_goal_id g0
            \<and> sg_status g = GoalActive \<and> is_unfinished (sg_status g0))"

lemma rollback_plan_effect:
  assumes "session_wf s0" "checkpoint_of k sid s0" "session_wf s"
    "find (\<lambda>g. sg_goal_id g = sg_goal_id (gk_goal_before k)) (ss_goals s) = Some g"
    "sg_status g = GoalActive"
    "rollback_plan e1 e2 (gk_goal_before k) (gk_plan_before k) applied s = Inr s1"
  shows "rolls_back sid s0 s
    (set_goal (\<lambda>g. sg_goal_id g = sg_goal_id (gk_goal_before k)) (gk_goal_before k) s1)"
proof -
  let ?b = "gk_goal_before k" and ?same = "\<lambda>g. sg_goal_id g = sg_goal_id (gk_goal_before k)"
  have b: "current_goal sid s0 = Some ?b" "is_unfinished (sg_status ?b)" "sg_session_id ?b = sid"
    using assms(2) current_goal_session by (auto simp: checkpoint_of_def)
  have g: "g \<in> set (ss_goals s)" "sg_goal_id g = sg_goal_id ?b" using find_SomeD [OF assms(4)] by auto
  have "goal_named g" "goal_named ?b"
    using wf_goal(1) [OF assms(3) g(1)] wf_goal(1) [OF assms(1) current_goal_in_set [OF b(1)]]
    by (simp_all add: goal_consistent_def)
  from goal_id_session [OF this g(2)] b(3) have sid: "sg_session_id g = sid" by simp
  with wf_goal(2) [OF assms(3) g(1)] have cur: "current_goal sid s = Some g" by simp
  have unf: "is_unfinished (sg_status g)" using assms(5) by (simp add: is_unfinished_def)
  have v0: "session_view s0 sid = (Some (goal_control ?b), plan_of sid s0)"
    using b(1) by (simp add: session_view_def)
  have ends: "\<exists>g g0. current_goal sid s = Some g \<and> current_goal sid s0 = Some g0 \<and> sg_goal_id g = sg_goal_id g0
      \<and> sg_status g = GoalActive \<and> is_unfinished (sg_status g0)"
    using cur b g(2) assms(5) by simp
  show ?thesis
  proof (cases "gk_plan_before k")
    case None
    with assms(6) have s1: "s1 = s" and nob: "\<not> list_ex (is_bound_plan sid (sg_goal_id ?b)) (ss_plans s)"
      using b(3) by (auto simp: rollback_plan_def split: if_splits)
    have "plan_of sid s = None"
    proof (rule ccontr)
      assume "plan_of sid s \<noteq> None"
      then obtain p where p: "plan_of sid s = Some p" by auto
      from wf_coupled [OF assms(3) cur p unf] g(2) have "sp_goal_id p = Some (sg_goal_id ?b)"
        by (simp add: coupled_def)
      moreover have "p \<in> set (ss_plans s)" "sp_session_id p = sid"
        using p by (auto simp: plan_of_lookup dest: lookup_SomeD)
      ultimately show False using nob by (auto simp: list_ex_iff is_bound_plan_def)
    qed
    moreover have "plan_of sid s0 = None"
    proof (rule ccontr)
      assume "plan_of sid s0 \<noteq> None"
      then obtain p where p: "plan_of sid s0 = Some p" by auto
      from wf_coupled [OF assms(1) b(1) p b(2)] have "find_bound_plan s0 sid (sg_goal_id ?b) = Some p"
        using p by (simp add: find_bound_plan_of session_wfD(1) [OF assms(1)] coupled_def)
      with None assms(2) show False by (simp add: checkpoint_of_def)
    qed
    ultimately show ?thesis
      using set_goal_view [OF session_wfD(1) [OF assms(3)] assms(4), of ?b] sid b(3) s1 v0 ends
      by (simp add: rolls_back_def)
  next
    case (Some p0)
    with assms(2) have p0: "plan_of sid s0 = Some p0"
      by (auto simp: checkpoint_of_def find_bound_plan_of [OF session_wfD(1) [OF assms(1)]]
            split: option.splits if_splits)
    let ?samep = "\<lambda>p. sp_plan_id p = sp_plan_id p0"
    from assms(6) Some obtain p where p: "find ?samep (ss_plans s) = Some p"
      and s1: "s1 = set_plan ?samep (\<lambda>_. p0) s"
      by (auto simp: rollback_plan_def Let_def split: option.splits if_splits)
    have "plan_named p" "plan_named p0"
      using wf_plan(1) [OF assms(3), of p] find_SomeD [OF p] wf_plan(1) [OF assms(1), of p0] p0
      by (auto simp: plan_consistent_def plan_of_lookup dest: lookup_SomeD)
    then have "sp_session_id p = sp_session_id p0" using find_SomeD [OF p] plan_id_session by blast
    with plan_of_session [OF p0] have psid: "sp_session_id p = sid" "sp_session_id p0 = sid" by simp_all
    note set1 = set_found_plan_view [OF session_wfD(1) [OF assms(3)] p, of p0]
    have "find ?same (ss_goals s1) = Some g" using assms(4) s1 by simp
    note set2 = set_goal_view [OF _ this, of ?b]
    have "plan_of sid s1 = Some p0"
      using set1(1) psid s1 view_plan [of s1 sid] by simp
    with set1 set2 psid sid b(3) s1 v0 p0 ends show ?thesis by (simp add: rolls_back_def)
  qed
qed

lemma rolls_back_wf: "rolls_back sid s0 s s' \<Longrightarrow> session_wf s0 \<Longrightarrow> session_wf s \<Longrightarrow> session_wf s'"
  by (auto simp: rolls_back_def session_wf_def)

lemma rollback_goal_resume_effect:
  assumes "session_wf s0" "checkpoint_of k sid s0" "session_wf s" "rollback_goal_resume k s = (r, s')"
  shows "(r = Inr () \<longrightarrow> rolls_back sid s0 s s') \<and> (r \<noteq> Inr () \<longrightarrow> s' = s)"
proof (cases r)
  case (Inl e)
  with assms(4) show ?thesis
    by (auto simp: rollback_goal_resume_def Let_def split: option.splits sum.splits if_splits)
next
  case (Inr u)
  with assms(4) obtain g s1 where
      g: "find (\<lambda>g. sg_goal_id g = sg_goal_id (gk_goal_before k)) (ss_goals s) = Some g"
         "sg_status g = GoalActive"
    and s1: "rollback_plan (rejected ConcurrentModification) (rejected ConcurrentModification)
        (gk_goal_before k) (gk_plan_before k) (gk_applied_plan_revision k) s = Inr s1"
    and s': "s' = reconcile_goal_time_used (reconcile_goal_token_usage
        (set_goal (\<lambda>g. sg_goal_id g = sg_goal_id (gk_goal_before k)) (gk_goal_before k) s1))"
    by (auto simp: rollback_goal_resume_def Let_def split: option.splits sum.splits if_splits)
  from rollback_plan_effect [OF assms(1-3) g s1] show ?thesis
    using Inr by (simp add: rolls_back_def s')
qed

lemma rollback_interrupted_effect:
  assumes "session_wf s0" "checkpoint_of k sid s0" "session_wf s"
    "rollback_interrupted_goal_resume k s = (r, s')"
  shows "(r = Inr () \<longrightarrow> rolls_back sid s0 s s') \<and> (r \<noteq> Inr () \<longrightarrow> s' = s)"
proof (cases r)
  case (Inl e)
  with assms(4) show ?thesis
    by (auto simp: rollback_interrupted_goal_resume_def Let_def split: option.splits sum.splits if_splits)
next
  case (Inr u)
  with assms(4) obtain g s1 where
      g: "find (\<lambda>g. sg_goal_id g = sg_goal_id (gk_goal_before k)) (ss_goals s) = Some g"
         "gc_phase (sg_continuation g) = ContinuationRunning"
    and s1: "rollback_plan (InvalidState (PlanError ResumedPlanChanged)) (InvalidState (PlanError ResumedPlanAppeared))
        (gk_goal_before k) (gk_plan_before k) (gk_applied_plan_revision k) s = Inr s1"
    and s': "s' = reconcile_goal_time_used
        (set_goal (\<lambda>g. sg_goal_id g = sg_goal_id (gk_goal_before k)) (gk_goal_before k) s1)"
    by (auto simp: rollback_interrupted_goal_resume_def Let_def split: option.splits sum.splits if_splits)
  have "goal_consistent g" using wf_goal(1) [OF assms(3)] find_SomeD [OF g(1)] by blast
  with g(2) have "sg_status g = GoalActive" by (simp add: goal_consistent_def)
  from rollback_plan_effect [OF assms(1-3) g(1) this s1] show ?thesis
    using Inr by (simp add: rolls_back_def s')
qed

section \<open>Loading a persisted state\<close>

definition reload :: "session_state \<Rightarrow> session_state" where
  "reload s =
     (let (gs, ps) = load_goals_and_plans (ss_goals s) (ss_plans s) in s\<lparr>ss_goals := gs, ss_plans := ps\<rparr>)"

lemma lookup_same_set:
  assumes "keys_once key xs" "set ys = set xs" "keys_once key ys"
  shows "lookup key ys k = lookup key xs k"
proof (cases "lookup key xs k")
  case None
  with assms(2) have "lookup key ys k = None" by (simp add: lookup_None_iff)
  with None show ?thesis by simp
next
  case (Some x)
  then have "x \<in> set ys" "key x = k" using lookup_SomeD assms(2) by fastforce+
  with lookup_in_set [OF assms(3)] Some show ?thesis by auto
qed

lemma filter_key_single:
  "keys_once key xs \<Longrightarrow> x \<in> set xs \<Longrightarrow> filter (\<lambda>y. key y = key x) xs = [x]"
proof (induction xs)
  case (Cons y ys)
  show ?case
  proof (cases "x = y")
    case True
    with Cons.prems have "filter (\<lambda>z. key z = key x) ys = []" by (auto simp: filter_empty_conv image_iff)
    with True show ?thesis by simp
  next
    case False
    with Cons show ?thesis by auto
  qed
qed simp

lemma normalize_goals_sorted:
  assumes "keys_once sg_session_id gs" "\<And>g. g \<in> set gs \<Longrightarrow> sg_control_revision g \<noteq> 0"
  shows "normalize_session_goals gs = sort_key (\<lambda>g. session_id_str (sg_session_id g)) gs"
proof -
  have pos: "map positive_revision gs = gs"
    by (rule map_idI) (simp add: positive_revision_def assms(2))
  have new: "newest_goal (filter (\<lambda>h. sg_session_id h = sg_session_id g) gs) = Some g" if "g \<in> set gs" for g
    using filter_key_single [OF assms(1) that] by (simp add: newest_goal_def)
  have "List.map_filter (\<lambda>sid. newest_goal (filter (\<lambda>g. sg_session_id g = sid) gs)) (map sg_session_id hs) = hs"
    if "set hs \<subseteq> set gs" for hs
    using that by (induction hs) (auto simp: map_filter_simps new)
  then have "List.map_filter (\<lambda>sid. newest_goal (filter (\<lambda>g. sg_session_id g = sid) gs)) (map sg_session_id gs) = gs"
    by simp
  with assms(1) show ?thesis by (simp add: normalize_session_goals_def Let_def pos distinct_remdups_id)
qed

lemma normalize_plan_id: "plan_consistent p \<Longrightarrow> normalize_plan p = p"
proof -
  assume p: "plan_consistent p"
  then obtain n where n: "sp_plan_id p = PlanId (''plan-'' @ session_id_str (sp_session_id p) @ ''-'' @ dec_of_nat n)"
    by (auto simp: plan_consistent_def plan_named_def)
  have "\<not> is_blank (plan_id_str (sp_plan_id p))"
    unfolding n by (rule not_blank_char [of "CHR ''p''"]) (simp_all add: utf8_whitespace_def)
  moreover have "map (\<lambda>(index, i). normalize_item (sp_plan_id p) index i) (enumerate n items) = items"
    if "\<forall>i \<in> set items. \<not> is_blank (plan_item_id_str (pi_item_id i))" for n items
    using that by (induction items arbitrary: n) (auto simp: normalize_item_def)
  ultimately show ?thesis
    using p by (simp add: normalize_plan_def Let_def plan_consistent_def plan_normal_def)
qed

lemma bind_plans_id:
  assumes "\<And>p g. p \<in> set ps \<Longrightarrow> find (\<lambda>g. sg_session_id g = sp_session_id p) gs = Some g \<Longrightarrow>
      sp_goal_id p \<noteq> None \<or> is_unfinished (sg_status g) \<Longrightarrow> sp_goal_id p = Some (sg_goal_id g)"
  shows "bind_unfinished_goal_plans gs ps = ps"
  unfolding bind_unfinished_goal_plans_def
  by (rule map_idI) (use assms in \<open>auto split: option.splits\<close>)

definition reloaded_goal :: "session_plan list \<Rightarrow> session_goal \<Rightarrow> session_goal" where
  "reloaded_goal ps g =
     (case find (is_bound_plan (sg_session_id g) (sg_goal_id g)) ps of
        None \<Rightarrow> g
      | Some p \<Rightarrow> if sg_status g = GoalActive \<and> sp_state p \<noteq> PlanActive then pause_on_load p g else g)"

lemma control_states_id:
  assumes "\<And>g p. g \<in> set gs \<Longrightarrow> is_unfinished (sg_status g) \<Longrightarrow> sg_status g \<noteq> GoalActive \<Longrightarrow>
      find (is_bound_plan (sg_session_id g) (sg_goal_id g)) ps = Some p \<Longrightarrow> sp_state p \<noteq> PlanActive"
  shows "normalize_goal_plan_control_states gs ps = (map (reloaded_goal ps) gs, ps)"
  using assms
proof (induction gs)
  case (Cons g gs)
  have "normalize_goal_plan_control_states gs ps = (map (reloaded_goal ps) gs, ps)"
    using Cons.prems by (intro Cons.IH) (auto intro: Cons.prems)
  moreover have "sg_status g = GoalActive \<Longrightarrow> is_unfinished (sg_status g)" by (simp add: is_unfinished_def)
  ultimately show ?case
    using Cons.prems [of g] by (auto simp: Let_def reloaded_goal_def split: option.splits)
qed simp

lemma reload_eq:
  assumes "session_wf s"
  shows "reload s = s\<lparr>ss_goals := map (reloaded_goal (ss_plans s))
      (sort_key (\<lambda>g. session_id_str (sg_session_id g)) (ss_goals s))\<rparr>"
proof -
  let ?gs = "sort_key (\<lambda>g. session_id_str (sg_session_id g)) (ss_goals s)"
  note shape = session_wfD(1) [OF assms]
  have goals: "normalize_session_goals (ss_goals s) = ?gs"
    using wf_goal(1) [OF assms] shape_keys(1) [OF shape]
    by (intro normalize_goals_sorted) (auto simp: goal_consistent_def)
  have plans: "normalize_session_plans (ss_plans s) = ss_plans s"
    unfolding normalize_session_plans_def by (rule map_idI) (simp add: normalize_plan_id wf_plan(1) [OF assms])
  have look: "lookup sg_session_id ?gs k = current_goal k s" for k
    unfolding current_goal_lookup
    using shape_keys(1) [OF shape] by (intro lookup_same_set) (simp_all add: distinct_map)
  have bind: "bind_unfinished_goal_plans ?gs (ss_plans s) = ss_plans s"
  proof (rule bind_plans_id)
    fix p g
    assume p: "p \<in> set (ss_plans s)" and "find (\<lambda>g. sg_session_id g = sp_session_id p) ?gs = Some g"
      and cond: "sp_goal_id p \<noteq> None \<or> is_unfinished (sg_status g)"
    then have g: "current_goal (sp_session_id p) s = Some g" using look by (simp add: lookup_def)
    note plan = wf_plan(2) [OF assms p]
    show "sp_goal_id p = Some (sg_goal_id g)"
    proof (cases "is_unfinished (sg_status g)")
      case True
      with wf_coupled [OF assms g plan] show ?thesis by (simp add: coupled_def)
    next
      case False
      with cond obtain gid where gid: "sp_goal_id p = Some gid" by auto
      with wf_plan_goal [OF assms plan gid] g show ?thesis by simp
    qed
  qed
  have "normalize_goal_plan_control_states ?gs (ss_plans s) = (map (reloaded_goal (ss_plans s)) ?gs, ss_plans s)"
  proof (rule control_states_id)
    fix g p
    assume g: "g \<in> set ?gs" "is_unfinished (sg_status g)" "sg_status g \<noteq> GoalActive"
      and p: "find (is_bound_plan (sg_session_id g) (sg_goal_id g)) (ss_plans s) = Some p"
    have plan: "plan_of (sg_session_id g) s = Some p"
      using find_bound_plan_of [OF shape, of "sg_session_id g" "sg_goal_id g"] p
      by (auto simp: find_bound_plan_def split: option.splits if_splits)
    have "g \<in> set (ss_goals s)" using g(1) by simp
    from wf_coupled [OF assms wf_goal(2) [OF assms this] plan g(2)] g(3) show "sp_state p \<noteq> PlanActive"
      by (simp add: coupled_def)
  qed
  with goals plans bind show ?thesis by (simp add: reload_def load_goals_and_plans_def Let_def)
qed

lemma reload_moves:
  assumes "session_wf s"
  shows "moves s (reload s)"
proof -
  let ?t = "s\<lparr>ss_goals := sort_key (\<lambda>g. session_id_str (sg_session_id g)) (ss_goals s)\<rparr>"
  note shape = session_wfD(1) [OF assms]
  have view: "session_view ?t = session_view s"
    using shape_keys(1) [OF shape]
    by (intro ext) (auto simp: session_view_def current_goal_lookup plan_of_lookup distinct_map
        intro!: arg_cong [where f = "map_option goal_control"] lookup_same_set)
  have shape': "session_shape ?t"
    using shape by (auto simp: session_shape_def distinct_map)
  have wf': "session_wf ?t" using assms view shape' by (simp add: session_wf_def)
  have "moves ?t (?t\<lparr>ss_goals := map (reloaded_goal (ss_plans s)) (ss_goals ?t)\<rparr>)"
  proof (rule moves_goals_in [OF shape'])
    show "sg_session_id (reloaded_goal (ss_plans s) g) = sg_session_id g" for g
      by (simp add: reloaded_goal_def pause_on_load_def split: option.splits)
    fix g
    assume "g \<in> set (ss_goals ?t)"
    then have g: "g \<in> set (ss_goals s)" by simp
    show "reloaded_goal (ss_plans s) g = g
      \<or> pair_move (Some (goal_control g), plan_of (sg_session_id g) ?t)
          (Some (goal_control (reloaded_goal (ss_plans s) g)), plan_of (sg_session_id g) ?t)"
    proof (cases "reloaded_goal (ss_plans s) g = g")
      case False
      then obtain p where p: "find (is_bound_plan (sg_session_id g) (sg_goal_id g)) (ss_plans s) = Some p"
        and st: "sg_status g = GoalActive" "sp_state p \<noteq> PlanActive"
        and eq: "reloaded_goal (ss_plans s) g = pause_on_load p g"
        by (auto simp: reloaded_goal_def split: option.splits if_splits)
      have plan: "plan_of (sg_session_id g) s = Some p"
        using find_bound_plan_of [OF shape, of "sg_session_id g" "sg_goal_id g"] p
        by (auto simp: find_bound_plan_def split: option.splits if_splits)
      have "coupled g p" using wf_coupled [OF assms wf_goal(2) [OF assms g] plan] st by (simp add: is_unfinished_def)
      moreover have "plan_consistent p" using wf_plan(1) [OF assms] plan
        by (auto simp: plan_of_lookup dest: lookup_SomeD)
      ultimately have "sp_state p = PlanCompleted"
        using st by (cases "sp_state p") (auto simp: coupled_def plan_consistent_def)
      then have "pair_move (Some (goal_control g), Some p) (Some (goal_control (pause_on_load p g)), Some p)"
        using st by (intro move_reload) (auto simp: pause_on_load_def next_revision_def intro!: same_goalI)
      with eq plan show ?thesis by (simp add: plan_of_def)
    qed simp
  qed
  then have "moves ?t (reload s)" using reload_eq [OF assms] by simp
  with view show ?thesis by (simp add: moves_def)
qed

end
