(* ===== verification/PlanContent.thy ===== *)
theory PlanContent
  imports SessionReload
begin

text \<open>
  The plans the protocol operations compute from a snapshot are consistent when the snapshot is,
  so every protocol operation moves its session as the abstract machine allows, whatever state
  the write meets.
\<close>

section \<open>Derived states\<close>

lemma derive_plan_state_cases:
  assumes "derive_plan_state items = Inr st"
  shows "(st = PlanCompleted \<and> list_all item_finished items)
    \<or> (st = PlanActive \<and> running_count items = 1)
    \<or> (st = PlanPaused \<and> running_count items = 0 \<and> list_ex (\<lambda>i. pi_status i = ItemBlocked) items)"
  using assms by (auto simp: derive_plan_state_def Let_def running_count_def split: if_splits)

lemma derived_state_ok:
  assumes "derive_plan_state items = Inr st"
  shows "running_count items \<le> 1 \<and> (st = PlanActive \<longrightarrow> running_count items = 1)
    \<and> (st = PlanCompleted \<longrightarrow> list_all item_finished items) \<and> st \<noteq> PlanCanceled"
  using derive_plan_state_cases [OF assms] by (auto simp: all_finished_count)

section \<open>The items of an update\<close>

lemma scan_Cons:
  assumes "scan_plan_items n r ids (i # rest) = Inr m"
  defines "r' \<equiv> if ui_status i = ItemInProgress then r + 1 else r"
  shows "case ui_item_id i of
      None \<Rightarrow> scan_plan_items (n + 1) r' ids rest = Inr m
    | Some k \<Rightarrow> \<not> is_blank k \<and> k \<notin> set ids \<and> scan_plan_items (n + 1) r' (k # ids) rest = Inr m"
  using assms(1)
  by (auto simp: Let_def r'_def validate_item_id_def is_blank_def split: if_splits option.splits)

lemma scan_item_ids:
  "scan_plan_items n r ids items = Inr m \<Longrightarrow> i \<in> set items \<Longrightarrow> ui_item_id i = Some k \<Longrightarrow>
   \<not> is_blank k \<and> k \<notin> set ids"
proof (induction items arbitrary: n r ids)
  case (Cons a rest)
  note step = scan_Cons [OF Cons.prems(1)]
  show ?case
  proof (cases "i = a")
    case True
    with step Cons.prems(3) show ?thesis by simp
  next
    case False
    with Cons.prems have i: "i \<in> set rest" by simp
    show ?thesis
    proof (cases "ui_item_id a")
      case None
      with step Cons.IH [OF _ i Cons.prems(3)] show ?thesis by simp
    next
      case (Some j)
      with step Cons.IH [OF _ i Cons.prems(3), of "n + 1" _ "j # ids"] show ?thesis by auto
    qed
  qed
qed simp

lemma scan_running:
  "scan_plan_items n r ids items = Inr m \<Longrightarrow> m = r + length (filter (\<lambda>i. ui_status i = ItemInProgress) items)"
proof (induction items arbitrary: n r ids)
  case (Cons a rest)
  with scan_Cons [OF Cons.prems] show ?case by (cases "ui_item_id a") fastforce+
qed simp

lemma normalized_items:
  "normalize_plan_items_from n creating pid inputs = Inr items \<Longrightarrow>
   length items = length inputs \<and> map pi_status items = map ui_status inputs
   \<and> (\<forall>i \<in> set items. (\<exists>u \<in> set inputs. ui_item_id u = Some (plan_item_id_str (pi_item_id i)))
         \<or> (creating \<and> (\<exists>m. plan_item_id_str (pi_item_id i) = plan_id_str pid @ ''-item-'' @ dec_of_nat m)))"
proof (induction n creating pid inputs arbitrary: items rule: normalize_plan_items_from.induct)
  case (2 n creating pid i inputs)
  show ?case
  proof (cases "ui_item_id i")
    case None
    with "2.prems" obtain items' where c: "creating"
      and tail: "normalize_plan_items_from (n + 1) creating pid inputs = Inr items'"
      and eq: "items = \<lparr>pi_item_id = PlanItemId (plan_id_str pid @ ''-item-'' @ dec_of_nat n),
          pi_title = str_trim (ui_step i), pi_status = ui_status i\<rparr> # items'"
      by (auto simp: Let_def map_sum_Inr_iff split: if_splits)
    from "2.IH"(1) [OF refl None c tail] c show ?thesis unfolding eq by auto
  next
    case (Some k)
    with "2.prems" obtain items' where
      tail: "normalize_plan_items_from n creating pid inputs = Inr items'"
      and eq: "items = \<lparr>pi_item_id = PlanItemId k, pi_title = str_trim (ui_step i),
          pi_status = ui_status i\<rparr> # items'"
      by (auto simp: Let_def map_sum_Inr_iff)
    from "2.IH"(2) [OF refl Some tail] Some show ?thesis unfolding eq by auto
  qed
qed simp

lemma item_id_not_blank: "\<not> is_blank (s @ ''-item-'' @ t)"
  by (rule not_blank_char [of "CHR ''i''"]) (simp_all add: utf8_whitespace_def)

section \<open>An update\<close>

definition snapshot_ok :: "session_id \<Rightarrow> session_plan option \<Rightarrow> bool" where
  "snapshot_ok sid current \<longleftrightarrow> (\<forall>p. current = Some p \<longrightarrow> plan_consistent p \<and> sp_session_id p = sid)"

lemma wf_snapshot: "session_wf s \<Longrightarrow> snapshot_ok sid (plan_of sid s)"
  by (auto simp: snapshot_ok_def dest: plan_of_session intro: wf_plan(1)
      simp: plan_of_lookup dest!: lookup_SomeD)

text \<open>The checks an accepted update passed, and the plan it computes.\<close>

lemma next_plan_cases:
  assumes "next_plan sid input tid now now2 current = Inr p"
  obtains items st running where
    "validate_language (up_language input) = Inr ()"
    "up_plan input \<noteq> []" "length (up_plan input) \<le> max_plan_items"
    "scan_plan_items 0 0 [] (up_plan input) = Inr running" "running \<le> 1"
    "current = None \<Longrightarrow> \<not> list_ex (\<lambda>i. input_finished i \<or> ui_status i = ItemBlocked) (up_plan input)"
    "validate_plan_identity current input = Inr ()"
    "normalize_plan_items current (sp_plan_id p) (up_plan input) = Inr items"
    "validate_status_transitions current items = Inr ()"
    "derive_plan_state items = Inr st"
    "p = \<lparr>sp_plan_id = (case current of None \<Rightarrow> fresh_plan_id sid now | Some c \<Rightarrow> sp_plan_id c),
          sp_session_id = sid,
          sp_goal_id = (case Option.bind current sp_goal_id of
              Some g \<Rightarrow> Some g | None \<Rightarrow> map_option GoalId (up_expected_goal_id input)),
          sp_revision = (case current of None \<Rightarrow> 1 | Some c \<Rightarrow> sp_revision c),
          sp_language = up_language input, sp_state = st, sp_items = items,
          sp_task_bindings = bind_caller tid items (kept_bindings current items),
          sp_updated_at = now2\<rparr>"
proof -
  let ?pid = "case current of None \<Rightarrow> fresh_plan_id sid now | Some c \<Rightarrow> sp_plan_id c"
  from assms obtain items st where
      lang: "validate_language (up_language input) = Inr ()"
    and its: "validate_plan_items (up_plan input) (current = None) = Inr ()"
    and ident: "validate_plan_identity current input = Inr ()"
    and norm: "normalize_plan_items current ?pid (up_plan input) = Inr items"
    and trans: "validate_status_transitions current items = Inr ()"
    and der: "derive_plan_state items = Inr st"
    and p: "p = \<lparr>sp_plan_id = ?pid, sp_session_id = sid,
          sp_goal_id = (case Option.bind current sp_goal_id of
              Some g \<Rightarrow> Some g | None \<Rightarrow> map_option GoalId (up_expected_goal_id input)),
          sp_revision = (case current of None \<Rightarrow> 1 | Some c \<Rightarrow> sp_revision c),
          sp_language = up_language input, sp_state = st, sp_items = items,
          sp_task_bindings = bind_caller tid items (kept_bindings current items),
          sp_updated_at = now2\<rparr>"
    unfolding next_plan_def Let_def by (auto split: sum.splits)
  from its obtain running where "up_plan input \<noteq> []" "length (up_plan input) \<le> max_plan_items"
    "scan_plan_items 0 0 [] (up_plan input) = Inr running" "running \<le> 1"
    "current = None \<Longrightarrow> \<not> list_ex (\<lambda>i. input_finished i \<or> ui_status i = ItemBlocked) (up_plan input)"
    by (auto simp: validate_plan_items_def split: if_splits sum.splits)
  moreover have "normalize_plan_items current (sp_plan_id p) (up_plan input) = Inr items"
    using norm p by simp
  ultimately show thesis using that lang ident trans der p by blast
qed

lemma kept_bindings_ok:
  assumes "snapshot_ok sid current"
  shows "hdistinct (kept_bindings current items)"
    and "set (hvalues (kept_bindings current items)) \<subseteq> pi_item_id ` set items"
  using assms by (auto simp: kept_bindings_def snapshot_ok_def plan_consistent_def hvalues_def hretain_def
      split: option.splits intro: hdistinct_hretain [unfolded hretain_def])

lemma hvalues_hput: "set (hvalues (hput k v m)) \<subseteq> insert v (set (hvalues m))"
proof
  fix x
  assume "x \<in> set (hvalues (hput k v m))"
  then show "x \<in> insert v (set (hvalues m))"
    by (induction m) (auto simp: hvalues_def split: if_splits)
qed

lemma hvalues_hremove: "set (hvalues (hremove k m)) \<subseteq> set (hvalues m)"
  by (auto simp: hvalues_def AList.delete_eq)

lemma running_item_in: "running_item items = Some k \<Longrightarrow> k \<in> pi_item_id ` set items"
  by (auto simp: running_item_def dest: find_SomeD)

lemma bind_caller_ok:
  assumes "hdistinct m" "set (hvalues m) \<subseteq> pi_item_id ` set items"
  shows "hdistinct (bind_caller tid items m)"
    and "set (hvalues (bind_caller tid items m)) \<subseteq> pi_item_id ` set items"
  using assms hvalues_hput [of _ _ m] running_item_in [of items]
  by (fastforce simp: bind_caller_def split: option.splits)+

lemma next_plan_consistent:
  assumes "next_plan sid input tid now now2 current = Inr p" "snapshot_ok sid current"
  shows "plan_consistent p \<and> sp_session_id p = sid"
  using assms(1)
proof (cases rule: next_plan_cases)
  case (1 items st running)
  have norm: "normalize_plan_items_from 1 (current = None) (sp_plan_id p) (up_plan input) = Inr items"
    using 1(8) by (simp add: normalize_plan_items_def)
  note n = normalized_items [OF norm]
  have "plan_named p"
    using assms(2) 1(11)
    by (cases current) (auto simp: plan_named_def fresh_plan_id_def snapshot_ok_def plan_consistent_def)
  moreover have "\<not> is_blank (plan_item_id_str (pi_item_id i))" if i: "i \<in> set items" for i
    using n i scan_item_ids [OF 1(4)] item_id_not_blank by metis
  then have "plan_normal p"
    using assms(2) 1(1,11)
    by (cases current)
       (auto simp: plan_normal_def snapshot_ok_def plan_consistent_def validate_language_def is_blank_def
          split: if_splits)
  moreover have "items \<noteq> []" using n 1(2) by auto
  moreover note derived_state_ok [OF 1(10)] kept_bindings_ok [OF assms(2), of items]
    bind_caller_ok [OF kept_bindings_ok [OF assms(2), of items], of tid]
  ultimately show ?thesis unfolding plan_consistent_def using 1(11) by simp
qed

section \<open>The other operations\<close>

lemma paused_snapshot: "plan_consistent p \<Longrightarrow> plan_consistent (p\<lparr>sp_state := PlanPaused\<rparr>)"
  by (simp add: plan_consistent_def plan_named_def plan_normal_def)

lemma resumed_snapshot:
  assumes "plan_consistent p" "derive_plan_state (start_next_item (sp_items p)) = Inr st"
  shows "plan_consistent (p\<lparr>sp_items := start_next_item (sp_items p), sp_state := st\<rparr>)"
  using assms(1) derived_state_ok [OF assms(2)] ids_normal [OF start_next_ids, of "sp_items p"]
  by (simp add: plan_consistent_def plan_named_def plan_normal_def start_next_ids)

lemma bound_snapshot:
  assumes "plan_consistent p" "find_item k (sp_items p) \<noteq> None"
  shows "plan_consistent (p\<lparr>sp_task_bindings := hput tid k (sp_task_bindings p)\<rparr>)"
proof -
  have "k \<in> pi_item_id ` set (sp_items p)"
    using assms(2) by (auto simp: find_item_def dest: find_SomeD)
  with assms(1) hvalues_hput [of tid k "sp_task_bindings p"] show ?thesis
    by (auto simp: plan_consistent_def plan_named_def plan_normal_def)
qed

lemma unbound_snapshot:
  "plan_consistent p \<Longrightarrow> plan_consistent (p\<lparr>sp_task_bindings := hremove tid (sp_task_bindings p)\<rparr>)"
  using hvalues_hremove [of tid "sp_task_bindings p"]
  by (auto simp: plan_consistent_def plan_named_def plan_normal_def)

text \<open>
  On a paused plan the state is not derived again, so the new status of the item must not add a
  second item in progress: a terminal task status never does, and neither does a task whose
  item is in progress or blocked.
\<close>

definition sync_safe :: "plan_task_authority \<Rightarrow> task_status \<Rightarrow> plan_item_id \<Rightarrow> session_plan \<Rightarrow> bool" where
  "sync_safe authority st k p \<longleftrightarrow>
     sp_state p \<noteq> PlanPaused \<or> authority = Supporting \<or> is_terminal_status st
     \<or> (\<forall>i. find_item k (sp_items p) = Some i \<longrightarrow> pi_status i = ItemInProgress \<or> pi_status i = ItemBlocked)"

lemma settle_item_ids: "pi_item_id ` set (settle_item authority k st items) = pi_item_id ` set items"
  by (simp add: settle_item_def update_first_ids)

lemma settle_item_Nil_iff [simp]: "settle_item authority k st items = [] \<longleftrightarrow> items = []"
  by (simp add: settle_item_def)

lemma advance_items_ids: "pi_item_id ` set (advance_items items) = pi_item_id ` set items"
  by (simp add: advance_items_def update_first_ids)

lemma advance_items_Nil_iff [simp]: "advance_items items = [] \<longleftrightarrow> items = []"
  by (simp add: advance_items_def)

lemma update_found_count:
  assumes "\<And>i. find P items = Some i \<Longrightarrow> item_running (f i) \<Longrightarrow> item_running i"
  shows "running_count (update_first P f items) \<le> running_count items"
  using assms by (induction items) auto

lemma terminal_not_running: "is_terminal_status st \<Longrightarrow> plan_item_status_from_owner_task st \<noteq> ItemInProgress"
  by (cases st) (simp_all add: plan_item_status_from_owner_task_def is_terminal_status_def)

lemma settle_item_count:
  assumes "sync_safe authority st k p" "sp_state p = PlanPaused"
  shows "running_count (settle_item authority k st (sp_items p)) \<le> running_count (sp_items p)"
proof (cases "authority = PhaseOwner")
  case True
  have "running_count (update_first (\<lambda>i. pi_item_id i = k)
      (\<lambda>i. if pi_status i = ItemBlocked then i else i\<lparr>pi_status := plan_item_status_from_owner_task st\<rparr>)
      (sp_items p)) \<le> running_count (sp_items p)"
    by (rule update_found_count)
       (use assms True terminal_not_running [of st] in
        \<open>auto simp: sync_safe_def find_item_def item_running_iff split: if_splits\<close>)
  with True show ?thesis by (simp add: settle_item_def)
next
  case False
  then show ?thesis by (simp add: settle_item_def)
qed

lemma synced_consistent:
  assumes "synced_plan authority tid st k p = Inr q" "plan_consistent p" "sync_safe authority st k p"
  shows "plan_consistent q \<and> sp_session_id q = sp_session_id p"
proof -
  define p1 where "p1 = (if is_terminal_status st
      then p\<lparr>sp_task_bindings := hremove tid (sp_task_bindings p)\<rparr> else p)"
  have p1: "plan_consistent p1" "sp_items p1 = sp_items p" "sp_state p1 = sp_state p"
    "sp_session_id p1 = sp_session_id p"
    using assms(2) unbound_snapshot [of p tid] by (simp_all add: p1_def)
  let ?items = "settle_item authority k st (sp_items p)"
  note ids = ids_normal [OF settle_item_ids [of authority k st "sp_items p"]]
    ids_normal [OF advance_items_ids [of ?items]]
  show ?thesis
  proof (cases "sp_state p = PlanPaused")
    case True
    with assms(1) p1 have q: "q = p1\<lparr>sp_items := ?items\<rparr>"
      by (simp add: synced_plan_def Let_def p1_def [symmetric])
    have "running_count ?items \<le> 1"
      using settle_item_count [OF assms(3) True] assms(2) by (simp add: plan_consistent_def)
    with p1 True show ?thesis
      unfolding q plan_consistent_def plan_named_def plan_normal_def using ids by (simp add: settle_item_ids)
  next
    case False
    with assms(1) p1 obtain state where der: "derive_plan_state (advance_items ?items) = Inr state"
      and q: "q = p1\<lparr>sp_items := advance_items ?items, sp_state := state\<rparr>"
      by (auto simp: synced_plan_def Let_def p1_def [symmetric] map_sum_Inr_iff)
    from p1 derived_state_ok [OF der] show ?thesis
      unfolding q plan_consistent_def plan_named_def plan_normal_def using ids
      by (simp add: settle_item_ids advance_items_ids)
  qed
qed

section \<open>Every protocol operation refines the machine\<close>

lemma snd_lift_store [simp]: "snd (lift_store r) = snd r"
  by (simp add: lift_store_def)

lemma upsert_plan_moves:
  "session_wf s \<Longrightarrow> plan_consistent plan \<Longrightarrow> moves_at sid s (snd (upsert_plan sid plan expected now s))"
  unfolding upsert_plan_def by (rule upsert_moves) (simp_all add: session_wfD)

lemma snapshot_consistent: "session_wf s0 \<Longrightarrow> plan_of sid s0 = Some p \<Longrightarrow> plan_consistent p"
  using wf_snapshot [of s0 sid] by (simp add: snapshot_ok_def)

lemma wf_moves_refl: "session_wf s \<Longrightarrow> moves_at sid s s"
  by (rule moves_at_refl) (rule session_wfD)

lemma update_for_task_moves:
  assumes "session_wf s0" "session_wf s"
  shows "moves_at sid s (snd (update_for_task sid input tid now now2 now3 s0 s))"
proof (cases "next_plan sid input tid now now2 (plan_of sid s0)")
  case (Inl e)
  then show ?thesis using assms(2) by (simp add: update_for_task_def wf_moves_refl)
next
  case (Inr p)
  with next_plan_consistent [OF Inr wf_snapshot [OF assms(1)]] assms(2) show ?thesis
    by (simp add: update_for_task_def upsert_plan_for_goal_progress_def upsert_moves session_wfD)
qed

lemma plan_pause_moves:
  assumes "session_wf s0" "session_wf s"
  shows "moves_at sid s (snd (plan_pause sid now s0 s))"
  using assms snapshot_consistent [OF assms(1), of sid]
  by (auto simp: plan_pause_def wf_moves_refl paused_snapshot intro!: upsert_plan_moves split: option.splits)

lemma plan_resume_moves:
  assumes "session_wf s0" "session_wf s"
  shows "moves_at sid s (snd (plan_resume sid now s0 s))"
  using assms snapshot_consistent [OF assms(1), of sid]
  by (auto simp: plan_resume_def Let_def wf_moves_refl resumed_snapshot intro!: upsert_plan_moves
      split: option.splits sum.splits)

lemma bind_from_snapshot_moves:
  assumes "plan_consistent p" "session_wf s"
  shows "moves_at sid s (snd (bind_task_from_snapshot sid p tid k now s))"
  using assms
  by (auto simp: bind_task_from_snapshot_def wf_moves_refl bound_snapshot intro!: upsert_plan_moves
      split: option.splits)

lemma bind_task_moves:
  assumes "session_wf s0" "session_wf s"
  shows "moves_at sid s (snd (bind_task sid tid k now s0 s))"
    and "moves_at sid s (snd (bind_task_for_materialization sid tid k now s0 s))"
  using assms snapshot_consistent [OF assms(1), of sid]
  by (auto simp: bind_task_def bind_task_for_materialization_def wf_moves_refl bind_from_snapshot_moves
      split: option.splits)

lemma unbind_task_moves:
  assumes "session_wf s0" "session_wf s"
  shows "moves_at sid s (snd (unbind_task sid tid now s0 s))"
  using assms snapshot_consistent [OF assms(1), of sid]
  by (auto simp: unbind_task_def wf_moves_refl unbound_snapshot intro!: upsert_plan_moves split: option.splits)

lemma sync_task_moves:
  assumes "session_wf s0" "session_wf s"
    "\<And>p k. plan_of sid s0 = Some p \<Longrightarrow> hget (sp_task_bindings p) tid = Some k \<Longrightarrow> sync_safe authority st k p"
  shows "moves_at sid s (snd (sync_task_status_with_authority sid tid st authority now s0 s))"
proof (cases "plan_of sid s0")
  case None
  with assms(2) show ?thesis by (simp add: sync_task_status_with_authority_def wf_moves_refl)
next
  case (Some p)
  note ok = snapshot_consistent [OF assms(1) Some]
  show ?thesis
  proof (cases "hget (sp_task_bindings p) tid")
    case None
    with Some assms(2) show ?thesis by (simp add: sync_task_status_with_authority_def wf_moves_refl)
  next
    case k: (Some k)
    show ?thesis
    proof (cases "synced_plan authority tid st k p")
      case (Inl e)
      with Some k assms(2) show ?thesis by (simp add: sync_task_status_with_authority_def wf_moves_refl)
    next
      case (Inr q)
      with synced_consistent [OF Inr ok assms(3) [OF Some k]] Some k assms(2) show ?thesis
        by (simp add: sync_task_status_with_authority_def upsert_plan_moves)
    qed
  qed
qed

end
