(* ===== verification/SessionMachine.thy ===== *)
theory SessionMachine
  imports PlanContent
begin

text \<open>
  The session store as a transition system: every operation on goals and plans, in any order and
  from any thread.  A protocol operation writes a plan computed from an earlier snapshot, and a
  rollback needs the checkpoint of an earlier resume; the parameter \<open>seen\<close> of the step relation
  says which states a snapshot or a checkpoint may come from, and the reachable states allow all
  reachable ones.
\<close>

inductive session_step :: "(session_state \<Rightarrow> bool) \<Rightarrow> session_state \<Rightarrow> session_state \<Rightarrow> bool" for seen where
  step_environment: "ss_goals s' = ss_goals s \<Longrightarrow> ss_plans s' = ss_plans s \<Longrightarrow> session_step seen s s'"
| step_accounts: "accounts_only s' s \<Longrightarrow> session_step seen s s'"
| step_create: "session_step seen s (snd (create_goal sid thread turn objective access now entropy s))"
| step_access: "session_step seen s (snd (set_active_goal_access_profile sid access now s))"
| step_objective: "session_step seen s (snd (update_goal_objective_if_revision sid gid objective expected now s))"
| step_success: "session_step seen s (snd (record_goal_turn_success sid gid turn now s))"
| step_waiting: "session_step seen s (snd (mark_goal_continuation_waiting sid gid reason now s))"
| step_stop: "session_step seen s (snd (stop_goal_for_runtime_failure sid gid expected turn reason now s))"
| step_failure: "others s = s \<Longrightarrow>
    session_step seen s (snd (observe_goal_runtime_failure sid gid turn reason now now2 others s))"
| step_blocker: "session_step seen s
    (snd (observe_goal_blocker sid gid r expected_plan turn key reason now s))"
| step_complete: "session_step seen s (snd (complete_goal sid gid expectation turn summary refs now s))"
| step_pause: "session_step seen s (snd (pause_goal_with_plan sid gid r expected_plan now s))"
| step_resume: "session_step seen s (snd (resume_goal_with_plan sid gid r expected_plan profile now s))"
| step_divert: "session_step seen s (snd (pause_active_goal_for_diversion sid now s))"
| step_clear: "session_step seen s (snd (clear_goal_with_plan sid gid r expected_plan s))"
| step_continue: "continuation_guard sid gid s = Inr () \<Longrightarrow>
    session_step seen s (start_continuation sid gid turn now s)"
| step_release: "session_step seen s (release_running_goal_continuation sid turn reason now s)"
| step_settle: "session_step seen s (reconcile_terminal_goal_continuations s)"
| step_interrupted: "session_step seen s
    (snd (resume_goal_for_interrupted_execution sid interrupted resumed now s))"
| step_rollback: "seen s0 \<Longrightarrow>
    resume_goal_with_plan sid gid r expected_plan profile now s0 = (Inr (g, p, Some k), s1) \<Longrightarrow>
    session_step seen s (snd (rollback_goal_resume k s))"
| step_rollback_interrupted: "seen s0 \<Longrightarrow>
    resume_goal_for_interrupted_execution sid interrupted resumed now s0 = (Inr (Some k), s1) \<Longrightarrow>
    session_step seen s (snd (rollback_interrupted_goal_resume k s))"
| step_update: "seen s0 \<Longrightarrow> session_step seen s (snd (update_for_task sid input tid now now2 now3 s0 s))"
| step_clear_plan: "session_step seen s (snd (clear_plan sid expected s))"
| step_plan_pause: "seen s0 \<Longrightarrow> session_step seen s (snd (plan_pause sid now s0 s))"
| step_plan_resume: "seen s0 \<Longrightarrow> session_step seen s (snd (plan_resume sid now s0 s))"
| step_bind: "seen s0 \<Longrightarrow> session_step seen s (snd (bind_task sid t item now s0 s))"
| step_materialize: "seen s0 \<Longrightarrow> session_step seen s (snd (bind_task_for_materialization sid t item now s0 s))"
| step_unbind: "seen s0 \<Longrightarrow> session_step seen s (snd (unbind_task sid t now s0 s))"
| step_sync: "seen s0 \<Longrightarrow>
    (\<And>p item. plan_of sid s0 = Some p \<Longrightarrow> hget (sp_task_bindings p) t = Some item \<Longrightarrow>
       sync_safe authority st item p) \<Longrightarrow>
    session_step seen s (snd (sync_task_status_with_authority sid t st authority now s0 s))"
| step_discard: "session_step seen s (snd (restore_plan_if_current sid expected_revision None now s))"
| step_restore: "seen s0 \<Longrightarrow> seen s1 \<Longrightarrow>
    bind_task_for_materialization sid t item now s0 s1 = (Inr (Some (original, updated)), s2) \<Longrightarrow>
    (\<And>p. plan_of sid s = Some p \<Longrightarrow> sp_revision p = sp_revision updated \<Longrightarrow> p = updated) \<Longrightarrow>
    session_step seen s (snd (restore_plan_if_current sid (sp_revision updated) (Some original) now2 s))"
| step_reload: "session_step seen s (reload s)"

inductive session_reach :: "session_state \<Rightarrow> bool" where
  session_init: "ss_goals s = [] \<Longrightarrow> ss_plans s = [] \<Longrightarrow> session_reach s"
| session_next: "session_reach s \<Longrightarrow> (\<And>x. seen x \<Longrightarrow> session_reach x) \<Longrightarrow> session_step seen s s' \<Longrightarrow>
    session_reach s'"

section \<open>What one step does\<close>

text \<open>
  Each session keeps its pair, or the pair makes a move of the abstract machine, or it returns to
  the pair a seen state had when its goal, the one that is active now, was resumed.
\<close>

definition step_refines :: "(session_state \<Rightarrow> bool) \<Rightarrow> session_state \<Rightarrow> session_state \<Rightarrow> bool" where
  "step_refines seen s s' \<longleftrightarrow>
     moves s s' \<or> (\<exists>sid s0. seen s0 \<and> rolls_back sid s0 s s')"

lemma step_refines_moves_at: "moves_at sid s s' \<Longrightarrow> step_refines seen s s'"
  by (simp add: step_refines_def moves_at_moves)

lemma restored_binding:
  assumes "bind_task_for_materialization sid t item now s0 s1 = (Inr (Some (original, updated)), s2)"
  shows "plan_of sid s0 = Some original \<and> restores_own_binding original updated"
proof -
  from assms obtain p where p: "plan_of sid s0 = Some p"
    and bind: "bind_task_from_snapshot sid p t item now s1 = (Inr (Some (original, updated)), s2)"
    by (auto simp: bind_task_for_materialization_def split: option.splits)
  from bind obtain r where o: "original = p"
    and up: "upsert_plan_inner sid (p\<lparr>sp_task_bindings := hput t item (sp_task_bindings p)\<rparr>)
        (Some (sp_revision p)) None now s1 = (r, s2)" "r = Inr updated"
    by (auto simp: bind_task_from_snapshot_def lift_store_def upsert_plan_def map_sum_Inr_iff apfst_def
          map_prod_def split: option.splits if_splits prod.splits)
  from up(1) have "restores_own_binding original updated"
    by (cases rule: upsert_cases) (use up(2) o in \<open>auto simp: restores_own_binding_def\<close>)
  with p o show ?thesis by simp
qed

lemma restore_step_moves:
  assumes "session_wf s0" "session_wf s"
    "bind_task_for_materialization sid t item now s0 s1 = (Inr (Some (original, updated)), s2)"
    "\<And>p. plan_of sid s = Some p \<Longrightarrow> sp_revision p = sp_revision updated \<Longrightarrow> p = updated"
  shows "moves_at sid s (snd (restore_plan_if_current sid (sp_revision updated) (Some original) now2 s))"
proof (rule restore_plan_moves)
  note b = restored_binding [OF assms(3)]
  show "session_shape s" using assms(2) by (rule session_wfD)
  show "plan_consistent p0" if "Some original = Some p0" for p0
    using that snapshot_consistent [OF assms(1), of sid original] b by simp
  show "restores_own_binding p0 p" if "Some original = Some p0" "plan_of sid s = Some p"
    "sp_revision p = sp_revision updated" for p0 p
    using that assms(4) b by simp
  show "sp_revision p \<noteq> 0" if "plan_of sid s = Some p" for p
    using snapshot_consistent [OF assms(2) that] by (simp add: plan_consistent_def plan_normal_def)
qed

lemma discard_moves:
  assumes "session_wf s"
  shows "moves_at sid s (snd (restore_plan_if_current sid r None now s))"
proof (rule restore_plan_moves)
  show "session_shape s" using assms by (rule session_wfD)
  show "sp_revision p \<noteq> 0" if "plan_of sid s = Some p" for p
    using snapshot_consistent [OF assms that] by (simp add: plan_consistent_def plan_normal_def)
qed simp_all

lemma failure_moves:
  assumes "session_shape s" "others s = s"
  shows "moves_at sid s (snd (observe_goal_runtime_failure sid gid turn reason now now2 others s))"
  using observe_failure_moves [OF assms(1), of sid gid turn reason now now2 others] assms
    stop_failure_moves [OF assms(1), of sid gid None turn reason now2] by auto

lemma session_step_moves:
  assumes "session_step seen s s'" "\<And>x. seen x \<Longrightarrow> session_wf x" "session_wf s"
  shows "step_refines seen s s'"
proof -
  note shape = session_wfD(1) [OF assms(3)]
  note goal_ops = create_goal_moves access_profile_moves update_objective_moves turn_success_moves
    mark_waiting_moves stop_failure_moves observe_blocker_moves complete_goal_moves pause_goal_moves
    resume_goal_moves diversion_moves clear_goal_moves release_moves resume_interrupted_moves clear_plan_moves
  note plan_ops = update_for_task_moves plan_pause_moves plan_resume_moves bind_task_moves unbind_task_moves
  show ?thesis
    using assms(1)
  proof cases
    case step_environment
    then have "accounts_only s' s" by (simp add: accounts_only_def)
    then show ?thesis using shape by (simp add: step_refines_def moves_def accounts_only_view accounts_only_shape)
  next
    case step_accounts
    then show ?thesis using shape by (simp add: step_refines_def moves_def accounts_only_view accounts_only_shape)
  next
    case (step_failure others)
    then show ?thesis using failure_moves [OF shape] step_refines_moves_at by blast
  next
    case (step_continue sid gid turn now)
    then show ?thesis using start_continuation_moves [OF shape] step_refines_moves_at by blast
  next
    case step_settle
    then show ?thesis using settle_continuations_moves [OF shape] by (simp add: step_refines_def)
  next
    case (step_rollback s0 sid gid r expected_plan profile now g p k s1)
    have wf0: "session_wf s0" using step_rollback(2) by (rule assms(2))
    from rollback_goal_resume_effect [OF wf0 resume_checkpoint [OF session_wfD(1) [OF wf0] step_rollback(3)]
        assms(3) prod.collapse [symmetric]]
    have "s' = s \<or> rolls_back sid s0 s s'" using step_rollback(1) by blast
    then show ?thesis using step_rollback(2) shape by (auto simp: step_refines_def moves_def)
  next
    case (step_rollback_interrupted s0 sid interrupted resumed now k s1)
    have wf0: "session_wf s0" using step_rollback_interrupted(2) by (rule assms(2))
    from rollback_interrupted_effect [OF wf0
        interrupted_checkpoint [OF session_wfD(1) [OF wf0] step_rollback_interrupted(3)]
        assms(3) prod.collapse [symmetric]]
    have "s' = s \<or> rolls_back sid s0 s s'" using step_rollback_interrupted(1) by blast
    then show ?thesis using step_rollback_interrupted(2) shape by (auto simp: step_refines_def moves_def)
  next
    case (step_sync s0 sid t authority st now)
    have "session_wf s0" using step_sync(2) by (rule assms(2))
    from sync_task_moves [OF this assms(3) step_sync(3)] show ?thesis
      unfolding step_sync(1) by (rule step_refines_moves_at)
  next
    case (step_restore s0 s1 sid t item now original updated s2 now2)
    have "session_wf s0" using step_restore(2) by (rule assms(2))
    from restore_step_moves [OF this assms(3) step_restore(4,5)] show ?thesis
      unfolding step_restore(1) by (rule step_refines_moves_at)
  next
    case step_discard
    then show ?thesis using discard_moves [OF assms(3)] step_refines_moves_at by blast
  next
    case step_reload
    then show ?thesis using reload_moves [OF assms(3)] by (simp add: step_refines_def)
  qed (auto intro!: step_refines_moves_at goal_ops [OF shape] plan_ops [OF assms(2) assms(3)])
qed

lemma step_refines_wf:
  assumes "step_refines seen s s'" "\<And>x. seen x \<Longrightarrow> session_wf x" "session_wf s"
  shows "session_wf s'"
  using assms by (auto simp: step_refines_def dest: moves_wf rolls_back_wf)

lemma session_reach_wf: "session_reach s \<Longrightarrow> session_wf s"
proof (induction rule: session_reach.induct)
  case (session_init s)
  then show ?case
    by (simp add: session_wf_def session_shape_def session_view_def current_goal_lookup plan_of_lookup
          pair_consistent_def)
next
  case (session_next s seen s')
  show ?case
    by (rule step_refines_wf [OF session_step_moves [OF session_next.hyps(3)]])
       (use session_next.IH in auto)
qed

end
