(* ===== verification/SessionScenario.thy ===== *)
theory SessionScenario
  imports SessionMachine
begin

text \<open>
  A concrete session on which the properties of goals and plans are applied: a goal is created,
  gets a plan of two items, a task is bound to the first item, and the goal is paused.
\<close>

definition demo_sid :: session_id where "demo_sid = SessionId ''s''"

definition demo_turn :: string where "demo_turn = ''turn-1''"

definition demo_session0 :: session_state where
  "demo_session0 =
     \<lparr>ss_sessions = [\<lparr>se_session_id = demo_sid, se_updated_at = 1\<rparr>], ss_timeline = [], ss_canonical_turns = [],
      ss_goals = [], ss_plans = [], ss_runtime_sidecars = [],
      ss_thread_registry = [\<lparr>te_thread_id = ThreadId ''t'', te_session_id = demo_sid,
                              te_role_id = ''orchestrator''\<rparr>]\<rparr>"

definition demo_session1 :: session_state where
  "demo_session1 =
     snd (create_goal demo_sid (ThreadId ''t'') demo_turn ''ship it'' Restricted 5 (Inr [171]) demo_session0)"

definition demo_goal_id :: goal_id where "demo_goal_id = GoalId ''goal-s-5-ab''"

definition demo_item :: "string option \<Rightarrow> string \<Rightarrow> plan_item_status \<Rightarrow> update_plan_item_input" where
  "demo_item k step st = \<lparr>ui_item_id = k, ui_step = step, ui_status = st\<rparr>"

definition demo_input ::
    "string option \<Rightarrow> u64 option \<Rightarrow> u64 option \<Rightarrow> update_plan_item_input list \<Rightarrow> update_plan_input" where
  "demo_input pid r goal_r items =
     \<lparr>up_plan_id = pid, up_expected_revision = r, up_expected_goal_id = Some ''goal-s-5-ab'',
      up_expected_goal_control_revision = goal_r, up_language = ''en'', up_explanation = None,
      up_plan = items\<rparr>"

definition demo_session2 :: session_state where
  "demo_session2 =
     snd (update_plan demo_sid (demo_input None (Some 0) (Some 1)
            [demo_item (Some ''a'') ''write'' ItemInProgress, demo_item (Some ''b'') ''test'' ItemPending])
          6 6 6 demo_session1 demo_session1)"

definition demo_session3 :: session_state where
  "demo_session3 =
     snd (bind_task demo_sid (TaskId ''w'') (PlanItemId ''a'') 7 demo_session2 demo_session2)"

definition demo_session4 :: session_state where
  "demo_session4 = snd (pause_goal_with_plan demo_sid demo_goal_id 1 (Some 2) 8 demo_session3)"

text \<open>The same goal with a plan of one item, which is worked off before the goal is completed.\<close>

definition demo_session5 :: session_state where
  "demo_session5 =
     snd (update_plan demo_sid (demo_input None (Some 0) (Some 1) [demo_item (Some ''a'') ''write'' ItemInProgress])
          6 6 6 demo_session1 demo_session1)"

definition demo_session6 :: session_state where
  "demo_session6 =
     snd (update_plan demo_sid (demo_input (Some ''plan-s-6'') (Some 1) (Some 1)
            [demo_item (Some ''a'') ''write'' ItemCompleted]) 7 7 7 demo_session5 demo_session5)"

definition demo_session7 :: session_state where
  "demo_session7 =
     snd (complete_goal demo_sid demo_goal_id \<lparr>ge_goal_control_revision = 1, ge_plan_revision = Some 2\<rparr>
            demo_turn ''all done'' [''receipt''] 11 demo_session6)"

lemma session_op: "session_reach s \<Longrightarrow> session_step session_reach s s' \<Longrightarrow> session_reach s'"
  by (rule session_next [of s session_reach]) assumption+

lemma demo_session0_reach: "session_reach demo_session0"
  by (rule session_init) (simp_all add: demo_session0_def)

lemma demo_session1_reach: "session_reach demo_session1"
  unfolding demo_session1_def by (rule session_op [OF demo_session0_reach step_create])

lemma demo_session2_reach: "session_reach demo_session2"
  unfolding demo_session2_def update_plan_def
  by (rule session_op [OF demo_session1_reach step_update]) (rule demo_session1_reach)

lemma demo_session3_reach: "session_reach demo_session3"
  unfolding demo_session3_def
  by (rule session_op [OF demo_session2_reach step_bind]) (rule demo_session2_reach)

lemma demo_session4_reach: "session_reach demo_session4"
  unfolding demo_session4_def by (rule session_op [OF demo_session3_reach step_pause])

lemma demo_session5_reach: "session_reach demo_session5"
  unfolding demo_session5_def update_plan_def
  by (rule session_op [OF demo_session1_reach step_update]) (rule demo_session1_reach)

lemma demo_session6_reach: "session_reach demo_session6"
  unfolding demo_session6_def update_plan_def
  by (rule session_op [OF demo_session5_reach step_update]) (rule demo_session5_reach)

lemma demo_session7_reach: "session_reach demo_session7"
  unfolding demo_session7_def by (rule session_op [OF demo_session6_reach step_complete])

end
