(* ===== verification/GoalProperties.thy ===== *)
theory GoalProperties
  imports SessionScenario
begin

text \<open>
  What holds of goals and their plans in every reachable session store: they agree with each
  other, every operation is a move of the abstract machine, a completed goal is final, a
  completion needs a finished plan, and a resume can be taken back exactly.
\<close>

lemma bump_fields:
  "sg_status (bump now g) = sg_status g" "sg_completion (bump now g) = sg_completion g"
  "sg_continuation (bump now g) = sg_continuation g" "sg_blocker (bump now g) = sg_blocker g"
  "sg_goal_id (bump now g) = sg_goal_id g" "sg_session_id (bump now g) = sg_session_id g"
  "sg_control_revision (bump now g) = saturating_add (sg_control_revision g) 1"
  by (simp_all add: bump_def)

text \<open>The goal an operation returns is the one it stored, with the accounts brought up to date.\<close>

lemma find_first_updated:
  "find P xs = Some x \<Longrightarrow> P y \<Longrightarrow> find P (update_first P (\<lambda>_. y) xs) = Some y"
  by (induction xs) (auto split: if_splits)

lemma find_map_key: "(\<And>x. P (f x) = P x) \<Longrightarrow> find P (map f xs) = map_option f (find P xs)"
  by (induction xs) auto

lemma stored_goal_control:
  assumes "find (is_goal sid gid) (ss_goals s) = Some g" "sg_session_id h = sid" "sg_goal_id h = gid"
  shows "goal_control (stored_goal sid gid k (reconcile_goal_time_used (set_goal (is_goal sid gid) h s)))
    = goal_control h"
proof -
  let ?t = "set_goal (is_goal sid gid) h s"
  have "is_goal sid gid h" using assms(2,3) by (simp add: is_goal_def)
  then have "find (is_goal sid gid) (ss_goals ?t) = Some h"
    using find_first_updated [OF assms(1)] by (simp add: set_goal_def)
  moreover have "is_goal sid gid (set_timing x y) = is_goal sid gid y" for x y
    by (simp add: is_goal_def set_timing_def)
  ultimately show ?thesis
    by (simp add: stored_goal_def find_goal_def reconcile_goal_time_used_def Let_def find_map_key)
qed

section \<open>Goal and plan agree\<close>

lemma reach_goal:
  assumes "session_reach s" "current_goal sid s = Some g"
  shows "goal_consistent g"
  using wf_goal(1) [OF session_reach_wf [OF assms(1)] current_goal_in_set [OF assms(2)]] .

lemma reach_plan:
  assumes "session_reach s" "plan_of sid s = Some p"
  shows "plan_consistent p"
  using snapshot_consistent [OF session_reach_wf [OF assms(1)] assms(2)] .



section \<open>The abstract machine\<close>

lemma reach_step_refines:
  assumes "session_reach s" "session_step session_reach s s'"
  shows "step_refines session_reach s s'"
  by (rule session_step_moves [OF assms(2)]) (use assms(1) session_reach_wf in auto)



section \<open>A completed goal is final\<close>

lemma complete_move:
  assumes "pair_move (Some h, p) (og, q)" "sg_status h = GoalComplete" "og = Some h'"
  shows "(sg_status h' = GoalActive \<and> sg_control_revision h' = 1)
    \<or> (sg_goal_id h' = sg_goal_id h \<and> sg_status h' = GoalComplete \<and> sg_completion h' = sg_completion h)"
  using assms by cases (auto simp: same_goal_def is_unfinished_def)

lemma complete_step:
  assumes "session_reach s" "session_step session_reach s s'" "current_goal sid s = Some g"
    "sg_status g = GoalComplete" "current_goal sid s' = Some g'"
  shows "(sg_status g' = GoalActive \<and> sg_control_revision g' = 1)
    \<or> (sg_goal_id g' = sg_goal_id g \<and> sg_status g' = GoalComplete \<and> sg_completion g' = sg_completion g)"
proof -
  have v: "session_view s sid = (Some (goal_control g), plan_of sid s)"
    "session_view s' sid = (Some (goal_control g'), plan_of sid s')"
    using assms(3,5) by (simp_all add: session_view_def)
  from reach_step_refines [OF assms(1,2)] consider
      "session_view s' sid = session_view s sid" | "pair_move (session_view s sid) (session_view s' sid)"
    | k s0 where "rolls_back k s0 s s'"
    by (auto simp: step_refines_def moves_def)
  then show ?thesis
  proof cases
    case 1
    then have "goal_control g' = goal_control g" using v by simp
    then have "sg_goal_id g' = sg_goal_id g" "sg_status g' = sg_status g" "sg_completion g' = sg_completion g"
      by (metis goal_control_simps)+
    with assms(4) show ?thesis by simp
  next
    case 2
    with complete_move [of "goal_control g" _ _ _ "goal_control g'"] v assms(4) show ?thesis by simp
  next
    case 3
    then have "k \<noteq> sid" using assms(3,4) by (auto simp: rolls_back_def)
    with 3 have "session_view s' sid = session_view s sid" by (simp add: rolls_back_def)
    then have "goal_control g' = goal_control g" using v by simp
    then have "sg_goal_id g' = sg_goal_id g" "sg_status g' = sg_status g" "sg_completion g' = sg_completion g"
      by (metis goal_control_simps)+
    with assms(4) show ?thesis by simp
  qed
qed

text \<open>C26: a completed goal stays completed, with the same completion record, through every operation,
  rollbacks and restarts included, until it is cleared or a new goal with revision one takes its
  place; in particular no resume, edit or blocker touches it.\<close>

theorem completed_goal_is_final:
  assumes "session_reach s" "session_step session_reach s s'" "current_goal sid s = Some g"
    "sg_status g = GoalComplete"
  shows "case current_goal sid s' of
      None \<Rightarrow> True
    | Some g' \<Rightarrow> (sg_status g' = GoalActive \<and> sg_control_revision g' = 1)
        \<or> (sg_goal_id g' = sg_goal_id g \<and> sg_status g' = GoalComplete \<and> sg_completion g' = sg_completion g)"
  using complete_step [OF assms(1-4)] by (auto split: option.split)

lemma completed_goal_is_final_witness:
  "case current_goal demo_sid (snd (resume_goal_with_plan demo_sid demo_goal_id 2 (Some 2) None 12 demo_session7)) of
     None \<Rightarrow> True
   | Some g' \<Rightarrow> sg_control_revision g' = 1 \<or> sg_status g' = GoalComplete"
proof -
  have "map_option sg_status (current_goal demo_sid demo_session7) = Some GoalComplete" by code_simp
  then obtain g where g: "current_goal demo_sid demo_session7 = Some g" "sg_status g = GoalComplete" by auto
  from completed_goal_is_final [OF demo_session7_reach step_resume g,
      of demo_sid demo_goal_id 2 "Some 2" None 12]
  show ?thesis by (auto split: option.splits)
qed

section \<open>Completing a goal\<close>

text \<open>C27: a goal is completed only while it is active, by a turn that owns it and with its current
  control revision; when a plan is bound to it, the caller must know the current revision of that
  plan, every item must be completed or canceled, no other bound task may be active in the
  execution chain, and evidence must be given; the record names that plan revision.  A refused
  completion changes nothing.\<close>

theorem completion_needs_finished_plan:
  assumes "complete_goal sid gid expected turn summary refs now s = (r, s')"
  shows "(case r of
      Inl e \<Rightarrow> s' = s
    | Inr g' \<Rightarrow> \<exists>g. find_goal s sid gid = Some g \<and> sg_status g = GoalActive
        \<and> sg_control_revision g = ge_goal_control_revision expected
        \<and> goal_owned_by_turn g (str_trim turn) \<and> sg_status g' = GoalComplete
        \<and> (\<forall>p. find_bound_plan s sid gid = Some p \<longrightarrow>
              ge_plan_revision expected = Some (sp_revision p) \<and> list_all item_finished (sp_items p)
              \<and> (\<forall>t \<in> set (hkeys (sp_task_bindings p)). task_id_str t \<noteq> str_trim turn \<longrightarrow>
                   \<not> task_is_active_in_session_execution s sid t)
              \<and> (\<exists>c. sg_completion g' = Some c \<and> gr_plan_revision c = Some (sp_revision p)
                    \<and> gr_evidence_refs c \<noteq> [])))"
proof (cases r)
  case (Inl e)
  with assms show ?thesis
    by (auto simp: complete_goal_def Let_def split: sum.splits option.splits if_splits)
next
  case (Inr g')
  from assms Inr obtain g summary' where g: "find_goal s sid gid = Some g" "sg_status g = GoalActive"
      "validate_control_revision g (Some (ge_goal_control_revision expected)) = Inr ()"
      "goal_owned_by_turn g (str_trim turn)"
    and plan: "validate_bound_plan_revision (find_bound_plan s sid gid) (ge_plan_revision expected) = Inr ()"
      "\<not> (case find_bound_plan s sid gid of None \<Rightarrow> False | Some p \<Rightarrow> plan_has_open_item p)"
      "\<not> (case find_bound_plan s sid gid of None \<Rightarrow> False | Some p \<Rightarrow> plan_has_active_task s sid (str_trim turn) p)"
      "\<not> (find_bound_plan s sid gid \<noteq> None \<and> normalize_evidence_refs refs = [])"
    and s': "s' = reconcile_goal_time_used (set_goal (is_goal sid gid)
        (bump now (g\<lparr>sg_status := GoalComplete, sg_completion := Some \<lparr>gr_turn_id = str_trim turn, gr_summary = summary',
            gr_plan_revision = map_option sp_revision (find_bound_plan s sid gid),
            gr_evidence_refs = normalize_evidence_refs refs,
            gr_completed_at = now\<rparr>, sg_continuation := default_continuation\<rparr>)) s)"
    and g': "g' = stored_goal sid gid (bump now (g\<lparr>sg_status := GoalComplete, sg_completion := Some \<lparr>gr_turn_id = str_trim turn, gr_summary = summary',
            gr_plan_revision = map_option sp_revision (find_bound_plan s sid gid),
            gr_evidence_refs = normalize_evidence_refs refs,
            gr_completed_at = now\<rparr>, sg_continuation := default_continuation\<rparr>)) s'"
    by (auto simp: complete_goal_def Let_def normalize_non_empty_def split: sum.splits option.splits if_splits)
  let ?c = "\<lparr>gr_turn_id = str_trim turn, gr_summary = summary',
      gr_plan_revision = map_option sp_revision (find_bound_plan s sid gid),
      gr_evidence_refs = normalize_evidence_refs refs, gr_completed_at = now\<rparr>"
  let ?h = "bump now (g\<lparr>sg_status := GoalComplete, sg_completion := Some ?c, sg_continuation := default_continuation\<rparr>)"
  have "goal_control g' = goal_control ?h"
    using stored_goal_control [OF conjunct1 [OF found_goalD [OF g(1)]], of ?h ?h] found_goalD [OF g(1)]
    unfolding g' s' by (simp add: bump_def)
  from arg_cong [OF this, of sg_status] arg_cong [OF this, of sg_completion]
  have fields: "sg_status g' = GoalComplete" "sg_completion g' = Some ?c" by (simp_all add: bump_fields)
  have items: "list_all item_finished (sp_items p)" if "find_bound_plan s sid gid = Some p" for p
    unfolding list_all_iff
  proof
    fix i
    assume "i \<in> set (sp_items p)"
    with plan(2) that show "item_finished i"
      by (cases "pi_status i") (auto simp: plan_has_open_item_def list_ex_iff item_finished_def)
  qed
  have tasks: "\<not> task_is_active_in_session_execution s sid t"
    if "find_bound_plan s sid gid = Some p" "t \<in> set (hkeys (sp_task_bindings p))" "task_id_str t \<noteq> str_trim turn" for p t
    using plan(3) that by (auto simp: plan_has_active_task_def list_ex_iff)
  have rev: "ge_plan_revision expected = Some (sp_revision p)" if "find_bound_plan s sid gid = Some p" for p
    using plan(1) that by (auto simp: validate_bound_plan_revision_def split: option.splits if_splits)
  have control: "sg_control_revision g = ge_goal_control_revision expected"
    using g(3) by (auto simp: validate_control_revision_def split: if_splits)
  show ?thesis
    unfolding Inr using g control fields items tasks rev plan(4) by auto
qed

lemma completion_needs_finished_plan_witness:
  "\<exists>p. find_bound_plan demo_session6 demo_sid demo_goal_id = Some p \<and> list_all item_finished (sp_items p)"
proof -
  let ?r = "complete_goal demo_sid demo_goal_id \<lparr>ge_goal_control_revision = 1, ge_plan_revision = Some 2\<rparr>
      demo_turn ''all done'' [''receipt''] 11 demo_session6"
  have "\<not> isl (fst ?r)"
    "map_option sp_revision (find_bound_plan demo_session6 demo_sid demo_goal_id) = Some 2" by code_simp+
  then obtain g p where "fst ?r = Inr g" "find_bound_plan demo_session6 demo_sid demo_goal_id = Some p"
    by (cases "fst ?r") auto
  with completion_needs_finished_plan [OF prod.collapse [symmetric], of demo_sid demo_goal_id
      "\<lparr>ge_goal_control_revision = 1, ge_plan_revision = Some 2\<rparr>" demo_turn "''all done''" "[''receipt'']" 11 demo_session6]
  show ?thesis by auto
qed

section \<open>Taking a resume back\<close>

lemma resume_effect:
  assumes "session_shape s"
    "resume_goal_with_plan sid gid r pr profile now s = (Inr (g, p, Some k), s1)"
  obtains h h' where "find_goal s sid gid = Some h" "gk_goal_before k = h"
    "gk_plan_before k = find_bound_plan s sid gid"
    "gk_applied_goal_revision k = sg_control_revision h'"
    "gk_applied_plan_revision k
       = map_option (\<lambda>q. sp_revision (transition_plan GoalActive now q)) (find_bound_plan s sid gid)"
    "session_view s1 sid = (Some (goal_control h'),
       map_option (on_bound gid (transition_plan GoalActive now)) (plan_of sid s))"
    "sg_status h' = GoalActive" "gc_phase (sg_continuation h') = ContinuationWaiting" "sg_goal_id h' = gid"
    "is_unfinished (sg_status h)"
proof -
  from assms(2) obtain h where h: "find_goal s sid gid = Some h" "transition_allowed (sg_status h) GoalActive"
    and k: "gk_goal_before k = h" "gk_plan_before k = find_bound_plan s sid gid"
      "gk_applied_goal_revision k = saturating_add (sg_control_revision h) 1"
      "gk_applied_plan_revision k = map_option sp_revision
         (find_bound_plan (set_plan (is_bound_plan sid gid) (transition_plan GoalActive now) s) sid gid)"
    and s1: "s1 = reconcile_goal_time_used (set_goal (is_goal sid gid)
        (bump now (h\<lparr>sg_status := GoalActive,
           sg_access_profile := (case profile of None \<Rightarrow> sg_access_profile h | Some a \<Rightarrow> a), sg_blocker := None,
           sg_continuation := waiting_continuation ''resume_requested''\<rparr>))
        (set_plan (is_bound_plan sid gid) (transition_plan GoalActive now) s))"
    unfolding resume_goal_with_plan_def transition_goal_with_plan_def
    by (auto simp: Let_def bump_fields split: option.splits sum.splits if_splits)
  define h' where "h' = bump now (h\<lparr>sg_status := GoalActive,
      sg_access_profile := (case profile of None \<Rightarrow> sg_access_profile h | Some a \<Rightarrow> a), sg_blocker := None,
      sg_continuation := waiting_continuation ''resume_requested''\<rparr>)"
  note found = found_goalD [OF h(1)]
  let ?t = "set_plan (is_bound_plan sid gid) (transition_plan GoalActive now) s"
  have shape: "session_shape ?t" using assms(1) by (intro set_bound_plan_shape) simp_all
  have applied: "gk_applied_plan_revision k
      = map_option (\<lambda>q. sp_revision (transition_plan GoalActive now q)) (find_bound_plan s sid gid)"
    unfolding k(4) find_bound_plan_of [OF shape] find_bound_plan_of [OF assms(1)]
    by (auto simp: set_bound_plan_of [OF assms(1)] on_bound_def split: option.split)
  have ids: "sg_session_id h' = sg_session_id h" "sid = sg_session_id h"
    using found by (simp_all add: h'_def bump_fields)
  have "session_view (set_goal (is_goal sid gid) h' ?t) = (session_view s)(sid := (Some (goal_control h'),
       map_option (on_bound gid (transition_plan GoalActive now)) (plan_of sid s)))"
    by (rule commit_view(1) [OF assms(1) conjunct1 [OF found] ids(1) _ ids(2)]) simp
  then have "session_view s1 sid = (Some (goal_control h'),
       map_option (on_bound gid (transition_plan GoalActive now)) (plan_of sid s))"
    unfolding s1 [folded h'_def] reconcile_view by simp
  moreover have "is_unfinished (sg_status h)" using h(2) by (auto simp: transition_allowed_def is_unfinished_def)
  ultimately show thesis
    using that [of h h'] h(1) k(1-3) applied found
    by (simp add: h'_def bump_fields waiting_continuation_def)
qed

lemma transition_plan_id [simp]: "sp_plan_id (transition_plan next now p) = sp_plan_id p"
  by (simp add: transition_plan_def pause_plan_def activate_paused_plan_def Let_def)

lemma wf_find_goal_id:
  assumes "session_wf s" "current_goal sid s = Some g"
  shows "find (\<lambda>x. sg_goal_id x = sg_goal_id g) (ss_goals s) = Some g"
proof -
  have g: "g \<in> set (ss_goals s)" "sg_session_id g = sid"
    using assms(2) by (auto simp: current_goal_lookup dest: lookup_SomeD)
  then obtain x where x: "find (\<lambda>x. sg_goal_id x = sg_goal_id g) (ss_goals s) = Some x"
    by (cases "find (\<lambda>x. sg_goal_id x = sg_goal_id g) (ss_goals s)") (auto simp: find_None_iff)
  from find_SomeD [OF this] have xs: "x \<in> set (ss_goals s)" "sg_goal_id x = sg_goal_id g" by auto
  have "sg_session_id x = sid"
    using goal_id_session [of x g] wf_goal(1) [OF assms(1)] xs g by (auto simp: goal_consistent_def)
  with wf_goal(2) [OF assms(1) xs(1)] assms(2) x show ?thesis by simp
qed

lemma wf_find_plan_id:
  assumes "session_wf s" "plan_of sid s = Some p"
  shows "find (\<lambda>x. sp_plan_id x = sp_plan_id p) (ss_plans s) = Some p"
proof -
  have p: "p \<in> set (ss_plans s)" "sp_session_id p = sid"
    using assms(2) by (auto simp: plan_of_lookup dest: lookup_SomeD)
  then obtain x where x: "find (\<lambda>x. sp_plan_id x = sp_plan_id p) (ss_plans s) = Some x"
    by (cases "find (\<lambda>x. sp_plan_id x = sp_plan_id p) (ss_plans s)") (auto simp: find_None_iff)
  from find_SomeD [OF this] have xs: "x \<in> set (ss_plans s)" "sp_plan_id x = sp_plan_id p" by auto
  have "sp_session_id x = sid"
    using plan_id_session [of x p] wf_plan(1) [OF assms(1)] xs p by (auto simp: plan_consistent_def)
  with wf_plan(2) [OF assms(1) xs(1)] assms(2) x show ?thesis by simp
qed

lemma rollback_accepted:
  assumes "session_wf s" "session_wf s1"
    "resume_goal_with_plan sid gid r pr profile now s = (Inr (g, p, Some k), s1)"
  shows "fst (rollback_goal_resume k s1) = Inr ()"
  using assms(3)
proof (cases rule: resume_effect [OF session_wfD(1) [OF assms(1)], consumes 1])
  case (1 h h')
  from 1(6) obtain g1 where g1: "current_goal sid s1 = Some g1" "goal_control g1 = goal_control h'"
    by (auto simp: session_view_def)
  have f: "sg_goal_id g1 = gid" "sg_control_revision g1 = sg_control_revision h'" "sg_status g1 = GoalActive"
    "gc_phase (sg_continuation g1) = ContinuationWaiting"
    using arg_cong [OF g1(2), of sg_goal_id] arg_cong [OF g1(2), of sg_control_revision]
      arg_cong [OF g1(2), of sg_status] arg_cong [OF g1(2), of sg_continuation] 1 by simp_all
  note h = find_goal_SomeD [OF session_wfD(1) [OF assms(1)] 1(1)]
  have find: "find (\<lambda>x. sg_goal_id x = gid) (ss_goals s1) = Some g1"
    using wf_find_goal_id [OF assms(2) g1(1)] f(1) by simp
  have plan1: "plan_of sid s1 = map_option (on_bound gid (transition_plan GoalActive now)) (plan_of sid s)"
    using 1(6) by (metis snd_conv view_plan)
  have "\<exists>s2. rollback_plan (rejected ConcurrentModification) (rejected ConcurrentModification) h
      (gk_plan_before k) (gk_applied_plan_revision k) s1 = Inr s2"
  proof (cases "find_bound_plan s sid gid")
    case None
    have "plan_of sid s = None"
    proof (rule ccontr)
      assume "plan_of sid s \<noteq> None"
      then obtain q where q: "plan_of sid s = Some q" by auto
      have "coupled h q" using wf_coupled [OF assms(1) _ q] h 1(10) by simp
      with None q h show False
        by (simp add: find_bound_plan_of [OF session_wfD(1) [OF assms(1)]] coupled_def)
    qed
    with plan1 have "plan_of sid s1 = None" by simp
    then have "\<not> list_ex (is_bound_plan sid gid) (ss_plans s1)"
      using wf_plan(2) [OF assms(2)] by (auto simp: list_ex_iff is_bound_plan_def)
    with None 1(3) h show ?thesis by (simp add: rollback_plan_def)
  next
    case (Some q)
    then have q: "plan_of sid s = Some q" "sp_goal_id q = Some gid"
      by (auto simp: find_bound_plan_of [OF session_wfD(1) [OF assms(1)]] split: option.splits if_splits)
    then have "plan_of sid s1 = Some (transition_plan GoalActive now q)" using plan1 by (simp add: on_bound_def)
    from wf_find_plan_id [OF assms(2) this] Some 1(3,5) show ?thesis
      by (simp add: rollback_plan_def)
  qed
  then show ?thesis using find f 1(2,4) h by (auto simp: rollback_goal_resume_def Let_def)
qed

text \<open>A rollback right after a resume is accepted and gives every session its goal and its plan
  back exactly, revisions included; so the control revision the resume had used up is current again.\<close>

theorem resume_then_rollback:
  assumes "session_reach s"
    "resume_goal_with_plan sid gid r pr profile now s = (Inr (g, p, Some k), s1)"
  shows "fst (rollback_goal_resume k s1) = Inr () \<and> session_view (snd (rollback_goal_resume k s1)) = session_view s"
proof -
  note wf = session_reach_wf [OF assms(1)]
  have moves: "moves_at sid s s1"
    using resume_goal_moves [OF session_wfD(1) [OF wf], of sid gid r pr profile now] assms(2) by simp
  then have wf1: "session_wf s1" using wf moves_at_moves moves_wf by blast
  have ok: "fst (rollback_goal_resume k s1) = Inr ()" by (rule rollback_accepted [OF wf wf1 assms(2)])
  have "rolls_back sid s s1 (snd (rollback_goal_resume k s1))"
    using rollback_goal_resume_effect [OF wf resume_checkpoint [OF session_wfD(1) [OF wf] assms(2)] wf1
        prod.collapse [symmetric]] ok by simp
  with moves have "session_view (snd (rollback_goal_resume k s1)) = session_view s"
    by (auto simp: rolls_back_def moves_at_def)
  with ok show ?thesis by simp
qed

lemma resume_then_rollback_witness:
  "\<exists>k. session_view (snd (rollback_goal_resume k
      (snd (resume_goal_with_plan demo_sid demo_goal_id 2 (Some 3) None 9 demo_session4)))) = session_view demo_session4"
proof -
  let ?r = "resume_goal_with_plan demo_sid demo_goal_id 2 (Some 3) None 9 demo_session4"
  have "case fst ?r of Inr (g, p, Some k) \<Rightarrow> True | _ \<Rightarrow> False" by code_simp
  then obtain g p k where "?r = (Inr (g, p, Some k), snd ?r)"
    by (cases ?r) (auto split: sum.splits prod.splits option.splits)
  from resume_then_rollback [OF demo_session4_reach this] show ?thesis by blast
qed

end
