(* ===== verification/OptimisticLock.thy ===== *)
theory OptimisticLock
  imports GoalProperties
begin

text \<open>
  Revisions as optimistic locks.  A write names the revision it was computed from; it is accepted
  only while that revision is current, and it makes the next one current.  The locale states this
  contract and what follows from it; it is interpreted for written plans and for the commands on a
  goal.
\<close>

lemma saturating_succ_less: "(r :: u64) \<noteq> - 1 \<Longrightarrow> r < saturating_add r 1"
  by (simp add: saturating_add_def checked_add_one_Some checked_add_less)

locale optimistic_lock =
  fixes version :: "'s \<Rightarrow> u64 option" and "write" :: "u64 \<Rightarrow> 's \<Rightarrow> 's \<Rightarrow> bool"
    and later :: "'s \<Rightarrow> 's \<Rightarrow> bool"
  assumes checked: "write r s s' \<Longrightarrow> version s = Some r"
    and advanced: "write r s s' \<Longrightarrow> version s' = Some (saturating_add r 1)"
    and monotone: "later s s' \<Longrightarrow> version s = Some r \<Longrightarrow> \<exists>r'. version s' = Some r' \<and> r \<le> r'"
begin

lemma later_version: "later\<^sup>*\<^sup>* s s' \<Longrightarrow> version s = Some r \<Longrightarrow> \<exists>r'. version s' = Some r' \<and> r \<le> r'"
proof (induction rule: rtranclp_induct)
  case (step t u)
  then obtain r1 where "version t = Some r1" "r \<le> r1" by auto
  with monotone [OF step.hyps(2)] show ?case by fastforce
qed simp

lemma stale_refused:
  assumes "write r s s1" "later\<^sup>*\<^sup>* s1 s2" "r \<noteq> - 1"
  shows "\<not> write r s2 s3"
proof
  assume "write r s2 s3"
  from checked [OF this] later_version [OF assms(2) advanced [OF assms(1)]]
  have "saturating_add r 1 \<le> r" by simp
  with saturating_succ_less [OF assms(3)] show False by simp
qed

end

section \<open>Written plans\<close>

definition plan_version :: "session_id \<Rightarrow> session_state \<Rightarrow> u64 option" where
  "plan_version sid s = map_option sp_revision (plan_of sid s)"

definition plan_written :: "session_id \<Rightarrow> u64 \<Rightarrow> session_state \<Rightarrow> session_state \<Rightarrow> bool" where
  "plan_written sid r s s' \<longleftrightarrow>
     (\<exists>plan guard now q. plan_of sid s \<noteq> None \<and> upsert_plan_inner sid plan (Some r) guard now s = (Inr q, s'))"

definition keeps_plan :: "session_id \<Rightarrow> session_state \<Rightarrow> session_state \<Rightarrow> bool" where
  "keeps_plan sid s s' \<longleftrightarrow> moves s s' \<and> plan_of sid s' \<noteq> None"

lemma saturating_succ_ge: "(r :: u64) \<le> saturating_add r 1"
  by (rule saturating_add_ge)

lemma pair_move_plan_revision:
  assumes "pair_move (og, Some p) (og', Some q)"
  shows "sp_revision p \<le> sp_revision q"
  using assms
  by cases
     (auto simp: on_bound_def pause_plan_def pause_bound_plan_def transition_plan_def activate_paused_plan_def
        Let_def saturating_succ_ge split: if_splits)

lemma keeps_plan_version:
  assumes "keeps_plan sid s s'" "plan_version sid s = Some r"
  shows "\<exists>r'. plan_version sid s' = Some r' \<and> r \<le> r'"
proof -
  from assms obtain p q where p: "plan_of sid s = Some p" "sp_revision p = r" and q: "plan_of sid s' = Some q"
    by (auto simp: plan_version_def keeps_plan_def)
  have v: "session_view s sid = (fst (session_view s sid), Some p)"
    "session_view s' sid = (fst (session_view s' sid), Some q)"
    using p q by (simp_all add: session_view_def)
  from assms(1) consider "session_view s' sid = session_view s sid"
    | "pair_move (session_view s sid) (session_view s' sid)"
    by (auto simp: keeps_plan_def moves_def)
  then have "r \<le> sp_revision q"
  proof cases
    case 1
    with p q have "p = q" by (metis option.inject view_plan)
    with p show ?thesis by simp
  next
    case 2
    with v pair_move_plan_revision show ?thesis using p(2) by metis
  qed
  with q show ?thesis by (simp add: plan_version_def)
qed

lemma plan_written_advances:
  assumes "plan_written sid r s s'"
  shows "plan_version sid s = Some r" "plan_version sid s' = Some (saturating_add r 1)"
proof -
  from assms obtain plan guard now q where old: "plan_of sid s \<noteq> None"
    and up: "upsert_plan_inner sid plan (Some r) guard now s = (Inr q, s')"
    by (auto simp: plan_written_def)
  have "plan_version sid s = Some r \<and> plan_version sid s' = Some (saturating_add r 1)"
    using up
  proof (cases rule: upsert_cases)
    case (replaced current q')
    have q: "sp_session_id q' = sid" "sp_revision q' = saturating_add r 1"
      using replaced by simp_all
    have "find (\<lambda>p. sp_session_id p = sid) (update_first (\<lambda>p. sp_session_id p = sid) (\<lambda>_. q') (ss_plans s)) = Some q'"
      by (rule find_first_updated [OF replaced(1) [unfolded plan_of_def]]) (rule q(1))
    with replaced q show ?thesis
      by (simp add: plan_version_def plan_of_def touch_session_def set_plan_def)
  qed (use old in simp_all)
  then show "plan_version sid s = Some r" "plan_version sid s' = Some (saturating_add r 1)" by simp_all
qed

interpretation plan_lock: optimistic_lock "plan_version sid" "plan_written sid" "keeps_plan sid" for sid
  by unfold_locales (fact plan_written_advances keeps_plan_version)+

section \<open>Commands on a goal\<close>

definition goal_version :: "session_id \<Rightarrow> goal_id \<Rightarrow> session_state \<Rightarrow> u64 option" where
  "goal_version sid gid s = map_option sg_control_revision (find_goal s sid gid)"

text \<open>The operations that name the control revision they were issued for, and succeed.\<close>

definition goal_command :: "session_id \<Rightarrow> goal_id \<Rightarrow> u64 \<Rightarrow> session_state \<Rightarrow> session_state \<Rightarrow> bool" where
  "goal_command sid gid r s s' \<longleftrightarrow>
     (\<exists>objective now g. update_goal_objective_if_revision sid gid objective (Some r) now s = (Inr g, s'))
     \<or> (\<exists>pr turn key reason now g. observe_goal_blocker sid gid r pr turn key reason now s = (Inr g, s'))
     \<or> (\<exists>pr turn summary refs now g. complete_goal sid gid \<lparr>ge_goal_control_revision = r, ge_plan_revision = pr\<rparr>
          turn summary refs now s = (Inr g, s'))
     \<or> (\<exists>pr now x. pause_goal_with_plan sid gid r pr now s = (Inr x, s'))
     \<or> (\<exists>pr profile now x. resume_goal_with_plan sid gid r pr profile now s = (Inr x, s'))"

definition keeps_goal :: "session_id \<Rightarrow> goal_id \<Rightarrow> session_state \<Rightarrow> session_state \<Rightarrow> bool" where
  "keeps_goal sid gid s s' \<longleftrightarrow>
     session_shape s \<and> moves s s'
     \<and> (\<exists>g. find_goal s sid gid = Some g \<and> is_unfinished (sg_status g)) \<and> find_goal s' sid gid \<noteq> None"

lemma pair_move_goal_revision:
  assumes "pair_move (Some g, p) (Some h, q)" "is_unfinished (sg_status g)"
  shows "sg_control_revision g \<le> sg_control_revision h"
  using assms by cases (auto simp: next_revision_def saturating_succ_ge unfinished_def split: if_splits)

lemma keeps_goal_version:
  assumes "keeps_goal sid gid s s'" "goal_version sid gid s = Some r"
  shows "\<exists>r'. goal_version sid gid s' = Some r' \<and> r \<le> r'"
proof -
  have shape: "session_shape s" "session_shape s'" using assms(1) by (auto simp: keeps_goal_def moves_def)
  from assms obtain g h where g: "find_goal s sid gid = Some g" "is_unfinished (sg_status g)"
      "sg_control_revision g = r" and h: "find_goal s' sid gid = Some h"
    by (auto simp: goal_version_def keeps_goal_def)
  have v: "session_view s sid = (Some (goal_control g), plan_of sid s)"
    "session_view s' sid = (Some (goal_control h), plan_of sid s')"
    using find_goal_SomeD [OF shape(1) g(1)] find_goal_SomeD [OF shape(2) h] by (simp_all add: session_view_def)
  from assms(1) consider "session_view s' sid = session_view s sid"
    | "pair_move (session_view s sid) (session_view s' sid)"
    by (auto simp: keeps_goal_def moves_def)
  then have "r \<le> sg_control_revision h"
  proof cases
    case 1
    with v have "goal_control h = goal_control g" by simp
    from arg_cong [OF this, of sg_control_revision] g(3) show ?thesis by simp
  next
    case 2
    with pair_move_goal_revision [of "goal_control g" _ "goal_control h"] v g show ?thesis by simp
  qed
  with h show ?thesis by (simp add: goal_version_def)
qed

lemma stored_version:
  assumes "find_goal s sid gid = Some g" "ss_goals t = ss_goals s" "sg_session_id h = sid" "sg_goal_id h = gid"
  shows "goal_version sid gid (reconcile_goal_time_used (set_goal (is_goal sid gid) h t)) = Some (sg_control_revision h)"
    and "goal_version sid gid (set_goal (is_goal sid gid) h t) = Some (sg_control_revision h)"
proof -
  have "is_goal sid gid h" using assms(3,4) by (simp add: is_goal_def)
  then have f: "find (is_goal sid gid) (ss_goals (set_goal (is_goal sid gid) h t)) = Some h"
    using find_first_updated [of "is_goal sid gid" "ss_goals s" g h] assms(1,2)
    by (simp add: set_goal_def find_goal_def)
  then show "goal_version sid gid (set_goal (is_goal sid gid) h t) = Some (sg_control_revision h)"
    by (simp add: goal_version_def find_goal_def)
  have "is_goal sid gid (set_timing x y) = is_goal sid gid y" for x y
    by (simp add: is_goal_def set_timing_def)
  with f show "goal_version sid gid (reconcile_goal_time_used (set_goal (is_goal sid gid) h t)) = Some (sg_control_revision h)"
    by (simp add: goal_version_def find_goal_def reconcile_goal_time_used_def Let_def find_map_key set_timing_def)
qed

lemma control_checked:
  "validate_control_revision g (Some r) = Inr u \<Longrightarrow> sg_control_revision g = r"
  by (auto simp: validate_control_revision_def split: if_splits)

lemma found_version: "find_goal s sid gid = Some g \<Longrightarrow> goal_version sid gid s = Some (sg_control_revision g)"
  by (simp add: goal_version_def)

lemma committed_version:
  assumes "find_goal s sid gid = Some g" "ss_goals t = ss_goals s" "sg_session_id h = sg_session_id g"
    "sg_goal_id h = sg_goal_id g" "sg_control_revision h = saturating_add (sg_control_revision g) 1"
  shows "goal_version sid gid (reconcile_goal_time_used (set_goal (is_goal sid gid) h t))
       = Some (saturating_add (sg_control_revision g) 1)"
    and "goal_version sid gid (set_goal (is_goal sid gid) h t) = Some (saturating_add (sg_control_revision g) 1)"
  using stored_version [OF assms(1,2), of h] found_goalD [OF assms(1)] assms(3-5) by simp_all

lemma transition_advances:
  assumes "transition_goal_with_plan sid gid \<lparr>ge_goal_control_revision = r, ge_plan_revision = pr\<rparr> next profile now s
      = (Inr x, s')"
  shows "goal_version sid gid s = Some r \<and> goal_version sid gid s' = Some (saturating_add r 1)"
  using assms
  by (auto simp: transition_goal_with_plan_def Let_def bump_fields found_version dest!: control_checked
      split: sum.splits option.splits if_splits intro!: committed_version)

lemma command_advances:
  assumes "goal_command sid gid r s s'"
  shows "goal_version sid gid s = Some r \<and> goal_version sid gid s' = Some (saturating_add r 1)"
  using assms unfolding goal_command_def
proof (elim disjE exE)
  fix objective now g
  assume "update_goal_objective_if_revision sid gid objective (Some r) now s = (Inr g, s')"
  then show ?thesis
    by (auto simp: update_goal_objective_if_revision_def Let_def bump_fields found_version
        dest!: control_checked split: sum.splits option.splits if_splits intro!: committed_version)
next
  fix pr turn key reason now g
  assume "observe_goal_blocker sid gid r pr turn key reason now s = (Inr g, s')"
  then show ?thesis
    by (auto simp: observe_goal_blocker_def Let_def bump_fields found_version
        dest!: control_checked split: sum.splits option.splits if_splits intro!: committed_version)
next
  fix pr turn summary refs now g
  assume "complete_goal sid gid \<lparr>ge_goal_control_revision = r, ge_plan_revision = pr\<rparr> turn summary refs now s = (Inr g, s')"
  then show ?thesis
    by (auto simp: complete_goal_def Let_def bump_fields found_version
        dest!: control_checked split: sum.splits option.splits if_splits intro!: committed_version)
next
  fix pr now x
  assume "pause_goal_with_plan sid gid r pr now s = (Inr x, s')"
  then show ?thesis
    using transition_advances [of sid gid r pr GoalPaused None now s]
    by (auto simp: pause_goal_with_plan_def split: prod.splits sum.splits)
next
  fix pr profile now x
  assume "resume_goal_with_plan sid gid r pr profile now s = (Inr x, s')"
  then show ?thesis
    using transition_advances [of sid gid r pr GoalActive profile now s x s']
    by (simp add: resume_goal_with_plan_def)
qed

interpretation goal_lock: optimistic_lock "goal_version sid gid" "goal_command sid gid" "keeps_goal sid gid"
  for sid gid
  by unfold_locales (use command_advances keeps_goal_version in blast)+

section \<open>Stale writes are refused\<close>



text \<open>An accepted command on a goal (editing the objective, reporting a blocker, completing,
  pausing or resuming) uses its control revision up: after any further operations that keep the
  goal unfinished, no command issued for that revision is accepted, so of two commands issued for
  the same revision at most one takes effect.\<close>

theorem stale_goal_command_refused:
  assumes "goal_command sid gid r s s1" "(keeps_goal sid gid)\<^sup>*\<^sup>* s1 s2" "r \<noteq> - 1"
  shows "\<not> goal_command sid gid r s2 s3"
  by (rule goal_lock.stale_refused [OF assms])

lemma stale_goal_command_refused_witness:
  "\<forall>s3. \<not> goal_command demo_sid demo_goal_id 1 demo_session4 s3"
proof -
  have "\<not> isl (fst (pause_goal_with_plan demo_sid demo_goal_id 1 (Some 2) 8 demo_session3))" by code_simp
  then have "goal_command demo_sid demo_goal_id 1 demo_session3 demo_session4"
    unfolding goal_command_def demo_session4_def by (metis prod.collapse sum.collapse(2))
  from stale_goal_command_refused [OF this rtranclp.rtrancl_refl] show ?thesis by simp
qed

end
