(* ===== verification/GoalFailures.thy ===== *)
theory GoalFailures
  imports OptimisticLock
begin

text \<open>
  Failures and blockers of a goal: how many consecutive failed turns it survives, and what stops
  it in the end.
\<close>

section \<open>One failed turn\<close>

definition failure_record :: "string \<Rightarrow> string \<Rightarrow> u32 \<Rightarrow> goal_blocker_state" where
  "failure_record reason turn n =
     \<lparr>gb_blocker_key = runtime_error_key, gb_reason = reason, gb_consecutive_turns = n,
      gb_last_observed_turn_id = turn\<rparr>"

lemma set_goal_found:
  assumes "find_goal s sid gid = Some g" "ss_goals t = ss_goals s" "sg_session_id h = sid" "sg_goal_id h = gid"
  shows "\<exists>h'. find_goal (reconcile_goal_time_used (set_goal (is_goal sid gid) h t)) sid gid = Some h'
      \<and> goal_control h' = goal_control h"
proof -
  have "is_goal sid gid h" using assms(3,4) by (simp add: is_goal_def)
  then have "find (is_goal sid gid) (ss_goals (set_goal (is_goal sid gid) h t)) = Some h"
    using find_first_updated [of "is_goal sid gid" "ss_goals s" g h] assms(1,2)
    by (simp add: set_goal_def find_goal_def)
  moreover have "is_goal sid gid (set_timing x y) = is_goal sid gid y" for x y
    by (simp add: is_goal_def set_timing_def)
  ultimately show ?thesis
    by (simp add: find_goal_def reconcile_goal_time_used_def Let_def find_map_key)
qed

lemma paused_bound_plan:
  assumes "find_bound_plan (set_plan (is_bound_plan sid gid) (pause_plan now) s) sid gid = Some p"
  shows "sp_state p = PlanPaused"
proof -
  have "find Q (update_first Q f ps) = map_option f (find Q ps)" if "\<And>x. Q x \<Longrightarrow> Q (f x)" for Q f ps
    using that by (induction ps) auto
  from this [of "is_bound_plan sid gid" "pause_plan now" "ss_plans s"] assms show ?thesis
    by (auto simp: find_bound_plan_def set_plan_def is_bound_plan_def pause_plan_def)
qed

lemma reconcile_plans [simp]: "ss_plans (reconcile_goal_time_used s) = ss_plans s"
  by (simp add: reconcile_goal_time_used_def Let_def)

lemma find_bound_plan_cong: "ss_plans t = ss_plans s \<Longrightarrow> find_bound_plan t sid gid = find_bound_plan s sid gid"
  by (simp add: find_bound_plan_def)

lemma runtime_failure_effect:
  fixes now now2 :: utc_millis and reason :: string
  assumes "find_goal s sid gid = Some g" "goal_owned_by_turn g turn" "sg_status g = GoalActive"
  defines "n \<equiv> runtime_failure_attempt g turn"
    and "s' \<equiv> snd (observe_goal_runtime_failure sid gid turn reason now now2 id s)"
  shows "n < 3 \<Longrightarrow> fst (observe_goal_runtime_failure sid gid turn reason now now2 id s)
        = Inr (bump now (g\<lparr>sg_blocker := Some (failure_record reason turn n),
                           sg_continuation := waiting_continuation reason\<rparr>), Retrying n)
      \<and> ss_plans s' = ss_plans s
      \<and> (\<exists>h. find_goal s' sid gid = Some h \<and> sg_status h = GoalActive
           \<and> sg_blocker h = Some (failure_record reason turn n)
           \<and> sg_continuation h = waiting_continuation reason
           \<and> sg_created_by_turn_id h = sg_created_by_turn_id g)"
    and "\<not> n < 3 \<Longrightarrow> \<exists>h. (\<exists>g'. fst (observe_goal_runtime_failure sid gid turn reason now now2 id s)
            = Inr (g', FailureBlocked) \<and> sg_status g' = GoalBlocked)
      \<and> find_goal s' sid gid = Some h \<and> sg_status h = GoalBlocked
      \<and> (\<forall>p. find_bound_plan s' sid gid = Some p \<longrightarrow> sp_state p = PlanPaused)"
proof -
  note found = found_goalD [OF assms(1)]
  show "fst (observe_goal_runtime_failure sid gid turn reason now now2 id s)
        = Inr (bump now (g\<lparr>sg_blocker := Some (failure_record reason turn n),
                           sg_continuation := waiting_continuation reason\<rparr>), Retrying n)
      \<and> ss_plans s' = ss_plans s
      \<and> (\<exists>h. find_goal s' sid gid = Some h \<and> sg_status h = GoalActive
           \<and> sg_blocker h = Some (failure_record reason turn n)
           \<and> sg_continuation h = waiting_continuation reason
           \<and> sg_created_by_turn_id h = sg_created_by_turn_id g)" if n: "n < 3"
  proof -
    let ?h = "bump now (g\<lparr>sg_blocker := Some (failure_record reason turn n),
        sg_continuation := waiting_continuation reason\<rparr>)"
    have obs: "observe_goal_runtime_failure sid gid turn reason now now2 id s
        = (Inr (?h, Retrying n), reconcile_goal_time_used (set_goal (is_goal sid gid) ?h s))"
      using assms(1-3) n
      by (simp add: observe_goal_runtime_failure_def Let_def n_def goal_runtime_failure_attempts_def
          failure_record_def)
    obtain h where h: "find_goal s' sid gid = Some h" "goal_control h = goal_control ?h"
      using set_goal_found [OF assms(1) refl, of ?h] found unfolding s'_def obs by (auto simp: bump_fields)
    from arg_cong [OF h(2), of sg_status] arg_cong [OF h(2), of sg_blocker]
      arg_cong [OF h(2), of sg_continuation] arg_cong [OF h(2), of sg_created_by_turn_id] assms(3)
    have "sg_status h = GoalActive" "sg_blocker h = Some (failure_record reason turn n)"
      "sg_continuation h = waiting_continuation reason" "sg_created_by_turn_id h = sg_created_by_turn_id g"
      by (simp_all add: bump_def)
    with obs h(1) show ?thesis unfolding s'_def by simp
  qed
  show "\<exists>h. (\<exists>g'. fst (observe_goal_runtime_failure sid gid turn reason now now2 id s)
            = Inr (g', FailureBlocked) \<and> sg_status g' = GoalBlocked)
      \<and> find_goal s' sid gid = Some h \<and> sg_status h = GoalBlocked
      \<and> (\<forall>p. find_bound_plan s' sid gid = Some p \<longrightarrow> sp_state p = PlanPaused)" if n: "\<not> n < 3"
  proof -
    let ?h = "bump now2 (g\<lparr>sg_status := GoalBlocked, sg_blocker := Some (failure_record reason turn 3),
        sg_continuation := waiting_continuation reason\<rparr>)"
    let ?s = "reconcile_goal_time_used (set_goal (is_goal sid gid) ?h
        (set_plan (is_bound_plan sid gid) (pause_plan now2) s))"
    have obs: "observe_goal_runtime_failure sid gid turn reason now now2 id s
        = (Inr (stored_goal sid gid ?h ?s, FailureBlocked), ?s)"
      using assms(1-3) n
      by (simp add: observe_goal_runtime_failure_def Let_def n_def goal_runtime_failure_attempts_def
          stop_goal_for_runtime_failure_def blocked_turn_threshold_def failure_record_def)
    obtain h where h: "find_goal s' sid gid = Some h" "goal_control h = goal_control ?h"
      using set_goal_found [OF assms(1), of "set_plan (is_bound_plan sid gid) (pause_plan now2) s" ?h] found
      unfolding s'_def obs by (auto simp: bump_fields)
    from arg_cong [OF h(2), of sg_status] have st: "sg_status h = GoalBlocked" by (simp add: bump_def)
    have "stored_goal sid gid ?h ?s = h" using h(1) unfolding s'_def obs by (simp add: stored_goal_def)
    moreover have "sp_state p = PlanPaused" if "find_bound_plan s' sid gid = Some p" for p
      using that paused_bound_plan [of sid gid now2 s p]
      unfolding s'_def obs by (simp add: find_bound_plan_cong [of ?s "set_plan (is_bound_plan sid gid) (pause_plan now2) s"])
    ultimately show ?thesis using obs h(1) st by simp
  qed
qed

section \<open>Consecutive failures\<close>

text \<open>Each turn of the list starts a continuation of the goal and fails.\<close>

fun fail_turns :: "session_id \<Rightarrow> goal_id \<Rightarrow> string \<Rightarrow> utc_millis \<Rightarrow> string list \<Rightarrow> session_state \<Rightarrow> session_state" where
  "fail_turns sid gid reason now [] s = s"
| "fail_turns sid gid reason now (t # ts) s =
     fail_turns sid gid reason now ts
       (snd (observe_goal_runtime_failure sid gid t reason now now id (start_continuation sid gid t now s)))"

lemma start_continuation_find:
  assumes "find_goal s sid gid = Some g"
  shows "find_goal (start_continuation sid gid t now s) sid gid
      = Some (g\<lparr>sg_continuation := running_continuation t, sg_updated_at := now\<rparr>)"
proof -
  have "is_goal sid gid (g\<lparr>sg_continuation := running_continuation t, sg_updated_at := now\<rparr>)"
    using found_goalD [OF assms] by (simp add: is_goal_def)
  with assms find_first_updated show ?thesis
    unfolding find_goal_def start_continuation_def set_goal_update [OF assms [unfolded find_goal_def]]
    by (simp add: set_goal_def)
qed

lemma fail_turn:
  fixes now :: utc_millis and reason t :: string
  assumes "find_goal s sid gid = Some g" "sg_status g = GoalActive"
  defines "n \<equiv> runtime_failure_attempt g t"
    and "s' \<equiv> snd (observe_goal_runtime_failure sid gid t reason now now id (start_continuation sid gid t now s))"
  shows "n < 3 \<Longrightarrow> \<exists>h. find_goal s' sid gid = Some h \<and> sg_status h = GoalActive
      \<and> sg_blocker h = Some (failure_record reason t n) \<and> gc_phase (sg_continuation h) = ContinuationWaiting"
    and "\<not> n < 3 \<Longrightarrow> \<exists>h. find_goal s' sid gid = Some h \<and> sg_status h = GoalBlocked
      \<and> (\<forall>p. find_bound_plan s' sid gid = Some p \<longrightarrow> sp_state p = PlanPaused)"
proof -
  let ?g = "g\<lparr>sg_continuation := running_continuation t, sg_updated_at := now\<rparr>"
  note start = start_continuation_find [OF assms(1), of t now]
  have own: "goal_owned_by_turn ?g t" by (simp add: goal_owned_by_turn_def running_continuation_def)
  have active: "sg_status ?g = GoalActive" using assms(2) by simp
  have n: "runtime_failure_attempt ?g t = n" by (simp add: n_def runtime_failure_attempt_def)
  note effect = runtime_failure_effect [OF start own active, of reason now now, unfolded n, folded s'_def]
  show "\<exists>h. find_goal s' sid gid = Some h \<and> sg_status h = GoalActive
      \<and> sg_blocker h = Some (failure_record reason t n) \<and> gc_phase (sg_continuation h) = ContinuationWaiting"
    if "n < 3"
    using effect(1) that by (auto simp: waiting_continuation_def)
  show "\<exists>h. find_goal s' sid gid = Some h \<and> sg_status h = GoalBlocked
      \<and> (\<forall>p. find_bound_plan s' sid gid = Some p \<longrightarrow> sp_state p = PlanPaused)" if "\<not> n < 3"
    using effect(2) that by blast
qed

lemma attempt_after:
  assumes "sg_blocker g = Some (failure_record reason t n)" "t \<noteq> u"
  shows "runtime_failure_attempt g u = saturating_add n 1"
  using assms by (simp add: runtime_failure_attempt_def failure_record_def)

lemma small_succ: "saturating_add (1 :: u32) 1 = 2" "saturating_add (2 :: u32) 1 = 3"
  by (simp_all add: saturating_add_def checked_add_def)

lemma two_failures:
  assumes "find_goal s sid gid = Some g" "sg_status g = GoalActive" "runtime_failure_attempt g t = 1" "t \<noteq> u"
  shows "\<exists>h. find_goal (fail_turns sid gid reason now [t, u] s) sid gid = Some h \<and> sg_status h = GoalActive
      \<and> sg_blocker h = Some (failure_record reason u 2) \<and> gc_phase (sg_continuation h) = ContinuationWaiting"
proof -
  let ?s1 = "fail_turns sid gid reason now [t] s"
  obtain h1 where h1: "find_goal ?s1 sid gid = Some h1" "sg_status h1 = GoalActive"
    "sg_blocker h1 = Some (failure_record reason t 1)"
    using fail_turn(1) [OF assms(1,2), of t reason now] assms(3) by auto
  have "runtime_failure_attempt h1 u = 2" using attempt_after [OF h1(3) assms(4)] small_succ by simp
  with fail_turn(1) [OF h1(1,2), of u reason now] show ?thesis by simp
qed

text \<open>C29: an active goal whose last turn did not fail survives one or two consecutive failed turns:
  it stays active and waits for its next continuation with the failures counted.  The third
  consecutive failed turn blocks it and pauses its plan.\<close>

theorem third_failure_blocks:
  assumes "find_goal s sid gid = Some g" "sg_status g = GoalActive"
    "case sg_blocker g of None \<Rightarrow> True | Some b \<Rightarrow> gb_blocker_key b \<noteq> ''runtime_error''"
    "t1 \<noteq> t2" "t2 \<noteq> t3"
  shows "(\<forall>ts. ts = [t1] \<or> ts = [t1, t2] \<longrightarrow>
      (\<exists>h. find_goal (fail_turns sid gid reason now ts s) sid gid = Some h \<and> sg_status h = GoalActive
         \<and> gc_phase (sg_continuation h) = ContinuationWaiting
         \<and> map_option gb_consecutive_turns (sg_blocker h) = Some (of_nat (length ts))))
    \<and> (\<exists>h. find_goal (fail_turns sid gid reason now [t1, t2, t3] s) sid gid = Some h
         \<and> sg_status h = GoalBlocked
         \<and> (\<forall>p. find_bound_plan (fail_turns sid gid reason now [t1, t2, t3] s) sid gid = Some p \<longrightarrow>
              sp_state p = PlanPaused))"
proof -
  have one: "runtime_failure_attempt g t1 = 1"
    using assms(3) by (auto simp: runtime_failure_attempt_def runtime_error_key_def split: option.splits)
  let ?s2 = "fail_turns sid gid reason now [t1, t2] s"
  obtain h2 where h2: "find_goal ?s2 sid gid = Some h2" "sg_status h2 = GoalActive"
    "sg_blocker h2 = Some (failure_record reason t2 2)" "gc_phase (sg_continuation h2) = ContinuationWaiting"
    using two_failures [OF assms(1,2) one assms(4)] by blast
  have "runtime_failure_attempt h2 t3 = 3" using attempt_after [OF h2(3) assms(5)] small_succ by simp
  from fail_turn(2) [OF h2(1,2), of t3 reason now, unfolded this]
  have "\<exists>h. find_goal (fail_turns sid gid reason now [t1, t2, t3] s) sid gid = Some h
         \<and> sg_status h = GoalBlocked
         \<and> (\<forall>p. find_bound_plan (fail_turns sid gid reason now [t1, t2, t3] s) sid gid = Some p \<longrightarrow>
              sp_state p = PlanPaused)" by simp
  moreover have "\<exists>h. find_goal (fail_turns sid gid reason now [t1] s) sid gid = Some h \<and> sg_status h = GoalActive
      \<and> gc_phase (sg_continuation h) = ContinuationWaiting
      \<and> map_option gb_consecutive_turns (sg_blocker h) = Some 1"
    using fail_turn(1) [OF assms(1,2), of t1 reason now] one by (auto simp: failure_record_def)
  ultimately show ?thesis using h2 by (auto simp: failure_record_def)
qed

lemma third_failure_blocks_witness:
  "\<exists>h. find_goal (fail_turns demo_sid demo_goal_id ''timeout'' 9 [''u1'', ''u2'', ''u3''] demo_session2)
      demo_sid demo_goal_id = Some h \<and> sg_status h = GoalBlocked"
proof -
  have "map_option (\<lambda>g. (sg_status g, map_option gb_blocker_key (sg_blocker g)))
      (find_goal demo_session2 demo_sid demo_goal_id) = Some (GoalActive, None)" by code_simp
  then obtain g where g: "find_goal demo_session2 demo_sid demo_goal_id = Some g" "sg_status g = GoalActive"
    "sg_blocker g = None" by auto
  from third_failure_blocks [OF g(1,2), of "''u1''" "''u2''" "''u3''" "''timeout''" 9] g(3) show ?thesis by auto
qed

end
