(* ===== verification/PlanProperties.thy ===== *)
theory PlanProperties
  imports GoalFailures
begin

text \<open>
  What an update of a plan may change, what a failed update reports, how the status of a bound
  task reaches the plan, and what loading a persisted state repairs.
\<close>

section \<open>Accepted updates\<close>

lemma check_next_iff:
  "check_next_items current next = Inr () \<longleftrightarrow>
     (\<forall>i \<in> set next. case find_item (pi_item_id i) current of
        None \<Rightarrow> pi_status i = ItemPending
      | Some c \<Rightarrow> can_transition_to (pi_status c) (pi_status i))"
  by (induction current "next" rule: check_next_items.induct) (auto split: option.splits)

lemma check_removed_iff:
  "check_removed_items bindings next current = Inr () \<longleftrightarrow>
     (\<forall>c \<in> set current. find_item (pi_item_id c) next = None \<longrightarrow>
        pi_status c \<noteq> ItemInProgress \<and> pi_status c \<noteq> ItemCompleted
        \<and> pi_item_id c \<notin> set (hvalues bindings))"
  by (induction bindings "next" current rule: check_removed_items.induct) auto

lemma transitions_iff:
  "validate_status_transitions (Some p) next = Inr () \<longleftrightarrow>
     (\<forall>i \<in> set next. case find_item (pi_item_id i) (sp_items p) of
        None \<Rightarrow> pi_status i = ItemPending
      | Some c \<Rightarrow> can_transition_to (pi_status c) (pi_status i))
     \<and> (\<forall>c \<in> set (sp_items p). find_item (pi_item_id c) next = None \<longrightarrow>
          pi_status c \<noteq> ItemInProgress \<and> pi_status c \<noteq> ItemCompleted
          \<and> pi_item_id c \<notin> set (hvalues (sp_task_bindings p)))"
  unfolding check_next_iff [symmetric] check_removed_iff [symmetric]
  by (auto simp: validate_status_transitions_def split: sum.split)

lemma find_append: "find P (xs @ ys) = (case find P xs of None \<Rightarrow> find P ys | Some x \<Rightarrow> Some x)"
  by (induction xs) auto

lemma lift_store_Inr: "lift_store r = (Inr q, s') \<longleftrightarrow> r = (Inr q, s')"
  by (cases r; cases "fst r") (auto simp: lift_store_def)

lemma lift_store_Inl: "lift_store r = (Inl e, s') \<Longrightarrow> \<exists>d. e = StoreError d \<and> r = (Inl d, s')"
  by (cases r; cases "fst r") (auto simp: lift_store_def)

lemma update_for_task_Inr:
  assumes "update_for_task sid input tid now now2 now3 s0 s = (Inr q, s')"
  obtains n where "next_plan sid input tid now now2 (plan_of sid s0) = Inr n"
    "upsert_plan_inner sid n (up_expected_revision input)
       (Some (map_option GoalId (up_expected_goal_id input), up_expected_goal_control_revision input)) now3 s
     = (Inr q, s')"
  using assms
  by (auto simp: update_for_task_def upsert_plan_for_goal_progress_def lift_store_Inr split: sum.splits)

lemma written_plan_of:
  assumes "upsert_plan_inner sid plan expected guard now s = (Inr q, s')"
  shows "plan_of sid s' = Some q"
  using assms
proof (cases rule: upsert_cases)
  case (replaced current q')
  have "find (\<lambda>p. sp_session_id p = sid) (update_first (\<lambda>p. sp_session_id p = sid) (\<lambda>_. q') (ss_plans s)) = Some q'"
    by (rule find_first_updated [OF replaced(1) [unfolded plan_of_def]]) (use replaced in simp)
  with replaced show ?thesis by (simp add: plan_of_def touch_session_def set_plan_def)
next
  case (created q')
  then have "find (\<lambda>p. sp_session_id p = sid) (ss_plans s @ [q']) = Some q'"
    by (simp add: find_append plan_of_def)
  with created show ?thesis by (simp add: plan_of_def touch_session_def)
qed simp

text \<open>An accepted update of an existing plan names that plan, its language and its revision; it
  makes the next revision current; every item either keeps a status the status table allows from
  the old one or is new and pending; an item that is left out was not started, not completed and
  not bound to a task; and a task stays bound only to an item that is still there.\<close>

theorem update_respects_status_table:
  assumes "update_for_task sid input tid now now2 now3 s0 s = (Inr q, s')" "session_reach s0"
    "plan_of sid s0 = Some p"
  shows "up_plan_id input = Some (plan_id_str (sp_plan_id p)) \<and> sp_plan_id q = sp_plan_id p
    \<and> sp_language q = sp_language p \<and> plan_of sid s' = Some q
    \<and> map_option sp_revision (plan_of sid s) = Some (sp_revision p)
    \<and> sp_revision q = saturating_add (sp_revision p) 1
    \<and> (\<forall>i \<in> set (sp_items q). case find_item (pi_item_id i) (sp_items p) of
          None \<Rightarrow> pi_status i = ItemPending
        | Some c \<Rightarrow> can_transition_to (pi_status c) (pi_status i))
    \<and> (\<forall>c \<in> set (sp_items p). find_item (pi_item_id c) (sp_items q) = None \<longrightarrow>
          pi_status c \<noteq> ItemInProgress \<and> pi_status c \<noteq> ItemCompleted
          \<and> pi_item_id c \<notin> set (hvalues (sp_task_bindings p)))"
  using assms(1)
proof (cases rule: update_for_task_Inr)
  case (1 n)
  from 1(1) [unfolded assms(3)] show ?thesis
  proof (cases rule: next_plan_cases)
    case plan: (1 items st running)
    have ident: "up_plan_id input = Some (plan_id_str (sp_plan_id p))"
      "up_expected_revision input = Some (sp_revision p)" "up_language input = sp_language p"
      using plan(7) by (auto simp: validate_plan_identity_def Let_def split: option.splits if_splits)
    have n: "sp_plan_id n = sp_plan_id p" "sp_language n = sp_language p" "sp_items n = items"
      using plan(11) ident by simp_all
    have "sp_revision p \<noteq> 0"
      using reach_plan [OF assms(2,3)] by (simp add: plan_consistent_def plan_normal_def)
    from 1(2) show ?thesis
    proof (cases rule: upsert_cases)
      case (replaced current q')
      have "sp_revision current = sp_revision p" using replaced(7) ident(2) by simp
      then show ?thesis
        using replaced(1-3) n ident plan(9) [unfolded transitions_iff] written_plan_of [OF 1(2)] by simp
    next
      case (created q')
      with ident(2) \<open>sp_revision p \<noteq> 0\<close> show ?thesis by simp
    qed simp
  qed
qed

lemma update_respects_status_table_witness:
  "\<exists>p. plan_of demo_sid demo_session6 = Some p \<and> sp_revision p = 2 \<and> sp_language p = ''en''
     \<and> list_all (\<lambda>i. can_transition_to ItemInProgress (pi_status i)) (sp_items p)"
proof -
  let ?i = "demo_input (Some ''plan-s-6'') (Some 1) (Some 1) [demo_item (Some ''a'') ''write'' ItemCompleted]"
  have "map_option (\<lambda>p. (sp_revision p, sp_language p, map (\<lambda>i. (pi_item_id i, pi_status i)) (sp_items p)))
      (plan_of demo_sid demo_session5) = Some (1, ''en'', [(PlanItemId ''a'', ItemInProgress)])" by code_simp
  then obtain p where p: "plan_of demo_sid demo_session5 = Some p" "sp_revision p = 1" "sp_language p = ''en''"
    "map (\<lambda>i. (pi_item_id i, pi_status i)) (sp_items p) = [(PlanItemId ''a'', ItemInProgress)]" by auto
  have "\<not> isl (fst (update_for_task demo_sid ?i None 7 7 7 demo_session5 demo_session5))" by code_simp
  then obtain q where "update_for_task demo_sid ?i None 7 7 7 demo_session5 demo_session5 = (Inr q, demo_session6)"
    unfolding demo_session6_def update_plan_def by (metis prod.collapse sum.collapse(2))
  note update = update_respects_status_table [OF this demo_session5_reach p(1)]
  have "map_option (\<lambda>p. map pi_item_id (sp_items p)) (plan_of demo_sid demo_session6) = Some [PlanItemId ''a'']"
    by code_simp
  with update have "map pi_item_id (sp_items q) = [PlanItemId ''a'']" by simp
  with update p show ?thesis
    by (auto simp: list_all_iff find_item_def saturating_add_def checked_add_def split: option.splits)
qed

section \<open>Failed updates\<close>

lemma update_for_task_Inl:
  assumes "update_for_task sid input tid now now2 now3 s0 s = (Inl e, s')"
  shows "s' = s"
proof (cases "next_plan sid input tid now now2 (plan_of sid s0)")
  case (Inl e')
  with assms show ?thesis by (simp add: update_for_task_def)
next
  case (Inr n)
  with assms obtain d where
    up: "upsert_plan_inner sid n (up_expected_revision input)
       (Some (map_option GoalId (up_expected_goal_id input), up_expected_goal_control_revision input)) now3 s
     = (Inl d, s')"
    by (auto simp: update_for_task_def upsert_plan_for_goal_progress_def dest!: lift_store_Inl)
  then show "s' = s" by (cases rule: upsert_cases) simp_all
qed

lemma store_refusal:
  "\<not> depends_on_current_plan (StoreError d)" "instruction (StoreError d) current = RetrySameContent"
  by (simp_all add: depends_on_current_plan_def instruction_def)

text \<open>A failed call of the update tool changes nothing; its report carries the current plan only
  when the failure depends on it, and then exactly the stored one; a refusal by the store itself
  never carries it and always advises to send the same content again.\<close>

theorem failed_update_reported:
  assumes "execute_update_plan_tool from_json sid tid arguments now now2 now3 s0 s = (Inl report, s')"
  shows "s' = s \<and> pf_code report = error_code (pf_error report)
    \<and> pf_current_plan report = (if depends_on_current_plan (pf_error report) then plan_of sid s else None)
    \<and> ((\<exists>d. pf_error report = StoreError d) \<longrightarrow>
         pf_current_plan report = None \<and> pf_instruction report = RetrySameContent)"
proof -
  have "\<exists>e. report = update_plan_failure_payload e (plan_of sid s) \<and> s' = s"
  proof (cases "parse_update_plan_arguments from_json arguments")
    case (Inl e)
    with assms show ?thesis by (auto simp: execute_update_plan_tool_def)
  next
    case (Inr input)
    obtain r t where u: "update_for_task sid input tid now now2 now3 s0 s = (r, t)" by fastforce
    show ?thesis
    proof (cases r)
      case (Inl e)
      have t: "t = s" using update_for_task_Inl [OF u [unfolded Inl]] .
      have "execute_update_plan_tool from_json sid tid arguments now now2 now3 s0 s
          = (Inl (update_plan_failure_payload e (plan_of sid s)), s)"
        using u \<open>parse_update_plan_arguments from_json arguments = Inr input\<close>
        unfolding Inl t by (simp add: execute_update_plan_tool_def)
      with assms show ?thesis by (metis Inl_inject prod.inject)
    next
      case (Inr plan)
      with assms u \<open>parse_update_plan_arguments from_json arguments = Inr input\<close> show ?thesis
        by (simp add: execute_update_plan_tool_def)
    qed
  qed
  then obtain e where report: "report = update_plan_failure_payload e (plan_of sid s)" "s' = s" by blast
  show ?thesis
    unfolding report update_plan_failure_payload_def by (auto simp: store_refusal)
qed

lemma failed_update_reported_witness:
  "\<exists>report. fst (execute_update_plan_tool (\<lambda>_. Inr (demo_input None (Some 0) (Some 1) [])) demo_sid None []
      9 9 9 demo_session2 demo_session2) = Inl report \<and> pf_code report = ''plan_empty''"
proof -
  let ?r = "execute_update_plan_tool (\<lambda>_. Inr (demo_input None (Some 0) (Some 1) [])) demo_sid None []
      9 9 9 demo_session2 demo_session2"
  have "validate_language ''en'' = Inr ()" by code_simp
  then have "?r = (Inl (update_plan_failure_payload EmptyPlan (plan_of demo_sid demo_session2)), demo_session2)"
    by (simp add: execute_update_plan_tool_def parse_update_plan_arguments_def update_for_task_def next_plan_def
        demo_input_def validate_plan_items_def)
  then obtain report where r: "fst ?r = Inl report" "pf_error report = EmptyPlan"
    by (simp add: update_plan_failure_payload_def)
  then have "?r = (Inl report, snd ?r)" by (metis prod.collapse)
  from failed_update_reported [OF this] r show ?thesis by (simp add: error_code_def)
qed

section \<open>A failed phase owner under an active goal\<close>

lemma running_found: "find P items = Some i \<Longrightarrow> pi_status i = ItemInProgress \<Longrightarrow> running_count items \<noteq> 0"
  by (induction items) (auto simp: item_running_iff split: if_splits)

lemma one_running:
  assumes "running_count items \<le> 1" "find_item k items = Some i" "pi_status i = ItemInProgress"
    "\<not> item_running (f i)" "pi_status (f i) = ItemBlocked"
  shows "running_count (update_first (\<lambda>i. pi_item_id i = k) f items) = 0
    \<and> list_ex (\<lambda>i. pi_status i = ItemBlocked) (update_first (\<lambda>i. pi_item_id i = k) f items)"
  using assms
  by (induction items) (auto simp: find_item_def item_running_iff dest: running_found split: if_splits)

lemma blocked_not_finished:
  assumes "list_ex (\<lambda>i. pi_status i = ItemBlocked) items"
  shows "\<not> list_all item_finished items"
proof -
  from assms obtain i where "i \<in> set items" "\<not> item_finished i"
    by (auto simp: list_ex_iff item_finished_def)
  then show ?thesis by (auto simp: list_all_iff)
qed

lemma blocked_owner_pauses:
  assumes "running_count (sp_items p) \<le> 1" "sp_state p \<noteq> PlanPaused" "find_item k (sp_items p) = Some i"
    "pi_status i = ItemInProgress" "st = Failed \<or> st = Killed"
  obtains q where "synced_plan PhaseOwner tid st k p = Inr q" "sp_state q = PlanPaused"
    "sp_goal_id q = sp_goal_id p" "sp_session_id q = sp_session_id p"
proof -
  define f :: "plan_item \<Rightarrow> plan_item" where "f = (\<lambda>i. if pi_status i = ItemBlocked then i
      else i\<lparr>pi_status := plan_item_status_from_owner_task st\<rparr>)"
  have fi: "\<not> item_running (f i)" "pi_status (f i) = ItemBlocked"
    using assms(4,5) by (auto simp: f_def plan_item_status_from_owner_task_def item_running_iff)
  define items where "items = settle_item PhaseOwner k st (sp_items p)"
  have items: "items = update_first (\<lambda>i. pi_item_id i = k) f (sp_items p)"
    by (simp add: items_def settle_item_def f_def)
  note run = one_running [where f = f, OF assms(1,3,4) fi, folded items]
  have "advance_items items = items" using run by (simp add: advance_items_def)
  moreover have "derive_plan_state items = Inr PlanPaused"
    using run blocked_not_finished [of items] by (simp add: derive_plan_state_def Let_def running_count_def)
  ultimately show thesis
    using that assms(2,5) by (auto simp: synced_plan_def Let_def items_def is_terminal_status_def)
qed

text \<open>When the root task bound to the running item of a plan fails or is killed while the goal
  of the plan is active, following its status is refused, because the plan would have to be paused
  under an active goal: nothing changes, the item stays in progress and the binding of the ended
  task stays in the plan.\<close>

theorem failed_owner_sync_refused:
  assumes "session_reach s" "active_goal sid s = Some g" "plan_of sid s = Some p" "sp_state p \<noteq> PlanPaused"
    "hget (sp_task_bindings p) tid = Some k" "find_item k (sp_items p) = Some i"
    "pi_status i = ItemInProgress" "st = Failed \<or> st = Killed" "has_session s sid"
  shows "sync_task_status_with_authority sid tid st PhaseOwner now s s
    = (Inl (StoreError (InvalidState (PlanError PausedPlanOfActiveGoal))), s)"
proof -
  note wf = session_reach_wf [OF assms(1)]
  note shape = session_wfD(1) [OF wf]
  have g: "current_goal sid s = Some g" "sg_status g = GoalActive"
    using assms(2) find_status_current [OF shape, of sid "\<lambda>g. sg_status g = GoalActive"]
    by (auto simp: active_goal_def split: option.splits if_splits)
  then have unf: "current_unfinished_goal sid s = Some g"
    using find_status_current [OF shape, of sid "\<lambda>g. is_unfinished (sg_status g)"]
    by (simp add: current_unfinished_goal_def is_unfinished_def)
  have "coupled g p" using wf_coupled [OF wf g(1) assms(3)] g(2) by (simp add: is_unfinished_def)
  then have bound: "sp_goal_id p = Some (sg_goal_id g)" by (simp add: coupled_def)
  have one: "running_count (sp_items p) \<le> 1"
    using reach_plan [OF assms(1,3)] by (simp add: plan_consistent_def)
  obtain q where q: "synced_plan PhaseOwner tid st k p = Inr q" "sp_state q = PlanPaused"
    "sp_goal_id q = sp_goal_id p" "sp_session_id q = sp_session_id p"
    by (rule blocked_owner_pauses [OF one assms(4,6-8)])
  have "unfinished_goal_guard (current_unfinished_goal sid s) q
      = Inl (InvalidState (PlanError PausedPlanOfActiveGoal))"
    using unf g(2) bound q by (simp add: unfinished_goal_guard_def)
  with q assms(3,5,9) plan_of_session [OF assms(3)] show ?thesis
    by (simp add: sync_task_status_with_authority_def upsert_plan_def upsert_plan_inner_def lift_store_def Let_def)
qed

lemma failed_owner_sync_refused_witness:
  "fst (sync_task_status demo_sid (TaskId ''w'') Failed 9 demo_session3 demo_session3)
     = Inl (StoreError (InvalidState (PlanError PausedPlanOfActiveGoal)))"
proof -
  have "map_option (\<lambda>p. (sp_state p, hget (sp_task_bindings p) (TaskId ''w''),
      map_option pi_status (find_item (PlanItemId ''a'') (sp_items p)))) (plan_of demo_sid demo_session3)
      = Some (PlanActive, Some (PlanItemId ''a''), Some ItemInProgress)"
    "active_goal demo_sid demo_session3 \<noteq> None" "has_session demo_session3 demo_sid" by code_simp+
  then obtain p i g where "plan_of demo_sid demo_session3 = Some p" "sp_state p = PlanActive"
    "hget (sp_task_bindings p) (TaskId ''w'') = Some (PlanItemId ''a'')"
    "find_item (PlanItemId ''a'') (sp_items p) = Some i" "pi_status i = ItemInProgress"
    "active_goal demo_sid demo_session3 = Some g" "has_session demo_session3 demo_sid" by auto
  then show ?thesis
    using failed_owner_sync_refused [OF demo_session3_reach, of demo_sid g p "TaskId ''w''" "PlanItemId ''a''" i Failed 9]
    by (simp add: sync_task_status_def)
qed

section \<open>Entry ids\<close>

lemma suffixed_inject: "suffixed base m = suffixed base n \<longleftrightarrow> m = n"
proof
  assume "suffixed base m = suffixed base n"
  then have "nat_of_digits (dec_of_nat m) = nat_of_digits (dec_of_nat n)" by (simp add: suffixed_def)
  then show "m = n" by (simp add: nat_of_digits_dec_of_nat)
qed simp

lemma free_suffix: "\<exists>n \<in> set [1..<length ids + 2]. suffixed base n \<notin> set ids"
proof (rule ccontr)
  assume "\<not> ?thesis"
  then have "suffixed base ` {1..<length ids + 2} \<subseteq> set ids" by (auto simp del: upt_Suc)
  from card_mono [OF _ this] have "card (suffixed base ` {1..<length ids + 2}) \<le> card (set ids)" by simp
  moreover have "inj_on (suffixed base) {1..<length ids + 2}" by (rule inj_onI) (simp add: suffixed_inject)
  ultimately show False using card_length [of ids] by (simp add: card_image)
qed

lemma find_upt_least:
  "find P [m..<n] = Some k \<Longrightarrow> P k \<and> m \<le> k \<and> (\<forall>j. m \<le> j \<longrightarrow> j < k \<longrightarrow> \<not> P j)"
proof (induction "n - m" arbitrary: m)
  case (Suc d)
  then have "[m..<n] = m # [Suc m..<n]" by (simp add: upt_rec)
  with Suc.prems have cases: "P m \<and> k = m \<or> \<not> P m \<and> find P [Suc m..<n] = Some k"
    by (auto split: if_splits)
  then show ?case
  proof
    assume "\<not> P m \<and> find P [Suc m..<n] = Some k"
    moreover from this Suc.hyps have "P k \<and> Suc m \<le> k \<and> (\<forall>j. Suc m \<le> j \<longrightarrow> j < k \<longrightarrow> \<not> P j)"
      by (intro Suc.hyps(1)) auto
    ultimately show ?case by (metis Suc_leD not_less_eq_eq le_antisym)
  qed auto
qed simp

text \<open>The search for a free timeline entry id ends after at most one try more than there are
  entries: the id is not taken; it is the base id when that is free, and otherwise the base with the
  least free suffix.\<close>

theorem unique_entry_id_least:
  shows "unique_timeline_entry_id timeline base \<notin> set (map tm_entry_id timeline)
    \<and> (if base \<notin> set (map tm_entry_id timeline) then unique_timeline_entry_id timeline base = base
       else \<exists>n. 1 \<le> n \<and> n \<le> length timeline + 1 \<and> unique_timeline_entry_id timeline base = suffixed base n
              \<and> suffixed base n \<notin> set (map tm_entry_id timeline)
              \<and> (\<forall>j. 1 \<le> j \<longrightarrow> j < n \<longrightarrow> suffixed base j \<in> set (map tm_entry_id timeline)))"
proof -
  let ?ids = "map tm_entry_id timeline"
  let ?find = "find (\<lambda>n. suffixed base n \<notin> set ?ids) [1..<length timeline + 2]"
  obtain n where n: "?find = Some n"
    using free_suffix [of ?ids base] by (cases ?find) (auto simp: find_None_iff simp del: upt_Suc)
  note least = find_upt_least [OF n]
  have "n < length timeline + 2" using find_SomeD [OF n] by (auto simp del: upt_Suc)
  with n least show ?thesis
    by (auto simp: unique_timeline_entry_id_def Let_def simp del: upt_Suc)
qed

definition demo_entry :: "string \<Rightarrow> timeline_entry" where
  "demo_entry k = \<lparr>tm_entry_id = k, tm_session_id = demo_sid, tm_kind = NotificationPublished, tm_message = [],
     tm_occurred_at = 1\<rparr>"

lemma unique_entry_id_least_witness:
  "unique_timeline_entry_id [demo_entry ''e'', demo_entry ''e-1''] ''e'' \<notin> {''e'', ''e-1''}"
  using unique_entry_id_least [of "[demo_entry ''e'', demo_entry ''e-1'']" "''e''"] by (simp add: demo_entry_def)

end
