(* ===== verification/SessionLoad.thy ===== *)
theory SessionLoad
  imports PlanProperties
begin

text \<open>
  What loading repairs: the goals and plans of a persisted state may come from an older version or
  an interrupted write, so nothing is assumed of them but that a session has one plan.
\<close>

section \<open>One goal for each session\<close>

definition newest_of :: "session_goal list \<Rightarrow> session_id \<Rightarrow> session_goal option" where
  "newest_of goals sid = newest_goal (filter (\<lambda>g. sg_session_id g = sid) (map positive_revision goals))"

lemma positive_revision_fields [simp]:
  "sg_session_id (positive_revision g) = sg_session_id g" "sg_goal_id (positive_revision g) = sg_goal_id g"
  "sg_updated_at (positive_revision g) = sg_updated_at g" "sg_control_revision (positive_revision g) \<noteq> 0"
  "sg_status (positive_revision g) = sg_status g"
  by (simp_all add: positive_revision_def)

lemma newest_of_SomeD:
  assumes "newest_of goals sid = Some g"
  obtains h where "h \<in> set goals" "g = positive_revision h" "sg_session_id h = sid"
    "\<And>h'. h' \<in> set goals \<Longrightarrow> sg_session_id h' = sid \<Longrightarrow> sg_updated_at h' \<le> sg_updated_at h"
proof -
  note max = max_by_key_SomeD [OF assms [unfolded newest_of_def newest_goal_def]]
  then obtain h where h: "h \<in> set goals" "g = positive_revision h" "sg_session_id h = sid" by auto
  have "sg_updated_at h' \<le> sg_updated_at h" if "h' \<in> set goals" "sg_session_id h' = sid" for h'
  proof -
    have "positive_revision h' \<in> set (filter (\<lambda>g. sg_session_id g = sid) (map positive_revision goals))"
      using that by simp
    with max have "(sg_updated_at (positive_revision h'), goal_id_str (sg_goal_id (positive_revision h')))
        \<le> (sg_updated_at g, goal_id_str (sg_goal_id g))" by blast
    with h(2) show ?thesis by (auto simp: less_eq_prod_def)
  qed
  with that h show thesis by blast
qed

lemma newest_of_None: "newest_of goals sid = None \<longleftrightarrow> sid \<notin> sg_session_id ` set goals"
  by (auto simp: newest_of_def newest_goal_def filter_empty_conv)

lemma sessions_of_newest:
  "set sids \<subseteq> sg_session_id ` set goals \<Longrightarrow> map sg_session_id (List.map_filter (newest_of goals) sids) = sids"
proof (induction sids)
  case (Cons sid sids)
  then obtain g where g: "newest_of goals sid = Some g"
    using newest_of_None [of goals sid] by (cases "newest_of goals sid") auto
  then have "sg_session_id g = sid" by (rule newest_of_SomeD) simp
  with g Cons show ?case by (simp add: map_filter_simps)
qed (simp add: map_filter_simps)

lemma normalized_goals:
  shows "keys_once sg_session_id (normalize_session_goals goals)"
    and "sg_session_id ` set (normalize_session_goals goals) = sg_session_id ` set goals"
    and "g \<in> set (normalize_session_goals goals) \<Longrightarrow> newest_of goals (sg_session_id g) = Some g"
proof -
  let ?sids = "remdups (map sg_session_id goals)"
  let ?gs = "List.map_filter (newest_of goals) ?sids"
  have n: "normalize_session_goals goals = sort_key (\<lambda>g. session_id_str (sg_session_id g)) ?gs"
    by (simp add: normalize_session_goals_def Let_def newest_of_def [abs_def] comp_def)
  have ids: "map sg_session_id ?gs = ?sids" by (rule sessions_of_newest) simp
  then have "keys_once sg_session_id ?gs" by simp
  then show "keys_once sg_session_id (normalize_session_goals goals)" unfolding n by (simp add: distinct_map)
  have "sg_session_id ` set ?gs = set (map sg_session_id ?gs)" by simp
  also have "\<dots> = sg_session_id ` set goals" unfolding ids by simp
  finally show "sg_session_id ` set (normalize_session_goals goals) = sg_session_id ` set goals"
    unfolding n by simp
  show "newest_of goals (sg_session_id g) = Some g" if "g \<in> set (normalize_session_goals goals)"
  proof -
    from that obtain sid where "newest_of goals sid = Some g" unfolding n by (auto simp: map_filter_def)
    then show ?thesis by (metis newest_of_SomeD positive_revision_fields(1))
  qed
qed

section \<open>Goals and plans that fit\<close>

definition settled_plan :: "session_goal list \<Rightarrow> session_plan \<Rightarrow> session_plan" where
  "settled_plan gs p =
     (case lookup sg_session_id gs (sp_session_id p) of
        None \<Rightarrow> p
      | Some g \<Rightarrow>
          if is_unfinished (sg_status g) \<and> sg_status g \<noteq> GoalActive \<and> sp_goal_id p = Some (sg_goal_id g)
             \<and> sp_state p = PlanActive
          then pause_plan_on_load g p else p)"

lemma settled_plan_ids [simp]:
  "sp_session_id (settled_plan gs p) = sp_session_id p" "sp_goal_id (settled_plan gs p) = sp_goal_id p"
  by (auto simp: settled_plan_def pause_plan_on_load_def split: option.split)

lemma update_found_map:
  assumes "keys_once key xs" "\<And>x. P x \<Longrightarrow> key x = k"
  shows "update_first P f xs = map (\<lambda>x. if P x then f x else x) xs"
  using assms(1)
proof (induction xs)
  case (Cons x xs)
  have "map (\<lambda>x. if P x then f x else x) xs = xs" if "P x"
    by (rule map_idI) (use Cons.prems assms(2) that in \<open>metis distinct.simps(2) image_eqI list.simps(9) set_map\<close>)
  with Cons show ?case by auto
qed simp

lemma reloaded_goal_session [simp]: "sg_session_id (reloaded_goal ps g) = sg_session_id g"
  by (simp add: reloaded_goal_def pause_on_load_def split: option.split)

lemma first_settled:
  assumes "keys_once sp_session_id ps" "is_unfinished (sg_status g)" "sg_status g \<noteq> GoalActive"
    "find (is_bound_plan (sg_session_id g) (sg_goal_id g)) ps = Some p" "sp_state p = PlanActive"
  shows "update_first (is_bound_plan (sg_session_id g) (sg_goal_id g)) (pause_plan_on_load g) ps
    = map (settled_plan [g]) ps"
proof -
  let ?b = "is_bound_plan (sg_session_id g) (sg_goal_id g)"
  have "update_first ?b (pause_plan_on_load g) ps = map (\<lambda>p. if ?b p then pause_plan_on_load g p else p) ps"
    by (rule update_found_map [OF assms(1), of _ "sg_session_id g"]) (simp add: is_bound_plan_def)
  also have "\<dots> = map (settled_plan [g]) ps"
  proof (rule map_cong [OF refl])
    fix q
    assume q: "q \<in> set ps"
    have "q = p" if "?b q"
    proof -
      have "p \<in> set ps" "sp_session_id p = sp_session_id q"
        using find_SomeD [OF assms(4)] that by (auto simp: is_bound_plan_def)
      with lookup_in_set [OF assms(1)] q show ?thesis by (metis option.inject)
    qed
    with assms show "(if ?b q then pause_plan_on_load g q else q) = settled_plan [g] q"
      by (auto simp: settled_plan_def lookup_Cons is_bound_plan_def)
  qed
  finally show ?thesis .
qed

lemma first_unsettled:
  assumes "keys_once sp_session_id ps"
    "\<And>p. find (is_bound_plan (sg_session_id g) (sg_goal_id g)) ps = Some p \<Longrightarrow>
       is_unfinished (sg_status g) \<Longrightarrow> sg_status g \<noteq> GoalActive \<Longrightarrow> sp_state p \<noteq> PlanActive"
  shows "map (settled_plan [g]) ps = ps"
proof (rule map_idI)
  fix q
  assume q: "q \<in> set ps"
  show "settled_plan [g] q = q"
  proof (cases "is_bound_plan (sg_session_id g) (sg_goal_id g) q")
    case True
    then obtain p where p: "find (is_bound_plan (sg_session_id g) (sg_goal_id g)) ps = Some p"
      using q by (cases "find (is_bound_plan (sg_session_id g) (sg_goal_id g)) ps") (auto simp: find_None_iff)
    have "p \<in> set ps" "sp_session_id p = sp_session_id q"
      using find_SomeD [OF p] True by (auto simp: is_bound_plan_def)
    with lookup_in_set [OF assms(1)] q have "p = q" by (metis option.inject)
    with assms(2) [OF p] show ?thesis by (auto simp: settled_plan_def lookup_Cons)
  next
    case False
    then show ?thesis by (auto simp: settled_plan_def lookup_Cons is_bound_plan_def)
  qed
qed

lemma control_states_pointwise:
  assumes "keys_once sg_session_id gs" "keys_once sp_session_id ps"
  shows "normalize_goal_plan_control_states gs ps = (map (reloaded_goal ps) gs, map (settled_plan gs) ps)"
  using assms
proof (induction gs arbitrary: ps)
  case Nil
  have "map (settled_plan []) ps = ps" by (rule map_idI) (simp add: settled_plan_def)
  then show ?case by simp
next
  case (Cons g gs)
  let ?b = "is_bound_plan (sg_session_id g) (sg_goal_id g)"
  let ?ps = "map (settled_plan [g]) ps"
  have once: "keys_once sp_session_id ?ps" using Cons.prems(2) by (simp add: comp_def)
  have step: "normalize_goal_plan_control_states (g # gs) ps
      = (reloaded_goal ps g # fst (normalize_goal_plan_control_states gs ?ps),
         snd (normalize_goal_plan_control_states gs ?ps))"
  proof (cases "\<exists>p. find ?b ps = Some p \<and> is_unfinished (sg_status g) \<and> sg_status g \<noteq> GoalActive \<and> sp_state p = PlanActive")
    case True
    then obtain p where p: "find ?b ps = Some p" "is_unfinished (sg_status g)" "sg_status g \<noteq> GoalActive"
      "sp_state p = PlanActive" by blast
    with first_settled [OF Cons.prems(2) p(2,3,1,4)] show ?thesis
      by (simp add: Let_def reloaded_goal_def split: prod.split)
  next
    case False
    then have ps: "?ps = ps" by (intro first_unsettled [OF Cons.prems(2)]) blast
    have "sg_status g = GoalActive \<Longrightarrow> is_unfinished (sg_status g)" by (simp add: is_unfinished_def)
    with False show ?thesis
      unfolding ps by (auto simp: Let_def reloaded_goal_def split: prod.split option.split)
  qed
  have same: "reloaded_goal ?ps h = reloaded_goal ps h" if "h \<in> set gs" for h
  proof -
    have other: "sg_session_id h \<noteq> sg_session_id g" using Cons.prems(1) that by (auto simp: image_iff)
    have "find (is_bound_plan (sg_session_id h) (sg_goal_id h)) ?ps
        = map_option (settled_plan [g]) (find (is_bound_plan (sg_session_id h) (sg_goal_id h)) ps)"
      by (rule find_map_key) (simp add: is_bound_plan_def)
    moreover have "settled_plan [g] p = p" if "find (is_bound_plan (sg_session_id h) (sg_goal_id h)) ps = Some p" for p
      using find_SomeD [OF that] other by (simp add: settled_plan_def lookup_Cons is_bound_plan_def)
    ultimately show ?thesis
      by (cases "find (is_bound_plan (sg_session_id h) (sg_goal_id h)) ps") (simp_all add: reloaded_goal_def)
  qed
  have compose: "settled_plan gs (settled_plan [g] p) = settled_plan (g # gs) p" for p
  proof (cases "sp_session_id p = sg_session_id g")
    case True
    then have "lookup sg_session_id gs (sp_session_id p) = None" using Cons.prems(1) by (simp add: lookup_None_iff)
    then have "settled_plan gs (settled_plan [g] p) = settled_plan [g] p" by (simp add: settled_plan_def [of gs])
    with True show ?thesis by (simp add: settled_plan_def lookup_Cons)
  next
    case False
    then have "settled_plan [g] p = p" by (simp add: settled_plan_def lookup_Cons)
    with False show ?thesis by (simp add: settled_plan_def lookup_Cons)
  qed
  from Cons.IH [OF _ once] Cons.prems(1) step same compose show ?case
    by (simp add: comp_def cong: map_cong)
qed

section \<open>What loading guarantees\<close>

lemma bound_plans:
  "p \<in> set (bind_unfinished_goal_plans gs qs) \<Longrightarrow> g \<in> set gs \<Longrightarrow> keys_once sg_session_id gs \<Longrightarrow>
   sp_session_id p = sg_session_id g \<Longrightarrow> is_unfinished (sg_status g) \<Longrightarrow> sp_goal_id p = Some (sg_goal_id g)"
  by (auto simp: bind_unfinished_goal_plans_def lookup_def [symmetric] lookup_in_set split: option.splits if_splits)

lemma loaded_plan_sessions:
  "map sp_session_id (bind_unfinished_goal_plans gs (normalize_session_plans plans)) = map sp_session_id plans"
  by (auto simp: bind_unfinished_goal_plans_def normalize_session_plans_def normalize_plan_def Let_def
      split: option.splits)

lemma normalized_plan_fields:
  "sp_revision (normalize_plan p) \<noteq> 0" "\<not> is_blank (sp_language (normalize_plan p))"
proof -
  have "\<not> is_blank default_plan_language" by code_simp
  then show "sp_revision (normalize_plan p) \<noteq> 0" "\<not> is_blank (sp_language (normalize_plan p))"
    by (simp_all add: normalize_plan_def Let_def)
qed

lemma loaded_plan_fields:
  assumes "p \<in> set (map (settled_plan gs) (bind_unfinished_goal_plans gs' (normalize_session_plans plans)))"
  shows "sp_revision p \<noteq> 0 \<and> \<not> is_blank (sp_language p)"
proof -
  have pause: "sp_revision (settled_plan gs q) \<noteq> 0" "sp_language (settled_plan gs q) = sp_language q"
    if "sp_revision q \<noteq> 0" for q
    using that by (auto simp: settled_plan_def pause_plan_on_load_def saturating_succ_nonzero split: option.split)
  from assms obtain q where "p = settled_plan gs q" "q \<in> set (bind_unfinished_goal_plans gs' (normalize_session_plans plans))"
    by auto
  moreover from this obtain r where "sp_revision q = sp_revision (normalize_plan r)"
      "sp_language q = sp_language (normalize_plan r)"
    by (auto simp: bind_unfinished_goal_plans_def normalize_session_plans_def split: option.splits if_splits)
  ultimately show ?thesis using pause [of q] normalized_plan_fields [of r] by simp
qed

lemma coupled_on_load:
  assumes "keys_once sg_session_id gs" "keys_once sp_session_id ps" "h \<in> set gs" "q \<in> set ps"
    "sp_session_id q = sg_session_id h"
    "is_unfinished (sg_status h) \<Longrightarrow> sp_goal_id q = Some (sg_goal_id h)"
    "is_unfinished (sg_status (reloaded_goal ps h))"
  shows "sg_status (reloaded_goal ps h) = GoalActive \<longleftrightarrow> sp_state (settled_plan gs q) = PlanActive"
proof -
  have unf: "is_unfinished (sg_status h)"
    using assms(7) by (auto simp: reloaded_goal_def is_unfinished_def split: option.splits if_splits)
  have look: "lookup sg_session_id gs (sp_session_id q) = Some h"
    using lookup_in_set [OF assms(1,3)] assms(5) by simp
  have "find (is_bound_plan (sg_session_id h) (sg_goal_id h)) ps
      = find (\<lambda>p. sp_session_id p = sg_session_id h \<and> sp_goal_id p = Some (sg_goal_id h)) ps"
    by (simp add: is_bound_plan_def [abs_def])
  also have "\<dots> = Some q"
    using find_key_and [OF assms(2), of "sg_session_id h"] lookup_in_set [OF assms(2,4)] assms(5,6) unf by simp
  finally show ?thesis
    using look assms(6) unf
    by (auto simp: reloaded_goal_def settled_plan_def pause_on_load_def pause_plan_on_load_def)
qed

text \<open>C30: whatever goals and plans were stored, with one plan for each session, loading keeps one goal
  for each session that had any, the one updated last, gives every goal and plan a revision and
  every plan a language, binds the plan of a session to its unfinished goal, and leaves an
  unfinished goal active exactly when its plan is active.\<close>

theorem load_repairs:
  assumes "load_goals_and_plans goals plans = (gs, ps)" "keys_once sp_session_id plans"
  shows "distinct (map sg_session_id gs) \<and> set (map sg_session_id gs) = set (map sg_session_id goals)
    \<and> map sp_session_id ps = map sp_session_id plans
    \<and> (\<forall>g \<in> set gs. sg_control_revision g \<noteq> 0
         \<and> (\<exists>h \<in> set goals. sg_goal_id g = sg_goal_id h \<and> sg_session_id g = sg_session_id h
              \<and> (\<forall>h' \<in> set goals. sg_session_id h' = sg_session_id h \<longrightarrow> sg_updated_at h' \<le> sg_updated_at h)))
    \<and> (\<forall>p \<in> set ps. sp_revision p \<noteq> 0 \<and> \<not> is_blank (sp_language p))
    \<and> (\<forall>g \<in> set gs. \<forall>p \<in> set ps. sp_session_id p = sg_session_id g \<longrightarrow> is_unfinished (sg_status g) \<longrightarrow>
         sp_goal_id p = Some (sg_goal_id g) \<and> (sg_status g = GoalActive \<longleftrightarrow> sp_state p = PlanActive))"
proof -
  let ?gs = "normalize_session_goals goals"
  let ?ps = "bind_unfinished_goal_plans ?gs (normalize_session_plans plans)"
  note norm = normalized_goals [where goals = goals]
  have once: "keys_once sp_session_id ?ps" using assms(2) by (simp add: loaded_plan_sessions)
  have eq: "gs = map (reloaded_goal ?ps) ?gs" "ps = map (settled_plan ?gs) ?ps"
    using assms(1) control_states_pointwise [OF norm(1) once] by (simp_all add: load_goals_and_plans_def Let_def)
  have sessions: "map sg_session_id gs = map sg_session_id ?gs" unfolding eq(1) by simp
  have "map sp_session_id ps = map sp_session_id plans"
    unfolding eq(2) by (simp add: comp_def loaded_plan_sessions)
  moreover have "sg_control_revision g \<noteq> 0
         \<and> (\<exists>h \<in> set goals. sg_goal_id g = sg_goal_id h \<and> sg_session_id g = sg_session_id h
              \<and> (\<forall>h' \<in> set goals. sg_session_id h' = sg_session_id h \<longrightarrow> sg_updated_at h' \<le> sg_updated_at h))"
    if g: "g \<in> set gs" for g
  proof -
    from g obtain h where h: "h \<in> set ?gs" "g = reloaded_goal ?ps h" unfolding eq(1) by auto
    from norm(3) [OF h(1)] obtain h0 where h0: "h0 \<in> set goals" "h = positive_revision h0"
      "sg_session_id h0 = sg_session_id h"
      "\<And>h'. h' \<in> set goals \<Longrightarrow> sg_session_id h' = sg_session_id h \<Longrightarrow> sg_updated_at h' \<le> sg_updated_at h0"
      by (rule newest_of_SomeD) blast
    have "sg_goal_id g = sg_goal_id h" "sg_session_id g = sg_session_id h" "sg_control_revision g \<noteq> 0"
      unfolding h(2) using positive_revision_fields(4) [of h0, folded h0(2)]
      by (auto simp: reloaded_goal_def pause_on_load_def saturating_succ_nonzero split: option.split)
    with h0 show ?thesis by (metis positive_revision_fields(2))
  qed
  moreover have "sp_goal_id p = Some (sg_goal_id g) \<and> (sg_status g = GoalActive \<longleftrightarrow> sp_state p = PlanActive)"
    if "g \<in> set gs" "p \<in> set ps" and same: "sp_session_id p = sg_session_id g" and unf: "is_unfinished (sg_status g)"
    for g p
  proof -
    from that(1,2) obtain h q where h: "h \<in> set ?gs" "g = reloaded_goal ?ps h"
      and q: "q \<in> set ?ps" "p = settled_plan ?gs q" unfolding eq by auto
    have s: "sp_session_id q = sg_session_id h" using same h(2) q(2) by simp
    have bound: "is_unfinished (sg_status h) \<Longrightarrow> sp_goal_id q = Some (sg_goal_id h)"
      by (rule bound_plans [OF q(1) h(1) norm(1) s])
    have "is_unfinished (sg_status h)" "sg_goal_id g = sg_goal_id h"
      using unf unfolding h(2) by (auto simp: reloaded_goal_def pause_on_load_def is_unfinished_def
          split: option.splits if_splits)
    with bound q(2) coupled_on_load [OF norm(1) once h(1) q(1) s bound unf [unfolded h(2)]] h(2)
    show ?thesis by simp
  qed
  moreover have "distinct (map sg_session_id gs)" "set (map sg_session_id gs) = set (map sg_session_id goals)"
    unfolding sessions using norm(1,2) by simp_all
  moreover have "\<forall>p \<in> set ps. sp_revision p \<noteq> 0 \<and> \<not> is_blank (sp_language p)"
    using loaded_plan_fields unfolding eq(2) by blast
  ultimately show ?thesis by blast
qed

text \<open>A persisted state with two goals in one session and an active plan under the paused one.\<close>

definition stored_goal_of :: "string \<Rightarrow> goal_status \<Rightarrow> utc_millis \<Rightarrow> session_goal" where
  "stored_goal_of k st t =
     (new_goal (GoalId k) demo_sid (ThreadId ''t'') ''turn'' ''aim'' Restricted 1)
       \<lparr>sg_status := st, sg_control_revision := 0, sg_updated_at := t\<rparr>"

definition stored_plan :: session_plan where
  "stored_plan =
     \<lparr>sp_plan_id = PlanId [], sp_session_id = demo_sid, sp_goal_id = None, sp_revision = 0, sp_language = [],
      sp_state = PlanActive, sp_items = [\<lparr>pi_item_id = PlanItemId [], pi_title = ''x'', pi_status = ItemInProgress\<rparr>],
      sp_task_bindings = [], sp_updated_at = 3\<rparr>"

definition demo_loaded :: "session_goal list \<times> session_plan list" where
  "demo_loaded =
     load_goals_and_plans [stored_goal_of ''a'' GoalActive 1, stored_goal_of ''b'' GoalPaused 2] [stored_plan]"

lemma load_repairs_witness:
  "distinct (map sg_session_id (fst demo_loaded)) \<and>
   list_all (\<lambda>p. sp_revision p \<noteq> 0) (snd demo_loaded)"
proof -
  have "load_goals_and_plans [stored_goal_of ''a'' GoalActive 1, stored_goal_of ''b'' GoalPaused 2] [stored_plan]
     = (fst demo_loaded, snd demo_loaded)" by (simp add: demo_loaded_def)
  from load_repairs [OF this] show ?thesis by (simp add: list_all_iff)
qed

end
