(* ===== verification/HookProtocol.thy ===== *)
theory HookProtocol
  imports Prelude
begin

text \<open>
  The vocabulary of the extension protocol (\<open>magi-extension-host/src/protocol.rs\<close>): JSON
  values, error kinds, hook modes with their deadlines, the hook catalogue and the
  validation of a hook declared by a plugin.

  A \<open>Duration\<close> is its number of nanoseconds and an \<open>Instant\<close> the nanoseconds since an
  arbitrary origin; \<open>Instant::duration_since\<close> saturates at zero, as the subtraction of
  naturals does.  A JSON object keeps its keys in insertion order (\<open>serde_json\<close> is built with
  \<open>preserve_order\<close>), so it is an association list and \<open>insert\<close> is \<^const>\<open>AList.update\<close>.
  The texts of the error messages are constructors.
\<close>

section \<open>JSON values\<close>

datatype json =
    JNull
  | JBool bool
  | JNumber string
  | JString string
  | JArray "json list"
  | JObject "(string \<times> json) list"

definition json_get :: "string \<Rightarrow> json \<Rightarrow> json option" where
  "json_get k v = (case v of JObject fs \<Rightarrow> hget fs k | _ \<Rightarrow> None)"

definition json_str :: "json \<Rightarrow> string option" where
  "json_str v = (case v of JString s \<Rightarrow> Some s | _ \<Rightarrow> None)"

definition json_is_object :: "json \<Rightarrow> bool" where
  "json_is_object v = (case v of JObject _ \<Rightarrow> True | _ \<Rightarrow> False)"

section \<open>Durations\<close>

type_synonym duration = nat
type_synonym instant = nat

definition duration_max :: duration where
  "duration_max = (2 ^ 64 - 1) * 10 ^ 9 + 999999999"

definition from_secs :: "nat \<Rightarrow> duration" where
  "from_secs n = n * 10 ^ 9"

definition from_millis :: "nat \<Rightarrow> duration" where
  "from_millis n = n * 10 ^ 6"

definition as_millis :: "duration \<Rightarrow> nat" where
  "as_millis d = d div 10 ^ 6"

definition duration_saturating_mul :: "duration \<Rightarrow> nat \<Rightarrow> duration" where
  "duration_saturating_mul d n = min duration_max (d * n)"

section \<open>Errors\<close>

datatype error_kind =
    ProtocolError
  | VersionMismatch
  | StaleGeneration
  | MethodNotFound
  | InvalidParams
  | ConflictKind
  | RegistrationDenied
  | PermissionDenied
  | BlockedKind
  | CancelledKind
  | DeadlineExceeded
  | ReentryDenied
  | DeadlockKind
  | Backpressure
  | HostGone
  | BlobExpired
  | InternalKind

datatype hook_mode = Observe | Advise | Guard

datatype rpc_text =
    UnknownHook string
  | ModeNotAllowed string hook_mode
  | ModeNotWired string hook_mode
  | ReentryTooDeep
  | MessageNotObject
  | WrongJsonrpc
  | IdNotString
  | MethodNotString
  | ResponseWithoutId
  | ErrorNotContract
  | ResponseWithoutResult
  | BlockWithoutReason
  | ReplaceNotAllowed
  | PatchNotObject
  | PatchTooLarge
  | UnknownDecision
  | ConnectionClosed
  | TooManyPending
  | SendQueueFull
  | SendQueueFullOrClosed
  | CallTimedOut string
  | TooManyInbound
  | ServiceTimedOut
  | RemoteText string

record rpc_error =
  re_code :: int
  re_message :: rpc_text
  re_kind :: error_kind
  re_retryable :: bool
  re_detail :: json

definition rpc_error_new :: "error_kind \<Rightarrow> rpc_text \<Rightarrow> rpc_error" where
  "rpc_error_new kind message =
     \<lparr>re_code = - 32000, re_message = message, re_kind = kind, re_retryable = False, re_detail = JNull\<rparr>"

lemma rpc_error_new_kind [simp]: "re_kind (rpc_error_new kind message) = kind"
  by (simp add: rpc_error_new_def)

section \<open>Messages\<close>

datatype rpc_msg =
    Request string string json
  | Notification string json
  | Response string "rpc_error + json"

text \<open>
  \<open>Message::parse\<close>.  The deserialisation of an error object (\<open>serde_json::from_value\<close>) is a
  parameter.
\<close>

definition optional_id :: "json option \<Rightarrow> rpc_error + string option" where
  "optional_id v =
     (case v of
        None \<Rightarrow> Inr None
      | Some (JString i) \<Rightarrow> Inr (Some i)
      | Some _ \<Rightarrow> Inl (rpc_error_new ProtocolError IdNotString))"

definition message_parse :: "(json \<Rightarrow> rpc_error option) \<Rightarrow> json \<Rightarrow> rpc_error + rpc_msg" where
  "message_parse decode_error value =
     (let bad = (\<lambda>what. rpc_error_new ProtocolError what) in
      case value of
        JObject object \<Rightarrow>
          if Option.bind (hget object ''jsonrpc'') json_str \<noteq> Some ''2.0'' then Inl (bad WrongJsonrpc)
          else (case optional_id (hget object ''id'') of
             Inl e \<Rightarrow> Inl e
           | Inr opt_id \<Rightarrow>
               (case hget object ''method'' of
                  Some m \<Rightarrow>
                    (case json_str m of
                       None \<Rightarrow> Inl (bad MethodNotString)
                     | Some meth \<Rightarrow>
                         let params = (case hget object ''params'' of None \<Rightarrow> JNull | Some p \<Rightarrow> p)
                         in Inr (case opt_id of
                              Some i \<Rightarrow> Request i meth params
                            | None \<Rightarrow> Notification meth params))
                | None \<Rightarrow>
                    (case opt_id of
                       None \<Rightarrow> Inl (bad ResponseWithoutId)
                     | Some i \<Rightarrow>
                         (case hget object ''error'' of
                            Some err \<Rightarrow>
                              (case decode_error err of
                                 None \<Rightarrow> Inl (bad ErrorNotContract)
                               | Some e \<Rightarrow> Inr (Response i (Inl e)))
                          | None \<Rightarrow>
                              (case hget object ''result'' of
                                 Some result \<Rightarrow> Inr (Response i (Inr result))
                               | None \<Rightarrow> Inl (bad ResponseWithoutResult))))))
      | _ \<Rightarrow> Inl (bad MessageNotObject))"

text \<open>The constructors of the wire messages; the serialisation of an error is a parameter.\<close>

definition rpc_request :: "string \<Rightarrow> string \<Rightarrow> json \<Rightarrow> json" where
  "rpc_request i meth params =
     JObject [(''jsonrpc'', JString ''2.0''), (''id'', JString i), (''method'', JString meth), (''params'', params)]"

definition rpc_notification :: "string \<Rightarrow> json \<Rightarrow> json" where
  "rpc_notification meth params =
     JObject [(''jsonrpc'', JString ''2.0''), (''method'', JString meth), (''params'', params)]"

definition response_ok :: "string \<Rightarrow> json \<Rightarrow> json" where
  "response_ok i result =
     JObject [(''jsonrpc'', JString ''2.0''), (''id'', JString i), (''result'', result)]"

definition response_err :: "(rpc_error \<Rightarrow> json) \<Rightarrow> string \<Rightarrow> rpc_error \<Rightarrow> json" where
  "response_err encode_error i err =
     JObject [(''jsonrpc'', JString ''2.0''), (''id'', JString i), (''error'', encode_error err)]"

section \<open>Hook catalogue\<close>

definition default_deadline :: "hook_mode \<Rightarrow> duration" where
  "default_deadline mode = from_secs 5"

fun max_deadline :: "hook_mode \<Rightarrow> duration" where
  "max_deadline Guard = from_secs 30"
| "max_deadline Advise = from_secs 15"
| "max_deadline Observe = from_secs 5"

record hook_spec =
  hs_name :: string
  hs_modes :: "hook_mode list"
  hs_wired :: "hook_mode list"
  hs_replace :: bool
  hs_patch_limit :: nat

definition kib :: nat where
  "kib = 1024"

definition max_reentry_depth :: nat where
  "max_reentry_depth = 4"

definition hook_entry ::
    "string \<Rightarrow> hook_mode list \<Rightarrow> hook_mode list \<Rightarrow> bool \<Rightarrow> nat \<Rightarrow> hook_spec" where
  "hook_entry name modes wired replace limit =
     \<lparr>hs_name = name, hs_modes = modes, hs_wired = wired, hs_replace = replace, hs_patch_limit = limit\<rparr>"

definition hooks :: "hook_spec list" where
  "hooks =
     [hook_entry ''session.created'' [Observe] [Observe] False 0,
      hook_entry ''session.deleted'' [Observe] [Observe] False 0,
      hook_entry ''turn.accepted'' [Observe] [Observe] False 0,
      hook_entry ''turn.end'' [Observe] [Observe] False 0,
      hook_entry ''input'' [Guard, Advise] [Guard] True (1024 * kib),
      hook_entry ''prompt.contribute'' [Advise] [Advise] True (256 * kib),
      hook_entry ''context.assemble'' [Advise] [Advise] True (64 * kib),
      hook_entry ''model.request'' [Observe, Advise] [Observe] True (64 * kib),
      hook_entry ''model.response'' [Observe] [Observe] False 0,
      hook_entry ''tool.call'' [Guard, Advise] [Guard, Advise] True (1024 * kib),
      hook_entry ''tool.result'' [Guard, Advise] [Guard, Advise] True (1024 * kib),
      hook_entry ''compaction.before'' [Advise] [Advise] True (64 * kib),
      hook_entry ''subagent.spawn'' [Guard, Advise] [Guard] True (64 * kib),
      hook_entry ''model.resolved'' [Observe] [Observe] False 0,
      hook_entry ''usage.update'' [Observe] [Observe] False 0]"

definition find_hook_spec :: "string \<Rightarrow> hook_spec option" where
  "find_hook_spec name = find (\<lambda>spec. hs_name spec = name) hooks"

record hook_registration =
  hr_name :: string
  hr_mode :: hook_mode
  hr_deadline_ms :: "u64 option"

definition registration_validate :: "hook_registration \<Rightarrow> rpc_error + duration" where
  "registration_validate r =
     (case find_hook_spec (hr_name r) of
        None \<Rightarrow> Inl (rpc_error_new RegistrationDenied (UnknownHook (hr_name r)))
      | Some spec \<Rightarrow>
          if hr_mode r \<notin> set (hs_modes spec)
          then Inl (rpc_error_new RegistrationDenied (ModeNotAllowed (hr_name r) (hr_mode r)))
          else
            let requested = (case hr_deadline_ms r of
                               Some ms \<Rightarrow> from_millis (unat ms)
                             | None \<Rightarrow> default_deadline (hr_mode r))
            in Inr (min requested (max_deadline (hr_mode r))))"

definition registration_validate_wired :: "hook_registration \<Rightarrow> rpc_error + duration" where
  "registration_validate_wired r =
     (case registration_validate r of
        Inl e \<Rightarrow> Inl e
      | Inr deadline \<Rightarrow>
          (case find_hook_spec (hr_name r) of
             Some spec \<Rightarrow>
               if hr_mode r \<in> set (hs_wired spec) then Inr deadline
               else Inl (rpc_error_new RegistrationDenied (ModeNotWired (hr_name r) (hr_mode r)))
           | None \<Rightarrow> Inl (rpc_error_new RegistrationDenied (UnknownHook (hr_name r)))))"

lemma find_hook_spec_SomeD:
  "find_hook_spec name = Some spec \<Longrightarrow> spec \<in> set hooks \<and> hs_name spec = name"
  by (auto simp: find_hook_spec_def find_Some_iff)

text \<open>A registration that validates has a mode of the catalogue and a bounded deadline.\<close>

lemma registration_validate_Inr:
  "registration_validate r = Inr d \<longleftrightarrow>
   (\<exists>spec. find_hook_spec (hr_name r) = Some spec \<and> hr_mode r \<in> set (hs_modes spec) \<and>
      d = min (case hr_deadline_ms r of Some ms \<Rightarrow> from_millis (unat ms)
               | None \<Rightarrow> default_deadline (hr_mode r)) (max_deadline (hr_mode r)))"
  by (auto simp: registration_validate_def Let_def split: option.splits if_splits)

text \<open>The \<open>expect\<close> in the check of the wiring cannot fail: the hook was found before.\<close>

lemma registration_validate_wired_Inr:
  "registration_validate_wired r = Inr d \<longleftrightarrow>
   registration_validate r = Inr d \<and>
   (\<exists>spec. find_hook_spec (hr_name r) = Some spec \<and> hr_mode r \<in> set (hs_wired spec))"
  by (auto simp: registration_validate_wired_def split: sum.splits option.splits if_splits)

text \<open>In the catalogue a mode is wired only if it is allowed, and only a hook with a mode
  that may answer carries a patch limit.\<close>

lemma hooks_wired_allowed: "\<forall>spec \<in> set hooks. set (hs_wired spec) \<subseteq> set (hs_modes spec)"
  by (simp add: hooks_def hook_entry_def)

lemma hooks_distinct: "distinct (map hs_name hooks)"
  by (simp add: hooks_def hook_entry_def)

end
