(* ===== verification/SlidingWindow.thy ===== *)
theory SlidingWindow
  imports Prelude
begin

text \<open>
  Sliding windows of time stamped events: a queue from whose front the expired entries are
  dropped, and into whose back the new one is pushed.  As long as the clock does not go back,
  the queue is the part of the whole history that lies in the window.
\<close>

section \<open>Dropping expired entries\<close>

text \<open>In a list sorted by time the entries below a bound are a prefix.\<close>

lemma dropWhile_expired:
  assumes "sorted (map f w)" "\<And>x y. f x \<le> f y \<Longrightarrow> P y \<Longrightarrow> P x"
  shows "dropWhile P w = filter (\<lambda>x. \<not> P x) w"
  using assms(1)
proof (induction w)
  case (Cons a w)
  show ?case
  proof (cases "P a")
    case True
    with Cons show ?thesis by simp
  next
    case False
    with Cons.prems have "\<forall>x \<in> set w. \<not> P x" by (auto dest: assms(2))
    with False show ?thesis by simp
  qed
qed simp

section \<open>The contract of a window\<close>

text \<open>
  \<open>expired now t\<close>: an event of time \<open>t\<close> has left the window at \<open>now\<close>.  It stays out, and the
  earlier events left before.
\<close>

locale sliding_window =
  fixes expired :: "'t::linorder \<Rightarrow> 't \<Rightarrow> bool"
    and time_of :: "'e \<Rightarrow> 't"
  assumes expired_earlier: "s \<le> t \<Longrightarrow> expired now t \<Longrightarrow> expired now s"
    and expired_later: "now \<le> after_now \<Longrightarrow> expired now t \<Longrightarrow> expired after_now t"
begin

text \<open>The part of a history in the window, and one step of the queue.\<close>

definition window_of :: "'t \<Rightarrow> 'e list \<Rightarrow> 'e list" where
  "window_of now h = filter (\<lambda>e. \<not> expired now (time_of e)) h"

definition expire :: "'t \<Rightarrow> 'e list \<Rightarrow> 'e list" where
  "expire now q = dropWhile (\<lambda>e. expired now (time_of e)) q"

definition current :: "'e list \<Rightarrow> 'e list \<Rightarrow> bool" where
  "current h q \<longleftrightarrow> q = (if h = [] then [] else window_of (time_of (last h)) h)"

lemma expire_sorted: "sorted (map time_of q) \<Longrightarrow> expire now q = window_of now q"
  unfolding expire_def window_of_def
  by (rule dropWhile_expired [where f = time_of]) (auto intro: expired_earlier)

lemma window_sorted: "sorted (map time_of h) \<Longrightarrow> sorted (map time_of (window_of now h))"
  by (simp add: window_of_def sorted_filter)

lemma window_window: "t \<le> now \<Longrightarrow> window_of now (window_of t h) = window_of now h"
  by (auto simp: window_of_def intro!: filter_cong dest: expired_later)

lemma current_Nil: "current [] []"
  by (simp add: current_def)

text \<open>The queue, expired at a later time, is the window of the whole history.\<close>

lemma current_expire:
  assumes "current h q" "sorted (map time_of h)" "\<forall>e \<in> set h. time_of e \<le> now"
  shows "expire now q = window_of now h"
proof (cases "h = []")
  case True
  with assms(1) show ?thesis by (simp add: current_def expire_def window_of_def)
next
  case False
  with assms have q: "q = window_of (time_of (last h)) h" by (simp add: current_def)
  have "expire now q = window_of now q"
    using expire_sorted window_sorted assms(2) q by blast
  then show ?thesis using window_window assms(3) False by (simp add: q)
qed

lemma current_push:
  assumes "current h q" "sorted (map time_of (h @ [e]))" "\<not> expired (time_of e) (time_of e)"
  shows "current (h @ [e]) (expire (time_of e) q @ [e])"
proof -
  have "expire (time_of e) q = window_of (time_of e) h"
    by (rule current_expire [OF assms(1)]) (use assms(2) in \<open>auto simp: sorted_append\<close>)
  then show ?thesis using assms(3) by (simp add: current_def window_of_def)
qed

text \<open>
  A queue that is also expired between the pushes: it is the window of the history at some
  earlier time.
\<close>

definition tracks :: "'t \<Rightarrow> 'e list \<Rightarrow> 'e list \<Rightarrow> bool" where
  "tracks now h q \<longleftrightarrow> sorted (map time_of h) \<and> (\<forall>e \<in> set h. time_of e \<le> now) \<and>
     (\<exists>t \<le> now. q = window_of t h)"

lemma tracks_Nil: "tracks now [] []"
  by (auto simp: tracks_def window_of_def)

lemma tracks_later:
  assumes "tracks now h q" "now \<le> now'"
  shows "tracks now' h q"
proof -
  from assms(1) obtain t where t: "t \<le> now" "q = window_of t h" by (auto simp: tracks_def)
  then have "t \<le> now'" using assms(2) by simp
  with t assms show ?thesis by (auto simp: tracks_def)
qed

lemma tracks_expire:
  assumes "tracks t h q" "t \<le> now"
  shows "expire now q = window_of now h" and "tracks now h (expire now q)"
proof -
  from assms(1) obtain s where s: "s \<le> t" "q = window_of s h" "sorted (map time_of h)"
    "\<forall>e \<in> set h. time_of e \<le> t" by (auto simp: tracks_def)
  with assms(2) show e: "expire now q = window_of now h"
    by (simp add: expire_sorted window_sorted window_window)
  show "tracks now h (expire now q)"
    unfolding e using s assms(2) by (fastforce simp: tracks_def)
qed

lemma tracks_push:
  assumes "tracks t h q" "t \<le> now" "time_of e = now" "\<not> expired now now"
  shows "tracks now (h @ [e]) (expire now q @ [e])"
  using tracks_expire [OF assms(1,2)] assms
  by (fastforce simp: tracks_def sorted_append window_of_def)

end

end
