(* ===== verification/Breaker.thy ===== *)
theory Breaker
  imports HookProtocol SlidingWindow
begin

text \<open>
  The circuit breaker of a plugin (\<open>magi-extension-host/src/breaker.rs\<close>) and the supervisor
  that restarts its host process (\<open>supervisor.rs\<close>).  \<open>reach_breaker\<close> lets admissions and
  results of concurrent calls arrive in any order.
\<close>

section \<open>Breaker\<close>

record breaker_policy =
  bp_consecutive_failures :: u32
  bp_window :: duration
  bp_window_min_calls :: nat
  bp_cooldown :: duration

definition breaker_policy_default :: breaker_policy where
  "breaker_policy_default =
     \<lparr>bp_consecutive_failures = 5, bp_window = from_secs 60, bp_window_min_calls = 10,
      bp_cooldown = from_secs 30\<rparr>"

datatype admission = Allowed | Probe | Rejected

datatype breaker_state = Closed | Open instant | HalfOpen bool

record breaker =
  bk_policy :: breaker_policy
  bk_state :: breaker_state
  bk_consecutive :: u32
  bk_window :: "(instant \<times> bool) list"

definition breaker_new :: "breaker_policy \<Rightarrow> breaker" where
  "breaker_new policy = \<lparr>bk_policy = policy, bk_state = Closed, bk_consecutive = 0, bk_window = []\<rparr>"

definition is_open :: "breaker \<Rightarrow> bool" where
  "is_open b = (bk_state b \<noteq> Closed)"

definition admit :: "instant \<Rightarrow> breaker \<Rightarrow> admission \<times> breaker" where
  "admit now b =
     (case bk_state b of
        Closed \<Rightarrow> (Allowed, b)
      | Open until \<Rightarrow>
          if until \<le> now then (Probe, b\<lparr>bk_state := HalfOpen True\<rparr>) else (Rejected, b)
      | HalfOpen False \<Rightarrow> (Probe, b\<lparr>bk_state := HalfOpen True\<rparr>)
      | HalfOpen True \<Rightarrow> (Rejected, b))"

definition failure_count :: "(instant \<times> bool) list \<Rightarrow> nat" where
  "failure_count w = length (filter (\<lambda>(at, ok). \<not> ok) w)"

definition breaker_tripped :: "breaker_policy \<Rightarrow> u32 \<Rightarrow> (instant \<times> bool) list \<Rightarrow> bool" where
  "breaker_tripped p consecutive w =
     (bp_consecutive_failures p \<le> consecutive \<or>
      bp_window_min_calls p \<le> length w \<and> length w < failure_count w * 2)"

text \<open>The increment of \<open>consecutive\<close> wraps at 32 bits, as a release build does.\<close>

definition breaker_record :: "instant \<Rightarrow> bool \<Rightarrow> breaker \<Rightarrow> breaker" where
  "breaker_record now ok b =
     (case bk_state b of
        HalfOpen _ \<Rightarrow>
          if ok then b\<lparr>bk_state := Closed, bk_consecutive := 0, bk_window := []\<rparr>
          else b\<lparr>bk_state := Open (now + bp_cooldown (bk_policy b))\<rparr>
      | _ \<Rightarrow>
          let w = dropWhile (\<lambda>(at, _). bp_window (bk_policy b) < now - at) (bk_window b) @ [(now, ok)];
              n = (if ok then 0 else bk_consecutive b + 1);
              b' = b\<lparr>bk_window := w, bk_consecutive := n\<rparr>
          in if breaker_tripped (bk_policy b) n w
             then b'\<lparr>bk_state := Open (now + bp_cooldown (bk_policy b))\<rparr> else b')"

lemma admit_policy [simp]: "bk_policy (snd (admit now b)) = bk_policy b"
  by (simp add: admit_def split: breaker_state.split bool.split)

lemma record_policy [simp]: "bk_policy (breaker_record now ok b) = bk_policy b"
  by (simp add: breaker_record_def Let_def split: breaker_state.split)

lemma admit_Allowed_iff: "fst (admit now b) = Allowed \<longleftrightarrow> bk_state b = Closed"
  by (simp add: admit_def split: breaker_state.split bool.split)

lemma admit_Rejected: "fst (admit now b) = Rejected \<Longrightarrow> snd (admit now b) = b"
  by (auto simp: admit_def split: breaker_state.splits bool.splits if_splits)

lemma admit_Probe:
  "fst (admit now b) = Probe \<Longrightarrow> snd (admit now b) = b\<lparr>bk_state := HalfOpen True\<rparr>"
  by (auto simp: admit_def split: breaker_state.splits bool.splits if_splits)

lemma admit_probing [simp]: "bk_state b = HalfOpen True \<Longrightarrow> admit now b = (Rejected, b)"
  by (simp add: admit_def)

section \<open>Any interleaving of calls\<close>

datatype breaker_event = AdmitCall instant | CallResult instant bool

fun apply_event :: "breaker_event \<Rightarrow> breaker \<Rightarrow> breaker" where
  "apply_event (AdmitCall now) b = snd (admit now b)"
| "apply_event (CallResult now ok) b = breaker_record now ok b"

inductive reach_breaker :: "breaker_policy \<Rightarrow> breaker \<Rightarrow> bool" for p where
  reach_new: "reach_breaker p (breaker_new p)"
| reach_event: "reach_breaker p b \<Longrightarrow> reach_breaker p (apply_event e b)"

text \<open>The counter of a closed breaker is below the threshold, so it never wraps there.\<close>

definition breaker_wf :: "breaker_policy \<Rightarrow> breaker \<Rightarrow> bool" where
  "breaker_wf p b \<longleftrightarrow>
     bk_policy b = p \<and> bk_state b \<noteq> HalfOpen False \<and>
     (bk_state b = Closed \<longrightarrow> bk_consecutive b < bp_consecutive_failures p)"

lemma apply_event_wf: "breaker_wf p b \<Longrightarrow> 0 < bp_consecutive_failures p \<Longrightarrow> breaker_wf p (apply_event e b)"
  by (cases e; cases "bk_state b")
     (auto simp: breaker_wf_def admit_def breaker_record_def breaker_tripped_def Let_def not_le
           split: bool.split)

lemma reach_breaker_wf: "reach_breaker p b \<Longrightarrow> 0 < bp_consecutive_failures p \<Longrightarrow> breaker_wf p b"
proof (induction rule: reach_breaker.induct)
  case reach_new
  then show ?case by (simp add: breaker_wf_def breaker_new_def)
qed (simp add: apply_event_wf)

section \<open>The reference: what the whole history says\<close>

text \<open>
  The reference decides from all the results of a closed breaker: the length of the run of
  failures at the end of the history, and the share of failures among the calls of the last
  window.
\<close>

definition failure_run :: "(instant \<times> bool) list \<Rightarrow> nat" where
  "failure_run h = length (takeWhile (\<lambda>(at, ok). \<not> ok) (rev h))"

definition recent_calls :: "breaker_policy \<Rightarrow> instant \<Rightarrow> (instant \<times> bool) list \<Rightarrow> (instant \<times> bool) list" where
  "recent_calls p now h = filter (\<lambda>(at, _). now - at \<le> bp_window p) h"

definition should_trip :: "breaker_policy \<Rightarrow> instant \<Rightarrow> (instant \<times> bool) list \<Rightarrow> bool" where
  "should_trip p now h \<longleftrightarrow>
     unat (bp_consecutive_failures p) \<le> failure_run h \<or>
     bp_window_min_calls p \<le> length (recent_calls p now h) \<and>
     length (recent_calls p now h) < 2 * failure_count (recent_calls p now h)"

definition replay :: "breaker_policy \<Rightarrow> (instant \<times> bool) list \<Rightarrow> breaker" where
  "replay p h = fold (\<lambda>(now, ok) b. breaker_record now ok b) h (breaker_new p)"

interpretation calls: sliding_window "\<lambda>now at. bp_window p < now - at" fst for p :: breaker_policy
  by unfold_locales auto

lemma calls_window: "calls.window_of p now h = recent_calls p now h"
  by (auto simp: calls.window_of_def recent_calls_def intro!: filter_cong)

lemma calls_expire: "dropWhile (\<lambda>(at, _). bp_window p < now - at) w = calls.expire p now w"
  by (simp add: calls.expire_def case_prod_unfold)

lemma failure_run_snoc:
  "failure_run (h @ [(now, ok)]) = (if ok then 0 else Suc (failure_run h))"
  by (simp add: failure_run_def)

text \<open>What a closed breaker remembers of its history.\<close>

definition remembers :: "breaker_policy \<Rightarrow> (instant \<times> bool) list \<Rightarrow> breaker \<Rightarrow> bool" where
  "remembers p h b \<longleftrightarrow>
     bk_policy b = p \<and> bk_state b = Closed \<and> unat (bk_consecutive b) = failure_run h \<and>
     calls.current p h (bk_window b)"

text \<open>The history of a breaker in which no result was a reason to open.\<close>

definition quiet :: "breaker_policy \<Rightarrow> (instant \<times> bool) list \<Rightarrow> bool" where
  "quiet p h \<longleftrightarrow> (\<forall>n < length h. \<not> should_trip p (fst (h ! n)) (take (Suc n) h))"

lemma window_after:
  assumes "remembers p h b" "sorted (map fst (h @ [(now, ok)]))"
  shows "calls.expire p now (bk_window b) @ [(now, ok)] = recent_calls p now (h @ [(now, ok)])"
    and "calls.current p (h @ [(now, ok)]) (calls.expire p now (bk_window b) @ [(now, ok)])"
  using calls.current_push [of p h "bk_window b" "(now, ok)"] assms
  by (simp_all add: remembers_def calls.current_def calls_window)

lemma consecutive_after:
  assumes "remembers p h b" "unat (bk_consecutive b) < unat (bp_consecutive_failures p)"
  shows "unat (if ok then 0 else bk_consecutive b + 1) = failure_run (h @ [(now, ok)])"
proof -
  have "unat (bk_consecutive b) + unat (1 :: u32) < 2 ^ LENGTH(32)"
    using assms(2) unsigned_less [of "bp_consecutive_failures p", where ?'a = nat] by simp
  then have "unat (bk_consecutive b + 1) = unat (bk_consecutive b) + unat (1 :: u32)"
    by (simp only: unat_add_lem)
  with assms(1) show ?thesis by (simp add: remembers_def failure_run_snoc)
qed

lemma record_after:
  assumes b: "remembers p h b" "unat (bk_consecutive b) < unat (bp_consecutive_failures p)"
    and s: "sorted (map fst (h @ [(now, ok)]))"
  shows "if should_trip p now (h @ [(now, ok)])
         then bk_state (breaker_record now ok b) = Open (now + bp_cooldown p)
         else remembers p (h @ [(now, ok)]) (breaker_record now ok b)"
proof -
  let ?n = "if ok then 0 else bk_consecutive b + 1"
  have p: "bk_policy b = p" "bk_state b = Closed" using b(1) by (simp_all add: remembers_def)
  have "breaker_tripped p ?n (recent_calls p now (h @ [(now, ok)])) = should_trip p now (h @ [(now, ok)])"
    using consecutive_after [OF b, of ok now]
    by (simp add: breaker_tripped_def should_trip_def word_le_nat_alt mult.commute)
  then show ?thesis
    using window_after [OF b(1) s] consecutive_after [OF b, of ok now] p
    by (simp add: breaker_record_def Let_def remembers_def calls_expire)
qed

lemma quiet_snoc:
  "quiet p (h @ [x]) \<longleftrightarrow> quiet p h \<and> \<not> should_trip p (fst x) (h @ [x])"
  by (auto simp: quiet_def nth_append less_Suc_eq)

lemma replay_snoc: "replay p (h @ [(now, ok)]) = breaker_record now ok (replay p h)"
  by (simp add: replay_def)

lemma replay_remembers:
  assumes "sorted (map fst h)" "quiet p h" "0 < bp_consecutive_failures p"
  shows "remembers p h (replay p h) \<and> unat (bk_consecutive (replay p h)) < unat (bp_consecutive_failures p)"
  using assms
proof (induction h rule: rev_induct)
  case Nil
  then show ?case
    by (simp add: remembers_def replay_def breaker_new_def failure_run_def calls.current_Nil unat_gt_0 word_neq_0_conv)
next
  case (snoc x h)
  obtain now ok where x: "x = (now, ok)" by (cases x)
  from snoc.prems have h: "quiet p h" "\<not> should_trip p now (h @ [(now, ok)])"
    by (simp_all add: quiet_snoc x)
  with snoc have "remembers p h (replay p h)" "unat (bk_consecutive (replay p h)) < unat (bp_consecutive_failures p)"
    by (auto simp: sorted_append)
  with h(2) snoc.prems(1) have "remembers p (h @ [(now, ok)]) (breaker_record now ok (replay p h))"
    using record_after [of p h "replay p h" now ok] by (simp add: x)
  moreover from this h(2) have "unat (bk_consecutive (breaker_record now ok (replay p h))) < unat (bp_consecutive_failures p)"
    by (simp add: remembers_def should_trip_def not_le)
  ultimately show ?case by (simp add: x replay_snoc)
qed

section \<open>Properties\<close>


definition demo_calls :: "(instant \<times> bool) list" where
  "demo_calls = [(0, False), (1, False), (2, False), (3, False)]"


fun admit_all :: "instant list \<Rightarrow> breaker \<Rightarrow> admission list \<times> breaker" where
  "admit_all [] b = ([], b)"
| "admit_all (t # ts) b =
     (let (a, b') = admit t b; (rest, b'') = admit_all ts b' in (a # rest, b''))"

lemma admit_all_probing:
  "bk_state b = HalfOpen True \<Longrightarrow> admit_all ts b = (replicate (length ts) Rejected, b)"
  by (induction ts) simp_all

text \<open>The position of the first time at or after the end of the cooldown.\<close>

definition probe_at :: "instant \<Rightarrow> instant list \<Rightarrow> nat \<Rightarrow> bool" where
  "probe_at until ts i \<longleftrightarrow> until \<le> ts ! i \<and> (\<forall>j < i. ts ! j < until)"

lemma admit_all_open:
  assumes "bk_state b = Open until"
  shows "fst (admit_all ts b) = map (\<lambda>i. if probe_at until ts i then Probe else Rejected) [0..<length ts] \<and>
         snd (admit_all ts b) = (if \<exists>t \<in> set ts. until \<le> t then b\<lparr>bk_state := HalfOpen True\<rparr> else b)"
proof (induction ts)
  case (Cons t ts)
  show ?case
  proof (cases "until \<le> t")
    case True
    then have "\<not> probe_at until (t # ts) (Suc i)" for i by (auto simp: probe_at_def)
    moreover have "probe_at until (t # ts) 0" using True by (simp add: probe_at_def)
    ultimately show ?thesis
      using True assms by (simp add: admit_def admit_all_probing map_upt_Suc map_replicate_const del: upt_Suc)
  next
    case False
    then have "probe_at until (t # ts) (Suc i) = probe_at until ts i" for i
      by (auto simp: probe_at_def less_Suc_eq_0_disj)
    moreover have "\<not> probe_at until (t # ts) 0" using False by (simp add: probe_at_def)
    ultimately show ?thesis
      using False assms Cons.IH
      by (cases "admit_all ts b") (simp add: admit_def map_upt_Suc del: upt_Suc)
  qed
qed simp

text \<open>C38: Whatever calls ask an open breaker in which order, every one before the end of the
  cooldown is refused, the first one after it is the probe and every other one is refused
  until a result is recorded; that result alone closes the breaker or opens it for another
  cooldown.\<close>

theorem open_breaker_admits_one_probe:
  assumes "bk_state b = Open until"
  shows "fst (admit_all ts b) = map (\<lambda>i. if probe_at until ts i then Probe else Rejected) [0..<length ts] \<and>
    ((\<exists>t \<in> set ts. until \<le> t) \<longrightarrow>
       bk_state (breaker_record now ok (snd (admit_all ts b))) =
         (if ok then Closed else Open (now + bp_cooldown (bk_policy b))))"
  using admit_all_open [OF assms, of ts] by (simp_all add: breaker_record_def)

lemma open_breaker_admits_one_probe_witness:
  "fst (admit_all [5, 20, 21] ((breaker_new breaker_policy_default)\<lparr>bk_state := Open 10\<rparr>)) =
     [Rejected, Probe, Rejected] \<and>
   bk_state (breaker_record 25 True
     (snd (admit_all [5, 20, 21] ((breaker_new breaker_policy_default)\<lparr>bk_state := Open 10\<rparr>)))) = Closed"
  using open_breaker_admits_one_probe
    [of "(breaker_new breaker_policy_default)\<lparr>bk_state := Open 10\<rparr>" 10 "[5, 20, 21]" 25 True]
  by (simp add: probe_at_def upt_rec less_Suc_eq numeral_nat)

end
