(* ===== verification/Supervisor.thy ===== *)
theory Supervisor
  imports Breaker
begin

text \<open>
  The supervisor of one plugin (\<open>magi-extension-host/src/supervisor.rs\<close>): the decision after a
  crash and the loop that launches, watches and restarts the host process.  What the process
  and the user do is the list of episodes the loop meets; when the list is over, the last
  instance is still running.
\<close>

section \<open>Restart decisions\<close>

record restart_policy =
  rp_initial :: duration
  rp_max :: duration
  rp_window :: duration
  rp_max_crashes :: nat

definition restart_policy_default :: restart_policy where
  "restart_policy_default =
     \<lparr>rp_initial = from_secs 1, rp_max = from_secs 60, rp_window = from_secs 600, rp_max_crashes = 5\<rparr>"

datatype restart_decision = RestartAfter duration | GiveUp

record restart_tracker =
  rt_policy :: restart_policy
  rt_crashes :: "instant list"

definition restart_tracker_new :: "restart_policy \<Rightarrow> restart_tracker" where
  "restart_tracker_new policy = \<lparr>rt_policy = policy, rt_crashes = []\<rparr>"

definition on_crash :: "instant \<Rightarrow> restart_tracker \<Rightarrow> restart_decision \<times> restart_tracker" where
  "on_crash now t =
     (let crashes = dropWhile (\<lambda>at. rp_window (rt_policy t) < now - at) (rt_crashes t) @ [now];
          t' = t\<lparr>rt_crashes := crashes\<rparr>
      in if rp_max_crashes (rt_policy t) < length crashes then (GiveUp, t')
         else
           let exponent = min (length crashes - 1) 16;
               delay = duration_saturating_mul (rp_initial (rt_policy t)) (2 ^ exponent)
           in (RestartAfter (min delay (rp_max (rt_policy t))), t'))"

interpretation crashes: sliding_window "\<lambda>now at. d < now - at" "\<lambda>t. t" for d :: duration
  by unfold_locales auto

lemma on_crash_policy [simp]: "rt_policy (snd (on_crash now t)) = rt_policy t"
  by (simp add: on_crash_def Let_def)

lemma on_crash_crashes: "rt_crashes (snd (on_crash now t)) = crashes.expire (rp_window (rt_policy t)) now (rt_crashes t) @ [now]"
  by (simp add: on_crash_def Let_def crashes.expire_def)

text \<open>Feeding a tracker with the times of the crashes.\<close>

definition tracker_after :: "restart_policy \<Rightarrow> instant list \<Rightarrow> restart_tracker" where
  "tracker_after p ts = fold (\<lambda>t. snd \<circ> on_crash t) ts (restart_tracker_new p)"

lemma tracker_after_current:
  "sorted ts \<Longrightarrow> rt_policy (tracker_after p ts) = p \<and>
     crashes.current (rp_window p) ts (rt_crashes (tracker_after p ts))"
proof (induction ts rule: rev_induct)
  case Nil
  then show ?case by (simp add: tracker_after_def restart_tracker_new_def crashes.current_Nil)
next
  case (snoc t ts)
  then have IH: "rt_policy (tracker_after p ts) = p"
    "crashes.current (rp_window p) ts (rt_crashes (tracker_after p ts))" by (simp_all add: sorted_append)
  have "tracker_after p (ts @ [t]) = snd (on_crash t (tracker_after p ts))"
    by (simp add: tracker_after_def)
  with IH crashes.current_push [OF IH(2)] snoc.prems show ?case
    by (simp add: on_crash_crashes)
qed

section \<open>The supervision loop\<close>

datatype crash_reason = HostProcessExited | LaunchErrorText string

datatype supervisor_state =
    Starting
  | Running u64
  | Backoff nat crash_reason
  | Failed restart_policy crash_reason
  | FailedUnregistered
  | Stopped

text \<open>
  How one launch went: the user stopped during it, it failed with the text of an error, or
  the instance came up; then whether the bus knew the plugin, and whether the instance was
  stopped by the user or ended (exited or lost its heartbeat).  The failure text names the
  policy, of which it prints the window and the limit.
\<close>

datatype launch_result =
    LaunchStopped
  | LaunchFailed string
  | LaunchedUnregistered
  | LaunchedUntilStop
  | LaunchedUntilExit

record episode =
  ep_launch :: launch_result
  ep_crash_at :: instant
  ep_stop_in_backoff :: bool

text \<open>What the loop does, in order.\<close>

datatype supervisor_action =
    SetState supervisor_state
  | AttachInstance u64
  | DetachInstance
  | StopInstance u64
  | Sleep duration

fun supervise_loop ::
    "restart_policy \<Rightarrow> restart_tracker \<Rightarrow> u64 \<Rightarrow> episode list \<Rightarrow> supervisor_action list" where
  "supervise_loop policy tracker gen [] = []"
| "supervise_loop policy tracker gen (e # es) =
     (let generation = gen + 1;
          crashed = (\<lambda>reason.
            case on_crash (ep_crash_at e) tracker of
              (GiveUp, _) \<Rightarrow> [SetState (Failed policy reason)]
            | (RestartAfter delay, tracker') \<Rightarrow>
                SetState (Backoff (length (rt_crashes tracker')) reason) #
                (if ep_stop_in_backoff e then [SetState Stopped]
                 else Sleep delay # supervise_loop policy tracker' generation es))
      in SetState Starting #
         (case ep_launch e of
            LaunchStopped \<Rightarrow> [SetState Stopped]
          | LaunchFailed reason \<Rightarrow> crashed (LaunchErrorText reason)
          | LaunchedUnregistered \<Rightarrow> [StopInstance generation, SetState FailedUnregistered]
          | LaunchedUntilStop \<Rightarrow>
              [AttachInstance generation, SetState (Running generation), DetachInstance,
               StopInstance generation, SetState Stopped]
          | LaunchedUntilExit \<Rightarrow>
              AttachInstance generation # SetState (Running generation) # DetachInstance #
              StopInstance generation # crashed HostProcessExited))"

definition supervise :: "restart_policy \<Rightarrow> episode list \<Rightarrow> supervisor_action list" where
  "supervise policy es = SetState Starting # supervise_loop policy (restart_tracker_new policy) 0 es"

section \<open>Properties\<close>

text \<open>After a crash the supervisor gives up exactly if more crashes than the policy allows
  lie in the window that ends now; otherwise it waits, doubling the first delay with every
  crash in the window, at most sixteen times, and never longer than the longest delay.\<close>

theorem restart_decision_spec:
  assumes "sorted (ts @ [now])"
  shows "fst (on_crash now (tracker_after p ts)) =
    (let k = length (filter (\<lambda>t. now - t \<le> rp_window p) (ts @ [now]))
     in if rp_max_crashes p < k then GiveUp
        else RestartAfter (min (duration_saturating_mul (rp_initial p) (2 ^ min (k - 1) 16)) (rp_max p)))"
proof -
  let ?t = "tracker_after p ts"
  have t: "rt_policy ?t = p" "crashes.current (rp_window p) ts (rt_crashes ?t)"
    using tracker_after_current assms by (simp_all add: sorted_append)
  have "crashes.expire (rp_window p) now (rt_crashes ?t) = crashes.window_of (rp_window p) now ts"
    by (rule crashes.current_expire [OF t(2)]) (use assms in \<open>simp_all add: sorted_append\<close>)
  then show ?thesis
    using t(1) by (simp add: on_crash_def Let_def crashes.expire_def crashes.window_of_def not_less)
qed

lemma restart_decision_spec_witness:
  "fst (on_crash (from_secs 3) (tracker_after restart_policy_default [0, from_secs 1, from_secs 2])) =
     RestartAfter (from_secs 8)"
proof -
  have "sorted ([0, from_secs 1, from_secs 2] @ [from_secs 3])" by (simp add: from_secs_def)
  from restart_decision_spec [OF this, of restart_policy_default] show ?thesis
    by (simp add: Let_def restart_policy_default_def from_secs_def duration_saturating_mul_def duration_max_def)
qed

definition crash_episode :: "episode \<Rightarrow> bool" where
  "crash_episode e \<longleftrightarrow>
     (ep_launch e = LaunchedUntilExit \<or> (\<exists>text. ep_launch e = LaunchFailed text)) \<and> \<not> ep_stop_in_backoff e"

definition crash_reason_of :: "episode \<Rightarrow> crash_reason" where
  "crash_reason_of e = (case ep_launch e of LaunchFailed text \<Rightarrow> LaunchErrorText text | _ \<Rightarrow> HostProcessExited)"

text \<open>The launches of a run, and its last action.\<close>

definition launches :: "supervisor_action list \<Rightarrow> nat" where
  "launches as = length (filter (\<lambda>a. a = SetState Starting) as)"

lemma launches_simps [simp]:
  "launches [] = 0"
  "launches (a # as) = (if a = SetState Starting then Suc (launches as) else launches as)"
  by (simp_all add: launches_def)

lemma on_crash_storm:
  assumes "\<forall>at \<in> set (rt_crashes t). now - at \<le> rp_window (rt_policy t)"
  shows "rt_crashes (snd (on_crash now t)) = rt_crashes t @ [now]"
    and "length (rt_crashes t) < rp_max_crashes (rt_policy t) \<Longrightarrow>
         \<exists>delay. on_crash now t = (RestartAfter delay, t\<lparr>rt_crashes := rt_crashes t @ [now]\<rparr>)"
    and "length (rt_crashes t) = rp_max_crashes (rt_policy t) \<Longrightarrow> fst (on_crash now t) = GiveUp"
proof -
  have "dropWhile (\<lambda>at. rp_window (rt_policy t) < now - at) (rt_crashes t) = rt_crashes t"
    using assms by (cases "rt_crashes t") auto
  then show "rt_crashes (snd (on_crash now t)) = rt_crashes t @ [now]"
    and "length (rt_crashes t) < rp_max_crashes (rt_policy t) \<Longrightarrow>
         \<exists>delay. on_crash now t = (RestartAfter delay, t\<lparr>rt_crashes := rt_crashes t @ [now]\<rparr>)"
    and "length (rt_crashes t) = rp_max_crashes (rt_policy t) \<Longrightarrow> fst (on_crash now t) = GiveUp"
    by (simp_all add: on_crash_def Let_def)
qed

lemma supervise_storm:
  assumes "\<forall>e \<in> set es. crash_episode e"
    and "\<forall>e \<in> set es. \<forall>e' \<in> set es. ep_crash_at e - ep_crash_at e' \<le> rp_window p"
    and "\<forall>e \<in> set es. \<forall>at \<in> set (rt_crashes t). ep_crash_at e - at \<le> rp_window p"
    and "rt_policy t = p" "length (rt_crashes t) + n = rp_max_crashes p" "n < length es"
  shows "launches (supervise_loop p t gen es) = Suc n \<and>
         supervise_loop p t gen es \<noteq> [] \<and>
         last (supervise_loop p t gen es) = SetState (Failed p (crash_reason_of (es ! n)))"
  using assms
proof (induction n arbitrary: es t gen)
  case 0
  then obtain e es' where es: "es = e # es'" by (cases es) auto
  with 0 have "fst (on_crash (ep_crash_at e) t) = GiveUp"
    by (intro on_crash_storm(3)) auto
  then show ?case
    using 0(1) es by (cases "on_crash (ep_crash_at e) t") (auto simp: crash_episode_def crash_reason_of_def Let_def)
next
  case (Suc n)
  then obtain e es' where es: "es = e # es'" by (cases es) auto
  let ?t = "t\<lparr>rt_crashes := rt_crashes t @ [ep_crash_at e]\<rparr>"
  obtain delay where d: "on_crash (ep_crash_at e) t = (RestartAfter delay, ?t)"
    using on_crash_storm(2) [of t "ep_crash_at e"] Suc.prems es by auto
  have IH: "launches (supervise_loop p ?t (gen + 1) es') = Suc n \<and> supervise_loop p ?t (gen + 1) es' \<noteq> [] \<and>
     last (supervise_loop p ?t (gen + 1) es') = SetState (Failed p (crash_reason_of (es' ! n)))"
    using Suc.prems es by (intro Suc.IH) auto
  show ?case
    using Suc.prems(1) es d IH by (auto simp: crash_episode_def crash_reason_of_def Let_def)
qed

text \<open>C39: A plugin whose host keeps crashing is not restarted for ever: if all its crashes lie
  in one window of the policy, then after one crash more than allowed the supervisor stops
  with the reason of that crash, having launched the host once for every crash up to it.\<close>

theorem crash_loop_ends:
  assumes "\<forall>e \<in> set es. crash_episode e"
    and "\<forall>e \<in> set es. \<forall>e' \<in> set es. ep_crash_at e - ep_crash_at e' \<le> rp_window p"
    and "rp_max_crashes p < length es"
  shows "launches (tl (supervise p es)) = Suc (rp_max_crashes p) \<and>
         last (supervise p es) = SetState (Failed p (crash_reason_of (es ! rp_max_crashes p)))"
  using supervise_storm [of es p "restart_tracker_new p" "rp_max_crashes p" 0] assms
  by (simp add: supervise_def restart_tracker_new_def)

definition demo_crash :: "nat \<Rightarrow> episode" where
  "demo_crash n = \<lparr>ep_launch = LaunchedUntilExit, ep_crash_at = from_secs n, ep_stop_in_backoff = False\<rparr>"

lemma crash_loop_ends_witness:
  "launches (tl (supervise restart_policy_default (map demo_crash [0..<10]))) = 6 \<and>
   last (supervise restart_policy_default (map demo_crash [0..<10])) =
     SetState (Failed restart_policy_default HostProcessExited)"
proof -
  let ?es = "map demo_crash [0..<10]"
  have 1: "\<forall>e \<in> set ?es. crash_episode e" by (simp add: crash_episode_def demo_crash_def)
  have 2: "\<forall>e \<in> set ?es. \<forall>e' \<in> set ?es. ep_crash_at e - ep_crash_at e' \<le> rp_window restart_policy_default"
    by (auto simp: demo_crash_def from_secs_def restart_policy_default_def)
  have 3: "rp_max_crashes restart_policy_default < length ?es" by (simp add: restart_policy_default_def)
  from crash_loop_ends [OF 1 2 3] show ?thesis
    by (simp add: restart_policy_default_def crash_reason_of_def demo_crash_def)
qed

end
