(* ===== verification/ExtensionBus.thy ===== *)
theory ExtensionBus
  imports Supervisor "HOL-Library.Multiset"
begin

text \<open>
  The extension bus (\<open>magi-extension-host/src/bus.rs\<close>): registered plugins with their approved
  hooks, the observe queues, and the dispatch of a guard or advise hook.

  The clock readings of a dispatch, whether the host of a plugin is alive and what it answers
  are arguments (\<open>call_env\<close>), one for every plugin; the size of a serialised patch
  (\<open>serde_json::to_vec\<close>) is the parameter \<open>json_size\<close>.  One dispatch runs without another one
  between its steps; what interleaved calls do to a breaker is in theory \<open>Breaker\<close>.
\<close>

section \<open>Contexts, traces and verdicts\<close>

record bus_policy =
  bs_breaker :: breaker_policy
  bs_observe_queue :: nat
  bs_guard_total_cap :: duration
  bs_advise_total_cap :: duration

definition bus_policy_default :: bus_policy where
  "bus_policy_default =
     \<lparr>bs_breaker = breaker_policy_default, bs_observe_queue = 1024,
      bs_guard_total_cap = max_deadline Guard, bs_advise_total_cap = max_deadline Advise\<rparr>"

record hook_context =
  hx_invocation_id :: string
  hx_parent_invocation_id :: "string option"
  hx_depth :: u32
  hx_owner :: json
  hx_binding :: json

definition hook_context_new :: "string \<Rightarrow> hook_context" where
  "hook_context_new i =
     \<lparr>hx_invocation_id = i, hx_parent_invocation_id = None, hx_depth = 0, hx_owner = JNull, hx_binding = JNull\<rparr>"

text \<open>Why the bus itself fails a call, and the texts of traces and verdicts.\<close>

datatype fail_why = BreakerIsOpen | HostUnavailable | BudgetSpent | CallFailed

datatype trace_text = FailedBecause fail_why | PluginText string

datatype block_reason = FailureBlocks fail_why error_kind | PluginBlocks string

datatype trace_outcome =
    TraceContinue
  | TraceReplaced
  | TraceBlocked trace_text
  | TraceFailed error_kind
  | TraceSkipped string

record trace_entry =
  te_plugin :: string
  te_mode :: hook_mode
  te_outcome :: trace_outcome

datatype verdict = Proceed json | Blocked string block_reason

record hook_outcome =
  ho_verdict :: verdict
  ho_trace :: "trace_entry list"
  ho_patches :: "(string \<times> json) list"

section \<open>Observe queues\<close>

type_synonym queued_event = "u64 \<times> json \<times> json"

record observe_queue =
  oq_items :: "queued_event list"
  oq_gap :: u64
  oq_seq :: u64
  oq_capacity :: nat

definition observe_queue_new :: "nat \<Rightarrow> observe_queue" where
  "observe_queue_new capacity = \<lparr>oq_items = [], oq_gap = 0, oq_seq = 1, oq_capacity = capacity\<rparr>"

definition observe_push :: "json \<Rightarrow> json \<Rightarrow> observe_queue \<Rightarrow> observe_queue" where
  "observe_push hook input q =
     (let full = oq_capacity q \<le> length (oq_items q);
          items = (if full then tl (oq_items q) else oq_items q);
          gap = (if full then oq_gap q + 1 else oq_gap q)
      in q\<lparr>oq_items := items @ [(oq_seq q, hook, input)], oq_gap := gap, oq_seq := oq_seq q + 1\<rparr>)"

text \<open>
  One round of the delivery task of an attached instance: what it sends, and whether it goes
  on.  The report of a gap is sent whatever comes of it; a notification that cannot be sent
  counts as a new gap.
\<close>

datatype host_notice = GapNotice u64 | HookNotice queued_event

datatype delivery = Delivered "host_notice list" | DeliveryWaits | DeliveryEnds

definition observe_deliver :: "bool \<Rightarrow> bool \<Rightarrow> observe_queue \<Rightarrow> delivery \<times> observe_queue" where
  "observe_deliver alive sent q =
     (let q' = q\<lparr>oq_gap := 0\<rparr> in
      case oq_items q of
        [] \<Rightarrow> (DeliveryWaits, q')
      | event # rest \<Rightarrow>
          let q'' = q'\<lparr>oq_items := rest\<rparr> in
          if \<not> alive then (DeliveryEnds, q'')
          else
            (Delivered ((if 0 < oq_gap q then [GapNotice (oq_gap q)] else []) @
                        (if sent then [HookNotice event] else [])),
             if sent then q'' else q''\<lparr>oq_gap := oq_gap q'' + 1\<rparr>))"

section \<open>Slots\<close>

record approved_hook =
  ah_mode :: hook_mode
  ah_deadline :: duration

text \<open>What the bus uses of a running host instance.\<close>

record host_instance =
  hi_plugin_id :: string
  hi_digest :: string
  hi_generation :: u64
  hi_bound :: "string list"

record bus_slot =
  sl_plugin_id :: string
  sl_hooks :: "(string, approved_hook) hmap"
  sl_instance :: "host_instance option"
  sl_breaker :: breaker
  sl_observe :: observe_queue
  sl_context_rewrite :: bool

record ext_bus =
  eb_policy :: bus_policy
  eb_slots :: "(string, bus_slot) hmap"
  eb_order :: "string list"
  eb_next_hook_id :: u64

definition ext_bus_new :: "bus_policy \<Rightarrow> ext_bus" where
  "ext_bus_new policy = \<lparr>eb_policy = policy, eb_slots = [], eb_order = [], eb_next_hook_id = 0\<rparr>"

definition is_bound :: "host_instance \<Rightarrow> string \<Rightarrow> bool" where
  "is_bound i hook = (hook \<in> set (hi_bound i))"

fun approve_hooks ::
    "hook_registration list \<Rightarrow> (string, approved_hook) hmap \<Rightarrow> rpc_error + (string, approved_hook) hmap" where
  "approve_hooks [] approved = Inr approved"
| "approve_hooks (hook # hs) approved =
     (case registration_validate hook of
        Inl e \<Rightarrow> Inl e
      | Inr deadline \<Rightarrow>
          approve_hooks hs (hput (hr_name hook) \<lparr>ah_mode = hr_mode hook, ah_deadline = deadline\<rparr> approved))"

definition register_plugin :: "string \<Rightarrow> hook_registration list \<Rightarrow> ext_bus \<Rightarrow> (rpc_error + unit) \<times> ext_bus" where
  "register_plugin plugin_id hs bus =
     (case approve_hooks hs [] of
        Inl e \<Rightarrow> (Inl e, bus)
      | Inr approved \<Rightarrow>
          let slot = \<lparr>sl_plugin_id = plugin_id, sl_hooks = approved, sl_instance = None,
                      sl_breaker = breaker_new (bs_breaker (eb_policy bus)),
                      sl_observe = observe_queue_new (bs_observe_queue (eb_policy bus)),
                      sl_context_rewrite = False\<rparr>
          in (Inr (), bus\<lparr>eb_slots := hput plugin_id slot (eb_slots bus)\<rparr>))"

definition unregister_plugin :: "string \<Rightarrow> ext_bus \<Rightarrow> ext_bus" where
  "unregister_plugin plugin_id bus = bus\<lparr>eb_slots := hremove plugin_id (eb_slots bus)\<rparr>"

definition update_slot :: "string \<Rightarrow> (bus_slot \<Rightarrow> bus_slot) \<Rightarrow> ext_bus \<Rightarrow> ext_bus" where
  "update_slot plugin_id f bus =
     (case hget (eb_slots bus) plugin_id of
        None \<Rightarrow> bus
      | Some slot \<Rightarrow> bus\<lparr>eb_slots := hput plugin_id (f slot) (eb_slots bus)\<rparr>)"

definition set_context_rewrite_authorized :: "string \<Rightarrow> bool \<Rightarrow> ext_bus \<Rightarrow> ext_bus" where
  "set_context_rewrite_authorized plugin_id authorized =
     update_slot plugin_id (\<lambda>s. s\<lparr>sl_context_rewrite := authorized\<rparr>)"

definition is_context_rewrite_authorized :: "string \<Rightarrow> ext_bus \<Rightarrow> bool" where
  "is_context_rewrite_authorized plugin_id bus =
     (case hget (eb_slots bus) plugin_id of None \<Rightarrow> False | Some s \<Rightarrow> sl_context_rewrite s)"

definition plugin_digest :: "string \<Rightarrow> ext_bus \<Rightarrow> string option" where
  "plugin_digest plugin_id bus =
     (case hget (eb_slots bus) plugin_id of
        None \<Rightarrow> None
      | Some s \<Rightarrow> map_option hi_digest (sl_instance s))"

definition set_order :: "string list \<Rightarrow> ext_bus \<Rightarrow> ext_bus" where
  "set_order order bus = bus\<lparr>eb_order := order\<rparr>"

definition attach_instance :: "host_instance \<Rightarrow> ext_bus \<Rightarrow> bool \<times> ext_bus" where
  "attach_instance i bus =
     (case hget (eb_slots bus) (hi_plugin_id i) of
        None \<Rightarrow> (False, bus)
      | Some _ \<Rightarrow> (True, update_slot (hi_plugin_id i) (\<lambda>s. s\<lparr>sl_instance := Some i\<rparr>) bus))"

definition detach_instance :: "string \<Rightarrow> ext_bus \<Rightarrow> ext_bus" where
  "detach_instance plugin_id = update_slot plugin_id (\<lambda>s. s\<lparr>sl_instance := None\<rparr>)"

definition running_instance :: "(host_instance \<Rightarrow> bool) \<Rightarrow> string \<Rightarrow> ext_bus \<Rightarrow> host_instance option" where
  "running_instance alive plugin_id bus =
     (case hget (eb_slots bus) plugin_id of
        None \<Rightarrow> None
      | Some s \<Rightarrow>
          (case sl_instance s of
             None \<Rightarrow> None
           | Some i \<Rightarrow> if alive i then Some i else None))"

section \<open>The frozen order of the plugins of a hook\<close>

fun list_position :: "string \<Rightarrow> string list \<Rightarrow> nat option" where
  "list_position x [] = None"
| "list_position x (y # ys) = (if y = x then Some 0 else map_option Suc (list_position x ys))"

definition usize_max :: nat where
  "usize_max = 2 ^ 64 - 1"

definition slot_rank :: "string list \<Rightarrow> bus_slot \<Rightarrow> nat \<times> string" where
  "slot_rank order s =
     ((case list_position (sl_plugin_id s) order of None \<Rightarrow> usize_max | Some i \<Rightarrow> i), sl_plugin_id s)"

definition slot_has :: "string \<Rightarrow> bool \<Rightarrow> bus_slot \<Rightarrow> bool" where
  "slot_has hook observe s =
     (case hget (sl_hooks s) hook of None \<Rightarrow> False | Some h \<Rightarrow> (ah_mode h = Observe) = observe)"

definition frozen :: "string \<Rightarrow> bool \<Rightarrow> ext_bus \<Rightarrow> bus_slot list" where
  "frozen hook observe bus =
     sort_key (slot_rank (eb_order bus)) (filter (slot_has hook observe) (hvalues (eb_slots bus)))"

definition has_hook :: "string \<Rightarrow> ext_bus \<Rightarrow> bool" where
  "has_hook hook bus =
     list_ex (\<lambda>s. case hget (sl_hooks s) hook of None \<Rightarrow> False | Some h \<Rightarrow> ah_mode h \<noteq> Observe)
       (hvalues (eb_slots bus))"

definition bus_notify :: "string \<Rightarrow> json \<Rightarrow> ext_bus \<Rightarrow> ext_bus" where
  "bus_notify hook input bus =
     fold (\<lambda>s b. if (case sl_instance s of None \<Rightarrow> False | Some i \<Rightarrow> is_bound i hook)
                 then update_slot (sl_plugin_id s)
                        (\<lambda>s. s\<lparr>sl_observe := observe_push (JString hook) input (sl_observe s)\<rparr>) b
                 else b)
       (frozen hook True bus) bus"

section \<open>Decisions of a plugin\<close>

datatype decision = DecideContinue | DecideBlock string | DecideReplace json

definition parse_decision ::
    "(json \<Rightarrow> nat option) \<Rightarrow> bool \<Rightarrow> nat \<Rightarrow> json \<Rightarrow> rpc_error + decision" where
  "parse_decision json_size replace_allowed patch_limit value =
     (let bad = (\<lambda>text. Inl (rpc_error_new ProtocolError text));
          d = Option.bind (json_get ''decision'' value) json_str
      in if d = Some ''continue'' then Inr DecideContinue
         else if d = Some ''block'' then
           (case Option.bind (json_get ''reason'' value) json_str of
              None \<Rightarrow> bad BlockWithoutReason
            | Some r \<Rightarrow> if is_blank r then bad BlockWithoutReason else Inr (DecideBlock (take_chars 1024 r)))
         else if d = Some ''replace'' then
           if \<not> replace_allowed then bad ReplaceNotAllowed
           else (case json_get ''patch'' value of
                   None \<Rightarrow> bad PatchNotObject
                 | Some patch \<Rightarrow>
                     if \<not> json_is_object patch then bad PatchNotObject
                     else if patch_limit < (case json_size patch of None \<Rightarrow> usize_max | Some n \<Rightarrow> n)
                     then bad PatchTooLarge
                     else Inr (DecideReplace patch))
         else bad UnknownDecision)"

definition json_merge :: "json \<Rightarrow> json \<Rightarrow> json" where
  "json_merge candidate patch =
     (case (candidate, patch) of
        (JObject target, JObject entries) \<Rightarrow> JObject (fold (\<lambda>(k, v) t. hput k v t) entries target)
      | _ \<Rightarrow> patch)"

section \<open>Dispatch\<close>

record hook_call =
  hc_hook :: string
  hc_invocation_id :: string
  hc_hook_id :: string
  hc_parent_invocation_id :: string
  hc_generation :: u64
  hc_deadline_ms :: u64
  hc_depth :: u32
  hc_owner :: json
  hc_binding :: json
  hc_input :: json

record call_env =
  ce_admit_at :: instant
  ce_alive :: bool
  ce_elapsed :: duration
  ce_record_at :: instant
  ce_answer :: "hook_call \<Rightarrow> duration \<Rightarrow> rpc_error + json"

datatype host_message = InvokeHook string hook_call duration | CancelCall string string

record dispatch_state =
  ds_bus :: ext_bus
  ds_candidate :: json
  ds_trace :: "trace_entry list"
  ds_patches :: "(string \<times> json) list"
  ds_sent :: "host_message list"

definition traced :: "string \<Rightarrow> hook_mode \<Rightarrow> trace_outcome \<Rightarrow> dispatch_state \<Rightarrow> dispatch_state" where
  "traced plugin mode outcome st =
     st\<lparr>ds_trace := ds_trace st @ [\<lparr>te_plugin = plugin, te_mode = mode, te_outcome = outcome\<rparr>]\<rparr>"

definition set_breaker :: "string \<Rightarrow> breaker \<Rightarrow> dispatch_state \<Rightarrow> dispatch_state" where
  "set_breaker plugin b st =
     st\<lparr>ds_bus := update_slot plugin (\<lambda>s. s\<lparr>sl_breaker := b\<rparr>) (ds_bus st)\<rparr>"

text \<open>The closure \<open>fail\<close> with the early return of its callers: a guard blocks, without patches.\<close>

definition fail_call ::
    "string \<Rightarrow> hook_mode \<Rightarrow> error_kind \<Rightarrow> fail_why \<Rightarrow> dispatch_state \<Rightarrow> hook_outcome option \<times> dispatch_state" where
  "fail_call plugin mode kind why st =
     (if mode = Guard then
        let st' = traced plugin mode (TraceBlocked (FailedBecause why)) st
        in (Some \<lparr>ho_verdict = Blocked plugin (FailureBlocks why kind), ho_trace = ds_trace st', ho_patches = []\<rparr>, st')
      else (None, traced plugin mode (TraceFailed kind) st))"

definition call_of :: "string \<Rightarrow> hook_context \<Rightarrow> u64 \<Rightarrow> host_instance \<Rightarrow> duration \<Rightarrow> json \<Rightarrow> hook_call" where
  "call_of hook ctx n i timeout input =
     (let hook_id = ''hk_'' @ dec_of_nat (unat n) in
      \<lparr>hc_hook = hook, hc_invocation_id = hx_invocation_id ctx @ ''.'' @ hook_id, hc_hook_id = hook_id,
       hc_parent_invocation_id =
         (case hx_parent_invocation_id ctx of Some p \<Rightarrow> p | None \<Rightarrow> hx_invocation_id ctx),
       hc_generation = hi_generation i, hc_deadline_ms = of_nat (as_millis timeout),
       hc_depth = hx_depth ctx + 1, hc_owner = hx_owner ctx, hc_binding = hx_binding ctx, hc_input = input\<rparr>)"

text \<open>The request to the host with its answer, and what the loop does with the decision.\<close>

definition call_host ::
    "(json \<Rightarrow> nat option) \<Rightarrow> hook_spec \<Rightarrow> hook_context \<Rightarrow> call_env \<Rightarrow> string \<Rightarrow> host_instance \<Rightarrow> duration \<Rightarrow>
     dispatch_state \<Rightarrow> (rpc_error + decision) \<times> dispatch_state" where
  "call_host json_size spec ctx e plugin i timeout st =
     (let call = call_of (hs_name spec) ctx (eb_next_hook_id (ds_bus st)) i timeout (ds_candidate st);
          result = ce_answer e call timeout;
          cancelled = (case result of Inl err \<Rightarrow> re_kind err = DeadlineExceeded | Inr _ \<Rightarrow> False);
          sent = InvokeHook plugin call timeout #
                 (if cancelled then [CancelCall plugin (hc_invocation_id call)] else [])
      in (case result of
            Inl err \<Rightarrow> Inl err
          | Inr value \<Rightarrow> parse_decision json_size (hs_replace spec) (hs_patch_limit spec) value,
          st\<lparr>ds_bus := (ds_bus st)\<lparr>eb_next_hook_id := eb_next_hook_id (ds_bus st) + 1\<rparr>,
             ds_sent := ds_sent st @ sent\<rparr>))"

definition settle_call ::
    "string \<Rightarrow> hook_mode \<Rightarrow> instant \<Rightarrow> breaker \<Rightarrow> (rpc_error + decision) \<Rightarrow> dispatch_state \<Rightarrow>
     hook_outcome option \<times> dispatch_state" where
  "settle_call plugin mode now b parsed st =
     (case parsed of
        Inr DecideContinue \<Rightarrow>
          (None, traced plugin mode TraceContinue (set_breaker plugin (breaker_record now True b) st))
      | Inr (DecideReplace patch) \<Rightarrow>
          (None, traced plugin mode TraceReplaced
             ((set_breaker plugin (breaker_record now True b) st)
                \<lparr>ds_patches := ds_patches st @ [(plugin, patch)],
                 ds_candidate := json_merge (ds_candidate st) patch\<rparr>))
      | Inr (DecideBlock reason) \<Rightarrow>
          let st' = traced plugin mode (TraceBlocked (PluginText reason))
                      (set_breaker plugin (breaker_record now True b) st)
          in (Some \<lparr>ho_verdict = Blocked plugin (PluginBlocks reason), ho_trace = ds_trace st',
                    ho_patches = ds_patches st'\<rparr>, st')
      | Inl err \<Rightarrow>
          fail_call plugin mode (re_kind err) CallFailed
            (set_breaker plugin (breaker_record now False b) st))"

text \<open>One round of the loop over the slots; \<open>Some\<close> is the early return.\<close>

definition dispatch_slot ::
    "(json \<Rightarrow> nat option) \<Rightarrow> hook_spec \<Rightarrow> hook_context \<Rightarrow> duration \<Rightarrow> duration \<Rightarrow> (string \<Rightarrow> call_env) \<Rightarrow>
     bus_slot \<Rightarrow> dispatch_state \<Rightarrow> hook_outcome option \<times> dispatch_state" where
  "dispatch_slot json_size spec ctx guard_budget advise_budget env slot st =
     (let hook = hs_name spec;
          approved = the (hget (sl_hooks slot) hook);
          plugin = sl_plugin_id slot;
          mode = ah_mode approved;
          budget = (if mode = Guard then guard_budget else advise_budget);
          e = env plugin;
          (admission, b) = admit (ce_admit_at e) (sl_breaker slot);
          st1 = set_breaker plugin b st
      in if admission = Rejected then fail_call plugin mode Backpressure BreakerIsOpen st1
         else
           (case sl_instance slot of
              Some i \<Rightarrow>
                if ce_alive e \<and> is_bound i hook then
                  let timeout = min (ah_deadline approved) (budget - ce_elapsed e) in
                  if timeout = 0 then fail_call plugin mode DeadlineExceeded BudgetSpent st1
                  else
                    let (parsed, st2) = call_host json_size spec ctx e plugin i timeout st1
                    in settle_call plugin mode (ce_record_at e) b parsed st2
                else
                  fail_call plugin mode HostGone HostUnavailable
                    (if admission = Probe then set_breaker plugin (breaker_record (ce_record_at e) False b) st1 else st1)
            | None \<Rightarrow>
                fail_call plugin mode HostGone HostUnavailable
                  (if admission = Probe then set_breaker plugin (breaker_record (ce_record_at e) False b) st1 else st1)))"

fun dispatch_slots ::
    "(json \<Rightarrow> nat option) \<Rightarrow> hook_spec \<Rightarrow> hook_context \<Rightarrow> duration \<Rightarrow> duration \<Rightarrow> (string \<Rightarrow> call_env) \<Rightarrow>
     bus_slot list \<Rightarrow> dispatch_state \<Rightarrow> hook_outcome \<times> dispatch_state" where
  "dispatch_slots json_size spec ctx gb ab env [] st =
     (\<lparr>ho_verdict = Proceed (ds_candidate st), ho_trace = ds_trace st, ho_patches = ds_patches st\<rparr>, st)"
| "dispatch_slots json_size spec ctx gb ab env (slot # slots) st =
     (case dispatch_slot json_size spec ctx gb ab env slot st of
        (Some outcome, st') \<Rightarrow> (outcome, st')
      | (None, st') \<Rightarrow> dispatch_slots json_size spec ctx gb ab env slots st')"

definition mode_budget :: "string \<Rightarrow> bool \<Rightarrow> bus_slot list \<Rightarrow> duration" where
  "mode_budget hook guard slots =
     sum_list (map (\<lambda>s. ah_deadline (the (hget (sl_hooks s) hook)))
       (filter (\<lambda>s. (ah_mode (the (hget (sl_hooks s) hook)) = Guard) = guard) slots))"

definition bus_invoke ::
    "(json \<Rightarrow> nat option) \<Rightarrow> string \<Rightarrow> hook_context \<Rightarrow> json \<Rightarrow> (string \<Rightarrow> call_env) \<Rightarrow> ext_bus \<Rightarrow>
     (rpc_error + hook_outcome) \<times> ext_bus \<times> host_message list" where
  "bus_invoke json_size hook ctx input env bus =
     (case find_hook_spec hook of
        None \<Rightarrow> (Inl (rpc_error_new MethodNotFound (UnknownHook hook)), bus, [])
      | Some spec \<Rightarrow>
          if max_reentry_depth < unat (hx_depth ctx)
          then (Inl (rpc_error_new ReentryDenied ReentryTooDeep), bus, [])
          else
            let slots = frozen hook False bus;
                gb = min (mode_budget hook True slots) (bs_guard_total_cap (eb_policy bus));
                ab = min (mode_budget hook False slots) (bs_advise_total_cap (eb_policy bus));
                (outcome, st) = dispatch_slots json_size spec ctx gb ab env slots
                  \<lparr>ds_bus = bus, ds_candidate = input, ds_trace = [], ds_patches = [], ds_sent = []\<rparr>
            in (Inr outcome, ds_bus st, ds_sent st))"

end
