(* ===== verification/BusProperties.thy ===== *)
theory BusProperties
  imports ExtensionBus
begin

text \<open>
  What the bus promises: a guard that does not answer blocks, the candidate that comes out is
  the input with the patches of the trace, the order of the plugins does not depend on the
  iteration of the hash map, and an observe queue keeps the newest events and counts the rest.
\<close>

section \<open>One round of the dispatch\<close>

lemma set_breaker_simps [simp]:
  "ds_candidate (set_breaker p b st) = ds_candidate st"
  "ds_trace (set_breaker p b st) = ds_trace st"
  "ds_patches (set_breaker p b st) = ds_patches st"
  "ds_sent (set_breaker p b st) = ds_sent st"
  by (simp_all add: set_breaker_def)

lemma traced_simps [simp]:
  "ds_candidate (traced p m out st) = ds_candidate st"
  "ds_patches (traced p m out st) = ds_patches st"
  "ds_sent (traced p m out st) = ds_sent st"
  "ds_bus (traced p m out st) = ds_bus st"
  "ds_trace (traced p m out st) = ds_trace st @ [\<lparr>te_plugin = p, te_mode = m, te_outcome = out\<rparr>]"
  by (simp_all add: traced_def)

text \<open>A host that answered: it is alive, was asked in time, and its answer parses to \<open>d\<close>.\<close>

definition answered ::
    "(json \<Rightarrow> nat option) \<Rightarrow> hook_spec \<Rightarrow> (string \<Rightarrow> call_env) \<Rightarrow> host_message list \<Rightarrow> string \<Rightarrow> decision \<Rightarrow> bool" where
  "answered json_size spec env sent p d \<longleftrightarrow>
     (\<exists>call timeout v. InvokeHook p call timeout \<in> set sent \<and> 0 < timeout \<and> ce_alive (env p) \<and>
        ce_answer (env p) call timeout = Inr v \<and>
        parse_decision json_size (hs_replace spec) (hs_patch_limit spec) v = Inr d)"

lemma answered_mono: "answered js spec env sent p d \<Longrightarrow> answered js spec env (sent @ sent') p d"
  by (auto simp: answered_def)

definition slot_mode :: "string \<Rightarrow> bus_slot \<Rightarrow> hook_mode" where
  "slot_mode hook s = ah_mode (the (hget (sl_hooks s) hook))"

text \<open>The round went on.\<close>

inductive went_on ::
    "(json \<Rightarrow> nat option) \<Rightarrow> hook_spec \<Rightarrow> (string \<Rightarrow> call_env) \<Rightarrow> bus_slot \<Rightarrow> dispatch_state \<Rightarrow> dispatch_state \<Rightarrow> bool"
  for js spec env s st st' where
  on_continue:
    "answered js spec env (ds_sent st') (sl_plugin_id s) DecideContinue \<Longrightarrow>
     ds_trace st' = ds_trace st @ [\<lparr>te_plugin = sl_plugin_id s, te_mode = slot_mode (hs_name spec) s, te_outcome = TraceContinue\<rparr>] \<Longrightarrow>
     ds_candidate st' = ds_candidate st \<Longrightarrow> ds_patches st' = ds_patches st \<Longrightarrow>
     went_on js spec env s st st'"
| on_replace:
    "answered js spec env (ds_sent st') (sl_plugin_id s) (DecideReplace patch) \<Longrightarrow>
     ds_trace st' = ds_trace st @ [\<lparr>te_plugin = sl_plugin_id s, te_mode = slot_mode (hs_name spec) s, te_outcome = TraceReplaced\<rparr>] \<Longrightarrow>
     ds_candidate st' = json_merge (ds_candidate st) patch \<Longrightarrow>
     ds_patches st' = ds_patches st @ [(sl_plugin_id s, patch)] \<Longrightarrow>
     went_on js spec env s st st'"
| on_failure:
    "slot_mode (hs_name spec) s \<noteq> Guard \<Longrightarrow>
     ds_trace st' = ds_trace st @ [\<lparr>te_plugin = sl_plugin_id s, te_mode = slot_mode (hs_name spec) s, te_outcome = TraceFailed kind\<rparr>] \<Longrightarrow>
     ds_candidate st' = ds_candidate st \<Longrightarrow> ds_patches st' = ds_patches st \<Longrightarrow>
     went_on js spec env s st st'"

lemma fail_call_None:
  "fail_call p m kind why st = (None, st') \<longleftrightarrow> m \<noteq> Guard \<and> st' = traced p m (TraceFailed kind) st"
  by (auto simp: fail_call_def Let_def)

lemma fail_call_Some:
  "fail_call p m kind why st = (Some out, st') \<Longrightarrow>
   m = Guard \<and> ho_verdict out = Blocked p (FailureBlocks why kind) \<and> ho_patches out = []"
  by (auto simp: fail_call_def Let_def split: if_splits)

lemma fail_call_sent: "ds_sent (snd (fail_call p m kind why st)) = ds_sent st"
  by (simp add: fail_call_def Let_def)

lemma settle_call_sent: "ds_sent (snd (settle_call p m now b parsed st)) = ds_sent st"
  by (simp add: settle_call_def Let_def fail_call_sent split: sum.split decision.split)

lemma call_host_answered:
  assumes "call_host js spec ctx e p i timeout st = (Inr d, st')" "e = env p" "0 < timeout" "ce_alive e"
  shows "answered js spec env (ds_sent st') p d"
proof -
  let ?call = "call_of (hs_name spec) ctx (eb_next_hook_id (ds_bus st)) i timeout (ds_candidate st)"
  obtain v where "ce_answer e ?call timeout = Inr v"
    "parse_decision js (hs_replace spec) (hs_patch_limit spec) v = Inr d"
    "InvokeHook p ?call timeout \<in> set (ds_sent st')"
    using assms(1) by (auto simp: call_host_def Let_def split: sum.splits)
  with assms(2-4) show ?thesis unfolding answered_def by blast
qed

lemma call_host_keeps:
  "call_host js spec ctx e p i timeout st = (r, st') \<Longrightarrow>
   ds_candidate st' = ds_candidate st \<and> ds_trace st' = ds_trace st \<and> ds_patches st' = ds_patches st \<and>
   (\<exists>new. ds_sent st' = ds_sent st @ new)"
  by (auto simp: call_host_def Let_def)

text \<open>The ways through a round: the bus fails the call, or the host is asked.\<close>

lemma dispatch_slot_cases:
  obtains (failed) kind why st1 where
      "dispatch_slot js spec ctx gb ab env s st =
       fail_call (sl_plugin_id s) (slot_mode (hs_name spec) s) kind why st1"
      "ds_candidate st1 = ds_candidate st" "ds_trace st1 = ds_trace st" "ds_patches st1 = ds_patches st"
      "ds_sent st1 = ds_sent st"
    | (asked) b i timeout parsed st1 st2 where
      "dispatch_slot js spec ctx gb ab env s st =
       settle_call (sl_plugin_id s) (slot_mode (hs_name spec) s) (ce_record_at (env (sl_plugin_id s))) b parsed st2"
      "call_host js spec ctx (env (sl_plugin_id s)) (sl_plugin_id s) i timeout st1 = (parsed, st2)"
      "0 < timeout" "ce_alive (env (sl_plugin_id s))"
      "ds_candidate st1 = ds_candidate st" "ds_trace st1 = ds_trace st" "ds_patches st1 = ds_patches st"
      "ds_sent st1 = ds_sent st"
proof -
  obtain admission b where adm: "admit (ce_admit_at (env (sl_plugin_id s))) (sl_breaker s) = (admission, b)"
    by (cases "admit (ce_admit_at (env (sl_plugin_id s))) (sl_breaker s)") auto
  show ?thesis
  proof (cases "admission \<noteq> Rejected \<and> (\<exists>i. sl_instance s = Some i \<and> ce_alive (env (sl_plugin_id s)) \<and>
      is_bound i (hs_name spec))")
    case False
    let ?st1 = "set_breaker (sl_plugin_id s) b st"
    let ?st2 = "if admission = Probe
      then set_breaker (sl_plugin_id s) (breaker_record (ce_record_at (env (sl_plugin_id s))) False b) ?st1 else ?st1"
    show ?thesis
    proof (cases "admission = Rejected")
      case True
      show ?thesis
        by (rule failed [of Backpressure BreakerIsOpen ?st1])
           (use adm True in \<open>simp_all add: dispatch_slot_def Let_def slot_mode_def\<close>)
    next
      case no_reject: False
      show ?thesis
        by (rule failed [of HostGone HostUnavailable ?st2])
           (use adm no_reject False in \<open>auto simp: dispatch_slot_def Let_def slot_mode_def split: option.split\<close>)
    qed
  next
    case True
    then obtain i where i: "sl_instance s = Some i" "ce_alive (env (sl_plugin_id s))" "is_bound i (hs_name spec)"
      "admission \<noteq> Rejected" by blast
    let ?st1 = "set_breaker (sl_plugin_id s) b st"
    let ?t = "min (ah_deadline (the (hget (sl_hooks s) (hs_name spec))))
      ((if slot_mode (hs_name spec) s = Guard then gb else ab) - ce_elapsed (env (sl_plugin_id s)))"
    obtain parsed st2 where c: "call_host js spec ctx (env (sl_plugin_id s)) (sl_plugin_id s) i ?t ?st1 = (parsed, st2)"
      by (cases "call_host js spec ctx (env (sl_plugin_id s)) (sl_plugin_id s) i ?t ?st1") auto
    show ?thesis
    proof (cases "?t = 0")
      case True
      show ?thesis
        by (rule failed [of DeadlineExceeded BudgetSpent ?st1])
           (use adm i True in \<open>simp_all add: dispatch_slot_def Let_def slot_mode_def\<close>)
    next
      case False
      have "dispatch_slot js spec ctx gb ab env s st =
        settle_call (sl_plugin_id s) (slot_mode (hs_name spec) s) (ce_record_at (env (sl_plugin_id s))) b parsed st2"
        using adm i False c
        by (cases "ah_mode (the (hget (sl_hooks s) (hs_name spec))) = Guard")
           (simp_all add: dispatch_slot_def Let_def slot_mode_def min_def)
      then show ?thesis
        by (rule asked [OF _ c]) (use i False in simp_all)
    qed
  qed
qed

lemma call_host_sent: "\<exists>new. ds_sent (snd (call_host js spec ctx e p i timeout st)) = ds_sent st @ new"
  by (simp add: call_host_def Let_def)

lemma dispatch_slot_sent: "\<exists>new. ds_sent (snd (dispatch_slot js spec ctx gb ab env s st)) = ds_sent st @ new"
proof (cases rule: dispatch_slot_cases [of js spec ctx gb ab env s st])
  case (failed kind why st1)
  then show ?thesis by (simp add: fail_call_sent)
next
  case (asked b i timeout parsed st1 st2)
  then show ?thesis using call_host_keeps [OF asked(2)] by (simp add: settle_call_sent)
qed

lemma dispatch_slot_None:
  assumes "dispatch_slot js spec ctx gb ab env s st = (None, st')"
  shows "went_on js spec env s st st'"
proof (cases rule: dispatch_slot_cases [of js spec ctx gb ab env s st])
  case (failed kind why st1)
  with assms have "slot_mode (hs_name spec) s \<noteq> Guard"
    "st' = traced (sl_plugin_id s) (slot_mode (hs_name spec) s) (TraceFailed kind) st1"
    by (simp_all add: fail_call_None)
  with failed show ?thesis by (intro on_failure [where kind = kind]) simp_all
next
  case (asked b i timeout parsed st1 st2)
  note keeps = call_host_keeps [OF asked(2)]
  show ?thesis
  proof (cases parsed)
    case (Inl err)
    with assms asked keeps show ?thesis
      by (intro on_failure [where kind = "re_kind err"]) (auto simp: settle_call_def fail_call_None)
  next
    case (Inr d)
    with asked have ans: "answered js spec env (ds_sent st2) (sl_plugin_id s) d"
      using call_host_answered by blast
    have sent: "ds_sent st' = ds_sent st2" using assms asked settle_call_sent by (metis snd_conv)
    show ?thesis
    proof (cases d)
      case DecideContinue
      with Inr assms asked keeps ans sent show ?thesis
        by (intro on_continue) (auto simp: settle_call_def)
    next
      case (DecideReplace patch)
      with Inr assms asked keeps ans sent show ?thesis
        by (intro on_replace [where patch = patch]) (auto simp: settle_call_def)
    next
      case (DecideBlock r)
      with Inr assms asked show ?thesis by (simp add: settle_call_def Let_def)
    qed
  qed
qed

text \<open>The round returned: the plugin blocked, or it is a guard whose call failed.\<close>

lemma dispatch_slot_Some:
  assumes "dispatch_slot js spec ctx gb ab env s st = (Some out, st')"
  shows "(\<exists>reason. ho_verdict out = Blocked (sl_plugin_id s) (PluginBlocks reason) \<and>
            answered js spec env (ds_sent st') (sl_plugin_id s) (DecideBlock reason)) \<or>
         (\<exists>why kind. ho_verdict out = Blocked (sl_plugin_id s) (FailureBlocks why kind)) \<and>
            slot_mode (hs_name spec) s = Guard \<and> ho_patches out = []"
proof (cases rule: dispatch_slot_cases [of js spec ctx gb ab env s st])
  case (failed kind why st1)
  with assms show ?thesis using fail_call_Some by (metis (no_types))
next
  case (asked b i timeout parsed st1 st2)
  have sent: "ds_sent st' = ds_sent st2" using assms asked settle_call_sent by (metis snd_conv)
  show ?thesis
  proof (cases parsed)
    case (Inl err)
    with assms asked have "fail_call (sl_plugin_id s) (slot_mode (hs_name spec) s) (re_kind err) CallFailed
        (set_breaker (sl_plugin_id s) (breaker_record (ce_record_at (env (sl_plugin_id s))) False b) st2) = (Some out, st')"
      by (simp add: settle_call_def)
    from fail_call_Some [OF this] show ?thesis by blast
  next
    case (Inr d)
    with asked have ans: "answered js spec env (ds_sent st2) (sl_plugin_id s) d"
      using call_host_answered by blast
    with Inr assms asked sent show ?thesis
      by (cases d) (auto simp: settle_call_def Let_def)
  qed
qed

section \<open>The whole dispatch\<close>

lemma dispatch_slots_sent:
  "\<exists>new. ds_sent (snd (dispatch_slots js spec ctx gb ab env slots st)) = ds_sent st @ new"
proof (induction slots arbitrary: st)
  case (Cons s slots)
  obtain r st' where r: "dispatch_slot js spec ctx gb ab env s st = (r, st')" by fastforce
  then obtain new where new: "ds_sent st' = ds_sent st @ new"
    using dispatch_slot_sent [of js spec ctx gb ab env s st] by auto
  obtain new' where "ds_sent (snd (dispatch_slots js spec ctx gb ab env slots st')) = ds_sent st' @ new'"
    using Cons.IH by blast
  with r new show ?case by (cases r) auto
qed simp

text \<open>What a dispatch that goes through has done: the trace follows the slots, every guard was
  answered, and the patches of the trace made the candidate.\<close>

definition passed ::
    "(json \<Rightarrow> nat option) \<Rightarrow> hook_spec \<Rightarrow> (string \<Rightarrow> call_env) \<Rightarrow> host_message list \<Rightarrow> bus_slot list \<Rightarrow>
     trace_entry list \<Rightarrow> bool" where
  "passed js spec env sent slots trace \<longleftrightarrow>
     map te_plugin trace = map sl_plugin_id slots \<and>
     map te_mode trace = map (slot_mode (hs_name spec)) slots \<and>
     (\<forall>e \<in> set trace. te_mode e = Guard \<longrightarrow>
        te_outcome e = TraceContinue \<and> answered js spec env sent (te_plugin e) DecideContinue \<or>
        te_outcome e = TraceReplaced \<and> (\<exists>patch. answered js spec env sent (te_plugin e) (DecideReplace patch)))"

definition replaced_by :: "trace_entry list \<Rightarrow> string list" where
  "replaced_by trace = map te_plugin (filter (\<lambda>e. te_outcome e = TraceReplaced) trace)"

lemma went_on_step:
  assumes "went_on js spec env s st st'" "\<exists>new. sent = ds_sent st' @ new"
  obtains e patches where "ds_trace st' = ds_trace st @ [e]" "passed js spec env sent [s] [e]"
    "ds_patches st' = ds_patches st @ patches" "map fst patches = replaced_by [e]"
    "ds_candidate st' = foldl json_merge (ds_candidate st) (map snd patches)"
    "\<forall>(p, patch) \<in> set patches. answered js spec env sent p (DecideReplace patch)"
  using assms(1)
proof cases
  case on_continue
  with assms(2) show ?thesis
    by (intro that [of _ "[]"]) (auto simp: passed_def replaced_by_def intro: answered_mono)
next
  case (on_replace patch)
  with assms(2) have "answered js spec env sent (sl_plugin_id s) (DecideReplace patch)"
    using answered_mono by blast
  with on_replace show ?thesis
    by (intro that [of _ "[(sl_plugin_id s, patch)]"]) (auto simp: passed_def replaced_by_def)
next
  case (on_failure kind)
  then show ?thesis by (intro that [of _ "[]"]) (auto simp: passed_def replaced_by_def)
qed

lemma dispatch_slots_proceed:
  assumes "dispatch_slots js spec ctx gb ab env slots st = (out, st')" "ho_verdict out = Proceed c"
  shows "\<exists>trace patches. ho_trace out = ds_trace st @ trace \<and> ho_patches out = ds_patches st @ patches \<and>
    passed js spec env (ds_sent st') slots trace \<and> map fst patches = replaced_by trace \<and>
    c = foldl json_merge (ds_candidate st) (map snd patches) \<and>
    (\<forall>(p, patch) \<in> set patches. answered js spec env (ds_sent st') p (DecideReplace patch))"
  using assms
proof (induction slots arbitrary: st)
  case Nil
  then show ?case by (auto simp: passed_def replaced_by_def)
next
  case (Cons s slots)
  obtain r st1 where r: "dispatch_slot js spec ctx gb ab env s st = (r, st1)" by fastforce
  show ?case
  proof (cases r)
    case (Some out')
    with r Cons.prems(1) have "out = out'" by simp
    moreover have "ho_verdict out' \<noteq> Proceed c" using dispatch_slot_Some [of js spec ctx gb ab env s st] r Some by force
    ultimately show ?thesis using Cons.prems(2) by simp
  next
    case None
    with r Cons.prems have rest: "dispatch_slots js spec ctx gb ab env slots st1 = (out, st')" by simp
    then have new: "\<exists>new. ds_sent st' = ds_sent st1 @ new" using dispatch_slots_sent by (metis snd_conv)
    have "went_on js spec env s st st1" using r None by (simp add: dispatch_slot_None)
    from this new obtain e patches where e: "ds_trace st1 = ds_trace st @ [e]" "passed js spec env (ds_sent st') [s] [e]"
      "ds_patches st1 = ds_patches st @ patches" "map fst patches = replaced_by [e]"
      "ds_candidate st1 = foldl json_merge (ds_candidate st) (map snd patches)"
      "\<forall>(p, patch) \<in> set patches. answered js spec env (ds_sent st') p (DecideReplace patch)"
      by (rule went_on_step)
    from Cons.IH [OF rest Cons.prems(2)] obtain trace ps where
      ih: "ho_trace out = ds_trace st1 @ trace" "ho_patches out = ds_patches st1 @ ps"
      "passed js spec env (ds_sent st') slots trace" "map fst ps = replaced_by trace"
      "c = foldl json_merge (ds_candidate st1) (map snd ps)"
      "\<forall>(p, patch) \<in> set ps. answered js spec env (ds_sent st') p (DecideReplace patch)"
      by blast
    show ?thesis
      by (rule exI [of _ "e # trace"], rule exI [of _ "patches @ ps"])
         (use e ih in \<open>auto simp: passed_def replaced_by_def\<close>)
  qed
qed

lemma bus_invoke_Inr:
  assumes "bus_invoke js hook ctx input env bus = (Inr out, bus', sent)"
  obtains spec gb ab st where "find_hook_spec hook = Some spec" "hs_name spec = hook"
    "dispatch_slots js spec ctx gb ab env (frozen hook False bus)
       \<lparr>ds_bus = bus, ds_candidate = input, ds_trace = [], ds_patches = [], ds_sent = []\<rparr> = (out, st)"
    "bus' = ds_bus st" "sent = ds_sent st"
  using assms find_hook_spec_SomeD
  by (auto simp: bus_invoke_def Let_def split: option.splits if_splits prod.splits)

lemma bus_invoke_proceed:
  assumes "bus_invoke js hook ctx input env bus = (Inr out, bus', sent)" "ho_verdict out = Proceed c"
  obtains spec where "find_hook_spec hook = Some spec" "hs_name spec = hook"
    "passed js spec env sent (frozen hook False bus) (ho_trace out)"
    "map fst (ho_patches out) = replaced_by (ho_trace out)"
    "c = foldl json_merge input (map snd (ho_patches out))"
    "\<forall>(p, patch) \<in> set (ho_patches out). answered js spec env sent p (DecideReplace patch)"
proof -
  from assms(1) obtain spec gb ab st where spec: "find_hook_spec hook = Some spec" "hs_name spec = hook"
    and d: "dispatch_slots js spec ctx gb ab env (frozen hook False bus)
       \<lparr>ds_bus = bus, ds_candidate = input, ds_trace = [], ds_patches = [], ds_sent = []\<rparr> = (out, st)"
    and sent: "sent = ds_sent st"
    by (rule bus_invoke_Inr)
  from dispatch_slots_proceed [OF d assms(2)] spec sent show ?thesis by (auto intro: that)
qed

lemma passed_guard:
  assumes "passed js spec env sent slots trace" "s \<in> set slots" "slot_mode (hs_name spec) s = Guard"
  shows "\<exists>d. answered js spec env sent (sl_plugin_id s) d \<and> (\<forall>reason. d \<noteq> DecideBlock reason)"
proof -
  from assms(2) obtain i where i: "i < length slots" "s = slots ! i" by (auto simp: in_set_conv_nth)
  from assms(1) have len: "length trace = length slots" by (metis passed_def length_map)
  have "te_plugin (trace ! i) = sl_plugin_id s" "te_mode (trace ! i) = slot_mode (hs_name spec) s"
    using assms(1) i len by (metis passed_def nth_map)+
  moreover have "trace ! i \<in> set trace" using i len by simp
  ultimately show ?thesis using assms(1,3) by (fastforce simp: passed_def)
qed


definition demo_registration :: "hook_mode \<Rightarrow> hook_registration" where
  "demo_registration mode = \<lparr>hr_name = ''tool.call'', hr_mode = mode, hr_deadline_ms = None\<rparr>"

definition demo_instance :: "string \<Rightarrow> host_instance" where
  "demo_instance p = \<lparr>hi_plugin_id = p, hi_digest = ''d'', hi_generation = 1, hi_bound = [''tool.call'']\<rparr>"

definition demo_slot :: "string \<Rightarrow> hook_mode \<Rightarrow> bus_slot" where
  "demo_slot p mode =
     \<lparr>sl_plugin_id = p, sl_hooks = [(''tool.call'', \<lparr>ah_mode = mode, ah_deadline = from_secs 5\<rparr>)],
      sl_instance = Some (demo_instance p), sl_breaker = breaker_new breaker_policy_default,
      sl_observe = observe_queue_new 1024, sl_context_rewrite = False\<rparr>"

text \<open>A bus with a guard and an adviser, and hosts of which the guard says go and the adviser
  replaces a field.\<close>

definition demo_bus :: ext_bus where
  "demo_bus = (ext_bus_new bus_policy_default)
     \<lparr>eb_slots := [(''b'', demo_slot ''b'' Advise), (''a'', demo_slot ''a'' Guard)]\<rparr>"

definition demo_answer :: "string \<Rightarrow> json" where
  "demo_answer p =
     (if p = ''a'' then JObject [(''decision'', JString ''continue'')]
      else JObject [(''decision'', JString ''replace''), (''patch'', JObject [(''path'', JString ''y'')])])"

definition demo_env :: "string \<Rightarrow> call_env" where
  "demo_env p =
     \<lparr>ce_admit_at = 0, ce_alive = True, ce_elapsed = 1, ce_record_at = 2, ce_answer = (\<lambda>_ _. Inr (demo_answer p))\<rparr>"

definition demo_hook_input :: json where
  "demo_hook_input = JObject [(''path'', JString ''x''), (''mode'', JString ''r'')]"

definition demo_patched :: json where
  "demo_patched = JObject [(''path'', JString ''y''), (''mode'', JString ''r'')]"

lemma demo_bus_built:
  "snd (attach_instance (demo_instance ''a'')
     (snd (attach_instance (demo_instance ''b'')
       (snd (register_plugin ''a'' [demo_registration Guard]
         (snd (register_plugin ''b'' [demo_registration Advise] (ext_bus_new bus_policy_default)))))))) = demo_bus"
  by (simp add: attach_instance_def update_slot_def register_plugin_def registration_validate_def
      demo_registration_def demo_instance_def demo_bus_def demo_slot_def ext_bus_new_def
      find_hook_spec_def hooks_def hook_entry_def default_deadline_def bus_policy_default_def from_secs_def Let_def)

lemma demo_tool_call:
  "find_hook_spec ''tool.call'' = Some (hook_entry ''tool.call'' [Guard, Advise] [Guard, Advise] True (1024 * kib))"
  by (simp add: find_hook_spec_def hooks_def hook_entry_def)

lemma demo_frozen: "frozen ''tool.call'' False demo_bus = [demo_slot ''a'' Guard, demo_slot ''b'' Advise]"
  by (simp add: frozen_def demo_bus_def ext_bus_new_def hvalues_def slot_has_def demo_slot_def slot_rank_def
      less_eq_prod_def less_char_def less_eq_list_code)

lemma demo_bus_simps:
  "eb_policy demo_bus = bus_policy_default"
  "bs_guard_total_cap bus_policy_default = from_secs 30"
  "bs_advise_total_cap bus_policy_default = from_secs 15"
  by (simp_all add: demo_bus_def ext_bus_new_def bus_policy_default_def)

lemma demo_invoke:
  "\<exists>out bus' sent. bus_invoke (\<lambda>_. Some 12) ''tool.call'' (hook_context_new ''i'') demo_hook_input demo_env demo_bus
     = (Inr out, bus', sent) \<and> ho_verdict out = Proceed demo_patched \<and> ho_patches out = [(''b'', JObject [(''path'', JString ''y'')])]"
  by (simp add: bus_invoke_def demo_tool_call demo_frozen max_reentry_depth_def hook_context_new_def Let_def
      mode_budget_def demo_slot_def demo_bus_simps dispatch_slot_def admit_def
      breaker_new_def demo_env_def demo_instance_def is_bound_def hook_entry_def from_secs_def call_host_def
      settle_call_def demo_answer_def parse_decision_def json_get_def json_str_def json_is_object_def kib_def
      json_merge_def demo_hook_input_def demo_patched_def)


section \<open>The candidate\<close>

lemma parse_decision_replace:
  "parse_decision js allowed limit v = Inr (DecideReplace patch) \<Longrightarrow>
   allowed \<and> json_is_object patch \<and> (case js patch of None \<Rightarrow> usize_max | Some n \<Rightarrow> n) \<le> limit"
  by (auto simp: parse_decision_def Let_def split: if_splits option.splits)

lemma patch_limits: "\<forall>spec \<in> set hooks. hs_patch_limit spec \<le> 1024 * kib"
  by (simp add: hooks_def hook_entry_def kib_def)

text \<open>Plugins can only rewrite in bounds and on the record: the candidate of a dispatch that
  goes through is the input with the reported patches merged in the order of the trace, one
  for each entry that says replaced, and every patch is an object of at most the size that the
  catalogue allows, proposed by the answer of that plugin's host to a hook that may replace.\<close>

theorem candidate_is_patched_input:
  assumes "bus_invoke json_size hook ctx input env bus = (Inr out, bus', sent)"
    and "ho_verdict out = Proceed c"
  shows "c = foldl json_merge input (map snd (ho_patches out)) \<and>
    map fst (ho_patches out) = replaced_by (ho_trace out) \<and>
    (\<forall>(p, patch) \<in> set (ho_patches out).
       \<exists>spec n. find_hook_spec hook = Some spec \<and> hs_replace spec \<and> json_is_object patch \<and>
         json_size patch = Some n \<and> n \<le> hs_patch_limit spec \<and>
         answered json_size spec env sent p (DecideReplace patch))"
proof -
  from assms obtain spec where spec: "find_hook_spec hook = Some spec"
    and main: "map fst (ho_patches out) = replaced_by (ho_trace out)"
      "c = foldl json_merge input (map snd (ho_patches out))"
      "\<forall>(p, patch) \<in> set (ho_patches out). answered json_size spec env sent p (DecideReplace patch)"
    by (rule bus_invoke_proceed)
  have "hs_patch_limit spec \<le> 1024 * kib" using spec find_hook_spec_SomeD patch_limits by blast
  then have small: "\<not> usize_max \<le> hs_patch_limit spec" by (simp add: kib_def usize_max_def)
  have "hs_replace spec \<and> json_is_object patch \<and> (\<exists>n. json_size patch = Some n \<and> n \<le> hs_patch_limit spec)"
    if "answered json_size spec env sent p (DecideReplace patch)" for p patch
    using that small by (auto simp: answered_def dest!: parse_decision_replace split: option.splits)
  with spec main show ?thesis by fastforce
qed

lemma candidate_is_patched_input_witness:
  "\<exists>out bus' sent. bus_invoke (\<lambda>_. Some 12) ''tool.call'' (hook_context_new ''i'') demo_hook_input demo_env demo_bus
     = (Inr out, bus', sent) \<and> demo_patched = foldl json_merge demo_hook_input (map snd (ho_patches out)) \<and>
     replaced_by (ho_trace out) = [''b'']"
proof -
  obtain out bus' sent where inv: "bus_invoke (\<lambda>_. Some 12) ''tool.call'' (hook_context_new ''i'') demo_hook_input demo_env demo_bus
     = (Inr out, bus', sent)" "ho_verdict out = Proceed demo_patched"
    and patches: "ho_patches out = [(''b'', JObject [(''path'', JString ''y'')])]"
    using demo_invoke by blast
  from candidate_is_patched_input [OF inv] patches inv(1) show ?thesis by auto
qed

section \<open>The order of the plugins\<close>

definition slots_wf :: "(string, bus_slot) hmap \<Rightarrow> bool" where
  "slots_wf m \<longleftrightarrow> hdistinct m \<and> (\<forall>(k, s) \<in> set m. sl_plugin_id s = k)"

lemma slots_wf_distinct:
  assumes "slots_wf m"
  shows "distinct (hvalues m) \<and> inj_on sl_plugin_id (set (hvalues m))"
proof -
  have "map sl_plugin_id (hvalues m) = map fst m"
    using assms by (auto simp: slots_wf_def hvalues_def)
  with assms show ?thesis by (metis distinct_map hdistinct_def slots_wf_def)
qed

lemma hget_eq_set:
  assumes "hdistinct m" "hdistinct m'" "hget m = hget m'"
  shows "set m = set m'"
proof -
  have "(k, v) \<in> set m \<longleftrightarrow> (k, v) \<in> set m'" for k v
    using assms by (metis hdistinct_def map_of_eq_Some_iff)
  then show ?thesis by auto
qed

lemma frozen_values:
  assumes "slots_wf m" "slots_wf m'" "hget m = hget m'"
  shows "mset (hvalues m) = mset (hvalues m')"
proof -
  have "set m = set m'" using assms hget_eq_set by (auto simp: slots_wf_def)
  then have "set (hvalues m) = set (hvalues m')" by (simp add: hvalues_def)
  then show ?thesis using assms slots_wf_distinct set_eq_iff_mset_eq_distinct by blast
qed

text \<open>Which plugins a hook calls and in which order depends on the registered plugins and
  the configured order alone, not on the iteration order of the hash map that holds them: the
  plugins of the order come first, in that order, and the others follow by id.\<close>

theorem frozen_is_deterministic:
  assumes "slots_wf (eb_slots bus)" "slots_wf (eb_slots bus')"
    and "hget (eb_slots bus) = hget (eb_slots bus')" "eb_order bus = eb_order bus'"
  shows "frozen hook observe bus = frozen hook observe bus' \<and>
    sorted (map (slot_rank (eb_order bus)) (frozen hook observe bus)) \<and>
    set (frozen hook observe bus) = {s. (\<exists>p. hget (eb_slots bus) p = Some s) \<and> slot_has hook observe s}"
proof -
  let ?f = "slot_rank (eb_order bus)"
  let ?sel = "\<lambda>b. filter (slot_has hook observe) (hvalues (eb_slots b))"
  have "inj_on ?f (set (?sel bus))"
    using slots_wf_distinct [OF assms(1)] by (auto simp: inj_on_def slot_rank_def)
  moreover have "mset (?sel bus) = mset (?sel bus')"
    using frozen_values [OF assms(1-3)] by simp
  ultimately have "sort_key ?f (?sel bus) = sort_key ?f (?sel bus')"
    by (intro sort_key_inj_key_eq) (simp_all)
  then have "frozen hook observe bus = frozen hook observe bus'"
    using assms(4) by (simp add: frozen_def)
  moreover have "set (frozen hook observe bus) = {s. (\<exists>p. hget (eb_slots bus) p = Some s) \<and> slot_has hook observe s}"
    using hvalues_iff assms(1) by (fastforce simp: slots_wf_def frozen_def)
  moreover have "sorted (map ?f (frozen hook observe bus))" by (simp add: frozen_def)
  ultimately show ?thesis by blast
qed

lemma frozen_is_deterministic_witness:
  "frozen ''tool.call'' False demo_bus =
   frozen ''tool.call'' False (demo_bus\<lparr>eb_slots := [(''a'', demo_slot ''a'' Guard), (''b'', demo_slot ''b'' Advise)]\<rparr>)"
proof -
  have "slots_wf (eb_slots demo_bus)"
    by (simp add: slots_wf_def hdistinct_def demo_bus_def demo_slot_def)
  moreover have "slots_wf [(''a'', demo_slot ''a'' Guard), (''b'', demo_slot ''b'' Advise)]"
    by (simp add: slots_wf_def hdistinct_def demo_slot_def)
  moreover have "hget (eb_slots demo_bus) = hget [(''a'', demo_slot ''a'' Guard), (''b'', demo_slot ''b'' Advise)]"
    by (auto simp: demo_bus_def)
  ultimately show ?thesis
    using frozen_is_deterministic [of demo_bus "demo_bus\<lparr>eb_slots := [(''a'', demo_slot ''a'' Guard), (''b'', demo_slot ''b'' Advise)]\<rparr>"
        "''tool.call''" False]
    by simp
qed

section \<open>Observe queues\<close>

text \<open>
  A history of an observe queue: events pushed by the bus, and rounds of the delivery to a
  living host whose channel has room.  The log remembers what was pushed and what the host
  was told.
\<close>

datatype queue_event = PushEvent json json | DeliverEvent

record queue_log =
  ql_pushed :: nat
  ql_delivered :: "queued_event list"
  ql_reported :: nat

fun log_notice :: "host_notice \<Rightarrow> queue_log \<Rightarrow> queue_log" where
  "log_notice (HookNotice e) l = l\<lparr>ql_delivered := ql_delivered l @ [e]\<rparr>"
| "log_notice (GapNotice g) l = l\<lparr>ql_reported := ql_reported l + unat g\<rparr>"

fun queue_step :: "queue_event \<Rightarrow> observe_queue \<times> queue_log \<Rightarrow> observe_queue \<times> queue_log" where
  "queue_step (PushEvent hook input) (q, l) = (observe_push hook input q, l\<lparr>ql_pushed := ql_pushed l + 1\<rparr>)"
| "queue_step DeliverEvent (q, l) =
     (case observe_deliver True True q of
        (Delivered ns, q') \<Rightarrow> (q', fold log_notice ns l)
      | (_, q') \<Rightarrow> (q', l))"

definition queue_run :: "nat \<Rightarrow> queue_event list \<Rightarrow> observe_queue \<times> queue_log" where
  "queue_run capacity es =
     fold queue_step es (observe_queue_new capacity, \<lparr>ql_pushed = 0, ql_delivered = [], ql_reported = 0\<rparr>)"

definition event_numbers :: "queued_event list \<Rightarrow> nat list" where
  "event_numbers es = map (\<lambda>(seq, _). unat seq) es"

lemma event_numbers_simps [simp]:
  "event_numbers [] = []" "event_numbers (e # es) = unat (fst e) # event_numbers es"
  "event_numbers (es @ es') = event_numbers es @ event_numbers es'"
  by (simp_all add: event_numbers_def case_prod_unfold)

definition ordered_upto :: "nat \<Rightarrow> nat list \<Rightarrow> bool" where
  "ordered_upto n ns \<longleftrightarrow> sorted_wrt (<) ns \<and> (\<forall>k \<in> set ns. k \<le> n)"

lemma ordered_upto_snoc: "ordered_upto n ns \<Longrightarrow> ordered_upto (Suc n) (ns @ [Suc n])"
  by (auto simp: ordered_upto_def sorted_wrt_append le_Suc_eq less_Suc_eq_le)

lemma ordered_upto_drop: "ordered_upto n (ns @ k # ms) \<Longrightarrow> ordered_upto n (ns @ ms)"
  by (auto simp: ordered_upto_def sorted_wrt_append)

definition queue_inv :: "nat \<Rightarrow> observe_queue \<Rightarrow> queue_log \<Rightarrow> bool" where
  "queue_inv capacity q l \<longleftrightarrow>
     oq_capacity q = capacity \<and> length (oq_items q) \<le> capacity \<and>
     unat (oq_seq q) = Suc (ql_pushed l) \<and>
     (oq_items q = [] \<longrightarrow> oq_gap q = 0) \<and>
     ql_pushed l = length (ql_delivered l) + ql_reported l + unat (oq_gap q) + length (oq_items q) \<and>
     ordered_upto (ql_pushed l) (event_numbers (ql_delivered l @ oq_items q))"

lemma unat_succ_u64: "Suc (unat (n :: u64)) < 2 ^ 64 \<Longrightarrow> unat (n + 1) = Suc (unat n)"
proof -
  assume "Suc (unat n) < 2 ^ 64"
  then have "unat n + unat (1 :: u64) < 2 ^ LENGTH(64)" by simp
  then have "unat (n + 1) = unat n + unat (1 :: u64)" by (simp only: unat_add_lem)
  then show ?thesis by simp
qed

lemma push_inv:
  assumes "queue_inv cap q l" "0 < cap" "Suc (Suc (ql_pushed l)) < 2 ^ 64"
  shows "queue_inv cap (observe_push hook input q) (l\<lparr>ql_pushed := ql_pushed l + 1\<rparr>)"
proof -
  have seq: "unat (oq_seq q + 1) = Suc (Suc (ql_pushed l))"
    using assms by (subst unat_succ_u64) (simp_all add: queue_inv_def)
  have gap: "unat (oq_gap q + 1) = Suc (unat (oq_gap q))"
    using assms by (intro unat_succ_u64) (simp add: queue_inv_def)
  have nums: "ordered_upto (ql_pushed l) (event_numbers (ql_delivered l) @ event_numbers (oq_items q))"
    using assms(1) by (auto simp: queue_inv_def)
  show ?thesis
  proof (cases "oq_capacity q \<le> length (oq_items q)")
    case True
    then obtain e rest where e: "oq_items q = e # rest" using assms by (cases "oq_items q") (auto simp: queue_inv_def)
    have "ordered_upto (Suc (ql_pushed l)) ((event_numbers (ql_delivered l) @ event_numbers rest) @ [Suc (ql_pushed l)])"
      by (rule ordered_upto_snoc) (rule ordered_upto_drop [where k = "unat (fst e)"], use nums e in simp)
    with True assms e seq gap show ?thesis
      by (auto simp: queue_inv_def observe_push_def Let_def)
  next
    case False
    with assms seq ordered_upto_snoc [OF nums] show ?thesis
      by (auto simp: queue_inv_def observe_push_def Let_def)
  qed
qed

lemma deliver_inv:
  assumes "queue_inv cap q l" "queue_step DeliverEvent (q, l) = (q', l')"
  shows "queue_inv cap q' l' \<and> ql_pushed l' = ql_pushed l"
  using assms
  by (cases "oq_items q") (auto simp: queue_inv_def observe_deliver_def Let_def word_gt_0 split: if_splits)

lemma queue_run_inv:
  assumes "0 < cap" "Suc (length es) < 2 ^ 64"
  shows "queue_inv cap (fst (queue_run cap es)) (snd (queue_run cap es)) \<and>
         ql_pushed (snd (queue_run cap es)) \<le> length es"
  using assms
proof (induction es rule: rev_induct)
  case Nil
  then show ?case by (simp add: queue_run_def queue_inv_def observe_queue_new_def ordered_upto_def)
next
  case (snoc e es)
  obtain q l where ql: "queue_run cap es = (q, l)" by fastforce
  then have run: "queue_run cap (es @ [e]) = queue_step e (q, l)" by (simp add: queue_run_def)
  from snoc ql have inv: "queue_inv cap q l" "ql_pushed l \<le> length es" by auto
  show ?case
  proof (cases e)
    case (PushEvent hook input)
    with snoc.prems inv run push_inv [OF inv(1) assms(1), of hook input] show ?thesis by simp
  next
    case DeliverEvent
    obtain q' l' where "queue_step DeliverEvent (q, l) = (q', l')" by fastforce
    with deliver_inv [OF inv(1) this] inv run DeliverEvent show ?thesis by simp
  qed
qed

text \<open>An observe queue never blocks its producers and loses nothing silently while its host
  can be told: it holds at most its capacity, every event ever pushed was delivered, is still
  queued, or is counted in a gap that was reported or is about to be, and the host sees the
  events in the order of their numbers.\<close>

theorem observe_queue_accounts:
  assumes "0 < capacity" "Suc (length es) < 2 ^ 64" "queue_run capacity es = (q, l)"
  shows "length (oq_items q) \<le> capacity \<and>
    ql_pushed l = length (ql_delivered l) + ql_reported l + unat (oq_gap q) + length (oq_items q) \<and>
    sorted_wrt (<) (event_numbers (ql_delivered l @ oq_items q))"
  using queue_run_inv [OF assms(1,2)] assms(3) by (simp add: queue_inv_def ordered_upto_def)

definition demo_events :: "queue_event list" where
  "demo_events = [PushEvent JNull JNull, PushEvent JNull JNull, PushEvent JNull JNull, DeliverEvent]"

lemma observe_queue_accounts_witness:
  "\<exists>q l. queue_run 2 demo_events = (q, l) \<and> ql_pushed l = 3 \<and> ql_reported l = 1 \<and>
     ql_pushed l = length (ql_delivered l) + ql_reported l + unat (oq_gap q) + length (oq_items q)"
proof -
  obtain q l where ql: "queue_run 2 demo_events = (q, l)" by fastforce
  then have "ql_pushed l = 3 \<and> ql_reported l = 1"
    by (auto simp: queue_run_def demo_events_def observe_queue_new_def observe_push_def observe_deliver_def)
  moreover have "Suc (length demo_events) < 2 ^ 64" by (simp add: demo_events_def)
  ultimately show ?thesis using observe_queue_accounts [OF _ _ ql] ql by simp
qed

text \<open>
  A notification that cannot be sent counts as a gap of one, but the next round takes that
  count also when no event is queued and drops it: the host is never told.
\<close>

lemma failed_notice_forgotten:
  assumes "oq_items q = [event]" "observe_deliver True False q = (d, q')" "observe_deliver True True q' = (d', q'')"
  shows "d' = DeliveryWaits \<and> oq_gap q' = 1 \<and> oq_gap q'' = 0 \<and> oq_items q'' = []"
  using assms by (auto simp: observe_deliver_def Let_def)

section \<open>A probe that is never settled\<close>

text \<open>
  The probe of a half-open breaker is admitted before the budget of the hook is looked at.  If
  earlier plugins spent it, the call fails without a result being recorded: the breaker still
  waits for its probe, and refuses every later call of the plugin.
\<close>

lemma spent_budget_strands_probe:
  assumes slot: "hget (eb_slots (ds_bus st)) (sl_plugin_id s) = Some s" "sl_instance s = Some i"
    and due: "bk_state (sl_breaker s) = Open until" "until \<le> ce_admit_at (env (sl_plugin_id s))"
    and host: "ce_alive (env (sl_plugin_id s))" "is_bound i (hs_name spec)"
    and spent: "gb \<le> ce_elapsed (env (sl_plugin_id s))" "ab \<le> ce_elapsed (env (sl_plugin_id s))"
  shows "\<exists>out st' s'. dispatch_slot js spec ctx gb ab env s st = (out, st') \<and>
    hget (eb_slots (ds_bus st')) (sl_plugin_id s) = Some s' \<and> bk_state (sl_breaker s') = HalfOpen True \<and>
    (\<forall>now. admit now (sl_breaker s') = (Rejected, sl_breaker s'))"
proof -
  let ?b = "(sl_breaker s)\<lparr>bk_state := HalfOpen True\<rparr>"
  let ?st1 = "set_breaker (sl_plugin_id s) ?b st"
  have "admit (ce_admit_at (env (sl_plugin_id s))) (sl_breaker s) = (Probe, ?b)"
    using due by (simp add: admit_def)
  then have d: "dispatch_slot js spec ctx gb ab env s st =
      fail_call (sl_plugin_id s) (slot_mode (hs_name spec) s) DeadlineExceeded BudgetSpent ?st1"
    using slot host spent by (simp add: dispatch_slot_def Let_def slot_mode_def)
  have "hget (eb_slots (ds_bus ?st1)) (sl_plugin_id s) = Some (s\<lparr>sl_breaker := ?b\<rparr>)"
    using slot by (simp add: set_breaker_def update_slot_def)
  moreover have "ds_bus (snd (fail_call p m k w ?st1)) = ds_bus ?st1" for p m k w
    by (simp add: fail_call_def Let_def)
  ultimately have "hget (eb_slots (ds_bus (snd (dispatch_slot js spec ctx gb ab env s st)))) (sl_plugin_id s) =
      Some (s\<lparr>sl_breaker := ?b\<rparr>)" by (simp add: d)
  then show ?thesis
    by (cases "dispatch_slot js spec ctx gb ab env s st") auto
qed

section \<open>Every reachable bus is typed\<close>

definition hook_typed :: "string \<times> approved_hook \<Rightarrow> bool" where
  "hook_typed nh \<longleftrightarrow>
     (\<exists>spec. find_hook_spec (fst nh) = Some spec \<and> ah_mode (snd nh) \<in> set (hs_modes spec) \<and>
        ah_deadline (snd nh) \<le> max_deadline (ah_mode (snd nh)))"

definition slot_typed :: "bus_slot \<Rightarrow> bool" where
  "slot_typed s \<longleftrightarrow> list_all hook_typed (sl_hooks s)"

definition bus_typed :: "ext_bus \<Rightarrow> bool" where
  "bus_typed bus \<longleftrightarrow> slots_wf (eb_slots bus) \<and> (\<forall>(p, s) \<in> set (eb_slots bus). slot_typed s)"

text \<open>The operations of the bus in any order; the answers of the hosts are arbitrary.\<close>

inductive bus_step :: "(json \<Rightarrow> nat option) \<Rightarrow> ext_bus \<Rightarrow> ext_bus \<Rightarrow> bool" for json_size where
  bus_register: "bus_step json_size bus (snd (register_plugin p hs bus))"
| bus_unregister: "bus_step json_size bus (unregister_plugin p bus)"
| bus_authorize: "bus_step json_size bus (set_context_rewrite_authorized p a bus)"
| bus_order: "bus_step json_size bus (set_order order bus)"
| bus_attach: "bus_step json_size bus (snd (attach_instance i bus))"
| bus_detach: "bus_step json_size bus (detach_instance p bus)"
| bus_notified: "bus_step json_size bus (bus_notify hook input bus)"
| bus_invoked: "bus_step json_size bus (fst (snd (bus_invoke json_size hook ctx input env bus)))"

inductive bus_reach :: "(json \<Rightarrow> nat option) \<Rightarrow> bus_policy \<Rightarrow> ext_bus \<Rightarrow> bool" for json_size policy where
  reach_init: "bus_reach json_size policy (ext_bus_new policy)"
| reach_step: "bus_reach json_size policy bus \<Longrightarrow> bus_step json_size bus bus' \<Longrightarrow> bus_reach json_size policy bus'"

lemma set_hput_distinct: "hdistinct m \<Longrightarrow> set (hput k v m) = insert (k, v) {x \<in> set m. fst x \<noteq> k}"
  by (induction m) (force simp: hdistinct_def)+

lemma bus_typed_put:
  "bus_typed bus \<Longrightarrow> sl_plugin_id s = p \<Longrightarrow> slot_typed s \<Longrightarrow> bus_typed (bus\<lparr>eb_slots := hput p s (eb_slots bus)\<rparr>)"
  by (auto simp: bus_typed_def slots_wf_def set_hput_distinct)

text \<open>A change of a slot that keeps its id and its hooks keeps the bus typed.\<close>

lemma update_slot_typed:
  assumes "bus_typed bus" "\<And>s. sl_plugin_id (f s) = sl_plugin_id s" "\<And>s. sl_hooks (f s) = sl_hooks s"
  shows "bus_typed (update_slot p f bus)"
proof (cases "hget (eb_slots bus) p")
  case None
  with assms(1) show ?thesis by (simp add: update_slot_def)
next
  case (Some s)
  then have "(p, s) \<in> set (eb_slots bus)" by (rule map_of_SomeD)
  then have "sl_plugin_id s = p" "slot_typed s"
    using assms(1) by (auto simp: bus_typed_def slots_wf_def)
  with Some assms show ?thesis by (simp add: update_slot_def bus_typed_put slot_typed_def)
qed

lemma approve_hooks_typed:
  "approve_hooks hs approved = Inr m \<Longrightarrow> list_all hook_typed approved \<Longrightarrow> hdistinct approved \<Longrightarrow> list_all hook_typed m"
proof (induction hs approved rule: approve_hooks.induct)
  case (2 hook hs approved)
  from "2.prems"(1) obtain deadline where d: "registration_validate hook = Inr deadline"
    "approve_hooks hs (hput (hr_name hook) \<lparr>ah_mode = hr_mode hook, ah_deadline = deadline\<rparr> approved) = Inr m"
    by (auto split: sum.splits)
  have "hook_typed (hr_name hook, \<lparr>ah_mode = hr_mode hook, ah_deadline = deadline\<rparr>)"
    using d(1) by (auto simp: hook_typed_def registration_validate_Inr)
  with "2.prems"(2,3) "2.IH" [OF d] show ?case
    by (auto simp: list_all_iff set_hput_distinct)
qed simp

lemma dispatch_slot_typed:
  "bus_typed (ds_bus st) \<Longrightarrow> bus_typed (ds_bus (snd (dispatch_slot js spec ctx gb ab env s st)))"
proof -
  assume t: "bus_typed (ds_bus st)"
  have breaker: "bus_typed (ds_bus (set_breaker p b st'))" if "bus_typed (ds_bus st')" for p b st'
    using that by (simp add: set_breaker_def update_slot_typed)
  have fail: "ds_bus (snd (fail_call p m k w st')) = ds_bus st'" for p m k w st'
    by (simp add: fail_call_def Let_def)
  have call: "bus_typed (ds_bus st'')" if "call_host js spec ctx e p i timeout st' = (r, st'')" "bus_typed (ds_bus st')"
    for e p i timeout st' r st''
    using that by (auto simp: call_host_def Let_def bus_typed_def)
  have settle: "bus_typed (ds_bus (snd (settle_call p m now b parsed st')))" if "bus_typed (ds_bus st')" for p m now b parsed st'
    using breaker [OF that] by (simp add: settle_call_def fail Let_def split: sum.split decision.split)
  show ?thesis
    by (auto simp: dispatch_slot_def Let_def fail breaker t settle dest: call split: option.split prod.split)
qed

lemma dispatch_slots_typed:
  "bus_typed (ds_bus st) \<Longrightarrow> bus_typed (ds_bus (snd (dispatch_slots js spec ctx gb ab env slots st)))"
proof (induction slots arbitrary: st)
  case (Cons s slots)
  obtain r st' where r: "dispatch_slot js spec ctx gb ab env s st = (r, st')" by fastforce
  with dispatch_slot_typed [OF Cons.prems, of js spec ctx gb ab env s] have "bus_typed (ds_bus st')" by simp
  with r Cons.IH show ?case by (cases r) auto
qed simp

lemma bus_step_typed: "bus_step json_size bus bus' \<Longrightarrow> bus_typed bus \<Longrightarrow> bus_typed bus'"
proof (induction rule: bus_step.induct)
  case (bus_register bus p hs)
  then show ?case
    by (auto simp: register_plugin_def Let_def slot_typed_def split: sum.split
        intro!: bus_typed_put dest: approve_hooks_typed)
next
  case (bus_unregister bus p)
  have "set (hremove p (eb_slots bus)) \<subseteq> set (eb_slots bus)" by (auto simp: AList.delete_eq)
  with bus_unregister show ?case unfolding unregister_plugin_def bus_typed_def slots_wf_def
    by (auto intro: hdistinct_hremove)
next
  case (bus_authorize bus p a)
  then show ?case by (simp add: set_context_rewrite_authorized_def update_slot_typed)
next
  case (bus_order bus order)
  then show ?case by (simp add: set_order_def bus_typed_def)
next
  case (bus_attach bus i)
  then show ?case by (simp add: attach_instance_def update_slot_typed split: option.split)
next
  case (bus_detach bus p)
  then show ?case by (simp add: detach_instance_def update_slot_typed)
next
  case (bus_notified bus hook input)
  have push_all: "bus_typed b \<Longrightarrow> bus_typed (fold (\<lambda>s b. if P s then update_slot (sl_plugin_id s)
      (\<lambda>s. s\<lparr>sl_observe := observe_push (JString hook) input (sl_observe s)\<rparr>) b else b) ss b)" for P ss b
    by (induction ss arbitrary: b) (simp_all add: update_slot_typed)
  show ?case unfolding bus_notify_def by (rule push_all) (rule bus_notified)
next
  case (bus_invoked bus hook ctx input env)
  let ?st = "\<lparr>ds_bus = bus, ds_candidate = input, ds_trace = [], ds_patches = [], ds_sent = []\<rparr>"
  have "bus_typed (ds_bus (snd (dispatch_slots json_size spec ctx gb ab env slots ?st)))" for spec gb ab slots
    using bus_invoked by (intro dispatch_slots_typed) simp
  with bus_invoked show ?case by (simp add: bus_invoke_def Let_def case_prod_unfold split: option.split)
qed

text \<open>C40: Whatever is registered, called or restarted in which order: every slot of the bus stands
  under the id of its plugin, once, and every approved hook is one of the catalogue, in a mode
  that the catalogue allows, with a deadline within the limit of that mode.\<close>

theorem reachable_bus_typed:
  assumes "bus_reach json_size policy bus"
  shows "bus_typed bus"
  using assms
proof (induction rule: bus_reach.induct)
  case reach_init
  then show ?case by (simp add: bus_typed_def slots_wf_def ext_bus_new_def)
qed (rule bus_step_typed)

lemma reachable_bus_typed_witness: "bus_typed demo_bus"
proof -
  let ?b1 = "snd (register_plugin ''b'' [demo_registration Advise] (ext_bus_new bus_policy_default))"
  let ?b2 = "snd (register_plugin ''a'' [demo_registration Guard] ?b1)"
  have "bus_reach (\<lambda>_. None) bus_policy_default
      (snd (attach_instance (demo_instance ''a'') (snd (attach_instance (demo_instance ''b'') ?b2))))"
    by (meson bus_attach bus_register reach_init reach_step)
  then show ?thesis unfolding demo_bus_built by (rule reachable_bus_typed)
qed

end
