(* ===== verification/McpTokens.thy ===== *)
theory McpTokens
  imports TaskModel
begin

text \<open>
  The client tokens of the MCP server (\<open>magi-mcp-server/src/token.rs\<close>): issuing, editing,
  rotating, revoking and authenticating.  The digest (\<open>sha2\<close>) is the parameter \<open>sha\<close> and the
  random bytes of an operation are an argument, \<open>None\<close> when the source of randomness fails.
\<close>

unbundle bit_operations_syntax

section \<open>Records\<close>

datatype approval_mode = ApproveAsk | ApproveReadWrite | ApproveAlways

datatype attribution_mode = ExternalMode | ConversationMode

record token_record =
  tr_token_id :: string
  tr_prefix :: string
  tr_hash :: string
  tr_client_name :: string
  tr_workspace_id :: string
  tr_project_directories :: "project_directory_binding option"
  tr_approval_mode :: approval_mode
  tr_attribution :: attribution_mode
  tr_created_at_ms :: u64
  tr_expires_at_ms :: "u64 option"
  tr_revoked_at_ms :: "u64 option"
  tr_last_used_at_ms :: "u64 option"
  tr_network :: bool

record issue_token_request =
  ir_client_name :: string
  ir_workspace_id :: string
  ir_project_directories :: "project_directory_binding option"
  ir_approval_mode :: approval_mode
  ir_attribution :: attribution_mode
  ir_ttl_ms :: "u64 option"
  ir_network :: bool

record token_patch =
  tp_client_name :: "string option"
  tp_approval_mode :: "approval_mode option"
  tp_expires_at_ms :: "u64 option option"
  tp_network :: "bool option"

datatype token_error =
    TokenRandom
  | EmptyClientName
  | EmptyWorkspace
  | TokenNotFound
  | TokenRevoked
  | InvalidDirectoryBinding
  | TokenPersist string

datatype auth_error = AuthInvalid

type_synonym token_store = "token_record list"

definition token_prefix :: string where
  "token_prefix = ''magi_mcp_''"

definition display_prefix_len :: nat where
  "display_prefix_len = length token_prefix + 6"

definition token_is_active :: "token_record \<Rightarrow> u64 \<Rightarrow> bool" where
  "token_is_active t now \<longleftrightarrow>
     tr_revoked_at_ms t = None \<and> (case tr_expires_at_ms t of None \<Rightarrow> True | Some e \<Rightarrow> now < e)"

section \<open>Secrets\<close>

definition hex_char :: "nat \<Rightarrow> char" where
  "hex_char n = (if n < 10 then char_of (48 + n) else char_of (87 + n))"

definition hex_bytes :: "string \<Rightarrow> string" where
  "hex_bytes bytes = concat (map (\<lambda>c. [hex_char (of_char c div 16), hex_char (of_char c mod 16)]) bytes)"

definition hash_secret :: "(string \<Rightarrow> string) \<Rightarrow> string \<Rightarrow> string" where
  "hash_secret sha secret = hex_bytes (sha (''magi-mcp-token-v1:'' @ secret))"

text \<open>The comparison in constant time collects the differences of all bytes.\<close>

definition constant_time_eq :: "string \<Rightarrow> string \<Rightarrow> bool" where
  "constant_time_eq left right =
     (if length left \<noteq> length right then False
      else foldl (\<lambda>d (a, b). d OR (of_char a XOR of_char b)) 0 (zip left right) = (0 :: 8 word))"

definition random_hex :: "string option \<Rightarrow> token_error + string" where
  "random_hex bytes = (case bytes of None \<Rightarrow> Inl TokenRandom | Some b \<Rightarrow> Inr (hex_bytes b))"

section \<open>Operations\<close>

definition issue_token ::
    "externals \<Rightarrow> (string \<Rightarrow> string) \<Rightarrow> issue_token_request \<Rightarrow> u64 \<Rightarrow> string option \<Rightarrow> string option \<Rightarrow> token_store \<Rightarrow>
     (token_error + token_record \<times> string) \<times> token_store" where
  "issue_token ext sha r now secret_bytes id_bytes store =
     (if is_blank (ir_client_name r) then (Inl EmptyClientName, store)
      else if ir_attribution r = ExternalMode \<and> is_blank (ir_workspace_id r) then (Inl EmptyWorkspace, store)
      else if (case ir_project_directories r of
                 None \<Rightarrow> False
               | Some b \<Rightarrow> workspace_id_str (pd_workspace_id b) \<noteq> str_trim (ir_workspace_id r) \<or>
                     isl (directory_binding_validate ext b))
      then (Inl InvalidDirectoryBinding, store)
      else if ir_attribution r = ConversationMode \<and>
              (ir_workspace_id r \<noteq> [] \<or> ir_project_directories r \<noteq> None)
      then (Inl InvalidDirectoryBinding, store)
      else (case random_hex secret_bytes of
         Inl e \<Rightarrow> (Inl e, store)
       | Inr secret_hex \<Rightarrow>
           (case random_hex id_bytes of
              Inl e \<Rightarrow> (Inl e, store)
            | Inr id_hex \<Rightarrow>
                let secret = token_prefix @ secret_hex;
                    record = \<lparr>tr_token_id = ''mcp-token-'' @ id_hex,
                      tr_prefix = take_chars display_prefix_len secret,
                      tr_hash = hash_secret sha secret,
                      tr_client_name = str_trim (ir_client_name r),
                      tr_workspace_id = str_trim (ir_workspace_id r),
                      tr_project_directories = ir_project_directories r,
                      tr_approval_mode = ir_approval_mode r,
                      tr_attribution = ir_attribution r,
                      tr_created_at_ms = now,
                      tr_expires_at_ms = map_option (saturating_add now) (ir_ttl_ms r),
                      tr_revoked_at_ms = None,
                      tr_last_used_at_ms = None,
                      tr_network = ir_network r\<rparr>
                in (Inr (record, secret), store @ [record]))))"

text \<open>The first record of an id, and its replacement.\<close>

definition find_token :: "string \<Rightarrow> token_store \<Rightarrow> token_record option" where
  "find_token i store = find (\<lambda>t. tr_token_id t = i) store"

fun update_token :: "string \<Rightarrow> (token_record \<Rightarrow> token_record) \<Rightarrow> token_store \<Rightarrow> token_store" where
  "update_token i f [] = []"
| "update_token i f (t # ts) = (if tr_token_id t = i then f t # ts else t # update_token i f ts)"

fun freeze_bindings ::
    "externals \<Rightarrow> (string \<times> project_directory_binding) list \<Rightarrow> token_store \<Rightarrow> token_error + token_store" where
  "freeze_bindings ext [] store = Inr store"
| "freeze_bindings ext ((i, b) # bs) store =
     (if isl (directory_binding_validate ext b) then Inl InvalidDirectoryBinding
      else (case find_token i store of
         None \<Rightarrow> Inl TokenNotFound
       | Some t \<Rightarrow>
           if tr_workspace_id t \<noteq> workspace_id_str (pd_workspace_id b) \<or> tr_project_directories t \<noteq> None
           then Inl InvalidDirectoryBinding
           else freeze_bindings ext bs (update_token i (\<lambda>t. t\<lparr>tr_project_directories := Some b\<rparr>) store)))"

definition freeze_legacy_directories ::
    "externals \<Rightarrow> (token_store \<Rightarrow> string option) \<Rightarrow> (string \<times> project_directory_binding) list \<Rightarrow> token_store \<Rightarrow>
     (token_error + unit) \<times> token_store" where
  "freeze_legacy_directories ext persist bs store =
     (case freeze_bindings ext bs store of
        Inl e \<Rightarrow> (Inl e, store)
      | Inr store' \<Rightarrow>
          (case persist store' of
             Some message \<Rightarrow> (Inl (TokenPersist message), store)
           | None \<Rightarrow> (Inr (), store')))"

definition apply_patch :: "token_patch \<Rightarrow> token_record \<Rightarrow> token_record" where
  "apply_patch p t =
     (let t1 = (case tp_client_name p of None \<Rightarrow> t | Some n \<Rightarrow> t\<lparr>tr_client_name := str_trim n\<rparr>);
          t2 = (case tp_approval_mode p of None \<Rightarrow> t1 | Some m \<Rightarrow> t1\<lparr>tr_approval_mode := m\<rparr>);
          t3 = (case tp_expires_at_ms p of None \<Rightarrow> t2 | Some e \<Rightarrow> t2\<lparr>tr_expires_at_ms := e\<rparr>)
      in case tp_network p of None \<Rightarrow> t3 | Some n \<Rightarrow> t3\<lparr>tr_network := n\<rparr>)"

definition update_token_record ::
    "string \<Rightarrow> token_patch \<Rightarrow> token_store \<Rightarrow> (token_error + token_record \<times> token_record) \<times> token_store" where
  "update_token_record i p store =
     (case find_token i store of
        None \<Rightarrow> (Inl TokenNotFound, store)
      | Some t \<Rightarrow>
          if tr_revoked_at_ms t \<noteq> None then (Inl TokenRevoked, store)
          else if (case tp_client_name p of None \<Rightarrow> False | Some n \<Rightarrow> is_blank n)
          then (Inl EmptyClientName, store)
          else (Inr (t, apply_patch p t), update_token i (apply_patch p) store))"

definition rotate_token ::
    "(string \<Rightarrow> string) \<Rightarrow> string \<Rightarrow> string option \<Rightarrow> token_store \<Rightarrow>
     (token_error + token_record \<times> string) \<times> token_store" where
  "rotate_token sha i secret_bytes store =
     (case find_token i store of
        None \<Rightarrow> (Inl TokenNotFound, store)
      | Some t \<Rightarrow>
          if tr_revoked_at_ms t \<noteq> None then (Inl TokenRevoked, store)
          else (case random_hex secret_bytes of
             Inl e \<Rightarrow> (Inl e, store)
           | Inr secret_hex \<Rightarrow>
               let secret = token_prefix @ secret_hex;
                   f = (\<lambda>t. t\<lparr>tr_prefix := take_chars display_prefix_len secret,
                              tr_hash := hash_secret sha secret\<rparr>)
               in (Inr (f t, secret), update_token i f store)))"

text \<open>The last record whose hash matches, as the loop without an early return finds it.\<close>

fun last_match :: "(token_record \<Rightarrow> bool) \<Rightarrow> nat \<Rightarrow> token_store \<Rightarrow> nat option \<Rightarrow> nat option" where
  "last_match P n [] found = found"
| "last_match P n (t # ts) found = last_match P (Suc n) ts (if P t then Some n else found)"

definition token_authenticate ::
    "(string \<Rightarrow> string) \<Rightarrow> string \<Rightarrow> u64 \<Rightarrow> token_store \<Rightarrow> (auth_error + token_record) \<times> token_store" where
  "token_authenticate sha secret now store =
     (if \<not> prefix token_prefix secret then (Inl AuthInvalid, store)
      else
        let candidate = hash_secret sha secret in
        (case last_match (\<lambda>t. constant_time_eq (tr_hash t) candidate) 0 store None of
           None \<Rightarrow> (Inl AuthInvalid, store)
         | Some i \<Rightarrow>
             if \<not> token_is_active (store ! i) now then (Inl AuthInvalid, store)
             else
               let t = (store ! i)\<lparr>tr_last_used_at_ms := Some now\<rparr>
               in (Inr t, store[i := t])))"

definition mark_revoked :: "u64 \<Rightarrow> token_record \<Rightarrow> token_record" where
  "mark_revoked now t = (if tr_revoked_at_ms t = None then t\<lparr>tr_revoked_at_ms := Some now\<rparr> else t)"

definition revoke_token :: "string \<Rightarrow> u64 \<Rightarrow> token_store \<Rightarrow> bool \<times> token_store" where
  "revoke_token i now store =
     (case find_token i store of
        None \<Rightarrow> (False, store)
      | Some _ \<Rightarrow> (True, update_token i (mark_revoked now) store))"

definition revoke_all_tokens :: "u64 \<Rightarrow> token_store \<Rightarrow> nat \<times> token_store" where
  "revoke_all_tokens now store =
     (length (filter (\<lambda>t. tr_revoked_at_ms t = None) store), map (mark_revoked now) store)"

definition revoke_workspace_tokens :: "string \<Rightarrow> u64 \<Rightarrow> token_store \<Rightarrow> nat \<times> token_store" where
  "revoke_workspace_tokens w now store =
     (length (filter (\<lambda>t. tr_workspace_id t = w \<and> tr_revoked_at_ms t = None) store),
      map (\<lambda>t. if tr_workspace_id t = w then mark_revoked now t else t) store)"

section \<open>Lemmas\<close>

lemma byte_xor_zero: "(of_char a XOR of_char b :: 8 word) = 0 \<longleftrightarrow> a = b"
proof -
  have inj: "of_char a = (of_char b :: 8 word) \<longleftrightarrow> a = b"
  proof
    assume "of_char a = (of_char b :: 8 word)"
    then have "of_nat (of_char a) = (of_nat (of_char b) :: 8 word)" by (simp only: of_nat_of_char)
    then have "unat (of_nat (of_char a) :: 8 word) = unat (of_nat (of_char b) :: 8 word)" by (rule arg_cong)
    then have "(of_char a :: nat) = of_char b" by (simp add: unat_of_nat)
    then show "a = b" by simp
  qed simp
  have "x XOR y = 0 \<longleftrightarrow> x = y" for x y :: "8 word"
  proof
    assume zero: "x XOR y = 0"
    have "x = (x XOR y) XOR y" by (simp add: xor.assoc)
    with zero show "x = y" by simp
  qed simp
  with inj show ?thesis by simp
qed

lemma or_zero_iff: "(x OR y :: 'a::len word) = 0 \<longleftrightarrow> x = 0 \<and> y = 0"
  by (metis or.left_neutral or.right_neutral or_eq_0_iff)

lemma differences_zero:
  "foldl (\<lambda>d (a, b). d OR (of_char a XOR of_char b)) d ps = (0 :: 8 word) \<longleftrightarrow>
   d = 0 \<and> (\<forall>(a, b) \<in> set ps. a = b)"
  by (induction ps arbitrary: d) (auto simp: or_zero_iff byte_xor_zero)

text \<open>The comparison in constant time is equality.\<close>

lemma constant_time_eq_iff: "constant_time_eq l r \<longleftrightarrow> l = r"
proof (cases "length l = length r")
  case True
  then have "(\<forall>(a, b) \<in> set (zip l r). a = b) \<longleftrightarrow> l = r"
    by (induction l r rule: list_induct2) auto
  with True show ?thesis unfolding constant_time_eq_def differences_zero by simp
qed (auto simp: constant_time_eq_def)

lemma last_match_Some:
  "last_match P n ts found = Some i \<Longrightarrow>
   found = Some i \<and> (\<forall>t \<in> set ts. \<not> P t) \<or> n \<le> i \<and> i < n + length ts \<and> P (ts ! (i - n))"
proof (induction ts arbitrary: n found)
  case (Cons t ts)
  from Cons.prems have "last_match P (Suc n) ts (if P t then Some n else found) = Some i" by simp
  from Cons.IH [OF this] show ?case
  proof (elim disjE conjE)
    assume "Suc n \<le> i" "i < Suc n + length ts" "P (ts ! (i - Suc n))"
    moreover from this have "i - n = Suc (i - Suc n)" by simp
    ultimately show ?thesis by simp
  qed (auto split: if_splits)
qed simp

lemma last_match_None: "last_match P n ts found = None \<longleftrightarrow> found = None \<and> (\<forall>t \<in> set ts. \<not> P t)"
  by (induction ts arbitrary: n found) auto

text \<open>What a secret that authenticates proves.\<close>

lemma token_authenticate_Inr:
  assumes "token_authenticate sha secret now store = (Inr t, store')"
  shows "\<exists>t0 \<in> set store. tr_hash t0 = hash_secret sha secret \<and> token_is_active t0 now \<and>
           t = t0\<lparr>tr_last_used_at_ms := Some now\<rparr> \<and> prefix token_prefix secret"
proof -
  from assms obtain i where i: "last_match (\<lambda>t. constant_time_eq (tr_hash t) (hash_secret sha secret)) 0 store None = Some i"
    "token_is_active (store ! i) now" "t = (store ! i)\<lparr>tr_last_used_at_ms := Some now\<rparr>" "prefix token_prefix secret"
    by (auto simp: token_authenticate_def Let_def split: option.splits if_splits)
  from last_match_Some [OF i(1)] have "i < length store" "tr_hash (store ! i) = hash_secret sha secret"
    by (simp_all add: constant_time_eq_iff)
  with i show ?thesis by (intro bexI [of _ "store ! i"]) auto
qed

end
