(* ===== verification/OAuthStore.thy ===== *)
theory OAuthStore
  imports McpTokens
begin

text \<open>
  The OAuth delegations of the MCP server (\<open>magi-mcp-server/src/oauth.rs\<close>): registered
  clients, pending consents, authorization codes and grants, each operation with the clock and
  its random values as arguments.

  Parameters stand for the packages the code calls: \<open>digest\<close> is the SHA-256 digest in base64,
  \<open>decoded_length\<close> the length of a base64 text, \<open>parse_url\<close> the URL parser.  Writing the file
  of the store is the argument \<open>written\<close>.
\<close>

section \<open>State\<close>

record parsed_url =
  pu_scheme :: string
  pu_host :: "string option"
  pu_username :: string
  pu_password :: "string option"
  pu_fragment :: "string option"

record oauth_client =
  oc_client_id :: string
  oc_client_name :: string
  oc_redirect_uris :: "string list"
  oc_issuer :: string

record authorization_request =
  ar_response_type :: string
  ar_client_id :: string
  ar_redirect_uri :: string
  ar_code_challenge :: string
  ar_code_challenge_method :: string
  ar_resource :: string
  ar_scope :: "string option"
  ar_state :: "string option"

datatype consent = Denied | Approved string

record pending_request =
  pr_id :: string
  pr_client_name :: string
  pr_request :: authorization_request
  pr_issuer :: string
  pr_expires_at :: u64
  pr_decision :: "consent option"

record oauth_code =
  od_request :: authorization_request
  od_issuer :: string
  od_token_id :: string
  od_parent_hash :: string
  od_expires_at :: u64

record oauth_grant =
  og_client_id :: string
  og_issuer :: string
  og_resource :: string
  og_token_id :: string
  og_parent_hash :: string
  og_access_hash :: string
  og_refresh_hash :: string
  og_used_refresh_hashes :: "string list"
  og_access_expires_at :: u64
  og_expires_at :: u64

record oauth_persisted =
  op_clients :: "oauth_client list"
  op_grants :: "oauth_grant list"

record oauth_store =
  os_persisted :: oauth_persisted
  os_pending :: "(string, pending_request) hmap"
  os_codes :: "(string, oauth_code) hmap"
  os_has_path :: bool

datatype oauth_error =
    InvalidClientMetadata
  | InvalidRedirectUri
  | RandomSourceUnavailable
  | TemporarilyUnavailable
  | PersistenceFailed
  | InvalidClient
  | InvalidRequest
  | ExpiredOrResolved
  | NetworkClientRequired
  | AuthorizationExpired
  | InvalidTarget
  | InvalidGrant
  | UnsupportedGrantType

record client_registration =
  cr_redirect_uris :: "string list"
  cr_client_name :: "string option"
  cr_token_endpoint_auth_method :: "string option"
  cr_grant_types :: "string list option"
  cr_response_types :: "string list option"

record token_request =
  tq_grant_type :: string
  tq_client_id :: string
  tq_resource :: "string option"
  tq_scope :: "string option"
  tq_code :: "string option"
  tq_code_verifier :: "string option"
  tq_redirect_uri :: "string option"
  tq_refresh_token :: "string option"

record token_response =
  ts_access_token :: string
  ts_expires_in :: u64
  ts_refresh_token :: string

record oauth_env =
  oe_digest :: "string \<Rightarrow> string"
  oe_decoded_length :: "string \<Rightarrow> nat option"
  oe_parse_url :: "string \<Rightarrow> parsed_url option"

definition oauth_scope :: string where "oauth_scope = ''magi''"
definition pending_ms :: u64 where "pending_ms = 5 * 60 * 1000"
definition access_ms :: u64 where "access_ms = 60 * 60 * 1000"
definition grant_ms :: u64 where "grant_ms = 90 * 24 * 60 * 60 * 1000"
definition code_ms :: u64 where "code_ms = 60000"
definition max_clients :: nat where "max_clients = 1024"
definition max_pending :: nat where "max_pending = 64"
definition max_grants :: nat where "max_grants = 2048"
definition max_refreshes :: nat where "max_refreshes = 2048"

definition oauth_new :: "bool \<Rightarrow> oauth_persisted \<Rightarrow> oauth_store" where
  "oauth_new has_path persisted =
     \<lparr>os_persisted = persisted, os_pending = [], os_codes = [], os_has_path = has_path\<rparr>"

definition mcp_resource :: "string \<Rightarrow> string" where
  "mcp_resource issuer = issuer @ ''/mcp''"

text \<open>The live parent of a delegation: the token, in the generation it had at the consent.\<close>

definition delegation_parent :: "token_store \<Rightarrow> string \<Rightarrow> string \<Rightarrow> u64 \<Rightarrow> token_record option" where
  "delegation_parent tokens i generation now =
     find (\<lambda>t. tr_token_id t = i \<and> tr_network t \<and> token_is_active t now \<and>
               constant_time_eq (tr_hash t) generation) tokens"

text \<open>A write that fails leaves the store as it was.\<close>

definition oauth_commit :: "bool \<Rightarrow> oauth_persisted \<Rightarrow> oauth_store \<Rightarrow> (oauth_error + unit) \<times> oauth_store" where
  "oauth_commit written after_write s =
     (if os_has_path s \<and> \<not> written then (Inl PersistenceFailed, s)
      else (Inr (), s\<lparr>os_persisted := after_write\<rparr>))"

section \<open>Registration and consent\<close>

definition redirect_uri_ok :: "oauth_env \<Rightarrow> string \<Rightarrow> bool" where
  "redirect_uri_ok env raw =
     (case oe_parse_url env raw of
        None \<Rightarrow> False
      | Some u \<Rightarrow> length raw \<le> 2048 \<and> pu_scheme u = ''https'' \<and> pu_host u \<noteq> None \<and>
          pu_username u = [] \<and> pu_password u = None \<and> pu_fragment u = None)"

definition registration_ok :: "client_registration \<Rightarrow> bool" where
  "registration_ok r \<longleftrightarrow>
     cr_redirect_uris r \<noteq> [] \<and> length (cr_redirect_uris r) \<le> 8 \<and>
     (case cr_client_name r of None \<Rightarrow> True | Some n \<Rightarrow> length n \<le> 160) \<and>
     (case cr_token_endpoint_auth_method r of None \<Rightarrow> True | Some m \<Rightarrow> m = ''none'') \<and>
     (case cr_grant_types r of
        None \<Rightarrow> True
      | Some ts \<Rightarrow> list_all (\<lambda>t. t = ''authorization_code'' \<or> t = ''refresh_token'') ts) \<and>
     (case cr_response_types r of None \<Rightarrow> True | Some ts \<Rightarrow> ts = [''code''])"

definition oauth_register ::
    "oauth_env \<Rightarrow> string \<Rightarrow> client_registration \<Rightarrow> string option \<Rightarrow> bool \<Rightarrow> oauth_store \<Rightarrow>
     (oauth_error + oauth_client) \<times> oauth_store" where
  "oauth_register env issuer r random written s =
     (if \<not> registration_ok r then (Inl InvalidClientMetadata, s)
      else if \<not> list_all (redirect_uri_ok env) (cr_redirect_uris r) then (Inl InvalidRedirectUri, s)
      else (case random of
         None \<Rightarrow> (Inl RandomSourceUnavailable, s)
       | Some client_id \<Rightarrow>
           let name = (case cr_client_name r of
                         Some n \<Rightarrow> if is_blank n then ''MCP client'' else n
                       | None \<Rightarrow> ''MCP client'');
               client = \<lparr>oc_client_id = client_id, oc_client_name = name,
                         oc_redirect_uris = cr_redirect_uris r, oc_issuer = issuer\<rparr>
           in if max_clients \<le> length (op_clients (os_persisted s)) then (Inl TemporarilyUnavailable, s)
              else (case oauth_commit written
                           ((os_persisted s)\<lparr>op_clients := op_clients (os_persisted s) @ [client]\<rparr>) s of
                      (Inl e, s') \<Rightarrow> (Inl e, s')
                    | (Inr _, s') \<Rightarrow> (Inr client, s'))))"

definition request_ok :: "oauth_env \<Rightarrow> string \<Rightarrow> authorization_request \<Rightarrow> bool" where
  "request_ok env issuer r \<longleftrightarrow>
     ar_response_type r = ''code'' \<and> ar_code_challenge_method r = ''S256'' \<and>
     length (ar_code_challenge r) = 43 \<and> oe_decoded_length env (ar_code_challenge r) = Some 32 \<and>
     ar_resource r = mcp_resource issuer \<and>
     (case ar_scope r of None \<Rightarrow> True | Some s \<Rightarrow> s = oauth_scope) \<and>
     (case ar_state r of None \<Rightarrow> True | Some s \<Rightarrow> length s \<le> 2048)"

definition client_for :: "string \<Rightarrow> authorization_request \<Rightarrow> oauth_client \<Rightarrow> bool" where
  "client_for issuer r c \<longleftrightarrow>
     oc_client_id c = ar_client_id r \<and> oc_issuer c = issuer \<and> ar_redirect_uri r \<in> set (oc_redirect_uris c)"

definition oauth_start ::
    "oauth_env \<Rightarrow> string \<Rightarrow> authorization_request \<Rightarrow> u64 \<Rightarrow> string option \<Rightarrow> oauth_store \<Rightarrow>
     (oauth_error + string) \<times> oauth_store" where
  "oauth_start env issuer r now random s =
     (case find (client_for issuer r) (op_clients (os_persisted s)) of
        None \<Rightarrow> (Inl InvalidClient, s)
      | Some client \<Rightarrow>
          if \<not> request_ok env issuer r then (Inl InvalidRequest, s)
          else
            let s1 = s\<lparr>os_pending := hretain (\<lambda>p. now < pr_expires_at p) (os_pending s),
                       os_codes := hretain (\<lambda>c. now < od_expires_at c) (os_codes s)\<rparr>
            in if max_pending \<le> length (os_pending s1) then (Inl TemporarilyUnavailable, s1)
               else (case random of
                  None \<Rightarrow> (Inl RandomSourceUnavailable, s1)
                | Some i \<Rightarrow>
                    (Inr i, s1\<lparr>os_pending := hput i
                       \<lparr>pr_id = i, pr_client_name = oc_client_name client, pr_request = r, pr_issuer = issuer,
                        pr_expires_at = saturating_add now pending_ms, pr_decision = None\<rparr> (os_pending s1)\<rparr>)))"

definition open_consents :: "u64 \<Rightarrow> oauth_store \<Rightarrow> pending_request list" where
  "open_consents now s =
     filter (\<lambda>p. now < pr_expires_at p \<and> pr_decision p = None) (hvalues (os_pending s))"

definition oauth_resolve ::
    "oauth_env \<Rightarrow> string \<Rightarrow> token_record option \<Rightarrow> u64 \<Rightarrow> string option \<Rightarrow> oauth_store \<Rightarrow>
     (oauth_error + unit) \<times> oauth_store" where
  "oauth_resolve env i token now random s =
     (case hget (os_pending s) i of
        None \<Rightarrow> (Inl ExpiredOrResolved, s)
      | Some p \<Rightarrow>
          if \<not> (now < pr_expires_at p \<and> pr_decision p = None) then (Inl ExpiredOrResolved, s)
          else (case token of
             None \<Rightarrow> (Inr (), s\<lparr>os_pending := hput i (p\<lparr>pr_decision := Some Denied\<rparr>) (os_pending s)\<rparr>)
           | Some t \<Rightarrow>
               if \<not> tr_network t \<or> \<not> token_is_active t now then (Inl NetworkClientRequired, s)
               else (case random of
                  None \<Rightarrow> (Inl RandomSourceUnavailable, s)
                | Some code \<Rightarrow>
                    (Inr (), s\<lparr>os_codes := hput (oe_digest env code)
                         \<lparr>od_request = pr_request p, od_issuer = pr_issuer p, od_token_id = tr_token_id t,
                          od_parent_hash = tr_hash t, od_expires_at = saturating_add now code_ms\<rparr> (os_codes s),
                       os_pending := hput i (p\<lparr>pr_decision := Some (Approved code)\<rparr>) (os_pending s)\<rparr>))))"

text \<open>The page of a consent: it waits, or redirects once with the decision.\<close>

datatype consent_page =
    ConsentWaiting string string
  | ConsentRedirect string string "string option" consent

definition oauth_page ::
    "oauth_env \<Rightarrow> string \<Rightarrow> string \<Rightarrow> u64 \<Rightarrow> oauth_store \<Rightarrow> (oauth_error + consent_page) \<times> oauth_store" where
  "oauth_page env issuer i now s =
     (case hget (os_pending s) i of
        None \<Rightarrow> (Inl AuthorizationExpired, s)
      | Some p \<Rightarrow>
          if \<not> (pr_issuer p = issuer \<and> now < pr_expires_at p) then (Inl AuthorizationExpired, s)
          else (case pr_decision p of
             Some decision \<Rightarrow>
               if oe_parse_url env (ar_redirect_uri (pr_request p)) = None then (Inl InvalidRedirectUri, s)
               else (Inr (ConsentRedirect (ar_redirect_uri (pr_request p)) issuer (ar_state (pr_request p)) decision),
                     s\<lparr>os_pending := hremove i (os_pending s)\<rparr>)
           | None \<Rightarrow> (Inr (ConsentWaiting (pr_client_name p) (ar_redirect_uri (pr_request p))), s)))"

section \<open>Exchange\<close>

definition verifier_char :: "char \<Rightarrow> bool" where
  "verifier_char c \<longleftrightarrow>
     CHR ''0'' \<le> c \<and> c \<le> CHR ''9'' \<or> CHR ''A'' \<le> c \<and> c \<le> CHR ''Z'' \<or> CHR ''a'' \<le> c \<and> c \<le> CHR ''z'' \<or>
     c \<in> set ''-._~''"

definition code_matches :: "oauth_env \<Rightarrow> string \<Rightarrow> token_request \<Rightarrow> string \<Rightarrow> u64 \<Rightarrow> oauth_code \<Rightarrow> bool" where
  "code_matches env issuer q verifier now c \<longleftrightarrow>
     now < od_expires_at c \<and> od_issuer c = issuer \<and> ar_client_id (od_request c) = tq_client_id q \<and>
     tq_redirect_uri q = Some (ar_redirect_uri (od_request c)) \<and>
     43 \<le> length verifier \<and> length verifier \<le> 128 \<and> list_all verifier_char verifier \<and>
     constant_time_eq (oe_digest env verifier) (ar_code_challenge (od_request c))"

text \<open>
  The two ways to a grant: each gives the grant to be renewed, the grants that remain beside
  it and the store to go on with, or an error and the store as it is then.
\<close>

definition first_grant :: "string \<Rightarrow> token_request \<Rightarrow> token_record \<Rightarrow> u64 \<Rightarrow> oauth_grant" where
  "first_grant issuer q t now =
     \<lparr>og_client_id = tq_client_id q, og_issuer = issuer, og_resource = mcp_resource issuer,
      og_token_id = tr_token_id t, og_parent_hash = tr_hash t, og_access_hash = [], og_refresh_hash = [],
      og_used_refresh_hashes = [], og_access_expires_at = 0,
      og_expires_at = min (case tr_expires_at_ms t of Some e \<Rightarrow> e | None \<Rightarrow> - 1) (saturating_add now grant_ms)\<rparr>"

definition code_grant ::
    "oauth_env \<Rightarrow> string \<Rightarrow> token_request \<Rightarrow> token_store \<Rightarrow> u64 \<Rightarrow> oauth_grant list \<Rightarrow> oauth_store \<Rightarrow>
     (oauth_error + oauth_grant \<times> oauth_grant list) \<times> oauth_store" where
  "code_grant env issuer q tokens now live s =
     (case tq_code q of
        None \<Rightarrow> (Inl InvalidGrant, s)
      | Some secret \<Rightarrow>
          let key = oe_digest env secret in
          (case hget (os_codes s) key of
             None \<Rightarrow> (Inl InvalidGrant, s)
           | Some c \<Rightarrow>
               (case tq_code_verifier q of
                  None \<Rightarrow> (Inl InvalidGrant, s)
                | Some verifier \<Rightarrow>
                    if \<not> code_matches env issuer q verifier now c then (Inl InvalidGrant, s)
                    else (case delegation_parent tokens (od_token_id c) (od_parent_hash c) now of
                       None \<Rightarrow> (Inl InvalidGrant, s)
                     | Some t \<Rightarrow>
                         if max_grants \<le> length live then (Inl TemporarilyUnavailable, s)
                         else
                           (Inr (first_grant issuer q t now, live), s\<lparr>os_codes := hremove key (os_codes s)\<rparr>)))))"

definition used_by :: "string \<Rightarrow> token_request \<Rightarrow> string \<Rightarrow> oauth_grant \<Rightarrow> bool" where
  "used_by issuer q key g \<longleftrightarrow>
     og_client_id g = tq_client_id q \<and> og_issuer g = issuer \<and> key \<in> set (og_used_refresh_hashes g)"

definition refreshed_by :: "string \<Rightarrow> token_request \<Rightarrow> string \<Rightarrow> oauth_grant \<Rightarrow> bool" where
  "refreshed_by issuer q key g \<longleftrightarrow>
     og_client_id g = tq_client_id q \<and> og_issuer g = issuer \<and> constant_time_eq (og_refresh_hash g) key"

text \<open>\<open>position\<close> with \<open>remove\<close>: the first match, and the list without it.\<close>

fun take_first :: "('a \<Rightarrow> bool) \<Rightarrow> 'a list \<Rightarrow> ('a \<times> 'a list) option" where
  "take_first P [] = None"
| "take_first P (x # xs) =
     (if P x then Some (x, xs) else map_option (\<lambda>(y, ys). (y, x # ys)) (take_first P xs))"

definition refresh_grant ::
    "oauth_env \<Rightarrow> string \<Rightarrow> token_request \<Rightarrow> token_store \<Rightarrow> u64 \<Rightarrow> bool \<Rightarrow> oauth_grant list \<Rightarrow> oauth_store \<Rightarrow>
     (oauth_error + oauth_grant \<times> oauth_grant list) \<times> oauth_store" where
  "refresh_grant env issuer q tokens now written live s =
     (case tq_refresh_token q of
        None \<Rightarrow> (Inl InvalidGrant, s)
      | Some secret \<Rightarrow>
          let key = oe_digest env secret in
          (case take_first (used_by issuer q key) live of
             Some (_, rest) \<Rightarrow>
               (case oauth_commit written ((os_persisted s)\<lparr>op_grants := rest\<rparr>) s of
                  (Inl e, s') \<Rightarrow> (Inl e, s')
                | (Inr _, s') \<Rightarrow> (Inl InvalidGrant, s'))
           | None \<Rightarrow>
               (case take_first (refreshed_by issuer q key) live of
                  None \<Rightarrow> (Inl InvalidGrant, s)
                | Some (g, rest) \<Rightarrow>
                    if delegation_parent tokens (og_token_id g) (og_parent_hash g) now = None
                    then (Inl InvalidGrant, s)
                    else if max_refreshes \<le> length (og_used_refresh_hashes g) then (Inl InvalidGrant, s)
                    else (Inr (g\<lparr>og_used_refresh_hashes := og_used_refresh_hashes g @ [key]\<rparr>, rest), s))))"

definition renewed :: "oauth_env \<Rightarrow> u64 \<Rightarrow> string \<Rightarrow> string \<Rightarrow> oauth_grant \<Rightarrow> oauth_grant" where
  "renewed env now access refresh g =
     g\<lparr>og_access_hash := oe_digest env access, og_refresh_hash := oe_digest env refresh,
       og_access_expires_at := min (saturating_add now access_ms) (og_expires_at g)\<rparr>"

text \<open>The last part: new secrets for the grant, which is published only once it is written.\<close>

definition renew_grant ::
    "oauth_env \<Rightarrow> u64 \<Rightarrow> string option \<Rightarrow> string option \<Rightarrow> bool \<Rightarrow> oauth_grant \<Rightarrow> oauth_grant list \<Rightarrow> oauth_store \<Rightarrow>
     (oauth_error + token_response) \<times> oauth_store" where
  "renew_grant env now random1 random2 written g rest s =
     (case random1 of
        None \<Rightarrow> (Inl RandomSourceUnavailable, s)
      | Some r1 \<Rightarrow>
          (case random2 of
             None \<Rightarrow> (Inl RandomSourceUnavailable, s)
           | Some refresh \<Rightarrow>
               let access = ''magi_oauth_'' @ r1;
                   g' = renewed env now access refresh g
               in (case oauth_commit written ((os_persisted s)\<lparr>op_grants := rest @ [g']\<rparr>) s of
                     (Inl e, s') \<Rightarrow> (Inl e, s')
                   | (Inr _, s') \<Rightarrow>
                       (Inr \<lparr>ts_access_token = access, ts_expires_in = saturating_sub (og_access_expires_at g') now div 1000,
                             ts_refresh_token = refresh\<rparr>, s'))))"

definition oauth_exchange ::
    "oauth_env \<Rightarrow> string \<Rightarrow> token_request \<Rightarrow> token_store \<Rightarrow> u64 \<Rightarrow> string option \<Rightarrow> string option \<Rightarrow> bool \<Rightarrow>
     oauth_store \<Rightarrow> (oauth_error + token_response) \<times> oauth_store" where
  "oauth_exchange env issuer q tokens now random1 random2 written s =
     (if tq_resource q \<noteq> Some (mcp_resource issuer) \<or>
         (case tq_scope q of None \<Rightarrow> False | Some sc \<Rightarrow> sc \<noteq> oauth_scope)
      then (Inl InvalidTarget, s)
      else
        let live = filter (\<lambda>g. now < og_expires_at g) (op_grants (os_persisted s));
            granted = (if tq_grant_type q = ''authorization_code'' then code_grant env issuer q tokens now live s
                       else if tq_grant_type q = ''refresh_token''
                       then refresh_grant env issuer q tokens now written live s
                       else (Inl UnsupportedGrantType, s))
        in (case granted of
              (Inl e, s') \<Rightarrow> (Inl e, s')
            | (Inr (g, rest), s') \<Rightarrow> renew_grant env now random1 random2 written g rest s'))"

definition oauth_authenticate ::
    "oauth_env \<Rightarrow> string \<Rightarrow> string \<Rightarrow> token_store \<Rightarrow> u64 \<Rightarrow> oauth_store \<Rightarrow> token_record option" where
  "oauth_authenticate env secret issuer tokens now s =
     (let key = oe_digest env secret in
      (case find (\<lambda>g. og_issuer g = issuer \<and> og_resource g = mcp_resource issuer \<and>
                      now < og_access_expires_at g \<and> now < og_expires_at g \<and>
                      constant_time_eq (og_access_hash g) key) (op_grants (os_persisted s)) of
         None \<Rightarrow> None
       | Some g \<Rightarrow> delegation_parent tokens (og_token_id g) (og_parent_hash g) now))"

end
