(* ===== verification/OAuthProperties.thy ===== *)
theory OAuthProperties
  imports OAuthStore
begin

text \<open>
  The delegation protocol as a transition system, with a ghost state that remembers every
  secret the store has given out (by its digest) and every consent the local user approved.
  A secret comes from the random source; that it does not repeat an earlier one, nor collide
  with it under the digest, is the side condition of the steps that make one.
\<close>

record oauth_ghost =
  gh_issued :: "string set"
  gh_approved :: "(authorization_request \<times> string \<times> string \<times> string) set"

definition fresh_random :: "oauth_env \<Rightarrow> oauth_ghost \<Rightarrow> string option \<Rightarrow> bool" where
  "fresh_random env gh random \<longleftrightarrow> (case random of None \<Rightarrow> True | Some r \<Rightarrow> oe_digest env r \<notin> gh_issued gh)"

definition issue_random :: "oauth_env \<Rightarrow> string option \<Rightarrow> oauth_ghost \<Rightarrow> oauth_ghost" where
  "issue_random env random gh =
     (case random of None \<Rightarrow> gh | Some r \<Rightarrow> gh\<lparr>gh_issued := insert (oe_digest env r) (gh_issued gh)\<rparr>)"

definition approve_consent :: "oauth_store \<Rightarrow> string \<Rightarrow> token_record option \<Rightarrow> oauth_ghost \<Rightarrow> oauth_ghost" where
  "approve_consent s i token gh =
     (case (hget (os_pending s) i, token) of
        (Some p, Some t) \<Rightarrow>
          gh\<lparr>gh_approved := insert (pr_request p, pr_issuer p, tr_token_id t, tr_hash t) (gh_approved gh)\<rparr>
      | _ \<Rightarrow> gh)"

text \<open>A restart keeps what was written and forgets consents and codes.\<close>

inductive oauth_step :: "oauth_env \<Rightarrow> oauth_ghost \<times> oauth_store \<Rightarrow> oauth_ghost \<times> oauth_store \<Rightarrow> bool"
  for env where
  step_register:
    "oauth_step env (gh, s) (gh, snd (oauth_register env issuer r random written s))"
| step_start:
    "oauth_step env (gh, s) (gh, snd (oauth_start env issuer r now random s))"
| step_resolve:
    "fresh_random env gh random \<Longrightarrow> oauth_resolve env i token now random s = (Inr (), s') \<Longrightarrow>
     oauth_step env (gh, s) (issue_random env random (approve_consent s i token gh), s')"
| step_page:
    "oauth_step env (gh, s) (gh, snd (oauth_page env issuer i now s))"
| step_exchange:
    "fresh_random env gh random2 \<Longrightarrow>
     oauth_step env (gh, s)
       (issue_random env random2 gh, snd (oauth_exchange env issuer q tokens now random1 random2 written s))"
| step_restart:
    "oauth_step env (gh, s) (gh, oauth_new (os_has_path s) (os_persisted s))"

inductive oauth_steps :: "oauth_env \<Rightarrow> oauth_ghost \<times> oauth_store \<Rightarrow> oauth_ghost \<times> oauth_store \<Rightarrow> bool"
  for env x where
  steps_refl: "oauth_steps env x x"
| steps_more: "oauth_steps env x y \<Longrightarrow> oauth_step env y z \<Longrightarrow> oauth_steps env x z"

definition oauth_init :: "bool \<Rightarrow> oauth_ghost \<times> oauth_store" where
  "oauth_init has_path =
     (\<lparr>gh_issued = {}, gh_approved = {}\<rparr>, oauth_new has_path \<lparr>op_clients = [], op_grants = []\<rparr>)"

section \<open>The invariant\<close>

text \<open>The refresh secrets of a grant: the spent ones and the current one.\<close>

definition family_hashes :: "oauth_grant \<Rightarrow> string list" where
  "family_hashes g = og_used_refresh_hashes g @ [og_refresh_hash g]"

definition all_hashes :: "oauth_grant list \<Rightarrow> string list" where
  "all_hashes gs = concat (map family_hashes gs)"

lemma all_hashes_simps [simp]:
  "all_hashes [] = []" "all_hashes (g # gs) = family_hashes g @ all_hashes gs"
  "all_hashes (gs @ gs') = all_hashes gs @ all_hashes gs'"
  by (simp_all add: all_hashes_def)

definition grant_approved :: "oauth_ghost \<Rightarrow> oauth_grant \<Rightarrow> bool" where
  "grant_approved gh g \<longleftrightarrow>
     (\<exists>r. (r, og_issuer g, og_token_id g, og_parent_hash g) \<in> gh_approved gh \<and> ar_client_id r = og_client_id g)"

definition grants_ok :: "oauth_ghost \<Rightarrow> oauth_grant list \<Rightarrow> bool" where
  "grants_ok gh gs \<longleftrightarrow>
     distinct (all_hashes gs) \<and> set (all_hashes gs) \<subseteq> gh_issued gh \<and>
     (\<forall>g \<in> set gs. grant_approved gh g) \<and> length gs \<le> max_grants"

definition codes_ok :: "oauth_ghost \<Rightarrow> (string, oauth_code) hmap \<Rightarrow> bool" where
  "codes_ok gh m \<longleftrightarrow>
     (\<forall>(k, c) \<in> set m. k \<in> gh_issued gh \<and>
        (od_request c, od_issuer c, od_token_id c, od_parent_hash c) \<in> gh_approved gh)"

definition oauth_inv :: "oauth_ghost \<times> oauth_store \<Rightarrow> bool" where
  "oauth_inv x \<longleftrightarrow>
     grants_ok (fst x) (op_grants (os_persisted (snd x))) \<and> codes_ok (fst x) (os_codes (snd x)) \<and>
     length (op_clients (os_persisted (snd x))) \<le> max_clients \<and> length (os_pending (snd x)) \<le> max_pending"

definition ghost_le :: "oauth_ghost \<Rightarrow> oauth_ghost \<Rightarrow> bool" where
  "ghost_le gh gh' \<longleftrightarrow> gh_issued gh \<subseteq> gh_issued gh' \<and> gh_approved gh \<subseteq> gh_approved gh'"

lemma ghost_le_simps [simp]:
  "ghost_le gh gh" "ghost_le gh (issue_random env random gh)" "ghost_le gh (approve_consent s i token gh)"
  by (auto simp: ghost_le_def issue_random_def approve_consent_def split: option.split)

lemma ghost_le_trans: "ghost_le a b \<Longrightarrow> ghost_le b c \<Longrightarrow> ghost_le a c"
  by (auto simp: ghost_le_def)

lemma grants_ok_mono: "grants_ok gh gs \<Longrightarrow> ghost_le gh gh' \<Longrightarrow> grants_ok gh' gs"
  by (auto simp: grants_ok_def ghost_le_def grant_approved_def; blast)

lemma codes_ok_mono: "codes_ok gh m \<Longrightarrow> ghost_le gh gh' \<Longrightarrow> codes_ok gh' m"
  by (auto simp: codes_ok_def ghost_le_def)

lemma codes_ok_subset: "codes_ok gh m \<Longrightarrow> set m' \<subseteq> set m \<Longrightarrow> codes_ok gh m'"
  unfolding codes_ok_def by blast

lemma hremove_subset: "set (hremove k m) \<subseteq> set m"
  by (auto simp: AList.delete_eq)

lemma hretain_subset: "set (hretain P m) \<subseteq> set m"
  by (auto simp: hretain_def)

lemma hretain_length: "length (hretain P m) \<le> length m"
  by (simp add: hretain_def)

lemma hput_length: "length (hput k v m) \<le> Suc (length m)"
  by (induction m) auto

lemma hput_length_known: "hget m k \<noteq> None \<Longrightarrow> length (hput k v m) = length m"
  by (induction m) auto

lemma hput_set: "set (hput k v m) \<subseteq> insert (k, v) (set m)"
  by (induction m) auto

lemma codes_ok_hput:
  "codes_ok gh m \<Longrightarrow> k \<in> gh_issued gh \<Longrightarrow>
   (od_request c, od_issuer c, od_token_id c, od_parent_hash c) \<in> gh_approved gh \<Longrightarrow> codes_ok gh (hput k c m)"
  using hput_set [of k c m] unfolding codes_ok_def by blast

text \<open>Removing grants keeps what is known of the others.\<close>

lemma all_hashes_filter: "distinct (all_hashes gs) \<Longrightarrow> distinct (all_hashes (filter P gs)) \<and> set (all_hashes (filter P gs)) \<subseteq> set (all_hashes gs)"
  by (induction gs) (auto simp: all_hashes_def)

lemma grants_ok_filter: "grants_ok gh gs \<Longrightarrow> grants_ok gh (filter P gs)"
  using all_hashes_filter [of gs P] le_trans [OF length_filter_le [of P gs]]
  by (auto simp: grants_ok_def)

lemma take_first_Some:
  "take_first P xs = Some (y, ys) \<Longrightarrow> \<exists>us vs. xs = us @ y # vs \<and> ys = us @ vs \<and> P y \<and> (\<forall>u \<in> set us. \<not> P u)"
proof (induction xs arbitrary: ys)
  case (Cons x xs)
  show ?case
  proof (cases "P x")
    case True
    with Cons.prems show ?thesis by (intro exI [of _ "[]"] exI [of _ xs]) auto
  next
    case False
    with Cons.prems obtain ys' where "take_first P xs = Some (y, ys')" "ys = x # ys'" by auto
    with Cons.IH False show ?thesis by (metis append_Cons set_ConsD)
  qed
qed simp

lemma take_first_None: "take_first P xs = None \<longleftrightarrow> (\<forall>x \<in> set xs. \<not> P x)"
  by (induction xs) auto

lemma grants_ok_take:
  assumes "grants_ok gh gs" "take_first P gs = Some (g, rest)"
  shows "grants_ok gh rest" and "grant_approved gh g" and "P g"
    and "distinct (all_hashes rest @ family_hashes g)" and "set (family_hashes g) \<subseteq> gh_issued gh"
    and "Suc (length rest) \<le> max_grants"
proof -
  obtain us vs where "gs = us @ g # vs" "rest = us @ vs" "P g"
    using take_first_Some [OF assms(2)] by auto
  with assms(1) show "grants_ok gh rest" "grant_approved gh g" "P g"
    "distinct (all_hashes rest @ family_hashes g)" "set (family_hashes g) \<subseteq> gh_issued gh"
    "Suc (length rest) \<le> max_grants"
    by (auto simp: grants_ok_def)
qed

section \<open>What an exchange does\<close>

abbreviation live_grants :: "u64 \<Rightarrow> oauth_store \<Rightarrow> oauth_grant list" where
  "live_grants now s \<equiv> filter (\<lambda>g. now < og_expires_at g) (op_grants (os_persisted s))"

abbreviation with_grants :: "oauth_grant list \<Rightarrow> oauth_store \<Rightarrow> oauth_store" where
  "with_grants gs s \<equiv> s\<lparr>os_persisted := (os_persisted s)\<lparr>op_grants := gs\<rparr>\<rparr>"

lemma renew_cases:
  assumes "renew_grant env now random1 random2 written g rest s = (res, s')"
  obtains (failed) e where "res = Inl e" "s' = s"
    | (renewed) resp access refresh where "res = Inr resp" "random2 = Some refresh" "ts_refresh_token resp = refresh"
      "ts_access_token resp = access" "s' = with_grants (rest @ [renewed env now access refresh g]) s"
  using assms
  by (auto simp: renew_grant_def oauth_commit_def Let_def split: option.splits if_splits)

lemma code_grant_cases:
  assumes "code_grant env issuer q tokens now live s = (r, s1)"
  obtains (refused) e where "r = Inl e" "s1 = s"
    | (granted) secret verifier c t where "r = Inr (first_grant issuer q t now, live)" "tq_code q = Some secret"
      "hget (os_codes s) (oe_digest env secret) = Some c" "tq_code_verifier q = Some verifier"
      "code_matches env issuer q verifier now c"
      "delegation_parent tokens (od_token_id c) (od_parent_hash c) now = Some t"
      "length live < max_grants"
      "s1 = s\<lparr>os_codes := hremove (oe_digest env secret) (os_codes s)\<rparr>"
proof (cases "tq_code q")
  case None
  with assms show ?thesis by (intro refused) (auto simp: code_grant_def)
next
  case (Some secret)
  show ?thesis
  proof (cases "hget (os_codes s) (oe_digest env secret)")
    case None
    with assms Some show ?thesis by (intro refused) (auto simp: code_grant_def)
  next
    case code: (Some c)
    show ?thesis
    proof (cases "tq_code_verifier q")
      case None
      with assms Some code show ?thesis by (intro refused) (auto simp: code_grant_def)
    next
      case verifier: (Some verifier)
      show ?thesis
      proof (cases "code_matches env issuer q verifier now c")
        case False
        with assms Some code verifier show ?thesis by (intro refused) (auto simp: code_grant_def)
      next
        case True
        show ?thesis
        proof (cases "delegation_parent tokens (od_token_id c) (od_parent_hash c) now")
          case None
          with assms Some code verifier True show ?thesis by (intro refused) (auto simp: code_grant_def)
        next
          case parent: (Some t)
          with assms Some code verifier True show ?thesis
            by (cases "max_grants \<le> length live")
               (intro refused granted [of t secret c verifier]; auto simp: code_grant_def)+
        qed
      qed
    qed
  qed
qed

lemma refresh_grant_cases:
  assumes "refresh_grant env issuer q tokens now written live s = (r, s1)"
  obtains (refused) e where "r = Inl e" "s1 = s"
    | (revoked) e secret g rest where "r = Inl e" "tq_refresh_token q = Some secret"
      "take_first (used_by issuer q (oe_digest env secret)) live = Some (g, rest)" "s1 = with_grants rest s"
    | (granted) secret g rest t where
      "r = Inr (g\<lparr>og_used_refresh_hashes := og_used_refresh_hashes g @ [oe_digest env secret]\<rparr>, rest)"
      "tq_refresh_token q = Some secret"
      "take_first (used_by issuer q (oe_digest env secret)) live = None"
      "take_first (refreshed_by issuer q (oe_digest env secret)) live = Some (g, rest)"
      "delegation_parent tokens (og_token_id g) (og_parent_hash g) now = Some t" "s1 = s"
proof (cases "tq_refresh_token q")
  case None
  with assms show ?thesis by (intro refused) (auto simp: refresh_grant_def)
next
  case (Some secret)
  let ?used = "take_first (used_by issuer q (oe_digest env secret)) live"
  let ?current = "take_first (refreshed_by issuer q (oe_digest env secret)) live"
  show ?thesis
  proof (cases ?used)
    case used: (Some gr)
    obtain g rest where "gr = (g, rest)" by (cases gr)
    with assms Some used show ?thesis
      using refused revoked by (cases "os_has_path s \<and> \<not> written") (auto simp: refresh_grant_def oauth_commit_def)
  next
    case unused: None
    show ?thesis
    proof (cases ?current)
      case None
      with assms Some unused show ?thesis by (intro refused) (auto simp: refresh_grant_def)
    next
      case current: (Some gr)
      obtain g rest where gr: "gr = (g, rest)" by (cases gr)
      show ?thesis
      proof (cases "delegation_parent tokens (og_token_id g) (og_parent_hash g) now")
        case None
        with assms Some unused current gr show ?thesis by (intro refused) (auto simp: refresh_grant_def)
      next
        case parent: (Some t)
        show ?thesis
        proof (cases "max_refreshes \<le> length (og_used_refresh_hashes g)")
          case True
          with assms Some unused current gr parent show ?thesis
            by (intro refused) (auto simp: refresh_grant_def)
        next
          case False
          with assms Some unused current gr parent show ?thesis
            by (intro granted [of g secret rest t]) (auto simp: refresh_grant_def)
        qed
      qed
    qed
  qed
qed

lemma exchange_parts:
  assumes "oauth_exchange env issuer q tokens now random1 random2 written s = (res, s')"
  obtains (refused) e where "res = Inl e" "s' = s"
    | (code) r s1 where "tq_grant_type q = ''authorization_code''"
      "code_grant env issuer q tokens now (live_grants now s) s = (r, s1)"
      "case r of Inl e \<Rightarrow> res = Inl e \<and> s' = s1
         | Inr (g, rest) \<Rightarrow> renew_grant env now random1 random2 written g rest s1 = (res, s')"
    | (refresh) r s1 where "tq_grant_type q = ''refresh_token''"
      "refresh_grant env issuer q tokens now written (live_grants now s) s = (r, s1)"
      "case r of Inl e \<Rightarrow> res = Inl e \<and> s' = s1
         | Inr (g, rest) \<Rightarrow> renew_grant env now random1 random2 written g rest s1 = (res, s')"
proof -
  have "res = Inl InvalidTarget \<and> s' = s \<or> res = Inl UnsupportedGrantType \<and> s' = s \<or>
    tq_grant_type q = ''authorization_code'' \<and>
      (case code_grant env issuer q tokens now (live_grants now s) s of (Inl e, s1) \<Rightarrow> (Inl e, s1)
         | (Inr (g, rest), s1) \<Rightarrow> renew_grant env now random1 random2 written g rest s1) = (res, s') \<or>
    tq_grant_type q = ''refresh_token'' \<and>
      (case refresh_grant env issuer q tokens now written (live_grants now s) s of (Inl e, s1) \<Rightarrow> (Inl e, s1)
         | (Inr (g, rest), s1) \<Rightarrow> renew_grant env now random1 random2 written g rest s1) = (res, s')"
    using assms unfolding oauth_exchange_def Let_def by (simp split: if_splits)
  then show ?thesis
    using refused
    by (elim disjE conjE;
        cases "code_grant env issuer q tokens now (live_grants now s) s";
        cases "refresh_grant env issuer q tokens now written (live_grants now s) s";
        fastforce intro: code refresh split: sum.splits prod.splits)
qed

lemma exchange_cases:
  assumes "oauth_exchange env issuer q tokens now random1 random2 written s = (res, s')"
  obtains (refused) e where "res = Inl e" "s' = s"
    | (code_lost) e key where "res = Inl e" "s' = s\<lparr>os_codes := hremove key (os_codes s)\<rparr>"
    | (revoked) e secret g rest where "res = Inl e" "tq_grant_type q = ''refresh_token''" "tq_refresh_token q = Some secret"
      "take_first (used_by issuer q (oe_digest env secret)) (live_grants now s) = Some (g, rest)"
      "s' = with_grants rest s"
    | (by_code) resp access refresh secret verifier c t where "res = Inr resp" "random2 = Some refresh"
      "tq_grant_type q = ''authorization_code''"
      "ts_refresh_token resp = refresh" "ts_access_token resp = access" "tq_code q = Some secret"
      "hget (os_codes s) (oe_digest env secret) = Some c" "tq_code_verifier q = Some verifier"
      "code_matches env issuer q verifier now c"
      "delegation_parent tokens (od_token_id c) (od_parent_hash c) now = Some t"
      "length (live_grants now s) < max_grants"
      "s' = with_grants (live_grants now s @ [renewed env now access refresh (first_grant issuer q t now)])
              (s\<lparr>os_codes := hremove (oe_digest env secret) (os_codes s)\<rparr>)"
    | (by_refresh) resp access refresh secret g rest t where "res = Inr resp" "random2 = Some refresh"
      "tq_grant_type q = ''refresh_token''"
      "ts_refresh_token resp = refresh" "ts_access_token resp = access" "tq_refresh_token q = Some secret"
      "take_first (used_by issuer q (oe_digest env secret)) (live_grants now s) = None"
      "take_first (refreshed_by issuer q (oe_digest env secret)) (live_grants now s) = Some (g, rest)"
      "delegation_parent tokens (og_token_id g) (og_parent_hash g) now = Some t"
      "s' = with_grants (rest @ [renewed env now access refresh
              (g\<lparr>og_used_refresh_hashes := og_used_refresh_hashes g @ [oe_digest env secret]\<rparr>)]) s"
  using assms
proof (cases rule: exchange_parts)
  case (refused e)
  then show ?thesis using that(1) by blast
next
  case (code r s1)
  from code(2) show ?thesis
  proof (cases rule: code_grant_cases)
    case (refused e)
    with code(3) show ?thesis using that(1) by simp
  next
    case (granted secret verifier c t)
    with code(3) have "renew_grant env now random1 random2 written (first_grant issuer q t now) (live_grants now s) s1 = (res, s')"
      by simp
    then show ?thesis
    proof (cases rule: renew_cases)
      case (failed e)
      with granted show ?thesis using that(2) by blast
    next
      case (renewed resp access refresh)
      with granted code(1) show ?thesis by (intro that(4)) simp_all
    qed
  qed
next
  case (refresh r s1)
  from refresh(2) show ?thesis
  proof (cases rule: refresh_grant_cases)
    case (refused e)
    with refresh(3) show ?thesis using that(1) by simp
  next
    case (revoked e secret g rest)
    with refresh(1,3) show ?thesis using that(3) by simp
  next
    case (granted secret g rest t)
    with refresh(3) have "renew_grant env now random1 random2 written
        (g\<lparr>og_used_refresh_hashes := og_used_refresh_hashes g @ [oe_digest env secret]\<rparr>) rest s1 = (res, s')"
      by simp
    then show ?thesis
    proof (cases rule: renew_cases)
      case (failed e)
      with granted show ?thesis using that(1) by blast
    next
      case (renewed resp access refresh_secret)
      with granted refresh(1) show ?thesis by (intro that(5)) simp_all
    qed
  qed
qed

section \<open>Every step keeps the invariant\<close>

lemma find_in_set: "find P xs = Some x \<Longrightarrow> x \<in> set xs \<and> P x"
  by (auto simp: find_Some_iff)

lemma delegation_parent_SomeD:
  "delegation_parent tokens i h now = Some t \<Longrightarrow>
   t \<in> set tokens \<and> tr_token_id t = i \<and> tr_network t \<and> token_is_active t now \<and> tr_hash t = h"
  by (auto simp: delegation_parent_def find_Some_iff constant_time_eq_iff)

lemma issued_random [simp]:
  "gh_approved (issue_random env random gh) = gh_approved gh"
  "gh_issued (issue_random env (Some r) gh) = insert (oe_digest env r) (gh_issued gh)"
  by (auto simp: issue_random_def split: option.split)

lemma grant_approved_fields:
  "og_issuer g' = og_issuer g \<Longrightarrow> og_token_id g' = og_token_id g \<Longrightarrow> og_parent_hash g' = og_parent_hash g \<Longrightarrow>
   og_client_id g' = og_client_id g \<Longrightarrow> grant_approved gh g' = grant_approved gh g"
  by (simp add: grant_approved_def)

lemma renewed_fields [simp]:
  "og_issuer (renewed env now a r g) = og_issuer g" "og_token_id (renewed env now a r g) = og_token_id g"
  "og_parent_hash (renewed env now a r g) = og_parent_hash g" "og_client_id (renewed env now a r g) = og_client_id g"
  "family_hashes (renewed env now a r g) = og_used_refresh_hashes g @ [oe_digest env r]"
  "og_expires_at (renewed env now a r g) = og_expires_at g"
  by (simp_all add: renewed_def family_hashes_def)

text \<open>A renewed grant joins the others with a secret that was never given out.\<close>

lemma grants_ok_renewed:
  assumes "grants_ok gh rest" "Suc (length rest) \<le> max_grants" "grant_approved gh g"
    and "distinct (all_hashes rest @ og_used_refresh_hashes g)" "set (og_used_refresh_hashes g) \<subseteq> gh_issued gh"
    and "oe_digest env r \<notin> gh_issued gh"
  shows "grants_ok (issue_random env (Some r) gh) (rest @ [renewed env now a r g])"
proof -
  have "grants_ok (issue_random env (Some r) gh) rest"
    using assms(1) by (rule grants_ok_mono) simp
  moreover have "grant_approved (issue_random env (Some r) gh) (renewed env now a r g)"
    using assms(3) by (simp add: grant_approved_def)
  moreover have "oe_digest env r \<notin> set (all_hashes rest)"
    using assms(1,6) by (auto simp: grants_ok_def)
  ultimately show ?thesis
    using assms by (auto simp: grants_ok_def)
qed

lemma exchange_inv:
  assumes inv: "oauth_inv (gh, s)" and fresh: "fresh_random env gh random2"
    and run: "oauth_exchange env issuer q tokens now random1 random2 written s = (res, s')"
  shows "oauth_inv (issue_random env random2 gh, s')"
proof -
  let ?gh = "issue_random env random2 gh"
  have ok: "grants_ok gh (op_grants (os_persisted s))" "codes_ok gh (os_codes s)"
    using inv by (simp_all add: oauth_inv_def)
  note live = grants_ok_filter [OF ok(1), of "\<lambda>g. now < og_expires_at g"]
  have codes: "codes_ok ?gh m" if "set m \<subseteq> set (os_codes s)" for m
    using codes_ok_mono [OF codes_ok_subset [OF ok(2) that]] by simp
  have rest: "grants_ok ?gh gs" if "grants_ok gh gs" for gs
    using grants_ok_mono [OF that] by simp
  from run show ?thesis
  proof (cases rule: exchange_cases)
    case (refused e)
    then show ?thesis using inv codes rest ok(1) by (simp add: oauth_inv_def)
  next
    case (code_lost e key)
    then show ?thesis using inv codes [OF hremove_subset] rest ok(1) by (simp add: oauth_inv_def)
  next
    case (revoked e secret g gs)
    then show ?thesis using inv codes rest [OF grants_ok_take(1) [OF live]] by (simp add: oauth_inv_def)
  next
    case (by_code resp access refresh secret verifier c t)
    have "(oe_digest env secret, c) \<in> set (os_codes s)" using by_code(7) by (rule map_of_SomeD)
    then have "(od_request c, od_issuer c, od_token_id c, od_parent_hash c) \<in> gh_approved gh"
      using ok(2) by (auto simp: codes_ok_def)
    then have "grant_approved gh (first_grant issuer q t now)"
      using by_code(9) delegation_parent_SomeD [OF by_code(10)]
      by (auto simp: grant_approved_def first_grant_def code_matches_def)
    moreover have "distinct (all_hashes (live_grants now s) @ og_used_refresh_hashes (first_grant issuer q t now))"
      "set (og_used_refresh_hashes (first_grant issuer q t now)) \<subseteq> gh_issued gh"
      using live by (simp_all add: grants_ok_def first_grant_def)
    ultimately have "grants_ok ?gh (live_grants now s @ [renewed env now access refresh (first_grant issuer q t now)])"
      using grants_ok_renewed [OF live] by_code(2,11) fresh by (simp add: fresh_random_def)
    then show ?thesis
      using inv codes [OF hremove_subset] by_code by (simp add: oauth_inv_def)
  next
    case (by_refresh resp access refresh secret g gs t)
    note g = grants_ok_take [OF live by_refresh(8)]
    let ?g = "g\<lparr>og_used_refresh_hashes := og_used_refresh_hashes g @ [oe_digest env secret]\<rparr>"
    have "og_refresh_hash g = oe_digest env secret"
      using g(3) by (simp add: refreshed_by_def constant_time_eq_iff)
    then have "og_used_refresh_hashes ?g = family_hashes g" by (simp add: family_hashes_def)
    moreover have "grant_approved gh ?g" using g(2) by (simp add: grant_approved_def)
    ultimately have "grants_ok ?gh (gs @ [renewed env now access refresh ?g])"
      using grants_ok_renewed [OF g(1) g(6), of ?g env refresh now access] g(4,5) by_refresh(2) fresh
      by (simp add: fresh_random_def)
    then show ?thesis using inv codes by_refresh by (simp add: oauth_inv_def)
  qed
qed

lemma resolve_inv:
  assumes inv: "oauth_inv (gh, s)" and fresh: "fresh_random env gh random"
    and run: "oauth_resolve env i token now random s = (Inr (), s')"
  shows "oauth_inv (issue_random env random (approve_consent s i token gh), s')"
proof -
  let ?gh = "issue_random env random (approve_consent s i token gh)"
  have le: "ghost_le gh ?gh" using ghost_le_trans ghost_le_simps by blast
  have grants: "grants_ok ?gh (op_grants (os_persisted s))"
    using inv grants_ok_mono le by (auto simp: oauth_inv_def)
  have codes: "codes_ok ?gh (os_codes s)" using inv codes_ok_mono le by (auto simp: oauth_inv_def)
  obtain p where p: "hget (os_pending s) i = Some p"
    using run by (auto simp: oauth_resolve_def split: option.splits)
  then have pending: "length (hput i p' (os_pending s)) \<le> max_pending" for p'
    using inv by (simp add: hput_length_known oauth_inv_def)
  show ?thesis
  proof (cases token)
    case None
    with run p inv grants codes pending show ?thesis
      by (auto simp: oauth_resolve_def oauth_inv_def split: if_splits)
  next
    case (Some t)
    then obtain code where code: "random = Some code" and s': "s' = s
      \<lparr>os_codes := hput (oe_digest env code)
         \<lparr>od_request = pr_request p, od_issuer = pr_issuer p, od_token_id = tr_token_id t,
          od_parent_hash = tr_hash t, od_expires_at = saturating_add now code_ms\<rparr> (os_codes s),
       os_pending := hput i (p\<lparr>pr_decision := Some (Approved code)\<rparr>) (os_pending s)\<rparr>"
      using run p by (auto simp: oauth_resolve_def split: if_splits option.splits)
    have "codes_ok ?gh (os_codes s')"
      unfolding s' using codes p Some code by (auto intro!: codes_ok_hput simp: approve_consent_def)
    with s' inv grants pending show ?thesis by (simp add: oauth_inv_def)
  qed
qed

lemma oauth_step_inv:
  assumes "oauth_step env x y" "oauth_inv x"
  shows "oauth_inv y"
  using assms
proof cases
  case (step_register gh s issuer r random written)
  with assms(2) show ?thesis
    by (auto simp: oauth_register_def oauth_commit_def oauth_inv_def Let_def split: option.split)
next
  case (step_start gh s issuer r now random)
  have "length (hretain P (os_pending s)) \<le> max_pending" for P
    using assms(2) step_start le_trans [OF hretain_length] by (auto simp: oauth_inv_def)
  moreover have "length (hput i p (hretain P (os_pending s))) \<le> max_pending"
    if "length (hretain P (os_pending s)) < max_pending" for i p P
    using that hput_length [of i p "hretain P (os_pending s)"] by simp
  moreover have "codes_ok gh (hretain P (os_codes s))" for P
    using assms(2) step_start codes_ok_subset [OF _ hretain_subset] by (auto simp: oauth_inv_def)
  ultimately show ?thesis
    using assms(2) step_start
    by (auto simp: oauth_start_def oauth_inv_def Let_def not_le split: option.split)
next
  case (step_resolve gh random i token now s s')
  with assms(2) resolve_inv show ?thesis by blast
next
  case (step_page gh s issuer i now)
  have "length (hremove i (os_pending s)) \<le> max_pending"
    using assms(2) step_page le_trans [OF length_delete_le] by (auto simp: oauth_inv_def)
  with assms(2) step_page show ?thesis
    by (auto simp: oauth_page_def oauth_inv_def split: option.split)
next
  case (step_exchange gh random2 s issuer q tokens now random1 written)
  with assms(2) exchange_inv show ?thesis by (metis prod.collapse)
next
  case (step_restart gh s)
  with assms(2) show ?thesis by (simp add: oauth_inv_def oauth_new_def codes_ok_def)
qed

lemma oauth_steps_inv: "oauth_steps env x y \<Longrightarrow> oauth_inv x \<Longrightarrow> oauth_inv y"
  by (induction rule: oauth_steps.induct) (auto dest: oauth_step_inv)

lemma oauth_init_inv: "oauth_inv (oauth_init has_path)"
  by (simp add: oauth_inv_def oauth_init_def oauth_new_def grants_ok_def codes_ok_def)

section \<open>Spent secrets stay spent\<close>

definition spent_refresh :: "string \<Rightarrow> oauth_ghost \<times> oauth_store \<Rightarrow> bool" where
  "spent_refresh key x \<longleftrightarrow>
     key \<in> gh_issued (fst x) \<and> (\<forall>g \<in> set (op_grants (os_persisted (snd x))). og_refresh_hash g \<noteq> key)"

definition spent_code :: "string \<Rightarrow> oauth_ghost \<times> oauth_store \<Rightarrow> bool" where
  "spent_code key x \<longleftrightarrow> key \<in> gh_issued (fst x) \<and> hget (os_codes (snd x)) key = None"

lemma take_first_set: "take_first P xs = Some (y, ys) \<Longrightarrow> set ys \<subseteq> set xs"
  by (drule take_first_Some) auto

lemma spent_refresh_subset:
  "spent_refresh key (gh, s) \<Longrightarrow> gh_issued gh \<subseteq> gh_issued gh' \<Longrightarrow>
   set (op_grants (os_persisted s')) \<subseteq> set (op_grants (os_persisted s)) \<Longrightarrow> spent_refresh key (gh', s')"
  by (auto simp: spent_refresh_def)

lemma issue_random_issued: "gh_issued gh \<subseteq> gh_issued (issue_random env random gh)"
  by (auto simp: issue_random_def split: option.split)

text \<open>The grants after an exchange: some of the old ones, and perhaps one with the new secret.\<close>

lemma exchange_grants:
  assumes "oauth_exchange env issuer q tokens now random1 random2 written s = (res, s')"
  obtains (fewer) "set (op_grants (os_persisted s')) \<subseteq> set (op_grants (os_persisted s))"
    | (renewed) r g gs where "random2 = Some r" "og_refresh_hash g = oe_digest env r"
        "set gs \<subseteq> set (op_grants (os_persisted s))" "op_grants (os_persisted s') = gs @ [g]"
  using assms
proof (cases rule: exchange_cases)
  case (revoked e secret g rest)
  then show ?thesis using fewer take_first_set by fastforce
next
  case (by_code resp access refresh secret verifier c t)
  then show ?thesis by (intro renewed) (auto simp: renewed_def)
next
  case (by_refresh resp access refresh secret g rest t)
  then show ?thesis using take_first_set [OF by_refresh(8)] by (intro renewed) (auto simp: renewed_def)
qed (auto intro: fewer)

lemma exchange_codes:
  assumes "oauth_exchange env issuer q tokens now random1 random2 written s = (res, s')"
  shows "os_codes s' = os_codes s \<or> (\<exists>k. os_codes s' = hremove k (os_codes s))"
  using assms by (cases rule: exchange_cases) auto

lemma hget_hretain_None: "hget m k = None \<Longrightarrow> hget (hretain P m) k = None"
  by (induction m) (auto simp: hretain_def split: if_splits)

lemma spent_refresh_step:
  assumes "oauth_step env x y" "spent_refresh key x"
  shows "spent_refresh key y"
  using assms
proof cases
  case (step_register gh s issuer r random written)
  with assms(2) show ?thesis
    by (auto simp: oauth_register_def oauth_commit_def spent_refresh_def Let_def split: option.split)
next
  case (step_start gh s issuer r now random)
  with assms(2) show ?thesis by (auto simp: oauth_start_def spent_refresh_def Let_def split: option.split)
next
  case (step_resolve gh random i token now s s')
  then have "os_persisted s' = os_persisted s"
    by (auto simp: oauth_resolve_def split: option.splits if_splits)
  moreover have "gh_issued gh \<subseteq> gh_issued (issue_random env random (approve_consent s i token gh))"
    using issue_random_issued by (fastforce simp: approve_consent_def split: option.split)
  ultimately show ?thesis using assms(2) step_resolve by (auto simp: spent_refresh_def)
next
  case (step_page gh s issuer i now)
  with assms(2) show ?thesis by (auto simp: oauth_page_def spent_refresh_def split: option.split)
next
  case (step_exchange gh random2 s issuer q tokens now random1 written)
  obtain res s' where run: "oauth_exchange env issuer q tokens now random1 random2 written s = (res, s')" by fastforce
  then show ?thesis
  proof (cases rule: exchange_grants)
    case fewer
    with assms(2) step_exchange run show ?thesis by (simp add: spent_refresh_subset issue_random_issued)
  next
    case (renewed r g gs)
    then have "og_refresh_hash g \<noteq> key"
      using step_exchange assms(2) by (auto simp: fresh_random_def spent_refresh_def)
    then show ?thesis using assms(2) step_exchange run renewed by (auto simp: spent_refresh_def)
  qed
next
  case (step_restart gh s)
  with assms(2) show ?thesis by (simp add: spent_refresh_def oauth_new_def)
qed

lemma spent_code_step:
  assumes "oauth_step env x y" "spent_code key x"
  shows "spent_code key y"
  using assms
proof cases
  case (step_register gh s issuer r random written)
  with assms(2) show ?thesis
    by (auto simp: oauth_register_def oauth_commit_def spent_code_def Let_def split: option.split)
next
  case (step_start gh s issuer r now random)
  with assms(2) show ?thesis
    by (auto simp: oauth_start_def spent_code_def Let_def hget_hretain_None split: option.split)
next
  case (step_resolve gh random i token now s s')
  have "os_codes s' = os_codes s \<or> (\<exists>code c. random = Some code \<and> os_codes s' = hput (oe_digest env code) c (os_codes s))"
    using step_resolve by (auto simp: oauth_resolve_def split: option.splits if_splits)
  moreover have "gh_issued gh \<subseteq> gh_issued (issue_random env random (approve_consent s i token gh))"
    using issue_random_issued by (fastforce simp: approve_consent_def split: option.split)
  ultimately show ?thesis using assms(2) step_resolve by (auto simp: spent_code_def fresh_random_def)
next
  case (step_page gh s issuer i now)
  with assms(2) show ?thesis by (auto simp: oauth_page_def spent_code_def split: option.split)
next
  case (step_exchange gh random2 s issuer q tokens now random1 written)
  obtain res s' where run: "oauth_exchange env issuer q tokens now random1 random2 written s = (res, s')" by fastforce
  from exchange_codes [OF run] show ?thesis
    using assms(2) step_exchange run issue_random_issued by (auto simp: spent_code_def)
next
  case (step_restart gh s)
  with assms(2) show ?thesis by (simp add: spent_code_def oauth_new_def)
qed

lemma spent_refresh_steps: "oauth_steps env x y \<Longrightarrow> spent_refresh key x \<Longrightarrow> spent_refresh key y"
  by (induction rule: oauth_steps.induct) (auto dest: spent_refresh_step)

lemma spent_code_steps: "oauth_steps env x y \<Longrightarrow> spent_code key x \<Longrightarrow> spent_code key y"
  by (induction rule: oauth_steps.induct) (auto dest: spent_code_step)

lemma spent_by_refresh:
  assumes inv: "oauth_inv (gh, s)" and fresh: "fresh_random env gh random2"
    and run: "oauth_exchange env issuer q tokens now random1 random2 written s = (Inr resp, s')"
    and q: "tq_grant_type q = ''refresh_token''" "tq_refresh_token q = Some secret"
  shows "spent_refresh (oe_digest env secret) (issue_random env random2 gh, s')"
  using run
proof (cases rule: exchange_cases)
  case (by_refresh resp' access refresh secret' g rest t)
  have ok: "grants_ok gh (live_grants now s)" using inv by (simp add: oauth_inv_def grants_ok_filter)
  note g = grants_ok_take [OF ok by_refresh(8)]
  have key: "og_refresh_hash g = oe_digest env secret"
    using g(3) by_refresh(6) q by (simp add: refreshed_by_def constant_time_eq_iff)
  then have known: "oe_digest env secret \<in> gh_issued gh" using g(5) by (simp add: family_hashes_def)
  then have "oe_digest env refresh \<noteq> oe_digest env secret"
    using fresh by_refresh(2) by (auto simp: fresh_random_def)
  moreover have "oe_digest env secret \<notin> set (all_hashes rest)"
    using g(4) key by (auto simp: family_hashes_def)
  then have "\<forall>g \<in> set rest. og_refresh_hash g \<noteq> oe_digest env secret"
    by (auto simp: all_hashes_def family_hashes_def)
  ultimately show ?thesis using known by_refresh by (simp add: spent_refresh_def renewed_def)
qed (use q in simp_all)

lemma spent_by_code:
  assumes inv: "oauth_inv (gh, s)"
    and run: "oauth_exchange env issuer q tokens now random1 random2 written s = (Inr resp, s')"
    and q: "tq_grant_type q = ''authorization_code''" "tq_code q = Some secret"
  shows "spent_code (oe_digest env secret) (issue_random env random2 gh, s')"
  using run
proof (cases rule: exchange_cases)
  case (by_code resp' access refresh secret' verifier c t)
  have "(oe_digest env secret, c) \<in> set (os_codes s)" using by_code q by (simp add: map_of_SomeD)
  then have "oe_digest env secret \<in> gh_issued gh" using inv by (auto simp: oauth_inv_def codes_ok_def)
  then show ?thesis using by_code q issue_random_issued by (auto simp: spent_code_def)
qed (use q in simp_all)

lemma used_once_in_live:
  assumes "grants_ok gh gs" "take_first (used_by issuer q key) gs = Some (g, rest)"
  shows "\<forall>g \<in> set rest. \<not> used_by issuer q key g"
proof -
  have "key \<in> set (family_hashes g)"
    using grants_ok_take(3) [OF assms] by (simp add: used_by_def family_hashes_def)
  then have "key \<notin> set (all_hashes rest)" using grants_ok_take(4) [OF assms] by auto
  then show ?thesis by (auto simp: all_hashes_def family_hashes_def used_by_def)
qed

text \<open>Presenting a spent refresh secret fails, and ends the family that spent it.\<close>

lemma spent_refresh_refused:
  assumes inv: "oauth_inv (gh, s)" and spent: "spent_refresh (oe_digest env secret) (gh, s)"
    and q: "tq_grant_type q = ''refresh_token''" "tq_refresh_token q = Some secret"
    and run: "oauth_exchange env issuer q tokens now random1 random2 written s = (res, s')"
  shows "isl res \<and>
    (tq_resource q = Some (mcp_resource issuer) \<and> tq_scope q = None \<and> written \<longrightarrow>
       (\<forall>g \<in> set (live_grants now s'). \<not> used_by issuer q (oe_digest env secret) g))"
proof -
  let ?used = "take_first (used_by issuer q (oe_digest env secret)) (live_grants now s)"
  have ok: "grants_ok gh (live_grants now s)" using inv by (simp add: oauth_inv_def grants_ok_filter)
  have none: "take_first (refreshed_by issuer q (oe_digest env secret)) (live_grants now s) = None"
    using spent by (auto simp: take_first_None refreshed_by_def constant_time_eq_iff spent_refresh_def)
  have ex: "isl res" using run none q by (cases rule: exchange_cases) auto
  moreover have "\<forall>g \<in> set (live_grants now s'). \<not> used_by issuer q (oe_digest env secret) g"
    if "tq_resource q = Some (mcp_resource issuer)" "tq_scope q = None" written
  proof (cases ?used)
    case None
    then have "s' = s" using that run none q by (auto simp: oauth_exchange_def refresh_grant_def Let_def)
    with None show ?thesis by (simp add: take_first_None)
  next
    case (Some gr)
    obtain g rest where gr: "gr = (g, rest)" by (cases gr)
    with Some have "s' = with_grants rest s"
      using that run q by (auto simp: oauth_exchange_def refresh_grant_def oauth_commit_def Let_def)
    then show ?thesis using used_once_in_live [OF ok] Some gr by simp
  qed
  ultimately show ?thesis by blast
qed

lemma spent_code_refused:
  assumes "spent_code (oe_digest env secret) (gh, s)"
    and "tq_grant_type q = ''authorization_code''" "tq_code q = Some secret"
    and run: "oauth_exchange env issuer q tokens now random1 random2 written s = (res, s')"
  shows "isl res"
  using run assms(1-3) by (cases rule: exchange_cases) (auto simp: spent_code_def)

section \<open>A delegation from registration to refresh\<close>

definition demo_oauth_env :: oauth_env where
  "demo_oauth_env =
     \<lparr>oe_digest = (\<lambda>s. s), oe_decoded_length = (\<lambda>_. Some 32),
      oe_parse_url = (\<lambda>_. Some \<lparr>pu_scheme = ''https'', pu_host = Some ''h'', pu_username = [],
                               pu_password = None, pu_fragment = None\<rparr>)\<rparr>"

definition demo_verifier :: string where
  "demo_verifier = replicate 43 (CHR ''a'')"

definition demo_token :: token_record where
  "demo_token =
     \<lparr>tr_token_id = ''t'', tr_prefix = [], tr_hash = ''gen1'', tr_client_name = ''c'', tr_workspace_id = ''w'',
      tr_project_directories = None, tr_approval_mode = ApproveAsk, tr_attribution = ExternalMode,
      tr_created_at_ms = 0, tr_expires_at_ms = None, tr_revoked_at_ms = None, tr_last_used_at_ms = None,
      tr_network = True\<rparr>"

definition demo_authorization :: authorization_request where
  "demo_authorization =
     \<lparr>ar_response_type = ''code'', ar_client_id = ''cid'', ar_redirect_uri = ''uri'',
      ar_code_challenge = demo_verifier, ar_code_challenge_method = ''S256'', ar_resource = ''i/mcp'',
      ar_scope = None, ar_state = None\<rparr>"

definition demo_client :: oauth_client where
  "demo_client = \<lparr>oc_client_id = ''cid'', oc_client_name = ''MCP client'', oc_redirect_uris = [''uri''], oc_issuer = ''i''\<rparr>"

definition demo_code_request :: token_request where
  "demo_code_request =
     \<lparr>tq_grant_type = ''authorization_code'', tq_client_id = ''cid'', tq_resource = Some ''i/mcp'', tq_scope = None,
      tq_code = Some ''code'', tq_code_verifier = Some demo_verifier, tq_redirect_uri = Some ''uri'',
      tq_refresh_token = None\<rparr>"

definition demo_refresh_request :: token_request where
  "demo_refresh_request =
     \<lparr>tq_grant_type = ''refresh_token'', tq_client_id = ''cid'', tq_resource = Some ''i/mcp'', tq_scope = None,
      tq_code = None, tq_code_verifier = None, tq_redirect_uri = None, tq_refresh_token = Some ''r1''\<rparr>"

text \<open>The stores after the registration, the request, the consent, the code and the refresh.\<close>

definition demo_registered :: oauth_store where
  "demo_registered = oauth_new False \<lparr>op_clients = [demo_client], op_grants = []\<rparr>"

definition demo_pending :: "consent option \<Rightarrow> pending_request" where
  "demo_pending d =
     \<lparr>pr_id = ''p'', pr_client_name = ''MCP client'', pr_request = demo_authorization, pr_issuer = ''i'',
      pr_expires_at = saturating_add 0 pending_ms, pr_decision = d\<rparr>"

definition demo_started :: oauth_store where
  "demo_started = demo_registered\<lparr>os_pending := [(''p'', demo_pending None)]\<rparr>"

definition demo_code :: oauth_code where
  "demo_code =
     \<lparr>od_request = demo_authorization, od_issuer = ''i'', od_token_id = ''t'', od_parent_hash = ''gen1'',
      od_expires_at = saturating_add 0 code_ms\<rparr>"

definition demo_resolved :: oauth_store where
  "demo_resolved = demo_registered
     \<lparr>os_pending := [(''p'', demo_pending (Some (Approved ''code'')))], os_codes := [(''code'', demo_code)]\<rparr>"

definition demo_granted :: oauth_store where
  "demo_granted = demo_resolved
     \<lparr>os_codes := [],
      os_persisted := \<lparr>op_clients = [demo_client],
        op_grants = [renewed demo_oauth_env 0 ''magi_oauth_a1'' ''r1'' (first_grant ''i'' demo_code_request demo_token 0)]\<rparr>\<rparr>"

lemma demo_register:
  "oauth_register demo_oauth_env ''i''
     \<lparr>cr_redirect_uris = [''uri''], cr_client_name = None, cr_token_endpoint_auth_method = None,
      cr_grant_types = None, cr_response_types = None\<rparr> (Some ''cid'') True (snd (oauth_init False))
   = (Inr demo_client, demo_registered)"
  by (simp add: oauth_register_def registration_ok_def redirect_uri_ok_def demo_oauth_env_def oauth_init_def
      oauth_new_def oauth_commit_def max_clients_def demo_client_def demo_registered_def Let_def)

lemma demo_start:
  "oauth_start demo_oauth_env ''i'' demo_authorization 0 (Some ''p'') demo_registered = (Inr ''p'', demo_started)"
  by (simp add: oauth_start_def client_for_def demo_registered_def oauth_new_def demo_client_def demo_authorization_def
      request_ok_def demo_oauth_env_def mcp_resource_def demo_verifier_def demo_started_def demo_pending_def
      max_pending_def hretain_def Let_def)

lemma demo_times: "0 < saturating_add 0 pending_ms" "0 < saturating_add 0 code_ms"
  "0 < saturating_add 0 access_ms" "0 < saturating_add 0 grant_ms"
  by (simp_all add: saturating_add_def checked_add_def pending_ms_def code_ms_def access_ms_def grant_ms_def)

lemma demo_resolve:
  "oauth_resolve demo_oauth_env ''p'' (Some demo_token) 0 (Some ''code'') demo_started = (Inr (), demo_resolved)"
  using demo_times
  by (simp add: oauth_resolve_def demo_started_def demo_pending_def demo_token_def token_is_active_def
      demo_oauth_env_def demo_resolved_def demo_registered_def oauth_new_def demo_code_def)

lemma demo_verifier_ok: "list_all verifier_char demo_verifier" "length demo_verifier = 43"
  by (simp_all add: demo_verifier_def verifier_char_def less_eq_char_def list_all_iff)

lemma demo_exchange_code:
  "oauth_exchange demo_oauth_env ''i'' demo_code_request [demo_token] 0 (Some ''a1'') (Some ''r1'') True demo_resolved
   = (Inr \<lparr>ts_access_token = ''magi_oauth_a1'',
           ts_expires_in = saturating_sub (min (saturating_add 0 access_ms) (min (- 1) (saturating_add 0 grant_ms))) 0 div 1000,
           ts_refresh_token = ''r1''\<rparr>, demo_granted)"
  using demo_times
  by (simp add: oauth_exchange_def demo_code_request_def mcp_resource_def demo_resolved_def demo_registered_def
      oauth_new_def code_grant_def demo_oauth_env_def demo_code_def code_matches_def demo_authorization_def
      demo_verifier_ok constant_time_eq_iff delegation_parent_def demo_token_def
      token_is_active_def max_grants_def renew_grant_def oauth_commit_def demo_granted_def first_grant_def
      renewed_def Let_def)

lemma demo_exchange_refresh:
  "\<exists>resp s'. oauth_exchange demo_oauth_env ''i'' demo_refresh_request [demo_token] 0 (Some ''a2'') (Some ''r2'') True demo_granted
   = (Inr resp, s')"
  using demo_times
  by (simp add: oauth_exchange_def demo_refresh_request_def mcp_resource_def demo_granted_def
      refresh_grant_def demo_oauth_env_def used_by_def refreshed_by_def renewed_def first_grant_def demo_code_request_def
      constant_time_eq_iff delegation_parent_def demo_token_def token_is_active_def max_refreshes_def
      renew_grant_def oauth_commit_def demo_resolved_def demo_registered_def oauth_new_def Let_def)

definition demo_ghost :: oauth_ghost where
  "demo_ghost =
     issue_random demo_oauth_env (Some ''code'')
       (approve_consent demo_started ''p'' (Some demo_token) \<lparr>gh_issued = {}, gh_approved = {}\<rparr>)"

lemma demo_ghost_issued: "gh_issued demo_ghost = {''code''}"
  by (simp add: demo_ghost_def demo_oauth_env_def approve_consent_def demo_started_def)

lemma demo_resolved_reached: "oauth_steps demo_oauth_env (oauth_init False) (demo_ghost, demo_resolved)"
proof -
  let ?gh = "\<lparr>gh_issued = {}, gh_approved = {}\<rparr> :: oauth_ghost"
  have "oauth_step demo_oauth_env (oauth_init False) (?gh, demo_registered)"
    using step_register [of demo_oauth_env ?gh "snd (oauth_init False)"] demo_register
    by (metis (no_types) fst_conv oauth_init_def snd_conv)
  moreover have "oauth_step demo_oauth_env (?gh, demo_registered) (?gh, demo_started)"
    using step_start [of demo_oauth_env ?gh demo_registered] demo_start by (metis snd_conv)
  moreover have "oauth_step demo_oauth_env (?gh, demo_started) (demo_ghost, demo_resolved)"
    unfolding demo_ghost_def by (rule step_resolve [OF _ demo_resolve]) (simp add: fresh_random_def)
  ultimately show ?thesis by (meson steps_more steps_refl)
qed

lemma demo_granted_reached:
  "oauth_steps demo_oauth_env (oauth_init False) (issue_random demo_oauth_env (Some ''r1'') demo_ghost, demo_granted)"
proof -
  have "fresh_random demo_oauth_env demo_ghost (Some ''r1'')"
    by (simp add: fresh_random_def demo_ghost_issued demo_oauth_env_def)
  from step_exchange [OF this, of demo_resolved "''i''" demo_code_request "[demo_token]" 0 "Some ''a1''" True]
  have "oauth_step demo_oauth_env (demo_ghost, demo_resolved)
      (issue_random demo_oauth_env (Some ''r1'') demo_ghost, demo_granted)"
    by (simp add: demo_exchange_code)
  with demo_resolved_reached show ?thesis by (rule steps_more)
qed

section \<open>Properties\<close>

text \<open>C31: A delegation is never a second owner of permissions: an access token that
  authenticates stands for a token of the store that may use the network, is neither revoked
  nor expired now and still has the secret it had when the local user approved exactly this
  delegation for this issuer; revoking, expiring, rotating or taking back the network
  permission of the parent ends it at once.\<close>

theorem delegated_access_is_consented:
  assumes "oauth_steps env (oauth_init has_path) (gh, s)"
    and "oauth_authenticate env secret issuer tokens now s = Some t"
  shows "t \<in> set tokens \<and> tr_network t \<and> token_is_active t now \<and>
    (\<exists>r. (r, issuer, tr_token_id t, tr_hash t) \<in> gh_approved gh)"
proof -
  have "oauth_inv (gh, s)" using oauth_steps_inv [OF assms(1) oauth_init_inv] .
  then have ok: "\<forall>g \<in> set (op_grants (os_persisted s)). grant_approved gh g"
    by (simp add: oauth_inv_def grants_ok_def)
  obtain g where g: "g \<in> set (op_grants (os_persisted s))" "og_issuer g = issuer"
    "delegation_parent tokens (og_token_id g) (og_parent_hash g) now = Some t"
    using assms(2) by (auto simp: oauth_authenticate_def Let_def dest!: find_in_set split: option.splits)
  from delegation_parent_SomeD [OF g(3)] show ?thesis
    using ok g(1,2) by (fastforce simp: grant_approved_def)
qed

lemma delegated_access_is_consented_witness:
  "\<exists>r. (r, ''i'', ''t'', ''gen1'') \<in> gh_approved (issue_random demo_oauth_env (Some ''r1'') demo_ghost)"
proof -
  have "oauth_authenticate demo_oauth_env ''magi_oauth_a1'' ''i'' [demo_token] 0 demo_granted = Some demo_token"
    using demo_times
    by (simp add: oauth_authenticate_def demo_granted_def demo_oauth_env_def renewed_def first_grant_def
        mcp_resource_def constant_time_eq_iff delegation_parent_def demo_token_def token_is_active_def
        demo_code_request_def Let_def)
  from delegated_access_is_consented [OF demo_granted_reached this] show ?thesis
    by (simp add: demo_token_def)
qed

text \<open>C32: A refresh secret renews a delegation once: after it was used, every later exchange that
  presents it fails, whatever happened in between, restarts included; and if the client that
  used it presents it again in a well-formed request whose effect can be written, the whole
  family of secrets that came from it is gone.\<close>

theorem refresh_secret_single_use:
  assumes "oauth_steps env (oauth_init has_path) (gh, s)" "fresh_random env gh random2"
    and "oauth_exchange env issuer q tokens now random1 random2 written s = (Inr resp, s1)"
    and "tq_grant_type q = ''refresh_token''" "tq_refresh_token q = Some secret"
    and "oauth_steps env (issue_random env random2 gh, s1) (gh2, s2)"
    and "tq_grant_type q' = ''refresh_token''" "tq_refresh_token q' = Some secret"
    and "oauth_exchange env issuer' q' tokens' now' random1' random2' written' s2 = (res, s3)"
  shows "isl res \<and>
    (tq_resource q' = Some (mcp_resource issuer') \<and> tq_scope q' = None \<and> written' \<longrightarrow>
       (\<forall>g \<in> set (live_grants now' s3). \<not> used_by issuer' q' (oe_digest env secret) g))"
proof -
  have inv: "oauth_inv (gh, s)" using oauth_steps_inv [OF assms(1) oauth_init_inv] .
  have "spent_refresh (oe_digest env secret) (gh2, s2)"
    using spent_refresh_steps [OF assms(6)] spent_by_refresh [OF inv assms(2-5)] by blast
  moreover have "oauth_inv (gh2, s2)"
    using oauth_steps_inv [OF assms(6)] exchange_inv [OF inv assms(2,3)] by blast
  ultimately show ?thesis using spent_refresh_refused assms(7-9) by blast
qed

lemma refresh_secret_single_use_witness:
  "\<exists>resp s1. oauth_exchange demo_oauth_env ''i'' demo_refresh_request [demo_token] 0 (Some ''a2'') (Some ''r2'') True demo_granted
     = (Inr resp, s1) \<and>
   isl (fst (oauth_exchange demo_oauth_env ''i'' demo_refresh_request [demo_token] 1 (Some ''a3'') (Some ''r3'') True s1))"
proof -
  obtain resp s1 where run: "oauth_exchange demo_oauth_env ''i'' demo_refresh_request [demo_token] 0 (Some ''a2'') (Some ''r2'') True demo_granted
     = (Inr resp, s1)" using demo_exchange_refresh by blast
  have fresh: "fresh_random demo_oauth_env (issue_random demo_oauth_env (Some ''r1'') demo_ghost) (Some ''r2'')"
    by (simp add: fresh_random_def demo_ghost_issued demo_oauth_env_def)
  have q: "tq_grant_type demo_refresh_request = ''refresh_token''" "tq_refresh_token demo_refresh_request = Some ''r1''"
    by (simp_all add: demo_refresh_request_def)
  obtain res s3 where again: "oauth_exchange demo_oauth_env ''i'' demo_refresh_request [demo_token] 1 (Some ''a3'') (Some ''r3'') True s1
     = (res, s3)" by fastforce
  from refresh_secret_single_use [OF demo_granted_reached fresh run q steps_refl q again] run again
  show ?thesis by auto
qed

text \<open>C33: An authorization code buys one grant: after it was exchanged, every later exchange that
  presents it fails, whatever happened in between.\<close>

theorem code_single_use:
  assumes "oauth_steps env (oauth_init has_path) (gh, s)" "fresh_random env gh random2"
    and "oauth_exchange env issuer q tokens now random1 random2 written s = (Inr resp, s1)"
    and "tq_grant_type q = ''authorization_code''" "tq_code q = Some secret"
    and "oauth_steps env (issue_random env random2 gh, s1) (gh2, s2)"
    and "tq_grant_type q' = ''authorization_code''" "tq_code q' = Some secret"
    and "oauth_exchange env issuer' q' tokens' now' random1' random2' written' s2 = (res, s3)"
  shows "isl res"
proof -
  have inv: "oauth_inv (gh, s)" using oauth_steps_inv [OF assms(1) oauth_init_inv] .
  have "spent_code (oe_digest env secret) (gh2, s2)"
    using spent_code_steps [OF assms(6)] spent_by_code [OF inv assms(3-5)] by blast
  then show ?thesis using spent_code_refused assms(7-9) by blast
qed

lemma code_single_use_witness:
  "isl (fst (oauth_exchange demo_oauth_env ''i'' demo_code_request [demo_token] 0 (Some ''a3'') (Some ''r3'') True demo_granted))"
proof -
  have fresh: "fresh_random demo_oauth_env demo_ghost (Some ''r1'')"
    by (simp add: fresh_random_def demo_ghost_issued demo_oauth_env_def)
  have q: "tq_grant_type demo_code_request = ''authorization_code''" "tq_code demo_code_request = Some ''code''"
    by (simp_all add: demo_code_request_def)
  obtain res s3 where again: "oauth_exchange demo_oauth_env ''i'' demo_code_request [demo_token] 0 (Some ''a3'') (Some ''r3'') True demo_granted
     = (res, s3)" by fastforce
  from code_single_use [OF demo_resolved_reached fresh demo_exchange_code q steps_refl q again] again
  show ?thesis by simp
qed

end
