(* ===== verification/RateLimit.thy ===== *)
theory RateLimit
  imports SlidingWindow
begin

text \<open>
  The rate limiter of the MCP server (\<open>magi-mcp-server/src/rate_limit.rs\<close>): buckets of time
  stamped events for authentication failures by source and for requests by token, bounded in
  number by eviction.
\<close>

definition window_ms :: u64 where "window_ms = 60000"
definition max_auth_failures :: nat where "max_auth_failures = 10"
definition lockout_ms :: u64 where "lockout_ms = 60000"
definition max_requests_per_window :: nat where "max_requests_per_window = 300"
definition max_tracked_keys :: nat where "max_tracked_keys = 4096"

record bucket =
  rb_events :: "u64 list"
  rb_locked_until_ms :: u64

definition bucket_default :: bucket where
  "bucket_default = \<lparr>rb_events = [], rb_locked_until_ms = 0\<rparr>"

type_synonym bucket_map = "(string, bucket) hmap"

record rate_limiter =
  rl_failures :: bucket_map
  rl_requests :: bucket_map

definition rate_limiter_new :: rate_limiter where
  "rate_limiter_new = \<lparr>rl_failures = [], rl_requests = []\<rparr>"

definition prune_events :: "u64 \<Rightarrow> u64 list \<Rightarrow> u64 list" where
  "prune_events now es = dropWhile (\<lambda>at. window_ms \<le> saturating_sub now at) es"

definition prune_bucket :: "u64 \<Rightarrow> bucket \<Rightarrow> bucket" where
  "prune_bucket now b = b\<lparr>rb_events := prune_events now (rb_events b)\<rparr>"

definition newest_event :: "bucket \<Rightarrow> u64" where
  "newest_event b = (if rb_events b = [] then 0 else last (rb_events b))"

definition evict_if_full :: "u64 \<Rightarrow> bucket_map \<Rightarrow> bucket_map" where
  "evict_if_full now m =
     (if length m < max_tracked_keys then m
      else
        let kept = hretain (\<lambda>b. rb_events b \<noteq> [] \<or> now < rb_locked_until_ms b)
                     (hmap_values (prune_bucket now) m)
        in if max_tracked_keys \<le> length kept then
             (case min_by_key (\<lambda>(_, b). newest_event b) kept of
                Some (key, _) \<Rightarrow> hremove key kept
              | None \<Rightarrow> kept)
           else kept)"

definition entry_or_default :: "string \<Rightarrow> bucket_map \<Rightarrow> bucket" where
  "entry_or_default key m = (case hget m key of Some b \<Rightarrow> b | None \<Rightarrow> bucket_default)"

definition is_locked_out :: "string \<Rightarrow> u64 \<Rightarrow> rate_limiter \<Rightarrow> bool" where
  "is_locked_out source now l =
     (case hget (rl_failures l) source of None \<Rightarrow> False | Some b \<Rightarrow> now < rb_locked_until_ms b)"

definition add_failure :: "u64 \<Rightarrow> bucket \<Rightarrow> bucket" where
  "add_failure now b =
     (let es = prune_events now (rb_events b) @ [now]
      in if max_auth_failures \<le> length es
         then b\<lparr>rb_events := [], rb_locked_until_ms := saturating_add now lockout_ms\<rparr>
         else b\<lparr>rb_events := es\<rparr>)"

definition record_auth_failure :: "string \<Rightarrow> u64 \<Rightarrow> rate_limiter \<Rightarrow> rate_limiter" where
  "record_auth_failure source now l =
     (let m = evict_if_full now (rl_failures l)
      in l\<lparr>rl_failures := hput source (add_failure now (entry_or_default source m)) m\<rparr>)"

definition record_auth_success :: "string \<Rightarrow> rate_limiter \<Rightarrow> rate_limiter" where
  "record_auth_success source l = l\<lparr>rl_failures := hremove source (rl_failures l)\<rparr>"

definition allow_request :: "string \<Rightarrow> u64 \<Rightarrow> rate_limiter \<Rightarrow> bool \<times> rate_limiter" where
  "allow_request token now l =
     (let m = evict_if_full now (rl_requests l);
          b = prune_bucket now (entry_or_default token m)
      in if max_requests_per_window \<le> length (rb_events b)
         then (False, l\<lparr>rl_requests := hput token b m\<rparr>)
         else (True, l\<lparr>rl_requests := hput token (b\<lparr>rb_events := rb_events b @ [now]\<rparr>) m\<rparr>))"

section \<open>The window of the limiter\<close>

definition event_expired :: "u64 \<Rightarrow> u64 \<Rightarrow> bool" where
  "event_expired now t \<longleftrightarrow> window_ms \<le> saturating_sub now t"

lemma event_expired_iff: "event_expired now t \<longleftrightarrow> unat t + 60000 \<le> unat now"
proof -
  have "event_expired now t \<longleftrightarrow> 60000 \<le> max 0 (uint now - uint t)"
    by (simp add: event_expired_def word_le_def window_ms_def saturating_sub_uint)
  also have "\<dots> \<longleftrightarrow> unat t + 60000 \<le> unat now"
    unfolding uint_nat by linarith
  finally show ?thesis .
qed

interpretation stamps: sliding_window event_expired "\<lambda>t. t"
  by unfold_locales (auto simp: event_expired_iff word_le_nat_alt)

lemma stamps_prune: "prune_events now es = stamps.expire now es"
  by (simp add: prune_events_def stamps.expire_def event_expired_def)

text \<open>The events of the last minute.\<close>

definition last_minute :: "u64 \<Rightarrow> u64 list \<Rightarrow> u64 list" where
  "last_minute now ts = filter (\<lambda>t. unat now < unat t + 60000) ts"

lemma stamps_window: "stamps.window_of now h = last_minute now h"
  unfolding stamps.window_of_def last_minute_def by (simp add: event_expired_iff not_le)

lemma not_expired_now: "\<not> event_expired now now"
  by (simp add: event_expired_iff)

section \<open>No eviction below the limit\<close>

lemma evict_small [simp]: "length m < max_tracked_keys \<Longrightarrow> evict_if_full now m = m"
  by (simp add: evict_if_full_def)

definition keys_within :: "string set \<Rightarrow> bucket_map \<Rightarrow> bool" where
  "keys_within K m \<longleftrightarrow> distinct (hkeys m) \<and> set (hkeys m) \<subseteq> K"

lemma keys_within_length:
  assumes "keys_within K m" "finite K" "card K < max_tracked_keys"
  shows "length m < max_tracked_keys"
proof -
  have "length (hkeys m) = card (set (hkeys m))"
    using assms(1) distinct_card by (metis keys_within_def)
  also have "\<dots> \<le> card K" using assms by (intro card_mono) (auto simp: keys_within_def)
  finally show ?thesis using assms(3) by (simp add: hkeys_def)
qed

lemma keys_within_hput: "keys_within K m \<Longrightarrow> k \<in> K \<Longrightarrow> keys_within K (hput k b m)"
  by (auto simp: keys_within_def hkeys_def distinct_update dom_update [simplified dom_map_of_conv_image_fst])

lemma keys_within_hremove: "keys_within K m \<Longrightarrow> keys_within K (hremove k m)"
  by (auto simp: keys_within_def hkeys_def delete_keys distinct_removeAll)

section \<open>Requests of a token\<close>

text \<open>
  Requests are answered one after the other.  \<open>accepted_of\<close> is the history of a token: the
  times of its requests that were let through.
\<close>

fun serve :: "(string \<times> u64) list \<Rightarrow> rate_limiter \<times> (string \<times> u64) list \<Rightarrow> rate_limiter \<times> (string \<times> u64) list" where
  "serve [] (l, acc) = (l, acc)"
| "serve ((token, now) # rs) (l, acc) =
     (let (ok, l') = allow_request token now l
      in serve rs (l', if ok then acc @ [(token, now)] else acc))"

definition limiter_after :: "(string \<times> u64) list \<Rightarrow> rate_limiter" where
  "limiter_after rs = fst (serve rs (rate_limiter_new, []))"

definition accepted_of :: "string \<Rightarrow> (string \<times> u64) list \<Rightarrow> u64 list" where
  "accepted_of token rs = map snd (filter (\<lambda>(k, _). k = token) (snd (serve rs (rate_limiter_new, []))))"

lemma serve_snoc:
  "serve (rs @ [(token, now)]) st =
   (let (l, acc) = serve rs st; (ok, l') = allow_request token now l
    in (l', if ok then acc @ [(token, now)] else acc))"
  by (induction rs st rule: serve.induct) (auto simp: Let_def split: prod.splits)

definition requests_tracked :: "string set \<Rightarrow> u64 \<Rightarrow> rate_limiter \<Rightarrow> (string \<times> u64) list \<Rightarrow> bool" where
  "requests_tracked K now l acc \<longleftrightarrow>
     keys_within K (rl_requests l) \<and>
     (\<forall>k. stamps.tracks now (map snd (filter (\<lambda>(k', _). k' = k) acc))
            (rb_events (entry_or_default k (rl_requests l))))"

lemma entry_or_default_hput: "entry_or_default k (hput k' b m) = (if k = k' then b else entry_or_default k m)"
  by (simp add: entry_or_default_def)

text \<open>One request: it is let through if fewer than the limit were in the last minute.\<close>

lemma allow_request_tracked:
  assumes inv: "requests_tracked K t l acc" and K: "finite K" "card K < max_tracked_keys" "token \<in> K" and "t \<le> now"
    and call: "allow_request token now l = (ok, l')"
  shows "ok = (length (last_minute now (map snd (filter (\<lambda>(k, _). k = token) acc))) < max_requests_per_window)"
    and "requests_tracked K now l' (if ok then acc @ [(token, now)] else acc)"
proof -
  let ?h = "\<lambda>k. map snd (filter (\<lambda>(k', _). k' = k) acc)"
  let ?q = "rb_events (entry_or_default token (rl_requests l))"
  have small: "length (rl_requests l) < max_tracked_keys"
    using inv K keys_within_length by (auto simp: requests_tracked_def)
  have tr: "stamps.tracks t (?h k) (rb_events (entry_or_default k (rl_requests l)))" for k
    using inv by (simp add: requests_tracked_def)
  note expire = stamps.tracks_expire [OF tr \<open>t \<le> now\<close>]
  have later: "stamps.tracks now (?h k) (rb_events (entry_or_default k (rl_requests l)))" for k
    using stamps.tracks_later [OF tr \<open>t \<le> now\<close>] .
  have push: "stamps.tracks now (?h token @ [now]) (stamps.expire now ?q @ [now])"
    by (rule stamps.tracks_push [OF tr \<open>t \<le> now\<close>]) (simp_all add: not_expired_now)
  show "ok = (length (last_minute now (?h token)) < max_requests_per_window)"
    using call small expire(1) [of token]
    by (auto simp: allow_request_def Let_def prune_bucket_def stamps_prune stamps_window split: if_splits)
  have keys: "keys_within K (hput token b (rl_requests l))" for b
    using inv K keys_within_hput by (auto simp: requests_tracked_def)
  show "requests_tracked K now l' (if ok then acc @ [(token, now)] else acc)"
    using call small keys later push expire(2) [of token]
    by (auto simp: requests_tracked_def allow_request_def Let_def prune_bucket_def stamps_prune
        entry_or_default_hput split: if_splits)
qed

lemma serve_tracked:
  assumes "sorted (map snd rs)" "fst ` set rs \<subseteq> K" "finite K" "card K < max_tracked_keys"
  shows "requests_tracked K (if rs = [] then 0 else snd (last rs)) (fst (serve rs (rate_limiter_new, [])))
           (snd (serve rs (rate_limiter_new, [])))"
  using assms(1,2)
proof (induction rs rule: rev_induct)
  case Nil
  show ?case
    by (simp add: requests_tracked_def keys_within_def hkeys_def rate_limiter_new_def entry_or_default_def
        bucket_default_def stamps.tracks_Nil)
next
  case (snoc r rs)
  obtain token now where r: "r = (token, now)" by (cases r)
  obtain l acc where s: "serve rs (rate_limiter_new, []) = (l, acc)" by fastforce
  obtain ok l' where a: "allow_request token now l = (ok, l')" by fastforce
  have "requests_tracked K (if rs = [] then 0 else snd (last rs)) l acc"
    using snoc s by (simp add: sorted_append)
  moreover have "(if rs = [] then 0 else snd (last rs)) \<le> now"
    using snoc.prems(1) r by (cases "rs = []") (auto simp: sorted_append)
  ultimately have "requests_tracked K now l' (if ok then acc @ [(token, now)] else acc)"
    using allow_request_tracked(2) a assms(3,4) snoc.prems(2) r by auto
  then show ?case using s a r by (simp add: serve_snoc)
qed

text \<open>The limit on the requests of a token is exact: when requests arrive in the order of the
  clock for fewer tokens than the limiter tracks, a request is let through if and only if fewer
  than 300 requests of its token were let through in the last minute; refused ones do not
  count.\<close>

theorem request_budget_exact:
  assumes "sorted (map snd (rs @ [(token, now)]))"
    and "card (fst ` set (rs @ [(token, now)])) < max_tracked_keys"
  shows "fst (allow_request token now (limiter_after rs)) =
           (length (last_minute now (accepted_of token rs)) < max_requests_per_window)"
proof -
  let ?K = "fst ` set (rs @ [(token, now)])"
  let ?t = "if rs = [] then 0 else snd (last rs)"
  obtain l acc where s: "serve rs (rate_limiter_new, []) = (l, acc)" by fastforce
  have "fst ` set rs \<subseteq> ?K" by auto
  then have "requests_tracked ?K ?t l acc"
    using serve_tracked [of rs ?K] assms s by (simp add: sorted_append)
  moreover have "?t \<le> now" using assms(1) by (cases "rs = []") (auto simp: sorted_append)
  ultimately show ?thesis
    using allow_request_tracked(1) [of ?K ?t l acc token now] assms(2) s
    by (cases "allow_request token now l") (auto simp: limiter_after_def accepted_of_def)
qed

lemma request_budget_exact_witness: "fst (allow_request ''t'' 5 (limiter_after [(''t'', 1), (''u'', 2)]))"
proof -
  have "card (fst ` set ([(''t'', 1 :: u64), (''u'', 2)] @ [(''t'', 5)])) < max_tracked_keys"
    by (simp add: max_tracked_keys_def card_insert_if)
  then have "fst (allow_request ''t'' 5 (limiter_after [(''t'', 1), (''u'', 2)])) =
      (length (last_minute 5 (accepted_of ''t'' [(''t'', 1), (''u'', 2)])) < max_requests_per_window)"
    by (intro request_budget_exact) simp_all
  moreover have "accepted_of ''t'' [(''t'', 1), (''u'', 2)] = [1]"
    by (simp add: accepted_of_def allow_request_def Let_def rate_limiter_new_def max_requests_per_window_def
        entry_or_default_def bucket_default_def prune_bucket_def prune_events_def max_tracked_keys_def)
  ultimately show ?thesis by (simp add: last_minute_def max_requests_per_window_def)
qed

section \<open>Guesses of a source\<close>

text \<open>
  A failed attempt as the gate handles it: a source that is locked out is turned away before
  its secret is looked at; otherwise the attempt is evaluated and recorded.
\<close>

fun guess_all :: "(string \<times> u64) list \<Rightarrow> rate_limiter \<times> (string \<times> u64) list \<Rightarrow> rate_limiter \<times> (string \<times> u64) list" where
  "guess_all [] (l, acc) = (l, acc)"
| "guess_all ((source, now) # gs) (l, acc) =
     (if is_locked_out source now l then guess_all gs (l, acc)
      else guess_all gs (record_auth_failure source now l, acc @ [(source, now)]))"

definition evaluated_of :: "string \<Rightarrow> (string \<times> u64) list \<Rightarrow> u64 list" where
  "evaluated_of source gs = map snd (filter (\<lambda>(k, _). k = source) (snd (guess_all gs (rate_limiter_new, []))))"

text \<open>The attempts in the minute that ends at \<open>u\<close>.\<close>

definition minute_up_to :: "u64 \<Rightarrow> u64 list \<Rightarrow> u64 list" where
  "minute_up_to u ts = filter (\<lambda>t. t \<le> u \<and> unat u < unat t + 60000) ts"

lemma filter_length_mono: "(\<And>x. x \<in> set xs \<Longrightarrow> P x \<Longrightarrow> Q x) \<Longrightarrow> length (filter P xs) \<le> length (filter Q xs)"
  by (induction xs) (auto simp: le_SucI)

lemma minute_snoc_bound:
  assumes "length (last_minute now h) < n" "\<forall>u. length (minute_up_to u h) \<le> n"
  shows "length (minute_up_to u (h @ [now])) \<le> n"
proof (cases "now \<le> u \<and> unat u < unat now + 60000")
  case True
  have "length (minute_up_to u h) \<le> length (last_minute now h)"
    unfolding minute_up_to_def last_minute_def
    using True by (intro filter_length_mono) (auto simp: word_le_nat_alt)
  with True assms(1) show ?thesis by (simp add: minute_up_to_def)
next
  case False
  with assms(2) show ?thesis by (auto simp: minute_up_to_def)
qed

text \<open>
  What the bucket of a source knows of its history: the part up to the last lockout, and the
  failures since, of which fewer than the limit are still in the window.
\<close>

definition guesses_tracked :: "u64 \<Rightarrow> u64 list \<Rightarrow> bucket \<Rightarrow> bool" where
  "guesses_tracked now h b \<longleftrightarrow>
     (\<exists>h1 h2. h = h1 @ h2 \<and> stamps.tracks now h2 (rb_events b) \<and> length (rb_events b) < max_auth_failures \<and>
        (\<forall>t \<in> set h1. t \<le> now \<and> unat t + 60000 \<le> unat (rb_locked_until_ms b))) \<and>
     (\<forall>u. length (minute_up_to u h) \<le> max_auth_failures)"

lemma guesses_trackedI:
  assumes "h = h1 @ h2" "stamps.tracks now h2 (rb_events b)" "length (rb_events b) < max_auth_failures"
    "\<forall>t \<in> set h1. t \<le> now \<and> unat t + 60000 \<le> unat (rb_locked_until_ms b)"
    "\<forall>u. length (minute_up_to u h) \<le> max_auth_failures"
  shows "guesses_tracked now h b"
  using assms unfolding guesses_tracked_def by blast

lemma guesses_tracked_later:
  assumes "guesses_tracked t h b" "t \<le> now"
  shows "guesses_tracked now h b"
proof -
  from assms(1) obtain h1 h2 where h: "h = h1 @ h2" "stamps.tracks t h2 (rb_events b)"
    "length (rb_events b) < max_auth_failures"
    "\<forall>x \<in> set h1. x \<le> t \<and> unat x + 60000 \<le> unat (rb_locked_until_ms b)"
    "\<forall>u. length (minute_up_to u h) \<le> max_auth_failures"
    by (auto simp: guesses_tracked_def)
  show ?thesis
    by (rule guesses_trackedI [OF h(1) stamps.tracks_later [OF h(2) assms(2)] h(3) _ h(5)])
       (use h(4) assms(2) in auto)
qed

lemma last_minute_append: "last_minute now (xs @ ys) = last_minute now xs @ last_minute now ys"
  by (simp add: last_minute_def)

lemma add_failure_tracked:
  assumes tr: "guesses_tracked t h b" and "t \<le> now" "rb_locked_until_ms b \<le> now" "unat now + 60000 < 2 ^ 64"
  shows "guesses_tracked now (h @ [now]) (add_failure now b)"
proof -
  from tr obtain h1 h2 where h: "h = h1 @ h2" and h2: "stamps.tracks t h2 (rb_events b)"
    and len: "length (rb_events b) < max_auth_failures"
    and h1: "\<forall>x \<in> set h1. x \<le> t \<and> unat x + 60000 \<le> unat (rb_locked_until_ms b)"
    and bound: "\<forall>u. length (minute_up_to u h) \<le> max_auth_failures"
    by (auto simp: guesses_tracked_def)
  let ?es = "stamps.expire now (rb_events b)"
  have es: "?es = last_minute now h2" using stamps.tracks_expire(1) [OF h2 assms(2)] by (simp add: stamps_window)
  have "last_minute now h1 = []"
    using h1 assms(3) by (fastforce simp: last_minute_def filter_empty_conv word_le_nat_alt)
  then have "last_minute now h = ?es" by (simp add: h es last_minute_append)
  moreover have "length ?es \<le> length (rb_events b)" by (simp add: stamps.expire_def length_dropWhile_le)
  ultimately have bound': "\<forall>u. length (minute_up_to u (h @ [now])) \<le> max_auth_failures"
    using minute_snoc_bound bound len by (simp add: less_le_trans)
  have push: "stamps.tracks now (h2 @ [now]) (?es @ [now])"
    by (rule stamps.tracks_push [OF h2 assms(2)]) (simp_all add: not_expired_now)
  have le: "\<forall>x \<in> set (h @ [now]). x \<le> now"
    using h h1 push assms(2) by (auto simp: stamps.tracks_def)
  show ?thesis
  proof (cases "max_auth_failures \<le> length (?es @ [now])")
    case True
    have "unat (saturating_add now lockout_ms) = unat now + 60000"
      using assms(4) by (subst saturating_add_unat) (simp_all add: lockout_ms_def)
    then have "\<forall>x \<in> set (h @ [now]). x \<le> now \<and> unat x + 60000 \<le> unat (saturating_add now lockout_ms)"
      using le by (simp add: word_le_nat_alt)
    then show ?thesis
      using True bound' stamps.tracks_Nil
      by (intro guesses_trackedI [of _ "h @ [now]" "[]"])
         (simp_all add: add_failure_def stamps_prune Let_def max_auth_failures_def)
  next
    case False
    have "\<forall>x \<in> set h1. x \<le> now \<and> unat x + 60000 \<le> unat (rb_locked_until_ms b)"
      using h1 assms(2) by auto
    then show ?thesis
      using False bound' push h
      by (intro guesses_trackedI [of _ h1 "h2 @ [now]"]) (simp_all add: add_failure_def stamps_prune Let_def)
  qed
qed

definition failures_tracked :: "string set \<Rightarrow> u64 \<Rightarrow> rate_limiter \<Rightarrow> (string \<times> u64) list \<Rightarrow> bool" where
  "failures_tracked K now l acc \<longleftrightarrow>
     keys_within K (rl_failures l) \<and>
     (\<forall>k. guesses_tracked now (map snd (filter (\<lambda>(k', _). k' = k) acc)) (entry_or_default k (rl_failures l)))"

lemma guess_snoc:
  "guess_all (gs @ [(source, now)]) st =
   (let (l, acc) = guess_all gs st
    in if is_locked_out source now l then (l, acc)
       else (record_auth_failure source now l, acc @ [(source, now)]))"
  by (induction gs st rule: guess_all.induct) (auto simp: Let_def split: prod.splits)

lemma guess_tracked:
  assumes "failures_tracked K t l acc" "finite K" "card K < max_tracked_keys" "source \<in> K" "t \<le> now"
    "unat now + 60000 < 2 ^ 64" "\<not> is_locked_out source now l"
  shows "failures_tracked K now (record_auth_failure source now l) (acc @ [(source, now)])"
proof -
  have small: "length (rl_failures l) < max_tracked_keys"
    using assms keys_within_length by (auto simp: failures_tracked_def)
  have "rb_locked_until_ms (entry_or_default source (rl_failures l)) \<le> now"
    using assms(7) by (auto simp: is_locked_out_def entry_or_default_def bucket_default_def not_less split: option.splits)
  have tr: "guesses_tracked t (map snd (filter (\<lambda>(k', _). k' = k) acc)) (entry_or_default k (rl_failures l))" for k
    using assms(1) by (simp add: failures_tracked_def)
  have "guesses_tracked now (map snd (filter (\<lambda>(k', _). k' = source) acc) @ [now])
      (add_failure now (entry_or_default source (rl_failures l)))"
    by (rule add_failure_tracked [OF tr assms(5) _ assms(6)]) fact
  moreover note guesses_tracked_later [OF tr assms(5)]
  ultimately show ?thesis
    using small assms(1,4) keys_within_hput
    by (auto simp: failures_tracked_def record_auth_failure_def Let_def entry_or_default_hput)
qed

lemma guess_all_tracked:
  assumes "sorted (map snd gs)" "fst ` set gs \<subseteq> K" "finite K" "card K < max_tracked_keys"
    "\<forall>(_, now) \<in> set gs. unat now + 60000 < 2 ^ 64"
  shows "failures_tracked K (if gs = [] then 0 else snd (last gs)) (fst (guess_all gs (rate_limiter_new, [])))
           (snd (guess_all gs (rate_limiter_new, [])))"
  using assms(1,2,5)
proof (induction gs rule: rev_induct)
  case Nil
  show ?case
    by (simp add: failures_tracked_def keys_within_def hkeys_def rate_limiter_new_def entry_or_default_def
        bucket_default_def stamps.tracks_Nil guesses_tracked_def minute_up_to_def max_auth_failures_def)
next
  case (snoc g gs)
  obtain source now where g: "g = (source, now)" by (cases g)
  obtain l acc where s: "guess_all gs (rate_limiter_new, []) = (l, acc)" by fastforce
  let ?t = "if gs = [] then 0 else snd (last gs)"
  have tr: "failures_tracked K ?t l acc" using snoc s by (simp add: sorted_append)
  have le: "?t \<le> now" using snoc.prems(1) g by (cases "gs = []") (auto simp: sorted_append)
  have "failures_tracked K now l acc"
    using tr guesses_tracked_later [OF _ le] unfolding failures_tracked_def by blast
  moreover have "failures_tracked K now (record_auth_failure source now l) (acc @ [(source, now)])"
    if "\<not> is_locked_out source now l"
    using guess_tracked [OF tr assms(3,4) _ le _ that] snoc.prems g by auto
  ultimately show ?case using s g by (auto simp: guess_snoc)
qed

text \<open>A secret cannot be guessed faster than ten tries a minute: when failing attempts come
  in the order of the clock from fewer sources than the limiter tracks, at most ten attempts of
  a source are evaluated in any minute, however many it makes; the rest is turned away by the
  lockout before a secret is compared.\<close>

theorem guesses_per_minute:
  assumes "sorted (map snd gs)" "card (fst ` set gs) < max_tracked_keys"
    and "\<forall>(_, now) \<in> set gs. unat now + 60000 < 2 ^ 64"
  shows "length (minute_up_to u (evaluated_of source gs)) \<le> max_auth_failures"
proof -
  let ?r = "guess_all gs (rate_limiter_new, [])"
  have "failures_tracked (fst ` set gs) (if gs = [] then 0 else snd (last gs)) (fst ?r) (snd ?r)"
    using guess_all_tracked [of gs "fst ` set gs"] assms by simp
  then show ?thesis by (simp add: failures_tracked_def guesses_tracked_def evaluated_of_def)
qed

definition demo_guesses :: "(string \<times> u64) list" where
  "demo_guesses = map (\<lambda>n. (''s'', of_nat n)) [1..<21]"

lemma guesses_per_minute_witness: "length (minute_up_to 30 (evaluated_of ''s'' demo_guesses)) \<le> 10"
proof -
  have "sorted (map snd demo_guesses)" by (simp add: demo_guesses_def upt_rec)
  moreover have "fst ` set demo_guesses = {''s''}" by (simp add: demo_guesses_def upt_rec)
  then have "card (fst ` set demo_guesses) < max_tracked_keys" by (simp add: max_tracked_keys_def)
  moreover have "\<forall>(_, now) \<in> set demo_guesses. unat now + 60000 < 2 ^ 64" by (simp add: demo_guesses_def upt_rec)
  ultimately show ?thesis using guesses_per_minute [of demo_guesses 30 "''s''"] by (simp add: max_auth_failures_def)
qed

section \<open>Eviction and lockouts\<close>

text \<open>
  A lockout empties the list of events, and a bucket without events counts as the oldest of
  all: when the map of failures is full of live buckets, the bucket thrown out is the one of a
  locked out source, whose lockout ends at once.
\<close>

lemma full_map_forgets_lockout:
  assumes full: "max_tracked_keys \<le> length m" and d: "hdistinct m"
    and locked: "hget m source = Some b" "rb_events b = []" "now < rb_locked_until_ms b"
    and others: "\<forall>(k, b) \<in> set m. k \<noteq> source \<longrightarrow> prune_events now (rb_events b) \<noteq> [] \<and> last (rb_events b) \<noteq> 0"
  shows "hget (evict_if_full now m) source = None"
proof -
  let ?kept = "hretain (\<lambda>b. rb_events b \<noteq> [] \<or> now < rb_locked_until_ms b) (hmap_values (prune_bucket now) m)"
  have src: "(source, b) \<in> set m" using locked(1) by (simp add: map_of_SomeD)
  have only: "b' = b" if "(source, b') \<in> set m" for b'
    using that d locked(1) by (metis hdistinct_def map_of_eq_Some_iff option.inject)
  have "prune_events now [] = []" by (simp add: prune_events_def)
  then have kept: "?kept = hmap_values (prune_bucket now) m"
    using others only locked by (fastforce simp: hretain_def hmap_values_def prune_bucket_def filter_id_conv)
  have new: "newest_event (prune_bucket now b') \<noteq> 0" if "(k, b') \<in> set m" "k \<noteq> source" for k b'
  proof -
    have "prune_events now (rb_events b') \<noteq> []" "last (rb_events b') \<noteq> 0" using others that by auto
    moreover have "last (prune_events now (rb_events b')) = last (rb_events b')"
      using calculation(1) unfolding prune_events_def by (metis last_appendR takeWhile_dropWhile_id)
    ultimately show ?thesis by (simp add: newest_event_def prune_bucket_def)
  qed
  have not_empty: "?kept \<noteq> []" unfolding kept using src by (auto simp: hmap_values_def)
  obtain k v where min: "min_by_key (\<lambda>(_, b). newest_event b) ?kept = Some (k, v)"
    using not_empty by (cases "min_by_key (\<lambda>(_, b). newest_event b) ?kept") (auto simp only: min_by_key_None split: prod.splits)
  note least = min_by_key_SomeD [OF min]
  have "newest_event (prune_bucket now b) = 0"
    using locked(2) by (simp add: newest_event_def prune_bucket_def prune_events_def)
  moreover have "(source, prune_bucket now b) \<in> set ?kept"
    using src unfolding kept by (force simp: hmap_values_def)
  ultimately have "newest_event v = 0" using least by fastforce
  then have "k = source" using least new unfolding kept by (auto simp: hmap_values_def)
  moreover have "length ?kept = length m" unfolding kept by (simp add: hmap_values_def)
  ultimately show ?thesis using full min by (simp add: evict_if_full_def Let_def)
qed

end
