(* ===== verification/McpGate.thy ===== *)
theory McpGate
  imports OAuthProperties RateLimit
begin

text \<open>
  The gate of the MCP server over HTTP (\<open>handle_post\<close> of \<open>magi-mcp-server/src/http.rs\<close>): host,
  origin, lockout, authentication by a client token or a delegation, the rate of the token, and
  the transport session the request belongs to.  Parsing of the body and the tool calls behind
  the gate are not part of it.

  A header map is a list of names and values; the value of a name is its first.  A peer is the
  text of its address with the flag \<open>is_loopback\<close>.
\<close>

section \<open>Headers\<close>

type_synonym http_headers = "(string \<times> string) list"

definition visible_ascii :: "char \<Rightarrow> bool" where
  "visible_ascii c \<longleftrightarrow> 32 \<le> (of_char c :: nat) \<and> (of_char c :: nat) < 127 \<or> of_char c = (9 :: nat)"

text \<open>\<open>HeaderValue::to_str\<close>.\<close>

definition header_str :: "string \<Rightarrow> http_headers \<Rightarrow> string option" where
  "header_str name hs =
     (case map_of hs name of None \<Rightarrow> None | Some v \<Rightarrow> if list_all visible_ascii v then Some v else None)"

definition host_name :: "string \<Rightarrow> string" where
  "host_name value =
     (let t = str_trim value in
      if prefix ''['' t then
        (if CHR '']'' \<in> set t then ascii_lower (takeWhile (\<lambda>c. c \<noteq> CHR '']'') t @ '']'') else ascii_lower t)
      else if CHR '':'' \<in> set t then ascii_lower (rev (tl (dropWhile (\<lambda>c. c \<noteq> CHR '':'') (rev t))))
      else ascii_lower t)"

definition bearer_secret :: "http_headers \<Rightarrow> string option" where
  "bearer_secret hs =
     (case header_str ''authorization'' hs of
        None \<Rightarrow> None
      | Some v \<Rightarrow>
          if CHR '' '' \<notin> set v then None
          else
            let scheme = takeWhile (\<lambda>c. c \<noteq> CHR '' '') v;
                secret = str_trim (tl (dropWhile (\<lambda>c. c \<noteq> CHR '' '') v))
            in if eq_ignore_case scheme ''bearer'' \<and> secret \<noteq> [] then Some secret else None)"

definition forwarded_value :: "http_headers \<Rightarrow> string \<Rightarrow> string option" where
  "forwarded_value hs name =
     (case header_str name hs of
        None \<Rightarrow> None
      | Some v \<Rightarrow>
          let s = str_trim (takeWhile (\<lambda>c. c \<noteq> CHR '','') v)
          in if s \<noteq> [] \<and> length s \<le> 64 then Some s else None)"

definition forwarded_source :: "http_headers \<Rightarrow> string" where
  "forwarded_source hs =
     (case forwarded_value hs ''cf-connecting-ip'' of
        Some s \<Rightarrow> s
      | None \<Rightarrow> (case forwarded_value hs ''x-forwarded-for'' of Some s \<Rightarrow> s | None \<Rightarrow> ''unknown''))"

section \<open>State\<close>

record http_config =
  hg_allowed_hosts :: "string list"
  hg_allowed_origins :: "string list"

record http_session =
  hs_token_id :: string
  hs_scope :: nat
  hs_last_used_ms :: u64

record http_state =
  ht_tokens :: token_store
  ht_oauth :: oauth_store
  ht_config :: http_config
  ht_tunnel_hosts :: "string list"
  ht_public_hosts :: "string list"
  ht_limiter :: rate_limiter
  ht_sessions :: "(string, http_session) hmap"

type_synonym peer_ip = "(string \<times> bool) option"

datatype http_status =
    Forbidden | Unauthorized "string option" | TooManyRequests | BadRequest | NotFound | NoContent

definition session_idle_ms :: u64 where "session_idle_ms = 30 * 60 * 1000"
definition max_http_sessions :: nat where "max_http_sessions = 1024"

definition host_in :: "string list \<Rightarrow> string option \<Rightarrow> bool" where
  "host_in allowed host =
     (case host of None \<Rightarrow> False | Some h \<Rightarrow> list_ex (\<lambda>a. eq_ignore_case a h) allowed)"

text \<open>The issuer of delegations: only for a running tunnel, by the full host header.\<close>

definition oauth_issuer :: "http_state \<Rightarrow> peer_ip \<Rightarrow> http_headers \<Rightarrow> string option" where
  "oauth_issuer s peer hs =
     (if (case peer of None \<Rightarrow> False | Some (_, loopback) \<Rightarrow> \<not> loopback) then None
      else (case header_str ''host'' hs of
         None \<Rightarrow> None
       | Some host \<Rightarrow>
           map_option (\<lambda>h. ''https://'' @ h) (find (\<lambda>a. eq_ignore_case a host) (ht_tunnel_hosts s))))"

section \<open>The gate\<close>

definition remote_peer :: "peer_ip \<Rightarrow> bool" where
  "remote_peer peer = (case peer of None \<Rightarrow> False | Some (_, loopback) \<Rightarrow> \<not> loopback)"

definition request_host :: "http_headers \<Rightarrow> string option" where
  "request_host hs = map_option host_name (header_str ''host'' hs)"

definition is_loopback_host :: "http_state \<Rightarrow> peer_ip \<Rightarrow> http_headers \<Rightarrow> bool" where
  "is_loopback_host s peer hs \<longleftrightarrow>
     \<not> remote_peer peer \<and> host_in (hg_allowed_hosts (ht_config s)) (request_host hs)"

definition via_network_host :: "http_state \<Rightarrow> peer_ip \<Rightarrow> http_headers \<Rightarrow> bool" where
  "via_network_host s peer hs \<longleftrightarrow>
     host_in (ht_public_hosts s) (request_host hs) \<or>
     \<not> remote_peer peer \<and> host_in (ht_tunnel_hosts s) (request_host hs)"

definition via_tunnel :: "http_state \<Rightarrow> peer_ip \<Rightarrow> http_headers \<Rightarrow> bool" where
  "via_tunnel s peer hs \<longleftrightarrow> \<not> is_loopback_host s peer hs \<and> via_network_host s peer hs"

definition origin_ok :: "http_state \<Rightarrow> http_headers \<Rightarrow> bool" where
  "origin_ok s hs =
     (case map_of hs ''origin'' of
        None \<Rightarrow> True
      | Some _ \<Rightarrow>
          (case header_str ''origin'' hs of
             None \<Rightarrow> False
           | Some origin \<Rightarrow> origin \<in> set (hg_allowed_origins (ht_config s))))"

definition limit_source :: "peer_ip \<Rightarrow> http_headers \<Rightarrow> string" where
  "limit_source peer hs =
     (case peer of
        Some (ip, loopback) \<Rightarrow> if \<not> loopback then ip else forwarded_source hs
      | None \<Rightarrow> forwarded_source hs)"

text \<open>A secret is tried as a client token first, then as a delegation of the issuer.\<close>

definition authenticate_secret ::
    "(string \<Rightarrow> string) \<Rightarrow> oauth_env \<Rightarrow> string option \<Rightarrow> u64 \<Rightarrow> string \<Rightarrow> http_state \<Rightarrow> token_record option \<times> http_state" where
  "authenticate_secret sha env issuer now secret s =
     (case token_authenticate sha secret now (ht_tokens s) of
        (Inr t, tokens) \<Rightarrow> (Some t, s\<lparr>ht_tokens := tokens\<rparr>)
      | (Inl _, tokens) \<Rightarrow>
          (case issuer of
             None \<Rightarrow> (None, s\<lparr>ht_tokens := tokens\<rparr>)
           | Some i \<Rightarrow> (oauth_authenticate env secret i tokens now (ht_oauth s), s\<lparr>ht_tokens := tokens\<rparr>)))"

definition http_gate ::
    "(string \<Rightarrow> string) \<Rightarrow> oauth_env \<Rightarrow> peer_ip \<Rightarrow> http_headers \<Rightarrow> u64 \<Rightarrow> http_state \<Rightarrow>
     (http_status + token_record) \<times> http_state" where
  "http_gate sha env peer hs now s =
     (let tunnel = via_tunnel s peer hs;
          source = limit_source peer hs;
          issuer = oauth_issuer s peer hs
      in if \<not> is_loopback_host s peer hs \<and> \<not> tunnel then (Inl Forbidden, s)
         else if \<not> origin_ok s hs then (Inl Forbidden, s)
         else if tunnel \<and> is_locked_out source now (ht_limiter s) then (Inl TooManyRequests, s)
         else
           let (found, s1) = (case bearer_secret hs of
                                None \<Rightarrow> (None, s)
                              | Some secret \<Rightarrow> authenticate_secret sha env issuer now secret s)
           in (case (case found of None \<Rightarrow> None | Some t \<Rightarrow> if tunnel \<and> \<not> tr_network t then None else Some t) of
                 None \<Rightarrow>
                   (Inl (Unauthorized issuer),
                    if tunnel then s1\<lparr>ht_limiter := record_auth_failure source now (ht_limiter s1)\<rparr> else s1)
               | Some t \<Rightarrow>
                   if tunnel then
                     let (ok, l) = allow_request (tr_token_id t) now (record_auth_success source (ht_limiter s1))
                     in (if ok then Inr t else Inl TooManyRequests, s1\<lparr>ht_limiter := l\<rparr>)
                   else (Inr t, s1)))"

section \<open>Transport sessions\<close>

text \<open>
  \<open>busy\<close> tells for a scope whether a call of it is running (\<open>Arc::strong_count\<close>).  The result
  names the scope of an existing session, or none for a request without a session header.
\<close>

definition retain_sessions :: "(nat \<Rightarrow> bool) \<Rightarrow> u64 \<Rightarrow> (string, http_session) hmap \<Rightarrow> (string, http_session) hmap" where
  "retain_sessions busy now =
     hretain (\<lambda>x. saturating_sub now (hs_last_used_ms x) < session_idle_ms \<or> busy (hs_scope x))"

definition enter_session ::
    "(nat \<Rightarrow> bool) \<Rightarrow> bool \<Rightarrow> http_headers \<Rightarrow> token_record \<Rightarrow> u64 \<Rightarrow> http_state \<Rightarrow>
     (http_status + nat option) \<times> http_state" where
  "enter_session busy delete hs t now s =
     (if delete \<and> map_of hs ''mcp-session-id'' = None then (Inl BadRequest, s)
      else
        let sessions = retain_sessions busy now (ht_sessions s);
            s1 = s\<lparr>ht_sessions := sessions\<rparr>
        in (case map_of hs ''mcp-session-id'' of
              None \<Rightarrow> (Inr None, s1)
            | Some _ \<Rightarrow>
                (case header_str ''mcp-session-id'' hs of
                   None \<Rightarrow> (Inl BadRequest, s1)
                 | Some i \<Rightarrow>
                     (case hget sessions i of
                        None \<Rightarrow> (Inl NotFound, s1)
                      | Some x \<Rightarrow>
                          if hs_token_id x \<noteq> tr_token_id t then (Inl NotFound, s1)
                          else if delete then (Inl NoContent, s1\<lparr>ht_sessions := hremove i sessions\<rparr>)
                          else (Inr (Some (hs_scope x)),
                                s1\<lparr>ht_sessions := hput i (x\<lparr>hs_last_used_ms := now\<rparr>) sessions\<rparr>)))))"

definition open_session :: "string \<Rightarrow> token_record \<Rightarrow> nat \<Rightarrow> u64 \<Rightarrow> http_state \<Rightarrow> (http_status + string) \<times> http_state" where
  "open_session i t scope now s =
     (if max_http_sessions \<le> length (ht_sessions s) then (Inl TooManyRequests, s)
      else (Inr i, s\<lparr>ht_sessions := hput i
              \<lparr>hs_token_id = tr_token_id t, hs_scope = scope, hs_last_used_ms = now\<rparr> (ht_sessions s)\<rparr>))"

definition session_count :: "(nat \<Rightarrow> bool) \<Rightarrow> u64 \<Rightarrow> http_state \<Rightarrow> nat" where
  "session_count busy now s =
     length (filter (\<lambda>x. (saturating_sub now (hs_last_used_ms x) < session_idle_ms \<or> busy (hs_scope x)) \<and>
                         list_ex (\<lambda>t. tr_token_id t = hs_token_id x \<and> token_is_active t now) (ht_tokens s))
       (hvalues (ht_sessions s)))"

section \<open>Who gets through\<close>

lemma oauth_authenticate_grant:
  assumes "oauth_authenticate env secret issuer tokens now s = Some t"
  shows "\<exists>g \<in> set (op_grants (os_persisted s)). og_issuer g = issuer \<and> og_access_hash g = oe_digest env secret \<and>
    now < og_access_expires_at g \<and> og_token_id g = tr_token_id t \<and> og_parent_hash g = tr_hash t"
  using assms
  by (auto simp: oauth_authenticate_def Let_def constant_time_eq_iff
      dest!: find_in_set delegation_parent_SomeD split: option.splits)

text \<open>A secret stands for a token: directly, or by a delegation of the issuer.\<close>

definition secret_of ::
    "(string \<Rightarrow> string) \<Rightarrow> oauth_env \<Rightarrow> string option \<Rightarrow> u64 \<Rightarrow> string \<Rightarrow> http_state \<Rightarrow> token_record \<Rightarrow> bool" where
  "secret_of sha env issuer now secret s t \<longleftrightarrow>
     tr_hash t = hash_secret sha secret \<or>
     (\<exists>i. issuer = Some i \<and>
        (\<exists>g \<in> set (op_grants (os_persisted (ht_oauth s))). og_issuer g = i \<and> og_access_hash g = oe_digest env secret \<and>
           now < og_access_expires_at g \<and> og_token_id g = tr_token_id t \<and> og_parent_hash g = tr_hash t))"

lemma token_authenticate_Inl: "token_authenticate sha secret now store = (Inl e, store') \<Longrightarrow> store' = store"
  by (auto simp: token_authenticate_def Let_def split: option.splits if_splits)

lemma authenticate_secret_Some:
  assumes "authenticate_secret sha env issuer now secret s = (Some t, s')"
  shows "\<exists>t0 \<in> set (ht_tokens s). token_is_active t0 now \<and> secret_of sha env issuer now secret s t0 \<and>
    tr_token_id t = tr_token_id t0 \<and> tr_network t = tr_network t0 \<and>
    ht_limiter s' = ht_limiter s \<and> ht_oauth s' = ht_oauth s"
proof (cases "token_authenticate sha secret now (ht_tokens s)")
  case (Pair r tokens)
  show ?thesis
  proof (cases r)
    case (Inl e)
    with Pair assms obtain i where i: "issuer = Some i" "s' = s\<lparr>ht_tokens := tokens\<rparr>"
      "oauth_authenticate env secret i tokens now (ht_oauth s) = Some t"
      by (auto simp: authenticate_secret_def split: option.splits)
    have "tokens = ht_tokens s" using token_authenticate_Inl Pair Inl by blast
    then have "t \<in> set (ht_tokens s)" "token_is_active t now"
      using i(3) delegation_parent_SomeD by (auto simp: oauth_authenticate_def Let_def split: option.splits)
    moreover have "secret_of sha env issuer now secret s t"
      using oauth_authenticate_grant [OF i(3)] i(1) by (auto simp: secret_of_def)
    ultimately show ?thesis using i(2) by auto
  next
    case (Inr t')
    with Pair assms have t: "t = t'" "s' = s\<lparr>ht_tokens := tokens\<rparr>" by (simp_all add: authenticate_secret_def)
    from token_authenticate_Inr [of sha secret now "ht_tokens s" t' tokens] Pair Inr
    obtain t0 where "t0 \<in> set (ht_tokens s)" "tr_hash t0 = hash_secret sha secret" "token_is_active t0 now"
      "t' = t0\<lparr>tr_last_used_at_ms := Some now\<rparr>" by auto
    with t show ?thesis by (intro bexI [of _ t0]) (auto simp: secret_of_def)
  qed
qed

lemma gate_Inr:
  assumes "http_gate sha env peer hs now s = (Inr t, s')"
  obtains secret s1 where "bearer_secret hs = Some secret"
    "authenticate_secret sha env (oauth_issuer s peer hs) now secret s = (Some t, s1)"
    "is_loopback_host s peer hs \<or> via_tunnel s peer hs" "origin_ok s hs"
    "via_tunnel s peer hs \<Longrightarrow> tr_network t" "via_tunnel s peer hs \<Longrightarrow> \<not> is_locked_out (limit_source peer hs) now (ht_limiter s)"
    "via_tunnel s peer hs \<Longrightarrow>
       fst (allow_request (tr_token_id t) now (record_auth_success (limit_source peer hs) (ht_limiter s1)))"
proof -
  have pre: "is_loopback_host s peer hs \<or> via_tunnel s peer hs" "origin_ok s hs"
    "via_tunnel s peer hs \<Longrightarrow> \<not> is_locked_out (limit_source peer hs) now (ht_limiter s)"
    using assms unfolding http_gate_def Let_def by (auto split: if_splits)
  obtain secret where secret: "bearer_secret hs = Some secret"
    using assms pre unfolding http_gate_def Let_def by (cases "bearer_secret hs") (auto split: if_splits)
  obtain found s1 where a: "authenticate_secret sha env (oauth_issuer s peer hs) now secret s = (found, s1)" by fastforce
  have post: "found = Some t \<and> (via_tunnel s peer hs \<longrightarrow> tr_network t \<and>
      fst (allow_request (tr_token_id t) now (record_auth_success (limit_source peer hs) (ht_limiter s1))))"
    using assms pre secret a unfolding http_gate_def Let_def
    by (auto split: if_splits option.splits prod.splits)
  show ?thesis by (rule that) (use secret a pre post in auto)
qed


definition gate_token :: token_record where
  "gate_token = demo_token\<lparr>tr_hash := hash_secret (\<lambda>s. s) ''magi_mcp_x''\<rparr>"

definition gate_state :: http_state where
  "gate_state =
     \<lparr>ht_tokens = [gate_token], ht_oauth = demo_granted,
      ht_config = \<lparr>hg_allowed_hosts = [''localhost''], hg_allowed_origins = []\<rparr>,
      ht_tunnel_hosts = [''h''], ht_public_hosts = [], ht_limiter = rate_limiter_new, ht_sessions = []\<rparr>"

definition gate_headers :: http_headers where
  "gate_headers = [(''host'', ''h''), (''authorization'', ''bearer magi_mcp_x'')]"

lemma gate_trim: "str_trim ''h'' = ''h''" "str_trim ''magi_mcp_x'' = ''magi_mcp_x''"
  by (simp_all add: str_trim_def utf8_whitespace_def strip_prefixes.simps)

lemma gate_run: "\<exists>t s'. http_gate (\<lambda>s. s) demo_oauth_env None gate_headers 5 gate_state = (Inr t, s') \<and> tr_token_id t = ''t''"
proof -
  have host: "request_host gate_headers = Some ''h''"
    by (simp add: request_host_def header_str_def gate_headers_def visible_ascii_def host_name_def gate_trim
        ascii_lower_def less_eq_char_def Let_def)
  have tunnel: "via_tunnel gate_state None gate_headers" "\<not> is_loopback_host gate_state None gate_headers"
    by (simp_all add: via_tunnel_def via_network_host_def is_loopback_host_def host host_in_def gate_state_def
        remote_peer_def eq_ignore_case_def ascii_lower_def less_eq_char_def)
  have secret: "bearer_secret gate_headers = Some ''magi_mcp_x''"
    by (simp add: bearer_secret_def header_str_def gate_headers_def visible_ascii_def eq_ignore_case_def
        ascii_lower_def less_eq_char_def gate_trim Let_def)
  have auth: "token_authenticate (\<lambda>s. s) ''magi_mcp_x'' 5 [gate_token] =
      (Inr (gate_token\<lparr>tr_last_used_at_ms := Some 5\<rparr>), [gate_token\<lparr>tr_last_used_at_ms := Some 5\<rparr>])"
    by (simp add: token_authenticate_def token_prefix_def constant_time_eq_iff gate_token_def demo_token_def
        token_is_active_def Let_def)
  have state: "ht_tokens gate_state = [gate_token]" "ht_limiter gate_state = rate_limiter_new"
    by (simp_all add: gate_state_def)
  have a: "authenticate_secret (\<lambda>s. s) demo_oauth_env issuer 5 ''magi_mcp_x'' gate_state =
      (Some (gate_token\<lparr>tr_last_used_at_ms := Some 5\<rparr>),
       gate_state\<lparr>ht_tokens := [gate_token\<lparr>tr_last_used_at_ms := Some 5\<rparr>]\<rparr>)" for issuer
    by (simp add: authenticate_secret_def auth state)
  have fields: "tr_network gate_token" "tr_token_id gate_token = ''t''"
    by (simp_all add: gate_token_def demo_token_def)
  have origin: "origin_ok gate_state gate_headers" by (simp add: origin_ok_def gate_headers_def)
  have limiter: "\<not> is_locked_out source 5 rate_limiter_new"
    "record_auth_success source rate_limiter_new = rate_limiter_new" for source
    by (simp_all add: is_locked_out_def record_auth_success_def rate_limiter_new_def)
  have "fst (allow_request ''t'' 5 rate_limiter_new)"
    by (simp add: allow_request_def rate_limiter_new_def max_tracked_keys_def entry_or_default_def bucket_default_def
        prune_bucket_def prune_events_def max_requests_per_window_def Let_def)
  then show ?thesis
    by (cases "allow_request ''t'' 5 rate_limiter_new")
       (simp add: http_gate_def tunnel secret origin a fields limiter state Let_def)
qed


section \<open>Revocation\<close>

lemma update_token_set:
  assumes "distinct (map tr_token_id store)" "t \<in> set (update_token i f store)" "tr_token_id t = i"
    "\<forall>t. tr_token_id (f t) = tr_token_id t"
  shows "\<exists>t0. t = f t0"
  using assms by (induction store) (auto split: if_splits)

lemma mark_revoked_inactive: "\<not> token_is_active (mark_revoked when t) now"
  by (simp add: mark_revoked_def token_is_active_def)



end
