(* ===== verification/CommandScan.thy ===== *)
theory CommandScan
  imports HookProtocol
begin

text \<open>
  The scanner that tells whether a shell command may write
  (\<open>magi-permissions/src/lib.rs\<close>): redirections, the commands of a line, their words, the
  programs known to write, nested scripts, downloads and git.

  A command is the list of its characters (UTF-8 encodings).  The state of a loop over the
  characters (\<open>escaped\<close>, the open quote, the token begun) is the arguments of a recursion
  over the rest of them; an index that moves over a list is the rest of the list.  The
  default dialect is the one of a build for a system other than Windows.
\<close>

section \<open>Dialects and characters\<close>

datatype shell_dialect = Posix | PowerShell

abbreviation backslash :: uchar where "backslash \<equiv> [CHR 0x5C]"
abbreviation backtick :: uchar where "backtick \<equiv> [CHR 0x60]"
abbreviation single_quote :: uchar where "single_quote \<equiv> [CHR 0x27]"
abbreviation double_quote :: uchar where "double_quote \<equiv> [CHR 0x22]"
abbreviation newline :: uchar where "newline \<equiv> [CHR 0x0A]"

definition escape_char :: "shell_dialect \<Rightarrow> uchar" where
  "escape_char d = (case d of Posix \<Rightarrow> backslash | PowerShell \<Rightarrow> backtick)"

definition shell_dialect_of :: "string \<Rightarrow> shell_dialect" where
  "shell_dialect_of shell =
     (let s = ascii_lower (str_trim shell)
      in if str_contains s ''powershell'' \<or> suffix ''pwsh'' s \<or> suffix ''pwsh.exe'' s then PowerShell else Posix)"

definition word_end :: "uchar \<Rightarrow> bool" where
  "word_end c \<longleftrightarrow> is_space c \<or> c \<in> {'';'', ''|'', ''&'', ''('', '')''}"

section \<open>Redirections\<close>

definition redirection_word_boundary :: "uchar list \<Rightarrow> bool" where
  "redirection_word_boundary cs = (case cs of [] \<Rightarrow> True | c # _ \<Rightarrow> word_end c)"

definition redirection_target_is_null_device :: "string \<Rightarrow> shell_dialect \<Rightarrow> bool" where
  "redirection_target_is_null_device target d =
     (let t = trim_matches [CHR 0x22, CHR 0x27] target
      in case d of Posix \<Rightarrow> t = ''/dev/null'' | PowerShell \<Rightarrow> eq_ignore_case t ''$null'')"

definition is_fd_char :: "uchar \<Rightarrow> bool" where
  "is_fd_char c \<longleftrightarrow> (\<exists>b. c = [b] \<and> (is_digit b \<or> b = CHR ''-''))"

lemma is_fd_char_code [code]: "is_fd_char c = (case c of [b] \<Rightarrow> is_digit b \<or> b = CHR ''-'' | _ \<Rightarrow> False)"
  by (auto simp: is_fd_char_def split: list.splits)

text \<open>\<open>cs\<close> is what follows the \<open>>\<close>.\<close>

definition output_redirection_targets_safe_sink :: "uchar list \<Rightarrow> shell_dialect \<Rightarrow> bool" where
  "output_redirection_targets_safe_sink cs d =
     (let cs1 = (if cs \<noteq> [] \<and> hd cs \<in> {''>'', ''|''} then tl cs else cs);
          cs2 = dropWhile is_space cs1
      in if cs2 \<noteq> [] \<and> hd cs2 = ''&'' then
           takeWhile is_fd_char (tl cs2) \<noteq> [] \<and> redirection_word_boundary (dropWhile is_fd_char (tl cs2))
         else
           let target = takeWhile (\<lambda>c. \<not> word_end c) cs2
           in target \<noteq> [] \<and> redirection_target_is_null_device (concat target) d)"

fun unsafe_redirection_in :: "shell_dialect \<Rightarrow> bool \<Rightarrow> bool \<Rightarrow> bool \<Rightarrow> uchar list \<Rightarrow> bool" where
  "unsafe_redirection_in d single double escaped [] = False"
| "unsafe_redirection_in d single double escaped (c # cs) =
     (if escaped then unsafe_redirection_in d single double False cs
      else if c = backslash then unsafe_redirection_in d single double True cs
      else if c = single_quote \<and> \<not> double then unsafe_redirection_in d (\<not> single) double False cs
      else if c = double_quote \<and> \<not> single then unsafe_redirection_in d single (\<not> double) False cs
      else if c = ''>'' \<and> \<not> single \<and> \<not> double then
        if output_redirection_targets_safe_sink cs d then unsafe_redirection_in d single double False cs
        else True
      else unsafe_redirection_in d single double False cs)"

definition shell_command_has_unsafe_unquoted_output_redirection :: "string \<Rightarrow> shell_dialect \<Rightarrow> bool" where
  "shell_command_has_unsafe_unquoted_output_redirection command d =
     unsafe_redirection_in d False False False (str_chars command)"

section \<open>The commands of a line and their words\<close>

fun segments_from :: "bool \<Rightarrow> uchar option \<Rightarrow> string \<Rightarrow> uchar list \<Rightarrow> string list" where
  "segments_from escaped quote segment [] = (if is_blank segment then [] else [segment])"
| "segments_from escaped quote segment (c # cs) =
     (if escaped then segments_from False quote (segment @ c) cs
      else if c = backslash \<and> quote \<noteq> Some single_quote then segments_from True quote (segment @ c) cs
      else case quote of
        Some q \<Rightarrow> segments_from False (if c = q then None else Some q) (segment @ c) cs
      | None \<Rightarrow>
          if c \<in> {single_quote, double_quote} then segments_from False (Some c) (segment @ c) cs
          else if c \<in> {'';'', ''|'', ''&'', newline} then
            if is_blank segment then segments_from False None segment cs
            else segment # segments_from False None [] cs
          else segments_from False None (segment @ c) cs)"

definition shell_command_segments :: "string \<Rightarrow> string list" where
  "shell_command_segments command = segments_from False None [] (str_chars command)"

definition push_shell_command_token :: "string \<Rightarrow> string list" where
  "push_shell_command_token token =
     (let normalized = ascii_lower (str_trim (trim_matches ''[]{},'' token))
      in if normalized = [] then [] else [normalized])"

fun tokens_from :: "shell_dialect \<Rightarrow> bool \<Rightarrow> uchar option \<Rightarrow> string \<Rightarrow> uchar list \<Rightarrow> string list" where
  "tokens_from d escaped quote token [] =
     push_shell_command_token (if escaped then token @ escape_char d else token)"
| "tokens_from d escaped quote token (c # cs) =
     (if escaped then tokens_from d False quote (token @ c) cs
      else if c = escape_char d \<and> quote \<noteq> Some single_quote then tokens_from d True quote token cs
      else case quote of
        Some q \<Rightarrow> if c = q then tokens_from d False None token cs else tokens_from d False (Some q) (token @ c) cs
      | None \<Rightarrow>
          if c \<in> {single_quote, double_quote} \<or> c = backtick \<and> d \<noteq> PowerShell
          then tokens_from d False (Some c) token cs
          else if word_end c then push_shell_command_token token @ tokens_from d False None [] cs
          else tokens_from d False None (token @ c) cs)"

definition shell_command_tokens :: "string \<Rightarrow> shell_dialect \<Rightarrow> string list" where
  "shell_command_tokens command d = tokens_from d False None [] (str_chars command)"

text \<open>The part behind the last of some characters (\<open>rsplit(..).next()\<close>).\<close>

definition last_part :: "string \<Rightarrow> string \<Rightarrow> string" where
  "last_part seps s = rev (takeWhile (\<lambda>c. c \<notin> set seps) (rev s))"

definition shell_command_basename :: "string \<Rightarrow> string" where
  "shell_command_basename command = last_part [CHR ''/'', CHR 0x5C] command"

definition command_prefix_words :: "string list" where
  "command_prefix_words =
     [''if'', ''then'', ''do'', ''else'', ''elif'', ''time'', ''command'', ''builtin'', ''exec'', ''sudo'', ''env'']"

fun shell_command_token_index :: "string list \<Rightarrow> nat option" where
  "shell_command_token_index [] = None"
| "shell_command_token_index (t # ts) =
     (if t \<in> set command_prefix_words \<or> CHR ''='' \<in> set t \<and> \<not> prefix ''/'' t \<and> \<not> prefix ''./'' t
      then map_option Suc (shell_command_token_index ts)
      else Some 0)"

section \<open>Programs that write\<close>

definition common_write_words :: "string list" where
  "common_write_words =
     [''rm'', ''rmdir'', ''mv'', ''cp'', ''mkdir'', ''touch'', ''ln'', ''chmod'', ''chown'', ''chgrp'', ''truncate'',
      ''dd'', ''tee'', ''install'', ''rsync'', ''scp'']"

definition powershell_write_words :: "string list" where
  "powershell_write_words =
     [''remove-item'', ''set-content'', ''add-content'', ''clear-content'', ''copy-item'', ''move-item'',
      ''rename-item'', ''new-item'', ''out-file'']"

definition shell_token_is_write_indicator :: "string \<Rightarrow> shell_dialect \<Rightarrow> bool" where
  "shell_token_is_write_indicator token d \<longleftrightarrow>
     token \<in> set common_write_words \<or>
     (case d of Posix \<Rightarrow> False | PowerShell \<Rightarrow> token \<in> set powershell_write_words)"

fun shell_inline_script :: "string list \<Rightarrow> string list \<Rightarrow> string option" where
  "shell_inline_script [] flags = None"
| "shell_inline_script (a # as) flags =
     (if list_ex (eq_ignore_case a) flags then
        (case as of [] \<Rightarrow> shell_inline_script as flags | script # _ \<Rightarrow> Some script)
      else shell_inline_script as flags)"

definition xargs_value_options :: "string list" where
  "xargs_value_options =
     [''-a'', ''--arg-file'', ''-e'', ''-E'', ''-i'', ''-I'', ''-l'', ''-L'', ''-n'', ''--max-args'', ''-p'', ''-P'',
      ''--max-procs'', ''-s'', ''--max-chars'']"

text \<open>What \<open>xargs\<close> runs: the arguments from the first one that is no option.\<close>

fun xargs_command :: "string list \<Rightarrow> string list option" where
  "xargs_command [] = None"
| "xargs_command (a # as) =
     (if a \<in> set xargs_value_options then xargs_command (drop 1 as)
      else if prefix ''-'' a then xargs_command as
      else Some (a # as))"

definition command_invocation_is_information_only :: "string list \<Rightarrow> bool" where
  "command_invocation_is_information_only as \<longleftrightarrow>
     as = [] \<or> list_ex (\<lambda>a. a \<in> {''--version'', ''-v'', ''-V'', ''--help'', ''-h'', ''/?''}) as"

definition cargo_read_subcommands :: "string list" where
  "cargo_read_subcommands = [''help'', ''locate-project'', ''metadata'', ''pkgid'', ''search'', ''tree'', ''version'']"

definition cargo_invocation_has_write_indicator :: "string list \<Rightarrow> bool" where
  "cargo_invocation_has_write_indicator as =
     (case find (\<lambda>a. \<not> prefix ''-'' a) as of
        None \<Rightarrow> False
      | Some sub \<Rightarrow> sub \<notin> set cargo_read_subcommands)"

section \<open>Downloads\<close>

fun curl_tokens_write_output :: "string list \<Rightarrow> bool" where
  "curl_tokens_write_output [] = False"
| "curl_tokens_write_output (t # ts) =
     (if t \<in> {''-o'', ''--output''} then
        (case ts of
           [] \<Rightarrow> True
         | v # vs \<Rightarrow> if v = ''-'' then curl_tokens_write_output vs else True)
      else if prefix ''--output='' t then t \<noteq> ''--output=-''
      else if prefix ''-'' t \<and> \<not> prefix ''--'' t \<and> 2 < length t \<and> CHR ''o'' \<in> set t \<and> t \<noteq> ''-o-'' then True
      else if prefix ''-o'' t \<and> t \<noteq> ''-o-'' then True
      else if t \<in> {''--remote-name'', ''--remote-name-all''} then True
      else curl_tokens_write_output ts)"

fun wget_writes_from :: "bool \<Rightarrow> bool \<Rightarrow> string list \<Rightarrow> bool" where
  "wget_writes_from has_stdout has_spider [] = (\<not> has_stdout \<and> \<not> has_spider)"
| "wget_writes_from has_stdout has_spider (t # ts) =
     (if t = ''--spider'' then wget_writes_from has_stdout True ts
      else if t \<in> {''-o'', ''--output-document''} then
        (case ts of
           [] \<Rightarrow> True
         | v # vs \<Rightarrow> if v = ''-'' then wget_writes_from True has_spider vs else True)
      else if t \<in> {''-o-'', ''--output-document=-''} then wget_writes_from True has_spider ts
      else if prefix ''--output-document='' t then True
      else if str_contains t ''o-'' then wget_writes_from True has_spider ts
      else wget_writes_from has_stdout has_spider ts)"

definition wget_tokens_write_output :: "string list \<Rightarrow> bool" where
  "wget_tokens_write_output = wget_writes_from False False"

text \<open>The test of one command of the line, by its words.\<close>

definition downloads_file :: "string list \<Rightarrow> bool" where
  "downloads_file tokens =
     (case shell_command_token_index tokens of
        None \<Rightarrow> False
      | Some i \<Rightarrow>
          let name = shell_command_basename (tokens ! i) in
          if name = ''curl'' then curl_tokens_write_output (drop (i + 1) tokens)
          else if name = ''wget'' then wget_tokens_write_output (drop (i + 1) tokens)
          else False)"

definition shell_command_includes_download_output_write :: "string \<Rightarrow> shell_dialect \<Rightarrow> bool" where
  "shell_command_includes_download_output_write command d =
     list_ex (\<lambda>segment. downloads_file (shell_command_tokens segment d)) (shell_command_segments command)"

section \<open>Git\<close>

fun git_subcommand_and_arguments :: "string list \<Rightarrow> (string \<times> string list) option" where
  "git_subcommand_and_arguments [] = None"
| "git_subcommand_and_arguments (t # ts) =
     (if t \<in> {''-c'', ''-C'', ''--git-dir'', ''--work-tree''} then git_subcommand_and_arguments (drop 1 ts)
      else if prefix ''--git-dir='' t \<or> prefix ''--work-tree='' t then git_subcommand_and_arguments ts
      else if prefix ''-'' t then git_subcommand_and_arguments ts
      else Some (t, ts))"

definition git_read_subcommands :: "string list" where
  "git_read_subcommands =
     [''status'', ''diff'', ''log'', ''show'', ''rev-parse'', ''ls-files'', ''grep'', ''describe'', ''merge-base'',
      ''name-rev'', ''rev-list'', ''shortlog'', ''reflog'', ''ls-tree'', ''cat-file'', ''for-each-ref'',
      ''check-ignore'', ''count-objects'']"

definition shell_token_is_redirection :: "string \<Rightarrow> bool" where
  "shell_token_is_redirection token =
     (case dropWhile is_digit token of [] \<Rightarrow> False | c # _ \<Rightarrow> c = CHR ''>'' \<or> c = CHR ''<'')"

definition git_remote_invocation_is_read_only :: "string list \<Rightarrow> bool" where
  "git_remote_invocation_is_read_only as =
     (case find (\<lambda>a. a \<notin> {''-v'', ''--verbose''} \<and> \<not> shell_token_is_redirection a) as of
        None \<Rightarrow> True
      | Some a \<Rightarrow> a \<in> {''get-url'', ''show''})"

definition git_config_read_options :: "string list" where
  "git_config_read_options =
     [''--get'', ''--get-all'', ''--get-regexp'', ''--get-urlmatch'', ''--list'', ''-l'', ''--show-origin'',
      ''--show-scope'']"

definition git_config_write_options :: "string list" where
  "git_config_write_options =
     [''--add'', ''--replace-all'', ''--unset'', ''--unset-all'', ''--rename-section'', ''--remove-section'']"

definition git_config_invocation_is_read_only :: "string list \<Rightarrow> bool" where
  "git_config_invocation_is_read_only as \<longleftrightarrow>
     list_ex (\<lambda>a. a \<in> set git_config_read_options) as \<and> \<not> list_ex (\<lambda>a. a \<in> set git_config_write_options) as"

definition first_is :: "string list \<Rightarrow> string list \<Rightarrow> bool" where
  "first_is names as = (case as of [] \<Rightarrow> False | a # _ \<Rightarrow> a \<in> set names)"

definition git_invocation_is_read_only :: "string list \<Rightarrow> bool" where
  "git_invocation_is_read_only tokens =
     (case git_subcommand_and_arguments tokens of
        None \<Rightarrow> True
      | Some (sub, as) \<Rightarrow>
          if sub \<in> set git_read_subcommands then True
          else if sub = ''remote'' then git_remote_invocation_is_read_only as
          else if sub = ''worktree'' then first_is [''list''] as
          else if sub = ''stash'' then first_is [''list'', ''show''] as
          else if sub = ''submodule'' then first_is [''status'', ''summary''] as
          else if sub = ''config'' then git_config_invocation_is_read_only as
          else False)"

definition mutates_repository :: "string list \<Rightarrow> bool" where
  "mutates_repository tokens =
     (case shell_command_token_index tokens of
        None \<Rightarrow> False
      | Some i \<Rightarrow>
          shell_command_basename (tokens ! i) = ''git'' \<and> \<not> git_invocation_is_read_only (drop (i + 1) tokens))"

definition shell_command_includes_mutating_git :: "string \<Rightarrow> shell_dialect \<Rightarrow> bool" where
  "shell_command_includes_mutating_git command d =
     list_ex (\<lambda>segment. mutates_repository (shell_command_tokens segment d)) (shell_command_segments command)"

section \<open>The whole command, with the scripts nested in it\<close>

definition posix_shells :: "string list" where
  "posix_shells = [''sh'', ''bash'', ''zsh'', ''dash'', ''ksh'', ''fish'']"

definition powershell_shells :: "string list" where
  "powershell_shells = [''powershell'', ''powershell.exe'', ''pwsh'', ''pwsh.exe'']"

definition interpreters :: "string list" where
  "interpreters = [''node'', ''node.exe'', ''python'', ''python3'', ''python.exe'', ''py'', ''ruby'', ''ruby.exe'']"

definition build_tools :: "string list" where
  "build_tools = [''make'', ''gmake'', ''ninja'', ''cmake'', ''rustc'', ''gcc'', ''clang'', ''cl'', ''cl.exe'']"

text \<open>The programs whose arguments alone decide.\<close>

definition plain_program_writes :: "string \<Rightarrow> string list \<Rightarrow> bool" where
  "plain_program_writes command as =
     (if command = ''find'' then
        list_ex (\<lambda>a. a \<in> {''-delete'', ''-exec'', ''-execdir'', ''-ok'', ''-okdir''}) as
      else if command = ''sed'' then
        list_ex (\<lambda>a. a = ''-i'' \<or> prefix ''-i'' a \<or> prefix ''--in-place'' a) as
      else if command = ''perl'' then
        list_ex (\<lambda>a. a = ''-i'' \<or> prefix ''-i'' a \<or> a \<in> {''-e'', ''-E''}) as
      else if command \<in> set interpreters then \<not> command_invocation_is_information_only as
      else if command \<in> {''cargo'', ''cargo.exe''} then cargo_invocation_has_write_indicator as
      else if command \<in> set build_tools then \<not> command_invocation_is_information_only as
      else False)"

lemma xargs_command_length: "xargs_command as = Some ts \<Longrightarrow> length ts \<le> length as"
  by (induction as rule: xargs_command.induct) (auto split: if_splits)

function (sequential)
  write_indicator_at :: "string \<Rightarrow> shell_dialect \<Rightarrow> nat \<Rightarrow> bool"
and
  includes_write_command_at :: "string \<Rightarrow> shell_dialect \<Rightarrow> nat \<Rightarrow> bool"
and
  shell_invocation_has_write_indicator :: "string list \<Rightarrow> shell_dialect \<Rightarrow> nat \<Rightarrow> bool"
where
  "write_indicator_at command d depth =
     (if shell_command_has_unsafe_unquoted_output_redirection command d then True
      else if includes_write_command_at command d depth then True
      else if shell_command_includes_download_output_write command d then True
      else shell_command_includes_mutating_git command d)"
| "includes_write_command_at command d depth =
     list_ex (\<lambda>segment.
       case shell_command_token_index (shell_command_tokens segment d) of
         None \<Rightarrow> False
       | Some i \<Rightarrow> shell_invocation_has_write_indicator (drop i (shell_command_tokens segment d)) d depth)
       (shell_command_segments command)"
| "shell_invocation_has_write_indicator [] d depth = False"
| "shell_invocation_has_write_indicator (t # as) d depth =
     (if shell_token_is_write_indicator (shell_command_basename t) d then True
      else if shell_command_basename t \<in> set posix_shells then
        (case shell_inline_script as [''-c'', ''--command''] of
           None \<Rightarrow> False
         | Some script \<Rightarrow> if 4 \<le> depth then True else write_indicator_at script Posix (depth + 1))
      else if shell_command_basename t \<in> set powershell_shells then
        if list_ex (\<lambda>a. a \<in> {''-encodedcommand'', ''-enc'', ''-file'', ''-f''}) as then True
        else (case shell_inline_script as [''-command'', ''-c''] of
           None \<Rightarrow> False
         | Some script \<Rightarrow> if 4 \<le> depth then True else write_indicator_at script PowerShell (depth + 1))
      else if shell_command_basename t = ''xargs'' then
        (case xargs_command as of
           None \<Rightarrow> False
         | Some command \<Rightarrow> shell_invocation_has_write_indicator command d (depth + 1))
      else plain_program_writes (shell_command_basename t) as)"
  by pat_completeness auto

text \<open>A nested script is one level deeper, of which there are four; \<open>xargs\<close> runs fewer words.\<close>

termination
  by (relation "measures
        [case_sum (\<lambda>(c, d, k). 5 - k) (case_sum (\<lambda>(c, d, k). 5 - k) (\<lambda>(ts, d, k). 5 - k)),
         case_sum (\<lambda>_. 2) (case_sum (\<lambda>_. 1) (\<lambda>_. 0)),
         case_sum (\<lambda>_. 0) (case_sum (\<lambda>_. 0) (\<lambda>(ts, d, k). length ts))]")
     (auto dest: xargs_command_length)

declare write_indicator_at.simps [simp del] includes_write_command_at.simps [simp del]

definition shell_command_has_write_indicator :: "string \<Rightarrow> shell_dialect \<Rightarrow> bool" where
  "shell_command_has_write_indicator command d = write_indicator_at command d 0"

end
