(* ===== verification/CommandLines.thy ===== *)
theory CommandLines
  imports CommandScan
begin

text \<open>
  What the scanner of theory \<open>CommandScan\<close> finds: on lines of plain words it judges every
  command of the line by itself, wherever it stands; and three lines it takes for harmless.
\<close>

section \<open>Plain words\<close>

definition plain_char :: "char \<Rightarrow> bool" where
  "plain_char c \<longleftrightarrow>
     33 \<le> (of_char c :: nat) \<and> (of_char c :: nat) < 127 \<and>
     c \<notin> {CHR '';'', CHR ''|'', CHR ''&'', CHR ''('', CHR '')'', CHR ''>'', CHR ''['', CHR '']'', CHR ''{'', CHR ''}'',
          CHR '','', CHR 0x22, CHR 0x27, CHR 0x5C, CHR 0x60}"

definition plain_word :: "string \<Rightarrow> bool" where
  "plain_word w \<longleftrightarrow> w \<noteq> [] \<and> list_all plain_char w"

definition plain_command :: "string list \<Rightarrow> bool" where
  "plain_command ws \<longleftrightarrow> ws \<noteq> [] \<and> list_all plain_word ws"

definition command_text :: "string list \<Rightarrow> string" where
  "command_text = str_join '' ''"

lemma str_chars_ascii:
  assumes "list_all (\<lambda>c. (of_char c :: nat) < 128) s"
  shows "str_chars s = map (\<lambda>c. [c]) s"
  using assms by (induction s) (auto simp: is_continuation_def split: list.splits)

lemma whitespace_bytes:
  "list_all (list_all (\<lambda>c. (of_char c :: nat) < 33 \<or> 127 \<le> (of_char c :: nat))) utf8_whitespace"
  by (simp add: utf8_whitespace_def)

lemma plain_char_not_space: "plain_char c \<Longrightarrow> \<not> is_space [c]"
  using whitespace_bytes by (fastforce simp: is_space_def plain_char_def list_all_iff)

lemma space_is_end: "word_end '' ''"
  by code_simp

lemma plain_char_not_end: "plain_char c \<Longrightarrow> \<not> word_end [c]"
  using plain_char_not_space by (auto simp: word_end_def plain_char_def)

lemma strip_prefixes_foreign:
  assumes "s = [] \<or> hd s \<notin> \<Union> (set ` set ws)"
  shows "strip_prefixes ws s = s"
proof -
  have "find (\<lambda>w. w \<noteq> [] \<and> prefix w s) ws = None"
    using assms by (auto simp: find_None_iff prefix_def neq_Nil_conv)
  then show ?thesis by (subst strip_prefixes.simps) simp
qed

lemma plain_char_foreign: "plain_char c \<Longrightarrow> c \<notin> \<Union> (set ` set utf8_whitespace)"
  using whitespace_bytes by (fastforce simp: plain_char_def list_all_iff)

lemma str_trim_plain: "list_all plain_char s \<Longrightarrow> str_trim s = s"
proof -
  assume s: "list_all plain_char s"
  have a: "strip_prefixes utf8_whitespace s = s"
    by (rule strip_prefixes_foreign) (use s plain_char_foreign in \<open>cases s; auto\<close>)
  have "rev s = [] \<or> hd (rev s) \<notin> \<Union> (set ` set (map rev utf8_whitespace))"
    using s plain_char_foreign by (cases s rule: rev_cases) auto
  then show ?thesis by (simp add: str_trim_def a strip_prefixes_foreign)
qed

lemma trim_matches_none: "set s \<inter> set cs = {} \<Longrightarrow> trim_matches cs s = s"
proof -
  assume disj: "set s \<inter> set cs = {}"
  have drop: "set u \<inter> set cs = {} \<Longrightarrow> dropWhile (\<lambda>c. c \<in> set cs) u = u" for u by (cases u) auto
  have "set (rev s) \<inter> set cs = {}" using disj by simp
  then show ?thesis by (simp only: trim_matches_def drop disj rev_rev_ident)
qed

lemma push_plain: "plain_word w \<Longrightarrow> push_shell_command_token w = [ascii_lower w]"
proof -
  assume w: "plain_word w"
  have "set w \<inter> set ''[]{},'' = {}" using w by (auto simp: plain_word_def list_all_iff plain_char_def)
  then have "trim_matches ''[]{},'' w = w" by (rule trim_matches_none)
  moreover have "str_trim w = w" using w str_trim_plain by (simp add: plain_word_def)
  moreover have "ascii_lower w \<noteq> []" using w by (simp add: ascii_lower_def plain_word_def)
  ultimately show ?thesis by (simp add: push_shell_command_token_def Let_def)
qed

lemma push_Nil: "push_shell_command_token [] = []"
  by (simp add: push_shell_command_token_def trim_matches_def str_trim_def strip_prefixes_foreign ascii_lower_def)

section \<open>The words of a plain command\<close>

abbreviation bytes :: "string \<Rightarrow> uchar list" where "bytes \<equiv> map (\<lambda>c. [c])"

lemma tokens_plain:
  "list_all plain_char w \<Longrightarrow> tokens_from d False None t (bytes w @ cs) = tokens_from d False None (t @ w) cs"
proof (induction w arbitrary: t)
  case (Cons c w)
  then have c: "plain_char c" "list_all plain_char w" by auto
  then have "\<not> word_end [c]" "[c] \<noteq> escape_char d" "[c] \<notin> {single_quote, double_quote, backtick}"
    using plain_char_not_end by (auto simp: plain_char_def escape_char_def split: shell_dialect.splits)
  with Cons.IH [OF c(2)] show ?case by simp
qed simp

lemma tokens_command:
  "plain_command ws \<Longrightarrow> tokens_from d False None [] (bytes (command_text ws)) = map ascii_lower ws"
proof (induction ws rule: induct_list012)
  case (2 w)
  then have w: "plain_word w" by (simp add: plain_command_def)
  then have "tokens_from d False None [] (bytes w @ []) = push_shell_command_token w"
    by (subst tokens_plain) (auto simp: plain_word_def)
  with w push_plain show ?case by (simp add: command_text_def)
next
  case (3 w v ws)
  then have w: "plain_word w" and rest: "plain_command (v # ws)" by (auto simp: plain_command_def)
  have space: "word_end '' ''" "'' '' \<noteq> escape_char d" by (auto simp: space_is_end escape_char_def split: shell_dialect.splits)
  have "tokens_from d False None [] (bytes (command_text (w # v # ws))) =
      push_shell_command_token w @ tokens_from d False None [] (bytes (command_text (v # ws)))"
    using w space by (simp add: command_text_def tokens_plain plain_word_def)
  with push_plain [OF w] "3.IH"(2) [OF rest] show ?case by simp
qed (simp add: plain_command_def)

lemma plain_ascii: "plain_char c \<Longrightarrow> (of_char c :: nat) < 128"
  by (simp add: plain_char_def)

lemma command_text_ascii: "plain_command ws \<Longrightarrow> list_all (\<lambda>c. (of_char c :: nat) < 128) (command_text ws)"
proof (induction ws rule: induct_list012)
  case (2 w)
  then show ?case using plain_ascii by (auto simp: plain_command_def plain_word_def command_text_def list_all_iff)
next
  case (3 w v ws)
  then have "plain_word w" "plain_command (v # ws)" by (auto simp: plain_command_def)
  then show ?case using "3.IH"(2) plain_ascii
    by (auto simp: plain_word_def command_text_def list_all_iff)
qed (simp add: plain_command_def)

lemma shell_command_tokens_plain: "plain_command ws \<Longrightarrow> shell_command_tokens (command_text ws) d = map ascii_lower ws"
  by (simp add: shell_command_tokens_def str_chars_ascii command_text_ascii tokens_command)

section \<open>The commands of a plain line\<close>

definition command_separator :: "char \<Rightarrow> bool" where
  "command_separator c \<longleftrightarrow> c \<in> {CHR '';'', CHR ''|'', CHR ''&'', CHR 0x0A}"

definition line_text :: "char \<Rightarrow> string list list \<Rightarrow> string" where
  "line_text sep commands = str_join [sep] (map command_text commands)"

definition inner_char :: "char \<Rightarrow> bool" where
  "inner_char c \<longleftrightarrow> plain_char c \<or> c = CHR '' ''"

lemma command_text_chars: "plain_command ws \<Longrightarrow> list_all inner_char (command_text ws)"
proof (induction ws rule: induct_list012)
  case (3 w v ws)
  then have "plain_word w" "plain_command (v # ws)" by (auto simp: plain_command_def)
  then show ?case using "3.IH"(2)
    by (auto simp: plain_word_def command_text_def list_all_iff inner_char_def)
qed (auto simp: plain_command_def plain_word_def command_text_def list_all_iff inner_char_def)

lemma command_text_not_blank: "plain_command ws \<Longrightarrow> \<not> is_blank (command_text ws)"
proof -
  assume "plain_command ws"
  then obtain w ws' where ws: "ws = w # ws'" "plain_word w" by (cases ws) (auto simp: plain_command_def)
  then obtain c w' where c: "w = c # w'" "plain_char c" by (cases w) (auto simp: plain_word_def)
  have "c \<in> set (command_text ws)" using ws(1) c(1) by (cases ws') (auto simp: command_text_def)
  then show ?thesis using plain_char_foreign [OF c(2)] by (rule not_blank_char)
qed

lemma special_not_inner:
  "\<not> inner_char (CHR 0x5C)" "\<not> inner_char (CHR 0x27)" "\<not> inner_char (CHR 0x22)" "\<not> inner_char (CHR '';'')"
  "\<not> inner_char (CHR ''|'')" "\<not> inner_char (CHR ''&'')" "\<not> inner_char (CHR 0x0A)" "\<not> inner_char (CHR ''>'')"
  by (simp_all add: inner_char_def plain_char_def)

lemma inner_char_kept:
  assumes "inner_char c"
  shows "c \<noteq> CHR 0x5C" "c \<noteq> CHR 0x27" "c \<noteq> CHR 0x22" "c \<noteq> CHR '';''" "c \<noteq> CHR ''|''" "c \<noteq> CHR ''&''"
    "c \<noteq> CHR 0x0A" "c \<noteq> CHR ''>''"
  using assms special_not_inner by metis+

lemma segments_inner:
  "list_all inner_char w \<Longrightarrow> segments_from False None t (bytes w @ cs) = segments_from False None (t @ w) cs"
  by (induction w arbitrary: t) (simp_all add: inner_char_kept)

lemma separator_segment:
  "command_separator c \<Longrightarrow> segments_from False None t ([c] # cs) =
     (if is_blank t then segments_from False None t cs else t # segments_from False None [] cs)"
  by (auto simp: command_separator_def)

lemma segments_line:
  assumes "command_separator sep" "list_all plain_command commands"
  shows "segments_from False None [] (bytes (line_text sep commands)) = map command_text commands"
  using assms(2)
proof (induction commands rule: induct_list012)
  case (2 ws)
  then have ws: "plain_command ws" by simp
  then have "segments_from False None [] (bytes (command_text ws) @ []) = [command_text ws]"
    by (subst segments_inner) (auto simp: command_text_chars command_text_not_blank)
  then show ?case by (simp add: line_text_def)
next
  case (3 ws vs rest)
  then have ws: "plain_command ws" and "list_all plain_command (vs # rest)" by auto
  then have IH: "segments_from False None [] (bytes (line_text sep (vs # rest))) = map command_text (vs # rest)"
    using "3.IH"(2) by blast
  have "segments_from False None [] (bytes (line_text sep (ws # vs # rest))) =
      segments_from False None (command_text ws) ([sep] # bytes (line_text sep (vs # rest)))"
    using ws by (simp add: line_text_def segments_inner command_text_chars del: segments_from.simps)
  then show ?case using IH ws assms(1)
    by (simp add: separator_segment command_text_not_blank del: segments_from.simps)
qed (simp add: line_text_def)

lemma line_text_chars:
  assumes "command_separator sep" "list_all plain_command commands"
  shows "list_all (\<lambda>c. inner_char c \<or> command_separator c) (line_text sep commands)"
  using assms(2)
proof (induction commands rule: induct_list012)
  case (2 ws)
  then show ?case using command_text_chars by (auto simp: line_text_def list_all_iff)
next
  case (3 ws vs rest)
  then show ?case using assms(1) command_text_chars [of ws] by (auto simp: line_text_def list_all_iff)
qed (simp add: line_text_def)

lemma line_text_ascii:
  assumes "command_separator sep" "list_all plain_command commands"
  shows "str_chars (line_text sep commands) = bytes (line_text sep commands)"
proof (rule str_chars_ascii)
  have "(of_char c :: nat) < 128" if "inner_char c \<or> command_separator c" for c
    using that by (auto simp: inner_char_def plain_char_def command_separator_def)
  with line_text_chars [OF assms] show "list_all (\<lambda>c. (of_char c :: nat) < 128) (line_text sep commands)"
    by (auto simp: list_all_iff)
qed

lemma no_redirection:
  "list_all (\<lambda>c. inner_char c \<or> command_separator c) s \<Longrightarrow> \<not> unsafe_redirection_in d False False False (bytes s)"
proof (induction s)
  case (Cons c s)
  from Cons.prems have "inner_char c \<or> command_separator c" by simp
  then have "[c] \<noteq> backslash" "[c] \<noteq> single_quote" "[c] \<noteq> double_quote" "[c] \<noteq> ''>''"
    using inner_char_kept [of c] by (auto simp: command_separator_def)
  with Cons show ?case by simp
qed simp

text \<open>What one command with lower case words does, by the tests of the source.\<close>

definition runs_writer :: "shell_dialect \<Rightarrow> string list \<Rightarrow> bool" where
  "runs_writer d ts =
     (case shell_command_token_index ts of
        None \<Rightarrow> False
      | Some i \<Rightarrow> shell_invocation_has_write_indicator (drop i ts) d 0)"

definition command_writes :: "shell_dialect \<Rightarrow> string list \<Rightarrow> bool" where
  "command_writes d ts \<longleftrightarrow> runs_writer d ts \<or> downloads_file ts \<or> mutates_repository ts"

lemma write_indicator_parts:
  "shell_command_has_write_indicator command d \<longleftrightarrow>
     shell_command_has_unsafe_unquoted_output_redirection command d \<or>
     list_ex (\<lambda>segment. command_writes d (shell_command_tokens segment d)) (shell_command_segments command)"
  unfolding shell_command_has_write_indicator_def write_indicator_at.simps includes_write_command_at.simps
    shell_command_includes_download_output_write_def shell_command_includes_mutating_git_def
    command_writes_def runs_writer_def list_ex_iff
  by auto

lemma scanned_line:
  assumes "command_separator sep" "list_all plain_command commands"
  shows "shell_command_has_write_indicator (line_text sep commands) d \<longleftrightarrow>
    list_ex (\<lambda>ws. command_writes d (map ascii_lower ws)) commands"
proof -
  have "shell_command_segments (line_text sep commands) = map command_text commands"
    using assms by (simp add: shell_command_segments_def line_text_ascii segments_line)
  moreover have "\<not> shell_command_has_unsafe_unquoted_output_redirection (line_text sep commands) d"
    using assms by (simp add: shell_command_has_unsafe_unquoted_output_redirection_def line_text_ascii
        line_text_chars no_redirection)
  ultimately show ?thesis using assms(2)
    by (auto simp: write_indicator_parts list_ex_iff list_all_iff shell_command_tokens_plain)
qed

text \<open>C16: On a line of plain words the scanner judges every command by itself: a line of commands
  separated by semicolons, pipes, ampersands or line breaks counts as writing exactly if one
  of its commands does, wherever it stands, in capitals or not, and behind whatever keywords
  and assignments.\<close>

theorem line_judged_by_its_commands:
  assumes "command_separator sep" "list_all plain_command commands"
  shows "shell_command_has_write_indicator (line_text sep commands) d \<longleftrightarrow>
    list_ex (\<lambda>ws. command_writes d (map ascii_lower ws)) commands"
  using assms by (rule scanned_line)

definition demo_line :: "string list list" where
  "demo_line = [[''ls'', ''src''], [''env'', ''A=1'', ''/bin/RM'', ''x'']]"

lemma demo_line_plain: "list_all plain_command demo_line" "command_separator (CHR '';'')"
  by (simp_all add: demo_line_def plain_command_def plain_word_def plain_char_def command_separator_def)

lemma line_judged_by_its_commands_witness:
  "shell_command_has_write_indicator (line_text (CHR '';'') demo_line) Posix"
proof -
  have "list_ex (\<lambda>ws. command_writes Posix (map ascii_lower ws)) demo_line"
    by code_simp
  with line_judged_by_its_commands [OF demo_line_plain(2,1), of Posix] show ?thesis by blast
qed

section \<open>Lines the scanner takes for harmless\<close>

text \<open>
  A backslash between single quotes is an ordinary character of the shell, but the search for
  redirections lets it hide the closing quote, and with it the redirection behind.
\<close>

lemma quoted_backslash_hides_redirection:
  "\<not> shell_command_has_write_indicator (''echo '' @ [CHR 0x27, CHR 0x5C, CHR 0x27] @ '' > out.txt'') Posix"
  by code_simp

text \<open>In PowerShell a backslash is always one, but it hides a redirection from the search.\<close>

lemma trailing_backslash_hides_redirection:
  "\<not> shell_command_has_write_indicator (''dir C:'' @ [CHR 0x5C] @ ''> out.txt'') PowerShell"
  by code_simp

text \<open>The words of a command substitution are taken for arguments.\<close>

lemma substituted_command_unseen:
  "\<not> shell_command_has_write_indicator ''echo $(rm -rf x)'' Posix"
  by code_simp

end
