(* ===== verification/PermissionEngine.thy ===== *)
theory PermissionEngine
  imports CommandLines TaskModel
begin

text \<open>
  The permission engine (\<open>magi-permissions/src/lib.rs\<close>): whether a tool, a path, a shell
  command or an action in the browser is allowed, denied or left to the user, by the policy
  of the task and the access profile.

  Paths are those of a Unix system; the parser of JSON texts is the argument \<open>parse\<close>; the
  texts of the reasons are constructors.
\<close>

section \<open>Requests, decisions, policies\<close>

datatype browser_action_class = Interact | Execute

datatype path_access_kind = ReadAccess | WriteAccess

datatype permission_request =
    ToolInvocation string bool
  | PathAccess string path_access_kind
  | ShellCommand string
  | BrowserAction browser_action_class

datatype permission_reason =
    ToolDenied string
  | ToolNotGranted string
  | ReadOnlyTool string
  | ToolNotAutomatic string
  | PathDenied string
  | PathNotGranted string
  | ReadOnlyPath string
  | PathOutsideWorkspace string
  | ReadOnlyShell
  | ShellNotAutomatic
  | ReadOnlyBrowser
  | ScriptNotAutomatic

datatype permission_decision = Allow | Deny permission_reason | NeedsApproval permission_reason

definition is_allow :: "permission_decision \<Rightarrow> bool" where
  "is_allow d = (d = Allow)"

definition is_deny :: "permission_decision \<Rightarrow> bool" where
  "is_deny d = (case d of Deny _ \<Rightarrow> True | _ \<Rightarrow> False)"

definition decision_reason :: "permission_decision \<Rightarrow> permission_reason option" where
  "decision_reason d = (case d of Allow \<Rightarrow> None | Deny r \<Rightarrow> Some r | NeedsApproval r \<Rightarrow> Some r)"

record permission_policy =
  pp_allowed_tools :: "string set"
  pp_denied_tools :: "string set"
  pp_allowed_paths :: "string list"
  pp_denied_paths :: "string list"
  pp_command_mode :: string

definition permission_policy_default :: permission_policy where
  "permission_policy_default =
     \<lparr>pp_allowed_tools = {}, pp_denied_tools = {}, pp_allowed_paths = [], pp_denied_paths = [], pp_command_mode = []\<rparr>"

definition is_read_only_command_mode :: "permission_policy \<Rightarrow> bool" where
  "is_read_only_command_mode p = eq_ignore_case (pp_command_mode p) ''read_only''"

record permission_engine =
  pe_read_only_tools :: "string set"
  pe_restricted_auto_write_tools :: "string set"

definition permission_engine_default :: permission_engine where
  "permission_engine_default = \<lparr>pe_read_only_tools = {}, pe_restricted_auto_write_tools = {}\<rparr>"

definition register_read_only_tool :: "string \<Rightarrow> permission_engine \<Rightarrow> permission_engine" where
  "register_read_only_tool name e = e\<lparr>pe_read_only_tools := insert name (pe_read_only_tools e)\<rparr>"

definition register_restricted_auto_write_tool :: "string \<Rightarrow> permission_engine \<Rightarrow> permission_engine" where
  "register_restricted_auto_write_tool name e =
     e\<lparr>pe_restricted_auto_write_tools := insert name (pe_restricted_auto_write_tools e)\<rparr>"

definition is_read_only_tool :: "permission_engine \<Rightarrow> string \<Rightarrow> bool" where
  "is_read_only_tool e name = (name \<in> pe_read_only_tools e)"

definition is_restricted_auto_write_tool :: "permission_engine \<Rightarrow> string \<Rightarrow> bool" where
  "is_restricted_auto_write_tool e name = (name \<in> pe_restricted_auto_write_tools e)"

section \<open>Paths\<close>

datatype path_component = RootDir | CurDir | ParentDir | Normal string

text \<open>\<open>Path::components\<close>: empty parts and inner dots are dropped, \<open>..\<close> is kept.\<close>

definition path_components :: "string \<Rightarrow> path_component list" where
  "path_components p =
     (let parts = split_on (CHR ''/'') p
      in (if prefix ''/'' p then [RootDir] else if hd parts = ''.'' then [CurDir] else []) @
         map (\<lambda>w. if w = ''..'' then ParentDir else Normal w) (filter (\<lambda>w. w \<noteq> [] \<and> w \<noteq> ''.'') parts))"

definition path_is_within :: "string \<Rightarrow> string \<Rightarrow> bool" where
  "path_is_within target root = prefix (path_components root) (path_components target)"

section \<open>Arguments of the shell tool\<close>

fun json_string :: "(string \<times> json) list \<Rightarrow> string list \<Rightarrow> string option" where
  "json_string fs [] = None"
| "json_string fs (k # ks) =
     (case Option.bind (hget fs k) json_str of Some s \<Rightarrow> Some s | None \<Rightarrow> json_string fs ks)"

definition json_has_any :: "(string \<times> json) list \<Rightarrow> string list \<Rightarrow> bool" where
  "json_has_any fs ks = list_ex (\<lambda>k. hget fs k \<noteq> None) ks"

definition json_object :: "(string \<Rightarrow> json option) \<Rightarrow> string \<Rightarrow> (string \<times> json) list option" where
  "json_object parse text = (case parse text of Some (JObject fs) \<Rightarrow> Some fs | _ \<Rightarrow> None)"

definition shell_action :: "(string \<times> json) list \<Rightarrow> string option" where
  "shell_action fs = map_option (\<lambda>v. ascii_lower (str_trim v)) (json_string fs [''action'', ''operation'', ''op''])"

definition has_terminal_id :: "(string \<times> json) list \<Rightarrow> bool" where
  "has_terminal_id fs = json_has_any fs [''terminal_id'', ''terminalId'', ''id'']"

definition shell_command_text :: "(string \<times> json) list \<Rightarrow> string option" where
  "shell_command_text fs = json_string fs [''command'', ''script'', ''line'']"

definition has_command :: "(string \<times> json) list \<Rightarrow> bool" where
  "has_command fs = (case shell_command_text fs of None \<Rightarrow> False | Some v \<Rightarrow> \<not> is_blank v)"

definition observe_actions :: "string list" where
  "observe_actions = [''read'', ''wait'', ''poll'', ''status'', ''list'', ''ls'']"

definition stop_actions :: "string list" where
  "stop_actions = [''kill'', ''stop'', ''terminate'', ''cancel'']"

definition input_actions :: "string list" where
  "input_actions = [''write'', ''stdin'', ''send'']"

definition run_actions :: "string list" where
  "run_actions = [''run'', ''exec'', ''command'']"

definition command_is_read_only :: "(string \<times> json) list \<Rightarrow> bool \<Rightarrow> bool" where
  "command_is_read_only fs require_declaration =
     (let declared = json_string fs [''access_mode'', ''write_mode'', ''intent''] in
      if (case declared of
            Some mode \<Rightarrow> ascii_lower (str_trim mode) \<notin> {''read'', ''read_only'', ''readonly''}
          | None \<Rightarrow> require_declaration)
      then False
      else (case shell_command_text fs of
              None \<Rightarrow> False
            | Some command \<Rightarrow>
                \<not> shell_command_has_write_indicator command
                     (shell_dialect_of (case json_string fs [''shell''] of None \<Rightarrow> [] | Some s \<Rightarrow> s))))"

definition shell_arguments_read_only_analysis :: "(string \<Rightarrow> json option) \<Rightarrow> string \<Rightarrow> bool \<Rightarrow> bool" where
  "shell_arguments_read_only_analysis parse arguments require_declaration =
     (case json_object parse arguments of
        None \<Rightarrow> False
      | Some fs \<Rightarrow>
          (case shell_action fs of
             None \<Rightarrow>
               if has_terminal_id fs \<and> \<not> has_command fs then True
               else command_is_read_only fs require_declaration
           | Some a \<Rightarrow>
               if a \<in> set observe_actions then True
               else if a \<in> set stop_actions then True
               else if a \<in> set input_actions then False
               else if a \<in> set run_actions then command_is_read_only fs require_declaration
               else False))"

definition shell_arguments_request_read_only :: "(string \<Rightarrow> json option) \<Rightarrow> string \<Rightarrow> bool" where
  "shell_arguments_request_read_only parse arguments = shell_arguments_read_only_analysis parse arguments True"

definition shell_arguments_are_read_only :: "(string \<Rightarrow> json option) \<Rightarrow> string \<Rightarrow> bool" where
  "shell_arguments_are_read_only parse arguments = shell_arguments_read_only_analysis parse arguments False"

definition shell_arguments_have_permission_relevant_operation :: "(string \<Rightarrow> json option) \<Rightarrow> string \<Rightarrow> bool" where
  "shell_arguments_have_permission_relevant_operation parse arguments =
     (if is_blank arguments then False
      else (case json_object parse arguments of
              None \<Rightarrow> True
            | Some fs \<Rightarrow>
                (case shell_action fs of
                   None \<Rightarrow> has_command fs \<or> has_terminal_id fs
                 | Some a \<Rightarrow>
                     if a \<in> set run_actions then has_command fs
                     else a \<in> set observe_actions \<or> a \<in> set input_actions \<or> a \<in> set stop_actions)))"

section \<open>Decisions\<close>

definition decide_browser_action ::
    "browser_action_class \<Rightarrow> permission_policy \<Rightarrow> access_profile \<Rightarrow> permission_decision" where
  "decide_browser_action class policy profile =
     (if profile = ReadOnly \<or> is_read_only_command_mode policy then Deny ReadOnlyBrowser
      else if profile = Restricted \<and> class = Execute then NeedsApproval ScriptNotAutomatic
      else Allow)"

definition decide_tool ::
    "permission_engine \<Rightarrow> string \<Rightarrow> bool \<Rightarrow> permission_policy \<Rightarrow> access_profile \<Rightarrow> permission_decision" where
  "decide_tool e name is_write policy profile =
     (if name \<in> pp_denied_tools policy then Deny (ToolDenied name)
      else if pp_allowed_tools policy \<noteq> {} \<and> name \<notin> pp_allowed_tools policy then Deny (ToolNotGranted name)
      else if (profile = ReadOnly \<or> is_read_only_command_mode policy) \<and> is_write then Deny (ReadOnlyTool name)
      else if profile = Restricted \<and> is_write \<and> \<not> is_restricted_auto_write_tool e name
      then NeedsApproval (ToolNotAutomatic name)
      else Allow)"

definition decide_path ::
    "string \<Rightarrow> path_access_kind \<Rightarrow> permission_policy \<Rightarrow> access_profile \<Rightarrow> permission_decision" where
  "decide_path path kind policy profile =
     (if list_ex (path_is_within path) (pp_denied_paths policy) then Deny (PathDenied path)
      else if pp_allowed_paths policy \<noteq> [] \<and> \<not> list_ex (path_is_within path) (pp_allowed_paths policy)
      then Deny (PathNotGranted path)
      else if kind = WriteAccess \<and> (profile = ReadOnly \<or> is_read_only_command_mode policy)
      then Deny (ReadOnlyPath path)
      else Allow)"

definition decide_shell_command ::
    "(string \<Rightarrow> json option) \<Rightarrow> string \<Rightarrow> permission_policy \<Rightarrow> access_profile \<Rightarrow> permission_decision" where
  "decide_shell_command parse arguments policy profile =
     (if \<not> shell_arguments_have_permission_relevant_operation parse arguments then Allow
      else
        let is_read_only = (if profile = ReadOnly \<or> is_read_only_command_mode policy
                            then shell_arguments_are_read_only parse arguments
                            else shell_arguments_request_read_only parse arguments)
        in if \<not> is_read_only \<and> (profile = ReadOnly \<or> is_read_only_command_mode policy) then Deny ReadOnlyShell
           else if profile = Restricted \<and> \<not> is_read_only then NeedsApproval ShellNotAutomatic
           else Allow)"

definition decide ::
    "(string \<Rightarrow> json option) \<Rightarrow> permission_engine \<Rightarrow> permission_request \<Rightarrow> permission_policy \<Rightarrow> access_profile \<Rightarrow>
     permission_decision" where
  "decide parse e request policy profile =
     (case request of
        ToolInvocation name is_write \<Rightarrow> decide_tool e name is_write policy profile
      | PathAccess path kind \<Rightarrow> decide_path path kind policy profile
      | ShellCommand arguments \<Rightarrow> decide_shell_command parse arguments policy profile
      | BrowserAction class \<Rightarrow> decide_browser_action class policy profile)"

section \<open>What the shell tool runs\<close>

text \<open>The beginning of \<open>execute_shell_exec\<close> (\<open>magi-tool-runtime/src/builtin/shell.rs\<close>).\<close>

definition shell_exec_command :: "(string \<times> json) list \<Rightarrow> string option" where
  "shell_exec_command fs =
     (let runs = (case Option.bind (hget fs ''action'') json_str of None \<Rightarrow> True | Some a \<Rightarrow> a = ''run'')
      in if \<not> runs then None
         else (case Option.bind (hget fs ''command'') json_str of
                 None \<Rightarrow> None
               | Some c \<Rightarrow> if is_blank c then None else Some (str_trim c)))"

section \<open>Read-only tasks\<close>

definition read_only_mode :: "permission_policy \<Rightarrow> access_profile \<Rightarrow> bool" where
  "read_only_mode policy profile \<longleftrightarrow> profile = ReadOnly \<or> is_read_only_command_mode policy"

text \<open>A call of the shell tool that runs a command with a sign of writing.\<close>

definition runs_writing_command :: "(string \<Rightarrow> json option) \<Rightarrow> string \<Rightarrow> bool" where
  "runs_writing_command parse arguments \<longleftrightarrow>
     (\<exists>fs c. json_object parse arguments = Some fs \<and> shell_exec_command fs \<noteq> None \<and>
        hget fs ''command'' = Some (JString c) \<and>
        shell_command_has_write_indicator c
          (shell_dialect_of (case json_string fs [''shell''] of None \<Rightarrow> [] | Some s \<Rightarrow> s)))"

text \<open>The call names its action, if any, by the key the tool reads.\<close>

definition action_key_only :: "(string \<Rightarrow> json option) \<Rightarrow> string \<Rightarrow> bool" where
  "action_key_only parse arguments =
     (case json_object parse arguments of
        None \<Rightarrow> True
      | Some fs \<Rightarrow> hget fs ''operation'' = None \<and> hget fs ''op'' = None)"

lemma shell_action_of_run:
  assumes "shell_exec_command fs \<noteq> None" "hget fs ''operation'' = None" "hget fs ''op'' = None"
  shows "shell_action fs = None \<or> shell_action fs = Some ''run''"
proof -
  have run: "ascii_lower (str_trim ''run'') = ''run''" by code_simp
  show ?thesis
    using assms by (auto simp: shell_exec_command_def shell_action_def Let_def run split: option.splits if_splits)
qed

lemma shell_exec_command_SomeD:
  "shell_exec_command fs \<noteq> None \<Longrightarrow> hget fs ''command'' = Some (JString c) \<Longrightarrow>
     shell_command_text fs = Some c \<and> has_command fs"
  by (auto simp: shell_exec_command_def shell_command_text_def has_command_def json_str_def Let_def
      split: option.splits if_splits)

lemma writing_command_found:
  assumes "runs_writing_command parse arguments" "action_key_only parse arguments" "\<not> is_blank arguments"
  shows "shell_arguments_have_permission_relevant_operation parse arguments \<and>
    \<not> shell_arguments_read_only_analysis parse arguments b"
proof -
  from assms(1) obtain fs c where fs: "json_object parse arguments = Some fs" "shell_exec_command fs \<noteq> None"
    "hget fs ''command'' = Some (JString c)"
    "shell_command_has_write_indicator c (shell_dialect_of (case json_string fs [''shell''] of None \<Rightarrow> [] | Some s \<Rightarrow> s))"
    by (auto simp: runs_writing_command_def)
  have action: "shell_action fs = None \<or> shell_action fs = Some ''run''"
    using assms(2) fs(1,2) shell_action_of_run by (simp add: action_key_only_def)
  have cmd: "shell_command_text fs = Some c" "has_command fs"
    using shell_exec_command_SomeD [OF fs(2,3)] by auto
  have "\<not> command_is_read_only fs b"
    using fs(4) cmd by (simp add: command_is_read_only_def Let_def)
  then show ?thesis using action cmd fs(1) assms(3)
    by (auto simp: shell_arguments_have_permission_relevant_operation_def shell_arguments_read_only_analysis_def
        observe_actions_def stop_actions_def input_actions_def run_actions_def)
qed

definition writes_something :: "(string \<Rightarrow> json option) \<Rightarrow> permission_request \<Rightarrow> bool" where
  "writes_something parse request \<longleftrightarrow>
     (case request of
        ToolInvocation _ is_write \<Rightarrow> is_write
      | PathAccess _ kind \<Rightarrow> kind = WriteAccess
      | ShellCommand arguments \<Rightarrow>
          runs_writing_command parse arguments \<and> action_key_only parse arguments \<and> \<not> is_blank arguments
      | BrowserAction _ \<Rightarrow> True)"


definition demo_shell_arguments :: "(string \<times> json) list" where
  "demo_shell_arguments = [(''command'', JString ''ls; rm x''), (''access_mode'', JString ''read_only'')]"


text \<open>
  The engine also takes the action of a call from \<open>operation\<close> and \<open>op\<close>, which the tool does not
  read: a call that says it reads by one of them is allowed, and its command is run.
\<close>

definition demo_disguised :: "(string \<times> json) list" where
  "demo_disguised = [(''operation'', JString ''read''), (''command'', JString ''rm x'')]"

lemma disguised_command_allowed:
  "decide (\<lambda>_. Some (JObject demo_disguised)) permission_engine_default (ShellCommand ''a'')
     permission_policy_default ReadOnly = Allow \<and>
   shell_exec_command demo_disguised = Some ''rm x''"
  by code_simp

section \<open>The order of the profiles\<close>

definition profile_rank :: "access_profile \<Rightarrow> nat" where
  "profile_rank p = (case p of ReadOnly \<Rightarrow> 0 | Restricted \<Rightarrow> 1 | FullAccess \<Rightarrow> 2)"

lemma profile_order:
  "profile_rank p \<le> profile_rank q \<longleftrightarrow> p = q \<or> p = ReadOnly \<or> q = FullAccess"
  by (cases p; cases q) (auto simp: profile_rank_def)

lemma denied_below:
  assumes "profile_rank p \<le> profile_rank q" "is_deny (decide parse e request policy q)"
  shows "is_deny (decide parse e request policy p)"
  using assms unfolding profile_order
  by (auto simp: decide_def decide_tool_def decide_path_def decide_shell_command_def decide_browser_action_def
      is_deny_def Let_def split: permission_request.splits if_splits)

lemma approval_is_restricted:
  "decide parse e request policy profile = NeedsApproval r \<Longrightarrow> profile = Restricted \<and> \<not> is_read_only_command_mode policy"
  by (auto simp: decide_def decide_tool_def decide_path_def decide_shell_command_def decide_browser_action_def
      Let_def split: permission_request.splits if_splits)

end
