(* ===== verification/SafetyGate.thy ===== *)
theory SafetyGate
  imports CommandScan
begin

text \<open>
  The safety gate (\<open>magi-safety-gate/src/lib.rs\<close>): rules with patterns of words, the commands of
  a line with their words, and the decision by the strongest rule that matches one of them.

  What Unicode says of a character (\<open>to_lowercase\<close>, \<open>is_alphanumeric\<close>) is the argument \<open>uc\<close>,
  the parser of JSON texts the argument \<open>parse\<close>; the text of a reason is determined by the
  category and the pattern and left out.
\<close>

section \<open>Categories, actions, rules\<close>

datatype safety_category = GitHistory | GitDiscard | PackagePublish | BulkDelete | CustomCategory

datatype safety_action = HardBlock | RequireApprovalInRestricted | AuditOnly

definition safety_category_parse :: "string \<Rightarrow> safety_category" where
  "safety_category_parse raw =
     (let s = ascii_lower (str_trim raw)
      in if s = ''git_history'' then GitHistory
         else if s = ''git_discard'' then GitDiscard
         else if s = ''package_publish'' then PackagePublish
         else if s = ''bulk_delete'' then BulkDelete
         else CustomCategory)"

definition safety_category_str :: "safety_category \<Rightarrow> string" where
  "safety_category_str c =
     (case c of
        GitHistory \<Rightarrow> ''git_history''
      | GitDiscard \<Rightarrow> ''git_discard''
      | PackagePublish \<Rightarrow> ''package_publish''
      | BulkDelete \<Rightarrow> ''bulk_delete''
      | CustomCategory \<Rightarrow> ''custom'')"

definition default_action :: "safety_category \<Rightarrow> safety_action" where
  "default_action c = RequireApprovalInRestricted"

definition safety_action_parse :: "string \<Rightarrow> safety_action" where
  "safety_action_parse raw =
     (let s = ascii_lower (str_trim raw)
      in if s \<in> {''hard_block'', ''block'', ''deny''} then HardBlock
         else if s \<in> {''require_approval_in_restricted'', ''require_approval'', ''approval'', ''needs_approval''}
         then RequireApprovalInRestricted
         else if s \<in> {''audit_only'', ''audit''} then AuditOnly
         else RequireApprovalInRestricted)"

definition safety_action_str :: "safety_action \<Rightarrow> string" where
  "safety_action_str a =
     (case a of
        HardBlock \<Rightarrow> ''hard_block''
      | RequireApprovalInRestricted \<Rightarrow> ''require_approval_in_restricted''
      | AuditOnly \<Rightarrow> ''audit_only'')"

definition precedence :: "safety_action \<Rightarrow> nat" where
  "precedence a = (case a of HardBlock \<Rightarrow> 3 | RequireApprovalInRestricted \<Rightarrow> 2 | AuditOnly \<Rightarrow> 1)"

record safety_rule =
  sr_pattern :: string
  sr_enabled :: bool
  sr_category :: safety_category
  sr_action :: safety_action

definition safety_rule_new :: "string \<Rightarrow> safety_category \<Rightarrow> safety_rule" where
  "safety_rule_new pattern category =
     \<lparr>sr_pattern = pattern, sr_enabled = True, sr_category = category, sr_action = default_action category\<rparr>"

definition safety_rule_with_action :: "string \<Rightarrow> safety_category \<Rightarrow> safety_action \<Rightarrow> safety_rule" where
  "safety_rule_with_action pattern category action =
     \<lparr>sr_pattern = pattern, sr_enabled = True, sr_category = category, sr_action = action\<rparr>"

section \<open>Words\<close>

record unicode =
  uc_lower :: "uchar \<Rightarrow> uchar list"
  uc_alphanumeric :: "uchar \<Rightarrow> bool"

definition normalize_for_match :: "unicode \<Rightarrow> string \<Rightarrow> string" where
  "normalize_for_match uc value =
     (let lowered = concat (map (uc_lower uc) (str_chars value));
          spaced = map (\<lambda>c. if uc_alphanumeric uc c then c else '' '') lowered
      in str_join '' '' (split_whitespace (concat spaced)))"

definition contains_token_sequence :: "string \<Rightarrow> string \<Rightarrow> bool" where
  "contains_token_sequence haystack needle \<longleftrightarrow>
     needle \<noteq> [] \<and> str_contains ('' '' @ haystack @ '' '') ('' '' @ needle @ '' '')"

definition rule_matches :: "unicode \<Rightarrow> safety_rule \<Rightarrow> string \<Rightarrow> bool" where
  "rule_matches uc r command =
     (if \<not> sr_enabled r then False
      else let pattern = str_trim (sr_pattern r)
           in if pattern = [] then False
              else contains_token_sequence (normalize_for_match uc command) (normalize_for_match uc pattern))"

text \<open>A separator written twice is one separator.\<close>

fun gate_segments_from :: "string \<Rightarrow> uchar list \<Rightarrow> string list" where
  "gate_segments_from current [] = [current]"
| "gate_segments_from current (c # cs) =
     (if c \<in> {'';'', newline, [CHR 0x0D]} then current # gate_segments_from [] cs
      else if c \<in> {''&'', ''|''} then
        if cs \<noteq> [] \<and> hd cs = c then current # gate_segments_from [] (tl cs)
        else current # gate_segments_from [] cs
      else gate_segments_from (current @ c) cs)"

definition split_command_segments :: "string \<Rightarrow> string list" where
  "split_command_segments command =
     filter (\<lambda>s. \<not> is_blank s) (gate_segments_from [] (str_chars command))"

definition shell_tokens :: "string \<Rightarrow> string list" where
  "shell_tokens segment =
     filter (\<lambda>t. t \<noteq> []) (map (trim_matches [CHR 0x22, CHR 0x27]) (split_whitespace segment))"

definition git_value_options :: "string list" where
  "git_value_options = [''-C'', ''-c'', ''--git-dir'', ''--work-tree'', ''--namespace'']"

definition git_flags :: "string list" where
  "git_flags =
     [''--no-pager'', ''--paginate'', ''-p'', ''-P'', ''--bare'', ''--no-optional-locks'', ''--literal-pathspecs'']"

fun skip_git_options :: "string list \<Rightarrow> string list" where
  "skip_git_options [] = []"
| "skip_git_options (t # ts) =
     (if t \<in> set git_value_options then skip_git_options (drop 1 ts)
      else if t \<in> set git_flags \<or> list_ex (\<lambda>p. prefix p t) [''--git-dir='', ''--work-tree='', ''--namespace='']
      then skip_git_options ts
      else t # ts)"

lemma skip_git_options_length: "length (skip_git_options ts) \<le> length ts"
  by (induction ts rule: skip_git_options.induct) auto

function strip_git_global_options :: "string list \<Rightarrow> string list" where
  "strip_git_global_options [] = []"
| "strip_git_global_options (t # ts) =
     t # strip_git_global_options (if t = ''git'' \<or> suffix ''/git'' t then skip_git_options ts else ts)"
  by pat_completeness auto
termination
  by (relation "measure length") (auto simp: less_Suc_eq_le skip_git_options_length)

fun words_match :: "string list \<Rightarrow> string list \<Rightarrow> bool" where
  "words_match [] ts = True"
| "words_match (w # ws) [] = False"
| "words_match (w # ws) (t # ts) = (eq_ignore_case t w \<and> words_match ws ts)"

definition starts_sequence :: "string list \<Rightarrow> string list \<Rightarrow> bool" where
  "starts_sequence ws ts =
     (case (ws, ts) of
        (w # ws', t # ts') \<Rightarrow>
          (eq_ignore_case t w \<or> eq_ignore_case (last_part ''/'' t) w) \<and> words_match ws' ts'
      | _ \<Rightarrow> False)"

fun args_after :: "string list \<Rightarrow> string list \<Rightarrow> string list option" where
  "args_after [] ws = None"
| "args_after (t # ts) ws =
     (if starts_sequence ws (t # ts) then Some (drop (length ws) (t # ts)) else args_after ts ws)"

definition short_flag_has :: "string \<Rightarrow> string \<Rightarrow> bool" where
  "short_flag_has arg letters \<longleftrightarrow>
     1 < length arg \<and> prefix ''-'' arg \<and> \<not> prefix ''--'' arg \<and> list_ex (\<lambda>c. c \<in> set letters) (tl arg)"

section \<open>Commands written otherwise\<close>

fun alias_texts :: "string list \<Rightarrow> string" where
  "alias_texts [] = []"
| "alias_texts (token # following) =
     (if token = ''remove'' \<and> following \<noteq> [] \<and> hd following = ''item'' \<and>
         ''recurse'' \<in> set following \<and> ''force'' \<in> set following
      then '' Remove-Item -Recurse -Force'' else []) @
     (if token = ''rm'' \<and> ''recurse'' \<in> set following \<and> ''force'' \<in> set following
      then '' Remove-Item -Recurse -Force'' else []) @
     (if token = ''del'' \<and> ''s'' \<in> set following \<and> ''q'' \<in> set following then '' del /s /q'' else []) @
     (if token = ''rmdir'' \<and> ''s'' \<in> set following \<and> ''q'' \<in> set following then '' rmdir /s /q'' else []) @
     alias_texts following"

definition rm_alias :: "string list \<Rightarrow> string" where
  "rm_alias tokens =
     (case args_after tokens [''rm''] of
        None \<Rightarrow> []
      | Some as \<Rightarrow>
          if list_ex (\<lambda>a. a = ''--recursive'' \<or> short_flag_has a ''rR'') as \<and>
             list_ex (\<lambda>a. a = ''--force'' \<or> short_flag_has a ''f'') as
          then '' rm -rf'' else [])"

definition git_push_alias :: "string list \<Rightarrow> string" where
  "git_push_alias tokens =
     (case args_after tokens [''git'', ''push''] of
        None \<Rightarrow> []
      | Some as \<Rightarrow>
          (if list_ex (\<lambda>a. prefix ''--force'' a \<or> short_flag_has a ''f'' \<or> 1 < length a \<and> prefix ''+'' a) as
           then '' git push --force'' else []) @
          (if list_ex (\<lambda>a. a = ''--delete'' \<or> a = ''-d'' \<or> 1 < length a \<and> prefix '':'' a) as
           then '' git push --delete'' else []))"

definition expand_command_aliases :: "unicode \<Rightarrow> string \<Rightarrow> string list \<Rightarrow> string" where
  "expand_command_aliases uc command tokens =
     command @ alias_texts (split_whitespace (normalize_for_match uc command)) @ rm_alias tokens @ git_push_alias tokens"

definition builtin_rule_applies :: "safety_rule \<Rightarrow> string list \<Rightarrow> bool" where
  "builtin_rule_applies r tokens =
     (let pattern = str_trim (sr_pattern r);
          after = (\<lambda>ws P. case args_after tokens ws of None \<Rightarrow> True | Some as \<Rightarrow> P as)
      in if sr_category r = CustomCategory then True
         else if pattern = ''git checkout --'' then
           after [''git'', ''checkout'']
             (list_ex (\<lambda>a. a \<in> {''--'', ''.'', ''--force''} \<or> short_flag_has a ''f''))
         else if pattern = ''git restore'' then
           after [''git'', ''restore'']
             (\<lambda>as. \<not> ((''--staged'' \<in> set as \<or> ''-S'' \<in> set as) \<and> \<not> (''--worktree'' \<in> set as \<or> ''-W'' \<in> set as)))
         else if pattern = ''git clean'' then
           after [''git'', ''clean'']
             (\<lambda>as. \<not> (''--dry-run'' \<in> set as \<or> list_ex (\<lambda>a. short_flag_has a ''n'') as))
         else if pattern = ''git rebase'' then
           after [''git'', ''rebase''] (\<lambda>as. \<not> (''--abort'' \<in> set as \<or> ''--quit'' \<in> set as))
         else if pattern = ''git branch -D'' then
           after [''git'', ''branch'']
             (\<lambda>as. list_ex (\<lambda>a. short_flag_has a ''D'') as \<or>
                   (''--delete'' \<in> set as \<or> list_ex (\<lambda>a. short_flag_has a ''d'') as) \<and>
                   (''--force'' \<in> set as \<or> list_ex (\<lambda>a. short_flag_has a ''f'') as))
         else if pattern \<in> {''npm publish'', ''yarn publish'', ''pnpm publish'', ''cargo publish'', ''twine upload''}
         then ''--dry-run'' \<notin> set tokens
         else True)"

section \<open>Decisions\<close>

record safety_match =
  sm_category :: safety_category
  sm_pattern :: string
  sm_action :: safety_action

datatype safety_decision =
    SafetyAllow
  | HardBlocked safety_category string
  | ApprovalInRestricted safety_category string
  | Audited safety_category string

record safety_evaluation =
  se_matches :: "safety_match list"
  se_decision :: safety_decision

definition decision_for_match :: "safety_match \<Rightarrow> safety_decision" where
  "decision_for_match m =
     (case sm_action m of
        HardBlock \<Rightarrow> HardBlocked (sm_category m) (sm_pattern m)
      | RequireApprovalInRestricted \<Rightarrow> ApprovalInRestricted (sm_category m) (sm_pattern m)
      | AuditOnly \<Rightarrow> Audited (sm_category m) (sm_pattern m))"

definition decided_pattern :: "safety_decision \<Rightarrow> string option" where
  "decided_pattern d =
     (case d of
        SafetyAllow \<Rightarrow> None
      | HardBlocked _ p \<Rightarrow> Some p
      | ApprovalInRestricted _ p \<Rightarrow> Some p
      | Audited _ p \<Rightarrow> Some p)"

definition selected_match :: "safety_evaluation \<Rightarrow> safety_match option" where
  "selected_match e = find (\<lambda>m. decided_pattern (se_decision e) = Some (sm_pattern m)) (se_matches e)"

definition match_of :: "safety_rule \<Rightarrow> safety_match" where
  "match_of r = \<lparr>sm_category = sr_category r, sm_pattern = str_trim (sr_pattern r), sm_action = sr_action r\<rparr>"

definition segment_matches :: "unicode \<Rightarrow> safety_rule list \<Rightarrow> string \<Rightarrow> safety_match list" where
  "segment_matches uc rules segment =
     (let tokens = strip_git_global_options (shell_tokens segment);
          operation = expand_command_aliases uc (str_join '' '' tokens) tokens
      in map match_of (filter (\<lambda>r. rule_matches uc r operation \<and> builtin_rule_applies r tokens) rules))"

definition add_match :: "safety_match list \<Rightarrow> safety_match \<Rightarrow> safety_match list" where
  "add_match ms m = (if m \<in> set ms then ms else ms @ [m])"

definition match_rank :: "safety_match \<Rightarrow> int \<times> int \<times> string" where
  "match_rank m = (- int (precedence (sm_action m)), - int (length (sm_pattern m)), sm_pattern m)"

definition evaluate_text_with_evidence :: "unicode \<Rightarrow> safety_rule list \<Rightarrow> string \<Rightarrow> safety_evaluation" where
  "evaluate_text_with_evidence uc rules command =
     (let found = foldl add_match [] (concat (map (segment_matches uc rules) (split_command_segments command)));
          matches = sort_key match_rank found
      in \<lparr>se_matches = matches,
          se_decision = (case matches of [] \<Rightarrow> SafetyAllow | m # _ \<Rightarrow> decision_for_match m)\<rparr>)"

definition evaluate_text :: "unicode \<Rightarrow> safety_rule list \<Rightarrow> string \<Rightarrow> safety_decision" where
  "evaluate_text uc rules command = se_decision (evaluate_text_with_evidence uc rules command)"

section \<open>The text of a tool call\<close>

definition json_bool :: "json \<Rightarrow> bool option" where
  "json_bool v = (case v of JBool b \<Rightarrow> Some b | _ \<Rightarrow> None)"

definition extract_shell_command :: "(string \<Rightarrow> json option) \<Rightarrow> string \<Rightarrow> string option" where
  "extract_shell_command parse arguments =
     Option.bind (parse arguments) (\<lambda>v. Option.bind (json_get ''command'' v) json_str)"

definition structured_write_tools :: "string list" where
  "structured_write_tools =
     [''git_push'', ''git_merge'', ''git_branch_delete'', ''git_worktree_remove'', ''file_write'', ''file_patch'',
      ''file_remove'', ''file_copy'', ''file_move'', ''file_mkdir'']"

definition unscoped_tools :: "string list" where
  "unscoped_tools =
     [''file_read'', ''view_image'', ''search_text'', ''search_semantic'', ''diff_preview'', ''web_search'',
      ''web_fetch'', ''knowledge_query'', ''knowledge_graph_query'', ''code_symbols'', ''tool_catalog'',
      ''git_status'', ''git_branch_list'', ''git_worktree_list'', ''get_goal'', ''context_search'',
      ''context_read'', ''context_request'']"

definition forced :: "(string \<Rightarrow> json option) \<Rightarrow> string \<Rightarrow> bool" where
  "forced parse arguments \<longleftrightarrow>
     Option.bind (parse arguments) (\<lambda>v. Option.bind (json_get ''force'' v) json_bool) = Some True"

definition structured_write_text :: "(string \<Rightarrow> json option) \<Rightarrow> string \<Rightarrow> string \<Rightarrow> string" where
  "structured_write_text parse tool arguments =
     (if tool \<in> {''file_write'', ''file_patch''} then
        (case Option.bind (parse arguments) (\<lambda>v. Option.bind (json_get ''path'' v) json_str) of
           Some path \<Rightarrow> tool @ '' '' @ path
         | None \<Rightarrow> tool)
      else tool @ '' '' @ arguments) @
     (if tool = ''git_push'' \<and> forced parse arguments then '' git push --force'' else []) @
     (if tool = ''git_branch_delete'' \<and> forced parse arguments then '' git branch -D'' else [])"

definition operation_text_for_tool :: "(string \<Rightarrow> json option) \<Rightarrow> string \<Rightarrow> string \<Rightarrow> string option" where
  "operation_text_for_tool parse tool_name arguments =
     (let tool = str_trim tool_name
      in if tool = ''shell_exec'' then
           Some (case extract_shell_command parse arguments of Some c \<Rightarrow> c | None \<Rightarrow> arguments)
         else if tool \<in> set structured_write_tools then Some (structured_write_text parse tool arguments)
         else if tool \<in> set unscoped_tools then None
         else Some (tool @ '' '' @ arguments))"

definition evaluate_with_evidence ::
    "unicode \<Rightarrow> (string \<Rightarrow> json option) \<Rightarrow> safety_rule list \<Rightarrow> string \<Rightarrow> string \<Rightarrow> safety_evaluation" where
  "evaluate_with_evidence uc parse rules tool_name arguments =
     (case operation_text_for_tool parse tool_name arguments of
        None \<Rightarrow> \<lparr>se_matches = [], se_decision = SafetyAllow\<rparr>
      | Some operation \<Rightarrow> evaluate_text_with_evidence uc rules operation)"

definition evaluate_call ::
    "unicode \<Rightarrow> (string \<Rightarrow> json option) \<Rightarrow> safety_rule list \<Rightarrow> string \<Rightarrow> string \<Rightarrow> safety_decision" where
  "evaluate_call uc parse rules tool_name arguments =
     se_decision (evaluate_with_evidence uc parse rules tool_name arguments)"

section \<open>The rules in force\<close>

definition builtin_rules :: "safety_rule list" where
  "builtin_rules =
     map (\<lambda>(p, c). safety_rule_new p c)
       [(''git push --force'', GitHistory), (''git push -f'', GitHistory), (''git rebase'', GitHistory),
        (''git reset --hard'', GitHistory), (''git commit --amend'', GitHistory), (''git checkout --'', GitDiscard),
        (''git restore'', GitDiscard), (''git clean'', GitDiscard), (''git push --delete'', GitHistory),
        (''git stash drop'', GitDiscard), (''git stash clear'', GitDiscard), (''git branch -D'', GitDiscard),
        (''npm publish'', PackagePublish), (''cargo publish'', PackagePublish), (''yarn publish'', PackagePublish),
        (''pnpm publish'', PackagePublish), (''twine upload'', PackagePublish), (''rm -rf'', BulkDelete),
        (''rimraf'', BulkDelete), (''remove-item -recurse -force'', BulkDelete), (''del /s /q'', BulkDelete),
        (''rmdir /s /q'', BulkDelete)]"

definition same_rule_identity :: "safety_rule \<Rightarrow> safety_rule \<Rightarrow> bool" where
  "same_rule_identity l r \<longleftrightarrow>
     sr_category l = sr_category r \<and> eq_ignore_case (str_trim (sr_pattern l)) (str_trim (sr_pattern r))"

text \<open>The first rule of the same identity is replaced, else the rule is added.\<close>

fun put_rule :: "safety_rule \<Rightarrow> safety_rule list \<Rightarrow> safety_rule list" where
  "put_rule r [] = [r]"
| "put_rule r (x # xs) = (if same_rule_identity x r then r # xs else x # put_rule r xs)"

definition merge_rule :: "safety_rule list \<Rightarrow> safety_rule \<Rightarrow> safety_rule list" where
  "merge_rule merged r =
     (if sr_category r \<noteq> CustomCategory \<and> \<not> list_ex (\<lambda>x. same_rule_identity x r) merged then merged
      else put_rule r merged)"

definition merge_rules_with_builtin_defaults :: "safety_rule list \<Rightarrow> safety_rule list" where
  "merge_rules_with_builtin_defaults settings_rules = foldl merge_rule builtin_rules settings_rules"

definition rule_from_json :: "json \<Rightarrow> safety_rule option" where
  "rule_from_json v =
     (case Option.bind (json_get ''pattern'' v) json_str of
        None \<Rightarrow> None
      | Some raw \<Rightarrow>
          let pattern = str_trim raw;
              category = (case Option.bind (json_get ''category'' v) json_str of
                            None \<Rightarrow> CustomCategory | Some c \<Rightarrow> safety_category_parse c)
          in if pattern = [] then None
             else Some
               \<lparr>sr_pattern = pattern,
                sr_enabled = (case Option.bind (json_get ''enabled'' v) json_bool of None \<Rightarrow> True | Some b \<Rightarrow> b),
                sr_category = category,
                sr_action = (case Option.bind (json_get ''action'' v) json_str of
                               None \<Rightarrow> default_action category | Some a \<Rightarrow> safety_action_parse a)\<rparr>)"

definition rules_from_settings_value :: "json \<Rightarrow> safety_rule list" where
  "rules_from_settings_value v = (case v of JArray vs \<Rightarrow> List.map_filter rule_from_json vs | _ \<Rightarrow> [])"

end
