(* ===== verification/SafetyProperties.thy ===== *)
theory SafetyProperties
  imports SafetyGate
begin

text \<open>
  What the safety gate promises: the strongest rule that matches a command of a line decides,
  so no command is hidden by another one; and settings switch the built-in rules but cannot
  remove them.
\<close>

section \<open>The commands of two lines\<close>

lemma str_chars_Nil_iff: "str_chars s = [] \<longleftrightarrow> s = []"
  by (cases s) (auto split: list.splits)

lemma str_chars_hd: "str_chars s = w # ws \<Longrightarrow> w \<noteq> [] \<and> s \<noteq> [] \<and> hd w = hd s"
  by (cases s) (auto split: list.splits if_splits)

lemma str_chars_append:
  assumes "ys = [] \<or> \<not> is_continuation (hd ys)"
  shows "str_chars (xs @ ys) = str_chars xs @ str_chars ys"
proof (induction xs)
  case (Cons x xs)
  show ?case
  proof (cases "str_chars xs")
    case Nil
    then have "xs = []" by (simp add: str_chars_Nil_iff)
    with assms show ?thesis
      by (cases "str_chars ys") (auto dest!: str_chars_hd simp: str_chars_Nil_iff)
  next
    case (Cons w ws)
    with Cons.IH show ?thesis by simp
  qed
qed simp

lemma gate_segments_append:
  "gate_segments_from cur (as @ '';'' # bs) = gate_segments_from cur as @ gate_segments_from [] bs"
  by (induction cur as rule: gate_segments_from.induct) (auto simp: hd_append)

lemma split_segments_append:
  assumes "b = [] \<or> \<not> is_continuation (hd b)"
  shows "split_command_segments (a @ '';'' @ b) = split_command_segments a @ split_command_segments b"
proof -
  have semicolon: "\<not> is_continuation (CHR '';'')" by (simp add: is_continuation_def)
  have "str_chars ('';'' @ b) = '';'' # str_chars b"
    using str_chars_append [OF assms, of "'';''"] by simp
  then have "str_chars (a @ '';'' @ b) = str_chars a @ '';'' # str_chars b"
    using str_chars_append [of "'';'' @ b" a] semicolon by simp
  then show ?thesis by (simp add: split_command_segments_def gate_segments_append)
qed

section \<open>The strongest rule decides\<close>

definition gate_hits :: "unicode \<Rightarrow> safety_rule list \<Rightarrow> string \<Rightarrow> safety_match set" where
  "gate_hits uc rules command = (\<Union>s \<in> set (split_command_segments command). set (segment_matches uc rules s))"

definition decision_rank :: "safety_decision \<Rightarrow> nat" where
  "decision_rank d =
     (case d of SafetyAllow \<Rightarrow> 0 | Audited _ _ \<Rightarrow> 1 | ApprovalInRestricted _ _ \<Rightarrow> 2 | HardBlocked _ _ \<Rightarrow> 3)"

lemma decision_rank_match [simp]: "decision_rank (decision_for_match m) = precedence (sm_action m)"
  by (simp add: decision_rank_def decision_for_match_def precedence_def split: safety_action.splits)

lemma set_add_matches: "set (foldl add_match acc ms) = set acc \<union> set ms"
  by (induction ms arbitrary: acc) (auto simp: add_match_def)

lemma evaluated_matches: "set (se_matches (evaluate_text_with_evidence uc rules command)) = gate_hits uc rules command"
  by (simp add: evaluate_text_with_evidence_def Let_def set_add_matches gate_hits_def)

lemma match_rank_action: "match_rank m \<le> match_rank n \<Longrightarrow> precedence (sm_action n) \<le> precedence (sm_action m)"
  by (auto simp: match_rank_def less_eq_prod_def)

lemma sort_key_hd:
  assumes "sort_key f xs = m # ms"
  shows "m \<in> set xs" "\<And>x. x \<in> set xs \<Longrightarrow> f m \<le> f x"
proof -
  have s: "set xs = set (m # ms)" using assms by (metis set_sort)
  then show "m \<in> set xs" by simp
  have "sorted (map f (m # ms))" using sorted_sort_key [of f xs] assms by simp
  then show "f m \<le> f x" if "x \<in> set xs" for x using that s by auto
qed

lemma evaluate_text_cases:
  obtains (none) "gate_hits uc rules command = {}" "evaluate_text uc rules command = SafetyAllow"
  | (some) m where "m \<in> gate_hits uc rules command" "evaluate_text uc rules command = decision_for_match m"
      "\<And>n. n \<in> gate_hits uc rules command \<Longrightarrow> precedence (sm_action n) \<le> precedence (sm_action m)"
proof -
  let ?found = "foldl add_match [] (concat (map (segment_matches uc rules) (split_command_segments command)))"
  have hits: "set ?found = gate_hits uc rules command" by (simp add: set_add_matches gate_hits_def)
  show thesis
  proof (cases "sort_key match_rank ?found")
    case Nil
    then have "?found = []" by (metis set_sort set_empty)
    with Nil hits none show thesis
      by (simp add: evaluate_text_def evaluate_text_with_evidence_def Let_def)
  next
    case (Cons m ms)
    then have "evaluate_text uc rules command = decision_for_match m"
      by (simp add: evaluate_text_def evaluate_text_with_evidence_def Let_def)
    with sort_key_hd [OF Cons] hits match_rank_action some show thesis by metis
  qed
qed

lemma strongest_rule_decides:
  "decision_rank (evaluate_text uc rules command) =
     Max (insert 0 ((\<lambda>m. precedence (sm_action m)) ` gate_hits uc rules command))"
proof -
  have fin: "finite (gate_hits uc rules command)" by (simp add: gate_hits_def)
  show ?thesis
  proof (cases rule: evaluate_text_cases [of uc rules command])
    case none
    then show ?thesis by (simp add: decision_rank_def)
  next
    case (some m)
    with fin show ?thesis by (intro Max_eqI [symmetric]) auto
  qed
qed


definition ascii_alphanumeric :: "char \<Rightarrow> bool" where
  "ascii_alphanumeric c \<longleftrightarrow>
     list_ex (\<lambda>(low, high). low \<le> c \<and> c \<le> high)
       [(CHR ''0'', CHR ''9''), (CHR ''A'', CHR ''Z''), (CHR ''a'', CHR ''z'')]"

definition ascii_unicode :: unicode where
  "ascii_unicode =
     \<lparr>uc_lower = (\<lambda>c. [ascii_lower c]),
      uc_alphanumeric = (\<lambda>c. case c of [b] \<Rightarrow> ascii_alphanumeric b | _ \<Rightarrow> False)\<rparr>"


section \<open>Settings and built-in rules\<close>

definition rule_key :: "safety_rule \<Rightarrow> safety_category \<times> string" where
  "rule_key r = (sr_category r, ascii_lower (str_trim (sr_pattern r)))"

lemma same_identity_key: "same_rule_identity l r \<longleftrightarrow> rule_key l = rule_key r"
  by (simp add: same_rule_identity_def rule_key_def eq_ignore_case_def)

lemma put_rule_keys:
  "map rule_key (put_rule r xs) =
     (if rule_key r \<in> set (map rule_key xs) then map rule_key xs else map rule_key xs @ [rule_key r])"
  by (induction xs) (auto simp: same_identity_key)

lemma merge_rule_keys:
  "map rule_key (merge_rule merged r) =
     (if rule_key r \<in> set (map rule_key merged) \<or> sr_category r \<noteq> CustomCategory
      then map rule_key merged else map rule_key merged @ [rule_key r])"
  by (auto simp: merge_rule_def put_rule_keys list_ex_iff same_identity_key intro: rev_image_eqI)

lemma builtin_keys_distinct: "distinct (map rule_key builtin_rules)"
  by code_simp

text \<open>Whatever the settings hold, the rules in force have no identity twice, and those of a
  built-in category have exactly the identities of the built-in rules: settings switch
  built-in rules on and off and change their actions, but neither remove one nor add one.\<close>

theorem settings_keep_builtin_rules:
  "distinct (map rule_key (merge_rules_with_builtin_defaults settings)) \<and>
   {k \<in> set (map rule_key (merge_rules_with_builtin_defaults settings)). fst k \<noteq> CustomCategory} =
     {k \<in> set (map rule_key builtin_rules). fst k \<noteq> CustomCategory}"
proof -
  have step: "distinct (map rule_key (foldl merge_rule rules settings)) \<and>
      {k \<in> set (map rule_key (foldl merge_rule rules settings)). fst k \<noteq> CustomCategory} =
        {k \<in> set (map rule_key rules). fst k \<noteq> CustomCategory}"
    if "distinct (map rule_key rules)" for rules
    using that
  proof (induction settings arbitrary: rules)
    case (Cons r settings)
    have "distinct (map rule_key (merge_rule rules r))"
      using Cons.prems by (simp only: merge_rule_keys) auto
    from Cons.IH [OF this] show ?case
      by (simp only: foldl.simps merge_rule_keys) (auto simp: rule_key_def)
  qed simp
  show ?thesis unfolding merge_rules_with_builtin_defaults_def
    using step [OF builtin_keys_distinct] .
qed

section \<open>What word order hides\<close>

text \<open>The rules but those of \<open>rm\<close> and \<open>git push\<close> match neighbouring words only, so an option
  between the two words of \<open>git commit --amend\<close> hides the command.\<close>

definition amend_rule :: safety_rule where
  "amend_rule = safety_rule_new ''git commit --amend'' GitHistory"

definition force_push_rule :: safety_rule where
  "force_push_rule = safety_rule_new ''git push -f'' GitHistory"

lemma amend_after_option_allowed:
  "evaluate_text ascii_unicode [amend_rule] ''git commit --amend'' =
     ApprovalInRestricted GitHistory ''git commit --amend''"
  "evaluate_text ascii_unicode [amend_rule] ''git commit -a --amend'' = SafetyAllow"
  by code_simp+

text \<open>Words are cut at blanks before the quotes are looked at, so the rest of a quoted directory is
  taken for the command of \<open>git\<close>.\<close>

lemma quoted_directory_hides_push:
  "evaluate_text ascii_unicode [force_push_rule] ''git -C repo push -f'' =
     ApprovalInRestricted GitHistory ''git push -f''"
  "evaluate_text ascii_unicode [force_push_rule]
     (''git -C '' @ [CHR 0x22] @ ''my repo'' @ [CHR 0x22] @ '' push -f'') = SafetyAllow"
  by code_simp+

end
