(* ===== verification/ToolNames.thy ===== *)
theory ToolNames
  imports PermissionEngine
begin

text \<open>
  The built-in tools (\<open>magi-tool-runtime/src/builtin_catalog.rs\<close>): their names, what the tables say
  of each of them, the engine that knows which of them write, and how risky a call is by its
  arguments.

  The enumeration has no code generator setup, which its size makes too slow: terms over it are
  evaluated by the simplifier.
\<close>

section \<open>Tools and names\<close>

datatype (plugins only: ) builtin_tool =
    FileRead | ViewImage | FileWrite | FilePatch | ApplyPatch | FileRemove | FileMkdir | FileCopy
  | FileMove | SearchText | SearchSemantic | ShellExec | ProcessLaunch | ProcessRead
  | ProcessWrite | ProcessKill | ProcessList | ProcessInspect | DiffPreview | WebSearch
  | WebFetch | BrowserNavigate | BrowserSnapshot | BrowserClick | BrowserType | BrowserPress
  | BrowserScroll | BrowserScreenshot | BrowserTabs | BrowserViewport | BrowserWaitFor
  | BrowserHover | BrowserDrag | BrowserFillForm | BrowserDialog | BrowserUploadFile
  | BrowserClickAt | BrowserEvaluate | BrowserConsole | BrowserNetwork | BrowserEmulate
  | BrowserPerformance | BrowserLighthouse | BrowserHeap | BrowserThirdParty | BrowserWebMcp
  | BrowserPwa | BrowserRead | BrowserStorage | BrowserDownload | DiagramRender | ImageGenerate
  | KnowledgeQuery | KnowledgeGraphQuery | CodeSymbols | ToolCatalog | GitStatus | GitBranchList
  | GitBranchCreate | GitBranchSwitch | GitPull | GitPush | GitMergePreview | GitMerge
  | GitBranchDelete | GitWorktreeList | GitWorktreeCreate | GitWorktreeRemove | GetGoal
  | CreateGoal | UpdateGoal | AgentSpawn | AgentSend | AgentCancel | AgentApply | AgentWait
  | ContextSearch | ContextRead | ContextRequest | UpdatePlan | UpdateExecutionSteps
  | MemoryWrite | AskUserQuestion

definition all_tools :: "builtin_tool list" where
  "all_tools =
     [FileRead, ViewImage, FileWrite, FilePatch, ApplyPatch, FileRemove, FileMkdir, FileCopy,
      FileMove, SearchText, SearchSemantic, ShellExec, ProcessLaunch, ProcessRead, ProcessWrite,
      ProcessKill, ProcessList, ProcessInspect, DiffPreview, WebSearch, WebFetch, BrowserNavigate,
      BrowserSnapshot, BrowserClick, BrowserType, BrowserPress, BrowserScroll, BrowserScreenshot,
      BrowserTabs, BrowserViewport, BrowserWaitFor, BrowserHover, BrowserDrag, BrowserFillForm,
      BrowserDialog, BrowserUploadFile, BrowserClickAt, BrowserEvaluate, BrowserConsole,
      BrowserNetwork, BrowserEmulate, BrowserPerformance, BrowserLighthouse, BrowserHeap,
      BrowserThirdParty, BrowserWebMcp, BrowserPwa, BrowserRead, BrowserStorage, BrowserDownload,
      DiagramRender, ImageGenerate, KnowledgeQuery, KnowledgeGraphQuery, CodeSymbols, ToolCatalog,
      GitStatus, GitBranchList, GitBranchCreate, GitBranchSwitch, GitPull, GitPush,
      GitMergePreview, GitMerge, GitBranchDelete, GitWorktreeList, GitWorktreeCreate,
      GitWorktreeRemove, GetGoal, CreateGoal, UpdateGoal, AgentSpawn, AgentSend, AgentCancel,
      AgentApply, AgentWait, ContextSearch, ContextRead, ContextRequest, UpdatePlan,
      UpdateExecutionSteps, MemoryWrite, AskUserQuestion]"

primrec builtin_tool_str :: "builtin_tool \<Rightarrow> string" where
  "builtin_tool_str FileRead = ''file_read''"
| "builtin_tool_str ViewImage = ''view_image''"
| "builtin_tool_str FileWrite = ''file_write''"
| "builtin_tool_str FilePatch = ''file_patch''"
| "builtin_tool_str ApplyPatch = ''apply_patch''"
| "builtin_tool_str FileRemove = ''file_remove''"
| "builtin_tool_str FileMkdir = ''file_mkdir''"
| "builtin_tool_str FileCopy = ''file_copy''"
| "builtin_tool_str FileMove = ''file_move''"
| "builtin_tool_str SearchText = ''search_text''"
| "builtin_tool_str SearchSemantic = ''search_semantic''"
| "builtin_tool_str ShellExec = ''shell_exec''"
| "builtin_tool_str ProcessLaunch = ''process_launch''"
| "builtin_tool_str ProcessRead = ''process_read''"
| "builtin_tool_str ProcessWrite = ''process_write''"
| "builtin_tool_str ProcessKill = ''process_kill''"
| "builtin_tool_str ProcessList = ''process_list''"
| "builtin_tool_str ProcessInspect = ''process_inspect''"
| "builtin_tool_str DiffPreview = ''diff_preview''"
| "builtin_tool_str WebSearch = ''web_search''"
| "builtin_tool_str WebFetch = ''web_fetch''"
| "builtin_tool_str BrowserNavigate = ''browser_navigate''"
| "builtin_tool_str BrowserSnapshot = ''browser_snapshot''"
| "builtin_tool_str BrowserClick = ''browser_click''"
| "builtin_tool_str BrowserType = ''browser_type''"
| "builtin_tool_str BrowserPress = ''browser_press''"
| "builtin_tool_str BrowserScroll = ''browser_scroll''"
| "builtin_tool_str BrowserScreenshot = ''browser_screenshot''"
| "builtin_tool_str BrowserTabs = ''browser_tabs''"
| "builtin_tool_str BrowserViewport = ''browser_viewport''"
| "builtin_tool_str BrowserWaitFor = ''browser_wait_for''"
| "builtin_tool_str BrowserHover = ''browser_hover''"
| "builtin_tool_str BrowserDrag = ''browser_drag''"
| "builtin_tool_str BrowserFillForm = ''browser_fill_form''"
| "builtin_tool_str BrowserDialog = ''browser_dialog''"
| "builtin_tool_str BrowserUploadFile = ''browser_upload_file''"
| "builtin_tool_str BrowserClickAt = ''browser_click_at''"
| "builtin_tool_str BrowserEvaluate = ''browser_evaluate''"
| "builtin_tool_str BrowserConsole = ''browser_console''"
| "builtin_tool_str BrowserNetwork = ''browser_network''"
| "builtin_tool_str BrowserEmulate = ''browser_emulate''"
| "builtin_tool_str BrowserPerformance = ''browser_performance''"
| "builtin_tool_str BrowserLighthouse = ''browser_lighthouse''"
| "builtin_tool_str BrowserHeap = ''browser_heap''"
| "builtin_tool_str BrowserThirdParty = ''browser_third_party''"
| "builtin_tool_str BrowserWebMcp = ''browser_webmcp''"
| "builtin_tool_str BrowserPwa = ''browser_pwa''"
| "builtin_tool_str BrowserRead = ''browser_read''"
| "builtin_tool_str BrowserStorage = ''browser_storage''"
| "builtin_tool_str BrowserDownload = ''browser_download''"
| "builtin_tool_str DiagramRender = ''diagram_render''"
| "builtin_tool_str ImageGenerate = ''image_generate''"
| "builtin_tool_str KnowledgeQuery = ''knowledge_query''"
| "builtin_tool_str KnowledgeGraphQuery = ''knowledge_graph_query''"
| "builtin_tool_str CodeSymbols = ''code_symbols''"
| "builtin_tool_str ToolCatalog = ''tool_catalog''"
| "builtin_tool_str GitStatus = ''git_status''"
| "builtin_tool_str GitBranchList = ''git_branch_list''"
| "builtin_tool_str GitBranchCreate = ''git_branch_create''"
| "builtin_tool_str GitBranchSwitch = ''git_branch_switch''"
| "builtin_tool_str GitPull = ''git_pull''"
| "builtin_tool_str GitPush = ''git_push''"
| "builtin_tool_str GitMergePreview = ''git_merge_preview''"
| "builtin_tool_str GitMerge = ''git_merge''"
| "builtin_tool_str GitBranchDelete = ''git_branch_delete''"
| "builtin_tool_str GitWorktreeList = ''git_worktree_list''"
| "builtin_tool_str GitWorktreeCreate = ''git_worktree_create''"
| "builtin_tool_str GitWorktreeRemove = ''git_worktree_remove''"
| "builtin_tool_str GetGoal = ''get_goal''"
| "builtin_tool_str CreateGoal = ''create_goal''"
| "builtin_tool_str UpdateGoal = ''update_goal''"
| "builtin_tool_str AgentSpawn = ''agent_spawn''"
| "builtin_tool_str AgentSend = ''agent_send''"
| "builtin_tool_str AgentCancel = ''agent_cancel''"
| "builtin_tool_str AgentApply = ''agent_apply''"
| "builtin_tool_str AgentWait = ''agent_wait''"
| "builtin_tool_str ContextSearch = ''context_search''"
| "builtin_tool_str ContextRead = ''context_read''"
| "builtin_tool_str ContextRequest = ''context_request''"
| "builtin_tool_str UpdatePlan = ''update_plan''"
| "builtin_tool_str UpdateExecutionSteps = ''update_execution_steps''"
| "builtin_tool_str MemoryWrite = ''memory_write''"
| "builtin_tool_str AskUserQuestion = ''ask_user_question''"

definition tool_table :: "(string \<times> builtin_tool) list" where
  "tool_table =
     [(''file_read'', FileRead), (''view_image'', ViewImage), (''file_write'', FileWrite),
      (''file_patch'', FilePatch), (''apply_patch'', ApplyPatch), (''file_remove'', FileRemove),
      (''file_mkdir'', FileMkdir), (''file_copy'', FileCopy), (''file_move'', FileMove),
      (''search_text'', SearchText), (''search_semantic'', SearchSemantic),
      (''shell_exec'', ShellExec), (''process_launch'', ProcessLaunch),
      (''process_read'', ProcessRead), (''process_write'', ProcessWrite),
      (''process_kill'', ProcessKill), (''process_list'', ProcessList),
      (''process_inspect'', ProcessInspect), (''diff_preview'', DiffPreview),
      (''web_search'', WebSearch), (''web_fetch'', WebFetch),
      (''browser_navigate'', BrowserNavigate), (''browser_snapshot'', BrowserSnapshot),
      (''browser_click'', BrowserClick), (''browser_type'', BrowserType),
      (''browser_press'', BrowserPress), (''browser_scroll'', BrowserScroll),
      (''browser_screenshot'', BrowserScreenshot), (''browser_tabs'', BrowserTabs),
      (''browser_viewport'', BrowserViewport), (''browser_wait_for'', BrowserWaitFor),
      (''browser_hover'', BrowserHover), (''browser_drag'', BrowserDrag),
      (''browser_fill_form'', BrowserFillForm), (''browser_dialog'', BrowserDialog),
      (''browser_upload_file'', BrowserUploadFile), (''browser_click_at'', BrowserClickAt),
      (''browser_evaluate'', BrowserEvaluate), (''browser_console'', BrowserConsole),
      (''browser_network'', BrowserNetwork), (''browser_emulate'', BrowserEmulate),
      (''browser_performance'', BrowserPerformance), (''browser_lighthouse'', BrowserLighthouse),
      (''browser_heap'', BrowserHeap), (''browser_third_party'', BrowserThirdParty),
      (''browser_webmcp'', BrowserWebMcp), (''browser_pwa'', BrowserPwa),
      (''browser_read'', BrowserRead), (''browser_storage'', BrowserStorage),
      (''browser_download'', BrowserDownload), (''diagram_render'', DiagramRender),
      (''image_generate'', ImageGenerate), (''knowledge_query'', KnowledgeQuery),
      (''knowledge_graph_query'', KnowledgeGraphQuery), (''code_symbols'', CodeSymbols),
      (''tool_catalog'', ToolCatalog), (''git_status'', GitStatus),
      (''git_branch_list'', GitBranchList), (''git_branch_create'', GitBranchCreate),
      (''git_branch_switch'', GitBranchSwitch), (''git_pull'', GitPull), (''git_push'', GitPush),
      (''git_merge_preview'', GitMergePreview), (''git_merge'', GitMerge),
      (''git_branch_delete'', GitBranchDelete), (''git_worktree_list'', GitWorktreeList),
      (''git_worktree_create'', GitWorktreeCreate), (''git_worktree_remove'', GitWorktreeRemove),
      (''get_goal'', GetGoal), (''create_goal'', CreateGoal), (''update_goal'', UpdateGoal),
      (''agent_spawn'', AgentSpawn), (''agent_send'', AgentSend), (''agent_cancel'', AgentCancel),
      (''agent_apply'', AgentApply), (''agent_wait'', AgentWait),
      (''context_search'', ContextSearch), (''context_read'', ContextRead),
      (''context_request'', ContextRequest), (''update_plan'', UpdatePlan),
      (''update_execution_steps'', UpdateExecutionSteps), (''memory_write'', MemoryWrite),
      (''ask_user_question'', AskUserQuestion)]"

definition builtin_tool_from_name :: "string \<Rightarrow> builtin_tool option" where
  "builtin_tool_from_name name = map_of tool_table name"

definition canonical_builtin_tool_name :: "string \<Rightarrow> string option" where
  "canonical_builtin_tool_name name = map_option builtin_tool_str (builtin_tool_from_name (str_trim name))"

datatype browser_tool_kind =
    KindNavigate | KindSnapshot | KindClick | KindType | KindPress | KindScroll | KindScreenshot
  | KindTabs | KindViewport | KindWaitFor | KindHover | KindDrag | KindFillForm | KindDialog
  | KindUploadFile | KindClickAt | KindEvaluate | KindConsole | KindNetwork | KindEmulate
  | KindPerformance | KindLighthouse | KindHeap | KindThirdParty | KindWebMcp | KindPwa
  | KindRead | KindStorage | KindDownload

definition browser_kind_table :: "(string \<times> browser_tool_kind) list" where
  "browser_kind_table =
     [(''browser_navigate'', KindNavigate), (''browser_snapshot'', KindSnapshot),
      (''browser_click'', KindClick), (''browser_type'', KindType), (''browser_press'', KindPress),
      (''browser_scroll'', KindScroll), (''browser_screenshot'', KindScreenshot),
      (''browser_tabs'', KindTabs), (''browser_viewport'', KindViewport),
      (''browser_wait_for'', KindWaitFor), (''browser_hover'', KindHover),
      (''browser_drag'', KindDrag), (''browser_fill_form'', KindFillForm),
      (''browser_dialog'', KindDialog), (''browser_upload_file'', KindUploadFile),
      (''browser_click_at'', KindClickAt), (''browser_evaluate'', KindEvaluate),
      (''browser_console'', KindConsole), (''browser_network'', KindNetwork),
      (''browser_emulate'', KindEmulate), (''browser_performance'', KindPerformance),
      (''browser_lighthouse'', KindLighthouse), (''browser_heap'', KindHeap),
      (''browser_third_party'', KindThirdParty), (''browser_webmcp'', KindWebMcp),
      (''browser_pwa'', KindPwa), (''browser_read'', KindRead), (''browser_storage'', KindStorage),
      (''browser_download'', KindDownload)]"

definition browser_tool_kind_from_name :: "string \<Rightarrow> browser_tool_kind option" where
  "browser_tool_kind_from_name name = map_of browser_kind_table name"

definition browser_tool_kind_of :: "builtin_tool \<Rightarrow> browser_tool_kind option" where
  "browser_tool_kind_of t = browser_tool_kind_from_name (builtin_tool_str t)"

definition category :: "builtin_tool \<Rightarrow> string" where
  "category t =
     (if t \<in> {FileRead, ViewImage, FileWrite, FilePatch, ApplyPatch, FileRemove, FileMkdir,
               FileCopy, FileMove}
      then ''filesystem''
      else if t \<in> {SearchText, SearchSemantic, CodeSymbols}
      then ''code_navigation''
      else if t \<in> {ShellExec, ProcessLaunch, ProcessRead, ProcessWrite, ProcessKill, ProcessList,
               ProcessInspect}
      then ''process''
      else if t \<in> {DiffPreview}
      then ''diff''
      else if t \<in> {WebSearch, WebFetch}
      then ''web''
      else if t \<in> {BrowserNavigate, BrowserSnapshot, BrowserClick, BrowserType, BrowserPress,
               BrowserScroll, BrowserScreenshot, BrowserTabs, BrowserViewport, BrowserWaitFor,
               BrowserHover, BrowserDrag, BrowserFillForm, BrowserDialog, BrowserUploadFile,
               BrowserClickAt, BrowserEvaluate, BrowserConsole, BrowserNetwork, BrowserEmulate,
               BrowserPerformance, BrowserLighthouse, BrowserHeap, BrowserThirdParty,
               BrowserWebMcp, BrowserPwa, BrowserRead, BrowserStorage, BrowserDownload}
      then ''browser''
      else if t \<in> {DiagramRender, ImageGenerate}
      then ''visualization''
      else if t \<in> {KnowledgeQuery, KnowledgeGraphQuery}
      then ''knowledge''
      else if t \<in> {ToolCatalog}
      then ''tooling''
      else if t \<in> {GitStatus, GitBranchList, GitBranchCreate, GitBranchSwitch, GitPull, GitPush,
               GitMergePreview, GitMerge, GitBranchDelete, GitWorktreeList, GitWorktreeCreate,
               GitWorktreeRemove}
      then ''git''
      else if t \<in> {GetGoal, CreateGoal, UpdateGoal}
      then ''session_goal''
      else if t \<in> {AgentSpawn, AgentSend, AgentCancel, AgentApply, AgentWait, ContextSearch,
               ContextRead, ContextRequest}
      then ''agent_coordination''
      else if t \<in> {UpdatePlan, UpdateExecutionSteps, AskUserQuestion}
      then ''session_state''
      else ''project_memory'')"

section \<open>Who may call a tool\<close>

datatype model_scope =
    SessionOrTask
  | TaskOnly
  | SessionMainlineOrCoordinatorTask
  | CoordinatorTaskOnly
  | DelegatorTaskOnly
  | WorkerTaskOnly
  | RuntimeOnly

definition model_scope_str :: "model_scope \<Rightarrow> string" where
  "model_scope_str s =
     (case s of
        SessionOrTask \<Rightarrow> ''session_or_task''
      | TaskOnly \<Rightarrow> ''task_only''
      | SessionMainlineOrCoordinatorTask \<Rightarrow> ''session_mainline_or_coordinator_task''
      | CoordinatorTaskOnly \<Rightarrow> ''coordinator_task_only''
      | DelegatorTaskOnly \<Rightarrow> ''delegator_task_only''
      | WorkerTaskOnly \<Rightarrow> ''worker_task_only''
      | RuntimeOnly \<Rightarrow> ''runtime_only_use_shell_exec'')"

definition model_scope_allows :: "model_scope \<Rightarrow> bool \<Rightarrow> bool \<Rightarrow> bool \<Rightarrow> bool" where
  "model_scope_allows s has_task is_root_coordinator can_delegate =
     (case s of
        SessionOrTask \<Rightarrow> True
      | TaskOnly \<Rightarrow> has_task
      | SessionMainlineOrCoordinatorTask \<Rightarrow> \<not> has_task \<or> is_root_coordinator
      | CoordinatorTaskOnly \<Rightarrow> has_task \<and> is_root_coordinator
      | DelegatorTaskOnly \<Rightarrow> has_task \<and> can_delegate
      | WorkerTaskOnly \<Rightarrow> has_task \<and> \<not> is_root_coordinator
      | RuntimeOnly \<Rightarrow> False)"

definition model_call_scope :: "builtin_tool \<Rightarrow> model_scope" where
  "model_call_scope t =
     (if t \<in> {AgentSpawn, AgentSend, AgentCancel, AgentWait, AgentApply}
      then DelegatorTaskOnly
      else if t \<in> {MemoryWrite}
      then CoordinatorTaskOnly
      else if t \<in> {ContextSearch, ContextRead, ContextRequest}
      then WorkerTaskOnly
      else if t \<in> {GetGoal, CreateGoal, UpdateGoal, UpdatePlan, GitBranchCreate, GitBranchSwitch,
               GitPull, GitPush, GitMergePreview, GitMerge, GitBranchDelete, GitWorktreeCreate,
               GitWorktreeRemove}
      then SessionMainlineOrCoordinatorTask
      else if t \<in> {AskUserQuestion, UpdateExecutionSteps}
      then TaskOnly
      else if t \<in> {ProcessLaunch, ProcessRead, ProcessWrite, ProcessKill, ProcessList}
      then RuntimeOnly
      else SessionOrTask)"

definition is_public_tool_surface :: "builtin_tool \<Rightarrow> bool" where
  "is_public_tool_surface t \<longleftrightarrow>
     t \<notin> {ProcessLaunch, ProcessRead, ProcessWrite, ProcessKill, ProcessList}"

definition is_runtime_internal_tool_call :: "builtin_tool \<Rightarrow> bool" where
  "is_runtime_internal_tool_call t \<longleftrightarrow>
     t \<in> {ProcessLaunch, ProcessRead, ProcessWrite, ProcessKill, ProcessList, AgentSpawn,
           AgentSend, AgentCancel, AgentWait, ContextSearch, ContextRead, ContextRequest, GetGoal,
           CreateGoal, UpdateGoal, UpdatePlan, UpdateExecutionSteps, MemoryWrite}"

definition is_session_timeline_renderable_tool_call :: "builtin_tool \<Rightarrow> bool" where
  "is_session_timeline_renderable_tool_call t \<longleftrightarrow> t = AgentSpawn \<or> \<not> is_runtime_internal_tool_call t"

definition is_public_builtin_tool_surface :: "string \<Rightarrow> bool" where
  "is_public_builtin_tool_surface name =
     (case builtin_tool_from_name name of None \<Rightarrow> False | Some t \<Rightarrow> is_public_tool_surface t)"

definition is_internal_builtin_tool_surface :: "string \<Rightarrow> bool" where
  "is_internal_builtin_tool_surface name =
     (case builtin_tool_from_name name of None \<Rightarrow> False | Some t \<Rightarrow> \<not> is_public_tool_surface t)"

section \<open>What a tool needs and does\<close>

definition requires_workspace_context :: "builtin_tool \<Rightarrow> bool" where
  "requires_workspace_context t \<longleftrightarrow>
     t \<in> {AgentApply, SearchSemantic, KnowledgeQuery, KnowledgeGraphQuery, CodeSymbols, MemoryWrite}"

definition requires_repository :: "builtin_tool \<Rightarrow> bool" where
  "requires_repository t \<longleftrightarrow>
     t \<in> {GitStatus, GitBranchList, GitBranchCreate, GitBranchSwitch, GitPull, GitPush,
           GitMergePreview, GitMerge, GitBranchDelete, GitWorktreeList, GitWorktreeCreate,
           GitWorktreeRemove}"

definition requires_execution_directory :: "builtin_tool \<Rightarrow> bool" where
  "requires_execution_directory t \<longleftrightarrow>
     requires_workspace_context t \<or> requires_repository t \<or>
     t \<in> {FileRead, ViewImage, FileWrite, FilePatch, ApplyPatch, FileRemove, FileMkdir, FileCopy,
           FileMove, SearchText, ShellExec, ProcessLaunch, ProcessRead, ProcessWrite, ProcessKill,
           ProcessList, ProcessInspect, DiffPreview, ImageGenerate, SearchSemantic,
           KnowledgeGraphQuery, CodeSymbols}"

definition is_write_operation :: "builtin_tool \<Rightarrow> bool" where
  "is_write_operation t \<longleftrightarrow>
     t \<in> {FileWrite, FilePatch, ApplyPatch, AgentApply, FileRemove, FileMkdir, FileCopy, FileMove,
           ImageGenerate, GitBranchCreate, GitBranchSwitch, GitPull, GitPush, GitMerge,
           GitBranchDelete, GitWorktreeCreate, GitWorktreeRemove, AgentSpawn, AgentSend,
           AgentCancel, ContextRequest, CreateGoal, UpdateGoal, UpdatePlan, UpdateExecutionSteps,
           MemoryWrite, BrowserClick, BrowserType, BrowserPress, BrowserScroll, BrowserTabs,
           BrowserViewport, BrowserHover, BrowserDrag, BrowserFillForm, BrowserDialog,
           BrowserUploadFile, BrowserClickAt, BrowserEvaluate, BrowserEmulate, BrowserThirdParty,
           BrowserWebMcp}"

definition is_idempotent_read_operation :: "builtin_tool \<Rightarrow> bool" where
  "is_idempotent_read_operation t \<longleftrightarrow>
     t \<in> {FileRead, ViewImage, SearchText, SearchSemantic, DiffPreview, WebSearch, WebFetch,
           KnowledgeQuery, KnowledgeGraphQuery, CodeSymbols, ToolCatalog, GitStatus, GitBranchList,
           GitMergePreview, GitWorktreeList, ContextSearch, ContextRead}"

definition mutates_workspace_files :: "builtin_tool \<Rightarrow> bool" where
  "mutates_workspace_files t \<longleftrightarrow>
     t \<in> {FileWrite, FilePatch, ApplyPatch, AgentApply, FileRemove, FileMkdir, FileCopy, FileMove,
           ImageGenerate, GitBranchCreate, GitBranchSwitch, GitPull, GitMerge, GitBranchDelete,
           GitWorktreeCreate, GitWorktreeRemove}"

definition is_access_profile_write_operation :: "builtin_tool \<Rightarrow> bool" where
  "is_access_profile_write_operation t \<longleftrightarrow>
     mutates_workspace_files t \<or>
     t \<in> {MemoryWrite, ProcessLaunch, ProcessWrite, ProcessKill, GitPush}"

definition captures_workspace_changes :: "builtin_tool \<Rightarrow> bool" where
  "captures_workspace_changes t \<longleftrightarrow> mutates_workspace_files t \<or> t = ShellExec"

definition is_background_process_observation :: "(string \<Rightarrow> json option) \<Rightarrow> builtin_tool \<Rightarrow> string \<Rightarrow> bool" where
  "is_background_process_observation parse t arguments \<longleftrightarrow>
     t = ShellExec \<and>
     (case Option.bind (parse arguments) (\<lambda>v. Option.bind (json_get ''action'' v) json_str) of
        None \<Rightarrow> False | Some a \<Rightarrow> a \<in> {''read'', ''wait'', ''list''})"

definition prepared_tools :: "builtin_tool \<Rightarrow> bool" where
  "prepared_tools t \<longleftrightarrow>
     t \<in> {AgentSpawn, AgentApply, ImageGenerate, ProcessLaunch, ProcessWrite, ProcessKill,
           GitStatus, GitBranchList, GitBranchCreate, GitBranchSwitch, GitPull, GitPush,
           GitMergePreview, GitMerge, GitBranchDelete, GitWorktreeList, GitWorktreeCreate,
           GitWorktreeRemove}"

definition requires_workspace_execution_preparation ::
    "(string \<Rightarrow> json option) \<Rightarrow> builtin_tool \<Rightarrow> string \<Rightarrow> bool" where
  "requires_workspace_execution_preparation parse t arguments \<longleftrightarrow>
     \<not> is_background_process_observation parse t arguments \<and> (captures_workspace_changes t \<or> prepared_tools t)"

section \<open>Access modes\<close>

datatype tool_access_mode = AccessReadOnly | MaybeWrite | ExplicitWrite

definition access_mode_str :: "tool_access_mode \<Rightarrow> string" where
  "access_mode_str m =
     (case m of AccessReadOnly \<Rightarrow> ''read_only'' | MaybeWrite \<Rightarrow> ''maybe_write'' | ExplicitWrite \<Rightarrow> ''explicit_write'')"

definition is_writeful :: "tool_access_mode \<Rightarrow> bool" where
  "is_writeful m = (m \<noteq> AccessReadOnly)"

definition access_mode_from_str :: "string \<Rightarrow> tool_access_mode option" where
  "access_mode_from_str value =
     (let s = ascii_lower value
      in if s \<in> {''read'', ''read_only'', ''readonly''} then Some AccessReadOnly
         else if s \<in> {''maybe'', ''maybe_write'', ''maybewrite''} then Some MaybeWrite
         else if s \<in> {''write'', ''explicit_write'', ''explicitwrite''} then Some ExplicitWrite
         else None)"

definition default_access_mode :: "builtin_tool \<Rightarrow> tool_access_mode" where
  "default_access_mode t =
     (if browser_tool_kind_of t \<noteq> None then AccessReadOnly
      else if t \<in> {ShellExec, ProcessLaunch, ProcessWrite, ProcessKill} then MaybeWrite
      else if is_write_operation t then ExplicitWrite
      else AccessReadOnly)"

datatype restricted_write_policy = AutoAllowed

definition restricted_write_profile_policy :: "builtin_tool \<Rightarrow> restricted_write_policy option" where
  "restricted_write_profile_policy t =
     (if t \<in> {FileWrite, FilePatch, ApplyPatch, AgentApply, FileRemove, FileMkdir, FileCopy,
               FileMove, ImageGenerate, GitBranchCreate, GitBranchSwitch, GitPull, GitPush,
               GitMerge, GitBranchDelete, GitWorktreeCreate, GitWorktreeRemove, AgentSpawn,
               AgentSend, AgentCancel, ContextRequest, CreateGoal, UpdateGoal, UpdatePlan,
               UpdateExecutionSteps, MemoryWrite, AskUserQuestion, BrowserClick, BrowserType,
               BrowserPress, BrowserScroll, BrowserTabs, BrowserViewport, BrowserHover,
               BrowserDrag, BrowserFillForm, BrowserDialog, BrowserUploadFile, BrowserClickAt,
               BrowserEvaluate, BrowserEmulate, BrowserThirdParty, BrowserWebMcp}
      then Some AutoAllowed else None)"

definition register_tool :: "builtin_tool \<Rightarrow> permission_engine \<Rightarrow> permission_engine" where
  "register_tool t e =
     (case default_access_mode t of
        AccessReadOnly \<Rightarrow> register_read_only_tool (builtin_tool_str t) e
      | ExplicitWrite \<Rightarrow>
          if restricted_write_profile_policy t = Some AutoAllowed
          then register_restricted_auto_write_tool (builtin_tool_str t) e else e
      | MaybeWrite \<Rightarrow> e)"

definition builtin_permission_engine :: permission_engine where
  "builtin_permission_engine = fold register_tool all_tools permission_engine_default"

section \<open>Risk and approval\<close>

datatype risk_level = RiskLow | RiskMedium | RiskHigh

datatype approval_requirement = ApprovalNotRequired | ApprovalRequired

definition default_risk_level :: "builtin_tool \<Rightarrow> risk_level" where
  "default_risk_level t =
     (if t \<in> {FileRead, ViewImage, FileMkdir, SearchText, SearchSemantic, ProcessRead,
               ProcessList, DiffPreview, WebSearch, WebFetch, DiagramRender, KnowledgeQuery,
               KnowledgeGraphQuery, CodeSymbols, ToolCatalog, GitStatus, GitBranchList,
               GitMergePreview, GitWorktreeList, GetGoal, CreateGoal, UpdateGoal, AgentSend,
               AgentCancel, AgentWait, ContextSearch, ContextRead, ContextRequest, UpdatePlan,
               UpdateExecutionSteps, MemoryWrite, AskUserQuestion, BrowserNavigate,
               BrowserSnapshot, BrowserScreenshot, BrowserViewport, BrowserWaitFor, BrowserConsole,
               BrowserNetwork, BrowserPerformance, BrowserLighthouse, BrowserHeap, BrowserPwa,
               BrowserRead}
      then RiskLow
      else if t \<in> {FileWrite, FilePatch, ApplyPatch, AgentApply, FileCopy, FileMove, ImageGenerate,
               GitBranchCreate, GitBranchSwitch, GitWorktreeCreate, ProcessWrite, AgentSpawn,
               BrowserClick, BrowserType, BrowserPress, BrowserScroll, BrowserTabs, BrowserHover,
               BrowserDrag, BrowserFillForm, BrowserDialog, BrowserUploadFile, BrowserClickAt,
               BrowserEvaluate, BrowserThirdParty, BrowserWebMcp, BrowserEmulate, BrowserStorage,
               BrowserDownload}
      then RiskMedium
      else if t \<in> {FileRemove, ShellExec, ProcessLaunch, GitPull, GitPush, GitMerge, GitBranchDelete,
               GitWorktreeRemove}
      then RiskHigh
      else RiskMedium)"

definition default_approval_requirement :: "builtin_tool \<Rightarrow> approval_requirement" where
  "default_approval_requirement t =
     (if t \<in> {FileRemove, ShellExec, ProcessLaunch, GitBranchCreate, GitBranchSwitch, GitPull,
               GitPush, GitMerge, GitBranchDelete, GitWorktreeCreate, GitWorktreeRemove}
      then ApprovalRequired
      else ApprovalNotRequired)"

record invocation_policy =
  ip_risk_level :: risk_level
  ip_approval_requirement :: approval_requirement

definition low_risk_policy :: invocation_policy where
  "low_risk_policy = \<lparr>ip_risk_level = RiskLow, ip_approval_requirement = ApprovalNotRequired\<rparr>"

definition medium_risk_policy :: invocation_policy where
  "medium_risk_policy = \<lparr>ip_risk_level = RiskMedium, ip_approval_requirement = ApprovalNotRequired\<rparr>"

definition high_risk_approval_policy :: invocation_policy where
  "high_risk_approval_policy = \<lparr>ip_risk_level = RiskHigh, ip_approval_requirement = ApprovalRequired\<rparr>"

definition json_field_string :: "(string \<times> json) list \<Rightarrow> string \<Rightarrow> string option" where
  "json_field_string fs key = Option.bind (hget fs key) json_str"

definition shell_exec_invocation_policy :: "(string \<Rightarrow> json option) \<Rightarrow> string \<Rightarrow> invocation_policy" where
  "shell_exec_invocation_policy parse input =
     (case json_object parse input of
        None \<Rightarrow> medium_risk_policy
      | Some fs \<Rightarrow>
          let run =
            (case Option.bind (json_field_string fs ''access_mode'') access_mode_from_str of
               Some AccessReadOnly \<Rightarrow>
                 if shell_arguments_request_read_only parse input then low_risk_policy else medium_risk_policy
             | _ \<Rightarrow> medium_risk_policy)
          in case json_field_string fs ''action'' of
               None \<Rightarrow> run
             | Some a \<Rightarrow>
                 if a \<in> {''read'', ''wait'', ''list'', ''kill''} then low_risk_policy
                 else if a = ''run'' then run
                 else medium_risk_policy)"

definition file_remove_invocation_policy :: "(string \<Rightarrow> json option) \<Rightarrow> string \<Rightarrow> invocation_policy" where
  "file_remove_invocation_policy parse input =
     (case json_object parse input of
        None \<Rightarrow> medium_risk_policy
      | Some fs \<Rightarrow>
          (case json_field_string fs ''path'' of
             None \<Rightarrow> medium_risk_policy
           | Some p \<Rightarrow> if is_blank p then medium_risk_policy else high_risk_approval_policy))"

definition invocation_policy_for_input ::
    "(string \<Rightarrow> json option) \<Rightarrow> builtin_tool \<Rightarrow> string \<Rightarrow> invocation_policy" where
  "invocation_policy_for_input parse t input =
     (if t = ShellExec then shell_exec_invocation_policy parse input
      else if t = FileRemove then file_remove_invocation_policy parse input
      else \<lparr>ip_risk_level = default_risk_level t,
            ip_approval_requirement = default_approval_requirement t\<rparr>)"

definition uses_input_sensitive_invocation_policy :: "builtin_tool \<Rightarrow> bool" where
  "uses_input_sensitive_invocation_policy t \<longleftrightarrow>
     t \<in> {ShellExec, FileRemove, BrowserEvaluate, BrowserStorage, BrowserWebMcp}"

section \<open>Names and tools\<close>

lemma tool_table_names: "tool_table = map (\<lambda>t. (builtin_tool_str t, t)) all_tools"
  by (simp add: tool_table_def all_tools_def)

lemma tool_names_distinct: "distinct (map builtin_tool_str all_tools)"
  by (simp add: all_tools_def)

lemma all_tools_complete: "t \<in> set all_tools"
  by (cases t) (simp_all add: all_tools_def)

lemma set_all_tools: "set all_tools = UNIV"
  using all_tools_complete by auto

lemma map_of_named: "inj_on f (set xs) \<Longrightarrow> t \<in> set xs \<Longrightarrow> map_of (map (\<lambda>t. (f t, t)) xs) (f t) = Some t"
  by (induction xs) (auto simp: inj_on_def)

lemma from_name_str [simp]: "builtin_tool_from_name (builtin_tool_str t) = Some t"
  using tool_names_distinct all_tools_complete
  by (simp add: builtin_tool_from_name_def tool_table_names distinct_map map_of_named)

lemma from_name_SomeD: "builtin_tool_from_name name = Some t \<Longrightarrow> name = builtin_tool_str t"
  unfolding builtin_tool_from_name_def tool_table_names by (auto dest: map_of_SomeD)

lemma str_inject [simp]: "builtin_tool_str t = builtin_tool_str u \<longleftrightarrow> t = u"
  by (metis from_name_str option.inject)

text \<open>What the tables say of one tool fits together.\<close>

lemma internal_tools_not_for_models: "\<not> is_public_tool_surface t \<longleftrightarrow> model_call_scope t = RuntimeOnly"
  by (cases t) (simp_all add: is_public_tool_surface_def model_call_scope_def)

lemma cached_tools_change_nothing:
  "is_idempotent_read_operation t \<Longrightarrow> \<not> is_write_operation t \<and> \<not> is_access_profile_write_operation t"
  by (cases t) (simp_all add: is_idempotent_read_operation_def is_write_operation_def
      is_access_profile_write_operation_def mutates_workspace_files_def)

definition browser_tools :: "builtin_tool list" where
  "browser_tools =
     [BrowserNavigate, BrowserSnapshot, BrowserClick, BrowserType, BrowserPress, BrowserScroll, BrowserScreenshot,
      BrowserTabs, BrowserViewport, BrowserWaitFor, BrowserHover, BrowserDrag, BrowserFillForm, BrowserDialog,
      BrowserUploadFile, BrowserClickAt, BrowserEvaluate, BrowserConsole, BrowserNetwork, BrowserEmulate,
      BrowserPerformance, BrowserLighthouse, BrowserHeap, BrowserThirdParty, BrowserWebMcp, BrowserPwa, BrowserRead,
      BrowserStorage, BrowserDownload]"

lemma browser_kind_names: "map fst browser_kind_table = map builtin_tool_str browser_tools"
  by (simp add: browser_kind_table_def browser_tools_def)

lemma browser_kinds: "browser_tool_kind_of t = None \<longleftrightarrow> t \<notin> set browser_tools"
proof -
  have "fst ` set browser_kind_table = builtin_tool_str ` set browser_tools"
    using browser_kind_names by (metis set_map)
  then show ?thesis
    unfolding browser_tool_kind_of_def browser_tool_kind_from_name_def map_of_eq_None_iff by auto
qed

lemma browser_category: "category t = ''browser'' \<longleftrightarrow> t \<in> set browser_tools"
  by (cases t) (simp_all add: category_def browser_tools_def)

lemma default_mode_of_writers:
  "is_access_profile_write_operation t \<Longrightarrow> is_writeful (default_access_mode t)"
  by (cases t) (simp_all add: is_access_profile_write_operation_def mutates_workspace_files_def is_writeful_def
      default_access_mode_def browser_kinds browser_tools_def is_write_operation_def)

lemma default_policy_of_high_risk:
  "default_risk_level t = RiskHigh \<Longrightarrow> default_approval_requirement t = ApprovalRequired"
  by (cases t) (simp_all add: default_risk_level_def default_approval_requirement_def)

section \<open>The engine that knows the tools\<close>

definition restricted_automatic :: "builtin_tool \<Rightarrow> bool" where
  "restricted_automatic t \<longleftrightarrow>
     default_access_mode t = ExplicitWrite \<and> restricted_write_profile_policy t = Some AutoAllowed"

lemma engine_of_tools:
  "pe_restricted_auto_write_tools (fold register_tool ts e) =
     pe_restricted_auto_write_tools e \<union> builtin_tool_str ` {t \<in> set ts. restricted_automatic t}"
  by (induction ts arbitrary: e)
    (auto simp: register_tool_def restricted_automatic_def register_read_only_tool_def
      register_restricted_auto_write_tool_def split: tool_access_mode.splits)

lemma builtin_engine_automatic [simp]:
  "is_restricted_auto_write_tool builtin_permission_engine (builtin_tool_str t) = restricted_automatic t"
  by (auto simp: is_restricted_auto_write_tool_def builtin_permission_engine_def engine_of_tools
      set_all_tools permission_engine_default_def)

lemma restricted_asks_for:
  "is_access_profile_write_operation t \<and> \<not> restricted_automatic t \<longleftrightarrow> t \<in> {ProcessLaunch, ProcessWrite, ProcessKill}"
  by (cases t) (simp_all add: is_access_profile_write_operation_def mutates_workspace_files_def
      restricted_automatic_def default_access_mode_def browser_kinds browser_tools_def is_write_operation_def
      restricted_write_profile_policy_def)

end
