(* ===== verification/ToolPaths.thy ===== *)
theory ToolPaths
  imports ToolNames
begin

text \<open>
  Paths of tool calls (\<open>magi-tool-runtime/src/policy.rs\<close>, \<open>builtin.rs\<close>,
  \<open>magi-core/src/host_path.rs\<close>): how a text becomes the path that is checked and the path that is
  used, the directories of a policy, and the decision on one access.

  A \<open>PathBuf\<close> is its text; two are the same when their components are.  \<open>canonicalize\<close> of the
  file system is the argument \<open>canon\<close>, base64 and the JSON parser are arguments too.  Paths are
  those of a Unix system.
\<close>

section \<open>Order of paths\<close>

fun component_key :: "path_component \<Rightarrow> nat \<times> string" where
  "component_key RootDir = (0, [])"
| "component_key CurDir = (1, [])"
| "component_key ParentDir = (2, [])"
| "component_key (Normal w) = (3, w)"

lemma component_key_inject [simp]: "component_key a = component_key b \<longleftrightarrow> a = b"
  by (cases a; cases b) simp_all

instantiation path_component :: linorder
begin

definition less_eq_path_component :: "path_component \<Rightarrow> path_component \<Rightarrow> bool" where
  "less_eq_path_component a b \<longleftrightarrow> component_key a \<le> component_key b"

definition less_path_component :: "path_component \<Rightarrow> path_component \<Rightarrow> bool" where
  "less_path_component a b \<longleftrightarrow> component_key a < component_key b"

instance
proof
  fix x y z :: path_component
  show "(x < y) = (x \<le> y \<and> \<not> y \<le> x)"
    unfolding less_eq_path_component_def less_path_component_def by (rule less_le_not_le)
  show "x \<le> x" unfolding less_eq_path_component_def by (rule order_refl)
  show "x \<le> z" if "x \<le> y" "y \<le> z" using that unfolding less_eq_path_component_def by (rule order_trans)
  show "x = y" if "x \<le> y" "y \<le> x"
    using that unfolding less_eq_path_component_def by (metis component_key_inject order_antisym)
  show "x \<le> y \<or> y \<le> x" unfolding less_eq_path_component_def by (rule linear)
qed

end

section \<open>Texts of paths\<close>

definition path_join :: "string \<Rightarrow> string \<Rightarrow> string" where
  "path_join base p =
     (if path_is_absolute p then p
      else if base = [] then p
      else if suffix ''/'' base then base @ p
      else base @ ''/'' @ p)"

fun component_str :: "path_component \<Rightarrow> string" where
  "component_str RootDir = ''/''"
| "component_str CurDir = ''.''"
| "component_str ParentDir = ''..''"
| "component_str (Normal w) = w"

fun path_of_components :: "path_component list \<Rightarrow> string" where
  "path_of_components (RootDir # cs) = ''/'' @ str_join ''/'' (map component_str cs)"
| "path_of_components cs = str_join ''/'' (map component_str cs)"

text \<open>The components pushed so far are the first argument, the last one first.\<close>

fun normalize_components :: "path_component list \<Rightarrow> path_component list \<Rightarrow> path_component list" where
  "normalize_components acc [] = rev acc"
| "normalize_components acc (CurDir # cs) = normalize_components acc cs"
| "normalize_components acc (ParentDir # cs) =
     normalize_components (case acc of Normal _ # rest \<Rightarrow> rest | _ \<Rightarrow> acc) cs"
| "normalize_components acc (c # cs) = normalize_components (c # acc) cs"

definition normalize_permission_path :: "string \<Rightarrow> string" where
  "normalize_permission_path p = path_of_components (normalize_components [] (path_components p))"

text \<open>The components of the ancestor, the last one first; those taken off it.\<close>

fun canonicalize_existing_permission_ancestor ::
    "(string \<Rightarrow> string option) \<Rightarrow> path_component list \<Rightarrow> string list \<Rightarrow> string option" where
  "canonicalize_existing_permission_ancestor canon cs missing =
     (case canon (path_of_components (rev cs)) of
        Some c \<Rightarrow> Some (normalize_permission_path (foldl path_join (normalize_permission_path c) missing))
      | None \<Rightarrow>
          (case cs of
             Normal w # rest \<Rightarrow> canonicalize_existing_permission_ancestor canon rest (w # missing)
           | _ \<Rightarrow> None))"

definition canonicalize_tool_permission_path :: "(string \<Rightarrow> string option) \<Rightarrow> string \<Rightarrow> string" where
  "canonicalize_tool_permission_path canon p =
     (let lexical = normalize_permission_path p
      in case canon lexical of
           Some c \<Rightarrow> normalize_permission_path c
         | None \<Rightarrow>
             (case canonicalize_existing_permission_ancestor canon (rev (path_components lexical)) [] of
                Some r \<Rightarrow> r
              | None \<Rightarrow> lexical))"

section \<open>The path that is checked\<close>

definition resolve_tool_path ::
    "externals \<Rightarrow> (string \<Rightarrow> string option) \<Rightarrow> string \<Rightarrow> string option \<Rightarrow> string" where
  "resolve_tool_path ext canon path root =
     (case (if prefix ''mhp1:'' path then decode_native_path ext path else None) of
        Some decoded \<Rightarrow> canonicalize_tool_permission_path canon decoded
      | None \<Rightarrow>
          canonicalize_tool_permission_path canon
            (if path_is_absolute path then path
             else case root of Some r \<Rightarrow> path_join r path | None \<Rightarrow> path))"

definition normalize_tool_policy_paths ::
    "externals \<Rightarrow> (string \<Rightarrow> string option) \<Rightarrow> string list \<Rightarrow> string option \<Rightarrow> string list" where
  "normalize_tool_policy_paths ext canon paths root =
     List.map_filter
       (\<lambda>p. let t = str_trim p in if t = [] then None else Some (resolve_tool_path ext canon t root)) paths"

definition effective_tool_policy_allowed_paths ::
    "externals \<Rightarrow> (string \<Rightarrow> string option) \<Rightarrow> access_profile \<Rightarrow> string list \<Rightarrow> string option \<Rightarrow> string list" where
  "effective_tool_policy_allowed_paths ext canon profile allowed root =
     (let normalized = normalize_tool_policy_paths ext canon allowed root
      in if normalized \<noteq> [] \<or> profile = FullAccess then normalized
         else case root of Some r \<Rightarrow> [canonicalize_tool_permission_path canon r] | None \<Rightarrow> [])"

section \<open>The path that is used\<close>

datatype host_path_error = InvalidPathRef | RelativePathRequiresBase | HomeDirectoryUnavailable

definition resolve_native_input ::
    "externals \<Rightarrow> string \<Rightarrow> string option \<Rightarrow> string option \<Rightarrow> host_path_error + string" where
  "resolve_native_input ext input base home =
     (let trimmed = str_trim input;
          under_home = (\<lambda>rest. case home of None \<Rightarrow> Inl HomeDirectoryUnavailable | Some h \<Rightarrow> Inr (path_join h rest))
      in if prefix ''mhp1:'' trimmed
         then (case decode_native_path ext trimmed of None \<Rightarrow> Inl InvalidPathRef | Some p \<Rightarrow> Inr p)
         else
           (case (if trimmed = ''~'' then (case home of None \<Rightarrow> Inl HomeDirectoryUnavailable | Some h \<Rightarrow> Inr h)
                  else if prefix ''~/'' trimmed \<or> prefix [CHR ''~'', CHR 0x5C] trimmed
                  then under_home (drop 2 trimmed)
                  else Inr trimmed) of
              Inl e \<Rightarrow> Inl e
            | Inr p \<Rightarrow>
                if path_is_absolute p then Inr p
                else case base of None \<Rightarrow> Inl RelativePathRequiresBase | Some b \<Rightarrow> Inr (path_join b p)))"

datatype path_resolve_error = WorkingDirectoryUnavailable | InvalidPath host_path_error

text \<open>\<open>cwd\<close> is the working directory of the call, or that of the process.\<close>

definition resolve_path_with_context ::
    "externals \<Rightarrow> string \<Rightarrow> string option \<Rightarrow> string option \<Rightarrow> path_resolve_error + string" where
  "resolve_path_with_context ext input cwd home =
     (case cwd of
        None \<Rightarrow> Inl WorkingDirectoryUnavailable
      | Some d \<Rightarrow>
          let trimmed = str_trim input
          in if trimmed = [] \<or> list_all (\<lambda>c. c = CurDir) (path_components trimmed) then Inr d
             else map_sum InvalidPath id (resolve_native_input ext trimmed (Some d) home))"

section \<open>The decision on one access\<close>

record path_access_request =
  pr_absolute_path :: string
  pr_kind :: path_access_kind

definition uses_default_workspace_scope :: "permission_policy \<Rightarrow> string list \<Rightarrow> bool" where
  "uses_default_workspace_scope policy explicit \<longleftrightarrow> list_all is_blank explicit \<and> pp_allowed_paths policy \<noteq> []"

definition path_access_policy ::
    "permission_policy \<Rightarrow> string \<Rightarrow> path_access_kind \<Rightarrow> string list \<Rightarrow> permission_policy" where
  "path_access_policy policy tool_name kind explicit =
     (if kind = ReadAccess \<and> tool_name \<noteq> builtin_tool_str BrowserUploadFile \<and>
         uses_default_workspace_scope policy explicit
      then policy\<lparr>pp_allowed_paths := []\<rparr>
      else policy)"

definition decide_tool_path_access ::
    "permission_policy \<Rightarrow> string \<Rightarrow> path_access_request \<Rightarrow> string list \<Rightarrow> access_profile \<Rightarrow> permission_decision" where
  "decide_tool_path_access policy tool_name r explicit profile =
     (if \<not> uses_default_workspace_scope policy explicit
      then decide_path (pr_absolute_path r) (pr_kind r) policy profile
      else
        let decision = decide_path (pr_absolute_path r) (pr_kind r) (policy\<lparr>pp_allowed_paths := []\<rparr>) profile;
            sends_outside = (tool_name = builtin_tool_str BrowserUploadFile)
        in if \<not> is_allow decision \<or> list_ex (path_is_within (pr_absolute_path r)) (pp_allowed_paths policy)
           then decision
           else if pr_kind r = ReadAccess \<and> \<not> sends_outside then decision
           else if profile = Restricted then NeedsApproval (PathOutsideWorkspace (pr_absolute_path r))
           else decide_path (pr_absolute_path r) (pr_kind r) policy profile)"

text \<open>What a write needs to go ahead by itself.\<close>

lemma write_allowed_inside:
  assumes "decide_tool_path_access policy tool_name r explicit profile = Allow" "pr_kind r = WriteAccess"
    "pp_allowed_paths policy \<noteq> []"
  shows "\<exists>root \<in> set (pp_allowed_paths policy). path_is_within (pr_absolute_path r) root"
  using assms by (auto simp: decide_tool_path_access_def decide_path_def Let_def list_ex_iff is_allow_def
      split: if_splits)

lemma access_allowed_not_denied:
  assumes "decide_tool_path_access policy tool_name r explicit profile = Allow"
  shows "\<not> list_ex (path_is_within (pr_absolute_path r)) (pp_denied_paths policy)"
  using assms by (auto simp: decide_tool_path_access_def decide_path_def Let_def is_allow_def split: if_splits)

lemma write_allowed_profile:
  assumes "decide_tool_path_access policy tool_name r explicit profile = Allow" "pr_kind r = WriteAccess"
  shows "\<not> read_only_mode policy profile"
  using assms by (auto simp: decide_tool_path_access_def decide_path_def Let_def is_allow_def read_only_mode_def
      is_read_only_command_mode_def split: if_splits)

section \<open>Locks\<close>

fun lock_components :: "path_component list \<Rightarrow> path_component list \<Rightarrow> path_component list" where
  "lock_components acc [] = rev acc"
| "lock_components acc (CurDir # cs) = lock_components acc cs"
| "lock_components acc (ParentDir # cs) =
     lock_components (case acc of [] \<Rightarrow> [] | [RootDir] \<Rightarrow> [RootDir] | _ # rest \<Rightarrow> rest) cs"
| "lock_components acc (c # cs) = lock_components (c # acc) cs"

definition normalize_path_for_lock :: "string \<Rightarrow> path_component list" where
  "normalize_path_for_lock p =
     (let cs = lock_components [] (path_components p) in if cs = [] then path_components p else cs)"

end
