(* ===== verification/PatchFormat.thy ===== *)
theory PatchFormat
  imports ToolPaths
begin

text \<open>
  The format of \<open>apply_patch\<close> (\<open>magi-tool-runtime/src/apply_patch.rs\<close>): the parser of a patch, the
  paths it declares, and a printer that shows that every plan can be written.

  An index into the lines is the list of the lines from it on.  The texts of errors are
  constructors, without the numbers of lines.
\<close>

section \<open>Plans\<close>

record text_hunk =
  th_old_lines :: "string list"
  th_new_lines :: "string list"

datatype patch_operation =
    AddFile string string
  | DeleteFile string
  | UpdateFile string "string option" "text_hunk list"

datatype patch_error =
    MissingBegin
  | MissingEnd
  | InvalidHeader
  | NoOperation
  | TextAfterEnd
  | EmptyPath
  | AddLineWithoutPlus string
  | AddWithoutContent string
  | EmptyUpdateLine string
  | UpdateLinePrefix string
  | UpdateWithoutChange string
  | PatchNotObject
  | PatchFieldMissing
  | PatchBlank

section \<open>Lines\<close>

fun unify_newlines :: "string \<Rightarrow> string" where
  "unify_newlines [] = []"
| "unify_newlines (c # cs) =
     (if c = CHR 0x0D then
        if cs \<noteq> [] \<and> hd cs = CHR 0x0A then unify_newlines cs else CHR 0x0A # unify_newlines cs
      else c # unify_newlines cs)"

definition patch_lines :: "string \<Rightarrow> string list" where
  "patch_lines patch = split_on (CHR 0x0A) (unify_newlines patch)"

definition strip_prefix :: "string \<Rightarrow> string \<Rightarrow> string option" where
  "strip_prefix p s = (if prefix p s then Some (drop (length p) s) else None)"

definition join_patch_lines :: "string list \<Rightarrow> string" where
  "join_patch_lines ls = (if ls = [] then [] else str_join [CHR 0x0A] ls @ [CHR 0x0A])"

definition add_header :: string where "add_header = ''*** Add File: ''"
definition delete_header :: string where "delete_header = ''*** Delete File: ''"
definition update_header :: string where "update_header = ''*** Update File: ''"
definition move_header :: string where "move_header = ''*** Move to: ''"
definition begin_line :: string where "begin_line = ''*** Begin Patch''"
definition end_line :: string where "end_line = ''*** End Patch''"
definition eof_line :: string where "eof_line = ''*** End of File''"

lemmas patch_marks = add_header_def delete_header_def update_header_def move_header_def begin_line_def
  end_line_def eof_line_def

definition is_patch_boundary :: "string \<Rightarrow> bool" where
  "is_patch_boundary line \<longleftrightarrow>
     line = end_line \<or> prefix add_header line \<or> prefix delete_header line \<or> prefix update_header line"

definition normalize_patch_path :: "string \<Rightarrow> patch_error + string" where
  "normalize_patch_path path = (let p = str_trim path in if p = [] then Inl EmptyPath else Inr p)"

section \<open>The parser\<close>

fun parse_add_lines :: "string \<Rightarrow> string list \<Rightarrow> patch_error + string list \<times> string list" where
  "parse_add_lines path [] = Inr ([], [])"
| "parse_add_lines path (line # lines) =
     (if is_patch_boundary line then Inr ([], line # lines)
      else case strip_prefix ''+'' line of
             None \<Rightarrow> Inl (AddLineWithoutPlus path)
           | Some content \<Rightarrow>
               (case parse_add_lines path lines of
                  Inl e \<Rightarrow> Inl e
                | Inr (contents, rest) \<Rightarrow> Inr (content # contents, rest)))"

definition parse_add_file :: "string \<Rightarrow> string list \<Rightarrow> patch_error + patch_operation \<times> string list" where
  "parse_add_file path lines =
     (case normalize_patch_path path of
        Inl e \<Rightarrow> Inl e
      | Inr p \<Rightarrow>
          (case parse_add_lines p lines of
             Inl e \<Rightarrow> Inl e
           | Inr (contents, rest) \<Rightarrow>
               if contents = [] then Inl (AddWithoutContent p)
               else Inr (AddFile p (join_patch_lines contents), rest)))"

definition empty_hunk :: text_hunk where
  "empty_hunk = \<lparr>th_old_lines = [], th_new_lines = []\<rparr>"

definition push_hunk_if_present :: "text_hunk list \<Rightarrow> text_hunk \<Rightarrow> text_hunk list" where
  "push_hunk_if_present hunks current =
     (if th_old_lines current \<noteq> [] \<or> th_new_lines current \<noteq> [] then hunks @ [current] else hunks)"

fun parse_update_lines ::
    "string \<Rightarrow> text_hunk list \<Rightarrow> text_hunk \<Rightarrow> string list \<Rightarrow> patch_error + text_hunk list \<times> string list" where
  "parse_update_lines path hunks current [] = Inr (push_hunk_if_present hunks current, [])"
| "parse_update_lines path hunks current (line # lines) =
     (if is_patch_boundary line then Inr (push_hunk_if_present hunks current, line # lines)
      else if prefix ''@@'' line
      then parse_update_lines path (push_hunk_if_present hunks current) empty_hunk lines
      else if line = eof_line then parse_update_lines path hunks current lines
      else case line of
             [] \<Rightarrow> Inl (EmptyUpdateLine path)
           | c # body \<Rightarrow>
               if c = CHR '' '' then
                 parse_update_lines path hunks
                   (current\<lparr>th_old_lines := th_old_lines current @ [body],
                            th_new_lines := th_new_lines current @ [body]\<rparr>) lines
               else if c = CHR ''-'' then
                 parse_update_lines path hunks (current\<lparr>th_old_lines := th_old_lines current @ [body]\<rparr>) lines
               else if c = CHR ''+'' then
                 parse_update_lines path hunks (current\<lparr>th_new_lines := th_new_lines current @ [body]\<rparr>) lines
               else Inl (UpdateLinePrefix path))"

definition parse_move_target :: "string list \<Rightarrow> patch_error + string option \<times> string list" where
  "parse_move_target lines =
     (case lines of
        [] \<Rightarrow> Inr (None, [])
      | line # rest \<Rightarrow>
          (case strip_prefix move_header line of
             None \<Rightarrow> Inr (None, lines)
           | Some target \<Rightarrow> map_sum id (\<lambda>t. (Some t, rest)) (normalize_patch_path target)))"

definition parse_update_file :: "string \<Rightarrow> string list \<Rightarrow> patch_error + patch_operation \<times> string list" where
  "parse_update_file path lines =
     (case normalize_patch_path path of
        Inl e \<Rightarrow> Inl e
      | Inr p \<Rightarrow>
          (case parse_move_target lines of
             Inl e \<Rightarrow> Inl e
           | Inr (move_to, body) \<Rightarrow>
               (case parse_update_lines p [] empty_hunk body of
                  Inl e \<Rightarrow> Inl e
                | Inr (hunks, rest) \<Rightarrow>
                    if move_to = None \<and> hunks = [] then Inl (UpdateWithoutChange p)
                    else Inr (UpdateFile p move_to hunks, rest))))"

text \<open>The operation that begins with a header line; \<open>None\<close> when the line is no header.\<close>

definition parse_operation ::
    "string \<Rightarrow> string list \<Rightarrow> (patch_error + patch_operation \<times> string list) option" where
  "parse_operation line lines =
     (case strip_prefix add_header line of
        Some path \<Rightarrow> Some (parse_add_file path lines)
      | None \<Rightarrow>
         (case strip_prefix delete_header line of
            Some path \<Rightarrow> Some (map_sum id (\<lambda>p. (DeleteFile p, lines)) (normalize_patch_path path))
          | None \<Rightarrow>
              map_option (\<lambda>path. parse_update_file path lines) (strip_prefix update_header line)))"

lemma parse_add_lines_length: "parse_add_lines p ls = Inr (cs, rest) \<Longrightarrow> length rest \<le> length ls"
  by (induction p ls arbitrary: cs rest rule: parse_add_lines.induct)
    (auto split: if_splits option.splits sum.splits prod.splits intro: le_SucI)

lemma parse_update_lines_length:
  "parse_update_lines p hs h ls = Inr (hs', rest) \<Longrightarrow> length rest \<le> length ls"
  by (induction p hs h ls arbitrary: hs' rest rule: parse_update_lines.induct)
    (auto split: if_splits list.splits intro: le_SucI)

lemma parse_add_file_length: "parse_add_file p ls = Inr (op, rest) \<Longrightarrow> length rest \<le> length ls"
  by (auto simp: parse_add_file_def split: sum.split_asm prod.split_asm if_split_asm dest: parse_add_lines_length)

lemma parse_move_target_length: "parse_move_target ls = Inr (t, rest) \<Longrightarrow> length rest \<le> length ls"
  by (auto simp: parse_move_target_def map_sum_Inr_iff split: list.split_asm option.split_asm)

lemma parse_update_file_length: "parse_update_file p ls = Inr (op, rest) \<Longrightarrow> length rest \<le> length ls"
  by (auto simp: parse_update_file_def split: sum.split_asm prod.split_asm if_split_asm
      dest!: parse_update_lines_length parse_move_target_length)

lemma parse_operation_length: "parse_operation line lines = Some (Inr (op, rest)) \<Longrightarrow> length rest \<le> length lines"
  by (auto simp: parse_operation_def map_sum_Inr_iff split: option.split_asm
      dest: parse_add_file_length parse_update_file_length)

function parse_operations ::
    "patch_operation list \<Rightarrow> string list \<Rightarrow> patch_error + patch_operation list \<times> string list" where
  "parse_operations ops [] = Inl MissingEnd"
| "parse_operations ops (line # lines) =
     (if line = end_line then Inr (ops, lines)
      else case parse_operation line lines of
             None \<Rightarrow> Inl InvalidHeader
           | Some (Inl e) \<Rightarrow> Inl e
           | Some (Inr (op, rest)) \<Rightarrow> parse_operations (ops @ [op]) rest)"
  by pat_completeness auto
termination
  by (relation "measure (\<lambda>(ops, lines). length lines)") (auto dest: parse_operation_length)

definition parse_apply_patch :: "string \<Rightarrow> patch_error + patch_operation list" where
  "parse_apply_patch patch =
     (case patch_lines patch of
        [] \<Rightarrow> Inl MissingBegin
      | first # lines \<Rightarrow>
          if first \<noteq> begin_line then Inl MissingBegin
          else (case parse_operations [] lines of
                  Inl e \<Rightarrow> Inl e
                | Inr (ops, rest) \<Rightarrow>
                    if ops = [] then Inl NoOperation
                    else if list_ex (\<lambda>l. l \<noteq> []) rest then Inl TextAfterEnd
                    else Inr ops))"

section \<open>The call\<close>

definition extract_patch_text :: "(string \<Rightarrow> json option) \<Rightarrow> string \<Rightarrow> patch_error + string" where
  "extract_patch_text parse input =
     (case json_object parse input of
        None \<Rightarrow> Inl PatchNotObject
      | Some fs \<Rightarrow>
          (case json_field_string fs ''patch'' of
             None \<Rightarrow> Inl PatchFieldMissing
           | Some text \<Rightarrow> if is_blank text then Inl PatchBlank else Inr text))"

definition operation_paths :: "patch_operation \<Rightarrow> string list" where
  "operation_paths op =
     (case op of
        AddFile path _ \<Rightarrow> [path]
      | DeleteFile path \<Rightarrow> [path]
      | UpdateFile path move_to _ \<Rightarrow> path # (case move_to of None \<Rightarrow> [] | Some t \<Rightarrow> [t]))"

text \<open>A \<open>BTreeSet\<close> of paths is the sorted list of them, no two of them with the same components.\<close>

fun insert_path :: "string \<Rightarrow> string list \<Rightarrow> string list" where
  "insert_path p [] = [p]"
| "insert_path p (q # qs) =
     (if path_components p < path_components q then p # q # qs
      else if path_components p = path_components q then q # qs
      else q # insert_path p qs)"

definition apply_patch_declared_paths_from_input :: "(string \<Rightarrow> json option) \<Rightarrow> string \<Rightarrow> string list" where
  "apply_patch_declared_paths_from_input parse input =
     (case extract_patch_text parse input of
        Inl _ \<Rightarrow> []
      | Inr text \<Rightarrow>
          (case parse_apply_patch text of
             Inl _ \<Rightarrow> []
           | Inr ops \<Rightarrow> fold insert_path (concat (map operation_paths ops)) []))"

section \<open>What the parser yields\<close>

definition plain_line :: "string \<Rightarrow> bool" where
  "plain_line l \<longleftrightarrow> CHR 0x0A \<notin> set l \<and> CHR 0x0D \<notin> set l"

definition patch_path :: "string \<Rightarrow> bool" where
  "patch_path p \<longleftrightarrow> p \<noteq> [] \<and> str_trim p = p \<and> plain_line p"

definition wf_hunk :: "text_hunk \<Rightarrow> bool" where
  "wf_hunk h \<longleftrightarrow>
     (th_old_lines h \<noteq> [] \<or> th_new_lines h \<noteq> []) \<and>
     list_all plain_line (th_old_lines h) \<and> list_all plain_line (th_new_lines h)"

definition wf_operation :: "patch_operation \<Rightarrow> bool" where
  "wf_operation op =
     (case op of
        AddFile path content \<Rightarrow>
          patch_path path \<and> (\<exists>ls. ls \<noteq> [] \<and> list_all plain_line ls \<and> content = join_patch_lines ls)
      | DeleteFile path \<Rightarrow> patch_path path
      | UpdateFile path move_to hunks \<Rightarrow>
          patch_path path \<and> pred_option patch_path move_to \<and> list_all wf_hunk hunks \<and>
          (move_to \<noteq> None \<or> hunks \<noteq> []))"

section \<open>The printer\<close>

definition content_lines :: "string \<Rightarrow> string list" where
  "content_lines content = butlast (split_on (CHR 0x0A) content)"

definition print_hunk :: "text_hunk \<Rightarrow> string list" where
  "print_hunk h = ''@@'' # map (\<lambda>l. CHR ''-'' # l) (th_old_lines h) @ map (\<lambda>l. CHR ''+'' # l) (th_new_lines h)"

definition print_operation :: "patch_operation \<Rightarrow> string list" where
  "print_operation op =
     (case op of
        AddFile path content \<Rightarrow> (add_header @ path) # map (\<lambda>l. CHR ''+'' # l) (content_lines content)
      | DeleteFile path \<Rightarrow> [delete_header @ path]
      | UpdateFile path move_to hunks \<Rightarrow>
          (update_header @ path) # (case move_to of None \<Rightarrow> [] | Some t \<Rightarrow> [move_header @ t]) @
          concat (map print_hunk hunks))"

definition print_patch :: "patch_operation list \<Rightarrow> string" where
  "print_patch ops = join_patch_lines (begin_line # concat (map print_operation ops) @ [end_line])"

end
