(* ===== verification/PatchApply.thy ===== *)
theory PatchApply
  imports PatchFormat
begin

text \<open>
  The execution of a patch (\<open>magi-tool-runtime/src/apply_patch.rs\<close>): hunks, the staging of all
  operations in memory, the writes with the originals kept for the way back.

  A path is the list of its components.  The file system is a partial function from files to
  their bytes; which file a path denotes, which files are directories and which accesses fail
  is a fixed \<open>file_world\<close>, so that two paths may denote one file.  Permissions of files, links as
  such and the directories made on the way are left out.
\<close>

type_synonym path = "path_component list"
type_synonym disk = "nat \<Rightarrow> string option"

record file_world =
  fw_denotes :: "path \<Rightarrow> nat"
  fw_is_dir :: "nat \<Rightarrow> bool"
  fw_read_fails :: "nat \<Rightarrow> bool"
  fw_write_fails :: "nat \<Rightarrow> bool"
  fw_delete_fails :: "nat \<Rightarrow> bool"
  fw_restore_fails :: "nat \<Rightarrow> bool"
  fw_utf8 :: "string \<Rightarrow> bool"

datatype io_error = NotFound | OtherError

definition fs_read :: "file_world \<Rightarrow> disk \<Rightarrow> nat \<Rightarrow> io_error + string" where
  "fs_read w d f =
     (if fw_is_dir w f \<or> fw_read_fails w f then Inl OtherError
      else case d f of None \<Rightarrow> Inl NotFound | Some b \<Rightarrow> Inr b)"

definition fs_read_to_string :: "file_world \<Rightarrow> disk \<Rightarrow> nat \<Rightarrow> io_error + string" where
  "fs_read_to_string w d f =
     (case fs_read w d f of Inl e \<Rightarrow> Inl e | Inr b \<Rightarrow> if fw_utf8 w b then Inr b else Inl OtherError)"

section \<open>Hunks\<close>

text \<open>Matches that do not overlap, for a text that is not empty.\<close>

fun count_from :: "string \<Rightarrow> string \<Rightarrow> nat" where
  "count_from needle [] = 0"
| "count_from needle (c # cs) =
     (if prefix needle (c # cs) then Suc (count_from needle (drop (length needle - 1) cs))
      else count_from needle cs)"

definition match_count :: "string \<Rightarrow> string \<Rightarrow> nat" where
  "match_count needle s = (if needle = [] then Suc (length (str_chars s)) else count_from needle s)"

fun replace_first :: "string \<Rightarrow> string \<Rightarrow> string \<Rightarrow> string" where
  "replace_first needle new [] = (if needle = [] then new else [])"
| "replace_first needle new (c # cs) =
     (if prefix needle (c # cs) then new @ drop (length needle) (c # cs)
      else c # replace_first needle new cs)"

datatype hunk_error = HunkNotFound | HunkAmbiguous nat

definition ends_with_newline :: "string \<Rightarrow> bool" where
  "ends_with_newline s = suffix [CHR 0x0A] s"

fun try_candidates :: "string \<Rightarrow> text_hunk \<Rightarrow> nat \<Rightarrow> string list \<Rightarrow> hunk_error + string" where
  "try_candidates content h ambiguous [] = Inl (if 1 < ambiguous then HunkAmbiguous ambiguous else HunkNotFound)"
| "try_candidates content h ambiguous (old # candidates) =
     (let count = match_count old content
      in if count = 1 then
           Inr (replace_first old
                  (if ends_with_newline old then join_patch_lines (th_new_lines h)
                   else str_join [CHR 0x0A] (th_new_lines h)) content)
         else try_candidates content h (max ambiguous count) candidates)"

definition apply_text_hunk :: "string \<Rightarrow> text_hunk \<Rightarrow> hunk_error + string" where
  "apply_text_hunk content h =
     (if th_old_lines h = [] then
        Inr (content @ (if content \<noteq> [] \<and> \<not> ends_with_newline content then [CHR 0x0A] else []) @
             join_patch_lines (th_new_lines h))
      else
        let with_newline = join_patch_lines (th_old_lines h);
            without_newline = str_join [CHR 0x0A] (th_old_lines h)
        in try_candidates content h 0
             (if with_newline = without_newline then [with_newline] else [with_newline, without_newline]))"

fun apply_hunks :: "nat \<Rightarrow> text_hunk list \<Rightarrow> string \<Rightarrow> (nat \<times> hunk_error) + string" where
  "apply_hunks i [] content = Inr content"
| "apply_hunks i (h # hs) content =
     (case apply_text_hunk content h of
        Inl e \<Rightarrow> Inl (i, e)
      | Inr content' \<Rightarrow> apply_hunks (Suc i) hs content')"

section \<open>Staging\<close>

datatype commit_stage = ReadingOriginal | WritingFile | DeletingFile

datatype patch_failure =
    PathUnresolved path_resolve_error
  | FileExists path
  | ReadFailure path io_error
  | DeletedEarlier path
  | NotAFile path
  | StatFailure path
  | HunkFailure path nat hunk_error
  | CommitFailure commit_stage path "path list"

text \<open>A \<open>BTreeMap\<close>: the entries in the order of the keys.\<close>

fun ordered_put :: "'k::linorder \<Rightarrow> 'v \<Rightarrow> ('k \<times> 'v) list \<Rightarrow> ('k \<times> 'v) list" where
  "ordered_put k v [] = [(k, v)]"
| "ordered_put k v ((k', v') # m) =
     (if k < k' then (k, v) # (k', v') # m
      else if k = k' then (k, v) # m
      else (k', v') # ordered_put k v m)"

type_synonym staging = "(path \<times> string option) list"
type_synonym resolver = "string \<Rightarrow> path_resolve_error + path"

definition resolve_patch_path :: "resolver \<Rightarrow> string \<Rightarrow> patch_failure + path" where
  "resolve_patch_path resolve p = map_sum PathUnresolved id (resolve p)"

definition read_staged_or_disk :: "file_world \<Rightarrow> disk \<Rightarrow> staging \<Rightarrow> path \<Rightarrow> patch_failure + string" where
  "read_staged_or_disk w d staged k =
     (case hget staged k of
        Some (Some content) \<Rightarrow> Inr content
      | Some None \<Rightarrow> Inl (DeletedEarlier k)
      | None \<Rightarrow> map_sum (ReadFailure k) id (fs_read_to_string w d (fw_denotes w k)))"

definition validate_file_can_be_deleted :: "file_world \<Rightarrow> disk \<Rightarrow> staging \<Rightarrow> path \<Rightarrow> patch_failure + unit" where
  "validate_file_can_be_deleted w d staged k =
     (if (case hget staged k of Some (Some _) \<Rightarrow> True | _ \<Rightarrow> False) then Inr ()
      else if fw_is_dir w (fw_denotes w k) then Inl (NotAFile k)
      else if d (fw_denotes w k) = None then Inl (StatFailure k)
      else Inr ())"

definition stage_add ::
    "file_world \<Rightarrow> disk \<Rightarrow> path \<Rightarrow> string \<Rightarrow> staging \<times> path list \<Rightarrow> patch_failure + staging \<times> path list" where
  "stage_add w d k content st =
     (case st of (staged, changed) \<Rightarrow>
        let occupied = (case hget staged k of
                          Some c \<Rightarrow> c \<noteq> None
                        | None \<Rightarrow> d (fw_denotes w k) \<noteq> None \<or> fw_is_dir w (fw_denotes w k))
        in if occupied then Inl (FileExists k)
           else Inr (ordered_put k (Some content) staged, insort_insert k changed))"

definition stage_delete ::
    "file_world \<Rightarrow> disk \<Rightarrow> path \<Rightarrow> staging \<times> path list \<Rightarrow> patch_failure + staging \<times> path list" where
  "stage_delete w d k st =
     (case st of (staged, changed) \<Rightarrow>
        case validate_file_can_be_deleted w d staged k of
          Inl e \<Rightarrow> Inl e
        | Inr _ \<Rightarrow> Inr (ordered_put k None staged, insort_insert k changed))"

definition stage_update ::
    "file_world \<Rightarrow> resolver \<Rightarrow> disk \<Rightarrow> path \<Rightarrow> string option \<Rightarrow> text_hunk list \<Rightarrow> staging \<times> path list \<Rightarrow>
     patch_failure + staging \<times> path list" where
  "stage_update w resolve d k move_to hunks st =
     (case st of (staged, changed) \<Rightarrow>
        case read_staged_or_disk w d staged k of
          Inl e \<Rightarrow> Inl e
        | Inr content \<Rightarrow>
            (case apply_hunks 0 hunks content of
               Inl (i, e) \<Rightarrow> Inl (HunkFailure k i e)
             | Inr updated \<Rightarrow>
                 (case move_to of
                    None \<Rightarrow> Inr (ordered_put k (Some updated) staged, insort_insert k changed)
                  | Some t \<Rightarrow>
                      (case resolve_patch_path resolve t of
                         Inl e \<Rightarrow> Inl e
                       | Inr target \<Rightarrow>
                           let staged1 = ordered_put target (Some updated) staged
                           in Inr (if target \<noteq> k then ordered_put k None staged1 else staged1,
                                   insort_insert target (insort_insert k changed))))))"

definition stage_operation ::
    "file_world \<Rightarrow> resolver \<Rightarrow> disk \<Rightarrow> patch_operation \<Rightarrow> staging \<times> path list \<Rightarrow>
     patch_failure + staging \<times> path list" where
  "stage_operation w resolve d op st =
     (case op of
        AddFile path content \<Rightarrow>
          (case resolve_patch_path resolve path of Inl e \<Rightarrow> Inl e | Inr k \<Rightarrow> stage_add w d k content st)
      | DeleteFile path \<Rightarrow>
          (case resolve_patch_path resolve path of Inl e \<Rightarrow> Inl e | Inr k \<Rightarrow> stage_delete w d k st)
      | UpdateFile path move_to hunks \<Rightarrow>
          (case resolve_patch_path resolve path of
             Inl e \<Rightarrow> Inl e
           | Inr k \<Rightarrow> stage_update w resolve d k move_to hunks st))"

fun stage_operations ::
    "file_world \<Rightarrow> resolver \<Rightarrow> disk \<Rightarrow> patch_operation list \<Rightarrow> staging \<times> path list \<Rightarrow>
     patch_failure + staging \<times> path list" where
  "stage_operations w resolve d [] st = Inr st"
| "stage_operations w resolve d (op # ops) st =
     (case stage_operation w resolve d op st of
        Inl e \<Rightarrow> Inl e
      | Inr st' \<Rightarrow> stage_operations w resolve d ops st')"

section \<open>Writing\<close>

text \<open>The changes made, the last one first, each with the bytes there were before.\<close>

type_synonym applied = "(path \<times> string option) list"

fun rollback :: "file_world \<Rightarrow> applied \<Rightarrow> disk \<Rightarrow> disk \<times> path list" where
  "rollback w [] d = (d, [])"
| "rollback w ((k, original) # applied) d =
     (let f = fw_denotes w k in
      if fw_restore_fails w f \<and> \<not> (original = None \<and> d f = None)
      then (case rollback w applied d of (d', unrestored) \<Rightarrow> (d', k # unrestored))
      else rollback w applied (d(f := original)))"

definition rollback_and_fail ::
    "file_world \<Rightarrow> applied \<Rightarrow> commit_stage \<Rightarrow> path \<Rightarrow> disk \<Rightarrow> disk \<times> patch_failure option" where
  "rollback_and_fail w applied stage k d =
     (case rollback w applied d of (d', unrestored) \<Rightarrow> (d', Some (CommitFailure stage k unrestored)))"

fun commit_steps :: "file_world \<Rightarrow> staging \<Rightarrow> applied \<Rightarrow> disk \<Rightarrow> disk \<times> patch_failure option" where
  "commit_steps w [] applied d = (d, None)"
| "commit_steps w ((k, content) # steps) applied d =
     (let f = fw_denotes w k in
      if fs_read w d f = Inl OtherError then rollback_and_fail w applied ReadingOriginal k d
      else case content of
             Some text \<Rightarrow>
               if fw_write_fails w f then rollback_and_fail w applied WritingFile k d
               else commit_steps w steps ((k, d f) # applied) (d(f \<mapsto> text))
           | None \<Rightarrow>
               if d f \<noteq> None \<and> fw_delete_fails w f then rollback_and_fail w applied DeletingFile k d
               else commit_steps w steps ((k, d f) # applied) (d(f := None)))"

definition commit_staged_changes :: "file_world \<Rightarrow> staging \<Rightarrow> disk \<Rightarrow> disk \<times> patch_failure option" where
  "commit_staged_changes w staged d =
     commit_steps w (filter (\<lambda>(k, c). c \<noteq> None) staged @ filter (\<lambda>(k, c). c = None) staged) [] d"

definition apply_plan ::
    "file_world \<Rightarrow> resolver \<Rightarrow> patch_operation list \<Rightarrow> disk \<Rightarrow> disk \<times> (patch_failure + path list)" where
  "apply_plan w resolve ops d =
     (case stage_operations w resolve d ops ([], []) of
        Inl e \<Rightarrow> (d, Inl e)
      | Inr (staged, changed) \<Rightarrow>
          (case commit_staged_changes w staged d of
             (d', None) \<Rightarrow> (d', Inr changed)
           | (d', Some e) \<Rightarrow> (d', Inl e)))"

datatype patch_outcome = PatchInvalid patch_error | PatchFailed patch_failure | PatchApplied nat "path list"

definition execute_apply_patch ::
    "(string \<Rightarrow> json option) \<Rightarrow> file_world \<Rightarrow> resolver \<Rightarrow> string \<Rightarrow> disk \<Rightarrow> disk \<times> patch_outcome" where
  "execute_apply_patch parse w resolve input d =
     (case extract_patch_text parse input of
        Inl e \<Rightarrow> (d, PatchInvalid e)
      | Inr text \<Rightarrow>
          (case parse_apply_patch text of
             Inl e \<Rightarrow> (d, PatchInvalid e)
           | Inr ops \<Rightarrow>
               (case apply_plan w resolve ops d of
                  (d', Inl e) \<Rightarrow> (d', PatchFailed e)
                | (d', Inr changed) \<Rightarrow> (d', PatchApplied (length ops) changed))))"

end
