(* ===== verification/PatchProperties.thy ===== *)
theory PatchProperties
  imports PatchApply
begin

text \<open>
  What a patch does: a failed one leaves every file as it was, up to the files it names as not
  restored; an applied one is its operations one after the other; no other files are touched.
\<close>

section \<open>The way back\<close>

fun undo_all :: "file_world \<Rightarrow> applied \<Rightarrow> disk \<Rightarrow> disk" where
  "undo_all w [] d = d"
| "undo_all w ((k, original) # applied) d = undo_all w applied (d(fw_denotes w k := original))"

definition differs :: "disk \<Rightarrow> disk \<Rightarrow> nat set" where
  "differs d e = {f. d f \<noteq> e f}"

lemma differs_same [simp]: "differs d d = {}"
  by (simp add: differs_def)

lemma rollback_undoes:
  assumes "rollback w applied d = (d', unrestored)"
  shows "differs d' (undo_all w applied e) \<subseteq> differs d e \<union> fw_denotes w ` set unrestored"
  using assms
proof (induction w applied d arbitrary: e d' unrestored rule: rollback.induct)
  case (2 w k original applied d)
  let ?f = "fw_denotes w k"
  show ?case
  proof (cases "fw_restore_fails w ?f \<and> \<not> (original = None \<and> d ?f = None)")
    case True
    obtain us where r: "rollback w applied d = (d', us)" "unrestored = k # us"
      using "2.prems" True by (auto split: prod.splits)
    have "differs d' (undo_all w applied (e(?f := original)))
        \<subseteq> differs d (e(?f := original)) \<union> fw_denotes w ` set us"
      using "2.IH"(1) [OF refl True r(1)] .
    moreover have "differs d (e(?f := original)) \<subseteq> insert ?f (differs d e)"
      by (auto simp: differs_def)
    ultimately show ?thesis using r(2) by auto
  next
    case False
    have r: "rollback w applied (d(?f := original)) = (d', unrestored)"
      using "2.prems" unfolding rollback.simps Let_def if_not_P [OF False] .
    have "differs (d(?f := original)) (e(?f := original)) \<subseteq> differs d e"
      by (auto simp: differs_def)
    then show ?thesis unfolding undo_all.simps
      by (intro order_trans [OF "2.IH"(2) [OF refl False r]]) blast
  qed
qed simp

definition unrestored_paths :: "patch_failure \<Rightarrow> path list" where
  "unrestored_paths e = (case e of CommitFailure _ _ us \<Rightarrow> us | _ \<Rightarrow> [])"

lemma rollback_and_fail_undoes:
  assumes "rollback_and_fail w applied stage k d = (d', Some e)"
  shows "differs d' (undo_all w applied d) \<subseteq> fw_denotes w ` set (unrestored_paths e)"
  using assms rollback_undoes [of w applied d _ _ d]
  by (auto simp: rollback_and_fail_def unrestored_paths_def split: prod.splits)

text \<open>One step fails and is taken back, or it is made and the rest goes on.\<close>

lemma commit_step:
  "(\<exists>stage. commit_steps w ((k, c) # steps) applied d = rollback_and_fail w applied stage k d) \<or>
   commit_steps w ((k, c) # steps) applied d =
     commit_steps w steps ((k, d (fw_denotes w k)) # applied) (d(fw_denotes w k := c))"
  by (cases c) (auto simp: Let_def)

lemma commit_step_cases:
  obtains (failed) stage where
    "commit_steps w ((k, c) # steps) applied d = rollback_and_fail w applied stage k d"
  | (made) "commit_steps w ((k, c) # steps) applied d =
      commit_steps w steps ((k, d (fw_denotes w k)) # applied) (d(fw_denotes w k := c))"
  using commit_step by blast

lemma commit_steps_undoes:
  assumes "commit_steps w steps applied d = (d', Some e)"
  shows "differs d' (undo_all w applied d) \<subseteq> fw_denotes w ` set (unrestored_paths e)"
  using assms
proof (induction steps arbitrary: applied d)
  case (Cons s steps)
  obtain k c where s: "s = (k, c)" by (cases s)
  show ?case
  proof (cases rule: commit_step_cases [of w k c steps applied d])
    case (failed stage)
    with Cons.prems s show ?thesis by (intro rollback_and_fail_undoes) simp
  next
    case made
    with Cons.prems s have "commit_steps w steps ((k, d (fw_denotes w k)) # applied) (d(fw_denotes w k := c)) = (d', Some e)"
      by simp
    from Cons.IH [OF this] show ?thesis by (simp only: undo_all.simps fun_upd_upd fun_upd_triv)
  qed
qed simp

text \<open>C21: A patch that fails, in staging or while it writes, whatever file could not be read,
  written or deleted, leaves every file as it was, except those that it reports as not
  restored: the agent that reads the failure knows exactly which files it may find changed.\<close>

theorem failed_patch_restores:
  assumes "execute_apply_patch parse w resolve input d = (d', PatchFailed e)"
  shows "{f. d' f \<noteq> d f} \<subseteq> fw_denotes w ` set (unrestored_paths e)"
proof -
  obtain ops where "apply_plan w resolve ops d = (d', Inl e)"
    using assms by (auto simp: execute_apply_patch_def split: sum.splits prod.splits)
  then have "differs d' d \<subseteq> fw_denotes w ` set (unrestored_paths e)"
    using commit_steps_undoes [of w _ "[]" d]
    by (auto simp: apply_plan_def commit_staged_changes_def split: sum.splits prod.splits option.splits)
  then show ?thesis by (simp add: differs_def)
qed

section \<open>The files of a patch\<close>

definition operation_keys :: "resolver \<Rightarrow> patch_operation \<Rightarrow> path set" where
  "operation_keys resolve op = {k. \<exists>p \<in> set (operation_paths op). resolve p = Inr k}"

definition plan_keys :: "resolver \<Rightarrow> patch_operation list \<Rightarrow> path set" where
  "plan_keys resolve ops = (\<Union>op \<in> set ops. operation_keys resolve op)"

lemma resolve_patch_path_InrD: "resolve_patch_path resolve p = Inr k \<Longrightarrow> resolve p = Inr k"
  by (simp add: resolve_patch_path_def map_sum_Inr_iff)

lemma set_ordered_put: "set (map fst (ordered_put k v m)) = insert k (set (map fst m))"
  by (induction k v m rule: ordered_put.induct) auto

lemma hget_ordered_put [simp]: "hget (ordered_put k v m) = (hget m)(k \<mapsto> v)"
  by (induction k v m rule: ordered_put.induct) (auto simp: fun_eq_iff)

lemma sorted_ordered_put: "sorted_wrt (<) (map fst m) \<Longrightarrow> sorted_wrt (<) (map fst (ordered_put k v m))"
proof (induction k v m rule: ordered_put.induct)
  case (2 k v k' v' m)
  then show ?case using set_ordered_put [of k v m] by (auto simp: not_less)
qed simp

section \<open>One operation after the other\<close>

definition run_operation :: "file_world \<Rightarrow> resolver \<Rightarrow> patch_operation \<Rightarrow> disk \<Rightarrow> disk option" where
  "run_operation w resolve op v =
     (case op of
        AddFile p content \<Rightarrow>
          (case resolve p of
             Inl _ \<Rightarrow> None
           | Inr k \<Rightarrow> if v (fw_denotes w k) = None then Some (v(fw_denotes w k \<mapsto> content)) else None)
      | DeleteFile p \<Rightarrow>
          (case resolve p of Inl _ \<Rightarrow> None | Inr k \<Rightarrow> Some (v(fw_denotes w k := None)))
      | UpdateFile p move_to hunks \<Rightarrow>
          (case resolve p of
             Inl _ \<Rightarrow> None
           | Inr k \<Rightarrow>
               (case v (fw_denotes w k) of
                  None \<Rightarrow> None
                | Some content \<Rightarrow>
                    (case apply_hunks 0 hunks content of
                       Inl _ \<Rightarrow> None
                     | Inr updated \<Rightarrow>
                         (case move_to of
                            None \<Rightarrow> Some (v(fw_denotes w k \<mapsto> updated))
                          | Some t \<Rightarrow>
                              (case resolve t of
                                 Inl _ \<Rightarrow> None
                               | Inr k2 \<Rightarrow>
                                   Some (if k2 \<noteq> k
                                         then (v(fw_denotes w k2 \<mapsto> updated))(fw_denotes w k := None)
                                         else v(fw_denotes w k2 \<mapsto> updated))))))))"

fun run_operations :: "file_world \<Rightarrow> resolver \<Rightarrow> patch_operation list \<Rightarrow> disk \<Rightarrow> disk option" where
  "run_operations w resolve [] v = Some v"
| "run_operations w resolve (op # ops) v =
     (case run_operation w resolve op v of None \<Rightarrow> None | Some v' \<Rightarrow> run_operations w resolve ops v')"

text \<open>The disk that the staged entries stand for, over the files of the paths \<open>K\<close>.\<close>

definition view_rel :: "file_world \<Rightarrow> path set \<Rightarrow> staging \<Rightarrow> disk \<Rightarrow> disk \<Rightarrow> bool" where
  "view_rel w K staged d v \<longleftrightarrow>
     fst ` set staged \<subseteq> K \<and> sorted_wrt (<) (map fst staged) \<and>
     (\<forall>k \<in> K. v (fw_denotes w k) = (case hget staged k of Some c \<Rightarrow> c | None \<Rightarrow> d (fw_denotes w k))) \<and>
     (\<forall>f. f \<notin> fw_denotes w ` K \<longrightarrow> v f = d f)"

lemma view_rel_Nil: "view_rel w K [] d d"
  by (simp add: view_rel_def)

lemma view_rel_put:
  assumes "view_rel w K staged d v" "inj_on (fw_denotes w) K" "k \<in> K"
  shows "view_rel w K (ordered_put k c staged) d (v(fw_denotes w k := c))"
  using assms set_ordered_put [of k c staged]
  by (auto simp: view_rel_def sorted_ordered_put inj_on_eq_iff)

lemma view_rel_at: "view_rel w K staged d v \<Longrightarrow> k \<in> K \<Longrightarrow>
    v (fw_denotes w k) = (case hget staged k of Some c \<Rightarrow> c | None \<Rightarrow> d (fw_denotes w k))"
  by (simp add: view_rel_def)

lemma read_staged_view:
  assumes "view_rel w K staged d v" "k \<in> K" "read_staged_or_disk w d staged k = Inr content"
  shows "v (fw_denotes w k) = Some content"
  using view_rel_at [OF assms(1,2)] assms(3)
  by (auto simp: read_staged_or_disk_def map_sum_Inr_iff fs_read_to_string_def fs_read_def
      split: option.split_asm sum.split_asm if_split_asm)

lemma stage_add_view:
  assumes "view_rel w K staged d v" "inj_on (fw_denotes w) K" "k \<in> K"
    "stage_add w d k content (staged, changed) = Inr (staged', changed')"
  shows "v (fw_denotes w k) = None \<and> view_rel w K staged' d (v(fw_denotes w k \<mapsto> content))"
  using view_rel_at [OF assms(1,3)] view_rel_put [OF assms(1-3), of "Some content"] assms(4)
  by (auto simp: stage_add_def Let_def split: option.split_asm if_split_asm)

lemma stage_delete_view:
  assumes "view_rel w K staged d v" "inj_on (fw_denotes w) K" "k \<in> K"
    "stage_delete w d k (staged, changed) = Inr (staged', changed')"
  shows "view_rel w K staged' d (v(fw_denotes w k := None))"
  using view_rel_put [OF assms(1-3), of None] assms(4)
  by (auto simp: stage_delete_def split: sum.split_asm)

lemma stage_update_view:
  assumes v: "view_rel w K staged d v" "inj_on (fw_denotes w) K" "k \<in> K"
    and target: "\<And>t k2. move_to = Some t \<Longrightarrow> resolve t = Inr k2 \<Longrightarrow> k2 \<in> K"
    and st: "stage_update w resolve d k move_to hunks (staged, changed) = Inr (staged', changed')"
    and p: "resolve p = Inr k"
  shows "\<exists>v'. run_operation w resolve (UpdateFile p move_to hunks) v = Some v' \<and> view_rel w K staged' d v'"
proof -
  from st obtain content updated where
    c: "read_staged_or_disk w d staged k = Inr content" "apply_hunks 0 hunks content = Inr updated"
    by (auto simp: stage_update_def split: sum.split_asm prod.split_asm)
  have at: "v (fw_denotes w k) = Some content" using read_staged_view [OF v(1,3) c(1)] .
  show ?thesis
  proof (cases move_to)
    case None
    with st c have "staged' = ordered_put k (Some updated) staged" by (simp add: stage_update_def)
    with None at c(2) p view_rel_put [OF v, of "Some updated"] show ?thesis by (simp add: run_operation_def)
  next
    case (Some t)
    with st c obtain k2 where k2: "resolve t = Inr k2"
      "staged' = (if k2 \<noteq> k then ordered_put k None (ordered_put k2 (Some updated) staged)
                  else ordered_put k2 (Some updated) staged)"
      by (auto simp: stage_update_def Let_def dest!: resolve_patch_path_InrD split: sum.split_asm)
    have "k2 \<in> K" using target Some k2(1) .
    from view_rel_put [OF v(1,2) this, of "Some updated"]
    have one: "view_rel w K (ordered_put k2 (Some updated) staged) d (v(fw_denotes w k2 \<mapsto> updated))" .
    from view_rel_put [OF one v(2,3), of None] one Some at c(2) p k2 show ?thesis
      by (cases "k2 = k") (simp_all add: run_operation_def)
  qed
qed

lemma stage_operation_view:
  assumes v: "view_rel w K staged d v" "inj_on (fw_denotes w) K" and K: "operation_keys resolve op \<subseteq> K"
    and st: "stage_operation w resolve d op (staged, changed) = Inr (staged', changed')"
  shows "\<exists>v'. run_operation w resolve op v = Some v' \<and> view_rel w K staged' d v'"
proof (cases op)
  case (AddFile p content)
  with st obtain k where k: "resolve p = Inr k" "stage_add w d k content (staged, changed) = Inr (staged', changed')"
    by (auto simp: stage_operation_def dest!: resolve_patch_path_InrD split: sum.split_asm)
  then have "k \<in> K" using K AddFile by (auto simp: operation_keys_def operation_paths_def)
  from stage_add_view [OF v this k(2)] k(1) AddFile show ?thesis by (simp add: run_operation_def)
next
  case (DeleteFile p)
  with st obtain k where k: "resolve p = Inr k" "stage_delete w d k (staged, changed) = Inr (staged', changed')"
    by (auto simp: stage_operation_def dest!: resolve_patch_path_InrD split: sum.split_asm)
  then have "k \<in> K" using K DeleteFile by (auto simp: operation_keys_def operation_paths_def)
  from stage_delete_view [OF v this k(2)] k(1) DeleteFile show ?thesis by (simp add: run_operation_def)
next
  case (UpdateFile p move_to hunks)
  with st obtain k where k: "resolve p = Inr k"
    "stage_update w resolve d k move_to hunks (staged, changed) = Inr (staged', changed')"
    by (auto simp: stage_operation_def dest!: resolve_patch_path_InrD split: sum.split_asm)
  have keys: "k \<in> K" "\<And>t k2. move_to = Some t \<Longrightarrow> resolve t = Inr k2 \<Longrightarrow> k2 \<in> K"
    using k(1) K UpdateFile by (auto simp: operation_keys_def operation_paths_def)
  from stage_update_view [OF v keys k(2,1)] UpdateFile show ?thesis by simp
qed

lemma stage_operations_view:
  assumes "view_rel w K staged d v" "inj_on (fw_denotes w) K" "plan_keys resolve ops \<subseteq> K"
    "stage_operations w resolve d ops (staged, changed) = Inr (staged', changed')"
  shows "\<exists>v'. run_operations w resolve ops v = Some v' \<and> view_rel w K staged' d v'"
  using assms
proof (induction ops arbitrary: staged changed v)
  case (Cons op ops)
  then obtain staged1 changed1 where st: "stage_operation w resolve d op (staged, changed) = Inr (staged1, changed1)"
    "stage_operations w resolve d ops (staged1, changed1) = Inr (staged', changed')"
    by (auto split: sum.split_asm)
  have "operation_keys resolve op \<subseteq> K" "plan_keys resolve ops \<subseteq> K"
    using Cons.prems(3) by (auto simp: plan_keys_def)
  from stage_operation_view [OF Cons.prems(1,2) this(1) st(1)] Cons.IH [OF _ Cons.prems(2) this(2) st(2)]
  show ?case by auto
qed simp

lemma commit_steps_final:
  assumes "commit_steps w steps applied d = (d', None)"
  shows "d' = foldl (\<lambda>d (k, c). d(fw_denotes w k := c)) d steps"
  using assms
proof (induction steps arbitrary: applied d)
  case (Cons s steps)
  obtain k c where s: "s = (k, c)" by (cases s)
  show ?case
  proof (cases rule: commit_step_cases [of w k c steps applied d])
    case (failed stage)
    with Cons.prems s show ?thesis by (auto simp: rollback_and_fail_def split: prod.split_asm)
  next
    case made
    with Cons.prems s Cons.IH show ?thesis by simp
  qed
qed simp

lemma foldl_updates_other:
  "f \<notin> g ` fst ` set steps \<Longrightarrow> foldl (\<lambda>d (k, c). d(g k := c)) d steps f = d f"
  by (induction steps arbitrary: d) auto

lemma foldl_updates_at:
  assumes "inj_on g (fst ` set steps)" "distinct (map fst steps)" "(k, c) \<in> set steps"
  shows "foldl (\<lambda>d (k, c). d(g k := c)) d steps (g k) = c"
  using assms
proof (induction steps arbitrary: d)
  case (Cons s steps)
  obtain k' c' where s: "s = (k', c')" by (cases s)
  show ?case
  proof (cases "s = (k, c)")
    case True
    then have "k \<notin> fst ` set steps" using Cons.prems(2) by auto
    then have "g k \<notin> g ` fst ` set steps"
      using Cons.prems(1,3) True by (auto simp: inj_on_def image_iff)
    from foldl_updates_other [OF this, of "d(g k := c)"] True show ?thesis
      by (simp del: fun_upd_apply add: fun_upd_same)
  next
    case False
    then show ?thesis using Cons s by auto
  qed
qed simp

lemma commit_matches_view:
  assumes v: "view_rel w K staged d v" and inj: "inj_on (fw_denotes w) K"
    and c: "commit_staged_changes w staged d = (d', None)"
  shows "d' = v"
proof
  fix f
  define steps where "steps = filter (\<lambda>(k, c). c \<noteq> None) staged @ filter (\<lambda>(k, c). c = None) staged"
  have d': "d' = foldl (\<lambda>d (k, c). d(fw_denotes w k := c)) d steps"
    using commit_steps_final c unfolding commit_staged_changes_def steps_def .
  have set: "set steps = set staged" by (auto simp: steps_def)
  have dist: "distinct (map fst staged)"
    using v by (simp add: view_rel_def strict_sorted_iff)
  then have dist': "distinct (map fst steps)"
    by (auto simp: steps_def distinct_map inj_on_def distinct_filter)
  have sub: "fst ` set staged \<subseteq> K" using v by (simp add: view_rel_def)
  then have inj': "inj_on (fw_denotes w) (fst ` set steps)" using inj set inj_on_subset by metis
  show "d' f = v f"
  proof (cases "f \<in> fw_denotes w ` fst ` set staged")
    case True
    then obtain k c where k: "(k, c) \<in> set staged" "f = fw_denotes w k" by auto
    then have "v f = c" using view_rel_at [OF v, of k] sub dist by auto
    then show ?thesis using foldl_updates_at [OF inj' dist', of k c] k set d' by simp
  next
    case False
    then have "d' f = d f" using foldl_updates_other d' set by metis
    moreover have "v f = d f"
    proof (cases "f \<in> fw_denotes w ` K")
      case True
      then obtain k where k: "k \<in> K" "f = fw_denotes w k" by auto
      with False have "hget staged k = None" by (auto simp: map_of_eq_None_iff)
      with view_rel_at [OF v k(1)] k(2) show ?thesis by simp
    qed (use v in \<open>simp add: view_rel_def\<close>)
    ultimately show ?thesis by simp
  qed
qed

lemma apply_plan_success:
  assumes "apply_plan w resolve ops d = (d', Inr changed)"
  obtains staged where "stage_operations w resolve d ops ([], []) = Inr (staged, changed)"
    "commit_staged_changes w staged d = (d', None)"
  using assms by (auto simp: apply_plan_def split: sum.split_asm prod.split_asm option.split_asm)

text \<open>C22: A patch that is applied is its operations performed one after the other: staging them all in
  memory and then writing the final contents, first the writes and then the deletions, gives
  the files that a file system would have after each operation in turn, when different paths of
  the patch denote different files.\<close>

theorem applied_patch_is_sequential:
  assumes "apply_plan w resolve ops d = (d', Inr changed)"
    "inj_on (fw_denotes w) (plan_keys resolve ops)"
  shows "run_operations w resolve ops d = Some d'"
proof -
  from apply_plan_success [OF assms(1)] obtain staged where
    st: "stage_operations w resolve d ops ([], []) = Inr (staged, changed)"
    "commit_staged_changes w staged d = (d', None)" .
  from stage_operations_view [OF view_rel_Nil assms(2) subset_refl st(1)] obtain v where
    "run_operations w resolve ops d = Some v" "view_rel w (plan_keys resolve ops) staged d v" by blast
  with commit_matches_view [OF _ assms(2) st(2)] show ?thesis by blast
qed

definition demo_world :: "(nat \<Rightarrow> bool) \<Rightarrow> file_world" where
  "demo_world refused =
     \<lparr>fw_denotes = (\<lambda>k. case k of [Normal [c]] \<Rightarrow> of_char c | [Normal _, ParentDir, Normal [c]] \<Rightarrow> of_char c | _ \<Rightarrow> 0),
      fw_is_dir = (\<lambda>_. False), fw_read_fails = (\<lambda>_. False), fw_write_fails = refused,
      fw_delete_fails = (\<lambda>_. False), fw_restore_fails = (\<lambda>_. False), fw_utf8 = (\<lambda>_. True)\<rparr>"

definition demo_resolve :: resolver where
  "demo_resolve p = Inr (path_components p)"

lemma applied_patch_is_sequential_witness:
  "run_operations (demo_world (\<lambda>_. False)) demo_resolve [AddFile ''a'' ''x'', DeleteFile ''a''] (\<lambda>_. None) = Some (\<lambda>_. None)"
proof (rule applied_patch_is_sequential)
  have c: "path_components ''a'' = [Normal ''a'']" by code_simp
  show "apply_plan (demo_world (\<lambda>_. False)) demo_resolve [AddFile ''a'' ''x'', DeleteFile ''a''] (\<lambda>_. None) =
      (\<lambda>_. None, Inr [[Normal ''a'']])"
    by (simp add: apply_plan_def stage_operation_def stage_add_def stage_delete_def resolve_patch_path_def
        demo_resolve_def demo_world_def c validate_file_can_be_deleted_def commit_staged_changes_def fs_read_def
        Let_def fun_eq_iff insort_insert_key_def)
  show "inj_on (fw_denotes (demo_world (\<lambda>_. False))) (plan_keys demo_resolve [AddFile ''a'' ''x'', DeleteFile ''a''])"
    by (simp add: plan_keys_def operation_keys_def operation_paths_def demo_resolve_def c)
qed

text \<open>The second of two writes fails, and the first file cannot be restored.\<close>

definition demo_patch :: string where
  "demo_patch = print_patch [AddFile ''a'' (''x'' @ [CHR 0x0A]), AddFile ''b'' (''y'' @ [CHR 0x0A])]"

definition failing_world :: file_world where
  "failing_world = (demo_world (\<lambda>f. f = 98))\<lparr>fw_restore_fails := \<lambda>_. True\<rparr>"

definition patch_argument :: "string \<Rightarrow> json option" where
  "patch_argument s = Some (JObject [(''patch'', JString s)])"

lemma demo_patch_parses:
  "parse_apply_patch demo_patch = Inr [AddFile ''a'' (''x'' @ [CHR 0x0A]), AddFile ''b'' (''y'' @ [CHR 0x0A])]"
  by code_simp

lemma demo_patch_not_blank: "\<not> is_blank demo_patch"
  by code_simp

lemma demo_patch_fails:
  "execute_apply_patch patch_argument failing_world demo_resolve demo_patch (\<lambda>_. None) =
     ((\<lambda>_. None)(97 \<mapsto> ''x'' @ [CHR 0x0A]), PatchFailed (CommitFailure WritingFile [Normal ''b''] [[Normal ''a'']]))"
proof -
  have c: "path_components ''a'' = [Normal ''a'']" "path_components ''b'' = [Normal ''b'']" by code_simp+
  have lt: "Normal ''a'' < Normal ''b''" "\<not> Normal ''b'' < Normal ''a''" by code_simp+
  show ?thesis
    by (simp add: execute_apply_patch_def extract_patch_text_def patch_argument_def json_object_def
        json_field_string_def json_str_def demo_patch_not_blank demo_patch_parses apply_plan_def stage_operation_def
        stage_add_def resolve_patch_path_def demo_resolve_def failing_world_def demo_world_def c lt
        commit_staged_changes_def fs_read_def rollback_and_fail_def Let_def)
qed

lemma failed_patch_restores_witness:
  "{f. ((\<lambda>_. None)(97 \<mapsto> ''x'' @ [CHR 0x0A])) f \<noteq> (\<lambda>_. None) f} \<subseteq>
     fw_denotes failing_world ` set (unrestored_paths (CommitFailure WritingFile [Normal ''b''] [[Normal ''a'']]))"
  by (rule failed_patch_restores [OF demo_patch_fails])

section \<open>Only the files of the plan\<close>

lemma undo_all_other: "f \<notin> fw_denotes w ` fst ` set applied \<Longrightarrow> undo_all w applied d f = d f"
  by (induction w applied d rule: undo_all.induct) auto

lemma rollback_other:
  "rollback w applied d = (d', us) \<Longrightarrow> f \<notin> fw_denotes w ` fst ` set applied \<Longrightarrow> d' f = d f"
  by (induction w applied d arbitrary: d' us rule: rollback.induct)
    (auto simp: Let_def split: if_split_asm prod.split_asm)

lemma commit_steps_other:
  assumes "commit_steps w steps applied d = (d', r)" "f \<notin> fw_denotes w ` fst ` (set steps \<union> set applied)"
  shows "d' f = d f"
  using assms
proof (induction steps arbitrary: applied d)
  case (Cons s steps)
  obtain k c where s: "s = (k, c)" by (cases s)
  show ?case
  proof (cases rule: commit_step_cases [of w k c steps applied d])
    case (failed stage)
    with Cons.prems(1) s have "rollback_and_fail w applied stage k d = (d', r)" by simp
    then obtain us where "rollback w applied d = (d', us)"
      by (auto simp: rollback_and_fail_def split: prod.split_asm)
    from rollback_other [OF this] Cons.prems(2) show ?thesis by auto
  next
    case made
    with Cons.prems(1) s have "commit_steps w steps ((k, d (fw_denotes w k)) # applied) (d(fw_denotes w k := c)) = (d', r)"
      by simp
    from Cons.IH [OF this] Cons.prems(2) s show ?thesis by auto
  qed
qed simp

lemma in_ordered_putD: "(a, b) \<in> set (ordered_put k v m) \<Longrightarrow> a = k \<or> (a, b) \<in> set m"
  by (induction k v m rule: ordered_put.induct) (auto split: if_split_asm)

lemma stage_operation_keys:
  assumes "stage_operation w resolve d op (staged, changed) = Inr (staged', changed')"
  shows "fst ` set staged' \<subseteq> fst ` set staged \<union> operation_keys resolve op"
  using assms
  by (cases op)
    (auto simp: stage_operation_def stage_add_def stage_delete_def stage_update_def Let_def operation_keys_def
      operation_paths_def split: sum.split_asm if_split_asm option.split_asm prod.split_asm
      dest!: resolve_patch_path_InrD in_ordered_putD intro: rev_image_eqI)

lemma stage_operations_keys:
  assumes "stage_operations w resolve d ops (staged, changed) = Inr (staged', changed')"
  shows "fst ` set staged' \<subseteq> fst ` set staged \<union> plan_keys resolve ops"
  using assms
proof (induction ops arbitrary: staged changed)
  case (Cons op ops)
  then obtain staged1 changed1 where st: "stage_operation w resolve d op (staged, changed) = Inr (staged1, changed1)"
    "stage_operations w resolve d ops (staged1, changed1) = Inr (staged', changed')"
    by (auto split: sum.split_asm)
  from Cons.IH [OF st(2)] stage_operation_keys [OF st(1)] show ?case by (auto simp: plan_keys_def)
qed simp

lemma only_declared_files_touched:
  assumes "apply_plan w resolve ops d = (d', r)"
  shows "{f. d' f \<noteq> d f} \<subseteq> fw_denotes w ` plan_keys resolve ops"
proof
  fix f assume f: "f \<in> {f. d' f \<noteq> d f}"
  show "f \<in> fw_denotes w ` plan_keys resolve ops"
  proof (cases "stage_operations w resolve d ops ([], [])")
    case (Inl e)
    with assms f show ?thesis by (simp add: apply_plan_def)
  next
    case (Inr st)
    then obtain staged changed where st: "stage_operations w resolve d ops ([], []) = Inr (staged, changed)"
      by (cases st) auto
    with assms obtain q where q: "commit_steps w (filter (\<lambda>(k, c). c \<noteq> None) staged @ filter (\<lambda>(k, c). c = None) staged) [] d = (d', q)"
      by (auto simp: apply_plan_def commit_staged_changes_def split: prod.split_asm option.split_asm)
    have "f \<in> fw_denotes w ` fst ` set staged"
      using commit_steps_other [OF q, of f] f by (auto simp: image_iff)
    with stage_operations_keys [OF st] show ?thesis by auto
  qed
qed

section \<open>What the format allows\<close>

text \<open>The lines of a hunk are looked for as a piece of text, which may begin in the middle of a line.\<close>

lemma hunk_matches_inside_line:
  "apply_text_hunk (''foobar'' @ [CHR 0x0A]) \<lparr>th_old_lines = [''bar''], th_new_lines = [''qux'']\<rparr> =
     Inr (''fooqux'' @ [CHR 0x0A])"
  by code_simp

text \<open>A move replaces a file that is there, which \<open>Add File\<close> refuses to do.\<close>

lemma move_overwrites:
  assumes "run_operation w resolve (UpdateFile p (Some t) []) v = Some v'" "resolve p = Inr k" "resolve t = Inr k2"
    "fw_denotes w k \<noteq> fw_denotes w k2"
  shows "v' (fw_denotes w k2) = v (fw_denotes w k)"
  using assms by (auto simp: run_operation_def split: option.split_asm if_split_asm)

text \<open>Two spellings of one file are two entries of the staging: the second update of the file is computed
  from the contents on the disk, and the first one is lost.\<close>

definition two_spellings :: "patch_operation list" where
  "two_spellings =
     [UpdateFile ''f'' None [\<lparr>th_old_lines = [''a''], th_new_lines = [''A'']\<rparr>],
      UpdateFile ''d/../f'' None [\<lparr>th_old_lines = [''b''], th_new_lines = [''B'']\<rparr>]]"

lemma second_spelling_loses_update:
  "fst (apply_plan (demo_world (\<lambda>_. False)) demo_resolve two_spellings ((\<lambda>_. None)(102 \<mapsto> ''a-b''))) 102 \<noteq> Some ''A-B''"
proof -
  have c: "path_components ''f'' = [Normal ''f'']"
    "path_components ''d/../f'' = [Normal ''d'', ParentDir, Normal ''f'']" by code_simp+
  have lt: "Normal ''d'' < Normal ''f''" by code_simp
  have h: "apply_text_hunk ''a-b'' \<lparr>th_old_lines = [''a''], th_new_lines = [''A'']\<rparr> = Inr ''A-b''"
    "apply_text_hunk ''a-b'' \<lparr>th_old_lines = [''b''], th_new_lines = [''B'']\<rparr> = Inr ''a-B''" by code_simp+
  show ?thesis
    by (simp add: apply_plan_def two_spellings_def stage_operation_def stage_update_def resolve_patch_path_def
        demo_resolve_def demo_world_def c lt h read_staged_or_disk_def fs_read_to_string_def fs_read_def
        commit_staged_changes_def Let_def)
qed

end
