(* ===== verification/PatchRoundtrip.thy ===== *)
theory PatchRoundtrip
  imports PatchFormat
begin

text \<open>
  Every plan can be written: what the printer gives for a plan, the parser reads back as the
  plan.
\<close>

section \<open>Lines\<close>

lemma unify_newlines_plain: "CHR 0x0D \<notin> set s \<Longrightarrow> unify_newlines s = s"
  by (induction s) auto

lemma split_on_line: "c \<notin> set l \<Longrightarrow> split_on c (l @ c # rest) = l # split_on c rest"
  by (induction l) auto

lemma split_on_joined:
  assumes "ls \<noteq> []" "\<And>l. l \<in> set ls \<Longrightarrow> c \<notin> set l"
  shows "split_on c (str_join [c] ls @ [c]) = ls @ [[]]"
  using assms
proof (induction ls)
  case (Cons l ls)
  show ?case
  proof (cases ls)
    case Nil
    then show ?thesis using Cons.prems split_on_line [of c l "[]"] by simp
  next
    case (Cons m ms)
    then show ?thesis
      using Cons.IH Cons.prems split_on_line [of c l "str_join [c] ls @ [c]"] by simp
  qed
qed simp

lemma set_joined: "set (str_join sep ls) \<subseteq> set sep \<union> (\<Union>l \<in> set ls. set l)"
  by (induction sep ls rule: str_join.induct) auto

lemma patch_lines_joined:
  assumes "ls \<noteq> []" "list_all plain_line ls"
  shows "patch_lines (join_patch_lines ls) = ls @ [[]]"
proof -
  have "CHR 0x0D \<notin> set (str_join [CHR 0x0A] ls)"
    using set_joined [of "[CHR 0x0A]" ls] assms(2) by (auto simp: list_all_iff plain_line_def)
  then have "unify_newlines (join_patch_lines ls) = join_patch_lines ls"
    using assms(1) by (intro unify_newlines_plain) (simp add: join_patch_lines_def)
  then show ?thesis
    using assms split_on_joined [of ls "CHR 0x0A"]
    by (simp add: patch_lines_def join_patch_lines_def list_all_iff plain_line_def)
qed

lemma content_lines_joined:
  assumes "ls \<noteq> []" "list_all plain_line ls"
  shows "content_lines (join_patch_lines ls) = ls"
  using assms split_on_joined [of ls "CHR 0x0A"]
  by (simp add: content_lines_def join_patch_lines_def list_all_iff plain_line_def)

section \<open>Operations\<close>

lemma strip_prefix_same [simp]: "strip_prefix p (p @ s) = Some s"
  by (simp add: strip_prefix_def)

lemma headers_differ [simp]:
  "strip_prefix add_header (delete_header @ s) = None"
  "strip_prefix add_header (update_header @ s) = None"
  "strip_prefix delete_header (update_header @ s) = None"
  "add_header @ s \<noteq> end_line" "delete_header @ s \<noteq> end_line" "update_header @ s \<noteq> end_line"
  by (simp_all add: strip_prefix_def patch_marks)

lemma body_line_no_boundary [simp]:
  "c \<noteq> CHR ''*'' \<Longrightarrow> \<not> is_patch_boundary (c # l)" "c \<noteq> CHR ''*'' \<Longrightarrow> c # l \<noteq> eof_line"
  by (auto simp: is_patch_boundary_def patch_marks)

lemma header_boundary [simp]:
  "is_patch_boundary (add_header @ s)" "is_patch_boundary (delete_header @ s)"
  "is_patch_boundary (update_header @ s)" "is_patch_boundary end_line"
  by (simp_all add: is_patch_boundary_def)

lemma normalize_patch_path [simp]: "patch_path p \<Longrightarrow> normalize_patch_path p = Inr p"
  by (simp add: normalize_patch_path_def patch_path_def)

definition at_boundary :: "string list \<Rightarrow> bool" where
  "at_boundary ls \<longleftrightarrow> (case ls of [] \<Rightarrow> True | l # _ \<Rightarrow> is_patch_boundary l)"

lemma parse_add_lines_printed:
  "at_boundary rest \<Longrightarrow> parse_add_lines p (map (\<lambda>l. CHR ''+'' # l) ls @ rest) = Inr (ls, rest)"
proof (induction ls)
  case Nil
  then show ?case by (cases rest) (simp_all add: at_boundary_def)
next
  case (Cons l ls)
  then show ?case by (simp add: strip_prefix_def)
qed

lemma parse_update_old_lines:
  "parse_update_lines p hs h (map (\<lambda>l. CHR ''-'' # l) ls @ rest) =
     parse_update_lines p hs (h\<lparr>th_old_lines := th_old_lines h @ ls\<rparr>) rest"
  by (induction ls arbitrary: h) simp_all

lemma parse_update_new_lines:
  "parse_update_lines p hs h (map (\<lambda>l. CHR ''+'' # l) ls @ rest) =
     parse_update_lines p hs (h\<lparr>th_new_lines := th_new_lines h @ ls\<rparr>) rest"
  by (induction ls arbitrary: h) simp_all

lemma parse_update_lines_printed:
  assumes "at_boundary rest" "list_all wf_hunk hunks"
  shows "parse_update_lines p hs h (concat (map print_hunk hunks) @ rest) =
    Inr (push_hunk_if_present hs h @ hunks, rest)"
  using assms(2)
proof (induction hunks arbitrary: hs h)
  case Nil
  then show ?case using assms(1) by (cases rest) (simp_all add: at_boundary_def)
next
  case (Cons k ks)
  have "push_hunk_if_present (push_hunk_if_present hs h) k = push_hunk_if_present hs h @ [k]"
    using Cons.prems by (auto simp: push_hunk_if_present_def wf_hunk_def)
  moreover obtain old new where "k = \<lparr>th_old_lines = old, th_new_lines = new\<rparr>" by (cases k)
  ultimately show ?case using Cons
    by (simp add: print_hunk_def parse_update_old_lines parse_update_new_lines empty_hunk_def)
qed

lemma parse_operation_printed:
  assumes "wf_operation op" "at_boundary rest"
  obtains header body where "print_operation op = header # body" "is_patch_boundary header" "header \<noteq> end_line"
    "parse_operation header (body @ rest) = Some (Inr (op, rest))"
proof (cases op)
  case (AddFile path content)
  with assms(1) obtain ls where ls: "ls \<noteq> []" "list_all plain_line ls" "content = join_patch_lines ls" "patch_path path"
    by (auto simp: wf_operation_def)
  with AddFile that [of "add_header @ path" "map (\<lambda>l. CHR ''+'' # l) ls"] show thesis
    by (simp add: print_operation_def content_lines_joined parse_operation_def parse_add_file_def
        parse_add_lines_printed [OF assms(2)])
next
  case (DeleteFile path)
  with assms that [of "delete_header @ path" "[]"] show thesis
    by (simp add: print_operation_def parse_operation_def wf_operation_def)
next
  case (UpdateFile path move_to hunks)
  let ?body = "(case move_to of None \<Rightarrow> [] | Some t \<Rightarrow> [move_header @ t]) @ concat (map print_hunk hunks)"
  have wf: "patch_path path" "pred_option patch_path move_to" "list_all wf_hunk hunks" "move_to \<noteq> None \<or> hunks \<noteq> []"
    using assms(1) UpdateFile by (simp_all add: wf_operation_def)
  have move: "parse_move_target (?body @ rest) = Inr (move_to, concat (map print_hunk hunks) @ rest)"
  proof (cases move_to)
    case None
    with wf(4) obtain k ks where "hunks = k # ks" by (cases hunks) auto
    with None show ?thesis by (simp add: parse_move_target_def print_hunk_def strip_prefix_def patch_marks)
  next
    case (Some t)
    with wf(2) show ?thesis by (simp add: parse_move_target_def)
  qed
  have "parse_update_lines path [] empty_hunk (concat (map print_hunk hunks) @ rest) = Inr (hunks, rest)"
    using parse_update_lines_printed [OF assms(2) wf(3)] by (simp add: push_hunk_if_present_def empty_hunk_def)
  with move wf(1,4) that [of "update_header @ path" ?body] UpdateFile show thesis
    by (auto simp: print_operation_def parse_operation_def parse_update_file_def)
qed

lemma printed_boundary: "\<exists>header body. print_operation op = header # body \<and> is_patch_boundary header"
  by (cases op) (simp_all add: print_operation_def)

lemma parse_operations_printed:
  assumes "list_all wf_operation ops"
  shows "parse_operations acc (concat (map print_operation ops) @ end_line # rest) = Inr (acc @ ops, rest)"
  using assms
proof (induction ops arbitrary: acc)
  case (Cons op ops)
  have "at_boundary (concat (map print_operation ops) @ end_line # rest)"
  proof (cases ops)
    case Nil
    then show ?thesis by (simp add: at_boundary_def)
  next
    case (Cons o2 os)
    with printed_boundary [of o2] show ?thesis by (auto simp: at_boundary_def)
  qed
  moreover have "wf_operation op" using Cons.prems by simp
  ultimately obtain header body where
    "print_operation op = header # body" "header \<noteq> end_line"
    "parse_operation header (body @ concat (map print_operation ops) @ end_line # rest) =
       Some (Inr (op, concat (map print_operation ops) @ end_line # rest))"
    using parse_operation_printed by metis
  with Cons.IH Cons.prems show ?case by simp
qed simp

lemma printed_lines_plain: "wf_operation op \<Longrightarrow> list_all plain_line (print_operation op)"
  by (cases op)
    (auto simp: wf_operation_def print_operation_def print_hunk_def wf_hunk_def plain_line_def patch_path_def
      patch_marks list_all_iff content_lines_joined split: option.splits)

text \<open>C23: Every plan can be expressed: a plan whose paths and lines fit the format, whatever its
  operations, their order and the contents of their hunks, is printed as a patch that the parser
  reads back as exactly this plan.\<close>

theorem patch_roundtrip:
  assumes "ops \<noteq> []" "list_all wf_operation ops"
  shows "parse_apply_patch (print_patch ops) = Inr ops"
proof -
  let ?lines = "begin_line # concat (map print_operation ops) @ [end_line]"
  have "list_all plain_line ?lines"
    using assms(2) printed_lines_plain by (auto simp: list_all_iff plain_line_def patch_marks)
  then have "patch_lines (print_patch ops) = ?lines @ [[]]"
    unfolding print_patch_def by (intro patch_lines_joined) simp_all
  with parse_operations_printed [OF assms(2), of "[]" "[[]]"] assms(1) show ?thesis
    by (simp add: parse_apply_patch_def)
qed

definition demo_plan :: "patch_operation list" where
  "demo_plan =
     [AddFile ''a'' (''x'' @ [CHR 0x0A]), DeleteFile ''b'',
      UpdateFile ''c'' (Some ''d'') [\<lparr>th_old_lines = [''p''], th_new_lines = [''q'']\<rparr>]]"

lemma demo_plan_wf: "list_all wf_operation demo_plan"
proof -
  have "patch_path ''a''" "patch_path ''b''" "patch_path ''c''" "patch_path ''d''"
    by code_simp+
  moreover have "\<exists>ls. ls \<noteq> [] \<and> list_all plain_line ls \<and> ''x'' @ [CHR 0x0A] = join_patch_lines ls"
    by (rule exI [of _ "[''x'']"]) (simp add: plain_line_def join_patch_lines_def)
  ultimately show ?thesis
    by (simp add: demo_plan_def wf_operation_def wf_hunk_def plain_line_def)
qed

lemma patch_roundtrip_witness: "parse_apply_patch (print_patch demo_plan) = Inr demo_plan"
  by (rule patch_roundtrip [OF _ demo_plan_wf]) (simp add: demo_plan_def)

end
