(* ===== verification/ShellPaths.thy ===== *)
theory ShellPaths
  imports PatchFormat
begin

text \<open>
  The paths that a shell command reads and writes, as the checks before a call see them
  (\<open>magi-tool-runtime/src/policy.rs\<close>): words and operators, redirections, commands and their
  operands.

  The loop over the characters is a recursion over the rest of them with the state of the loop
  (\<open>escaped\<close>, the open quote, the word begun) as arguments.
\<close>

section \<open>Words and operators\<close>

datatype shell_token = ShellWord string | ShellOperator string

text \<open>What follows \<open>$(\<close>, up to the parenthesis that closes it, and the rest: one step gives the depth,
  the open quote and \<open>escaped\<close> after a character, or the end.\<close>

definition substitution_step ::
    "nat \<Rightarrow> uchar option \<Rightarrow> bool \<Rightarrow> uchar \<Rightarrow> (nat \<times> uchar option \<times> bool) option" where
  "substitution_step depth quote escaped c =
     (if escaped then Some (depth, quote, False)
      else if c = backslash \<and> quote \<noteq> Some single_quote then Some (depth, quote, True)
      else case quote of
             Some active \<Rightarrow> Some (depth, if c = active then None else quote, False)
           | None \<Rightarrow>
               if c \<in> {single_quote, double_quote} then Some (depth, Some c, False)
               else if c = ''('' then Some (Suc depth, None, False)
               else if c = '')'' then (if depth = 1 then None else Some (depth - 1, None, False))
               else Some (depth, None, False))"

fun consume_shell_substitution ::
    "nat \<Rightarrow> uchar option \<Rightarrow> bool \<Rightarrow> uchar list \<Rightarrow> string \<times> uchar list" where
  "consume_shell_substitution depth quote escaped [] = ([], [])"
| "consume_shell_substitution depth quote escaped (c # cs) =
     (case substitution_step depth quote escaped c of
        None \<Rightarrow> (c, cs)
      | Some (depth', quote', escaped') \<Rightarrow>
          (case consume_shell_substitution depth' quote' escaped' cs of (s, rest) \<Rightarrow> (c @ s, rest)))"

lemma consume_shell_substitution_length:
  "length (snd (consume_shell_substitution depth quote escaped cs)) \<le> length cs"
proof (induction cs arbitrary: depth quote escaped)
  case (Cons c cs)
  then show ?case by (auto simp: le_SucI split: option.split prod.split) (metis le_SucI snd_conv)
qed simp

definition push_shell_word :: "string \<Rightarrow> shell_token list" where
  "push_shell_word word = (if word = [] then [] else [ShellWord word])"

definition opens_substitution :: "uchar \<Rightarrow> uchar list \<Rightarrow> bool" where
  "opens_substitution c cs \<longleftrightarrow> c = ''$'' \<and> cs \<noteq> [] \<and> hd cs = ''(''"

definition operator_at :: "uchar \<Rightarrow> uchar list \<Rightarrow> string \<times> uchar list" where
  "operator_at c cs =
     (case cs of
        [] \<Rightarrow> (c, [])
      | n # rest \<Rightarrow>
          if c = ''>'' \<and> n \<in> {''>'', ''|''} \<or> c = ''<'' \<and> n = ''<'' \<or> c = ''|'' \<and> n = ''|''
             \<or> c = ''&'' \<and> n \<in> {''&'', ''>''}
          then if c @ n = ''&>'' \<and> rest \<noteq> [] \<and> hd rest = ''>'' then (''&>>'', tl rest) else (c @ n, rest)
          else (c, cs))"

lemma operator_at_length: "length (snd (operator_at c cs)) \<le> length cs"
  by (auto simp: operator_at_def split: list.splits)

function (sequential)
  shell_path_tokens :: "shell_dialect \<Rightarrow> bool \<Rightarrow> uchar option \<Rightarrow> string \<Rightarrow> uchar list \<Rightarrow> shell_token list" where
  "shell_path_tokens d escaped quote word [] =
     push_shell_word (if escaped then word @ escape_char d else word)"
| "shell_path_tokens d escaped quote word (c # cs) =
     (if escaped then shell_path_tokens d False quote (word @ c) cs
      else if c = escape_char d \<and> quote \<noteq> Some single_quote then shell_path_tokens d True quote word cs
      else if opens_substitution c cs \<and> quote \<noteq> Some single_quote then
        shell_path_tokens d False quote
          (word @ c @ ''('' @ fst (consume_shell_substitution 1 None False (tl cs)))
          (snd (consume_shell_substitution 1 None False (tl cs)))
      else case quote of
        Some active \<Rightarrow>
          if c = active then shell_path_tokens d False None word cs
          else shell_path_tokens d False quote (word @ c) cs
      | None \<Rightarrow>
          if c \<in> {single_quote, double_quote} then shell_path_tokens d False (Some c) word cs
          else if d = Posix \<and> c \<in> {''('', '')''} then
            if c = ''('' \<and> word \<noteq> [] \<and> cs \<noteq> [] \<and> hd cs = '')'' \<or> c = '')'' \<and> suffix ''('' word
            then shell_path_tokens d False None (word @ c) cs
            else push_shell_word word @ ShellOperator c # shell_path_tokens d False None [] cs
          else if c = newline then
            push_shell_word word @ ShellOperator '';'' # shell_path_tokens d False None [] cs
          else if c = ''#'' \<and> word = [] then
            (if newline \<in> set cs then [ShellOperator '';''] else []) @
            shell_path_tokens d False None [] (drop 1 (dropWhile (\<lambda>x. x \<noteq> newline) cs))
          else if is_space c then push_shell_word word @ shell_path_tokens d False None [] cs
          else if c \<in> {''>'', ''<'', ''|'', ''&'', '';''} then
            push_shell_word word @ ShellOperator (fst (operator_at c cs)) #
            shell_path_tokens d False None [] (snd (operator_at c cs))
          else shell_path_tokens d False None (word @ c) cs)"
  by pat_completeness auto
termination
proof (relation "measure (\<lambda>(d, escaped, quote, word, cs). length cs)")
  show "((d, False, quote, w, snd (consume_shell_substitution 1 None False (tl cs))), d, escaped, quote, word, c # cs)
      \<in> measure (\<lambda>(d, escaped, quote, word, cs). length cs)"
    for d escaped quote w word c cs
    using consume_shell_substitution_length [of 1 None False "tl cs"] by (simp add: less_Suc_eq_le)
  show "((d, False, None, w, snd (operator_at c cs)), d, escaped, quote, word, c # cs)
      \<in> measure (\<lambda>(d, escaped, quote, word, cs). length cs)"
    for d escaped quote w word c cs
    using operator_at_length [of c cs] by (simp add: less_Suc_eq_le)
  show "((d, False, None, w, drop 1 (dropWhile (\<lambda>x. x \<noteq> newline) cs)), d, escaped, quote, word, c # cs)
      \<in> measure (\<lambda>(d, escaped, quote, word, cs). length cs)"
    for d escaped quote w word c cs
    using length_dropWhile_le [of "\<lambda>x. x \<noteq> newline" cs] by simp
qed auto

section \<open>Paths\<close>

text \<open>The other forms that the source asks for, such as a drive letter, have one of the two characters.\<close>

definition shell_word_looks_like_path :: "string \<Rightarrow> bool" where
  "shell_word_looks_like_path value \<longleftrightarrow>
     CHR ''/'' \<in> set value \<or> CHR 0x5C \<in> set value"

definition push_shell_path ::
    "externals \<Rightarrow> (string \<Rightarrow> string option) \<Rightarrow> string \<Rightarrow> path_access_kind \<Rightarrow> string option \<Rightarrow> path_access_request list" where
  "push_shell_path ext canon value kind root =
     (let trimmed = str_trim value
      in if trimmed = [] \<or> trimmed = ''-'' \<or> list_ex (\<lambda>c. c \<in> set trimmed) [CHR ''*'', CHR ''?'', CHR ''$'', CHR 0x60]
            \<or> prefix ''http://'' trimmed \<or> prefix ''https://'' trimmed
         then []
         else [\<lparr>pr_absolute_path = resolve_tool_path ext canon trimmed root, pr_kind = kind\<rparr>])"

definition redirection_operators :: "string list" where
  "redirection_operators = [''>'', ''>>'', ''>|'', ''&>'', ''&>>'', ''<'']"

definition redirection_target ::
    "externals \<Rightarrow> (string \<Rightarrow> string option) \<Rightarrow> string \<Rightarrow> string \<Rightarrow> string option \<Rightarrow> path_access_request list" where
  "redirection_target ext canon operator target root =
     (let kind = (if operator = ''<'' then ReadAccess else WriteAccess)
      in if kind = WriteAccess \<and>
              (target = ''/dev/null'' \<or> eq_ignore_case target ''NUL'' \<or> eq_ignore_case target ''$null'')
            \<or> prefix ''&'' target \<or> target = ''-''
         then []
         else push_shell_path ext canon target kind root)"

fun shell_redirection_path_accesses ::
    "externals \<Rightarrow> (string \<Rightarrow> string option) \<Rightarrow> string option \<Rightarrow> shell_token list \<Rightarrow> path_access_request list" where
  "shell_redirection_path_accesses ext canon root [] = []"
| "shell_redirection_path_accesses ext canon root (t # ts) =
     (case (t, ts) of
        (ShellOperator op, ShellWord target # _) \<Rightarrow>
          if op \<in> set redirection_operators then redirection_target ext canon op target root else []
      | _ \<Rightarrow> []) @
     shell_redirection_path_accesses ext canon root ts"

text \<open>The tokens of the segment begun are the first argument.\<close>

fun shell_token_segments :: "shell_token list \<Rightarrow> shell_token list \<Rightarrow> shell_token list list" where
  "shell_token_segments cur [] = (if cur = [] then [] else [cur])"
| "shell_token_segments cur (t # ts) =
     (if t \<in> ShellOperator ` {''|'', ''||'', ''&&'', '';''}
      then (if cur = [] then [] else [cur]) @ shell_token_segments [] ts
      else shell_token_segments (cur @ [t]) ts)"

function (sequential) shell_segment_words :: "shell_token list \<Rightarrow> string list" where
  "shell_segment_words [] = []"
| "shell_segment_words (ShellOperator op # ts) =
     (if op \<in> {''>'', ''>>'', ''>|'', ''<'', ''<<'', ''&>'', ''&>>''}
      then shell_segment_words (drop (if ts \<noteq> [] \<and> hd ts = ShellOperator ''&'' then 2 else 1) ts)
      else shell_segment_words ts)"
| "shell_segment_words (ShellWord w # ts) =
     (if list_all is_digit w \<and> ts \<noteq> [] \<and> hd ts \<in> ShellOperator ` {''>'', ''>>'', ''>|'', ''<''}
      then shell_segment_words ts
      else w # shell_segment_words ts)"
  by pat_completeness auto
termination by (relation "measure length") auto

definition command_prefixes :: "string list" where
  "command_prefixes =
     [''if'', ''then'', ''do'', ''else'', ''elif'', ''time'', ''env'', ''command'', ''builtin'', ''exec'', ''sudo'']"

text \<open>The words from the command on.\<close>

fun shell_command_words :: "string list \<Rightarrow> string list" where
  "shell_command_words [] = []"
| "shell_command_words (w # ws) =
     (if w \<in> set command_prefixes \<or> CHR ''='' \<in> set w \<and> \<not> prefix ''/'' w \<and> \<not> prefix ''./'' w
      then shell_command_words ws
      else w # ws)"

definition shell_non_option_operands :: "string list \<Rightarrow> string list" where
  "shell_non_option_operands arguments = filter (\<lambda>v. \<not> prefix ''-'' v) arguments"

definition copy_commands :: "string list" where
  "copy_commands =
     [''cp'', ''mv'', ''install'', ''copy'', ''xcopy'', ''robocopy'', ''move'', ''copy-item'', ''move-item'']"

definition write_commands :: "string list" where
  "write_commands =
     [''tee'', ''touch'', ''mkdir'', ''rmdir'', ''rm'', ''unlink'', ''truncate'', ''del'', ''erase'', ''remove-item'',
      ''new-item'', ''set-content'', ''add-content'', ''clear-content'', ''out-file'']"

definition shell_segment_path_accesses ::
    "externals \<Rightarrow> (string \<Rightarrow> string option) \<Rightarrow> string option \<Rightarrow> path_access_kind \<Rightarrow> shell_token list \<Rightarrow>
     path_access_request list" where
  "shell_segment_path_accesses ext canon root shell_kind segment =
     (case shell_command_words (shell_segment_words segment) of
        [] \<Rightarrow> []
      | program # arguments \<Rightarrow>
          let command = ascii_lower (last_part [CHR ''/'', CHR 0x5C] program);
              operands = shell_non_option_operands arguments;
              access = (\<lambda>kind v. push_shell_path ext canon v kind root)
          in if command \<in> set copy_commands then
               concat (map (access ReadAccess) (butlast operands)) @
               (if operands = [] then [] else access WriteAccess (last operands))
             else if command \<in> set write_commands then concat (map (access WriteAccess) operands)
             else concat (map (access shell_kind) (filter shell_word_looks_like_path arguments)))"

definition shell_exec_command_path_accesses ::
    "externals \<Rightarrow> (string \<Rightarrow> string option) \<Rightarrow> (string \<times> json) list option \<Rightarrow> string option \<Rightarrow> path_access_kind \<Rightarrow>
     path_access_request list" where
  "shell_exec_command_path_accesses ext canon fs root shell_kind =
     (case Option.bind fs (\<lambda>fs. json_field_string fs ''command'') of
        None \<Rightarrow> []
      | Some command \<Rightarrow>
          let shell = (case Option.bind fs (\<lambda>fs. json_field_string fs ''shell'') of None \<Rightarrow> [] | Some s \<Rightarrow> s);
              tokens = shell_path_tokens (shell_dialect_of shell) False None [] (str_chars command)
          in shell_redirection_path_accesses ext canon root tokens @
             concat (map (shell_segment_path_accesses ext canon root shell_kind) (shell_token_segments [] tokens)))"

end
