(* ===== verification/ToolRequests.thy ===== *)
theory ToolRequests
  imports ShellPaths
begin

text \<open>
  The paths that a call of a built-in tool reads and writes, by its arguments
  (\<open>tool_path_access_requests\<close> of \<open>magi-tool-runtime/src/policy.rs\<close>).

  A \<open>path_world\<close> has what is outside: base64 both ways, the JSON parser, and of the file system
  \<open>canonicalize\<close>, the directories, and the texts of files, which the git tools read to find the
  metadata of a repository, and the directory of the process and that of the user.
\<close>

record path_world =
  pw_ext :: externals
  pw_parse :: "string \<Rightarrow> json option"
  pw_canon :: "string \<Rightarrow> string option"
  pw_read_text :: "string \<Rightarrow> string option"
  pw_is_dir :: "string \<Rightarrow> bool"
  pw_encode :: "string \<Rightarrow> string"
  pw_current_dir :: "string option"
  pw_home_dir :: "string option"

definition resolve_in :: "path_world \<Rightarrow> string \<Rightarrow> string option \<Rightarrow> string" where
  "resolve_in w p root = resolve_tool_path (pw_ext w) (pw_canon w) p root"

definition canonical_in :: "path_world \<Rightarrow> string \<Rightarrow> string" where
  "canonical_in w p = canonicalize_tool_permission_path (pw_canon w) p"

definition access :: "path_access_kind \<Rightarrow> string \<Rightarrow> path_access_request" where
  "access kind p = \<lparr>pr_absolute_path = p, pr_kind = kind\<rparr>"

definition push_tool_path_fields ::
    "path_world \<Rightarrow> (string \<times> json) list option \<Rightarrow> string \<Rightarrow> path_access_kind \<Rightarrow> string option \<Rightarrow>
     path_access_request list" where
  "push_tool_path_fields w fs key kind root =
     (case Option.bind fs (\<lambda>fs. json_field_string fs key) of
        None \<Rightarrow> []
      | Some raw \<Rightarrow> let p = str_trim raw in if p = [] then [] else [access kind (resolve_in w p root)])"

definition same_access :: "path_access_request \<Rightarrow> path_access_request \<Rightarrow> bool" where
  "same_access r q \<longleftrightarrow>
     path_components (pr_absolute_path r) = path_components (pr_absolute_path q) \<and> pr_kind r = pr_kind q"

definition dedup_path_accesses :: "path_access_request list \<Rightarrow> path_access_request list" where
  "dedup_path_accesses rs = foldl (\<lambda>acc r. if list_ex (\<lambda>q. same_access q r) acc then acc else acc @ [r]) [] rs"

section \<open>Repositories\<close>

definition git_metadata_paths :: "path_world \<Rightarrow> string \<Rightarrow> string list" where
  "git_metadata_paths w root =
     (let dot_git = path_join root ''.git'';
          git_dir = (case Option.bind (pw_read_text w dot_git) (\<lambda>t. strip_prefix ''gitdir:'' (str_trim t)) of
                       Some p \<Rightarrow> path_join root (str_trim p)
                     | None \<Rightarrow> dot_git);
          common = (case pw_read_text w (path_join git_dir ''commondir'') of
                      Some t \<Rightarrow> [path_join git_dir (str_trim t)]
                    | None \<Rightarrow> [])
      in git_dir # common)"

definition repository_accesses ::
    "path_world \<Rightarrow> builtin_tool \<Rightarrow> (string \<times> json) list option \<Rightarrow> string option \<Rightarrow> path_access_request list" where
  "repository_accesses w t fs root =
     (if \<not> requires_repository t then []
      else
        let kind = (if is_write_operation t then WriteAccess else ReadAccess);
            named = (case Option.bind fs (\<lambda>fs. json_field_string fs ''repositoryPath'') of
                       Some p \<Rightarrow> if is_blank p then ''.'' else p
                     | None \<Rightarrow> ''.'');
            repository = resolve_in w named root
        in access kind repository # map (\<lambda>m. access kind (canonical_in w m)) (git_metadata_paths w repository))"

section \<open>The shell\<close>

definition shell_exec_uses_working_directory :: "string \<Rightarrow> (string \<times> json) list option \<Rightarrow> bool" where
  "shell_exec_uses_working_directory arguments fs =
     (case fs of
        None \<Rightarrow> \<not> is_blank arguments
      | Some fs \<Rightarrow>
          (case json_field_string fs ''command'' of None \<Rightarrow> False | Some c \<Rightarrow> \<not> is_blank c))"

definition shell_exec_accesses ::
    "path_world \<Rightarrow> string \<Rightarrow> (string \<times> json) list option \<Rightarrow> string option \<Rightarrow> access_profile \<Rightarrow>
     path_access_request list" where
  "shell_exec_accesses w arguments fs root profile =
     (let kind = (if shell_arguments_request_read_only (pw_parse w) arguments then ReadAccess else WriteAccess);
          cwd = push_tool_path_fields w fs ''cwd'' kind root;
          here = (case root of
                    Some r \<Rightarrow> if cwd = [] \<and> shell_exec_uses_working_directory arguments fs
                              then [access kind (canonical_in w r)] else []
                  | None \<Rightarrow> []);
          base = (case Option.bind fs (\<lambda>fs. json_field_string fs ''cwd'') of
                    Some c \<Rightarrow> Some (resolve_in w c root)
                  | None \<Rightarrow> root);
          paths = cwd @ here @ shell_exec_command_path_accesses (pw_ext w) (pw_canon w) fs base kind
      in if profile = ReadOnly then map (\<lambda>r. r\<lparr>pr_kind := ReadAccess\<rparr>) paths else paths)"

section \<open>All tools\<close>

definition upload_accesses ::
    "path_world \<Rightarrow> (string \<times> json) list option \<Rightarrow> string option \<Rightarrow> path_access_request list" where
  "upload_accesses w fs root =
     push_tool_path_fields w fs ''file_path'' ReadAccess root @
     (case Option.bind fs (\<lambda>fs. hget fs ''file_paths'') of
        Some (JArray vs) \<Rightarrow>
          map (\<lambda>p. access ReadAccess (resolve_in w p root))
            (filter (\<lambda>p. p \<noteq> []) (map str_trim (List.map_filter json_str vs)))
      | _ \<Rightarrow> [])"

definition tool_specific_accesses ::
    "path_world \<Rightarrow> builtin_tool \<Rightarrow> string \<Rightarrow> (string \<times> json) list option \<Rightarrow> string option \<Rightarrow> access_profile \<Rightarrow>
     path_access_request list" where
  "tool_specific_accesses w t arguments fs root profile =
     (let field = (\<lambda>key kind. push_tool_path_fields w fs key kind root)
      in if t \<in> {FileRead, ViewImage} then field ''path'' ReadAccess
         else if t = BrowserDownload then
           (case Option.bind fs (\<lambda>fs. json_field_string fs ''action'') of
              Some a \<Rightarrow> if eq_ignore_case (str_trim a) ''save'' then field ''destination_path'' WriteAccess else []
            | None \<Rightarrow> [])
         else if t = BrowserUploadFile then upload_accesses w fs root
         else if t \<in> {FileWrite, FilePatch, FileRemove} then field ''path'' WriteAccess
         else if t = ImageGenerate then
           (case (field ''output_path'' WriteAccess, root) of
              ([], Some r) \<Rightarrow> [access WriteAccess (canonical_in w (path_join r ''generated-images''))]
            | (paths, _) \<Rightarrow> paths)
         else if t = FileMkdir then field ''path'' WriteAccess
         else if t = FileCopy then field ''source'' ReadAccess @ field ''destination'' WriteAccess
         else if t = FileMove then field ''source'' WriteAccess @ field ''destination'' WriteAccess
         else if t = DiffPreview then field ''before_path'' ReadAccess @ field ''after_path'' ReadAccess
         else if t = SearchText then field ''root'' ReadAccess
         else if t = CodeSymbols then field ''path'' ReadAccess
         else if t = ShellExec then shell_exec_accesses w arguments fs root profile
         else if t = ProcessLaunch then
           (case (field ''cwd'' WriteAccess, root) of
              ([], Some r) \<Rightarrow> [access WriteAccess (canonical_in w r)]
            | (paths, _) \<Rightarrow> paths)
         else [])"

definition tool_path_access_requests ::
    "path_world \<Rightarrow> string \<Rightarrow> string \<Rightarrow> string option \<Rightarrow> access_profile \<Rightarrow> path_access_request list" where
  "tool_path_access_requests w name arguments root profile =
     (case builtin_tool_from_name name of
        None \<Rightarrow> []
      | Some t \<Rightarrow>
          if t = ApplyPatch then
            dedup_path_accesses
              (map (\<lambda>p. access WriteAccess (resolve_in w p root))
                (apply_patch_declared_paths_from_input (pw_parse w) arguments))
          else
            let fs = json_object (pw_parse w) arguments
            in dedup_path_accesses
                 (repository_accesses w t fs root @ tool_specific_accesses w t arguments fs root profile))"

section \<open>Lists of accesses\<close>

lemma dedup_covers:
  assumes "r \<in> set rs"
  shows "\<exists>q \<in> set (dedup_path_accesses rs). same_access q r"
proof -
  let ?step = "\<lambda>acc r. if list_ex (\<lambda>q. same_access q r) acc then acc else acc @ [r]"
  have grow: "set acc \<subseteq> set (foldl ?step acc rs)" for acc rs
  proof (induction rs arbitrary: acc)
    case (Cons s rs)
    have "set acc \<subseteq> set (?step acc s)" by auto
    also have "\<dots> \<subseteq> set (foldl ?step (?step acc s) rs)" by (rule Cons.IH)
    finally show ?case by (simp only: foldl.simps)
  qed simp
  have "\<exists>q \<in> set (foldl ?step acc rs). same_access q r" if "r \<in> set rs" for acc
    using that
  proof (induction rs arbitrary: acc)
    case (Cons s rs)
    show ?case
    proof (cases "r = s")
      case True
      have "\<exists>q \<in> set (?step acc s). same_access q s"
        by (auto simp: list_ex_iff same_access_def)
      then obtain q where "q \<in> set (?step acc s)" "same_access q s" by blast
      with grow [of "?step acc s" rs] True show ?thesis by (simp only: foldl.simps) blast
    next
      case False
      with Cons show ?thesis by simp
    qed
  qed simp
  then show ?thesis using assms by (simp add: dedup_path_accesses_def)
qed

lemma same_access_within:
  "same_access q r \<Longrightarrow> path_is_within (pr_absolute_path q) root = path_is_within (pr_absolute_path r) root"
  by (simp add: same_access_def path_is_within_def)

end
