(* ===== verification/Governance.thy ===== *)
theory Governance
  imports ToolNames
begin

text \<open>
  The governance service (\<open>magi-governance\<close>): which requests of tools, of the sandbox, for paths
  and for control of a worker are allowed, need approval, or are refused.  Texts of reasons are
  constructors; the summary line of a trace is left out.
\<close>

section \<open>Requests\<close>

datatype tool_kind = BuiltinKind | McpKind | SkillBoundKind | HostBoundKind

record tool_execution_request =
  te_tool_name :: string
  te_tool_kind :: tool_kind
  te_risk_level :: risk_level
  te_approval_requirement :: approval_requirement

record sandbox_request =
  sx_command :: string
  sx_working_directory :: string

datatype worker_control_kind =
  ControlExecute | ControlReview | ControlVerify | ControlRepair | ControlRepairRetry | ControlFinish | ControlFail

record worker_control_request =
  wr_worker_id :: "worker_id option"
  wr_mission_id :: "mission_id option"
  wr_assignment_id :: "string option"
  wr_task_id :: "task_id option"
  wr_action :: worker_control_kind
  wr_risk_level :: risk_level
  wr_approval_requirement :: approval_requirement
  wr_retry_count :: nat
  wr_blocked :: bool
  wr_reason :: "string option"

section \<open>Decisions\<close>

datatype decision_phase = ToolPolicyPhase | ApprovalPolicyPhase | SandboxPolicyPhase | WorkerControlPhase

datatype governance_outcome = OutcomeAllowed | OutcomeNeedsApproval | OutcomeRejected | OutcomeBlocked

datatype governance_reason =
    GivenReason string
  | HighRiskTool string
  | ToolRequestRejected string
  | EmptyWorkingDirectory
  | ControlledDirectory string
  | AbsolutePathsOnly
  | WorkerControlBlocked
  | RetryNeedsAttempt
  | WorkerActionBlocked
  | FullAccessSkips
  | PermissionReason permission_reason
  | PolicyRejection string
  | WriteConflict

record governance_decision =
  gd_outcome :: governance_outcome
  gd_allowed :: bool
  gd_requires_approval :: bool
  gd_phase :: decision_phase
  gd_threshold :: risk_level
  gd_reason :: "governance_reason option"

definition governance_allowed :: "decision_phase \<Rightarrow> risk_level \<Rightarrow> governance_reason option \<Rightarrow> governance_decision" where
  "governance_allowed phase threshold reason =
     \<lparr>gd_outcome = OutcomeAllowed, gd_allowed = True, gd_requires_approval = False,
      gd_phase = phase, gd_threshold = threshold, gd_reason = reason\<rparr>"

definition governance_needs_approval ::
    "decision_phase \<Rightarrow> risk_level \<Rightarrow> governance_reason option \<Rightarrow> governance_decision" where
  "governance_needs_approval phase threshold reason =
     \<lparr>gd_outcome = OutcomeNeedsApproval, gd_allowed = False, gd_requires_approval = True,
      gd_phase = phase, gd_threshold = threshold, gd_reason = reason\<rparr>"

definition governance_rejected :: "decision_phase \<Rightarrow> risk_level \<Rightarrow> governance_reason option \<Rightarrow> governance_decision" where
  "governance_rejected phase threshold reason =
     \<lparr>gd_outcome = OutcomeRejected, gd_allowed = False, gd_requires_approval = False,
      gd_phase = phase, gd_threshold = threshold, gd_reason = reason\<rparr>"

definition governance_blocked :: "decision_phase \<Rightarrow> risk_level \<Rightarrow> governance_reason option \<Rightarrow> governance_decision" where
  "governance_blocked phase threshold reason =
     \<lparr>gd_outcome = OutcomeBlocked, gd_allowed = False, gd_requires_approval = False,
      gd_phase = phase, gd_threshold = threshold, gd_reason = reason\<rparr>"

datatype governance_action = ActionAutoAllowed | ActionManualApproval | ActionRejected | ActionBlocked

definition governance_action_of :: "governance_decision \<Rightarrow> governance_action" where
  "governance_action_of d =
     (case gd_outcome d of
        OutcomeAllowed \<Rightarrow> ActionAutoAllowed
      | OutcomeNeedsApproval \<Rightarrow> ActionManualApproval
      | OutcomeRejected \<Rightarrow> ActionRejected
      | OutcomeBlocked \<Rightarrow> ActionBlocked)"

definition outcome_label :: "governance_decision \<Rightarrow> string" where
  "outcome_label d =
     (case gd_outcome d of
        OutcomeAllowed \<Rightarrow> ''allowed''
      | OutcomeNeedsApproval \<Rightarrow> ''needs_approval''
      | OutcomeRejected \<Rightarrow> ''rejected''
      | OutcomeBlocked \<Rightarrow> ''blocked'')"

section \<open>The service\<close>

record governance_thresholds =
  gt_auto_allow_max_risk :: risk_level
  gt_manual_approval_risk :: risk_level

definition default_thresholds :: governance_thresholds where
  "default_thresholds = \<lparr>gt_auto_allow_max_risk = RiskMedium, gt_manual_approval_risk = RiskHigh\<rparr>"

datatype approval_action = ApprovalAutoAllowed | RequiresManualApproval | ApprovalRejected

definition decide_approval_action :: "tool_execution_request \<Rightarrow> approval_action" where
  "decide_approval_action r =
     (if te_risk_level r = RiskHigh then RequiresManualApproval
      else if te_approval_requirement r = ApprovalRequired then RequiresManualApproval
      else ApprovalAutoAllowed)"

definition evaluate_tool_request :: "governance_thresholds \<Rightarrow> tool_execution_request \<Rightarrow> governance_decision" where
  "evaluate_tool_request th r =
     (case decide_approval_action r of
        RequiresManualApproval \<Rightarrow>
          governance_needs_approval ApprovalPolicyPhase (gt_manual_approval_risk th)
            (Some (HighRiskTool (te_tool_name r)))
      | ApprovalAutoAllowed \<Rightarrow> governance_allowed ToolPolicyPhase (gt_auto_allow_max_risk th) None
      | ApprovalRejected \<Rightarrow>
          governance_rejected ToolPolicyPhase (gt_manual_approval_risk th)
            (Some (ToolRequestRejected (te_tool_name r))))"

definition evaluate_sandbox :: "governance_thresholds \<Rightarrow> sandbox_request \<Rightarrow> governance_decision" where
  "evaluate_sandbox th r =
     (if sx_working_directory r = []
      then governance_blocked SandboxPolicyPhase (gt_auto_allow_max_risk th) (Some EmptyWorkingDirectory)
      else governance_allowed SandboxPolicyPhase (gt_auto_allow_max_risk th)
             (Some (ControlledDirectory (sx_command r))))"

definition evaluate_path_access :: "governance_thresholds \<Rightarrow> string \<Rightarrow> governance_decision" where
  "evaluate_path_access th absolute_path =
     (if \<not> prefix ''/'' absolute_path
      then governance_blocked ToolPolicyPhase (gt_auto_allow_max_risk th) (Some AbsolutePathsOnly)
      else governance_allowed ToolPolicyPhase (gt_auto_allow_max_risk th) None)"

definition control_reason :: "worker_control_request \<Rightarrow> governance_reason \<Rightarrow> governance_reason" where
  "control_reason r fallback = (case wr_reason r of Some t \<Rightarrow> GivenReason t | None \<Rightarrow> fallback)"

definition evaluate_worker_control_request ::
    "governance_thresholds \<Rightarrow> worker_control_request \<Rightarrow> governance_decision" where
  "evaluate_worker_control_request th r =
     (if wr_blocked r then
        governance_blocked WorkerControlPhase (gt_auto_allow_max_risk th) (Some (control_reason r WorkerControlBlocked))
      else if wr_action r = ControlRepairRetry \<and> wr_retry_count r = 0 then
        governance_rejected WorkerControlPhase (gt_auto_allow_max_risk th) (Some (control_reason r RetryNeedsAttempt))
      else if wr_risk_level r = RiskHigh \<or> wr_approval_requirement r = ApprovalRequired then
        governance_needs_approval ApprovalPolicyPhase (gt_manual_approval_risk th)
          (Some (control_reason r WorkerActionBlocked))
      else governance_allowed WorkerControlPhase (gt_auto_allow_max_risk th) (map_option GivenReason (wr_reason r)))"

datatype governance_target =
    TargetTool string tool_kind
  | TargetSandbox string string
  | TargetPath string
  | TargetWorkerControl worker_control_kind "worker_id option" "mission_id option" "string option" "task_id option"

record governance_trace =
  gv_target :: governance_target
  gv_decision :: governance_decision
  gv_action :: governance_action

definition governance_trace_new :: "governance_target \<Rightarrow> governance_decision \<Rightarrow> governance_trace" where
  "governance_trace_new target d = \<lparr>gv_target = target, gv_decision = d, gv_action = governance_action_of d\<rparr>"

definition trace_tool_request :: "governance_thresholds \<Rightarrow> tool_execution_request \<Rightarrow> governance_trace" where
  "trace_tool_request th r =
     governance_trace_new (TargetTool (te_tool_name r) (te_tool_kind r)) (evaluate_tool_request th r)"

definition trace_sandbox :: "governance_thresholds \<Rightarrow> sandbox_request \<Rightarrow> governance_trace" where
  "trace_sandbox th r =
     governance_trace_new (TargetSandbox (sx_command r) (sx_working_directory r)) (evaluate_sandbox th r)"

definition trace_path_access :: "governance_thresholds \<Rightarrow> string \<Rightarrow> governance_trace" where
  "trace_path_access th p = governance_trace_new (TargetPath p) (evaluate_path_access th p)"

definition trace_worker_control_request :: "governance_thresholds \<Rightarrow> worker_control_request \<Rightarrow> governance_trace" where
  "trace_worker_control_request th r =
     governance_trace_new
       (TargetWorkerControl (wr_action r) (wr_worker_id r) (wr_mission_id r) (wr_assignment_id r) (wr_task_id r))
       (evaluate_worker_control_request th r)"

lemma governance_flags [simp]:
  "gd_allowed (governance_allowed ph th r)" "\<not> gd_allowed (governance_needs_approval ph th r)"
  "\<not> gd_allowed (governance_rejected ph th r)" "\<not> gd_allowed (governance_blocked ph th r)"
  "gd_requires_approval (governance_needs_approval ph th r)"
  by (simp_all add: governance_allowed_def governance_needs_approval_def governance_rejected_def governance_blocked_def)

lemma tool_request_allowed:
  "gd_allowed (evaluate_tool_request th r) \<longleftrightarrow>
     te_risk_level r \<noteq> RiskHigh \<and> te_approval_requirement r = ApprovalNotRequired"
  by (cases "te_approval_requirement r") (simp_all add: evaluate_tool_request_def decide_approval_action_def)

end
