(* ===== verification/ProjectDirectories.thy ===== *)
theory ProjectDirectories
  imports ToolRequests Governance
begin

text \<open>
  The directories of a call (\<open>magi-core/src/project.rs\<close>, \<open>magi-tool-runtime/src/project_directory.rs\<close>,
  \<open>types.rs\<close>, \<open>policy.rs\<close>): the map from the source directories of a project to the directories
  in which it is executed, the directory that a call selects, the policy of a call and its
  projection to those directories.
\<close>

section \<open>The map of directories\<close>

record execution_root =
  er_source_folder_id :: string
  er_source_root_ref :: string
  er_execution_root_ref :: string

record execution_map =
  em_workspace_id :: workspace_id
  em_default_source_folder_id :: string
  em_roots :: "execution_root list"

datatype directory_error =
    InvalidRootRef
  | BindingInvalid domain_error
  | DuplicateOrRelativeRoot
  | OverlappingRoots
  | MapDoesNotMatchBinding
  | FolderNotGranted string
  | InvalidFolderId
  | NoTrustedMap
  | WrongProject
  | ExecutionDirectoryGone
  | ExecutionDirectoryChanged
  | InvalidPolicyPath

definition decode_root :: "path_world \<Rightarrow> string \<Rightarrow> directory_error + string" where
  "decode_root w r = (case decode_native_path (pw_ext w) r of None \<Rightarrow> Inl InvalidRootRef | Some p \<Rightarrow> Inr p)"

definition source_root :: "path_world \<Rightarrow> execution_root \<Rightarrow> directory_error + string" where
  "source_root w r = decode_root w (er_source_root_ref r)"

definition execution_root_of :: "path_world \<Rightarrow> execution_root \<Rightarrow> directory_error + string" where
  "execution_root_of w r = decode_root w (er_execution_root_ref r)"

fun check_other_roots :: "path_world \<Rightarrow> string \<Rightarrow> string \<Rightarrow> execution_root list \<Rightarrow> directory_error + unit" where
  "check_other_roots w folder execution [] = Inr ()"
| "check_other_roots w folder execution (o1 # os) =
     (if er_source_folder_id o1 = folder then check_other_roots w folder execution os
      else case source_root w o1 of
             Inl e \<Rightarrow> Inl e
           | Inr source \<Rightarrow>
               (case execution_root_of w o1 of
                  Inl e \<Rightarrow> Inl e
                | Inr other \<Rightarrow>
                    if path_is_within execution source \<or> path_is_within source execution
                       \<or> path_is_within execution other \<or> path_is_within other execution
                    then Inl OverlappingRoots
                    else check_other_roots w folder execution os))"

fun check_roots ::
    "path_world \<Rightarrow> execution_root list \<Rightarrow> path_component list list \<Rightarrow> execution_root list \<Rightarrow> directory_error + unit" where
  "check_roots w all_roots seen [] = Inr ()"
| "check_roots w all_roots seen (r # rs) =
     (case execution_root_of w r of
        Inl e \<Rightarrow> Inl e
      | Inr execution \<Rightarrow>
          if \<not> path_is_absolute execution \<or> path_components execution \<in> set seen
          then Inl DuplicateOrRelativeRoot
          else (case check_other_roots w (er_source_folder_id r) execution all_roots of
                  Inl e \<Rightarrow> Inl e
                | Inr _ \<Rightarrow> check_roots w all_roots (path_components execution # seen) rs))"

definition binding_of_map :: "execution_map \<Rightarrow> project_directory_binding" where
  "binding_of_map m =
     \<lparr>pd_workspace_id = em_workspace_id m, pd_project_revision = 1,
      pd_default_source_folder_id = em_default_source_folder_id m,
      pd_source_folders =
        map (\<lambda>r. \<lparr>sg_source_folder_id = er_source_folder_id r, sg_source_path_ref = er_source_root_ref r\<rparr>) (em_roots m)\<rparr>"

definition execution_map_validate :: "path_world \<Rightarrow> execution_map \<Rightarrow> directory_error + unit" where
  "execution_map_validate w m =
     (case directory_binding_validate (pw_ext w) (binding_of_map m) of
        Inl e \<Rightarrow> Inl (BindingInvalid e)
      | Inr _ \<Rightarrow> check_roots w (em_roots m) [] (em_roots m))"

definition validate_for_binding ::
    "path_world \<Rightarrow> execution_map \<Rightarrow> project_directory_binding \<Rightarrow> directory_error + unit" where
  "validate_for_binding w m b =
     (case execution_map_validate w m of
        Inl e \<Rightarrow> Inl e
      | Inr _ \<Rightarrow>
         (case directory_binding_validate (pw_ext w) b of
            Inl e \<Rightarrow> Inl (BindingInvalid e)
          | Inr _ \<Rightarrow>
              if em_workspace_id m \<noteq> pd_workspace_id b
                 \<or> em_default_source_folder_id m \<noteq> pd_default_source_folder_id b
                 \<or> length (em_roots m) \<noteq> length (pd_source_folders b)
                 \<or> list_ex (\<lambda>r. \<not> list_ex (\<lambda>g. er_source_folder_id r = sg_source_folder_id g
                                                \<and> er_source_root_ref r = sg_source_path_ref g) (pd_source_folders b))
                     (em_roots m)
              then Inl MapDoesNotMatchBinding else Inr ()))"

definition execution_map_root ::
    "path_world \<Rightarrow> execution_map \<Rightarrow> string option \<Rightarrow> directory_error + execution_root" where
  "execution_map_root w m folder =
     (case execution_map_validate w m of
        Inl e \<Rightarrow> Inl e
      | Inr _ \<Rightarrow>
          let i = (case folder of None \<Rightarrow> em_default_source_folder_id m | Some i \<Rightarrow> i)
          in case find (\<lambda>r. er_source_folder_id r = i) (em_roots m) of
               Some r \<Rightarrow> Inr r
             | None \<Rightarrow> Inl (FolderNotGranted i))"

text \<open>The longest source directory of those that contain the path, the first one of them.\<close>

fun best_root ::
    "path_world \<Rightarrow> string \<Rightarrow> (string \<times> string) option \<Rightarrow> execution_root list \<Rightarrow>
     directory_error + (string \<times> string) option" where
  "best_root w p best [] = Inr best"
| "best_root w p best (r # rs) =
     (case source_root w r of
        Inl e \<Rightarrow> Inl e
      | Inr source \<Rightarrow>
          if path_is_within p source \<and>
             (case best of None \<Rightarrow> True
              | Some (previous, _) \<Rightarrow> length (path_components previous) < length (path_components source))
          then (case execution_root_of w r of Inl e \<Rightarrow> Inl e | Inr x \<Rightarrow> best_root w p (Some (source, x)) rs)
          else best_root w p best rs)"

definition map_source_path :: "path_world \<Rightarrow> execution_map \<Rightarrow> string \<Rightarrow> directory_error + string" where
  "map_source_path w m p =
     (case execution_map_validate w m of
        Inl e \<Rightarrow> Inl e
      | Inr _ \<Rightarrow>
         (case best_root w p None (em_roots m) of
            Inl e \<Rightarrow> Inl e
          | Inr None \<Rightarrow> Inr p
          | Inr (Some (source, execution)) \<Rightarrow>
              Inr (path_join execution
                     (path_of_components (drop (length (path_components source)) (path_components p))))))"

section \<open>The context of a call\<close>

record tool_context =
  tc_worker_id :: "worker_id option"
  tc_task_id :: "task_id option"
  tc_session_id :: "session_id option"
  tc_workspace_id :: "workspace_id option"
  tc_access_profile :: access_profile
  tc_working_directory :: "string option"
  tc_directory_map :: "execution_map option"

fun check_directories :: "path_world \<Rightarrow> execution_root list \<Rightarrow> directory_error + unit" where
  "check_directories w [] = Inr ()"
| "check_directories w (r # rs) =
     (case execution_root_of w r of
        Inl e \<Rightarrow> Inl e
      | Inr execution \<Rightarrow>
          (case pw_canon w execution of
             None \<Rightarrow> Inl ExecutionDirectoryGone
           | Some c \<Rightarrow>
               if \<not> pw_is_dir w c \<or> path_components c \<noteq> path_components execution
               then Inl ExecutionDirectoryChanged
               else check_directories w rs))"

definition requested_folder :: "path_world \<Rightarrow> string \<Rightarrow> directory_error + string option" where
  "requested_folder w arguments =
     (case Option.bind (pw_parse w arguments) (json_get ''source_folder_id'') of
        None \<Rightarrow> Inr None
      | Some (JString i) \<Rightarrow> if is_blank i then Inl InvalidFolderId else Inr (Some i)
      | Some _ \<Rightarrow> Inl InvalidFolderId)"

definition for_tool_arguments :: "path_world \<Rightarrow> tool_context \<Rightarrow> string \<Rightarrow> directory_error + tool_context" where
  "for_tool_arguments w c arguments =
     (case requested_folder w arguments of
        Inl e \<Rightarrow> Inl e
      | Inr requested \<Rightarrow>
         (case tc_directory_map c of
            None \<Rightarrow> if requested \<noteq> None then Inl NoTrustedMap else Inr c
          | Some m \<Rightarrow>
             (case execution_map_validate w m of
                Inl e \<Rightarrow> Inl e
              | Inr _ \<Rightarrow>
                  if tc_workspace_id c \<noteq> Some (em_workspace_id m) then Inl WrongProject
                  else (case check_directories w (em_roots m) of
                          Inl e \<Rightarrow> Inl e
                        | Inr _ \<Rightarrow>
                           (case execution_map_root w m requested of
                              Inl e \<Rightarrow> Inl e
                            | Inr r \<Rightarrow>
                               (case execution_root_of w r of
                                  Inl e \<Rightarrow> Inl e
                                | Inr d \<Rightarrow> Inr (c\<lparr>tc_working_directory := Some d\<rparr>)))))))"

fun roots_of :: "path_world \<Rightarrow> execution_root list \<Rightarrow> directory_error + string list" where
  "roots_of w [] = Inr []"
| "roots_of w (r # rs) =
     (case execution_root_of w r of
        Inl e \<Rightarrow> Inl e
      | Inr x \<Rightarrow> (case roots_of w rs of Inl e \<Rightarrow> Inl e | Inr xs \<Rightarrow> Inr (x # xs)))"

definition project_execution_roots :: "path_world \<Rightarrow> tool_context \<Rightarrow> directory_error + string list" where
  "project_execution_roots w c =
     (case tc_directory_map c of
        None \<Rightarrow> Inr (case tc_working_directory c of None \<Rightarrow> [] | Some d \<Rightarrow> [d])
      | Some m \<Rightarrow>
          (case execution_map_validate w m of
             Inl e \<Rightarrow> Inl e
           | Inr _ \<Rightarrow> roots_of w (em_roots m)))"

fun retired_in :: "path_world \<Rightarrow> string \<Rightarrow> execution_root list \<Rightarrow> directory_error + bool" where
  "retired_in w p [] = Inr False"
| "retired_in w p (r # rs) =
     (case source_root w r of
        Inl e \<Rightarrow> Inl e
      | Inr source \<Rightarrow>
          (case execution_root_of w r of
             Inl e \<Rightarrow> Inl e
           | Inr execution \<Rightarrow>
               if path_components source \<noteq> path_components execution \<and> path_is_within p source
                  \<and> \<not> path_is_within p execution
               then Inr True
               else retired_in w p rs))"

definition references_retired_project_root :: "path_world \<Rightarrow> tool_context \<Rightarrow> string \<Rightarrow> directory_error + bool" where
  "references_retired_project_root w c p =
     (case tc_directory_map c of
        None \<Rightarrow> Inr False
      | Some m \<Rightarrow> retired_in w (canonical_in w p) (em_roots m))"

section \<open>The policy of a call\<close>

record execution_policy =
  xp_access_profile :: access_profile
  xp_source_skill_ids :: "string list"
  xp_allowed_tool_names :: "string list option"
  xp_denied_tool_names :: "string list"
  xp_allowed_paths :: "string list"
  xp_denied_paths :: "string list"
  xp_read_only_paths :: "string list"
  xp_command_mode :: string

definition execution_access_profile :: "execution_policy \<Rightarrow> access_profile" where
  "execution_access_profile p = constrained_by_command_mode (xp_access_profile p) (xp_command_mode p)"

definition canonical_tool_policy_name :: "string \<Rightarrow> string" where
  "canonical_tool_policy_name value =
     (case canonical_builtin_tool_name value of Some n \<Rightarrow> n | None \<Rightarrow> str_trim value)"

datatype name_rejection = ExplicitlyDenied | NotAllowed

definition tool_name_rejection :: "execution_policy \<Rightarrow> string \<Rightarrow> name_rejection option" where
  "tool_name_rejection p name =
     (let canonical = canonical_tool_policy_name name
      in if list_ex (\<lambda>t. canonical_tool_policy_name t = canonical) (xp_denied_tool_names p)
         then Some ExplicitlyDenied
         else case xp_allowed_tool_names p of
                None \<Rightarrow> None
              | Some allowed \<Rightarrow>
                  if \<not> list_ex (\<lambda>t. canonical_tool_policy_name t = canonical) allowed then Some NotAllowed else None)"

definition extend_unique :: "string list \<Rightarrow> string list \<Rightarrow> string list" where
  "extend_unique target values =
     foldl (\<lambda>acc v. if list_ex (\<lambda>e. canonical_tool_policy_name e = canonical_tool_policy_name v) acc
                     then acc else acc @ [v]) target values"

fun project_paths ::
    "path_world \<Rightarrow> execution_map \<Rightarrow> string \<Rightarrow> string list \<Rightarrow> directory_error + string list" where
  "project_paths w m default_source [] = Inr []"
| "project_paths w m default_source (p # ps) =
     (if is_blank p then project_paths w m default_source ps
      else case normalize_tool_policy_paths (pw_ext w) (pw_canon w) [p] (Some default_source) of
             [] \<Rightarrow> Inl InvalidPolicyPath
           | source # _ \<Rightarrow>
               (case map_source_path w m source of
                  Inl e \<Rightarrow> Inl e
                | Inr x \<Rightarrow>
                   (case project_paths w m default_source ps of
                      Inl e \<Rightarrow> Inl e
                    | Inr xs \<Rightarrow> Inr ((unix_path_ref_prefix @ pw_encode w x) # xs))))"

definition project_execution_policy ::
    "path_world \<Rightarrow> tool_context \<Rightarrow> execution_policy \<Rightarrow> directory_error + execution_policy" where
  "project_execution_policy w c p =
     (case tc_directory_map c of
        None \<Rightarrow> Inr p
      | Some m \<Rightarrow>
         (case execution_map_validate w m of
            Inl e \<Rightarrow> Inl e
          | Inr _ \<Rightarrow>
         (case execution_map_root w m None of
            Inl e \<Rightarrow> Inl e
          | Inr r \<Rightarrow>
         (case source_root w r of
            Inl e \<Rightarrow> Inl e
          | Inr s \<Rightarrow>
         (case project_paths w m s (xp_allowed_paths p) of
            Inl e \<Rightarrow> Inl e
          | Inr allowed \<Rightarrow>
         (case project_paths w m s (xp_denied_paths p) of
            Inl e \<Rightarrow> Inl e
          | Inr denied \<Rightarrow>
         (case project_paths w m s (xp_read_only_paths p) of
            Inl e \<Rightarrow> Inl e
          | Inr read_only \<Rightarrow>
              Inr (p\<lparr>xp_allowed_paths := allowed, xp_denied_paths := denied, xp_read_only_paths := read_only\<rparr>))))))))"

definition execution_permission_policy :: "path_world \<Rightarrow> execution_policy \<Rightarrow> tool_context \<Rightarrow> permission_policy" where
  "execution_permission_policy w p c =
     (let root = tc_working_directory c;
          profile = execution_access_profile p;
          allowed = effective_tool_policy_allowed_paths (pw_ext w) (pw_canon w) profile (xp_allowed_paths p) root
      in \<lparr>pp_allowed_tools =
            set (map canonical_tool_policy_name
              (case xp_allowed_tool_names p of None \<Rightarrow> [] | Some ts \<Rightarrow> ts)),
          pp_denied_tools = set (map canonical_tool_policy_name (xp_denied_tool_names p)),
          pp_allowed_paths =
            (if tc_directory_map c \<noteq> None \<and> list_all is_blank (xp_allowed_paths p) \<and> profile \<noteq> FullAccess
             then (case project_execution_roots w c of Inl _ \<Rightarrow> [] | Inr rs \<Rightarrow> rs)
             else allowed),
          pp_denied_paths = normalize_tool_policy_paths (pw_ext w) (pw_canon w) (xp_denied_paths p) root,
          pp_command_mode = xp_command_mode p\<rparr>)"

end
