(* ===== verification/ToolExecution.thy ===== *)
theory ToolExecution
  imports ProjectDirectories
begin

text \<open>
  The execution of a built-in tool (\<open>magi-tool-runtime/src/registry.rs\<close>, \<open>policy.rs\<close>): the checks
  before the tool runs, the claims that keep two writing calls apart, and the record of the
  calls.

  A call is two steps, its start and its end, because the tool runs between them without a lock;
  what the tool does is not modelled here, its payload is an argument of the end.  Texts of
  payloads are constructors.
\<close>

section \<open>Calls and results\<close>

datatype execution_status =
    ExecSucceeded | ExecFailed | ExecRejected | ExecNeedsApproval | ExecCancelled | ExecIndeterminate

definition wire_label :: "execution_status \<Rightarrow> string" where
  "wire_label s =
     (case s of
        ExecSucceeded \<Rightarrow> ''succeeded'' | ExecFailed \<Rightarrow> ''failed'' | ExecRejected \<Rightarrow> ''rejected''
      | ExecNeedsApproval \<Rightarrow> ''needs_approval'' | ExecCancelled \<Rightarrow> ''cancelled''
      | ExecIndeterminate \<Rightarrow> ''indeterminate'')"

definition from_wire_label :: "string \<Rightarrow> execution_status option" where
  "from_wire_label label =
     map_of [(''succeeded'', ExecSucceeded), (''failed'', ExecFailed), (''rejected'', ExecRejected),
             (''needs_approval'', ExecNeedsApproval), (''cancelled'', ExecCancelled),
             (''indeterminate'', ExecIndeterminate)] label"

lemma from_wire_label: "from_wire_label (wire_label s) = Some s"
  by (cases s) (simp_all add: wire_label_def from_wire_label_def)

record tool_input =
  ti_call_id :: string
  ti_tool_name :: string
  ti_tool_kind :: tool_kind
  ti_input :: string
  ti_approval_requirement :: approval_requirement
  ti_risk_level :: risk_level

definition for_builtin_invocation :: "(string \<Rightarrow> json option) \<Rightarrow> string \<Rightarrow> string \<Rightarrow> string \<Rightarrow> tool_input" where
  "for_builtin_invocation parse call_id requested input =
     (let name = str_trim requested;
          (tool_name, policy) =
            (case builtin_tool_from_name name of
               Some t \<Rightarrow> (builtin_tool_str t, invocation_policy_for_input parse t input)
             | None \<Rightarrow> (name, low_risk_policy))
      in \<lparr>ti_call_id = call_id, ti_tool_name = tool_name, ti_tool_kind = BuiltinKind, ti_input = input,
          ti_approval_requirement = ip_approval_requirement policy, ti_risk_level = ip_risk_level policy\<rparr>)"

datatype tool_payload =
    CancelledBeforeStart
  | InternalSurface builtin_tool
  | ContextRequired builtin_tool bool
  | PolicyPayload governance_reason
  | DirectoryPayload directory_error
  | ConflictPayload tool_access_mode
  | UnregisteredTool string
  | ToolPayload string

record tool_output =
  to_call_id :: string
  to_status :: execution_status
  to_payload :: tool_payload
  to_governance :: governance_decision

definition execution_status_of :: "(string \<Rightarrow> json option) \<Rightarrow> string \<Rightarrow> execution_status" where
  "execution_status_of parse payload =
     (case Option.bind (parse payload)
             (\<lambda>v. Option.bind (json_get ''status'' v) (\<lambda>x. Option.bind (json_str x) from_wire_label)) of
        Some s \<Rightarrow> s | None \<Rightarrow> ExecFailed)"

section \<open>The axes of the policy\<close>

definition policy_rejection :: "tool_input \<Rightarrow> tool_payload \<Rightarrow> governance_reason \<Rightarrow> tool_output" where
  "policy_rejection i payload reason =
     \<lparr>to_call_id = ti_call_id i, to_status = ExecRejected, to_payload = payload,
      to_governance = governance_rejected ToolPolicyPhase (ti_risk_level i) (Some reason)\<rparr>"

definition rejection_code :: "name_rejection \<Rightarrow> string" where
  "rejection_code r = (case r of ExplicitlyDenied \<Rightarrow> ''tool_explicitly_denied'' | NotAllowed \<Rightarrow> ''tool_not_in_allowed_scope'')"

definition enforce_execution_policy :: "tool_input \<Rightarrow> execution_policy \<Rightarrow> tool_output option" where
  "enforce_execution_policy i p =
     map_option
       (\<lambda>r. let reason = PolicyRejection (rejection_code r @ '': '' @ ti_tool_name i)
            in policy_rejection i (PolicyPayload reason) reason)
       (tool_name_rejection p (ti_tool_name i))"

definition parse_requested_access_mode :: "(string \<Rightarrow> json option) \<Rightarrow> string \<Rightarrow> tool_access_mode option" where
  "parse_requested_access_mode parse input =
     Option.bind (json_object parse input)
       (\<lambda>fs. Option.bind (json_field_string fs ''access_mode'') access_mode_from_str)"

definition resolve_access_mode :: "(string \<Rightarrow> json option) \<Rightarrow> tool_input \<Rightarrow> tool_access_mode" where
  "resolve_access_mode parse i =
     (case builtin_tool_from_name (str_trim (ti_tool_name i)) of
        None \<Rightarrow> AccessReadOnly
      | Some t \<Rightarrow>
          if is_background_process_observation parse t (ti_input i) then AccessReadOnly
          else if default_access_mode t = MaybeWrite then
            let requested = (case parse_requested_access_mode parse (ti_input i) of Some m \<Rightarrow> m | None \<Rightarrow> MaybeWrite)
            in if t = ShellExec \<and> requested = AccessReadOnly \<and>
                  \<not> shell_arguments_request_read_only parse (ti_input i)
               then MaybeWrite else requested
          else default_access_mode t)"

definition normalize_execution_policy :: "execution_policy \<Rightarrow> execution_policy" where
  "normalize_execution_policy p =
     (let norm = (\<lambda>xs. remdups_adj (sort xs))
      in \<lparr>xp_access_profile = xp_access_profile p,
          xp_source_skill_ids = norm (xp_source_skill_ids p),
          xp_allowed_tool_names = map_option norm (xp_allowed_tool_names p),
          xp_denied_tool_names = norm (xp_denied_tool_names p),
          xp_allowed_paths = norm (xp_allowed_paths p),
          xp_denied_paths = norm (xp_denied_paths p),
          xp_read_only_paths = norm (xp_read_only_paths p),
          xp_command_mode = xp_command_mode p\<rparr>)"

type_synonym axis = "(execution_status \<times> governance_reason) option"

definition permission_decision_output :: "permission_decision \<Rightarrow> axis" where
  "permission_decision_output d =
     (case d of
        Allow \<Rightarrow> None
      | Deny r \<Rightarrow> Some (ExecRejected, PermissionReason r)
      | NeedsApproval r \<Rightarrow> Some (ExecNeedsApproval, PermissionReason r))"

text \<open>The first rejection, else the first result that is not an allowance (\<open>pending_output\<close>).\<close>

fun select_permission_axis_output :: "axis \<Rightarrow> axis list \<Rightarrow> axis" where
  "select_permission_axis_output pending [] = pending"
| "select_permission_axis_output pending (None # axes) = select_permission_axis_output pending axes"
| "select_permission_axis_output pending (Some (status, reason) # axes) =
     (if status = ExecRejected then Some (status, reason)
      else select_permission_axis_output (if pending = None then Some (status, reason) else pending) axes)"

definition path_axis ::
    "path_world \<Rightarrow> permission_policy \<Rightarrow> string \<Rightarrow> tool_context \<Rightarrow> string list \<Rightarrow> string list \<Rightarrow> access_profile \<Rightarrow>
     path_access_request \<Rightarrow> axis" where
  "path_axis w pp name c read_only explicit profile r =
     (if (case references_retired_project_root w c (pr_absolute_path r) of
            Inl _ \<Rightarrow> True | Inr b \<Rightarrow> b)
      then Some (ExecRejected, PolicyRejection ''project_execution_root_retired'')
      else if pr_kind r = WriteAccess \<and> list_ex (path_is_within (pr_absolute_path r)) read_only
      then Some (ExecRejected, PolicyRejection ''read_only_reference'')
      else permission_decision_output (decide_tool_path_access pp name r explicit profile))"

definition access_profile_axes ::
    "path_world \<Rightarrow> tool_input \<Rightarrow> tool_context \<Rightarrow> execution_policy \<Rightarrow> axis list" where
  "access_profile_axes w i c policy =
     (let p = normalize_execution_policy policy;
          profile = execution_access_profile p;
          root = tc_working_directory c;
          pp = execution_permission_policy w p c;
          writeful = (case builtin_tool_from_name (str_trim (ti_tool_name i)) of
                        None \<Rightarrow> False | Some t \<Rightarrow> is_access_profile_write_operation t);
          read_only = normalize_tool_policy_paths (pw_ext w) (pw_canon w) (xp_read_only_paths p) root;
          dec = (\<lambda>q. permission_decision_output (decide (pw_parse w) builtin_permission_engine q pp profile))
      in dec (ToolInvocation (ti_tool_name i) writeful) #
         (if ti_tool_name i = builtin_tool_str ShellExec then [dec (ShellCommand (ti_input i))] else []) @
         map (path_axis w pp (str_trim (ti_tool_name i)) c read_only (xp_allowed_paths p) profile)
           (tool_path_access_requests w (ti_tool_name i) (ti_input i) root profile))"

definition axis_output :: "tool_input \<Rightarrow> execution_status \<times> governance_reason \<Rightarrow> tool_output" where
  "axis_output i a =
     (case a of (status, reason) \<Rightarrow>
        \<lparr>to_call_id = ti_call_id i, to_status = status, to_payload = PolicyPayload reason,
         to_governance =
           (if status = ExecNeedsApproval
            then governance_needs_approval ApprovalPolicyPhase (ti_risk_level i) (Some reason)
            else governance_rejected ToolPolicyPhase (ti_risk_level i) (Some reason))\<rparr>)"

definition enforce_access_profile_policy ::
    "path_world \<Rightarrow> tool_input \<Rightarrow> tool_context \<Rightarrow> execution_policy \<Rightarrow> tool_output option" where
  "enforce_access_profile_policy w i c policy =
     map_option (axis_output i) (select_permission_axis_output None (access_profile_axes w i c policy))"

end
