(* ===== verification/ToolRegistry.thy ===== *)
theory ToolRegistry
  imports ToolExecution
begin

text \<open>
  The registry of tools (\<open>magi-tool-runtime/src/registry.rs\<close>): the order of the checks before a
  call, the claims of writing calls, and the steps of calls that run at the same time.
\<close>

section \<open>Claims\<close>

record write_scope =
  ws_workspace_id :: "workspace_id option"
  ws_session_id :: "session_id option"
  ws_task_id :: "task_id option"
  ws_working_directory :: "path_component list option"
  ws_paths :: "path_component list list"

definition differ :: "'a option \<Rightarrow> 'a option \<Rightarrow> bool" where
  "differ a b \<longleftrightarrow> a \<noteq> None \<and> b \<noteq> None \<and> a \<noteq> b"

definition agree :: "'a option \<Rightarrow> 'a option \<Rightarrow> bool" where
  "agree a b \<longleftrightarrow> a \<noteq> None \<and> a = b"

definition conflicts_with :: "write_scope \<Rightarrow> write_scope \<Rightarrow> bool" where
  "conflicts_with s t =
     (if differ (ws_workspace_id s) (ws_workspace_id t) then False
      else if differ (ws_session_id s) (ws_session_id t) then False
      else if agree (ws_task_id s) (ws_task_id t) then True
      else if agree (ws_working_directory s) (ws_working_directory t) then True
      else list_ex (\<lambda>p. p \<in> set (ws_paths t)) (ws_paths s))"

lemma conflicts_sym: "conflicts_with s t = conflicts_with t s"
proof -
  have "differ (ws_workspace_id s) (ws_workspace_id t) = differ (ws_workspace_id t) (ws_workspace_id s)"
    "differ (ws_session_id s) (ws_session_id t) = differ (ws_session_id t) (ws_session_id s)"
    unfolding differ_def by metis+
  moreover have "agree (ws_task_id s) (ws_task_id t) = agree (ws_task_id t) (ws_task_id s)"
    "agree (ws_working_directory s) (ws_working_directory t) = agree (ws_working_directory t) (ws_working_directory s)"
    unfolding agree_def by metis+
  moreover have "list_ex (\<lambda>p. p \<in> set (ws_paths t)) (ws_paths s) = list_ex (\<lambda>p. p \<in> set (ws_paths s)) (ws_paths t)"
    by (auto simp: list_ex_iff)
  ultimately show ?thesis unfolding conflicts_with_def by simp
qed

definition call_directory :: "path_world \<Rightarrow> tool_context \<Rightarrow> string option" where
  "call_directory w c = (case tc_working_directory c of Some d \<Rightarrow> Some d | None \<Rightarrow> pw_current_dir w)"

definition lock_path :: "path_world \<Rightarrow> tool_context \<Rightarrow> string \<Rightarrow> path_component list option" where
  "lock_path w c p =
     (case resolve_path_with_context (pw_ext w) p (call_directory w c) (pw_home_dir w) of
        Inl _ \<Rightarrow> None | Inr r \<Rightarrow> Some (normalize_path_for_lock r))"

definition build_write_scope ::
    "path_world \<Rightarrow> tool_input \<Rightarrow> tool_context \<Rightarrow> tool_access_mode \<Rightarrow> write_scope option" where
  "build_write_scope w i c mode =
     (if \<not> is_writeful mode then None
      else
        let request = json_object (pw_parse w) (ti_input i);
            declared = (if builtin_tool_from_name (str_trim (ti_tool_name i)) = Some ApplyPatch
                        then apply_patch_declared_paths_from_input (pw_parse w) (ti_input i) else []);
            named = (case request of
                       None \<Rightarrow> []
                     | Some fs \<Rightarrow> List.map_filter (json_field_string fs)
                                    [''path'', ''source'', ''destination'', ''cwd'', ''root'']);
            paths = remdups_adj (sort (List.map_filter (lock_path w c) (declared @ named)));
            directory =
              (if ti_tool_name i = builtin_tool_str ShellExec then
                 (case Option.bind request (\<lambda>fs. json_field_string fs ''cwd'') of
                    Some d \<Rightarrow> lock_path w c d
                  | None \<Rightarrow> map_option normalize_path_for_lock (call_directory w c))
               else None)
        in if tc_workspace_id c = None \<and> tc_task_id c = None \<and> directory = None \<and> paths = [] then None
           else Some \<lparr>ws_workspace_id = tc_workspace_id c, ws_session_id = tc_session_id c,
                      ws_task_id = tc_task_id c, ws_working_directory = directory, ws_paths = paths\<rparr>)"

section \<open>The state\<close>

record invocation_record =
  iv_call_id :: string
  iv_tool_name :: string
  iv_tool_kind :: tool_kind
  iv_context :: tool_context
  iv_status :: execution_status
  iv_payload :: tool_payload

record registry_state =
  rg_claims :: "(string, write_scope) hmap"
  rg_invocations :: "invocation_record list"

definition record_invocation :: "tool_input \<Rightarrow> tool_context \<Rightarrow> tool_output \<Rightarrow> registry_state \<Rightarrow> registry_state" where
  "record_invocation i c out s =
     s\<lparr>rg_invocations := rg_invocations s @
         [\<lparr>iv_call_id = ti_call_id i, iv_tool_name = ti_tool_name i, iv_tool_kind = ti_tool_kind i,
           iv_context = c, iv_status = to_status out, iv_payload = to_payload out\<rparr>]\<rparr>"

definition write_conflict_rejection :: "tool_input \<Rightarrow> tool_access_mode \<Rightarrow> tool_output" where
  "write_conflict_rejection i mode =
     \<lparr>to_call_id = ti_call_id i, to_status = ExecRejected, to_payload = ConflictPayload mode,
      to_governance = governance_blocked SandboxPolicyPhase (ti_risk_level i) (Some WriteConflict)\<rparr>"

text \<open>The guard of a call that holds a claim is the id of the call.\<close>

definition acquire_write_guard ::
    "path_world \<Rightarrow> tool_input \<Rightarrow> tool_context \<Rightarrow> tool_access_mode \<Rightarrow> registry_state \<Rightarrow>
     (tool_output + write_scope option) \<times> registry_state" where
  "acquire_write_guard w i c mode s =
     (if \<not> is_writeful mode then (Inr None, s)
      else case build_write_scope w i c mode of
             None \<Rightarrow> (Inr None, s)
           | Some scope \<Rightarrow>
               if list_ex (\<lambda>held. conflicts_with held scope) (hvalues (rg_claims s))
               then (Inl (write_conflict_rejection i mode), s)
               else (Inr (Some scope), s\<lparr>rg_claims := hput (ti_call_id i) scope (rg_claims s)\<rparr>))"

definition drop_write_guard :: "string \<Rightarrow> write_scope option \<Rightarrow> registry_state \<Rightarrow> registry_state" where
  "drop_write_guard call_id guard s =
     (case guard of None \<Rightarrow> s | Some _ \<Rightarrow> s\<lparr>rg_claims := hremove call_id (rg_claims s)\<rparr>)"

section \<open>The checks before a call\<close>

datatype call_admission =
    Refused tool_input tool_context tool_output
  | Admitted tool_input tool_context tool_access_mode governance_decision

definition canonical_input :: "tool_input \<Rightarrow> tool_input" where
  "canonical_input i =
     (case (if ti_tool_kind i = BuiltinKind then builtin_tool_from_name (str_trim (ti_tool_name i)) else None) of
        Some t \<Rightarrow> i\<lparr>ti_tool_name := builtin_tool_str t\<rparr>
      | None \<Rightarrow> i)"

definition surface_refusal :: "bool \<Rightarrow> tool_input \<Rightarrow> tool_context \<Rightarrow> tool_output option" where
  "surface_refusal allow_internal i c =
     (case (if ti_tool_kind i = BuiltinKind then builtin_tool_from_name (str_trim (ti_tool_name i)) else None) of
        None \<Rightarrow> None
      | Some t \<Rightarrow>
          if \<not> allow_internal \<and> \<not> is_public_tool_surface t
          then Some (policy_rejection i (InternalSurface t) (PolicyRejection ''internal_surface''))
          else if requires_workspace_context t \<and> tc_workspace_id c = None
          then Some (policy_rejection i (ContextRequired t True) (PolicyRejection ''workspace_required''))
          else if requires_execution_directory t \<and> tc_workspace_id c = None \<and> tc_working_directory c = None
          then Some (policy_rejection i (ContextRequired t False) (PolicyRejection ''execution_directory_required''))
          else None)"

definition directory_refusal :: "tool_input \<Rightarrow> directory_error \<Rightarrow> tool_output" where
  "directory_refusal i e = policy_rejection i (DirectoryPayload e) (PolicyRejection ''project_directory_invalid'')"

definition governance_for_call :: "governance_thresholds \<Rightarrow> tool_input \<Rightarrow> access_profile \<Rightarrow> governance_decision" where
  "governance_for_call th i profile =
     (if profile = FullAccess
      then governance_allowed ApprovalPolicyPhase (ti_risk_level i) (Some FullAccessSkips)
      else evaluate_tool_request th
             \<lparr>te_tool_name = ti_tool_name i, te_tool_kind = ti_tool_kind i, te_risk_level = ti_risk_level i,
              te_approval_requirement = ti_approval_requirement i\<rparr>)"

definition governance_refusal :: "tool_input \<Rightarrow> governance_decision \<Rightarrow> tool_output" where
  "governance_refusal i g =
     \<lparr>to_call_id = ti_call_id i,
      to_status = (if gd_requires_approval g then ExecNeedsApproval else ExecRejected),
      to_payload = PolicyPayload (case gd_reason g of Some r \<Rightarrow> r | None \<Rightarrow> PolicyRejection ''blocked''),
      to_governance = g\<rparr>"

definition cancelled_output :: "tool_input \<Rightarrow> tool_output" where
  "cancelled_output i =
     \<lparr>to_call_id = ti_call_id i, to_status = ExecCancelled, to_payload = CancelledBeforeStart,
      to_governance = governance_allowed ToolPolicyPhase (ti_risk_level i) None\<rparr>"

definition check_resolved_call ::
    "path_world \<Rightarrow> governance_thresholds \<Rightarrow> tool_input \<Rightarrow> tool_context \<Rightarrow> execution_policy \<Rightarrow> call_admission" where
  "check_resolved_call w th i c policy =
     (case enforce_access_profile_policy w i c policy of
        Some out \<Rightarrow> Refused i c out
      | None \<Rightarrow>
          let g = governance_for_call th i (execution_access_profile policy)
          in if gd_allowed g then Admitted i c (resolve_access_mode (pw_parse w) i) g
             else Refused i c (governance_refusal i g))"

definition admit_call ::
    "path_world \<Rightarrow> governance_thresholds \<Rightarrow> bool \<Rightarrow> bool \<Rightarrow> execution_policy \<Rightarrow> tool_context \<Rightarrow> tool_input \<Rightarrow> call_admission" where
  "admit_call w th allow_internal cancelled policy context0 input0 =
     (let c0 = context0\<lparr>tc_access_profile := execution_access_profile policy\<rparr>
      in if cancelled then Refused input0 c0 (cancelled_output input0)
         else
           let i = canonical_input input0
           in case surface_refusal allow_internal i c0 of
                Some out \<Rightarrow> Refused i c0 out
              | None \<Rightarrow>
                  (case enforce_execution_policy i policy of
                     Some out \<Rightarrow> Refused i c0 out
                   | None \<Rightarrow>
                       (case for_tool_arguments w c0 (ti_input i) of
                          Inl e \<Rightarrow> Refused i c0 (directory_refusal i e)
                        | Inr c \<Rightarrow>
                            (case project_execution_policy w c policy of
                               Inl e \<Rightarrow> Refused i c (directory_refusal i e)
                             | Inr projected \<Rightarrow> check_resolved_call w th i c projected))))"

section \<open>The start and the end of a call\<close>

record running_call =
  rn_input :: tool_input
  rn_context :: tool_context
  rn_guard :: "write_scope option"
  rn_governance :: governance_decision

definition start_call ::
    "path_world \<Rightarrow> governance_thresholds \<Rightarrow> string set \<Rightarrow> bool \<Rightarrow> bool \<Rightarrow> execution_policy \<Rightarrow> tool_context \<Rightarrow>
     tool_input \<Rightarrow> registry_state \<Rightarrow> (tool_output + running_call) \<times> registry_state" where
  "start_call w th tools allow_internal cancelled policy context input s =
     (case admit_call w th allow_internal cancelled policy context input of
        Refused i c out \<Rightarrow> (Inl out, record_invocation i c out s)
      | Admitted i c mode g \<Rightarrow>
          if ti_tool_name i \<notin> tools then
            let out = \<lparr>to_call_id = ti_call_id i, to_status = ExecFailed,
                       to_payload = UnregisteredTool (ti_tool_name i), to_governance = g\<rparr>
            in (Inl out, record_invocation i c out s)
          else (case acquire_write_guard w i c mode s of
                  (Inl out, s') \<Rightarrow> (Inl out, record_invocation i c out s')
                | (Inr guard, s') \<Rightarrow>
                    (Inr \<lparr>rn_input = i, rn_context = c, rn_guard = guard, rn_governance = g\<rparr>, s')))"

definition finish_call ::
    "path_world \<Rightarrow> running_call \<Rightarrow> string \<Rightarrow> registry_state \<Rightarrow> tool_output \<times> registry_state" where
  "finish_call w r payload s =
     (let i = rn_input r;
          out = \<lparr>to_call_id = ti_call_id i, to_status = execution_status_of (pw_parse w) payload,
                 to_payload = ToolPayload payload, to_governance = rn_governance r\<rparr>
      in (out, record_invocation i (rn_context r) out (drop_write_guard (ti_call_id i) (rn_guard r) s)))"

end
