(* ===== verification/ToolGateSpec.thy ===== *)
theory ToolGateSpec
  imports ToolRegistry
begin

text \<open>
  What the registry promises: two writing calls that conflict never run at the same time, a call
  that is admitted passed every axis of the policy, and what that means for its writes.
\<close>

section \<open>Writing calls at the same time\<close>

text \<open>Calls that run, each with its guard; the ids of calls at the same time differ.\<close>

type_synonym registry_run = "registry_state \<times> running_call list"

definition running_id :: "running_call \<Rightarrow> string" where
  "running_id r = ti_call_id (rn_input r)"

definition registry_init :: "registry_run \<Rightarrow> bool" where
  "registry_init x \<longleftrightarrow> rg_claims (fst x) = [] \<and> snd x = []"

inductive registry_step ::
    "path_world \<Rightarrow> governance_thresholds \<Rightarrow> string set \<Rightarrow> registry_run \<Rightarrow> registry_run \<Rightarrow> bool"
  for w th tools where
  step_started:
    "start_call w th tools allow_internal cancelled policy context input s = (Inr r, s') \<Longrightarrow>
     running_id r \<notin> running_id ` set rs \<Longrightarrow>
     registry_step w th tools (s, rs) (s', r # rs)"
| step_refused:
    "start_call w th tools allow_internal cancelled policy context input s = (Inl out, s') \<Longrightarrow>
     registry_step w th tools (s, rs) (s', rs)"
| step_finished:
    "r \<in> set rs \<Longrightarrow> finish_call w r payload s = (out, s') \<Longrightarrow>
     registry_step w th tools (s, rs) (s', remove1 r rs)"

definition claims_of :: "running_call list \<Rightarrow> string \<Rightarrow> write_scope option" where
  "claims_of rs i = Option.bind (find (\<lambda>r. running_id r = i) rs) rn_guard"

definition compatible :: "running_call \<Rightarrow> running_call \<Rightarrow> bool" where
  "compatible r q \<longleftrightarrow>
     (case (rn_guard r, rn_guard q) of (Some a, Some b) \<Rightarrow> \<not> conflicts_with a b | _ \<Rightarrow> True)"

definition registry_inv :: "registry_run \<Rightarrow> bool" where
  "registry_inv x \<longleftrightarrow>
     (case x of (s, rs) \<Rightarrow>
        distinct (map running_id rs) \<and> hdistinct (rg_claims s) \<and>
        (\<forall>i. hget (rg_claims s) i = claims_of rs i) \<and>
        sorted_wrt compatible rs)"

lemma record_keeps_claims [simp]: "rg_claims (record_invocation i c out s) = rg_claims s"
  by (simp add: record_invocation_def)

lemma refused_keeps_claims:
  "start_call w th tools a cancelled policy context input s = (Inl out, s') \<Longrightarrow> rg_claims s' = rg_claims s"
  by (auto simp: start_call_def acquire_write_guard_def Let_def
      split: call_admission.split_asm if_split_asm option.split_asm sum.split_asm prod.split_asm)

lemma started_claims:
  assumes "start_call w th tools a cancelled policy context input s = (Inr r, s')"
  shows "(case rn_guard r of
            None \<Rightarrow> rg_claims s' = rg_claims s
          | Some scope \<Rightarrow> rg_claims s' = hput (running_id r) scope (rg_claims s) \<and>
              (\<forall>held \<in> set (hvalues (rg_claims s)). \<not> conflicts_with held scope))"
  using assms
  by (auto simp: start_call_def acquire_write_guard_def Let_def list_ex_iff running_id_def
      split: call_admission.split_asm if_split_asm option.split_asm sum.split_asm prod.split_asm)

lemma claims_of_Cons:
  "claims_of (r # rs) i = (if running_id r = i then rn_guard r else claims_of rs i)"
  by (simp add: claims_of_def)

lemma claims_of_running:
  "distinct (map running_id rs) \<Longrightarrow> q \<in> set rs \<Longrightarrow> claims_of rs (running_id q) = rn_guard q"
  by (induction rs) (auto simp: claims_of_Cons claims_of_def)

lemma claims_of_absent: "i \<notin> running_id ` set rs \<Longrightarrow> claims_of rs i = None"
  by (induction rs) (auto simp: claims_of_Cons claims_of_def)

lemma claims_of_remove:
  "distinct (map running_id rs) \<Longrightarrow> r \<in> set rs \<Longrightarrow>
     claims_of (remove1 r rs) i = (if i = running_id r then None else claims_of rs i)"
proof (induction rs)
  case (Cons q rs)
  show ?case
  proof (cases "q = r")
    case True
    with Cons.prems(1) have "claims_of rs (running_id r) = None" by (intro claims_of_absent) auto
    with True show ?thesis by (simp add: claims_of_Cons)
  next
    case False
    with Cons.prems have "r \<in> set rs" "running_id q \<noteq> running_id r" by auto
    moreover from this Cons have
      "claims_of (remove1 r rs) i = (if i = running_id r then None else claims_of rs i)" by simp
    ultimately show ?thesis using False by (cases "i = running_id r") (simp_all add: claims_of_Cons)
  qed
qed simp

lemma registry_inv_step:
  assumes "registry_inv x" "registry_step w th tools x y"
  shows "registry_inv y"
  using assms(2,1)
proof cases
  case (step_started allow_internal cancelled policy ctx input s r s' rs)
  with assms(1) have inv: "distinct (map running_id rs)" "hdistinct (rg_claims s)"
    "\<And>i. hget (rg_claims s) i = claims_of rs i" "sorted_wrt compatible rs"
    by (auto simp: registry_inv_def)
  note started = started_claims [OF step_started(3)]
  have fresh: "claims_of rs (running_id r) = None" using step_started(4) by (rule claims_of_absent)
  have "compatible r q" if q: "q \<in> set rs" for q
  proof (cases "rn_guard r")
    case (Some scope)
    show ?thesis
    proof (cases "rn_guard q")
      case (Some held)
      then have "hget (rg_claims s) (running_id q) = Some held"
        using inv(3) claims_of_running [OF inv(1) q] by simp
      then have "held \<in> set (hvalues (rg_claims s))" by (rule hget_in_hvalues)
      with started \<open>rn_guard r = Some scope\<close> have "\<not> conflicts_with held scope" by simp
      with Some \<open>rn_guard r = Some scope\<close> show ?thesis by (simp add: compatible_def conflicts_sym [of scope])
    qed (simp add: compatible_def split: option.split)
  qed (simp add: compatible_def)
  with inv started step_started fresh show ?thesis
    by (cases "rn_guard r") (auto simp: registry_inv_def claims_of_Cons)
next
  case (step_refused allow_internal cancelled policy ctx input s out s' rs)
  with assms(1) refused_keeps_claims [OF step_refused(3)] show ?thesis by (simp add: registry_inv_def)
next
  case (step_finished r rs payload s out s')
  with assms(1) have inv: "distinct (map running_id rs)" "hdistinct (rg_claims s)"
    "\<And>i. hget (rg_claims s) i = claims_of rs i" "sorted_wrt compatible rs"
    by (auto simp: registry_inv_def)
  have claims: "rg_claims s' = (case rn_guard r of None \<Rightarrow> rg_claims s | Some _ \<Rightarrow> hremove (running_id r) (rg_claims s))"
    using step_finished(4) by (auto simp: finish_call_def drop_write_guard_def Let_def running_id_def split: option.splits)
  have "hget (rg_claims s') i = claims_of (remove1 r rs) i" for i
    using claims inv(3) claims_of_running [OF inv(1) step_finished(3)] claims_of_remove [OF inv(1) step_finished(3), of i]
    by (auto split: option.splits)
  moreover have "hdistinct (rg_claims s')" using claims inv(2) by (auto split: option.splits)
  moreover have "sorted_wrt compatible (remove1 r rs)" using inv(4) by (induction rs) (auto dest: notin_set_remove1)
  moreover have "distinct (map running_id (remove1 r rs))"
    using inv(1) by (auto simp: distinct_map inj_on_def dest: notin_set_remove1)
  ultimately show ?thesis using step_finished by (simp add: registry_inv_def)
qed

interpretation registry: invariant_system registry_init "registry_step w th tools" registry_inv
  for w th tools
proof unfold_locales
  show "registry_inv x" if "registry_init x" for x
    using that by (cases x) (auto simp: registry_init_def registry_inv_def claims_of_def)
qed (rule registry_inv_step)

text \<open>C18: Two calls whose writes conflict, in the same task, the same working directory or on a common
  path, within one workspace and one session, never run at the same time, however calls start,
  are refused and end, as long as the ids of the calls that run at one time differ.\<close>

theorem conflicting_writes_exclusive:
  assumes "reach registry_init (registry_step w th tools) (s, rs)" "r \<in> set rs" "q \<in> set rs" "r \<noteq> q"
    "rn_guard r = Some a" "rn_guard q = Some b"
  shows "\<not> conflicts_with a b"
proof -
  have "registry_inv (s, rs)" using registry.reach_inv assms(1) .
  then have "sorted_wrt compatible rs" by (simp add: registry_inv_def)
  then have "compatible r q \<or> compatible q r"
    using assms(2-4) by (induction rs) auto
  with assms(5,6) conflicts_sym show ?thesis by (auto simp: compatible_def)
qed

section \<open>Calls that are admitted\<close>

lemma no_axis_output:
  "select_permission_axis_output pending axes = None \<longleftrightarrow> pending = None \<and> set axes \<subseteq> {None}"
  by (induction pending axes rule: select_permission_axis_output.induct) auto

lemma permission_output_None: "permission_decision_output d = None \<longleftrightarrow> d = Allow"
  by (simp add: permission_decision_output_def split: permission_decision.split)

lemma normalized_profile [simp]:
  "execution_access_profile (normalize_execution_policy p) = execution_access_profile p"
  by (simp add: normalize_execution_policy_def execution_access_profile_def Let_def)

lemma admitted_passed:
  assumes "admit_call w th internal cancelled policy context input = Admitted i c mode g"
    "project_execution_policy w c policy = Inr p"
  shows "\<not> cancelled" "enforce_access_profile_policy w i c p = None" "gd_allowed g"
    "mode = resolve_access_mode (pw_parse w) i" "enforce_execution_policy i policy = None"
    "i = canonical_input input"
  using assms
  by (auto simp: admit_call_def check_resolved_call_def Let_def split: if_split_asm option.split_asm sum.split_asm)

lemma write_axis_clear:
  assumes "path_axis w pp name c read_only explicit profile r = None" "pr_kind r = WriteAccess"
  shows "references_retired_project_root w c (pr_absolute_path r) = Inr False"
    "\<not> list_ex (path_is_within (pr_absolute_path r)) read_only"
    "decide_tool_path_access pp name r explicit profile = Allow"
  using assms
  by (auto simp: path_axis_def permission_output_None split: if_split_asm sum.split_asm)

lemma admitted_write:
  assumes "enforce_access_profile_policy w i c p = None"
    "r \<in> set (tool_path_access_requests w (ti_tool_name i) (ti_input i) (tc_working_directory c)
                 (execution_access_profile p))"
  shows "path_axis w (execution_permission_policy w (normalize_execution_policy p) c)
            (str_trim (ti_tool_name i)) c
            (normalize_tool_policy_paths (pw_ext w) (pw_canon w)
               (xp_read_only_paths (normalize_execution_policy p)) (tc_working_directory c))
            (xp_allowed_paths (normalize_execution_policy p)) (execution_access_profile p) r = None"
proof -
  have "set (access_profile_axes w i c p) \<subseteq> {None}"
    using assms(1) by (simp add: enforce_access_profile_policy_def no_axis_output)
  with assms(2) show ?thesis by (auto simp: access_profile_axes_def Let_def image_subset_iff)
qed


section \<open>Examples\<close>

definition gate_world :: path_world where
  "gate_world =
     \<lparr>pw_ext = \<lparr>json_pointer = (\<lambda>_ _. None), evidence_json = (\<lambda>_. []), base64_decode = (\<lambda>_. None)\<rparr>,
      pw_parse = (\<lambda>s. map_of [(''a'', JObject [(''path'', JString ''a.txt'')]), (''b'', JObject [(''path'', JString ''b.txt'')]),
                              (''home'', JObject [(''path'', JString ''~/.bashrc'')])] s),
      pw_canon = (\<lambda>_. None), pw_read_text = (\<lambda>_. None), pw_is_dir = (\<lambda>_. False), pw_encode = (\<lambda>s. s),
      pw_current_dir = None, pw_home_dir = Some ''/home/u''\<rparr>"

definition gate_context :: "string \<Rightarrow> tool_context" where
  "gate_context session =
     \<lparr>tc_worker_id = None, tc_task_id = None, tc_session_id = Some (SessionId session), tc_workspace_id = Some (WorkspaceId ''w''),
      tc_access_profile = Restricted, tc_working_directory = Some ''/w'', tc_directory_map = None\<rparr>"

definition gate_policy :: execution_policy where
  "gate_policy =
     \<lparr>xp_access_profile = Restricted, xp_source_skill_ids = [], xp_allowed_tool_names = None,
      xp_denied_tool_names = [], xp_allowed_paths = [], xp_denied_paths = [], xp_read_only_paths = [''.git''],
      xp_command_mode = []\<rparr>"

definition gate_input :: "string \<Rightarrow> string \<Rightarrow> tool_input" where
  "gate_input call_id arguments = for_builtin_invocation (pw_parse gate_world) call_id ''file_write'' arguments"

lemma file_write_name:
  "builtin_tool_from_name ''file_write'' = Some FileWrite" "str_trim ''file_write'' = ''file_write''"
proof -
  show "str_trim ''file_write'' = ''file_write''" by code_simp
  show "builtin_tool_from_name ''file_write'' = Some FileWrite" using from_name_str [of FileWrite] by simp
qed

lemma file_write_facts:
  "is_public_tool_surface FileWrite" "\<not> requires_workspace_context FileWrite" "\<not> requires_repository FileWrite"
  "default_access_mode FileWrite = ExplicitWrite" "is_access_profile_write_operation FileWrite"
  "default_risk_level FileWrite = RiskMedium" "default_approval_requirement FileWrite = ApprovalNotRequired"
  "restricted_automatic FileWrite" "is_background_process_observation parse FileWrite arguments = False"
  by (simp_all add: is_public_tool_surface_def requires_workspace_context_def requires_repository_def
      default_access_mode_def is_write_operation_def is_access_profile_write_operation_def
      mutates_workspace_files_def default_risk_level_def default_approval_requirement_def
      restricted_automatic_def restricted_write_profile_policy_def is_background_process_observation_def
      browser_kinds browser_tools_def)

lemma gate_input_value: "gate_input i a = \<lparr>ti_call_id = i, ti_tool_name = ''file_write'', ti_tool_kind = BuiltinKind,
   ti_input = a, ti_approval_requirement = ApprovalNotRequired, ti_risk_level = RiskMedium\<rparr>"
  by (simp add: gate_input_def for_builtin_invocation_def Let_def file_write_name file_write_facts
      invocation_policy_for_input_def)

lemma gate_paths:
  "resolve_in gate_world ''a.txt'' (Some ''/w'') = ''/w/a.txt''"
  "resolve_in gate_world ''b.txt'' (Some ''/w'') = ''/w/b.txt''"
  "resolve_in gate_world ''~/.bashrc'' (Some ''/w'') = ''/w/~/.bashrc''"
  "str_trim ''a.txt'' = ''a.txt''" "str_trim ''b.txt'' = ''b.txt''" "str_trim ''~/.bashrc'' = ''~/.bashrc''"
  by code_simp+

lemma gate_requests:
  "tool_path_access_requests gate_world ''file_write'' ''a'' (Some ''/w'') Restricted = [access WriteAccess ''/w/a.txt'']"
  "tool_path_access_requests gate_world ''file_write'' ''b'' (Some ''/w'') Restricted = [access WriteAccess ''/w/b.txt'']"
  "tool_path_access_requests gate_world ''file_write'' ''home'' (Some ''/w'') Restricted = [access WriteAccess ''/w/~/.bashrc'']"
proof -
  have parse: "json_object (pw_parse gate_world) ''a'' = Some [(''path'', JString ''a.txt'')]"
    "json_object (pw_parse gate_world) ''b'' = Some [(''path'', JString ''b.txt'')]"
    "json_object (pw_parse gate_world) ''home'' = Some [(''path'', JString ''~/.bashrc'')]" by code_simp+
  have fld: "json_field_string [(''path'', JString v)] ''path'' = Some v" for v
    by (simp add: json_field_string_def json_str_def)
  show "tool_path_access_requests gate_world ''file_write'' ''a'' (Some ''/w'') Restricted = [access WriteAccess ''/w/a.txt'']"
    "tool_path_access_requests gate_world ''file_write'' ''b'' (Some ''/w'') Restricted = [access WriteAccess ''/w/b.txt'']"
    "tool_path_access_requests gate_world ''file_write'' ''home'' (Some ''/w'') Restricted = [access WriteAccess ''/w/~/.bashrc'']"
    by (simp_all add: tool_path_access_requests_def file_write_name Let_def repository_accesses_def file_write_facts
        tool_specific_accesses_def push_tool_path_fields_def parse fld gate_paths dedup_path_accesses_def)
qed

lemma gate_context_fields:
  "tc_workspace_id (gate_context s) = Some (WorkspaceId ''w'')" "tc_session_id (gate_context s) = Some (SessionId s)"
  "tc_task_id (gate_context s) = None" "tc_working_directory (gate_context s) = Some ''/w''"
  "tc_directory_map (gate_context s) = None"
  by (simp_all add: gate_context_def)

lemma gate_policy_fields:
  "xp_allowed_paths gate_policy = []" "xp_denied_paths gate_policy = []" "xp_read_only_paths gate_policy = [''.git'']"
  "xp_allowed_tool_names gate_policy = None" "xp_denied_tool_names gate_policy = []" "xp_command_mode gate_policy = []"
  by (simp_all add: gate_policy_def)

definition gate_permission_policy :: permission_policy where
  "gate_permission_policy =
     \<lparr>pp_allowed_tools = {}, pp_denied_tools = {}, pp_allowed_paths = [''/w''], pp_denied_paths = [], pp_command_mode = []\<rparr>"

lemma gate_profile: "execution_access_profile gate_policy = Restricted"
  by code_simp

lemma gate_normal: "normalize_execution_policy gate_policy = gate_policy"
  by (simp add: normalize_execution_policy_def gate_policy_def)

lemma gate_permissions: "execution_permission_policy gate_world gate_policy (gate_context s) = gate_permission_policy"
proof -
  have "canonicalize_tool_permission_path (pw_canon gate_world) ''/w'' = ''/w''" by code_simp
  then show ?thesis
    by (simp add: execution_permission_policy_def gate_profile Let_def effective_tool_policy_allowed_paths_def
        normalize_tool_policy_paths_def gate_policy_fields gate_context_def gate_permission_policy_def)
qed

lemma gate_read_only:
  "normalize_tool_policy_paths (pw_ext gate_world) (pw_canon gate_world) [''.git''] (Some ''/w'') = [''/w/.git'']"
  by code_simp

definition gate_targets :: "string list" where
  "gate_targets = [''/w/a.txt'', ''/w/b.txt'', ''/w/~/.bashrc'']"

lemma gate_decisions:
  "decide parse builtin_permission_engine (ToolInvocation ''file_write'' True) gate_permission_policy Restricted = Allow"
  "x \<in> set gate_targets \<Longrightarrow>
     decide_tool_path_access gate_permission_policy ''file_write'' (access WriteAccess x) [] Restricted = Allow"
  "x \<in> set gate_targets \<Longrightarrow> \<not> path_is_within x ''/w/.git''"
proof -
  have mode: "\<not> eq_ignore_case [] ''read_only''" by (simp add: eq_ignore_case_def ascii_lower_def)
  have automatic: "is_restricted_auto_write_tool builtin_permission_engine ''file_write''"
    using builtin_engine_automatic [of FileWrite] file_write_facts by simp
  show "decide parse builtin_permission_engine (ToolInvocation ''file_write'' True) gate_permission_policy Restricted = Allow"
    by (simp add: decide_def decide_tool_def gate_permission_policy_def is_read_only_command_mode_def mode automatic)
  have within: "list_all (\<lambda>x. path_is_within x ''/w'' \<and> \<not> path_is_within x ''/w/.git'') gate_targets" by code_simp
  assume "x \<in> set gate_targets"
  with within show "\<not> path_is_within x ''/w/.git''" by (simp add: list_all_iff)
  from within \<open>x \<in> set gate_targets\<close> have "path_is_within x ''/w''" by (simp add: list_all_iff)
  then show "decide_tool_path_access gate_permission_policy ''file_write'' (access WriteAccess x) [] Restricted = Allow"
    by (simp add: decide_tool_path_access_def uses_default_workspace_scope_def decide_path_def is_allow_def Let_def
        gate_permission_policy_def is_read_only_command_mode_def mode access_def)
qed

lemma access_fields [simp]: "pr_absolute_path (access k x) = x" "pr_kind (access k x) = k"
  by (simp_all add: access_def)

lemma gate_path_axis:
  assumes "x \<in> set gate_targets"
  shows "path_axis gate_world gate_permission_policy ''file_write'' (gate_context s) [''/w/.git''] [] Restricted
     (access WriteAccess x) = None"
  using gate_decisions(2,3) [OF assms]
  by (simp add: path_axis_def references_retired_project_root_def gate_context_fields permission_decision_output_def)

lemma gate_axes:
  assumes "arguments \<in> {''a'', ''b'', ''home''}"
  shows "set (access_profile_axes gate_world (gate_input i arguments) (gate_context s) gate_policy) = {None}"
proof -
  have "\<exists>x \<in> set gate_targets. tool_path_access_requests gate_world ''file_write'' arguments (Some ''/w'') Restricted
      = [access WriteAccess x]"
    using assms gate_requests by (auto simp: gate_targets_def)
  then obtain x where x: "x \<in> set gate_targets"
    "tool_path_access_requests gate_world ''file_write'' arguments (Some ''/w'') Restricted = [access WriteAccess x]" by blast
  show ?thesis
    by (simp add: access_profile_axes_def Let_def gate_normal gate_permissions gate_context_fields gate_policy_fields
        gate_profile gate_read_only gate_input_value file_write_name file_write_facts x(2) gate_path_axis [OF x(1)]
        gate_decisions(1) permission_decision_output_def)
qed

lemma gate_admits:
  "arguments \<in> {''a'', ''b'', ''home''} \<Longrightarrow>
   admit_call gate_world default_thresholds False False gate_policy (gate_context s) (gate_input i arguments) =
     Admitted (gate_input i arguments) (gate_context s) ExplicitWrite (governance_allowed ToolPolicyPhase RiskMedium None)"
proof -
  assume arguments: "arguments \<in> {''a'', ''b'', ''home''}"
  have ctx: "(gate_context s)\<lparr>tc_access_profile := Restricted\<rparr> = gate_context s"
    by (simp add: gate_context_def)
  have dir: "for_tool_arguments gate_world (gate_context s) arguments = Inr (gate_context s)"
    using arguments by (auto simp: for_tool_arguments_def requested_folder_def gate_world_def gate_context_def json_get_def)
  have "select_permission_axis_output None (access_profile_axes gate_world (gate_input i arguments) (gate_context s) gate_policy) = None"
    using gate_axes [OF arguments, of i s] by (simp add: no_axis_output)
  then have prof: "enforce_access_profile_policy gate_world (gate_input i arguments) (gate_context s) gate_policy = None"
    by (simp add: enforce_access_profile_policy_def)
  have proj: "project_execution_policy gate_world (gate_context s) gate_policy = Inr gate_policy"
    by (simp add: project_execution_policy_def gate_context_def)
  have names: "enforce_execution_policy (gate_input i arguments) gate_policy = None"
    by (simp add: enforce_execution_policy_def tool_name_rejection_def gate_policy_def Let_def)
  have surface: "surface_refusal False (gate_input i arguments) (gate_context s) = None"
    by (simp add: surface_refusal_def gate_input_value file_write_name file_write_facts gate_context_def)
  have canon: "canonical_input (gate_input i arguments) = gate_input i arguments"
    by (simp add: canonical_input_def gate_input_value file_write_name)
  have inp: "ti_input (gate_input i arguments) = arguments" by (simp add: gate_input_value)
  have gov: "governance_for_call default_thresholds (gate_input i arguments) Restricted = governance_allowed ToolPolicyPhase RiskMedium None"
    by (simp add: governance_for_call_def gate_input_value evaluate_tool_request_def decide_approval_action_def default_thresholds_def)
  have mode: "resolve_access_mode (pw_parse gate_world) (gate_input i arguments) = ExplicitWrite"
    by (simp add: resolve_access_mode_def gate_input_value file_write_name file_write_facts)
  show ?thesis
    by (simp add: admit_call_def Let_def ctx canon surface names inp dir proj check_resolved_call_def prof gate_profile gov mode)
qed

lemma gate_lock:
  "lock_path gate_world (gate_context s) ''a.txt'' = Some [RootDir, Normal ''w'', Normal ''a.txt'']"
  "lock_path gate_world (gate_context s) ''b.txt'' = Some [RootDir, Normal ''w'', Normal ''b.txt'']"
  by code_simp+

definition gate_scope :: "string \<Rightarrow> string \<Rightarrow> write_scope" where
  "gate_scope session target =
     \<lparr>ws_workspace_id = Some (WorkspaceId ''w''), ws_session_id = Some (SessionId session), ws_task_id = None,
      ws_working_directory = None, ws_paths = [[RootDir, Normal ''w'', Normal target]]\<rparr>"

lemma gate_write_scope:
  "build_write_scope gate_world (gate_input i ''a'') (gate_context s) ExplicitWrite = Some (gate_scope s ''a.txt'')"
  "build_write_scope gate_world (gate_input i ''b'') (gate_context s) ExplicitWrite = Some (gate_scope s ''b.txt'')"
proof -
  have fld: "json_field_string [(''path'', JString v)] k = (if k = ''path'' then Some v else None)" for v k
    by (simp add: json_field_string_def json_str_def)
  have parse: "json_object (pw_parse gate_world) ''a'' = Some [(''path'', JString ''a.txt'')]"
    "json_object (pw_parse gate_world) ''b'' = Some [(''path'', JString ''b.txt'')]" by code_simp+
  show "build_write_scope gate_world (gate_input i ''a'') (gate_context s) ExplicitWrite = Some (gate_scope s ''a.txt'')"
    "build_write_scope gate_world (gate_input i ''b'') (gate_context s) ExplicitWrite = Some (gate_scope s ''b.txt'')"
    by (simp_all add: build_write_scope_def gate_input_value file_write_name Let_def parse fld gate_lock
        is_writeful_def gate_scope_def gate_context_fields List.map_filter_simps)
qed

definition gate_call :: "string \<Rightarrow> string \<Rightarrow> string \<Rightarrow> string \<Rightarrow> running_call" where
  "gate_call session i arguments target =
     \<lparr>rn_input = gate_input i arguments, rn_context = gate_context session, rn_guard = Some (gate_scope session target),
      rn_governance = governance_allowed ToolPolicyPhase RiskMedium None\<rparr>"

lemma gate_starts:
  assumes "(arguments, target) \<in> {(''a'', ''a.txt''), (''b'', ''b.txt'')}"
    "\<not> list_ex (\<lambda>held. conflicts_with held (gate_scope s target)) (hvalues (rg_claims g))"
  shows "start_call gate_world default_thresholds {''file_write''} False False gate_policy (gate_context s)
           (gate_input i arguments) g =
         (Inr (gate_call s i arguments target), g\<lparr>rg_claims := hput i (gate_scope s target) (rg_claims g)\<rparr>)"
proof -
  have "arguments \<in> {''a'', ''b'', ''home''}" using assms(1) by auto
  note admits = gate_admits [OF this, of s i]
  have fields: "ti_tool_name (gate_input i arguments) = ''file_write''" "ti_call_id (gate_input i arguments) = i"
    by (simp_all add: gate_input_value)
  have scope: "build_write_scope gate_world (gate_input i arguments) (gate_context s) ExplicitWrite = Some (gate_scope s target)"
    using assms(1) gate_write_scope by auto
  show ?thesis using assms(2)
    by (simp add: start_call_def admits fields acquire_write_guard_def is_writeful_def scope gate_call_def)
qed

lemma gate_scopes_compatible: "\<not> conflicts_with (gate_scope s ''a.txt'') (gate_scope s ''b.txt'')"
  by (simp add: conflicts_with_def gate_scope_def differ_def agree_def)

lemma gate_call_id [simp]: "running_id (gate_call s i arguments target) = i"
  by (simp add: running_id_def gate_call_def gate_input_value)

lemma gate_step:
  assumes "(arguments, target) \<in> {(''a'', ''a.txt''), (''b'', ''b.txt'')}"
    "\<not> list_ex (\<lambda>held. conflicts_with held (gate_scope s target)) (hvalues (rg_claims g))"
    "i \<notin> running_id ` set rs"
  shows "registry_step gate_world default_thresholds {''file_write''} (g, rs)
     (g\<lparr>rg_claims := hput i (gate_scope s target) (rg_claims g)\<rparr>, gate_call s i arguments target # rs)"
  by (rule step_started [OF gate_starts [OF assms(1,2)]]) (use assms(3) in simp)

lemma gate_two_calls:
  "reach registry_init (registry_step gate_world default_thresholds {''file_write''})
     (\<lparr>rg_claims = [(''1'', gate_scope ''s'' ''a.txt''), (''2'', gate_scope ''s'' ''b.txt'')], rg_invocations = []\<rparr>,
      [gate_call ''s'' ''2'' ''b'' ''b.txt'', gate_call ''s'' ''1'' ''a'' ''a.txt''])"
proof -
  let ?reach = "reach registry_init (registry_step gate_world default_thresholds {''file_write''})"
  let ?one = "\<lparr>rg_claims = [(''1'', gate_scope ''s'' ''a.txt'')], rg_invocations = []\<rparr>"
  have "?reach (\<lparr>rg_claims = [], rg_invocations = []\<rparr>, [])"
    by (rule reach_init) (simp add: registry_init_def)
  moreover have "registry_step gate_world default_thresholds {''file_write''} (\<lparr>rg_claims = [], rg_invocations = []\<rparr>, [])
      (?one, [gate_call ''s'' ''1'' ''a'' ''a.txt''])"
    using gate_step [of "''a''" "''a.txt''" "''s''" "\<lparr>rg_claims = [], rg_invocations = []\<rparr>" "''1''" "[]"] by (simp add: hvalues_def)
  ultimately have one: "?reach (?one, [gate_call ''s'' ''1'' ''a'' ''a.txt''])" by (rule reach_step)
  have "registry_step gate_world default_thresholds {''file_write''} (?one, [gate_call ''s'' ''1'' ''a'' ''a.txt''])
      (\<lparr>rg_claims = [(''1'', gate_scope ''s'' ''a.txt''), (''2'', gate_scope ''s'' ''b.txt'')], rg_invocations = []\<rparr>,
       [gate_call ''s'' ''2'' ''b'' ''b.txt'', gate_call ''s'' ''1'' ''a'' ''a.txt''])"
    using gate_step [of "''b''" "''b.txt''" "''s''" ?one "''2''" "[gate_call ''s'' ''1'' ''a'' ''a.txt'']"] gate_scopes_compatible
    by (simp add: hvalues_def)
  with one show ?thesis by (rule reach_step)
qed

theorem conflicting_writes_exclusive_witness:
  "\<not> conflicts_with (gate_scope ''s'' ''b.txt'') (gate_scope ''s'' ''a.txt'')"
  using conflicting_writes_exclusive [OF gate_two_calls, of "gate_call ''s'' ''2'' ''b'' ''b.txt''" "gate_call ''s'' ''1'' ''a'' ''a.txt''"]
  by (simp add: gate_call_def gate_input_value)


section \<open>What the checks do not see\<close>

text \<open>The path that is checked takes \<open>~\<close> for a name in the working directory; the path that is used
  takes it for the directory of the user.\<close>

lemma home_path_escapes:
  "admit_call gate_world default_thresholds False False gate_policy (gate_context s) (gate_input i ''home'') =
     Admitted (gate_input i ''home'') (gate_context s) ExplicitWrite (governance_allowed ToolPolicyPhase RiskMedium None)"
  "tool_path_access_requests gate_world ''file_write'' ''home'' (Some ''/w'') Restricted =
     [access WriteAccess ''/w/~/.bashrc'']"
  "resolve_path_with_context (pw_ext gate_world) ''~/.bashrc'' (Some ''/w'') (pw_home_dir gate_world) = Inr ''/home/u/.bashrc''"
  "\<not> path_is_within ''/home/u/.bashrc'' ''/w''"
proof -
  show "admit_call gate_world default_thresholds False False gate_policy (gate_context s) (gate_input i ''home'') =
     Admitted (gate_input i ''home'') (gate_context s) ExplicitWrite (governance_allowed ToolPolicyPhase RiskMedium None)"
    by (rule gate_admits) simp
  show "resolve_path_with_context (pw_ext gate_world) ''~/.bashrc'' (Some ''/w'') (pw_home_dir gate_world) = Inr ''/home/u/.bashrc''"
    "\<not> path_is_within ''/home/u/.bashrc'' ''/w''" by code_simp+
qed (rule gate_requests)

text \<open>A claim is kept under the id of its call; a call of another session with the same id takes its
  place, and then a call of the first session that conflicts with the first one starts.\<close>

lemma reused_id_loses_claim:
  fixes g0
  defines "scope \<equiv> \<lambda>session. gate_scope session ''a.txt''"
    and "g0 \<equiv> \<lparr>rg_claims = [], rg_invocations = []\<rparr>"
    and "start \<equiv> \<lambda>session i. start_call gate_world default_thresholds {''file_write''} False False gate_policy
                (gate_context session) (gate_input i ''a'')"
  shows "start ''s'' ''1'' g0 = (Inr (gate_call ''s'' ''1'' ''a'' ''a.txt''), g0\<lparr>rg_claims := [(''1'', scope ''s'')]\<rparr>)"
    "start ''t'' ''1'' (g0\<lparr>rg_claims := [(''1'', scope ''s'')]\<rparr>) =
       (Inr (gate_call ''t'' ''1'' ''a'' ''a.txt''), g0\<lparr>rg_claims := [(''1'', scope ''t'')]\<rparr>)"
    "start ''s'' ''2'' (g0\<lparr>rg_claims := [(''1'', scope ''t'')]\<rparr>) =
       (Inr (gate_call ''s'' ''2'' ''a'' ''a.txt''), g0\<lparr>rg_claims := hput ''2'' (scope ''s'') [(''1'', scope ''t'')]\<rparr>)"
    "conflicts_with (scope ''s'') (scope ''s'')"
proof -
  have apart: "\<not> conflicts_with (gate_scope ''s'' f) (gate_scope ''t'' f)" "\<not> conflicts_with (gate_scope ''t'' f) (gate_scope ''s'' f)" for f
    by (simp_all add: conflicts_with_def gate_scope_def differ_def)
  show "start ''s'' ''1'' g0 = (Inr (gate_call ''s'' ''1'' ''a'' ''a.txt''), g0\<lparr>rg_claims := [(''1'', scope ''s'')]\<rparr>)"
    "start ''t'' ''1'' (g0\<lparr>rg_claims := [(''1'', scope ''s'')]\<rparr>) =
       (Inr (gate_call ''t'' ''1'' ''a'' ''a.txt''), g0\<lparr>rg_claims := [(''1'', scope ''t'')]\<rparr>)"
    "start ''s'' ''2'' (g0\<lparr>rg_claims := [(''1'', scope ''t'')]\<rparr>) =
       (Inr (gate_call ''s'' ''2'' ''a'' ''a.txt''), g0\<lparr>rg_claims := hput ''2'' (scope ''s'') [(''1'', scope ''t'')]\<rparr>)"
    by (simp_all add: start_def scope_def g0_def gate_starts apart hvalues_def)
  show "conflicts_with (scope ''s'') (scope ''s'')"
    by (simp add: scope_def conflicts_with_def gate_scope_def differ_def agree_def)
qed

end
