(* ===== verification/ToolPreflight.thy ===== *)
theory ToolPreflight
  imports ToolGateSpec SafetyProperties
begin

text \<open>
  The decision on a tool call of a task before it reaches the registry
  (\<open>magi-conversation-runtime/src/tool_batch.rs\<close>): the access profile of the task and the safety
  gate, and that the first of them lets nothing pass that the registry would refuse.

  Texts for the user are constructors; a reason that is a text of the permission engine is its
  \<open>permission_reason\<close>.
\<close>

section \<open>The policy of a task\<close>

definition default_execution_policy :: execution_policy where
  "default_execution_policy =
     \<lparr>xp_access_profile = Restricted, xp_source_skill_ids = [], xp_allowed_tool_names = None,
      xp_denied_tool_names = [], xp_allowed_paths = [], xp_denied_paths = [], xp_read_only_paths = [],
      xp_command_mode = []\<rparr>"

definition same_tool :: "string \<Rightarrow> string \<Rightarrow> bool" where
  "same_tool a b \<longleftrightarrow> canonical_tool_policy_name a = canonical_tool_policy_name b"

definition apply_task_policy :: "execution_policy \<Rightarrow> task_policy \<Rightarrow> execution_policy" where
  "apply_task_policy p t =
     p\<lparr>xp_access_profile := tp_access_profile t,
       xp_allowed_paths := tp_allowed_paths t,
       xp_denied_paths := tp_denied_paths t,
       xp_read_only_paths := tp_read_only_paths t,
       xp_command_mode := tp_command_mode t,
       xp_denied_tool_names := extend_unique (xp_denied_tool_names p) (tp_denied_tools t),
       xp_allowed_tool_names :=
         (if tp_allowed_tools t = [] then xp_allowed_tool_names p
          else case xp_allowed_tool_names p of
                 None \<Rightarrow> Some (tp_allowed_tools t)
               | Some allowed \<Rightarrow> Some (filter (\<lambda>x. list_ex (\<lambda>v. same_tool v x) (tp_allowed_tools t)) allowed))\<rparr>"

section \<open>Results of the check\<close>

datatype preflight_reason =
    StageForbidsTools
  | ToolScopeText name_rejection string
  | PermissionText permission_reason
  | RetiredSource
  | ReadOnlyReference
  | SafetyText safety_category string
  | SafetyTextReadOnly safety_category string

datatype public_text =
    NeedsApprovalText
  | PolicyFailedText
  | SkillForbids
  | ContextRejects
  | ModeForbids
  | SafetyNeedsApprovalText
  | SafetyRejectsText
  | SafetyFailedText

datatype instruction_text =
    PausedForApproval
  | OtherToolInstead
  | UseSkillTools
  | UseReadTools
  | UseTaskTools
  | UseSafeAlternative
  | PausedForSafety

record preflight_payload =
  pf_tool :: string
  pf_error_code :: string
  pf_error :: public_text
  pf_access_profile :: "access_profile option"
  pf_required_access_profile :: "string option"
  pf_restriction_kind :: "string option"
  pf_retryable :: bool
  pf_instruction :: instruction_text

record preflight_decision =
  pd_payload :: preflight_payload
  pd_status :: execution_status
  pd_reason :: preflight_reason

text \<open>The prefix of a text in the code is its constructor here.\<close>

definition read_only_text :: "preflight_reason \<Rightarrow> bool" where
  "read_only_text r \<longleftrightarrow>
     (case r of
        PermissionText (ReadOnlyTool _) \<Rightarrow> True | PermissionText (ReadOnlyPath _) \<Rightarrow> True
      | PermissionText ReadOnlyShell \<Rightarrow> True | PermissionText ReadOnlyBrowser \<Rightarrow> True | _ \<Rightarrow> False)"

definition restricted_text :: "preflight_reason \<Rightarrow> bool" where
  "restricted_text r \<longleftrightarrow>
     (case r of
        PermissionText (ToolNotAutomatic _) \<Rightarrow> True | PermissionText (PathOutsideWorkspace _) \<Rightarrow> True
      | PermissionText ShellNotAutomatic \<Rightarrow> True | PermissionText ScriptNotAutomatic \<Rightarrow> True | _ \<Rightarrow> False)"

definition policy_restriction_kind :: "execution_status \<Rightarrow> preflight_reason \<Rightarrow> string" where
  "policy_restriction_kind status r =
     (if status = ExecNeedsApproval then ''approval_required''
      else if (case r of ToolScopeText _ _ \<Rightarrow> True | _ \<Rightarrow> False) then ''skill_tool_scope''
      else if read_only_text r then ''read_only''
      else case r of
             PermissionText (PathDenied _) \<Rightarrow> ''path_scope''
           | PermissionText (PathNotGranted _) \<Rightarrow> ''path_scope''
           | PermissionText (ToolDenied _) \<Rightarrow> ''tool_scope''
           | PermissionText (ToolNotGranted _) \<Rightarrow> ''tool_scope''
           | _ \<Rightarrow> ''policy'')"

definition task_policy_decision_payload ::
    "string \<Rightarrow> execution_status \<Rightarrow> preflight_reason \<Rightarrow> access_profile option \<Rightarrow> preflight_decision" where
  "task_policy_decision_payload tool status reason profile =
     (let kind = policy_restriction_kind status reason;
          by_profile = (read_only_text reason \<or> restricted_text reason);
          (code, error, required, instruction) =
            (case status of
               ExecNeedsApproval \<Rightarrow>
                 (''tool_policy_needs_approval'', NeedsApprovalText, Some ''full_access'', PausedForApproval)
             | ExecRejected \<Rightarrow>
                 (''tool_policy_rejected'',
                  (if kind = ''skill_tool_scope'' then SkillForbids
                   else if \<not> by_profile \<or> profile = Some FullAccess then ContextRejects else ModeForbids),
                  (if by_profile then Some ''full_access'' else None),
                  (if kind = ''skill_tool_scope'' then UseSkillTools
                   else if by_profile then UseReadTools else UseTaskTools))
             | _ \<Rightarrow> (''tool_policy_failed'', PolicyFailedText, None, OtherToolInstead))
      in \<lparr>pd_payload =
            \<lparr>pf_tool = tool, pf_error_code = code, pf_error = error, pf_access_profile = profile,
             pf_required_access_profile = required, pf_restriction_kind = Some kind, pf_retryable = False,
             pf_instruction = instruction\<rparr>,
          pd_status = status, pd_reason = reason\<rparr>)"

definition permission_decision_payload ::
    "string \<Rightarrow> permission_decision \<Rightarrow> access_profile \<Rightarrow> preflight_decision option" where
  "permission_decision_payload tool d profile =
     (case d of
        Allow \<Rightarrow> None
      | Deny r \<Rightarrow> Some (task_policy_decision_payload tool ExecRejected (PermissionText r) (Some profile))
      | NeedsApproval r \<Rightarrow> Some (task_policy_decision_payload tool ExecNeedsApproval (PermissionText r) (Some profile)))"

section \<open>The access profile\<close>

definition action_text :: "(string \<Rightarrow> json option) \<Rightarrow> string \<Rightarrow> string" where
  "action_text parse arguments =
     (case Option.bind (parse arguments) (\<lambda>v. Option.bind (json_get ''action'' v) json_str) of
        None \<Rightarrow> [] | Some a \<Rightarrow> ascii_lower (str_trim a))"

definition browser_class_of :: "(string \<Rightarrow> json option) \<Rightarrow> string \<Rightarrow> string \<Rightarrow> browser_action_class option" where
  "browser_class_of parse name arguments =
     (if name \<in> {''browser_click'', ''browser_click_at'', ''browser_type'', ''browser_press'',
                 ''browser_fill_form'', ''browser_drag'', ''browser_upload_file''}
      then Some Interact
      else if name = ''browser_dialog'' then (if action_text parse arguments \<noteq> ''list'' then Some Interact else None)
      else if name = ''browser_evaluate'' then Some Execute
      else if name = ''browser_storage'' then
        (if action_text parse arguments \<in> {''set'', ''remove'', ''clear''} then Some Execute else None)
      else if name = ''browser_webmcp'' then
        (if action_text parse arguments = ''execute'' then Some Execute else None)
      else None)"

definition task_permission_policy :: "path_world \<Rightarrow> task_policy \<Rightarrow> string option \<Rightarrow> permission_policy" where
  "task_permission_policy w t root =
     (let profile = effective_access_profile t
      in \<lparr>pp_allowed_tools = set (map canonical_tool_policy_name (tp_allowed_tools t)),
          pp_denied_tools = set (map canonical_tool_policy_name (tp_denied_tools t)),
          pp_allowed_paths =
            effective_tool_policy_allowed_paths (pw_ext w) (pw_canon w) profile (tp_allowed_paths t) root,
          pp_denied_paths = normalize_tool_policy_paths (pw_ext w) (pw_canon w) (tp_denied_paths t) root,
          pp_command_mode = tp_command_mode t\<rparr>)"

definition context_execution_policy :: "task_policy \<Rightarrow> execution_policy" where
  "context_execution_policy t =
     default_execution_policy
       \<lparr>xp_access_profile := tp_access_profile t, xp_command_mode := tp_command_mode t,
        xp_allowed_tool_names := (if tp_allowed_tools t = [] then None else Some (tp_allowed_tools t)),
        xp_denied_tool_names := tp_denied_tools t, xp_allowed_paths := tp_allowed_paths t,
        xp_denied_paths := tp_denied_paths t, xp_read_only_paths := tp_read_only_paths t\<rparr>"

text \<open>The first result that rejects, else the first one.\<close>

fun select_access_profile_axis_decision ::
    "preflight_decision option \<Rightarrow> preflight_decision option list \<Rightarrow> preflight_decision option" where
  "select_access_profile_axis_decision pending [] = pending"
| "select_access_profile_axis_decision pending (None # ds) = select_access_profile_axis_decision pending ds"
| "select_access_profile_axis_decision pending (Some d # ds) =
     (if pd_status d = ExecRejected then Some d
      else select_access_profile_axis_decision (if pending = None then Some d else pending) ds)"

definition preflight_path_axis ::
    "path_world \<Rightarrow> permission_policy \<Rightarrow> string \<Rightarrow> tool_context option \<Rightarrow> string list \<Rightarrow> string list \<Rightarrow> access_profile \<Rightarrow>
     path_access_request \<Rightarrow> preflight_decision option" where
  "preflight_path_axis w pp name ctx read_only explicit profile r =
     (if (case ctx of None \<Rightarrow> False
          | Some c \<Rightarrow> (case references_retired_project_root w c (pr_absolute_path r) of Inl _ \<Rightarrow> True | Inr b \<Rightarrow> b))
      then Some (task_policy_decision_payload name ExecRejected RetiredSource (Some profile))
      else if pr_kind r = WriteAccess \<and> list_ex (path_is_within (pr_absolute_path r)) read_only
      then Some (task_policy_decision_payload name ExecRejected ReadOnlyReference (Some profile))
      else permission_decision_payload name (decide_tool_path_access pp name r explicit profile) profile)"

definition preflight_axes ::
    "path_world \<Rightarrow> task_policy \<Rightarrow> string \<Rightarrow> string \<Rightarrow> string option \<Rightarrow> tool_context option \<Rightarrow>
     preflight_decision option list" where
  "preflight_axes w t requested arguments root ctx =
     (let profile = effective_access_profile t;
          name = canonical_tool_policy_name requested;
          pp = (case ctx of
                  None \<Rightarrow> task_permission_policy w t root
                | Some c \<Rightarrow> execution_permission_policy w (context_execution_policy t) c);
          writeful = (case builtin_tool_from_name name of
                        None \<Rightarrow> False | Some x \<Rightarrow> is_access_profile_write_operation x);
          axis = (\<lambda>q. permission_decision_payload name (decide (pw_parse w) builtin_permission_engine q pp profile) profile);
          read_only = normalize_tool_policy_paths (pw_ext w) (pw_canon w) (tp_read_only_paths t) root
      in axis (ToolInvocation name writeful) #
         (if name = builtin_tool_str ShellExec then [axis (ShellCommand arguments)] else []) @
         (case browser_class_of (pw_parse w) name arguments of
            None \<Rightarrow> [] | Some class \<Rightarrow> [axis (BrowserAction class)]) @
         map (preflight_path_axis w pp name ctx read_only (tp_allowed_paths t) profile)
           (tool_path_access_requests w name arguments root profile))"

definition access_profile_tool_decision ::
    "path_world \<Rightarrow> task_policy \<Rightarrow> string \<Rightarrow> string \<Rightarrow> string option \<Rightarrow> tool_context option \<Rightarrow> preflight_decision option" where
  "access_profile_tool_decision w t requested arguments root ctx =
     select_access_profile_axis_decision None (preflight_axes w t requested arguments root ctx)"

definition policy_tool_decision ::
    "path_world \<Rightarrow> task_policy \<Rightarrow> string \<Rightarrow> string \<Rightarrow> string option \<Rightarrow> tool_context option \<Rightarrow> preflight_decision option" where
  "policy_tool_decision w t requested arguments root ctx =
     (if eq_ignore_case (tp_command_mode t) ''no_tools''
      then Some (task_policy_decision_payload (canonical_tool_policy_name requested) ExecRejected StageForbidsTools
                   (Some (tp_access_profile t)))
      else access_profile_tool_decision w t requested arguments root ctx)"

section \<open>The safety gate\<close>

definition safety_public_error :: "execution_status \<Rightarrow> string \<times> public_text" where
  "safety_public_error status =
     (case status of
        ExecNeedsApproval \<Rightarrow> (''tool_safety_needs_approval'', SafetyNeedsApprovalText)
      | ExecRejected \<Rightarrow> (''tool_safety_rejected'', SafetyRejectsText)
      | _ \<Rightarrow> (''tool_safety_failed'', SafetyFailedText))"

definition safety_gate_decision_payload :: "string \<Rightarrow> execution_status \<Rightarrow> preflight_reason \<Rightarrow> preflight_decision" where
  "safety_gate_decision_payload tool status reason =
     \<lparr>pd_payload =
        \<lparr>pf_tool = tool, pf_error_code = fst (safety_public_error status), pf_error = snd (safety_public_error status),
         pf_access_profile = None, pf_required_access_profile = None, pf_restriction_kind = None,
         pf_retryable = (status = ExecRejected),
         pf_instruction = (if status = ExecRejected then UseSafeAlternative else PausedForSafety)\<rparr>,
      pd_status = status, pd_reason = reason\<rparr>"

definition safety_gate_tool_decision ::
    "unicode \<Rightarrow> (string \<Rightarrow> json option) \<Rightarrow> safety_rule list \<Rightarrow> access_profile \<Rightarrow> string \<Rightarrow> string \<Rightarrow>
     preflight_decision option" where
  "safety_gate_tool_decision uc parse rules profile requested arguments =
     (let name = canonical_tool_policy_name requested
      in case evaluate_call uc parse rules name arguments of
           SafetyAllow \<Rightarrow> None
         | Audited _ _ \<Rightarrow> None
         | HardBlocked c p \<Rightarrow> Some (safety_gate_decision_payload name ExecRejected (SafetyText c p))
         | ApprovalInRestricted c p \<Rightarrow>
             (case profile of
                FullAccess \<Rightarrow> None
              | Restricted \<Rightarrow> Some (safety_gate_decision_payload name ExecNeedsApproval (SafetyText c p))
              | ReadOnly \<Rightarrow> Some (safety_gate_decision_payload name ExecRejected (SafetyTextReadOnly c p))))"

definition select_preflight_decision ::
    "preflight_decision option \<Rightarrow> preflight_decision option \<Rightarrow> preflight_decision option" where
  "select_preflight_decision policy safety =
     (case (policy, safety) of
        (Some p, Some s) \<Rightarrow>
          if pd_status s = ExecRejected then Some s
          else if pd_status p = ExecRejected then Some p
          else if pd_status s = ExecNeedsApproval then Some s
          else Some p
      | (Some p, None) \<Rightarrow> Some p
      | (None, Some s) \<Rightarrow> Some s
      | (None, None) \<Rightarrow> None)"

definition policy_tool_preflight_decision ::
    "unicode \<Rightarrow> path_world \<Rightarrow> task_policy option \<Rightarrow> safety_rule list option \<Rightarrow> string \<Rightarrow> string \<Rightarrow> string option \<Rightarrow>
     tool_context option \<Rightarrow> preflight_decision option" where
  "policy_tool_preflight_decision uc w t gate requested arguments root ctx =
     select_preflight_decision
       (Option.bind t (\<lambda>t. policy_tool_decision w t requested arguments root ctx))
       (Option.bind gate (\<lambda>rules.
          safety_gate_tool_decision uc (pw_parse w) rules
            (case t of None \<Rightarrow> Restricted | Some t \<Rightarrow> effective_access_profile t) requested arguments))"

text \<open>The decision on a tool of an MCP server or a plugin, by what it declares.\<close>

definition external_tool_access_decision :: "bool \<Rightarrow> access_profile \<Rightarrow> execution_status option" where
  "external_tool_access_decision read_only profile =
     (if read_only then None
      else case profile of
             ReadOnly \<Rightarrow> Some ExecRejected | Restricted \<Rightarrow> Some ExecNeedsApproval | FullAccess \<Rightarrow> None)"

section \<open>Names\<close>

lemma strip_prefixes_fixed: "find (\<lambda>w. w \<noteq> [] \<and> prefix w (strip_prefixes ws s)) ws = None"
proof (induction ws s rule: strip_prefixes.induct)
  case (1 ws s)
  then show ?case
    by (cases "find (\<lambda>w. w \<noteq> [] \<and> prefix w s) ws") (simp_all add: strip_prefixes.simps [of ws s])
qed

lemma strip_prefixes_of_prefix:
  assumes "find (\<lambda>w. w \<noteq> [] \<and> prefix w s) ws = None" "prefix t s"
  shows "strip_prefixes ws t = t"
proof -
  have "find (\<lambda>w. w \<noteq> [] \<and> prefix w t) ws = None"
    using assms by (auto simp: find_None_iff dest: prefix_order.trans)
  then show ?thesis by (simp add: strip_prefixes.simps)
qed

lemma str_trim_trim [simp]: "str_trim (str_trim s) = str_trim s"
proof -
  let ?a = "strip_prefixes utf8_whitespace s"
  let ?b = "strip_prefixes (map rev utf8_whitespace) (rev ?a)"
  obtain u where "rev ?a = u @ ?b" using strip_prefixes_split by blast
  then have "prefix (rev ?b) ?a" by (metis rev_append rev_rev_ident prefixI)
  with strip_prefixes_fixed have left: "strip_prefixes utf8_whitespace (rev ?b) = rev ?b"
    by (rule strip_prefixes_of_prefix)
  have "strip_prefixes (map rev utf8_whitespace) ?b = ?b"
    using strip_prefixes_of_prefix [OF strip_prefixes_fixed prefix_order.refl] .
  with left show ?thesis by (simp add: str_trim_def)
qed

lemma canonical_name: "canonical_tool_policy_name name = str_trim name"
  by (auto simp: canonical_tool_policy_name_def canonical_builtin_tool_name_def
      split: option.split dest: from_name_SomeD)

lemma extend_unique_names:
  "canonical_tool_policy_name ` set (extend_unique target values) =
     canonical_tool_policy_name ` (set target \<union> set values)"
  unfolding extend_unique_def
proof (induction "values" arbitrary: target)
  case (Cons v vs)
  have "canonical_tool_policy_name v \<in> canonical_tool_policy_name ` set target"
    if "e \<in> set target" "canonical_tool_policy_name e = canonical_tool_policy_name v" for e
    using that by (metis imageI)
  with Cons show ?case by (auto simp: list_ex_iff image_Un)
qed simp

section \<open>Policies that say the same\<close>

definition same_policy :: "permission_policy \<Rightarrow> permission_policy \<Rightarrow> bool" where
  "same_policy p q \<longleftrightarrow>
     pp_allowed_tools p = pp_allowed_tools q \<and> pp_denied_tools p = pp_denied_tools q \<and>
     set (pp_allowed_paths p) = set (pp_allowed_paths q) \<and> set (pp_denied_paths p) = set (pp_denied_paths q) \<and>
     pp_command_mode p = pp_command_mode q"

lemma same_policy_mode: "same_policy p q \<Longrightarrow> is_read_only_command_mode p = is_read_only_command_mode q"
  by (simp add: same_policy_def is_read_only_command_mode_def)

lemma same_policy_paths:
  assumes "same_policy p q"
  shows "list_ex P (pp_allowed_paths p) = list_ex P (pp_allowed_paths q)"
    "list_ex P (pp_denied_paths p) = list_ex P (pp_denied_paths q)"
    "(pp_allowed_paths p = []) = (pp_allowed_paths q = [])"
proof -
  show "list_ex P (pp_allowed_paths p) = list_ex P (pp_allowed_paths q)"
    "list_ex P (pp_denied_paths p) = list_ex P (pp_denied_paths q)"
    using assms by (simp_all add: same_policy_def list_ex_iff)
  show "(pp_allowed_paths p = []) = (pp_allowed_paths q = [])"
    using assms by (auto simp: same_policy_def set_empty [symmetric] simp del: set_empty)
qed

lemma same_policy_decide:
  assumes "same_policy p q"
  shows "decide parse e r p profile = decide parse e r q profile"
proof (cases r)
  case (ToolInvocation name writes)
  then show ?thesis
    using assms same_policy_mode [OF assms] by (simp add: decide_def decide_tool_def same_policy_def)
next
  case (PathAccess x k)
  then show ?thesis
    by (simp add: decide_def decide_path_def same_policy_mode [OF assms] same_policy_paths [OF assms])
next
  case (ShellCommand x)
  then show ?thesis by (simp add: decide_def decide_shell_command_def same_policy_mode [OF assms])
next
  case (BrowserAction cl)
  then show ?thesis by (simp add: decide_def decide_browser_action_def same_policy_mode [OF assms])
qed

lemma same_policy_path:
  assumes "same_policy p q" "set explicit = set explicit'"
  shows "decide_tool_path_access p name r explicit profile = decide_tool_path_access q name r explicit' profile"
proof -
  have "same_policy (p\<lparr>pp_allowed_paths := []\<rparr>) (q\<lparr>pp_allowed_paths := []\<rparr>)"
    using assms(1) by (simp add: same_policy_def)
  then have "decide_path x k (p\<lparr>pp_allowed_paths := []\<rparr>) profile = decide_path x k (q\<lparr>pp_allowed_paths := []\<rparr>) profile"
    "decide_path x k p profile = decide_path x k q profile" for x k
    using same_policy_decide [of _ _ undefined undefined "PathAccess x k"] assms(1) by (simp_all add: decide_def)
  moreover have "uses_default_workspace_scope p explicit = uses_default_workspace_scope q explicit'"
    using same_policy_paths(3) [OF assms(1)] assms(2) by (simp add: uses_default_workspace_scope_def list_all_iff)
  ultimately show ?thesis
    using same_policy_paths [OF assms(1)] by (simp add: decide_tool_path_access_def Let_def)
qed

lemma set_normalized_names [simp]: "set (remdups_adj (sort xs)) = set (xs :: string list)"
  by simp

lemma set_policy_paths:
  "set xs = set ys \<Longrightarrow> set (normalize_tool_policy_paths ext canon xs root) = set (normalize_tool_policy_paths ext canon ys root)"
  by (simp add: normalize_tool_policy_paths_def List.map_filter_def Let_def)

lemma set_normalized_policy:
  "set (xp_allowed_paths (normalize_execution_policy p)) = set (xp_allowed_paths p)"
  "set (xp_denied_paths (normalize_execution_policy p)) = set (xp_denied_paths p)"
  "set (xp_read_only_paths (normalize_execution_policy p)) = set (xp_read_only_paths p)"
  "set (xp_denied_tool_names (normalize_execution_policy p)) = set (xp_denied_tool_names p)"
  "xp_command_mode (normalize_execution_policy p) = xp_command_mode p"
  "map_option set (xp_allowed_tool_names (normalize_execution_policy p)) = map_option set (xp_allowed_tool_names p)"
  by (simp_all add: normalize_execution_policy_def Let_def option.map_comp comp_def)

lemma effective_paths_set:
  assumes "set xs = set ys"
  shows "set (effective_tool_policy_allowed_paths ext canon profile xs root) =
     set (effective_tool_policy_allowed_paths ext canon profile ys root)"
proof -
  have "set (normalize_tool_policy_paths ext canon xs root) = set (normalize_tool_policy_paths ext canon ys root)"
    using assms by (rule set_policy_paths)
  then show ?thesis
    by (auto simp: effective_tool_policy_allowed_paths_def Let_def set_empty [symmetric] simp del: set_empty)
qed

text \<open>The two policies that the two checks make of a policy of a task.\<close>

lemma task_policy_profile:
  "execution_access_profile (apply_task_policy default_execution_policy t) = effective_access_profile t"
  "execution_access_profile (context_execution_policy t) = effective_access_profile t"
  by (simp_all add: execution_access_profile_def effective_access_profile_def apply_task_policy_def
      context_execution_policy_def default_execution_policy_def)

lemma same_execution_permissions:
  assumes "execution_access_profile p = execution_access_profile q"
    "set (xp_allowed_paths p) = set (xp_allowed_paths q)" "set (xp_denied_paths p) = set (xp_denied_paths q)"
    "xp_command_mode p = xp_command_mode q"
    "canonical_tool_policy_name ` set (xp_denied_tool_names p) = canonical_tool_policy_name ` set (xp_denied_tool_names q)"
    "map_option set (xp_allowed_tool_names p) = map_option set (xp_allowed_tool_names q)"
  shows "same_policy (execution_permission_policy w p c) (execution_permission_policy w q c)"
proof -
  have "list_all is_blank (xp_allowed_paths p) = list_all is_blank (xp_allowed_paths q)"
    using assms(2) by (simp add: list_all_iff)
  moreover have "canonical_tool_policy_name ` set (case xp_allowed_tool_names p of None \<Rightarrow> [] | Some ts \<Rightarrow> ts) =
      canonical_tool_policy_name ` set (case xp_allowed_tool_names q of None \<Rightarrow> [] | Some ts \<Rightarrow> ts)"
    using assms(6) by (cases "xp_allowed_tool_names p"; cases "xp_allowed_tool_names q") simp_all
  ultimately show ?thesis
    using assms(1,4,5) effective_paths_set [OF assms(2)] set_policy_paths [OF assms(3)]
    by (auto simp: same_policy_def execution_permission_policy_def Let_def)
qed

lemma registry_policy_same:
  "same_policy (execution_permission_policy w (normalize_execution_policy (apply_task_policy default_execution_policy t)) c)
     (execution_permission_policy w (context_execution_policy t) c)"
proof (rule same_execution_permissions)
  show "execution_access_profile (normalize_execution_policy (apply_task_policy default_execution_policy t)) =
      execution_access_profile (context_execution_policy t)"
    by (simp add: task_policy_profile execution_access_profile_def [of "normalize_execution_policy _"]
        normalize_execution_policy_def Let_def) (simp add: task_policy_profile [symmetric] execution_access_profile_def)
qed (simp_all add: set_normalized_policy, simp_all add: apply_task_policy_def context_execution_policy_def
      default_execution_policy_def extend_unique_names)

section \<open>Nothing passes that the registry would refuse\<close>

lemma no_preflight_decision:
  "select_access_profile_axis_decision pending ds = None \<longleftrightarrow> pending = None \<and> set ds \<subseteq> {None}"
  by (induction pending ds rule: select_access_profile_axis_decision.induct) auto

lemma no_decision_payload: "permission_decision_payload name d profile = None \<longleftrightarrow> d = Allow"
  by (simp add: permission_decision_payload_def split: permission_decision.split)

lemma cleared_path:
  assumes "preflight_path_axis w p name (Some c) read_only explicit profile r = None"
    "same_policy q p" "set read_only' = set read_only" "set explicit' = set explicit"
  shows "path_axis w q name c read_only' explicit' profile r = None"
proof -
  have "list_ex P read_only' = list_ex P read_only" for P using assms(3) by (simp add: list_ex_iff)
  with assms(1) same_policy_path [OF assms(2,4)] show ?thesis
    by (auto simp: preflight_path_axis_def path_axis_def no_decision_payload permission_decision_output_def
        split: if_split_asm sum.split_asm)
qed

lemma cleared_axes:
  assumes "access_profile_tool_decision w t requested arguments (tc_working_directory c) (Some c) = None"
    "ti_tool_name i = canonical_tool_policy_name requested" "ti_input i = arguments"
  shows "set (access_profile_axes w i c (apply_task_policy default_execution_policy t)) \<subseteq> {None}"
proof -
  let ?p = "normalize_execution_policy (apply_task_policy default_execution_policy t)"
  let ?q = "context_execution_policy t"
  let ?pp = "execution_permission_policy w ?p c"
  let ?qp = "execution_permission_policy w ?q c"
  let ?profile = "effective_access_profile t"
  have same: "same_policy ?pp ?qp" by (rule registry_policy_same)
  note decides = same_policy_decide [OF same]
  have trim: "str_trim (ti_tool_name i) = ti_tool_name i" using assms(2) by (simp add: canonical_name)
  have clear: "set (preflight_axes w t requested arguments (tc_working_directory c) (Some c)) \<subseteq> {None}"
    using assms(1) by (simp add: access_profile_tool_decision_def no_preflight_decision)
  have read_only: "set (normalize_tool_policy_paths (pw_ext w) (pw_canon w) (xp_read_only_paths ?p) (tc_working_directory c)) =
      set (normalize_tool_policy_paths (pw_ext w) (pw_canon w) (tp_read_only_paths t) (tc_working_directory c))"
    by (rule set_policy_paths) (simp add: set_normalized_policy apply_task_policy_def)
  have explicit: "set (xp_allowed_paths ?p) = set (tp_allowed_paths t)"
    by (simp add: set_normalized_policy apply_task_policy_def)
  have paths: "path_axis w ?pp (ti_tool_name i) c
      (normalize_tool_policy_paths (pw_ext w) (pw_canon w) (xp_read_only_paths ?p) (tc_working_directory c))
      (xp_allowed_paths ?p) ?profile r = None"
    if "r \<in> set (tool_path_access_requests w (ti_tool_name i) arguments (tc_working_directory c) ?profile)" for r
  proof (rule cleared_path [OF _ same read_only explicit])
    show "preflight_path_axis w ?qp (ti_tool_name i) (Some c)
        (normalize_tool_policy_paths (pw_ext w) (pw_canon w) (tp_read_only_paths t) (tc_working_directory c))
        (tp_allowed_paths t) ?profile r = None"
      using that clear assms(2) by (auto simp: preflight_axes_def Let_def image_subset_iff)
  qed
  have tool: "decide (pw_parse w) builtin_permission_engine
      (ToolInvocation (ti_tool_name i)
         (case builtin_tool_from_name (ti_tool_name i) of None \<Rightarrow> False | Some x \<Rightarrow> is_access_profile_write_operation x))
      ?pp ?profile = Allow"
    using clear assms(2) by (simp add: preflight_axes_def Let_def no_decision_payload decides)
  have shell: "decide (pw_parse w) builtin_permission_engine (ShellCommand arguments) ?pp ?profile = Allow"
    if "ti_tool_name i = builtin_tool_str ShellExec"
    using clear assms(2) that by (simp add: preflight_axes_def Let_def no_decision_payload decides)
  show ?thesis
    using tool shell paths
    by (auto simp: access_profile_axes_def Let_def task_policy_profile trim assms(3) permission_output_None)
qed

text \<open>C20: A call of a task that the check before the registry lets pass, in the context in which it
  is executed, is refused by no axis of the registry under the policy of the task, is no call that
  the safety gate blocks, and one for which the gate wants an approval only with full access; and a
  task whose stage forbids tools passes none.\<close>

theorem cleared_calls_pass_the_registry:
  assumes "policy_tool_preflight_decision uc w (Some t) (Some rules) requested arguments (tc_working_directory c) (Some c) = None"
    "ti_tool_name i = canonical_tool_policy_name requested" "ti_input i = arguments"
  shows "enforce_access_profile_policy w i c (apply_task_policy default_execution_policy t) = None \<and>
    \<not> eq_ignore_case (tp_command_mode t) ''no_tools'' \<and>
    (case evaluate_call uc (pw_parse w) rules (ti_tool_name i) arguments of
       HardBlocked _ _ \<Rightarrow> False
     | ApprovalInRestricted _ _ \<Rightarrow> effective_access_profile t = FullAccess
     | _ \<Rightarrow> True)"
proof -
  from assms(1) have policy: "policy_tool_decision w t requested arguments (tc_working_directory c) (Some c) = None"
    and gate: "safety_gate_tool_decision uc (pw_parse w) rules (effective_access_profile t) requested arguments = None"
    by (auto simp: policy_tool_preflight_decision_def select_preflight_decision_def split: option.split_asm if_split_asm)
  from policy have "access_profile_tool_decision w t requested arguments (tc_working_directory c) (Some c) = None"
    and mode: "\<not> eq_ignore_case (tp_command_mode t) ''no_tools''"
    by (auto simp: policy_tool_decision_def split: if_split_asm)
  from cleared_axes [OF this(1) assms(2,3)]
  have "enforce_access_profile_policy w i c (apply_task_policy default_execution_policy t) = None"
    by (simp add: enforce_access_profile_policy_def no_axis_output)
  moreover have "case evaluate_call uc (pw_parse w) rules (ti_tool_name i) arguments of
       HardBlocked _ _ \<Rightarrow> False
     | ApprovalInRestricted _ _ \<Rightarrow> effective_access_profile t = FullAccess
     | _ \<Rightarrow> True"
    using gate by (auto simp: safety_gate_tool_decision_def Let_def assms(2)
        split: safety_decision.split_asm access_profile.split_asm)
  ultimately show ?thesis using mode by simp
qed

definition gate_task_policy :: task_policy where
  "gate_task_policy =
     \<lparr>tp_autonomy_level = [], tp_access_profile = Restricted, tp_allowed_tools = [], tp_denied_tools = [],
      tp_allowed_paths = [], tp_denied_paths = [], tp_read_only_paths = [''.git''], tp_network_mode = [],
      tp_command_mode = [], tp_retry_limit = 0, tp_validation_profile = None, tp_checkpoint_mode = [],
      tp_task_tier = ExecutionChain, tp_background_allowed = False, tp_escalation_conditions = []\<rparr>"

lemma gate_preflight_clear:
  "policy_tool_preflight_decision ascii_unicode gate_world (Some gate_task_policy) (Some builtin_rules) ''file_write'' ''a''
     (tc_working_directory (gate_context ''s'')) (Some (gate_context ''s'')) = None"
proof -
  have profile: "effective_access_profile gate_task_policy = Restricted" by code_simp
  have mode: "\<not> eq_ignore_case (tp_command_mode gate_task_policy) ''no_tools''" by code_simp
  have ctx: "context_execution_policy gate_task_policy = gate_policy"
    by (simp add: context_execution_policy_def gate_task_policy_def gate_policy_def default_execution_policy_def)
  have name: "canonical_tool_policy_name ''file_write'' = ''file_write''" by (simp add: canonical_name file_write_name)
  have browser: "browser_class_of parse ''file_write'' arguments = None" for parse arguments
    by (simp add: browser_class_of_def)
  have lists: "tp_allowed_paths gate_task_policy = []" "tp_read_only_paths gate_task_policy = [''.git'']"
    by (simp_all add: gate_task_policy_def)
  have "''/w/a.txt'' \<in> set gate_targets" by (simp add: gate_targets_def)
  note target = gate_decisions(2,3) [OF this]
  have "set (preflight_axes gate_world gate_task_policy ''file_write'' ''a'' (Some ''/w'') (Some (gate_context ''s''))) \<subseteq> {None}"
    using target(2)
    by (simp add: preflight_axes_def Let_def name ctx browser lists profile file_write_name file_write_facts
        gate_permissions gate_read_only gate_requests gate_decisions(1) target(1) permission_decision_payload_def
        preflight_path_axis_def references_retired_project_root_def gate_context_fields)
  then have "policy_tool_decision gate_world gate_task_policy ''file_write'' ''a'' (Some ''/w'') (Some (gate_context ''s'')) = None"
    by (simp add: policy_tool_decision_def mode access_profile_tool_decision_def no_preflight_decision)
  moreover have "evaluate_call ascii_unicode (pw_parse gate_world) builtin_rules ''file_write'' ''a'' = SafetyAllow" by code_simp
  then have "safety_gate_tool_decision ascii_unicode (pw_parse gate_world) builtin_rules Restricted ''file_write'' ''a'' = None"
    by (simp add: safety_gate_tool_decision_def name)
  ultimately show ?thesis
    by (simp add: policy_tool_preflight_decision_def profile gate_context_fields select_preflight_decision_def)
qed

theorem cleared_calls_pass_the_registry_witness:
  "enforce_access_profile_policy gate_world (gate_input ''1'' ''a'') (gate_context ''s'')
     (apply_task_policy default_execution_policy gate_task_policy) = None"
proof -
  have "ti_tool_name (gate_input ''1'' ''a'') = canonical_tool_policy_name ''file_write''" "ti_input (gate_input ''1'' ''a'') = ''a''"
    by (simp_all add: gate_input_value canonical_name file_write_name)
  from cleared_calls_pass_the_registry [OF gate_preflight_clear this] show ?thesis by simp
qed

section \<open>A rejection of the safety gate\<close>

text \<open>\<open>non_retryable_tool_failure\<close>: the rejections that a task may have three times.\<close>

definition non_retryable_tool_failure :: "preflight_decision \<Rightarrow> bool" where
  "non_retryable_tool_failure d \<longleftrightarrow>
     pd_status d = ExecRejected \<and> \<not> pf_retryable (pd_payload d) \<and>
     pf_error_code (pd_payload d) \<notin> {''tool_approval_denied'', ''tool_approval_expired''}"

lemma policy_rejections_counted:
  "non_retryable_tool_failure (task_policy_decision_payload tool ExecRejected reason profile)"
  by (simp add: non_retryable_tool_failure_def task_policy_decision_payload_def Let_def)

text \<open>Its instruction says not to repeat the call, its flag that the call may be repeated.\<close>

lemma safety_rejections_not_counted:
  "pf_instruction (pd_payload (safety_gate_decision_payload tool ExecRejected reason)) = UseSafeAlternative \<and>
   \<not> non_retryable_tool_failure (safety_gate_decision_payload tool ExecRejected reason)"
  by (simp add: non_retryable_tool_failure_def safety_gate_decision_payload_def)

end
