(* ===== verification/WorkerFlush.thy ===== *)
theory WorkerFlush
  imports WorkerRuntime "HOL-Library.Multiset"
begin

text \<open>
  The branch checkpoints of \<open>WorkerRuntime\<close> on the disk: writing and reading them back, and a
  flush that runs while workers record checkpoints.

  The insertion of a checkpoint and the rise of the version are two steps, and so are the reading
  of the version, the copy of the map, the writing and the note of the version written; between
  any two of them another thread may take its steps.  One flush runs at a time (the daemon calls
  it from one loop).  The version counter is taken to stay below its maximum.
\<close>

section \<open>Round trip\<close>

definition branches_wf :: "worker_runtime \<Rightarrow> bool" where
  "branches_wf r \<longleftrightarrow>
     hdistinct (wr_branch_snapshots r) \<and>
     (\<forall>k b. hget (wr_branch_snapshots r) k = Some b \<longrightarrow> wb_task_id b = k)"

definition snapshot_wf :: "worker_runtime_durable_snapshot \<Rightarrow> bool" where
  "snapshot_wf s \<longleftrightarrow> sorted (map branch_sort_key s) \<and> distinct (map wb_task_id s)"

lemma branches_wf_insert: "branches_wf r \<Longrightarrow> branches_wf (record_branch_insert tid wid stage st r)"
  by (auto simp: branches_wf_def record_branch_insert_def merge_branch_checkpoint_def)

lemma branches_ids:
  assumes "branches_wf r"
  shows "map wb_task_id (hvalues (wr_branch_snapshots r)) = hkeys (wr_branch_snapshots r)"
proof -
  have "wb_task_id b = k" if "(k, b) \<in> set (wr_branch_snapshots r)" for k b
    using assms that by (simp add: branches_wf_def hdistinct_def)
  then show ?thesis by (auto simp: hvalues_def hkeys_def)
qed

lemma durable_snapshot_wf: "branches_wf r \<Longrightarrow> snapshot_wf (durable_snapshot r)"
proof -
  assume wf: "branches_wf r"
  have "distinct (map wb_task_id (hvalues (wr_branch_snapshots r)))"
    using wf by (simp add: branches_ids branches_wf_def hdistinct_def hkeys_def)
  then have "distinct (map wb_task_id (durable_snapshot r))"
    by (simp add: durable_snapshot_def distinct_map)
  then show ?thesis by (simp add: snapshot_wf_def durable_snapshot_def)
qed

lemma update_new: "k \<notin> fst ` set m \<Longrightarrow> hput k v m = m @ [(k, v)]"
  by (induction m) auto

lemma restored_map:
  assumes "distinct (map wb_task_id s)" "wb_task_id ` set s \<inter> fst ` set m = {}"
  shows "fold (\<lambda>b. hput (wb_task_id b) b) s m = m @ map (\<lambda>b. (wb_task_id b, b)) s"
  using assms
proof (induction s arbitrary: m)
  case (Cons b s)
  have "hput (wb_task_id b) b m = m @ [(wb_task_id b, b)]" using Cons.prems by (intro update_new) auto
  moreover have "fold (\<lambda>b. hput (wb_task_id b) b) s (m @ [(wb_task_id b, b)]) =
      (m @ [(wb_task_id b, b)]) @ map (\<lambda>b. (wb_task_id b, b)) s"
    using Cons.prems by (intro Cons.IH) auto
  ultimately show ?case by simp
qed simp

lemma restored_branches:
  "snapshot_wf s \<Longrightarrow> wr_branch_snapshots (restore_durable_snapshot s r) = map (\<lambda>b. (wb_task_id b, b)) s"
  by (simp add: snapshot_wf_def restore_durable_snapshot_def restored_map)

lemma restored_snapshot: "snapshot_wf s \<Longrightarrow> durable_snapshot (restore_durable_snapshot s r) = s"
  by (auto simp: durable_snapshot_def restored_branches hvalues_def comp_def snapshot_wf_def
      intro: properties_for_sort_key)

lemma restored_wf: "snapshot_wf s \<Longrightarrow> branches_wf (restore_durable_snapshot s r)"
  by (auto simp: branches_wf_def restored_branches hdistinct_def comp_def snapshot_wf_def dest: map_of_SomeD)

lemma restored_lookup:
  assumes "branches_wf r"
  shows "branch_snapshot_for_task (restore_durable_snapshot (durable_snapshot r) r') tid = branch_snapshot_for_task r tid"
proof -
  have wf: "snapshot_wf (durable_snapshot r)" using assms by (rule durable_snapshot_wf)
  have "set (map (\<lambda>b. (wb_task_id b, b)) (durable_snapshot r)) = set (wr_branch_snapshots r)"
    using assms by (force simp: durable_snapshot_def hvalues_def branches_wf_def hdistinct_def)
  moreover have "distinct (map fst (map (\<lambda>b. (wb_task_id b, b)) (durable_snapshot r)))"
    using wf by (simp add: snapshot_wf_def comp_def)
  moreover have "distinct (map fst (wr_branch_snapshots r))" using assms by (simp add: branches_wf_def hdistinct_def)
  ultimately have "map_of (map (\<lambda>b. (wb_task_id b, b)) (durable_snapshot r)) = map_of (wr_branch_snapshots r)"
    by (metis map_of_inject_set)
  then show ?thesis by (simp add: branch_snapshot_for_task_def restored_branches [OF wf])
qed

section \<open>A flush among recording workers\<close>

datatype flush_phase =
    FlushIdle
  | VersionRead u64
  | SnapshotCopied u64 worker_runtime_durable_snapshot
  | SnapshotWritten u64

record flush_state =
  fl_runtime :: worker_runtime
  fl_pending :: nat
  fl_phase :: flush_phase
  fl_disk :: worker_runtime_durable_snapshot

definition flush_init :: "flush_state \<Rightarrow> bool" where
  "flush_init x \<longleftrightarrow>
     snapshot_wf (fl_disk x) \<and> fl_runtime x = restore_durable_snapshot (fl_disk x) worker_runtime_new \<and>
     fl_pending x = 0 \<and> fl_phase x = FlushIdle"

definition note_flushed :: "u64 \<Rightarrow> worker_runtime \<Rightarrow> worker_runtime" where
  "note_flushed v r = r\<lparr>wr_flushed_version := v\<rparr>"

inductive flush_step :: "flush_state \<Rightarrow> flush_state \<Rightarrow> bool" where
  step_insert:
    "flush_step x (x\<lparr>fl_runtime := record_branch_insert tid wid stage st (fl_runtime x), fl_pending := Suc (fl_pending x)\<rparr>)"
| step_raise:
    "fl_pending x = Suc n \<Longrightarrow> wr_durable_version (fl_runtime x) < - 1 \<Longrightarrow>
     flush_step x (x\<lparr>fl_runtime := raise_durable_version (fl_runtime x), fl_pending := n\<rparr>)"
| step_begin:
    "fl_phase x = FlushIdle \<Longrightarrow> durable_snapshot_dirty (fl_runtime x) \<Longrightarrow>
     flush_step x (x\<lparr>fl_phase := VersionRead (wr_durable_version (fl_runtime x))\<rparr>)"
| step_copy:
    "fl_phase x = VersionRead v \<Longrightarrow>
     flush_step x (x\<lparr>fl_phase := SnapshotCopied v (durable_snapshot (fl_runtime x))\<rparr>)"
| step_write:
    "fl_phase x = SnapshotCopied v s \<Longrightarrow> flush_step x (x\<lparr>fl_disk := s, fl_phase := SnapshotWritten v\<rparr>)"
| step_write_fails:
    "fl_phase x = SnapshotCopied v s \<Longrightarrow> flush_step x (x\<lparr>fl_phase := FlushIdle\<rparr>)"
| step_note:
    "fl_phase x = SnapshotWritten v \<Longrightarrow>
     flush_step x (x\<lparr>fl_runtime := note_flushed v (fl_runtime x), fl_phase := FlushIdle\<rparr>)"

text \<open>Without other steps between them, the steps are the operations of \<open>WorkerRuntime\<close>.\<close>

lemma record_in_steps:
  "snd (record_branch_checkpoint tid wid stage st r) = raise_durable_version (record_branch_insert tid wid stage st r)"
  by (simp add: record_branch_checkpoint_def)

lemma flush_in_steps:
  "durable_snapshot_dirty r \<Longrightarrow> persist (durable_snapshot r) = Inr () \<Longrightarrow>
     flush_durable_snapshot_with persist r = (Inr True, note_flushed (wr_durable_version r) r)"
  by (simp add: flush_durable_snapshot_with_def durable_snapshot_dirty_def note_flushed_def)

text \<open>What is on the disk, or is about to be written, misses only what has raised the version since,
  or will raise it.\<close>

definition covered :: "flush_state \<Rightarrow> u64 \<Rightarrow> worker_runtime_durable_snapshot \<Rightarrow> bool" where
  "covered x v s \<longleftrightarrow>
     (wr_durable_version (fl_runtime x) = v \<and> fl_pending x = 0 \<longrightarrow> s = durable_snapshot (fl_runtime x))"

definition flush_inv :: "flush_state \<Rightarrow> bool" where
  "flush_inv x \<longleftrightarrow>
     branches_wf (fl_runtime x) \<and>
     (let version = wr_durable_version (fl_runtime x); flushed = wr_flushed_version (fl_runtime x)
      in flushed \<le> version \<and> covered x flushed (fl_disk x) \<and>
         (case fl_phase x of
            FlushIdle \<Rightarrow> True
          | VersionRead v \<Rightarrow> flushed < v \<and> v \<le> version
          | SnapshotCopied v s \<Rightarrow> flushed < v \<and> v \<le> version \<and> covered x v s
          | SnapshotWritten v \<Rightarrow> flushed < v \<and> v \<le> version \<and> covered x v (fl_disk x)))"

lemma durable_snapshot_versions [simp]:
  "durable_snapshot (raise_durable_version r) = durable_snapshot r"
  "durable_snapshot (note_flushed v r) = durable_snapshot r"
  by (simp_all add: durable_snapshot_def raise_durable_version_def note_flushed_def)

lemma branches_wf_versions [simp]:
  "branches_wf (raise_durable_version r) = branches_wf r" "branches_wf (note_flushed v r) = branches_wf r"
  by (simp_all add: branches_wf_def raise_durable_version_def note_flushed_def)

lemma runtime_versions [simp]:
  "wr_durable_version (record_branch_insert tid wid stage st r) = wr_durable_version r"
  "wr_flushed_version (record_branch_insert tid wid stage st r) = wr_flushed_version r"
  "wr_durable_version (note_flushed v r) = wr_durable_version r" "wr_flushed_version (note_flushed v r) = v"
  "wr_durable_version (raise_durable_version r) = wr_durable_version r + 1"
  "wr_flushed_version (raise_durable_version r) = wr_flushed_version r"
  by (simp_all add: record_branch_insert_def note_flushed_def raise_durable_version_def)

lemma raised_above:
  fixes v w :: u64
  assumes "w < - 1" "v \<le> w"
  shows "v < w + 1" "v \<le> w + 1" "w + 1 \<noteq> v"
proof -
  have "uint w < uint (- 1 :: u64)" using assms(1) by (simp only: word_less_def)
  then have "uint w + 1 < 2 ^ 64" by (simp add: uint_word_ariths)
  then have "uint (w + 1) = uint w + 1" by (simp add: uint_word_ariths mod_pos_pos_trivial)
  with assms(2) show "v < w + 1" by (simp add: word_less_def word_le_def)
  then show "v \<le> w + 1" "w + 1 \<noteq> v" by auto
qed

lemma flush_inv_init:
  assumes "flush_init x"
  shows "flush_inv x"
proof -
  from assms have disk: "snapshot_wf (fl_disk x)"
    and r: "fl_runtime x = restore_durable_snapshot (fl_disk x) worker_runtime_new" and idle: "fl_phase x = FlushIdle"
    by (simp_all add: flush_init_def)
  have "wr_flushed_version (fl_runtime x) = wr_durable_version (fl_runtime x)"
    by (simp add: r restore_durable_snapshot_def)
  with disk idle show ?thesis
    by (simp add: flush_inv_def covered_def r restored_wf restored_snapshot)
qed

lemma flush_inv_step:
  assumes "flush_inv x" "flush_step x y"
  shows "flush_inv y"
  using assms(2,1)
proof cases
  case (step_insert tid wid stage st)
  with assms(1) show ?thesis
    by (auto simp: flush_inv_def covered_def branches_wf_insert Let_def split: flush_phase.split)
next
  case (step_raise n)
  let ?r = "fl_runtime x"
  note above = raised_above [OF step_raise(3)]
  have "wr_flushed_version ?r \<le> wr_durable_version ?r" using assms(1) by (simp add: flush_inv_def Let_def)
  then have "covered y v s" if "v \<le> wr_durable_version ?r" for v s
    using step_raise(1) above(3) [OF that] by (simp add: covered_def)
  with assms(1) step_raise(1) above(2) show ?thesis
    by (auto simp: flush_inv_def Let_def split: flush_phase.split_asm flush_phase.split)
next
  case step_begin
  with assms(1) show ?thesis
    by (auto simp: flush_inv_def covered_def Let_def durable_snapshot_dirty_def)
next
  case (step_copy v)
  with assms(1) show ?thesis by (auto simp: flush_inv_def covered_def Let_def)
next
  case (step_write v s)
  with assms(1) show ?thesis by (auto simp: flush_inv_def covered_def Let_def)
next
  case (step_write_fails v s)
  with assms(1) show ?thesis by (auto simp: flush_inv_def covered_def Let_def)
next
  case (step_note v)
  with assms(1) show ?thesis by (auto simp: flush_inv_def covered_def Let_def)
qed

interpretation flushes: invariant_system flush_init flush_step flush_inv
  by unfold_locales (blast intro: flush_inv_init flush_inv_step)+

text \<open>C14: However workers record checkpoints while flushes run, fail and succeed, whenever no flush
  runs, no recorded checkpoint waits for its version, and the versions say that nothing is left to
  write, the file on the disk restores, after a restart, the checkpoint of every branch.\<close>

theorem clean_store_is_on_disk:
  assumes "reach flush_init flush_step x" "fl_phase x = FlushIdle" "fl_pending x = 0"
    "\<not> durable_snapshot_dirty (fl_runtime x)"
  shows "branch_snapshot_for_task (restore_durable_snapshot (fl_disk x) worker_runtime_new) tid =
     branch_snapshot_for_task (fl_runtime x) tid"
proof -
  have inv: "flush_inv x" using flushes.reach_inv assms(1) .
  then have "fl_disk x = durable_snapshot (fl_runtime x)"
    using assms(3,4) by (simp add: flush_inv_def covered_def Let_def durable_snapshot_dirty_def)
  with inv show ?thesis by (simp add: flush_inv_def restored_lookup)
qed

definition demo_checkpoint :: worker_branch_checkpoint_state where
  "demo_checkpoint =
     \<lparr>ws_lease_id = Some ''l'', ws_execution_intent_ref = None, ws_binding_lifecycle = None, ws_checkpoint_cursor = None\<rparr>"

definition demo_flush :: "worker_runtime \<Rightarrow> nat \<Rightarrow> flush_phase \<Rightarrow> worker_runtime_durable_snapshot \<Rightarrow> flush_state" where
  "demo_flush r n phase disk = \<lparr>fl_runtime = r, fl_pending = n, fl_phase = phase, fl_disk = disk\<rparr>"

definition demo_recorded :: worker_runtime where
  "demo_recorded = record_branch_insert (TaskId ''t'') (WorkerId ''w'') StageExecute demo_checkpoint worker_runtime_new"

lemma demo_flushed:
  "reach flush_init flush_step
     (demo_flush (note_flushed 1 (raise_durable_version demo_recorded)) 0 FlushIdle (durable_snapshot demo_recorded))"
proof -
  let ?r = "raise_durable_version demo_recorded"
  let ?s = "durable_snapshot demo_recorded"
  have version: "wr_durable_version ?r = 1" "wr_flushed_version ?r = 0" "wr_durable_version demo_recorded = 0"
    by (simp_all add: demo_recorded_def worker_runtime_new_def)
  have "reach flush_init flush_step (demo_flush worker_runtime_new 0 FlushIdle [])"
    by (rule reach_init)
      (simp add: flush_init_def demo_flush_def snapshot_wf_def restore_durable_snapshot_def worker_runtime_new_def)
  moreover have "flush_step (demo_flush worker_runtime_new 0 FlushIdle []) (demo_flush demo_recorded 1 FlushIdle [])"
    using step_insert [of "demo_flush worker_runtime_new 0 FlushIdle []"] by (simp add: demo_flush_def demo_recorded_def)
  moreover have "flush_step (demo_flush demo_recorded 1 FlushIdle []) (demo_flush ?r 0 FlushIdle [])"
    using step_raise [of "demo_flush demo_recorded 1 FlushIdle []" 0] version by (simp add: demo_flush_def word_gt_0)
  moreover have "flush_step (demo_flush ?r 0 FlushIdle []) (demo_flush ?r 0 (VersionRead 1) [])"
    using step_begin [of "demo_flush ?r 0 FlushIdle []"] version by (simp add: demo_flush_def durable_snapshot_dirty_def)
  moreover have "flush_step (demo_flush ?r 0 (VersionRead 1) []) (demo_flush ?r 0 (SnapshotCopied 1 ?s) [])"
    using step_copy [of "demo_flush ?r 0 (VersionRead 1) []" 1] by (simp add: demo_flush_def)
  moreover have "flush_step (demo_flush ?r 0 (SnapshotCopied 1 ?s) []) (demo_flush ?r 0 (SnapshotWritten 1) ?s)"
    using step_write [of "demo_flush ?r 0 (SnapshotCopied 1 ?s) []" 1 ?s] by (simp add: demo_flush_def)
  moreover have "flush_step (demo_flush ?r 0 (SnapshotWritten 1) ?s) (demo_flush (note_flushed 1 ?r) 0 FlushIdle ?s)"
    using step_note [of "demo_flush ?r 0 (SnapshotWritten 1) ?s" 1] by (simp add: demo_flush_def)
  ultimately show ?thesis by (meson reach_step)
qed

theorem clean_store_is_on_disk_witness:
  "branch_snapshot_for_task (restore_durable_snapshot (durable_snapshot demo_recorded) worker_runtime_new) (TaskId ''t'') =
     branch_snapshot_for_task (note_flushed 1 (raise_durable_version demo_recorded)) (TaskId ''t'')"
  using clean_store_is_on_disk [OF demo_flushed, of "TaskId ''t''"]
  by (simp add: demo_flush_def durable_snapshot_dirty_def demo_recorded_def worker_runtime_new_def)

end
