(* ===== verification/Spec2Isabelle.thy ===== *)
theory Spec2Isabelle
  imports LifecycleSpec SubtreeTermination TaskFailureText PlanProperties SessionLoad BusProperties McpGate PermissionEngine SafetyProperties PatchProperties PatchRoundtrip ToolPreflight WorkerFlush
begin

text \<open>
  \<^bold>\<open>Magi: a verification development for the cores of an agent runtime.\<close>

  Magi runs missions of coding agents.  Its Rust crates (\<open>src/crates\<close>) keep a tree of tasks, lease
  tasks to workers, keep a goal and a plan per session, decide which tool calls may run and run
  them, host plugins behind an extension bus, and serve other programs over MCP.  The theories here
  model the parts of these crates that decide, and prove what makes the decisions right.  Each
  theory opens with what it holds; each definition carries the name of the function or type it
  translates.  This text says how the parts fit together.

  \<^bold>\<open>Conventions.\<close>  A \<open>struct\<close> is a \<open>record\<close>, an \<open>enum\<close> a \<open>datatype\<close>, a \<open>Result\<close> a sum with the
  error on the left.  A function that changes state takes the state and gives the new one; a
  function that takes a lock once is one step, one that releases it in between is several.  A
  \<open>HashMap\<close> is an association list with distinct keys (theory \<open>Prelude\<close>), whose order stands for
  the unknown iteration order; a \<open>String\<close> is the list of its UTF-8 bytes, cut into characters where
  the code does so.  \<open>u32\<close> and \<open>u64\<close> are words, with saturating, checked or wrapping operations as
  in the code.  The texts of messages are constructors with the values that the text shows.  The
  loops are structural recursions or functions with a measure, so every function is total; the
  traversals of the task graph are bounded by the number of tasks not yet visited.  The only bound
  put into a loop is the source's own: nested scripts in shell commands are followed to depth four,
  and counted as writing below it.

  \<^bold>\<open>Tasks\<close> (\<open>magi-core/src/task.rs\<close>, \<open>magi-orchestrator/src/task_store.rs\<close>).  \<open>Domain\<close> and
  \<open>TaskModel\<close> have the data, the statuses, the contracts and their evidence; \<open>TaskFailureText\<close>
  what a user sees of a failure.  \<open>TaskGraph\<close> has the read-only walks over the tree, \<open>TaskStore\<close>
  the store with its commit protocol, \<open>TaskLease\<close> the leases and the ends of subtrees,
  \<open>TaskRestore\<close> snapshots, projections and \<open>restore_checked\<close>.  \<open>StoreInvariant\<close> defines what a
  well-formed store is (a leased task is active and has one active lease, activations belong to
  their tasks, and so on); \<open>TaskLifecycle\<close> and \<open>LeaseLifecycle\<close> prove that every operation keeps it
  and moves tasks only along the edges of the life cycle; \<open>StoreMachine\<close> puts the operations
  together to a transition system, and \<open>LifecycleSpec\<close> gives the abstract machine it refines and
  the properties of all reachable stores.  \<open>TaskTree\<close> shows the walks equal to the reachability
  they mean, \<open>ExecutionScope\<close> that the scopes of runners partition a tree, \<open>LeaseProtocol\<close> that
  claims are exclusive (locale \<open>exclusive_claims\<close>), \<open>SubtreeTermination\<close> what ending a subtree and
  a restart leave behind.  \<open>Scenario\<close> has the concrete store of the examples.  \<open>WorkerRuntime\<close> has
  the branch checkpoints (\<open>magi-worker-runtime\<close>); \<open>WorkerFlush\<close> takes the flush apart into its
  steps, interleaves them with recording workers, and shows that a clean store is on the disk.

  \<^bold>\<open>Goals and plans\<close> (\<open>magi-session-store/src/store\<close>, \<open>magi-plan\<close>).  \<open>SessionModel\<close> has the
  data, on the lists of \<open>KeyedList\<close>; \<open>SessionGoals\<close>, \<open>GoalOperations\<close> and \<open>GoalTransitions\<close> the
  operations on goals, \<open>SessionPlans\<close> and \<open>PlanProtocol\<close> those on plans, with the snapshot each one
  reads and the state it writes.  \<open>GoalPlanSpec\<close> is the abstract machine of a session, a pair of
  goal and plan; \<open>SessionShape\<close>, \<open>GoalRefinement\<close>, \<open>PlanRefinement\<close>, \<open>PlanContent\<close> and
  \<open>SessionReload\<close> show that every operation is a move of it, \<open>SessionMachine\<close> puts them together
  for interleaved sessions, and \<open>GoalProperties\<close>, \<open>GoalFailures\<close>, \<open>OptimisticLock\<close> (a locale
  with two interpretations), \<open>PlanProperties\<close> and \<open>SessionLoad\<close> state what follows.
  \<open>SessionScenario\<close> has the examples.

  \<^bold>\<open>Tool calls\<close> pass two gates.  Before the registry, \<open>ToolPreflight\<close>
  (\<open>magi-conversation-runtime/src/tool_batch.rs\<close>) asks the policy of the task and the safety gate and
  takes the stronger answer.  In the registry (\<open>magi-tool-runtime\<close>), \<open>ToolExecution\<close> has the axes
  of the policy and \<open>ToolRegistry\<close> the order of the checks, the claims of writing calls, and the
  start and the end of a call.  Below them: \<open>CommandScan\<close> tells whether a shell command may write,
  \<open>PermissionEngine\<close> decides on tools, paths, shell commands and browser actions
  (\<open>magi-permissions\<close>), \<open>SafetyGate\<close> matches rules with commands (\<open>magi-safety-gate\<close>),
  \<open>Governance\<close> judges risk (\<open>magi-governance\<close>), \<open>ToolNames\<close> is the catalogue of the built-in
  tools, \<open>ToolPaths\<close>, \<open>ShellPaths\<close> and \<open>ToolRequests\<close> give the paths that a call touches, and
  \<open>ProjectDirectories\<close> maps the source directories of a project to those in which it is executed
  (\<open>magi-core/src/project.rs\<close>).  \<open>CommandLines\<close> and \<open>SafetyProperties\<close> show that no command of a
  line hides another one; \<open>ToolGateSpec\<close> that conflicting writing calls exclude each other and that
  an admitted call passed every axis; \<open>ToolPreflight\<close> that its answers cover those of the registry.
  Of the tools, \<open>apply_patch\<close> is modelled in full: \<open>PatchFormat\<close> parses, \<open>PatchApply\<close> stages, writes
  and rolls back, \<open>PatchProperties\<close> shows that an applied patch is its operations in sequence and a
  failed one leaves the files as they were, \<open>PatchRoundtrip\<close> that every plan can be written down.

  \<^bold>\<open>Plugins\<close> (\<open>magi-extension-host\<close>).  \<open>HookProtocol\<close> has the messages and the catalogue of hooks,
  \<open>Breaker\<close> the circuit breaker and \<open>Supervisor\<close> the restarts after crashes, both over the locale of
  \<open>SlidingWindow\<close>, \<open>ExtensionBus\<close> the dispatch with its budgets, queues and traces, and
  \<open>BusProperties\<close> what it promises: guards fail closed, traces explain results, data stays typed.

  \<^bold>\<open>MCP server\<close> (\<open>magi-mcp-server\<close>).  \<open>RateLimit\<close>, \<open>McpTokens\<close>, \<open>OAuthStore\<close> and \<open>McpGate\<close>
  have the limiter, the tokens, the delegations and the gate over HTTP; \<open>OAuthProperties\<close> runs the
  delegation protocol with a ghost state of all secrets given out.

  \<^bold>\<open>Interfaces.\<close>  \<open>invariant_system\<close> (theory \<open>Prelude\<close>) is the contract of a transition system with
  an invariant; it is interpreted for the task store, the registry of tools and the flush of
  checkpoints.  \<open>exclusive_claims\<close>, \<open>optimistic_lock\<close> and \<open>sliding_window\<close> are the contracts of
  leases, revisions and windows of events, each interpreted on the model of the code.

  \<^bold>\<open>Parameters.\<close>  What is outside is an argument: the parser and the printer of JSON, digests and the
  random source, base64, the tables of Unicode, clocks, the answers of plugin hosts, and of the file
  system \<open>canonicalize\<close>, the texts of files and which operations fail.  Assumptions on them stand in
  the theorems: fresh secrets that do not collide, files whose names denote what they denoted, call
  ids that differ while calls run.

  \<^bold>\<open>Not modelled.\<close>  The model conversation loop, the dispatcher and the runners (asynchronous code
  whose course is the answers of a model); HTTP routes, the daemon, the bridge clients, the desktop
  shell and the web client (wiring, I/O and wire formats); the bodies of the other tools, which call
  the operating system, git, a browser or the network; the formats and the atomic replacement of
  files on the disk; the stores of knowledge, memory, usage, workspaces and snapshots, the event
  bus, session isolation and skills (files and projections, not reached); Windows paths;
  permissions and links of files; poisoned locks and the memory order of relaxed atomics, which are
  read as if sequentially consistent.
\<close>

end
